(* ===== verification/Prelude.thy ===== *)
theory Prelude
  imports Main
begin

text \<open>
  Shared vocabulary of the development.

  Python code that runs to completion is a pure function.  Python code with effects is a
  program \<open>('s, 'a, 'e) prog\<close>: it takes the state and returns an outcome together with the
  new state, so the mutations made before an exception stay made, as they do in Python.
  \<open>raise_exn\<close>, \<open>try_except\<close>, \<open>try_finally\<close> are the three exception forms of the source.

  Strings are HOL strings whose characters stand for the code points 0 to 255; \<open>str_lower\<close>,
  \<open>str_strip\<close>, \<open>is_space\<close> and \<open>utf8_size\<close> are Python's on that range.
\<close>

named_theorems prog_simps \<open>unfolding of the program combinators\<close>
named_theorems keeps_intros \<open>compositional rules for state predicates kept by a program\<close>

section \<open>Programs with state and exceptions\<close>

type_synonym ('s, 'a, 'e) prog = "'s \<Rightarrow> ('e + 'a) \<times> 's"

definition ret :: "'a \<Rightarrow> ('s, 'a, 'e) prog" where
  "ret x = (\<lambda>s. (Inr x, s))"

definition raise_exn :: "'e \<Rightarrow> ('s, 'a, 'e) prog" where
  "raise_exn e = (\<lambda>s. (Inl e, s))"

definition seq :: "('s, 'a, 'e) prog \<Rightarrow> ('a \<Rightarrow> ('s, 'b, 'e) prog) \<Rightarrow> ('s, 'b, 'e) prog" where
  "seq m f = (\<lambda>s. case m s of (Inl e, s') \<Rightarrow> (Inl e, s') | (Inr x, s') \<Rightarrow> f x s')"

definition skip_then :: "('s, 'a, 'e) prog \<Rightarrow> ('s, 'b, 'e) prog \<Rightarrow> ('s, 'b, 'e) prog" where
  "skip_then m n = seq m (\<lambda>_. n)"

definition modify :: "('s \<Rightarrow> 's) \<Rightarrow> ('s, unit, 'e) prog" where
  "modify f = (\<lambda>s. (Inr (), f s))"

definition gets :: "('s \<Rightarrow> 'a) \<Rightarrow> ('s, 'a, 'e) prog" where
  "gets f = (\<lambda>s. (Inr (f s), s))"

text \<open>A program chosen by reading the state.\<close>

definition with_state :: "('s \<Rightarrow> ('s, 'a, 'e) prog) \<Rightarrow> ('s, 'a, 'e) prog" where
  "with_state f = (\<lambda>s. f s s)"

definition try_except :: "('s, 'a, 'e) prog \<Rightarrow> ('e \<Rightarrow> ('s, 'a, 'e) prog) \<Rightarrow> ('s, 'a, 'e) prog" where
  "try_except m h = (\<lambda>s. case m s of (Inl e, s') \<Rightarrow> h e s' | (Inr x, s') \<Rightarrow> (Inr x, s'))"

text \<open>The block after \<open>finally\<close> runs on both paths; an exception of its own wins.\<close>

definition try_finally :: "('s, 'a, 'e) prog \<Rightarrow> ('s, 'b, 'e) prog \<Rightarrow> ('s, 'a, 'e) prog" where
  "try_finally m f = (\<lambda>s. case m s of (r, s') \<Rightarrow>
     (case f s' of (Inl e, s'') \<Rightarrow> (Inl e, s'') | (Inr _, s'') \<Rightarrow> (r, s'')))"

definition unless_raise :: "bool \<Rightarrow> 'e \<Rightarrow> ('s, unit, 'e) prog" where
  "unless_raise b e = (if b then ret () else raise_exn e)"

primrec for_each :: "('a \<Rightarrow> ('s, unit, 'e) prog) \<Rightarrow> 'a list \<Rightarrow> ('s, unit, 'e) prog" where
  "for_each f [] = ret ()"
| "for_each f (x # xs) = skip_then (f x) (for_each f xs)"

lemmas prog_defs [prog_simps] =
  ret_def raise_exn_def seq_def skip_then_def modify_def gets_def with_state_def try_except_def
  try_finally_def unless_raise_def

lemma ret_eq [simp]: "ret x s = (Inr x, s)"
  by (simp add: ret_def)

lemma raise_exn_eq [simp]: "raise_exn e s = (Inl e, s)"
  by (simp add: raise_exn_def)

lemma modify_eq [simp]: "modify f s = (Inr (), f s)"
  by (simp add: modify_def)

lemma gets_eq [simp]: "gets f s = (Inr (f s), s)"
  by (simp add: gets_def)

lemma with_state_eq [simp]: "with_state f s = f s s"
  by (simp add: with_state_def)

lemma seq_apply: "seq m f s = (case m s of (Inl e, s') \<Rightarrow> (Inl e, s') | (Inr x, s') \<Rightarrow> f x s')"
  by (simp add: seq_def)

lemma skip_then_apply: "skip_then m n s = (case m s of (Inl e, s') \<Rightarrow> (Inl e, s') | (Inr _, s') \<Rightarrow> n s')"
  by (simp add: seq_def skip_then_def)

lemma seq_Inl: "m s = (Inl e, s') \<Longrightarrow> seq m f s = (Inl e, s')"
  by (simp add: seq_def)

lemma seq_Inr: "m s = (Inr x, s') \<Longrightarrow> seq m f s = f x s'"
  by (simp add: seq_def)

lemma seq_ret [simp]: "seq (ret x) f = f x"
  by (simp add: seq_def ret_def)

lemma seq_raise [simp]: "seq (raise_exn e) f = raise_exn e"
  by (simp add: seq_def raise_exn_def)

lemma skip_then_Inr: "m s = (Inr x, s') \<Longrightarrow> skip_then m n s = n s'"
  by (simp add: skip_then_apply)

lemma skip_then_ret [simp]: "skip_then (ret x) m = m"
  by (simp add: skip_then_def)

lemma seq_assoc: "seq (seq m f) g = seq m (\<lambda>x. seq (f x) g)"
  by (rule ext) (simp add: seq_def split: prod.split sum.split)

section \<open>Predicates a program keeps\<close>

text \<open>\<open>keeps I m\<close>: whatever the outcome of \<open>m\<close>, it ends in a state satisfying \<open>I\<close> when it
  starts in one.  Effects before an exception count.\<close>

definition keeps :: "('s \<Rightarrow> bool) \<Rightarrow> ('s, 'a, 'e) prog \<Rightarrow> bool" where
  "keeps I m \<longleftrightarrow> (\<forall>s. I s \<longrightarrow> I (snd (m s)))"

lemma keepsD: "keeps I m \<Longrightarrow> I s \<Longrightarrow> I (snd (m s))"
  by (simp add: keeps_def)

lemma keepsI: "(\<And>s. I s \<Longrightarrow> I (snd (m s))) \<Longrightarrow> keeps I m"
  by (simp add: keeps_def)

lemma keeps_Pair [simp]: "keeps I (Pair r)"
  by (simp add: keeps_def)

lemma keeps_ret [simp, keeps_intros]: "keeps I (ret x)"
  by (simp add: keeps_def)

lemma keeps_raise [simp, keeps_intros]: "keeps I (raise_exn e)"
  by (simp add: keeps_def)

lemma keeps_gets [simp, keeps_intros]: "keeps I (gets f)"
  by (simp add: keeps_def)

lemma keeps_modify: "(\<And>s. I s \<Longrightarrow> I (f s)) \<Longrightarrow> keeps I (modify f)"
  by (simp add: keeps_def)

lemma keeps_seq [keeps_intros]: "keeps I m \<Longrightarrow> (\<And>x. keeps I (f x)) \<Longrightarrow> keeps I (seq m f)"
  by (fastforce simp: keeps_def seq_def split: prod.splits sum.splits)

lemma keeps_skip_then [keeps_intros]: "keeps I m \<Longrightarrow> keeps I n \<Longrightarrow> keeps I (skip_then m n)"
  unfolding skip_then_def by (rule keeps_seq)

lemma keeps_try_except [keeps_intros]:
  "keeps I m \<Longrightarrow> (\<And>e. keeps I (h e)) \<Longrightarrow> keeps I (try_except m h)"
  by (fastforce simp: keeps_def try_except_def split: prod.splits sum.splits)

lemma keeps_try_finally [keeps_intros]:
  "keeps I m \<Longrightarrow> keeps I f \<Longrightarrow> keeps I (try_finally m f)"
  by (fastforce simp: keeps_def try_finally_def split: prod.splits sum.splits)

lemma keeps_with_state [keeps_intros]: "(\<And>s. keeps I (f s)) \<Longrightarrow> keeps I (with_state f)"
  by (simp add: keeps_def)

lemma keeps_case_option [keeps_intros]:
  "keeps I m \<Longrightarrow> (\<And>x. keeps I (f x)) \<Longrightarrow> keeps I (case y of None \<Rightarrow> m | Some x \<Rightarrow> f x)"
  by (simp split: option.split)

lemma keeps_if [keeps_intros]: "keeps I m \<Longrightarrow> keeps I n \<Longrightarrow> keeps I (if b then m else n)"
  by simp

lemma keeps_unless_raise [simp, keeps_intros]: "keeps I (unless_raise b e)"
  by (simp add: unless_raise_def)

lemma keeps_for_each [keeps_intros]:
  "(\<And>x. x \<in> set xs \<Longrightarrow> keeps I (f x)) \<Longrightarrow> keeps I (for_each f xs)"
  by (induction xs) (auto intro: keeps_intros)

section \<open>Transition systems\<close>

inductive reach :: "('s \<Rightarrow> bool) \<Rightarrow> ('s \<Rightarrow> 's \<Rightarrow> bool) \<Rightarrow> 's \<Rightarrow> bool" for init step where
  reach_init: "init s \<Longrightarrow> reach init step s"
| reach_step: "reach init step s \<Longrightarrow> step s t \<Longrightarrow> reach init step t"

text \<open>The contract of a component whose atomic sections keep an invariant; a client of the
  component gets the invariant in every reachable state.\<close>

locale invariant_machine =
  fixes init :: "'s \<Rightarrow> bool"
    and step :: "'s \<Rightarrow> 's \<Rightarrow> bool"
    and inv :: "'s \<Rightarrow> bool"
  assumes inv_init: "init s \<Longrightarrow> inv s"
    and inv_step: "inv s \<Longrightarrow> step s t \<Longrightarrow> inv t"
begin

lemma inv_reach: "reach init step s \<Longrightarrow> inv s"
  by (induction rule: reach.induct) (auto intro: inv_init inv_step)

lemma inv_steps: "step\<^sup>*\<^sup>* s t \<Longrightarrow> inv s \<Longrightarrow> inv t"
  by (induction rule: rtranclp_induct) (auto intro: inv_step)

end

section \<open>Lists used as Python sets and dictionaries\<close>

definition set_discard :: "'a \<Rightarrow> 'a list \<Rightarrow> 'a list" where
  "set_discard x xs = filter (\<lambda>y. y \<noteq> x) xs"

definition set_add :: "'a \<Rightarrow> 'a list \<Rightarrow> 'a list" where
  "set_add x xs = (if x \<in> set xs then xs else xs @ [x])"

lemma set_set_discard [simp]: "set (set_discard x xs) = set xs - {x}"
  by (auto simp: set_discard_def)

lemma set_set_add [simp]: "set (set_add x xs) = insert x (set xs)"
  by (auto simp: set_add_def)

lemma distinct_set_discard [simp]: "distinct xs \<Longrightarrow> distinct (set_discard x xs)"
  by (simp add: set_discard_def)

lemma distinct_set_add [simp]: "distinct xs \<Longrightarrow> distinct (set_add x xs)"
  by (simp add: set_add_def)

lemma set_discard_notin [simp]: "x \<notin> set xs \<Longrightarrow> set_discard x xs = xs"
  by (auto simp: set_discard_def filter_id_conv)

lemma length_set_discard:
  "distinct xs \<Longrightarrow> length (set_discard x xs) = (if x \<in> set xs then length xs - 1 else length xs)"
  by (induction xs) (auto simp: set_discard_def filter_id_conv Suc_pred dest: length_pos_if_in_set)

lemma length_set_discard_le: "length (set_discard x xs) \<le> length xs"
  by (simp add: set_discard_def)

lemma length_set_add: "length (set_add x xs) = (if x \<in> set xs then length xs else Suc (length xs))"
  by (simp add: set_add_def)

lemma length_set_discard_in:
  "distinct xs \<Longrightarrow> x \<in> set xs \<Longrightarrow> Suc (length (set_discard x xs)) = length xs"
  by (auto simp: length_set_discard dest: length_pos_if_in_set)

text \<open>An association list with Python's dictionary order: an update keeps the position of an
  existing key, a new key goes last.\<close>

fun dict_get :: "('k \<times> 'v) list \<Rightarrow> 'k \<Rightarrow> 'v option" where
  "dict_get [] k = None"
| "dict_get ((k', v) # d) k = (if k = k' then Some v else dict_get d k)"

fun dict_set :: "'k \<Rightarrow> 'v \<Rightarrow> ('k \<times> 'v) list \<Rightarrow> ('k \<times> 'v) list" where
  "dict_set k v [] = [(k, v)]"
| "dict_set k v ((k', v') # d) = (if k = k' then (k, v) # d else (k', v') # dict_set k v d)"

definition dict_del :: "'k \<Rightarrow> ('k \<times> 'v) list \<Rightarrow> ('k \<times> 'v) list" where
  "dict_del k d = filter (\<lambda>(k', _). k' \<noteq> k) d"

definition dict_has :: "'k \<Rightarrow> ('k \<times> 'v) list \<Rightarrow> bool" where
  "dict_has k d \<longleftrightarrow> k \<in> fst ` set d"

lemma dict_get_set [simp]: "dict_get (dict_set k v d) k' = (if k' = k then Some v else dict_get d k')"
  by (induction k v d rule: dict_set.induct) auto

lemma dict_get_None: "dict_get d k = None \<longleftrightarrow> \<not> dict_has k d"
  by (induction d k rule: dict_get.induct) (auto simp: dict_has_def)

lemma dict_get_Some_has: "dict_get d k = Some v \<Longrightarrow> dict_has k d"
  by (metis dict_get_None option.distinct(1))

lemma dict_has_get: "dict_has k d \<longleftrightarrow> dict_get d k \<noteq> None"
  by (simp add: dict_get_None)

lemma dict_get_del [simp]: "dict_get (dict_del k d) k' = (if k' = k then None else dict_get d k')"
  unfolding dict_del_def by (induction d) auto

lemma fst_dict_set: "fst ` set (dict_set k v d) = insert k (fst ` set d)"
  by (induction k v d rule: dict_set.induct) auto

lemma dict_has_set [simp]: "dict_has k' (dict_set k v d) \<longleftrightarrow> k' = k \<or> dict_has k' d"
  by (auto simp: dict_has_def fst_dict_set)

lemma dict_has_del [simp]: "dict_has k' (dict_del k d) \<longleftrightarrow> k' \<noteq> k \<and> dict_has k' d"
  by (auto simp: dict_has_def dict_del_def)

lemma distinct_dict_set: "distinct (map fst d) \<Longrightarrow> distinct (map fst (dict_set k v d))"
proof (induction k v d rule: dict_set.induct)
  case (2 k v k' v' d)
  then show ?case
    using fst_dict_set [of k v d] by auto
qed simp

lemma distinct_dict_del: "distinct (map fst d) \<Longrightarrow> distinct (map fst (dict_del k d))"
  unfolding dict_del_def by (induction d) auto

lemma length_dict_set: "length (dict_set k v d) = (if dict_has k d then length d else Suc (length d))"
  by (induction k v d rule: dict_set.induct) (auto simp: dict_has_def)

lemma length_dict_del:
  "distinct (map fst d) \<Longrightarrow> dict_has k d \<Longrightarrow> Suc (length (dict_del k d)) = length d"
proof (induction d)
  case (Cons x d)
  show ?case
  proof (cases "fst x = k")
    case True
    with Cons.prems have "dict_del k d = d"
      unfolding dict_del_def by (subst filter_id_conv) (force simp: image_iff)
    with True show ?thesis by (cases x) (auto simp: dict_del_def)
  next
    case False
    with Cons show ?thesis by (cases x) (auto simp: dict_del_def dict_has_def)
  qed
qed (simp add: dict_has_def)

lemma dict_get_distinct: "distinct (map fst d) \<Longrightarrow> (k, v) \<in> set d \<longleftrightarrow> dict_get d k = Some v"
proof (induction d)
  case (Cons x d)
  then show ?case by (cases x) (force simp: image_iff)
qed simp

lemma length_dict_del_le: "length (dict_del k d) \<le> length d"
  by (simp add: dict_del_def)

section \<open>Strings\<close>

definition ord :: "char \<Rightarrow> nat" where
  "ord c = of_char c"

definition lower_char :: "char \<Rightarrow> char" where
  "lower_char c = (let n = ord c in
     if (65 \<le> n \<and> n \<le> 90) \<or> (192 \<le> n \<and> n \<le> 222 \<and> n \<noteq> 215) then char_of (n + 32) else c)"

definition str_lower :: "string \<Rightarrow> string" where
  "str_lower s = map lower_char s"

definition is_space :: "char \<Rightarrow> bool" where
  "is_space c = (let n = ord c in
     (9 \<le> n \<and> n \<le> 13) \<or> (28 \<le> n \<and> n \<le> 32) \<or> n = 133 \<or> n = 160)"

definition str_lstrip :: "string \<Rightarrow> string" where
  "str_lstrip s = dropWhile is_space s"

definition str_rstrip :: "string \<Rightarrow> string" where
  "str_rstrip s = rev (dropWhile is_space (rev s))"

definition str_strip :: "string \<Rightarrow> string" where
  "str_strip s = str_rstrip (str_lstrip s)"

fun starts_with :: "string \<Rightarrow> string \<Rightarrow> bool" where
  "starts_with [] s = True"
| "starts_with (p # ps) [] = False"
| "starts_with (p # ps) (c # s) = (p = c \<and> starts_with ps s)"

definition ends_with :: "string \<Rightarrow> string \<Rightarrow> bool" where
  "ends_with suffix s = starts_with (rev suffix) (rev s)"

fun contains :: "string \<Rightarrow> string \<Rightarrow> bool" where
  "contains needle [] = (needle = [])"
| "contains needle (c # s) = (starts_with needle (c # s) \<or> contains needle s)"

text \<open>\<open>s.split(sep)\<close> for a one-character separator: always at least one piece.\<close>

fun split_on :: "char \<Rightarrow> string \<Rightarrow> string list" where
  "split_on sep [] = [[]]"
| "split_on sep (c # s) =
     (if c = sep then [] # split_on sep s
      else (case split_on sep s of [] \<Rightarrow> [[c]] | w # ws \<Rightarrow> (c # w) # ws))"

fun join_with :: "string \<Rightarrow> string list \<Rightarrow> string" where
  "join_with sep [] = []"
| "join_with sep [w] = w"
| "join_with sep (w # v # ws) = w @ sep @ join_with sep (v # ws)"

definition str_replace_char :: "char \<Rightarrow> string \<Rightarrow> string \<Rightarrow> string" where
  "str_replace_char c r s = concat (map (\<lambda>d. if d = c then r else [d]) s)"

definition utf8_size :: "string \<Rightarrow> nat" where
  "utf8_size s = sum_list (map (\<lambda>c. if ord c < 128 then 1 else 2) s)"

definition is_digit :: "char \<Rightarrow> bool" where
  "is_digit c \<longleftrightarrow> 48 \<le> ord c \<and> ord c \<le> 57"

definition is_alnum_ascii :: "char \<Rightarrow> bool" where
  "is_alnum_ascii c \<longleftrightarrow> is_digit c \<or> (65 \<le> ord c \<and> ord c \<le> 90) \<or> (97 \<le> ord c \<and> ord c \<le> 122)"

definition digits_value :: "string \<Rightarrow> nat" where
  "digits_value s = foldl (\<lambda>n c. 10 * n + (ord c - 48)) 0 s"

function nat_str :: "nat \<Rightarrow> string" where
  "nat_str n = (if n < 10 then [char_of (48 + n)] else nat_str (n div 10) @ [char_of (48 + n mod 10)])"
  by pat_completeness auto
termination
  by (relation "measure id") auto

declare nat_str.simps [simp del]

definition int_str :: "int \<Rightarrow> string" where
  "int_str i = (if i < 0 then ''-'' @ nat_str (nat (- i)) else nat_str (nat i))"

lemma split_on_nonempty [simp]: "split_on sep s \<noteq> []"
  by (induction s) (auto split: list.split)

lemma starts_with_append [simp]: "starts_with p (p @ s)"
  by (induction p) auto

lemma starts_with_iff: "starts_with p s \<longleftrightarrow> (\<exists>t. s = p @ t)"
  by (induction p s rule: starts_with.induct) auto

lemma contains_iff: "contains needle s \<longleftrightarrow> (\<exists>a b. s = a @ needle @ b)"
proof (induction s)
  case (Cons c s)
  show ?case (is "_ \<longleftrightarrow> ?rhs")
  proof
    assume "contains needle (c # s)"
    then consider "starts_with needle (c # s)" | "contains needle s" by auto
    then show ?rhs
    proof cases
      case 1
      then show ?thesis by (auto simp: starts_with_iff intro: exI [of _ "[]"])
    next
      case 2
      then obtain a b where "s = a @ needle @ b" using Cons.IH by blast
      then have "c # s = (c # a) @ needle @ b" by simp
      then show ?thesis by blast
    qed
  next
    assume ?rhs
    then obtain a b where "c # s = a @ needle @ b" by blast
    then show "contains needle (c # s)"
    proof (cases a)
      case Nil
      with \<open>c # s = a @ needle @ b\<close> have "starts_with needle (c # s)"
        by (simp only: append_Nil starts_with_append)
      then show ?thesis by simp
    next
      case (Cons x xs)
      with \<open>c # s = a @ needle @ b\<close> have "s = xs @ needle @ b" by simp
      then show ?thesis using Cons.IH by auto
    qed
  qed
qed auto

lemma utf8_size_append [simp]: "utf8_size (s @ t) = utf8_size s + utf8_size t"
  by (simp add: utf8_size_def)

lemma length_le_utf8_size: "length s \<le> utf8_size s"
  by (induction s) (auto simp: utf8_size_def)

section \<open>Decimal text\<close>

lemma is_digit_char_of: "n < (10::nat) \<Longrightarrow> is_digit (char_of (48 + n))"
  by (simp add: is_digit_def ord_def)

lemma is_digit_nat_str: "list_all is_digit (nat_str n)"
  by (induction n rule: nat_str.induct) (subst nat_str.simps, simp add: is_digit_char_of)

lemma digits_value_append: "digits_value (s @ [c]) = 10 * digits_value s + (ord c - 48)"
  by (simp add: digits_value_def)

lemma digits_value_nat_str [simp]: "digits_value (nat_str n) = n"
proof (induction n rule: nat_str.induct)
  case (1 n)
  then show ?case
    by (cases "n < 10")
      (simp_all add: nat_str.simps [of n] digits_value_append, simp_all add: digits_value_def ord_def)
qed

lemma nat_str_nonempty [simp]: "nat_str n \<noteq> []"
  by (subst nat_str.simps) simp

lemma nat_str_chars: "c \<in> set (nat_str n) \<Longrightarrow> 48 \<le> ord c \<and> ord c \<le> 57"
  using is_digit_nat_str [of n] by (auto simp: list_all_iff is_digit_def)

end
