(* ===== verification/Errors.thy ===== *)
theory Errors
  imports Prelude
begin

text \<open>
  The values the layers exchange: Python/JSON values, the \<open>Solution\<close> payload, the public
  error codes and \<open>CamouflareError\<close> (\<open>camouflare/errors.py\<close>), the resource limits
  (\<open>camouflare/limits.py\<close>) and the request timer (\<open>camouflare/timer.py\<close>).

  Clock readings are integers of microseconds, standing for \<open>time.monotonic()\<close>.
\<close>

section \<open>Python values\<close>

text \<open>A finite float is \<open>m * 2 ^ e\<close>.\<close>

datatype py_float = Fin int int | PosInf | NegInf | NaN

datatype py_val =
    PyNone
  | PyBool bool
  | PyInt int
  | PyFloat py_float
  | PyStr string
  | PyList "py_val list"
  | PyDict "(string \<times> py_val) list"

type_synonym py_dict = "(string \<times> py_val) list"

fun py_truthy :: "py_val \<Rightarrow> bool" where
  "py_truthy PyNone = False"
| "py_truthy (PyBool b) = b"
| "py_truthy (PyInt i) = (i \<noteq> 0)"
| "py_truthy (PyFloat (Fin m e)) = (m \<noteq> 0)"
| "py_truthy (PyFloat _) = True"
| "py_truthy (PyStr s) = (s \<noteq> [])"
| "py_truthy (PyList xs) = (xs \<noteq> [])"
| "py_truthy (PyDict d) = (d \<noteq> [])"

text \<open>\<open>d.get(k)\<close>: an absent key and an explicit \<open>None\<close> read the same.\<close>

definition dget :: "py_dict \<Rightarrow> string \<Rightarrow> py_val" where
  "dget d k = (case dict_get d k of None \<Rightarrow> PyNone | Some v \<Rightarrow> v)"

section \<open>Solution payload and public errors\<close>

record solution =
  sol_url :: string
  sol_status :: int
  sol_headers :: "(string \<times> string) list option"
  sol_response :: "string option"
  sol_cookies :: "py_dict list"
  sol_user_agent :: string
  sol_screenshot :: "string option"
  sol_turnstile_token :: "string option"
  sol_response_encoding :: "string option"
  sol_body_bytes :: "nat option"

datatype v1_error_code =
    INVALID_REQUEST
  | SESSION_NOT_FOUND
  | RESOURCE_LIMIT_EXCEEDED
  | POOL_UNAVAILABLE
  | REQUEST_TIMEOUT
  | NAVIGATION_TIMEOUT
  | BROWSER_TRANSPORT_CLOSED
  | CHALLENGE_FAILED
  | TARGET_BLOCKED
  | TARGET_UNREACHABLE
  | PROXY_CONNECTION_ERROR
  | RESPONSE_DECODE_ERROR
  | INTERNAL_ERROR

text \<open>The subclasses of \<open>CamouflareError\<close> that the code raises or catches by name.\<close>

datatype camouflare_class =
    CamouflareErrorClass
  | SessionCapacityErrorClass
  | SessionUnavailableErrorClass
  | SessionCleanupErrorClass
  | HttpDecodeErrorClass

record camouflare_error =
  err_class :: camouflare_class
  err_message :: string
  error_code :: v1_error_code
  retryable :: bool
  request_outcome_unknown :: bool
  fallback_used :: "bool option"
  err_solution :: "solution option"

definition camouflare_error_with :: "string \<Rightarrow> v1_error_code \<Rightarrow> bool \<Rightarrow> camouflare_error" where
  "camouflare_error_with msg code retry =
     \<lparr>err_class = CamouflareErrorClass, err_message = msg, error_code = code, retryable = retry,
      request_outcome_unknown = False, fallback_used = None, err_solution = None\<rparr>"

definition session_capacity_error :: camouflare_error where
  "session_capacity_error =
     (camouflare_error_with ''Maximum sessions reached.'' POOL_UNAVAILABLE True)
       \<lparr>err_class := SessionCapacityErrorClass\<rparr>"

section \<open>Exceptions\<close>

text \<open>
  The exceptions the modelled code raises or tells apart.  \<open>CancelledError\<close> is the only one
  that is not an \<open>Exception\<close>: \<open>except Exception\<close> lets it pass.  \<open>NetError\<close> carries the
  httpcore and socksio classes the HTTP transport classifies; \<open>OtherError\<close> is any other
  exception, with its class name and its text.
\<close>

datatype net_class =
    ProxyError
  | LocalProtocolError
  | SocksError
  | HttpcoreTimeout
  | ConnectError
  | NetworkError
  | RemoteProtocolError

datatype exn =
    CancelledError
  | TimeoutError string
  | PoolAcquireTimeout string
  | PersistentCapacityError string
  | RuntimeError string
  | ValueError string
  | ResourceLimitError string
  | ChallengeSolveError string
  | RequestTimeoutError string
  | CamouflareError camouflare_error
  | NetError net_class string
  | OtherError string string

fun is_Exception :: "exn \<Rightarrow> bool" where
  "is_Exception CancelledError = False"
| "is_Exception _ = True"

text \<open>\<open>isinstance(exc, TimeoutError)\<close>: \<open>PoolAcquireTimeout\<close> is a subclass.\<close>

fun is_TimeoutError :: "exn \<Rightarrow> bool" where
  "is_TimeoutError (TimeoutError _) = True"
| "is_TimeoutError (PoolAcquireTimeout _) = True"
| "is_TimeoutError _ = False"

fun exn_str :: "exn \<Rightarrow> string" where
  "exn_str CancelledError = []"
| "exn_str (TimeoutError m) = m"
| "exn_str (PoolAcquireTimeout m) = m"
| "exn_str (PersistentCapacityError m) = m"
| "exn_str (RuntimeError m) = m"
| "exn_str (ValueError m) = m"
| "exn_str (ResourceLimitError m) = m"
| "exn_str (ChallengeSolveError m) = m"
| "exn_str (RequestTimeoutError m) = m"
| "exn_str (CamouflareError e) = err_message e"
| "exn_str (NetError _ m) = m"
| "exn_str (OtherError _ m) = m"

fun net_class_name :: "net_class \<Rightarrow> string" where
  "net_class_name ProxyError = ''ProxyError''"
| "net_class_name LocalProtocolError = ''LocalProtocolError''"
| "net_class_name SocksError = ''SOCKSError''"
| "net_class_name HttpcoreTimeout = ''TimeoutException''"
| "net_class_name ConnectError = ''ConnectError''"
| "net_class_name NetworkError = ''NetworkError''"
| "net_class_name RemoteProtocolError = ''RemoteProtocolError''"

fun camouflare_class_name :: "camouflare_class \<Rightarrow> string" where
  "camouflare_class_name CamouflareErrorClass = ''CamouflareError''"
| "camouflare_class_name SessionCapacityErrorClass = ''SessionCapacityError''"
| "camouflare_class_name SessionUnavailableErrorClass = ''SessionUnavailableError''"
| "camouflare_class_name SessionCleanupErrorClass = ''SessionCleanupError''"
| "camouflare_class_name HttpDecodeErrorClass = ''HttpDecodeError''"

text \<open>\<open>type(exc).__name__\<close>\<close>

fun exn_class_name :: "exn \<Rightarrow> string" where
  "exn_class_name CancelledError = ''CancelledError''"
| "exn_class_name (TimeoutError _) = ''TimeoutError''"
| "exn_class_name (PoolAcquireTimeout _) = ''PoolAcquireTimeout''"
| "exn_class_name (PersistentCapacityError _) = ''PersistentCapacityError''"
| "exn_class_name (RuntimeError _) = ''RuntimeError''"
| "exn_class_name (ValueError _) = ''ValueError''"
| "exn_class_name (ResourceLimitError _) = ''ResourceLimitError''"
| "exn_class_name (ChallengeSolveError _) = ''ChallengeSolveError''"
| "exn_class_name (RequestTimeoutError _) = ''RequestTimeoutError''"
| "exn_class_name (CamouflareError e) = camouflare_class_name (err_class e)"
| "exn_class_name (NetError c _) = net_class_name c"
| "exn_class_name (OtherError c _) = c"

definition invalid_request :: "string \<Rightarrow> exn" where
  "invalid_request msg = CamouflareError (camouflare_error_with msg INVALID_REQUEST False)"

section \<open>Limits\<close>

definition MAX_URL_LENGTH :: nat where "MAX_URL_LENGTH = 16384"
definition MAX_SESSION_ID_LENGTH :: nat where "MAX_SESSION_ID_LENGTH = 128"
definition MAX_TARGET_HEADERS :: nat where "MAX_TARGET_HEADERS = 128"
definition MAX_TARGET_HEADER_BYTES :: nat where "MAX_TARGET_HEADER_BYTES = 65536"
definition MAX_COOKIES :: nat where "MAX_COOKIES = 300"
definition MAX_COOKIE_BYTES :: nat where "MAX_COOKIE_BYTES = 262144"
definition MAX_HTTP_REDIRECTS :: nat where "MAX_HTTP_REDIRECTS = 10"

record resource_limits =
  response_body_bytes :: nat
  screenshot_bytes :: nat
  solution_bytes :: nat

definition default_resource_limits :: resource_limits where
  "default_resource_limits =
     \<lparr>response_body_bytes = 33554432, screenshot_bytes = 16777216, solution_bytes = 67108864\<rparr>"

definition limit_error :: "string \<Rightarrow> nat \<Rightarrow> exn" where
  "limit_error label maximum =
     ResourceLimitError (label @ '' exceeds the configured '' @ nat_str maximum @ ''-byte limit.'')"

definition ensure_text_size :: "string \<Rightarrow> nat \<Rightarrow> string \<Rightarrow> exn + unit" where
  "ensure_text_size value maximum label =
     (if utf8_size value > maximum then Inl (limit_error label maximum) else Inr ())"

definition ensure_bytes_size :: "'b list \<Rightarrow> nat \<Rightarrow> string \<Rightarrow> exn + unit" where
  "ensure_bytes_size value maximum label =
     (if length value > maximum then Inl (limit_error label maximum) else Inr ())"

text \<open>\<open>json_size\<close> is the size of the compact dump; the dump itself is a parameter of its users,
  who need only its length.\<close>

definition ensure_json_size :: "('v \<Rightarrow> nat) \<Rightarrow> 'v \<Rightarrow> nat \<Rightarrow> string \<Rightarrow> exn + unit" where
  "ensure_json_size json_size value maximum label =
     (if json_size value > maximum then Inl (limit_error label maximum) else Inr ())"

lemma ensure_text_size_Inr [simp]:
  "ensure_text_size v m l = Inr u \<longleftrightarrow> utf8_size v \<le> m"
  by (cases u) (auto simp: ensure_text_size_def)

lemma ensure_bytes_size_Inr [simp]:
  "ensure_bytes_size v m l = Inr u \<longleftrightarrow> length v \<le> m"
  by (cases u) (auto simp: ensure_bytes_size_def)

section \<open>The request timer\<close>

type_synonym time = int

definition seconds :: "int \<Rightarrow> time" where
  "seconds n = n * 1000000"

record timeout_timer =
  timeout_ms :: int
  started_at :: time

definition new_timer :: "time \<Rightarrow> int \<Rightarrow> timeout_timer" where
  "new_timer now ms = \<lparr>timeout_ms = max 1 ms, started_at = now\<rparr>"

definition elapsed_ms :: "time \<Rightarrow> timeout_timer \<Rightarrow> int" where
  "elapsed_ms now t = (now - started_at t) div 1000"

definition remaining_ms :: "time \<Rightarrow> timeout_timer \<Rightarrow> int" where
  "remaining_ms now t = max 1 (timeout_ms t - elapsed_ms now t)"

lemma remaining_ms_pos [simp]: "0 < remaining_ms now t" "1 \<le> remaining_ms now t"
  by (simp_all add: remaining_ms_def)

lemma new_timer_pos [simp]: "0 < timeout_ms (new_timer now ms)"
  by (simp add: new_timer_def)

lemma elapsed_ms_mono: "now \<le> later \<Longrightarrow> elapsed_ms now t \<le> elapsed_ms later t"
  by (simp add: elapsed_ms_def zdiv_mono1)

lemma remaining_ms_antimono: "now \<le> later \<Longrightarrow> remaining_ms later t \<le> remaining_ms now t"
  using elapsed_ms_mono [of now later t] by (auto simp: remaining_ms_def)

end
