(* ===== verification/Pool.thy ===== *)
theory Pool
  imports Errors
begin

text \<open>
  The browser pool (\<open>camouflare/pool.py\<close>): its objects, its state and one definition per
  method.

  Browser slots, reservations and launch tasks are objects with identity: they live in tables
  of the pool state and are named by numbers; Python's sets and dictionaries of them are lists
  without repetition.  A method that runs under \<open>async with self._condition\<close> without awaiting is
  one program on the pool state; a method that awaits between two such sections is one program
  per section.  What only the outside world decides is an argument: the clock \<open>now\<close>, which
  browsers report that they died (\<open>dead\<close>), which handles report that they closed, how a launch or
  a close ended.  Log records are left out; the metrics counters are the events of
  \<open>pool_events\<close>.
\<close>

section \<open>Objects and state\<close>

datatype slot_state = Ready | Retiring | Closing

datatype retire_reason = MaxUses | MaxAge | Disconnected | ErrorReason | Shutdown | OtherReason

datatype lease_kind = Transient | Persistent

record browser_slot =
  created_at :: time
  active_contexts :: nat
  uses :: nat
  state :: slot_state
  retire_reason :: "retire_reason option"
  recycle_recorded :: bool
  close_failures :: nat
  next_close_retry_at :: time

definition new_browser_slot :: "time \<Rightarrow> browser_slot" where
  "new_browser_slot now =
     \<lparr>created_at = now, active_contexts = 0, uses = 0, state = Ready, retire_reason = None,
      recycle_recorded = False, close_failures = 0, next_close_retry_at = 0\<rparr>"

record slot_reservation =
  res_slot :: nat
  res_kind :: lease_kind
  res_released :: bool

datatype create_outcome = Running | Created nat | CreateFailed exn

datatype pool_event =
    BrowserCreated
  | BrowserError
  | BrowserDisconnected
  | BrowserRecycle retire_reason
  | TransportError string
  | PoolAcquireTimedOut string
  | AcquireObserved lease_kind string

record finalizer =
  fin_task :: nat
  fin_slot_reservation :: "nat option"
  fin_persistent_reservation :: "nat option"
  fin_discard :: bool
  fin_discard_reason :: retire_reason
  fin_transport_phase :: string

record pool_config =
  min_browsers :: nat
  max_browsers :: nat
  max_contexts_per_browser :: nat
  browser_max_uses :: nat
  browser_max_age :: time
  acquire_timeout :: time
  reserved_transient_contexts :: nat

text \<open>The bounds \<open>__init__\<close> derives from the configuration.\<close>

definition max_abandoned_creations :: "pool_config \<Rightarrow> nat" where
  "max_abandoned_creations c = max 1 (max_browsers c * 2)"

definition max_physical_generations :: "pool_config \<Rightarrow> nat" where
  "max_physical_generations c = max 1 (max_browsers c * 2)"

definition max_persistent_contexts :: "pool_config \<Rightarrow> nat" where
  "max_persistent_contexts c =
     nat (max 0 (int (max_browsers c * max_contexts_per_browser c) - int (reserved_transient_contexts c)))"

record pool =
  heap :: "nat \<Rightarrow> browser_slot"
  next_slot :: nat
  reservations :: "nat \<Rightarrow> slot_reservation"
  next_reservation :: nat
  persistent_released :: "nat \<Rightarrow> bool"
  next_persistent :: nat
  create_outcomes :: "nat \<Rightarrow> create_outcome"
  next_task :: nat
  slots :: "nat list"
  create_tasks :: "nat list"
  create_supervisors :: "nat list"
  create_watchers :: "nat list"
  create_failure_generation :: nat
  last_create_failure :: "exn option"
  close_tasks :: "(nat \<times> nat) list"
  failed_close_slots :: "nat list"
  physically_closed_slots :: "nat list"
  accounting_tasks :: "finalizer list"
  transient_contexts :: nat
  persistent_contexts :: nat
  waiting_requests :: nat
  startup_task :: bool
  startup_waiters :: nat
  started :: bool
  starting :: bool
  closed :: bool
  pool_events :: "pool_event list"

text \<open>An object that does not exist yet reads as closing or released, and no method touches it.\<close>

definition new_pool :: pool where
  "new_pool =
     \<lparr>heap = (\<lambda>_. (new_browser_slot 0)\<lparr>state := Closing\<rparr>), next_slot = 0,
      reservations = (\<lambda>_. \<lparr>res_slot = 0, res_kind = Transient, res_released = True\<rparr>),
      next_reservation = 0, persistent_released = (\<lambda>_. True), next_persistent = 0,
      create_outcomes = (\<lambda>_. Running), next_task = 0, slots = [], create_tasks = [],
      create_supervisors = [], create_watchers = [], create_failure_generation = 0,
      last_create_failure = None, close_tasks = [], failed_close_slots = [],
      physically_closed_slots = [], accounting_tasks = [], transient_contexts = 0,
      persistent_contexts = 0, waiting_requests = 0,
      startup_task = False, startup_waiters = 0, started = False, starting = False,
      closed = False, pool_events = []\<rparr>"

type_synonym 'a pool_prog = "(pool, 'a, exn) prog"

definition emit :: "pool_event \<Rightarrow> unit pool_prog" where
  "emit e = modify (\<lambda>p. p\<lparr>pool_events := pool_events p @ [e]\<rparr>)"

definition upd_slot :: "nat \<Rightarrow> (browser_slot \<Rightarrow> browser_slot) \<Rightarrow> unit pool_prog" where
  "upd_slot s f = modify (\<lambda>p. p\<lparr>heap := (heap p)(s := f (heap p s))\<rparr>)"

section \<open>Recycling and availability\<close>

definition recycle_reason :: "pool_config \<Rightarrow> time \<Rightarrow> browser_slot \<Rightarrow> retire_reason" where
  "recycle_reason c now b =
     (if uses b \<ge> browser_max_uses c then MaxUses
      else if now - created_at b \<ge> browser_max_age c then MaxAge
      else OtherReason)"

definition should_recycle :: "pool_config \<Rightarrow> time \<Rightarrow> browser_slot \<Rightarrow> bool" where
  "should_recycle c now b \<longleftrightarrow> recycle_reason c now b \<noteq> OtherReason"

fun is_soft_retire_reason :: "retire_reason option \<Rightarrow> bool" where
  "is_soft_retire_reason (Some MaxUses) = True"
| "is_soft_retire_reason (Some MaxAge) = True"
| "is_soft_retire_reason _ = False"

definition healthy_slot_available :: "pool_config \<Rightarrow> time \<Rightarrow> browser_slot \<Rightarrow> bool" where
  "healthy_slot_available c now b \<longleftrightarrow>
     state b = Ready \<and> active_contexts b < max_contexts_per_browser c \<and> \<not> should_recycle c now b"

definition soft_retiring_slot_available :: "pool_config \<Rightarrow> browser_slot \<Rightarrow> bool" where
  "soft_retiring_slot_available c b \<longleftrightarrow>
     state b = Retiring \<and> active_contexts b > 0
     \<and> active_contexts b < max_contexts_per_browser c
     \<and> is_soft_retire_reason (retire_reason b)"

section \<open>Snapshots\<close>

record pool_snapshot =
  snap_browser_slots :: nat
  snap_creating_slots :: nat
  snap_closing_slots :: nat
  snap_active_contexts :: nat
  snap_transient_contexts :: nat
  snap_persistent_contexts :: nat
  snap_waiting_requests :: nat
  snap_max_slots :: nat
  snap_ready_browser_slots :: nat
  snap_retiring_browser_slots :: nat
  snap_usable_context_slots :: nat
  snap_idle_recyclable_slots :: nat
  snap_max_browsers :: nat
  snap_max_contexts_per_browser :: nat

definition total_active :: "pool \<Rightarrow> nat" where
  "total_active p = sum_list (map (\<lambda>s. active_contexts (heap p s)) (slots p))"

definition effectively_retiring :: "pool_config \<Rightarrow> time \<Rightarrow> browser_slot \<Rightarrow> bool" where
  "effectively_retiring c now b \<longleftrightarrow> state b = Retiring \<or> should_recycle c now b"

definition slot_usable_contexts :: "pool_config \<Rightarrow> time \<Rightarrow> browser_slot \<Rightarrow> nat" where
  "slot_usable_contexts c now b =
     (if effectively_retiring c now b then
        if active_contexts b = 0 then 0
        else if is_soft_retire_reason (Some (case retire_reason b of Some r \<Rightarrow> r
                                             | None \<Rightarrow> recycle_reason c now b))
        then max_contexts_per_browser c - active_contexts b else 0
      else max_contexts_per_browser c - active_contexts b)"

definition snapshot_unlocked :: "pool_config \<Rightarrow> time \<Rightarrow> pool_snapshot pool_prog" where
  "snapshot_unlocked c now = (\<lambda>p.
     if transient_contexts p > total_active p
     then (Inl (RuntimeError ''Transient-context accounting exceeds active contexts''), p)
     else let bs = map (heap p) (slots p);
              retiring = filter (effectively_retiring c now) bs
          in (Inr \<lparr>snap_browser_slots = length (slots p),
                   snap_creating_slots = length (create_tasks p),
                   snap_closing_slots = length (close_tasks p) + length (failed_close_slots p),
                   snap_active_contexts = total_active p,
                   snap_transient_contexts = transient_contexts p,
                   snap_persistent_contexts = persistent_contexts p,
                   snap_waiting_requests = waiting_requests p,
                   snap_max_slots = max_browsers c * max_contexts_per_browser c,
                   snap_ready_browser_slots =
                     length (filter (\<lambda>b. \<not> effectively_retiring c now b) bs),
                   snap_retiring_browser_slots = length retiring,
                   snap_usable_context_slots = sum_list (map (slot_usable_contexts c now) bs),
                   snap_idle_recyclable_slots =
                     length (filter (\<lambda>b. active_contexts b = 0) retiring),
                   snap_max_browsers = max_browsers c,
                   snap_max_contexts_per_browser = max_contexts_per_browser c\<rparr>, p))"

text \<open>Publishing reads a snapshot, so it raises exactly when the snapshot does.\<close>

definition publish_metrics_unlocked :: "pool_config \<Rightarrow> time \<Rightarrow> unit pool_prog" where
  "publish_metrics_unlocked c now = seq (snapshot_unlocked c now) (\<lambda>_. ret ())"

definition usable_generations :: "pool \<Rightarrow> nat" where
  "usable_generations p =
     length (filter (\<lambda>s. state (heap p s) = Ready) (slots p)) + length (create_tasks p)"

definition physical_generations :: "pool \<Rightarrow> nat" where
  "physical_generations p =
     length (slots p) + length (create_tasks p) + length (create_watchers p)
     + length (close_tasks p) + length (failed_close_slots p)"

definition log_acquire_timeout :: "pool_config \<Rightarrow> time \<Rightarrow> string \<Rightarrow> unit pool_prog" where
  "log_acquire_timeout c now reason =
     seq (snapshot_unlocked c now) (\<lambda>_. emit (PoolAcquireTimedOut reason))"

section \<open>Retiring and closing a slot\<close>

definition mark_retiring :: "nat \<Rightarrow> retire_reason \<Rightarrow> unit pool_prog" where
  "mark_retiring s reason = with_state (\<lambda>p.
     if state (heap p s) = Closing then ret ()
     else
       skip_then (upd_slot s (\<lambda>b. b\<lparr>state := Retiring\<rparr>))
      (skip_then (upd_slot s (\<lambda>b. b\<lparr>retire_reason :=
                    (if retire_reason b = None \<or> \<not> is_soft_retire_reason (Some reason)
                     then Some reason else retire_reason b)\<rparr>))
      (if recycle_recorded (heap p s) then ret ()
       else skip_then (upd_slot s (\<lambda>b. b\<lparr>recycle_recorded := True\<rparr>)) (emit (BrowserRecycle reason)))))"

definition start_close_task :: "nat \<Rightarrow> nat pool_prog" where
  "start_close_task s = (\<lambda>p.
     (Inr (next_task p), p\<lparr>close_tasks := dict_set s (next_task p) (close_tasks p),
                           next_task := Suc (next_task p)\<rparr>))"

definition schedule_close :: "nat \<Rightarrow> retire_reason \<Rightarrow> nat option pool_prog" where
  "schedule_close s reason = with_state (\<lambda>p.
     if state (heap p s) = Closing then ret (dict_get (close_tasks p) s)
     else if active_contexts (heap p s) \<noteq> 0
     then raise_exn (RuntimeError ''Cannot close a browser slot with active contexts'')
     else skip_then (mark_retiring s reason)
            (skip_then (modify (\<lambda>p. p\<lparr>slots := remove1 s (slots p)\<rparr>))
              (skip_then (upd_slot s (\<lambda>b. b\<lparr>state := Closing\<rparr>))
                (seq (start_close_task s) (\<lambda>t. ret (Some t))))))"

abbreviation do_schedule_close :: "nat \<Rightarrow> retire_reason \<Rightarrow> unit pool_prog" where
  "do_schedule_close s reason \<equiv> seq (schedule_close s reason) (\<lambda>_. ret ())"

definition schedule_failed_close_retry :: "nat \<Rightarrow> nat pool_prog" where
  "schedule_failed_close_retry s = with_state (\<lambda>p.
     case dict_get (close_tasks p) s of
       Some t \<Rightarrow> ret t
     | None \<Rightarrow>
         skip_then (modify (\<lambda>p. p\<lparr>failed_close_slots := set_discard s (failed_close_slots p)\<rparr>))
           (start_close_task s))"

definition MAX_CLOSE_RETRIES :: nat where "MAX_CLOSE_RETRIES = 3"

definition CLOSE_RETRY_MAX_BACKOFF :: time where "CLOSE_RETRY_MAX_BACKOFF = seconds 60"

definition retry_failed_closes :: "time \<Rightarrow> unit pool_prog" where
  "retry_failed_closes now = with_state (\<lambda>p0.
     for_each (\<lambda>s. with_state (\<lambda>p.
       if close_failures (heap p s) \<ge> MAX_CLOSE_RETRIES then ret ()
       else if now < next_close_retry_at (heap p s) then ret ()
       else seq (schedule_failed_close_retry s) (\<lambda>_. ret ()))) (failed_close_slots p0))"

definition refresh_slot :: "pool_config \<Rightarrow> time \<Rightarrow> (nat \<Rightarrow> bool) \<Rightarrow> nat \<Rightarrow> unit pool_prog" where
  "refresh_slot c now dead s =
     skip_then (with_state (\<lambda>p.
       if state (heap p s) \<noteq> Closing \<and> dead s
       then skip_then (if recycle_recorded (heap p s) then ret () else emit BrowserDisconnected)
                      (mark_retiring s Disconnected)
       else ret ()))
    (skip_then (with_state (\<lambda>p.
       if state (heap p s) = Ready \<and> should_recycle c now (heap p s)
       then mark_retiring s (recycle_reason c now (heap p s)) else ret ()))
    (with_state (\<lambda>p.
       if state (heap p s) = Retiring \<and> active_contexts (heap p s) = 0
       then do_schedule_close s (case retire_reason (heap p s) of Some r \<Rightarrow> r | None \<Rightarrow> OtherReason)
       else ret ())))"

definition refresh_recycling :: "pool_config \<Rightarrow> time \<Rightarrow> (nat \<Rightarrow> bool) \<Rightarrow> unit pool_prog" where
  "refresh_recycling c now dead = with_state (\<lambda>p.
     skip_then (for_each (refresh_slot c now dead) (slots p)) (retry_failed_closes now))"

section \<open>Launching browsers\<close>

definition start_create_task :: "bool \<Rightarrow> nat pool_prog" where
  "start_create_task supervise = (\<lambda>p.
     let t = next_task p in
     (Inr t, p\<lparr>next_task := Suc t,
               create_outcomes := (create_outcomes p)(t := Running),
               create_tasks := set_add t (create_tasks p),
               create_supervisors := (if supervise then set_add t (create_supervisors p)
                                      else create_supervisors p)\<rparr>))"

definition finish_create_task :: "nat \<Rightarrow> unit pool_prog" where
  "finish_create_task t = modify (\<lambda>p. p\<lparr>create_tasks := set_discard t (create_tasks p)\<rparr>)"

definition abandon_create_task :: "nat \<Rightarrow> unit pool_prog" where
  "abandon_create_task t = with_state (\<lambda>p.
     if t \<notin> set (create_tasks p) \<or> t \<in> set (create_watchers p) then ret ()
     else skip_then (finish_create_task t)
            (modify (\<lambda>p. p\<lparr>create_supervisors := set_discard t (create_supervisors p),
                           create_watchers := create_watchers p @ [t]\<rparr>)))"

primrec replenish_loop :: "pool_config \<Rightarrow> nat \<Rightarrow> unit pool_prog" where
  "replenish_loop c 0 = ret ()"
| "replenish_loop c (Suc n) = with_state (\<lambda>p.
     if length (create_watchers p) \<ge> max_abandoned_creations c then ret ()
     else seq (start_create_task True) (\<lambda>_. replenish_loop c n))"

text \<open>\<open>missing\<close> of \<open>_replenish_unlocked\<close>; its \<open>occupied\<close> is \<open>physical_generations\<close>.\<close>

definition missing_browsers :: "pool_config \<Rightarrow> time \<Rightarrow> pool \<Rightarrow> int" where
  "missing_browsers c now p =
     int (min_browsers c)
     - int (length (filter (\<lambda>s. state (heap p s) = Ready \<and> \<not> should_recycle c now (heap p s)) (slots p)))
     - int (length (create_tasks p))"

definition replenish :: "pool_config \<Rightarrow> time \<Rightarrow> unit pool_prog" where
  "replenish c now = with_state (\<lambda>p.
     if starting p \<or> \<not> started p \<or> closed p \<or> waiting_requests p > 0 then ret ()
     else replenish_loop c (nat (min (missing_browsers c now p)
                                     (int (max_browsers c) - int (physical_generations p)))))"

text \<open>A launch ends: a fresh browser slot, or a failure.\<close>

definition create_slot_done :: "time \<Rightarrow> nat \<Rightarrow> unit pool_prog" where
  "create_slot_done now t =
     skip_then (emit BrowserCreated)
       (modify (\<lambda>p. p\<lparr>heap := (heap p)(next_slot p := new_browser_slot now),
                      create_outcomes := (create_outcomes p)(t := Created (next_slot p)),
                      next_slot := Suc (next_slot p)\<rparr>))"

definition create_slot_failed :: "exn \<Rightarrow> nat \<Rightarrow> unit pool_prog" where
  "create_slot_failed e t =
     skip_then (emit BrowserError)
       (skip_then (emit (TransportError ''browser_launch''))
         (modify (\<lambda>p. p\<lparr>create_outcomes := (create_outcomes p)(t := CreateFailed e)\<rparr>)))"

text \<open>\<open>_supervise_create_task\<close>: the critical sections after its wait.\<close>

definition supervise_timed_out :: "pool_config \<Rightarrow> time \<Rightarrow> nat \<Rightarrow> unit pool_prog" where
  "supervise_timed_out c now t = with_state (\<lambda>p.
     if t \<in> set (create_tasks p)
     then skip_then (abandon_create_task t)
            (skip_then (log_acquire_timeout c now ''browser_launch'')
              (publish_metrics_unlocked c now))
     else ret ())"

definition supervise_finished :: "pool_config \<Rightarrow> time \<Rightarrow> nat \<Rightarrow> unit pool_prog" where
  "supervise_finished c now t = with_state (\<lambda>p.
     if t \<notin> set (create_tasks p) then ret ()
     else case create_outcomes p t of
       Running \<Rightarrow> ret ()
     | CreateFailed e \<Rightarrow>
         skip_then (finish_create_task t)
           (skip_then (modify (\<lambda>p. p\<lparr>create_failure_generation := Suc (create_failure_generation p),
                                      last_create_failure := Some e\<rparr>))
             (publish_metrics_unlocked c now))
     | Created s \<Rightarrow>
         skip_then (finish_create_task t)
           (skip_then (if closed p then do_schedule_close s Shutdown
                       else modify (\<lambda>p. p\<lparr>slots := slots p @ [s]\<rparr>))
             (publish_metrics_unlocked c now)))"

definition create_supervisor_done :: "nat \<Rightarrow> unit pool_prog" where
  "create_supervisor_done t = modify (\<lambda>p. p\<lparr>create_supervisors := set_discard t (create_supervisors p)\<rparr>)"

definition finish_abandoned_creation :: "pool_config \<Rightarrow> time \<Rightarrow> nat \<Rightarrow> unit pool_prog" where
  "finish_abandoned_creation c now t =
     skip_then (modify (\<lambda>p. p\<lparr>create_watchers := set_discard t (create_watchers p)\<rparr>))
    (skip_then (with_state (\<lambda>p.
       case create_outcomes p t of
         Created s \<Rightarrow> do_schedule_close s (if closed p then Shutdown else ErrorReason)
       | _ \<Rightarrow> ret ()))
    (publish_metrics_unlocked c now))"

section \<open>Finishing a close\<close>

definition finish_close_slot :: "pool_config \<Rightarrow> time \<Rightarrow> (nat \<Rightarrow> bool) \<Rightarrow> nat \<Rightarrow> bool \<Rightarrow> unit pool_prog" where
  "finish_close_slot c now browser_closed s succeeded =
     skip_then (modify (\<lambda>p. p\<lparr>close_tasks := dict_del s (close_tasks p)\<rparr>))
    (skip_then (with_state (\<lambda>p.
       if succeeded \<or> s \<in> set (physically_closed_slots p) \<or> browser_closed s
       then modify (\<lambda>p. p\<lparr>failed_close_slots := set_discard s (failed_close_slots p),
                          physically_closed_slots := set_discard s (physically_closed_slots p)\<rparr>)
       else
         skip_then (upd_slot s (\<lambda>b. b\<lparr>close_failures := Suc (close_failures b)\<rparr>))
        (skip_then (upd_slot s (\<lambda>b. b\<lparr>next_close_retry_at :=
                      now + min CLOSE_RETRY_MAX_BACKOFF (seconds (2 ^ close_failures b))\<rparr>))
        (modify (\<lambda>p. p\<lparr>failed_close_slots := set_add s (failed_close_slots p)\<rparr>)))))
    (skip_then (replenish c now) (publish_metrics_unlocked c now)))"

text \<open>\<open>_reconcile_aborted_close_task\<close>: a close task that died before its own final section.\<close>

definition reconcile_aborted_close_task ::
    "pool_config \<Rightarrow> time \<Rightarrow> (nat \<Rightarrow> bool) \<Rightarrow> nat \<Rightarrow> nat \<Rightarrow> unit pool_prog" where
  "reconcile_aborted_close_task c now browser_closed s t = with_state (\<lambda>p.
     if dict_get (close_tasks p) s \<noteq> Some t then ret ()
     else finish_close_slot c now browser_closed s False)"

definition physical_close_finished :: "nat \<Rightarrow> unit pool_prog" where
  "physical_close_finished s =
     modify (\<lambda>p. p\<lparr>physically_closed_slots := set_add s (physically_closed_slots p)\<rparr>)"

definition reconcile_late_physical_close :: "pool_config \<Rightarrow> time \<Rightarrow> bool \<Rightarrow> nat \<Rightarrow> unit pool_prog" where
  "reconcile_late_physical_close c now close_task_done s = with_state (\<lambda>p.
     if dict_get (close_tasks p) s \<noteq> None \<and> \<not> close_task_done then ret ()
     else skip_then (modify (\<lambda>p. p\<lparr>failed_close_slots := set_discard s (failed_close_slots p),
                                    physically_closed_slots := set_discard s (physically_closed_slots p)\<rparr>))
            (publish_metrics_unlocked c now))"

text \<open>\<open>_run_close_slot\<close>: one immediate retry, never after a cancellation.  The argument lists
  how the attempts end; the result is \<open>succeeded\<close>.\<close>

fun run_close_attempts :: "nat \<Rightarrow> (exn + unit) list \<Rightarrow> bool" where
  "run_close_attempts _ [] = False"
| "run_close_attempts 0 _ = False"
| "run_close_attempts (Suc n) (Inr () # _) = True"
| "run_close_attempts (Suc n) (Inl CancelledError # _) = False"
| "run_close_attempts (Suc n) (Inl _ # rest) = run_close_attempts n rest"

definition run_close_slot ::
    "pool_config \<Rightarrow> time \<Rightarrow> (nat \<Rightarrow> bool) \<Rightarrow> nat \<Rightarrow> (exn + unit) list \<Rightarrow> unit pool_prog" where
  "run_close_slot c now browser_closed s attempts =
     finish_close_slot c now browser_closed s (run_close_attempts 2 attempts)"

end
