(* ===== verification/Pool_Operations.thy ===== *)
theory Pool_Operations
  imports Pool
begin

text \<open>
  The pool's public operations (\<open>camouflare/pool.py\<close>): acquiring and releasing a context slot,
  persistent contexts and their accounting finalizers, the lease life cycles, start-up,
  maintenance, quiescing and shutdown.
\<close>

section \<open>Reserving and releasing\<close>

definition reserve_slot :: "pool_config \<Rightarrow> time \<Rightarrow> nat \<Rightarrow> lease_kind \<Rightarrow> nat pool_prog" where
  "reserve_slot c now s kind = with_state (\<lambda>p.
     if state (heap p s) = Closing
     then raise_exn (RuntimeError ''Cannot reserve a closing browser slot'')
     else if active_contexts (heap p s) \<ge> max_contexts_per_browser c
     then raise_exn (RuntimeError ''Cannot reserve a browser slot at capacity'')
     else
       skip_then (upd_slot s (\<lambda>b. b\<lparr>active_contexts := Suc (active_contexts b), uses := Suc (uses b)\<rparr>))
      (skip_then (if kind = Transient
                  then modify (\<lambda>p. p\<lparr>transient_contexts := Suc (transient_contexts p)\<rparr>) else ret ())
      (skip_then (with_state (\<lambda>p.
         if state (heap p s) = Ready \<and> should_recycle c now (heap p s)
         then mark_retiring s (recycle_reason c now (heap p s)) else ret ()))
      (skip_then (modify (\<lambda>p. p\<lparr>reservations := (reservations p)
                    (next_reservation p := \<lparr>res_slot = s, res_kind = kind, res_released = False\<rparr>),
                  next_reservation := Suc (next_reservation p)\<rparr>))
      (ret (next_reservation p))))))"

text \<open>The last part of \<open>_release_slot\<close> runs on the released slot.\<close>

definition retire_after_release ::
    "pool_config \<Rightarrow> time \<Rightarrow> nat \<Rightarrow> bool \<Rightarrow> retire_reason \<Rightarrow> string \<Rightarrow> unit pool_prog" where
  "retire_after_release c now s discard discard_reason transport_phase =
     skip_then (with_state (\<lambda>p.
       if discard
       then skip_then (mark_retiring s discard_reason)
              (if discard_reason = Disconnected
               then skip_then (emit BrowserDisconnected) (emit (TransportError transport_phase))
               else emit BrowserError)
       else if should_recycle c now (heap p s)
       then mark_retiring s (recycle_reason c now (heap p s))
       else ret ()))
    (with_state (\<lambda>p.
       if state (heap p s) = Retiring \<and> active_contexts (heap p s) = 0
       then do_schedule_close s (case retire_reason (heap p s) of Some x \<Rightarrow> x | None \<Rightarrow> OtherReason)
       else ret ()))"

definition release_slot ::
    "pool_config \<Rightarrow> time \<Rightarrow> nat \<Rightarrow> bool \<Rightarrow> retire_reason \<Rightarrow> string \<Rightarrow> unit pool_prog" where
  "release_slot c now r discard discard_reason transport_phase = with_state (\<lambda>p.
     let s = res_slot (reservations p r); kind = res_kind (reservations p r) in
     if res_released (reservations p r) then ret ()
     else if active_contexts (heap p s) = 0
     then raise_exn (RuntimeError ''Browser-slot context accounting underflow'')
     else if kind = Transient \<and> transient_contexts p = 0
     then raise_exn (RuntimeError ''Transient-context accounting underflow'')
     else
       skip_then (modify (\<lambda>p. p\<lparr>reservations := (reservations p)
                    (r := (reservations p r)\<lparr>res_released := True\<rparr>)\<rparr>))
      (skip_then (upd_slot s (\<lambda>b. b\<lparr>active_contexts := active_contexts b - 1\<rparr>))
      (skip_then (if kind = Transient
                  then modify (\<lambda>p. p\<lparr>transient_contexts := transient_contexts p - 1\<rparr>) else ret ())
      (skip_then (retire_after_release c now s discard discard_reason transport_phase)
      (publish_metrics_unlocked c now)))))"

section \<open>Acquiring\<close>

record acquire_loop =
  deadline :: time
  observed_failure_generation :: nat
  launched :: bool

definition acquire_begin :: "pool_config \<Rightarrow> time \<Rightarrow> pool \<Rightarrow> acquire_loop" where
  "acquire_begin c now p =
     \<lparr>deadline = now + acquire_timeout c,
      observed_failure_generation = create_failure_generation p, launched = False\<rparr>"

datatype acquire_step = Reserved nat | MustWait bool

definition capacity_timeout :: exn where
  "capacity_timeout = PoolAcquireTimeout ''Timed out waiting for browser context capacity.''"

text \<open>The gate of a launch by a waiting request.\<close>

definition may_launch :: "pool_config \<Rightarrow> acquire_loop \<Rightarrow> pool \<Rightarrow> bool" where
  "may_launch c l p \<longleftrightarrow>
     \<not> launched l
     \<and> usable_generations p < max_browsers c
     \<and> physical_generations p < max_physical_generations c
     \<and> length (create_watchers p) < max_abandoned_creations c"

text \<open>One pass of the loop of \<open>_acquire_slot\<close> up to its wait.  \<open>now\<close> is the reading of the
  deadline check, \<open>later\<close> the one that computes \<open>remaining\<close>.\<close>

definition acquire_wait :: "pool_config \<Rightarrow> time \<Rightarrow> acquire_loop \<Rightarrow> acquire_step pool_prog" where
  "acquire_wait c later l = with_state (\<lambda>p.
     skip_then (if may_launch c l p
                then seq (start_create_task True) (\<lambda>_. publish_metrics_unlocked c later) else ret ())
       (if deadline l - later \<le> 0
        then skip_then (log_acquire_timeout c later ''capacity'') (raise_exn capacity_timeout)
        else skip_then (modify (\<lambda>p. p\<lparr>waiting_requests := Suc (waiting_requests p)\<rparr>))
               (skip_then (publish_metrics_unlocked c later) (ret (MustWait (launched l \<or> may_launch c l p))))))"

definition acquire_pick :: "pool_config \<Rightarrow> time \<Rightarrow> time \<Rightarrow> lease_kind \<Rightarrow> acquire_loop \<Rightarrow> acquire_step pool_prog" where
  "acquire_pick c now later kind l = with_state (\<lambda>p.
     case find (\<lambda>s. healthy_slot_available c now (heap p s)) (slots p) of
       Some s \<Rightarrow> seq (reserve_slot c now s kind)
                   (\<lambda>r. skip_then (publish_metrics_unlocked c now) (ret (Reserved r)))
     | None \<Rightarrow>
       (case find (\<lambda>s. soft_retiring_slot_available c (heap p s)) (slots p) of
          Some s \<Rightarrow> seq (reserve_slot c now s kind)
                      (\<lambda>r. skip_then (publish_metrics_unlocked c now) (ret (Reserved r)))
        | None \<Rightarrow>
           if create_failure_generation p \<noteq> observed_failure_generation l
           then (case last_create_failure p of None \<Rightarrow> acquire_wait c later l | Some e \<Rightarrow> raise_exn e)
           else acquire_wait c later l))"

definition acquire_section ::
    "pool_config \<Rightarrow> time \<Rightarrow> time \<Rightarrow> (nat \<Rightarrow> bool) \<Rightarrow> lease_kind \<Rightarrow> acquire_loop \<Rightarrow> acquire_step pool_prog" where
  "acquire_section c now later dead kind l = with_state (\<lambda>p.
     if closed p then raise_exn (RuntimeError ''Browser pool is closed'')
     else if now \<ge> deadline l
     then skip_then (log_acquire_timeout c now ''deadline'') (raise_exn capacity_timeout)
     else skip_then (refresh_recycling c now dead) (acquire_pick c now later kind l))"

text \<open>How the wait on the condition ends.\<close>

datatype wait_outcome = Notified | WaitTimedOut | WaitCancelled

definition acquire_wakeup :: "pool_config \<Rightarrow> time \<Rightarrow> wait_outcome \<Rightarrow> unit pool_prog" where
  "acquire_wakeup c now w =
     try_finally
       (case w of Notified \<Rightarrow> ret ()
        | WaitTimedOut \<Rightarrow> skip_then (log_acquire_timeout c now ''capacity'') (raise_exn capacity_timeout)
        | WaitCancelled \<Rightarrow> raise_exn CancelledError)
       (with_state (\<lambda>p.
          if waiting_requests p = 0
          then raise_exn (RuntimeError ''Pool waiter accounting underflow'')
          else skip_then (modify (\<lambda>p. p\<lparr>waiting_requests := waiting_requests p - 1\<rparr>))
                 (publish_metrics_unlocked c now)))"

text \<open>\<open>_observed_acquire_slot\<close> classifies the outcome for the metrics.\<close>

fun acquire_result :: "exn + 'a \<Rightarrow> string" where
  "acquire_result (Inr _) = ''success''"
| "acquire_result (Inl (PoolAcquireTimeout _)) = ''timeout''"
| "acquire_result (Inl CancelledError) = ''cancelled''"
| "acquire_result (Inl _) = ''error''"

definition observed_acquire :: "lease_kind \<Rightarrow> 'a pool_prog \<Rightarrow> 'a pool_prog" where
  "observed_acquire kind acquire = (\<lambda>p. case acquire p of (r, p') \<Rightarrow>
     (r, p'\<lparr>pool_events := pool_events p' @ [AcquireObserved kind (acquire_result r)]\<rparr>))"

section \<open>Persistent contexts and accounting finalizers\<close>

definition reserve_persistent :: "pool_config \<Rightarrow> time \<Rightarrow> nat pool_prog" where
  "reserve_persistent c now = with_state (\<lambda>p.
     if closed p
     then skip_then (emit (AcquireObserved Persistent ''rejected''))
            (raise_exn (RuntimeError ''Browser pool is closed''))
     else if persistent_contexts p \<ge> max_persistent_contexts c
     then skip_then (emit (AcquireObserved Persistent ''rejected''))
            (raise_exn (PersistentCapacityError
               (''No persistent-context capacity is available for a new session (limit ''
                @ nat_str (max_persistent_contexts c) @ '').'')))
     else skip_then (modify (\<lambda>p. p\<lparr>persistent_released :=
                                      (persistent_released p)(next_persistent p := False),
                                    next_persistent := Suc (next_persistent p),
                                    persistent_contexts := Suc (persistent_contexts p)\<rparr>))
            (skip_then (publish_metrics_unlocked c now) (ret (next_persistent p))))"

definition release_persistent_reservation :: "pool_config \<Rightarrow> time \<Rightarrow> nat \<Rightarrow> unit pool_prog" where
  "release_persistent_reservation c now q = with_state (\<lambda>p.
     if persistent_released p q then ret ()
     else if persistent_contexts p = 0
     then raise_exn (RuntimeError ''Persistent-context accounting underflow'')
     else skip_then (modify (\<lambda>p. p\<lparr>persistent_released := (persistent_released p)(q := True),
                                    persistent_contexts := persistent_contexts p - 1\<rparr>))
            (publish_metrics_unlocked c now))"

text \<open>Both kinds of finalizer: started in the background, run later by the loop, and removed
  from \<open>_accounting_tasks\<close> by its done callback, which also wakes the waiters.\<close>

definition start_finalizer ::
    "nat option \<Rightarrow> nat option \<Rightarrow> bool \<Rightarrow> retire_reason \<Rightarrow> string \<Rightarrow> finalizer pool_prog" where
  "start_finalizer r q discard reason phase = (\<lambda>p.
     let f = \<lparr>fin_task = next_task p, fin_slot_reservation = r, fin_persistent_reservation = q,
              fin_discard = discard, fin_discard_reason = reason, fin_transport_phase = phase\<rparr>
     in (Inr f, p\<lparr>next_task := Suc (next_task p), accounting_tasks := accounting_tasks p @ [f]\<rparr>))"

definition finalize_accounting :: "pool_config \<Rightarrow> time \<Rightarrow> finalizer \<Rightarrow> unit pool_prog" where
  "finalize_accounting c now f =
     try_finally
       (case fin_slot_reservation f of
          None \<Rightarrow> ret ()
        | Some r \<Rightarrow> release_slot c now r (fin_discard f) (fin_discard_reason f) (fin_transport_phase f))
       (case fin_persistent_reservation f of
          None \<Rightarrow> ret ()
        | Some q \<Rightarrow> release_persistent_reservation c now q)"

definition accounting_task_done :: "pool_config \<Rightarrow> time \<Rightarrow> finalizer \<Rightarrow> unit pool_prog" where
  "accounting_task_done c now f =
     skip_then (modify (\<lambda>p. p\<lparr>accounting_tasks := filter (\<lambda>g. fin_task g \<noteq> fin_task f) (accounting_tasks p)\<rparr>))
       (publish_metrics_unlocked c now)"

section \<open>Lease life cycles\<close>

definition BROWSER_DISCONNECTED_MARKERS :: "string list" where
  "BROWSER_DISCONNECTED_MARKERS =
     [''browser has been closed'',
      ''target page, context or browser has been closed'',
      ''connection closed'',
      ''transport closed'',
      ''browser closed'',
      ''browser.context.newcontext'']"

definition is_browser_disconnected_error :: "exn \<Rightarrow> bool" where
  "is_browser_disconnected_error e \<longleftrightarrow>
     list_ex (\<lambda>marker. contains marker (str_lower (exn_str e))) BROWSER_DISCONNECTED_MARKERS"

fun isl_exn :: "exn + 'a \<Rightarrow> exn option" where
  "isl_exn (Inl e) = Some e"
| "isl_exn (Inr _) = None"

text \<open>
  \<open>lease_context\<close>.  Every awaited call is a program on the pool, since other tasks run while it is
  awaited: \<open>acquire\<close>, opening the context, the leased body, closing the context under its
  deadline, and waiting for the accounting finalizer.
\<close>

definition lease_context ::
    "nat pool_prog \<Rightarrow> unit pool_prog \<Rightarrow> 'a pool_prog \<Rightarrow> unit pool_prog \<Rightarrow> (finalizer \<Rightarrow> unit pool_prog)
     \<Rightarrow> 'a pool_prog" where
  "lease_context acquire new_context body close_context await_finalizer =
     seq (observed_acquire Transient acquire) (\<lambda>r p.
       case new_context p of
         (Inl e, p1) \<Rightarrow>
           seq (start_finalizer (Some r) None
                  (e = CancelledError \<or> is_browser_disconnected_error e)
                  (if e = CancelledError then ErrorReason else Disconnected) ''context_create'')
             (\<lambda>f. skip_then (try_except (await_finalizer f) (\<lambda>_. ret ())) (raise_exn e)) p1
       | (Inr _, p1) \<Rightarrow>
           (case body p1 of (b, p2) \<Rightarrow>
             (case close_context p2 of (cl, p3) \<Rightarrow>
               (let body_failed = (isl_exn b \<noteq> None);
                    body_cancelled = (isl_exn b = Some CancelledError);
                    disconnected = (case isl_exn cl of Some e \<Rightarrow> is_browser_disconnected_error e
                                                     | None \<Rightarrow> False);
                    discard = (isl_exn cl \<noteq> None \<or> body_cancelled)
                in case seq (start_finalizer (Some r) None discard
                               (if disconnected then Disconnected else ErrorReason) ''cleanup'')
                          await_finalizer p3 of
                     (rel, p4) \<Rightarrow>
                       (case (isl_exn cl, isl_exn rel) of
                          (Some e, _) \<Rightarrow>
                            if \<not> disconnected \<and> \<not> body_failed then (Inl e, p4)
                            else (case isl_exn rel of
                                    Some e' \<Rightarrow> if \<not> body_failed then (Inl e', p4) else (b, p4)
                                  | None \<Rightarrow> (b, p4))
                        | (None, Some e') \<Rightarrow> if \<not> body_failed then (Inl e', p4) else (b, p4)
                        | (None, None) \<Rightarrow> (b, p4))))))"

text \<open>A persistent lease and the variables its \<open>release\<close> closure keeps.\<close>

record persistent_lease =
  pl_slot_reservation :: nat
  pl_persistent_reservation :: nat
  pl_closed :: bool
  pl_released :: bool
  pl_close_attempted :: bool
  pl_finalizer :: "finalizer option"

definition create_persistent_context ::
    "pool_config \<Rightarrow> time \<Rightarrow> nat pool_prog \<Rightarrow> unit pool_prog \<Rightarrow> (finalizer \<Rightarrow> unit pool_prog)
     \<Rightarrow> persistent_lease pool_prog" where
  "create_persistent_context c now acquire new_context await_finalizer =
     seq (reserve_persistent c now) (\<lambda>q p.
       case observed_acquire Persistent acquire p of (ra, p1) \<Rightarrow>
         (case seq (\<lambda>p. (ra, p)) (\<lambda>r. skip_then new_context (ret r)) p1 of
            (Inr r, p2) \<Rightarrow>
              (Inr \<lparr>pl_slot_reservation = r, pl_persistent_reservation = q, pl_closed = False,
                    pl_released = False, pl_close_attempted = False, pl_finalizer = None\<rparr>, p2)
          | (Inl e, p2) \<Rightarrow>
              seq (start_finalizer (case ra of Inr r \<Rightarrow> Some r | Inl _ \<Rightarrow> None) (Some q)
                     (is_browser_disconnected_error e \<or> e = CancelledError)
                     (if is_browser_disconnected_error e then Disconnected else ErrorReason)
                     ''context_create'')
                (\<lambda>f. skip_then (try_except (await_finalizer f) (\<lambda>_. ret ())) (raise_exn e)) p2))"

definition lease_settled :: "pool \<Rightarrow> persistent_lease \<Rightarrow> bool" where
  "lease_settled p l \<longleftrightarrow>
     res_released (reservations p (pl_slot_reservation l))
     \<and> persistent_released p (pl_persistent_reservation l)"

text \<open>The \<open>release\<close> closure; the result says what it raised.\<close>

definition persistent_release ::
    "unit pool_prog \<Rightarrow> (finalizer \<Rightarrow> unit pool_prog) \<Rightarrow> persistent_lease \<Rightarrow> pool
     \<Rightarrow> exn option \<times> persistent_lease \<times> pool" where
  "persistent_release close_context await_finalizer l p =
     (if pl_released l then (None, l, p)
      else
        let (close_error, p1) =
              (if pl_close_attempted l then (None, p)
               else case close_context p of (r, p') \<Rightarrow> (isl_exn r, p'));
            disconnected = (case close_error of Some e \<Rightarrow> is_browser_disconnected_error e | None \<Rightarrow> False);
            restart = (case pl_finalizer l of None \<Rightarrow> True
                       | Some f \<Rightarrow> f \<notin> set (accounting_tasks p1) \<and> \<not> lease_settled p1 l);
            (fin, p2) = (if restart
                         then (case start_finalizer (Some (pl_slot_reservation l))
                                      (Some (pl_persistent_reservation l)) (close_error \<noteq> None)
                                      (if disconnected then Disconnected else ErrorReason) ''cleanup'' p1 of
                                 (Inr f, p') \<Rightarrow> (Some f, p') | (Inl _, p') \<Rightarrow> (pl_finalizer l, p'))
                         else (pl_finalizer l, p1));
            (await_error, p3) = (case fin of None \<Rightarrow> (None, p2)
                                 | Some f \<Rightarrow> (case await_finalizer f p2 of (r, p') \<Rightarrow> (isl_exn r, p')));
            l' = l\<lparr>pl_close_attempted := True, pl_finalizer := fin, pl_released := lease_settled p3 l\<rparr>
        in (if close_error \<noteq> None \<and> \<not> disconnected then close_error else await_error, l', p3))"

definition persistent_lease_close ::
    "unit pool_prog \<Rightarrow> (finalizer \<Rightarrow> unit pool_prog) \<Rightarrow> persistent_lease \<Rightarrow> pool
     \<Rightarrow> exn option \<times> persistent_lease \<times> pool" where
  "persistent_lease_close close_context await_finalizer l p =
     (if pl_closed l then (None, l, p)
      else case persistent_release close_context await_finalizer l p of
        (None, l', p') \<Rightarrow> (None, l'\<lparr>pl_closed := True\<rparr>, p')
      | (Some e, l', p') \<Rightarrow> (Some e, l', p'))"

end
