(* ===== verification/Pool_Lifecycle.thy ===== *)
theory Pool_Lifecycle
  imports Pool_Operations
begin

text \<open>
  Start-up, maintenance, quiescing and shutdown of the browser pool
  (\<open>camouflare/pool.py\<close>).  The coroutine of a start-up is cut at its awaits: begin the launches,
  then one of interrupted, failed, registered; a registration can be followed by a recovery.
\<close>

section \<open>Start-up\<close>

text \<open>\<open>start()\<close> joins or creates the start-up task; the result says whether to wait for it.\<close>

definition start_enter :: "bool pool_prog" where
  "start_enter = with_state (\<lambda>p.
     if closed p then raise_exn (RuntimeError ''Browser pool is closed'')
     else if started p \<and> \<not> starting p then ret False
     else skip_then (modify (\<lambda>p. p\<lparr>startup_task := True, startup_waiters := Suc (startup_waiters p)\<rparr>))
            (ret True))"

text \<open>A waiter leaves; the result says whether it has to cancel the start-up task.\<close>

definition start_leave :: "bool \<Rightarrow> bool \<Rightarrow> bool pool_prog" where
  "start_leave was_cancelled startup_done = with_state (\<lambda>p.
     if startup_waiters p = 0
     then raise_exn (RuntimeError ''Browser-pool startup waiter accounting underflow'')
     else skip_then (modify (\<lambda>p. p\<lparr>startup_waiters := startup_waiters p - 1\<rparr>))
            (ret (was_cancelled \<and> startup_waiters p = 1 \<and> \<not> startup_done)))"

definition startup_task_done :: "unit pool_prog" where
  "startup_task_done = modify (\<lambda>p. p\<lparr>startup_task := False\<rparr>)"

primrec start_launches :: "nat \<Rightarrow> nat list pool_prog" where
  "start_launches 0 = ret []"
| "start_launches (Suc n) =
     seq (start_create_task False) (\<lambda>t. seq (start_launches n) (\<lambda>ts. ret (t # ts)))"

text \<open>The first section of \<open>_start_once\<close>: \<open>None\<close> when there is nothing to start.\<close>

definition start_once_begin :: "pool_config \<Rightarrow> time \<Rightarrow> nat list option pool_prog" where
  "start_once_begin c now = with_state (\<lambda>p.
     if started p then ret None
     else if closed p then raise_exn (RuntimeError ''Browser pool is closed'')
     else if physical_generations p + min_browsers c > max_physical_generations c
     then raise_exn (PoolAcquireTimeout ''Browser startup launch quarantine is at its bounded limit.'')
     else skip_then (modify (\<lambda>p. p\<lparr>started := True, starting := True\<rparr>))
            (seq (start_launches (min_browsers c)) (\<lambda>ts.
              skip_then (publish_metrics_unlocked c now)
                (skip_then (modify (\<lambda>p. p\<lparr>starting := (ts \<noteq> [])\<rparr>)) (ret (Some ts))))))"

definition start_gives_up :: "unit pool_prog" where
  "start_gives_up =
     skip_then (modify (\<lambda>p. if closed p then p else p\<lparr>started := False\<rparr>))
       (modify (\<lambda>p. p\<lparr>starting := False\<rparr>))"

text \<open>The wait was cancelled, or \<open>_abort_startup_tasks\<close>.\<close>

definition start_once_interrupted :: "pool_config \<Rightarrow> time \<Rightarrow> nat list \<Rightarrow> unit pool_prog" where
  "start_once_interrupted c now tasks =
     skip_then (for_each abandon_create_task tasks)
       (skip_then start_gives_up (publish_metrics_unlocked c now))"

definition created_slots :: "pool \<Rightarrow> nat list \<Rightarrow> nat list" where
  "created_slots p tasks =
     concat (map (\<lambda>t. case create_outcomes p t of Created s \<Rightarrow> [s] | _ \<Rightarrow> []) tasks)"

text \<open>Some launch failed or was not over in time: \<open>don\<close> and \<open>pending\<close> split the tasks.\<close>

definition start_once_failed ::
    "pool_config \<Rightarrow> time \<Rightarrow> nat list \<Rightarrow> nat list \<Rightarrow> unit pool_prog" where
  "start_once_failed c now don pending =
     skip_then (for_each finish_create_task don)
    (skip_then (for_each abandon_create_task pending)
    (skip_then (with_state (\<lambda>p. for_each (\<lambda>s. do_schedule_close s ErrorReason) (created_slots p don)))
    (skip_then start_gives_up
    (skip_then (if pending \<noteq> [] then log_acquire_timeout c now ''browser_launch'' else ret ())
    (publish_metrics_unlocked c now)))))"

definition register_started_slots ::
    "pool_config \<Rightarrow> time \<Rightarrow> nat list \<Rightarrow> nat list \<Rightarrow> bool \<Rightarrow> bool pool_prog" where
  "register_started_slots c now tasks ss cancelled =
     skip_then (for_each finish_create_task tasks)
       (with_state (\<lambda>p. if closed p \<or> cancelled
        then skip_then (for_each (\<lambda>s. do_schedule_close s (if closed p then Shutdown else ErrorReason)) ss)
               (skip_then (publish_metrics_unlocked c now) (ret False))
        else skip_then (modify (\<lambda>p. p\<lparr>slots := slots p @ ss\<rparr>))
               (skip_then (publish_metrics_unlocked c now) (ret True))))"

text \<open>The end of a start-up whose registration went through.\<close>

definition start_once_registered :: "bool \<Rightarrow> unit pool_prog" where
  "start_once_registered registered =
     skip_then (modify (\<lambda>p. p\<lparr>starting := False\<rparr>))
       (unless_raise registered (RuntimeError ''Browser pool is closed''))"

text \<open>The registration's owner was interrupted: both flags fall at once, recovery follows.\<close>

definition start_registration_interrupted :: "unit pool_prog" where
  "start_registration_interrupted = modify (\<lambda>p. p\<lparr>started := False, starting := False\<rparr>)"

definition recover_cancelled_start ::
    "pool_config \<Rightarrow> time \<Rightarrow> nat list \<Rightarrow> nat list \<Rightarrow> unit pool_prog" where
  "recover_cancelled_start c now tasks ss =
     skip_then (for_each finish_create_task tasks)
    (skip_then (for_each (\<lambda>s. skip_then (mark_retiring s ErrorReason)
                  (with_state (\<lambda>p. if active_contexts (heap p s) = 0
                       then do_schedule_close s ErrorReason else ret ()))) ss)
    (publish_metrics_unlocked c now))"

section \<open>Serving state\<close>

text \<open>The loop of \<open>is_full_and_serving\<close>; \<open>None\<close> is its early \<open>return False\<close>.\<close>

fun full_and_serving_loop :: "pool_config \<Rightarrow> (nat \<Rightarrow> bool) \<Rightarrow> (nat \<Rightarrow> browser_slot) \<Rightarrow> nat list \<Rightarrow> nat \<Rightarrow> nat option" where
  "full_and_serving_loop c dead h [] active = Some active"
| "full_and_serving_loop c dead h (s # ss) active =
     (let b = h s in
      if dead s then None
      else if state b = Retiring \<and> \<not> is_soft_retire_reason (retire_reason b) then None
      else if active_contexts b = 0
      then (if state b = Ready then None else full_and_serving_loop c dead h ss active)
      else if active_contexts b < max_contexts_per_browser c then None
      else full_and_serving_loop c dead h ss (active + active_contexts b))"

definition is_full_and_serving :: "pool_config \<Rightarrow> (nat \<Rightarrow> bool) \<Rightarrow> pool \<Rightarrow> bool" where
  "is_full_and_serving c dead p =
     (if \<not> started p \<or> closed p then False
      else case full_and_serving_loop c dead (heap p) (slots p) 0 of
        None \<Rightarrow> False | Some active \<Rightarrow> active > 0)"

definition refresh :: "pool_config \<Rightarrow> time \<Rightarrow> (nat \<Rightarrow> bool) \<Rightarrow> unit pool_prog" where
  "refresh c now dead = with_state (\<lambda>p.
     if \<not> started p \<or> closed p then ret ()
     else skip_then (refresh_recycling c now dead) (publish_metrics_unlocked c now))"

definition maintain :: "pool_config \<Rightarrow> time \<Rightarrow> (nat \<Rightarrow> bool) \<Rightarrow> unit pool_prog" where
  "maintain c now dead = with_state (\<lambda>p.
     if \<not> started p \<or> closed p then ret ()
     else skip_then (refresh_recycling c now dead)
            (skip_then (replenish c now) (publish_metrics_unlocked c now)))"

section \<open>Shutdown\<close>

definition retire_for_shutdown :: "nat \<Rightarrow> unit pool_prog" where
  "retire_for_shutdown s =
     skip_then (mark_retiring s Shutdown)
       (with_state (\<lambda>p. if active_contexts (heap p s) = 0 then do_schedule_close s Shutdown else ret ()))"

definition quiesce :: "pool_config \<Rightarrow> time \<Rightarrow> unit pool_prog" where
  "quiesce c now =
     skip_then (modify (\<lambda>p. p\<lparr>closed := True\<rparr>))
    (skip_then (with_state (\<lambda>p. for_each abandon_create_task (create_tasks p)))
    (skip_then (with_state (\<lambda>p. for_each retire_for_shutdown (slots p)))
    (publish_metrics_unlocked c now)))"

definition nothing_left_to_close :: "pool \<Rightarrow> bool \<Rightarrow> bool" where
  "nothing_left_to_close p startup_in_flight \<longleftrightarrow>
     slots p = [] \<and> create_tasks p = [] \<and> create_watchers p = [] \<and> close_tasks p = []
     \<and> failed_close_slots p = [] \<and> accounting_tasks p = [] \<and> \<not> startup_in_flight"

text \<open>The first section of \<open>close()\<close>; the result says whether the caller goes on to wait.\<close>

definition close_begin :: "pool_config \<Rightarrow> time \<Rightarrow> bool \<Rightarrow> bool pool_prog" where
  "close_begin c now startup_in_flight = with_state (\<lambda>p.
     if closed p \<and> nothing_left_to_close p startup_in_flight then ret False
     else
       skip_then (modify (\<lambda>p. p\<lparr>closed := True\<rparr>))
      (skip_then (with_state (\<lambda>p. for_each abandon_create_task (create_tasks p)))
      (skip_then (with_state (\<lambda>p. for_each (\<lambda>s. seq (schedule_failed_close_retry s) (\<lambda>_. ret ()))
                                  (failed_close_slots p)))
      (skip_then (with_state (\<lambda>p. for_each retire_for_shutdown (slots p)))
      (skip_then (publish_metrics_unlocked c now) (ret True))))))"

text \<open>The two wait conditions of \<open>close()\<close>: first the drain, then the close tasks.\<close>

definition close_drained :: "pool \<Rightarrow> bool" where
  "close_drained p \<longleftrightarrow>
     slots p = [] \<and> create_tasks p = [] \<and> create_watchers p = [] \<and> accounting_tasks p = []"

definition close_complete :: "pool \<Rightarrow> bool" where
  "close_complete p \<longleftrightarrow> close_drained p \<and> close_tasks p = []"

end
