(* ===== verification/Pool_Accounting.thy ===== *)
theory Pool_Accounting
  imports Pool_Lifecycle
begin

text \<open>
  The counters of the pool: what a slot's \<open>active_contexts\<close>, \<open>_transient_contexts\<close> and
  \<open>_persistent_contexts\<close> count, and that every operation keeps them exact.
\<close>

section \<open>What the counters count\<close>

definition held :: "pool \<Rightarrow> nat set" where
  "held p = {r. \<not> res_released (reservations p r)}"

definition held_on :: "pool \<Rightarrow> nat \<Rightarrow> nat set" where
  "held_on p s = {r. \<not> res_released (reservations p r) \<and> res_slot (reservations p r) = s}"

definition held_transient :: "pool \<Rightarrow> nat set" where
  "held_transient p = {r. \<not> res_released (reservations p r) \<and> res_kind (reservations p r) = Transient}"

definition held_persistent :: "pool \<Rightarrow> nat set" where
  "held_persistent p = {q. \<not> persistent_released p q}"

definition accounting :: "pool_config \<Rightarrow> pool \<Rightarrow> bool" where
  "accounting c p \<longleftrightarrow>
     (\<forall>r. r \<in> held p \<longrightarrow> r < next_reservation p)
     \<and> (\<forall>q. q \<in> held_persistent p \<longrightarrow> q < next_persistent p)
     \<and> (\<forall>s. active_contexts (heap p s) = card (held_on p s))
     \<and> (\<forall>s. active_contexts (heap p s) \<le> max_contexts_per_browser c)
     \<and> transient_contexts p = card (held_transient p)
     \<and> persistent_contexts p = card (held_persistent p)
     \<and> persistent_contexts p \<le> max_persistent_contexts c
     \<and> (\<forall>s. 0 < active_contexts (heap p s) \<longrightarrow> s \<in> set (slots p))
     \<and> (\<forall>s \<in> set (slots p). s < next_slot p)
     \<and> (\<forall>t s. create_outcomes p t = Created s \<longrightarrow> s < next_slot p)"

text \<open>The part of the state the counters talk about; what leaves it alone keeps them exact.\<close>

definition accounting_view ::
    "pool \<Rightarrow> (nat \<Rightarrow> slot_reservation) \<times> nat \<times> (nat \<Rightarrow> bool) \<times> nat \<times> (nat \<Rightarrow> nat) \<times> nat \<times> nat
       \<times> nat list \<times> nat \<times> (nat \<Rightarrow> create_outcome)" where
  "accounting_view p =
     (reservations p, next_reservation p, persistent_released p, next_persistent p,
      (\<lambda>s. active_contexts (heap p s)), transient_contexts p, persistent_contexts p,
      slots p, next_slot p, create_outcomes p)"

definition same_view :: "'a pool_prog \<Rightarrow> bool" where
  "same_view m \<longleftrightarrow> (\<forall>p. accounting_view (snd (m p)) = accounting_view p)"

lemma accounting_cong: "accounting_view p' = accounting_view p \<Longrightarrow> accounting c p' = accounting c p"
  by (simp add: accounting_view_def accounting_def held_def held_on_def held_transient_def
        held_persistent_def fun_eq_iff)

lemma keeps_same_view: "same_view m \<Longrightarrow> keeps (accounting c) m"
  unfolding same_view_def keeps_def by (metis accounting_cong)

lemma keeps_view_modify:
  "(\<And>p. accounting_view (f p) = accounting_view p) \<Longrightarrow> keeps (accounting c) (modify f)"
  by (rule keeps_modify) (simp cong: accounting_cong)

lemma keeps_upd_slot:
  "(\<And>b. active_contexts (f b) = active_contexts b) \<Longrightarrow> keeps (accounting c) (upd_slot s f)"
  unfolding upd_slot_def by (rule keeps_view_modify) (auto simp: accounting_view_def)

lemma keeps_emit [keeps_intros]: "keeps (accounting c) (emit e)"
  unfolding emit_def by (rule keeps_view_modify) (simp add: accounting_view_def)

lemma keeps_snapshot: "keeps I (snapshot_unlocked c now)"
  by (simp add: keeps_def snapshot_unlocked_def)

lemma keeps_publish [keeps_intros]: "keeps I (publish_metrics_unlocked c now)"
  unfolding publish_metrics_unlocked_def by (intro keeps_intros keeps_snapshot)

lemma keeps_log_acquire_timeout [keeps_intros]:
  "keeps (accounting c) (log_acquire_timeout c' now reason)"
  unfolding log_acquire_timeout_def by (intro keeps_intros keeps_snapshot)

section \<open>Retiring, closing, launching\<close>

lemma keeps_mark_retiring [keeps_intros]: "keeps (accounting c) (mark_retiring s reason)"
  unfolding mark_retiring_def by (intro keeps_intros keeps_upd_slot) simp_all

lemma keeps_start_close_task [keeps_intros]: "keeps (accounting c) (start_close_task s)"
proof (rule keepsI)
  fix p assume "accounting c p"
  then show "accounting c (snd (start_close_task s p))"
    by (subst accounting_cong [of _ p]) (simp_all add: start_close_task_def accounting_view_def)
qed

lemma accounting_remove_slot:
  assumes "accounting c p" and "active_contexts (heap p s) = 0"
  shows "accounting c (p\<lparr>slots := remove1 s (slots p)\<rparr>)"
proof -
  have "s' \<in> set (remove1 s (slots p))" if "s' \<in> set (slots p)" "0 < active_contexts (heap p s')" for s'
    using that assms(2) by (cases "s' = s") (auto simp: in_set_remove1)
  then show ?thesis
    using assms(1) notin_set_remove1
    by (auto simp: accounting_def held_def held_on_def held_transient_def held_persistent_def)
qed

text \<open>\<open>_mark_retiring_unlocked\<close> as one state change: it touches one slot object and the events.\<close>

definition retired_slot :: "retire_reason \<Rightarrow> browser_slot \<Rightarrow> browser_slot" where
  "retired_slot reason b =
     b\<lparr>state := Retiring,
       retire_reason := (if retire_reason b = None \<or> \<not> is_soft_retire_reason (Some reason)
                         then Some reason else retire_reason b),
       recycle_recorded := True\<rparr>"

definition retired :: "nat \<Rightarrow> retire_reason \<Rightarrow> pool \<Rightarrow> pool" where
  "retired s reason p =
     (if state (heap p s) = Closing then p
      else p\<lparr>heap := (heap p)(s := retired_slot reason (heap p s)),
             pool_events := pool_events p
               @ (if recycle_recorded (heap p s) then [] else [BrowserRecycle reason])\<rparr>)"

lemma mark_retiring_eq [simp]: "mark_retiring s reason p = (Inr (), retired s reason p)"
  by (cases "heap p s")
    (simp add: mark_retiring_def retired_def retired_slot_def upd_slot_def emit_def skip_then_apply)

lemma retired_fields [simp]:
  "slots (retired s reason p) = slots p" "reservations (retired s reason p) = reservations p"
  "next_reservation (retired s reason p) = next_reservation p"
  "persistent_released (retired s reason p) = persistent_released p"
  "next_persistent (retired s reason p) = next_persistent p"
  "transient_contexts (retired s reason p) = transient_contexts p"
  "persistent_contexts (retired s reason p) = persistent_contexts p"
  "waiting_requests (retired s reason p) = waiting_requests p"
  "next_slot (retired s reason p) = next_slot p"
  "create_outcomes (retired s reason p) = create_outcomes p"
  "create_tasks (retired s reason p) = create_tasks p"
  "create_watchers (retired s reason p) = create_watchers p"
  "create_supervisors (retired s reason p) = create_supervisors p"
  "close_tasks (retired s reason p) = close_tasks p"
  "failed_close_slots (retired s reason p) = failed_close_slots p"
  "next_task (retired s reason p) = next_task p"
  "closed (retired s reason p) = closed p"
  "started (retired s reason p) = started p"
  "starting (retired s reason p) = starting p"
  by (simp_all add: retired_def)

lemma retired_heap:
  "heap (retired s reason p) = (if state (heap p s) = Closing then heap p
                                else (heap p)(s := retired_slot reason (heap p s)))"
  by (simp add: retired_def)

lemma retired_slot_fields [simp]:
  "active_contexts (retired_slot reason b) = active_contexts b"
  "state (retired_slot reason b) = Retiring"
  "uses (retired_slot reason b) = uses b"
  "created_at (retired_slot reason b) = created_at b"
  by (simp_all add: retired_slot_def)

text \<open>What a close that starts leaves behind.\<close>

definition closing_state :: "nat \<Rightarrow> retire_reason \<Rightarrow> pool \<Rightarrow> pool" where
  "closing_state s reason p =
     (retired s reason p)\<lparr>slots := remove1 s (slots p),
        heap := (heap p)(s := (retired_slot reason (heap p s))\<lparr>state := Closing\<rparr>),
        close_tasks := dict_set s (next_task p) (close_tasks p), next_task := Suc (next_task p)\<rparr>"

lemma closing_state_fields [simp]:
  "slots (closing_state s reason p) = remove1 s (slots p)"
  "reservations (closing_state s reason p) = reservations p"
  "next_reservation (closing_state s reason p) = next_reservation p"
  "persistent_released (closing_state s reason p) = persistent_released p"
  "next_persistent (closing_state s reason p) = next_persistent p"
  "transient_contexts (closing_state s reason p) = transient_contexts p"
  "persistent_contexts (closing_state s reason p) = persistent_contexts p"
  "waiting_requests (closing_state s reason p) = waiting_requests p"
  "next_slot (closing_state s reason p) = next_slot p"
  "create_outcomes (closing_state s reason p) = create_outcomes p"
  "create_tasks (closing_state s reason p) = create_tasks p"
  "create_watchers (closing_state s reason p) = create_watchers p"
  "create_supervisors (closing_state s reason p) = create_supervisors p"
  "close_tasks (closing_state s reason p) = dict_set s (next_task p) (close_tasks p)"
  "failed_close_slots (closing_state s reason p) = failed_close_slots p"
  "next_task (closing_state s reason p) = Suc (next_task p)"
  "closed (closing_state s reason p) = closed p"
  "heap (closing_state s reason p) =
     (heap p)(s := (retired_slot reason (heap p s))\<lparr>state := Closing\<rparr>)"
  by (simp_all add: closing_state_def)

lemma schedule_close_cases:
  "schedule_close s reason p =
     (if state (heap p s) = Closing then (Inr (dict_get (close_tasks p) s), p)
      else if active_contexts (heap p s) \<noteq> 0
      then (Inl (RuntimeError ''Cannot close a browser slot with active contexts''), p)
      else (Inr (Some (next_task p)), closing_state s reason p))"
  by (simp add: schedule_close_def closing_state_def start_close_task_def skip_then_apply seq_apply
        upd_slot_def retired_heap)

lemma keeps_schedule_close [keeps_intros]: "keeps (accounting c) (schedule_close s reason)"
proof (rule keepsI)
  fix p assume acc: "accounting c p"
  show "accounting c (snd (schedule_close s reason p))"
  proof (cases "state (heap p s) = Closing \<or> active_contexts (heap p s) \<noteq> 0")
    case True
    with acc show ?thesis by (auto simp: schedule_close_cases)
  next
    case False
    then have "accounting_view (closing_state s reason p) = accounting_view (p\<lparr>slots := remove1 s (slots p)\<rparr>)"
      by (simp add: accounting_view_def fun_eq_iff)
    from accounting_cong [OF this, of c] False accounting_remove_slot [OF acc, of s] show ?thesis
      by (simp add: schedule_close_cases)
  qed
qed

lemma keeps_schedule_failed_close_retry [keeps_intros]:
  "keeps (accounting c) (schedule_failed_close_retry s)"
  unfolding schedule_failed_close_retry_def
  by (intro keeps_intros keeps_view_modify) (simp add: accounting_view_def)

lemma keeps_retry_failed_closes [keeps_intros]: "keeps (accounting c) (retry_failed_closes now)"
  unfolding retry_failed_closes_def by (intro keeps_intros)

lemma keeps_refresh_slot [keeps_intros]: "keeps (accounting c) (refresh_slot c' now dead s)"
  unfolding refresh_slot_def by (intro keeps_intros)

lemma keeps_refresh_recycling [keeps_intros]: "keeps (accounting c) (refresh_recycling c' now dead)"
  unfolding refresh_recycling_def by (intro keeps_intros)

section \<open>Launches and finished closes\<close>

lemma keeps_case_create_outcome [keeps_intros]:
  "keeps I m \<Longrightarrow> (\<And>s. keeps I (f s)) \<Longrightarrow> (\<And>e. keeps I (g e)) \<Longrightarrow>
     keeps I (case x of Running \<Rightarrow> m | Created s \<Rightarrow> f s | CreateFailed e \<Rightarrow> g e)"
  by (simp split: create_outcome.split)

lemma keeps_start_create_task [keeps_intros]: "keeps (accounting c) (start_create_task supervise)"
  by (rule keepsI)
    (auto simp: start_create_task_def Let_def accounting_def held_def held_on_def
      held_transient_def held_persistent_def split: if_splits)

lemma keeps_finish_create_task [keeps_intros]: "keeps (accounting c) (finish_create_task t)"
  unfolding finish_create_task_def by (rule keeps_view_modify) (simp add: accounting_view_def)

lemma keeps_abandon_create_task [keeps_intros]: "keeps (accounting c) (abandon_create_task t)"
  unfolding abandon_create_task_def
  by (intro keeps_intros keeps_view_modify) (simp add: accounting_view_def)

lemma keeps_replenish_loop [keeps_intros]: "keeps (accounting c) (replenish_loop c' n)"
proof (induction n)
  case (Suc n)
  then show ?case
    unfolding replenish_loop.simps by (intro keeps_intros)
qed simp

lemma keeps_replenish [keeps_intros]: "keeps (accounting c) (replenish c' now)"
  unfolding replenish_def by (intro keeps_intros)

lemma fresh_slot_idle:
  assumes "accounting c p" and "next_slot p \<le> s"
  shows "active_contexts (heap p s) = 0"
  using assms by (force simp: accounting_def)

lemma keeps_create_slot_done [keeps_intros]: "keeps (accounting c) (create_slot_done now t)"
proof -
  have "keeps (accounting c) (modify (\<lambda>p. p\<lparr>heap := (heap p)(next_slot p := new_browser_slot now),
                      create_outcomes := (create_outcomes p)(t := Created (next_slot p)),
                      next_slot := Suc (next_slot p)\<rparr>))"
  proof (rule keeps_modify)
    fix p assume acc: "accounting c p"
    have "held_on p (next_slot p) = {}" if "finite (held_on p (next_slot p))"
      using fresh_slot_idle [OF acc, of "next_slot p"] acc that by (simp add: accounting_def)
    moreover have "finite (held_on p (next_slot p))"
      using acc by (auto simp: accounting_def held_def held_on_def intro: finite_subset [of _ "{..<next_reservation p}"])
    ultimately show "accounting c (p\<lparr>heap := (heap p)(next_slot p := new_browser_slot now),
                      create_outcomes := (create_outcomes p)(t := Created (next_slot p)),
                      next_slot := Suc (next_slot p)\<rparr>)"
      using acc by (auto simp: accounting_def held_def held_on_def held_transient_def
          held_persistent_def new_browser_slot_def less_Suc_eq)
  qed
  then show ?thesis unfolding create_slot_done_def by (intro keeps_intros)
qed

lemma keeps_create_slot_failed [keeps_intros]: "keeps (accounting c) (create_slot_failed e t)"
  unfolding create_slot_failed_def
  by (intro keeps_intros keeps_modify)
    (auto simp: accounting_def held_def held_on_def held_transient_def held_persistent_def)

lemma keeps_supervise_timed_out [keeps_intros]: "keeps (accounting c) (supervise_timed_out c' now t)"
  unfolding supervise_timed_out_def by (intro keeps_intros)

text \<open>A slot enters the pool only when a launch created it.\<close>

lemma accounting_append_slot:
  assumes "accounting c p" and "\<forall>s \<in> set ss. s < next_slot p"
  shows "accounting c (p\<lparr>slots := slots p @ ss\<rparr>)"
  using assms by (auto simp: accounting_def held_def held_on_def held_transient_def held_persistent_def)

lemma finish_create_task_eq [simp]:
  "finish_create_task t p = (Inr (), p\<lparr>create_tasks := set_discard t (create_tasks p)\<rparr>)"
  by (simp add: finish_create_task_def)

lemma accounting_create_tasks [simp]:
  "accounting c (p\<lparr>create_tasks := ts\<rparr>) = accounting c p"
  by (rule accounting_cong) (simp add: accounting_view_def)

lemma accounting_flags [simp]:
  "accounting c (p\<lparr>started := b\<rparr>) = accounting c p"
  "accounting c (p\<lparr>starting := b\<rparr>) = accounting c p"
  "accounting c (p\<lparr>closed := b\<rparr>) = accounting c p"
  "accounting c (p\<lparr>waiting_requests := n\<rparr>) = accounting c p"
  "accounting c (p\<lparr>startup_task := b\<rparr>) = accounting c p"
  "accounting c (p\<lparr>startup_waiters := n\<rparr>) = accounting c p"
  "accounting c (p\<lparr>create_supervisors := ts\<rparr>) = accounting c p"
  "accounting c (p\<lparr>create_watchers := ts\<rparr>) = accounting c p"
  "accounting c (p\<lparr>close_tasks := d\<rparr>) = accounting c p"
  "accounting c (p\<lparr>failed_close_slots := ss\<rparr>) = accounting c p"
  "accounting c (p\<lparr>physically_closed_slots := ss\<rparr>) = accounting c p"
  "accounting c (p\<lparr>accounting_tasks := fs\<rparr>) = accounting c p"
  "accounting c (p\<lparr>next_task := n\<rparr>) = accounting c p"
  "accounting c (p\<lparr>last_create_failure := e\<rparr>) = accounting c p"
  "accounting c (p\<lparr>create_failure_generation := n\<rparr>) = accounting c p"
  by (rule accounting_cong, simp add: accounting_view_def)+

lemma created_slot_allocated: "accounting c p \<Longrightarrow> create_outcomes p t = Created s \<Longrightarrow> s < next_slot p"
  by (simp add: accounting_def)

lemma keeps_supervise_finished [keeps_intros]: "keeps (accounting c) (supervise_finished c' now t)"
proof (rule keepsI)
  fix p assume acc: "accounting c p"
  let ?p1 = "p\<lparr>create_tasks := set_discard t (create_tasks p)\<rparr>"
  have failed: "keeps (accounting c) (skip_then (modify (\<lambda>p. p\<lparr>create_failure_generation :=
       Suc (create_failure_generation p), last_create_failure := Some e\<rparr>)) (publish_metrics_unlocked c' now))" for e
    by (intro keeps_intros keeps_modify) simp
  have closes: "keeps (accounting c) (skip_then (do_schedule_close s Shutdown) (publish_metrics_unlocked c' now))" for s
    by (intro keeps_intros)
  have appended: "accounting c (snd (publish_metrics_unlocked c' now (?p1\<lparr>slots := slots ?p1 @ [s]\<rparr>)))"
    if "create_outcomes p t = Created s" for s
    using acc created_slot_allocated [OF acc that]
    by (intro keepsD [OF keeps_publish, of "accounting c"]) (simp add: accounting_append_slot [of c ?p1 "[s]", simplified])
  show "accounting c (snd (supervise_finished c' now t p))"
  proof (cases "create_outcomes p t")
    case (Created s)
    then show ?thesis
      using acc appended [OF Created] keepsD [OF closes, of ?p1]
      by (simp add: supervise_finished_def skip_then_apply)
  next
    case (CreateFailed e)
    then show ?thesis
      using acc keepsD [OF failed, of ?p1] by (simp add: supervise_finished_def skip_then_apply)
  qed (use acc in \<open>simp add: supervise_finished_def\<close>)
qed

lemma keeps_finish_abandoned_creation [keeps_intros]:
  "keeps (accounting c) (finish_abandoned_creation c' now t)"
  unfolding finish_abandoned_creation_def by (intro keeps_intros keeps_modify) simp

lemma keeps_create_supervisor_done [keeps_intros]: "keeps (accounting c) (create_supervisor_done t)"
  unfolding create_supervisor_done_def by (intro keeps_modify) simp

lemma keeps_finish_close_slot [keeps_intros]:
  "keeps (accounting c) (finish_close_slot c' now browser_closed s succeeded)"
  unfolding finish_close_slot_def by (intro keeps_intros keeps_modify keeps_upd_slot) simp_all

lemma keeps_reconcile [keeps_intros]:
  "keeps (accounting c) (reconcile_aborted_close_task c' now browser_closed s t)"
  "keeps (accounting c) (physical_close_finished s)"
  "keeps (accounting c) (reconcile_late_physical_close c' now fin s)"
  "keeps (accounting c) (run_close_slot c' now browser_closed s attempts)"
  unfolding reconcile_aborted_close_task_def physical_close_finished_def
    reconcile_late_physical_close_def run_close_slot_def
  by (intro keeps_intros keeps_modify; simp)+

section \<open>Reservations\<close>

lemma held_finite:
  assumes "accounting c p"
  shows "finite (held p)" "finite (held_on p s)" "finite (held_transient p)" "finite (held_persistent p)"
proof -
  show "finite (held p)"
    by (rule finite_subset [of _ "{..<next_reservation p}"]) (use assms in \<open>auto simp: accounting_def\<close>)
  then show "finite (held_on p s)" "finite (held_transient p)"
    by (auto simp: held_def held_on_def held_transient_def intro: rev_finite_subset)
  show "finite (held_persistent p)"
    by (rule finite_subset [of _ "{..<next_persistent p}"]) (use assms in \<open>auto simp: accounting_def\<close>)
qed

lemma held_next [simp]: "accounting c p \<Longrightarrow> next_reservation p \<notin> held p"
  by (auto simp: accounting_def)

text \<open>The net effect of a reservation and of a release on what the counters count.\<close>

definition reserve_effect :: "nat \<Rightarrow> lease_kind \<Rightarrow> pool \<Rightarrow> pool" where
  "reserve_effect s kind p =
     p\<lparr>heap := (heap p)(s := (heap p s)\<lparr>active_contexts := Suc (active_contexts (heap p s)),
                                       uses := Suc (uses (heap p s))\<rparr>),
       transient_contexts := (if kind = Transient then Suc (transient_contexts p) else transient_contexts p),
       reservations := (reservations p)
         (next_reservation p := \<lparr>res_slot = s, res_kind = kind, res_released = False\<rparr>),
       next_reservation := Suc (next_reservation p)\<rparr>"

lemma accounting_reserve_effect:
  assumes acc: "accounting c p" and "s \<in> set (slots p)"
    and "active_contexts (heap p s) < max_contexts_per_browser c"
  shows "accounting c (reserve_effect s kind p)"
proof -
  let ?p = "reserve_effect s kind p" and ?n = "next_reservation p"
  have h: "held ?p = insert ?n (held p)"
    "held_on ?p s' = (if s' = s then insert ?n (held_on p s') else held_on p s')"
    "held_transient ?p = (if kind = Transient then insert ?n (held_transient p) else held_transient p)"
    "held_persistent ?p = held_persistent p" for s'
    using held_next [OF acc]
    by (auto simp: reserve_effect_def held_def held_on_def held_transient_def held_persistent_def)
  have "?n \<notin> held_on p s" "?n \<notin> held_transient p"
    using held_next [OF acc] by (auto simp: held_def held_on_def held_transient_def)
  with assms held_finite [OF acc] h show ?thesis
    by (auto simp: accounting_def reserve_effect_def less_Suc_eq)
qed

lemma reserve_slot_eq:
  assumes "state (heap p s) \<noteq> Closing" and "active_contexts (heap p s) < max_contexts_per_browser c"
  shows "fst (reserve_slot c now s kind p) = Inr (next_reservation p)"
    and "accounting_view (snd (reserve_slot c now s kind p)) = accounting_view (reserve_effect s kind p)"
  using assms
  by (simp_all add: reserve_slot_def skip_then_apply upd_slot_def reserve_effect_def accounting_view_def
        retired_heap fun_eq_iff)

lemma accounting_reserve_slot:
  assumes acc: "accounting c p" and "s \<in> set (slots p)"
  shows "accounting c (snd (reserve_slot c now s kind p))"
proof (cases "state (heap p s) = Closing \<or> active_contexts (heap p s) \<ge> max_contexts_per_browser c")
  case True
  with acc show ?thesis by (auto simp: reserve_slot_def)
next
  case False
  with reserve_slot_eq(2) [of p s c now kind] accounting_reserve_effect [OF assms, of kind]
  show ?thesis using accounting_cong by (metis linorder_not_le)
qed

definition release_effect :: "nat \<Rightarrow> pool \<Rightarrow> pool" where
  "release_effect r p =
     (let s = res_slot (reservations p r) in
      p\<lparr>reservations := (reservations p)(r := (reservations p r)\<lparr>res_released := True\<rparr>),
        heap := (heap p)(s := (heap p s)\<lparr>active_contexts := active_contexts (heap p s) - 1\<rparr>),
        transient_contexts := (if res_kind (reservations p r) = Transient
                               then transient_contexts p - 1 else transient_contexts p)\<rparr>)"

lemma accounting_release_effect:
  assumes acc: "accounting c p" and "r \<in> held p"
  shows "accounting c (release_effect r p)"
proof -
  let ?p = "release_effect r p" and ?s = "res_slot (reservations p r)"
  have h: "held ?p = held p - {r}"
    "held_on ?p s' = (if s' = ?s then held_on p s' - {r} else held_on p s')"
    "held_transient ?p = (if res_kind (reservations p r) = Transient then held_transient p - {r}
                          else held_transient p)"
    "held_persistent ?p = held_persistent p" for s'
    by (auto simp: release_effect_def held_def held_on_def held_transient_def held_persistent_def Let_def)
  have "r \<in> held_on p ?s" "res_kind (reservations p r) = Transient \<Longrightarrow> r \<in> held_transient p"
    using assms(2) by (auto simp: held_def held_on_def held_transient_def)
  then have c: "card (held_on p ?s - {r}) = card (held_on p ?s) - 1"
    "res_kind (reservations p r) = Transient \<Longrightarrow> card (held_transient p - {r}) = card (held_transient p) - 1"
    by (simp_all add: card_Diff_singleton)
  have active: "active_contexts (heap ?p s') = (if s' = ?s then active_contexts (heap p s') - 1
                                                else active_contexts (heap p s'))" for s'
    by (simp add: release_effect_def Let_def)
  have rest: "next_reservation ?p = next_reservation p" "next_persistent ?p = next_persistent p"
    "persistent_contexts ?p = persistent_contexts p" "slots ?p = slots p" "next_slot ?p = next_slot p"
    "create_outcomes ?p = create_outcomes p"
    "transient_contexts ?p = (if res_kind (reservations p r) = Transient
                              then transient_contexts p - 1 else transient_contexts p)"
    by (simp_all add: release_effect_def Let_def)
  have a: "active_contexts (heap p s') = card (held_on p s')"
    "active_contexts (heap p s') \<le> max_contexts_per_browser c"
    "0 < active_contexts (heap p s') \<Longrightarrow> s' \<in> set (slots p)" for s'
    using acc by (auto simp: accounting_def)
  have "active_contexts (heap ?p s') = card (held_on ?p s')"
    "active_contexts (heap ?p s') \<le> max_contexts_per_browser c"
    "0 < active_contexts (heap ?p s') \<Longrightarrow> s' \<in> set (slots ?p)" for s'
    using a [of s'] c(1) by (auto simp: active h rest split: if_splits)
  moreover have "transient_contexts ?p = card (held_transient ?p)"
    using acc c(2) by (simp add: accounting_def rest h)
  ultimately show ?thesis
    using acc by (simp add: accounting_def h(1,4) rest)
qed

lemma held_positive:
  assumes acc: "accounting c p" and r: "r \<in> held p"
  shows "0 < active_contexts (heap p (res_slot (reservations p r)))"
    and "res_kind (reservations p r) = Transient \<Longrightarrow> 0 < transient_contexts p"
proof -
  have "r \<in> held_on p (res_slot (reservations p r))"
    and t: "res_kind (reservations p r) = Transient \<Longrightarrow> r \<in> held_transient p"
    using r by (auto simp: held_def held_on_def held_transient_def)
  with held_finite [OF acc] have "0 < card (held_on p (res_slot (reservations p r)))"
    by (auto simp: card_gt_0_iff)
  with acc show "0 < active_contexts (heap p (res_slot (reservations p r)))"
    by (simp add: accounting_def)
  show "0 < transient_contexts p" if "res_kind (reservations p r) = Transient"
    using t [OF that] held_finite [OF acc] acc by (auto simp: accounting_def card_gt_0_iff)
qed

lemma release_slot_eq:
  assumes "accounting c p" and "r \<in> held p"
  shows "release_slot c' now r discard reason phase p =
    skip_then (retire_after_release c' now (res_slot (reservations p r)) discard reason phase)
      (publish_metrics_unlocked c' now) (release_effect r p)"
proof (cases "res_kind (reservations p r) = Transient")
  case True
  with held_positive [OF assms] assms(2) show ?thesis
    by (simp add: release_slot_def Let_def skip_then_apply upd_slot_def release_effect_def held_def)
next
  case False
  with held_positive(1) [OF assms] assms(2) show ?thesis
    by (simp add: release_slot_def Let_def skip_then_apply upd_slot_def release_effect_def held_def)
qed

lemma release_slot_released:
  "r \<notin> held p \<Longrightarrow> release_slot c' now r discard reason phase p = (Inr (), p)"
  by (simp add: release_slot_def held_def Let_def)

lemma keeps_retire_after_release [keeps_intros]:
  "keeps (accounting c) (retire_after_release c' now s discard reason phase)"
  unfolding retire_after_release_def by (intro keeps_intros)

lemma keeps_release_slot [keeps_intros]:
  "keeps (accounting c) (release_slot c' now r discard reason phase)"
proof (rule keepsI)
  fix p assume acc: "accounting c p"
  have "keeps (accounting c) (skip_then (retire_after_release c' now (res_slot (reservations p r)) discard
          reason phase) (publish_metrics_unlocked c' now))"
    by (intro keeps_intros)
  then show "accounting c (snd (release_slot c' now r discard reason phase p))"
    using acc accounting_release_effect [OF acc, of r]
    by (cases "r \<in> held p") (auto simp: release_slot_eq release_slot_released dest: keepsD)
qed

section \<open>Acquiring\<close>

lemma keeps_acquire_wait [keeps_intros]: "keeps (accounting c) (acquire_wait c' later l)"
  unfolding acquire_wait_def by (intro keeps_intros keeps_modify) simp

lemma find_Some_in: "find P xs = Some x \<Longrightarrow> x \<in> set xs \<and> P x"
  by (auto simp: find_Some_iff)

lemma keeps_acquire_pick [keeps_intros]: "keeps (accounting c) (acquire_pick c now later kind l)"
proof (rule keepsI)
  fix p assume acc: "accounting c p"
  have reserve: "accounting c (snd (seq (reserve_slot c now s kind)
          (\<lambda>r. skip_then (publish_metrics_unlocked c now) (ret (Reserved r))) p))"
    if "s \<in> set (slots p)" for s
  proof -
    have k: "keeps (accounting c) (skip_then (publish_metrics_unlocked c now) (ret (Reserved r)))" for r
      by (intro keeps_intros)
    show ?thesis
      using accounting_reserve_slot [OF acc that, of now kind] keepsD [OF k]
      by (auto simp: seq_apply split: prod.split sum.split)
  qed
  have wait: "accounting c (snd (acquire_wait c later l p))"
    by (rule keepsD [OF keeps_acquire_wait acc])
  show "accounting c (snd (acquire_pick c now later kind l p))"
    using reserve wait acc unfolding acquire_pick_def
    by (auto dest!: find_Some_in split: option.split)
qed

lemma keeps_acquire_section [keeps_intros]:
  "keeps (accounting c) (acquire_section c now later dead kind l)"
  unfolding acquire_section_def by (intro keeps_intros)

lemma keeps_case_wait_outcome [keeps_intros]:
  "keeps I m \<Longrightarrow> keeps I n \<Longrightarrow> keeps I k \<Longrightarrow>
     keeps I (case w of Notified \<Rightarrow> m | WaitTimedOut \<Rightarrow> n | WaitCancelled \<Rightarrow> k)"
  by (simp split: wait_outcome.split)

lemma keeps_acquire_wakeup [keeps_intros]: "keeps (accounting c) (acquire_wakeup c' now w)"
  unfolding acquire_wakeup_def by (intro keeps_intros keeps_modify) simp

section \<open>Persistent contexts and finalizers\<close>

lemma accounting_reserve_persistent:
  assumes acc: "accounting c p" and "persistent_contexts p < max_persistent_contexts c"
  shows "accounting c (p\<lparr>persistent_released := (persistent_released p)(next_persistent p := False),
           next_persistent := Suc (next_persistent p), persistent_contexts := Suc (persistent_contexts p)\<rparr>)"
    (is "accounting c ?p")
proof -
  have "held_persistent ?p = insert (next_persistent p) (held_persistent p)"
    and "next_persistent p \<notin> held_persistent p"
    and "held ?p = held p" "held_transient ?p = held_transient p" "\<And>s. held_on ?p s = held_on p s"
    using acc by (auto simp: accounting_def held_persistent_def held_def held_on_def held_transient_def)
  with assms held_finite [OF acc] show ?thesis by (auto simp: accounting_def less_Suc_eq)
qed

lemma accounting_release_persistent:
  assumes acc: "accounting c p" and "q \<in> held_persistent p"
  shows "accounting c (p\<lparr>persistent_released := (persistent_released p)(q := True),
           persistent_contexts := persistent_contexts p - 1\<rparr>)" (is "accounting c ?p")
    and "0 < persistent_contexts p"
proof -
  have "held_persistent ?p = held_persistent p - {q}"
    and "held ?p = held p" "held_transient ?p = held_transient p" "\<And>s. held_on ?p s = held_on p s"
    by (auto simp: held_persistent_def held_def held_on_def held_transient_def)
  with assms held_finite [OF acc] show "accounting c ?p" by (auto simp: accounting_def)
  show "0 < persistent_contexts p"
    using assms held_finite(4) [OF acc] by (auto simp: accounting_def card_gt_0_iff)
qed

lemma keeps_reserve_persistent [keeps_intros]: "keeps (accounting c) (reserve_persistent c now)"
proof (rule keepsI)
  fix p assume acc: "accounting c p"
  have k: "keeps (accounting c) (skip_then (publish_metrics_unlocked c now) (ret (next_persistent p)))"
    by (intro keeps_intros)
  have e: "keeps (accounting c) (skip_then (emit ev) (raise_exn x))" for ev x
    by (intro keeps_intros)
  show "accounting c (snd (reserve_persistent c now p))"
    using acc keepsD [OF k accounting_reserve_persistent [OF acc]] keepsD [OF e acc]
    by (auto simp: reserve_persistent_def skip_then_apply emit_def)
qed

lemma keeps_release_persistent [keeps_intros]:
  "keeps (accounting c) (release_persistent_reservation c' now q)"
proof (rule keepsI)
  fix p assume acc: "accounting c p"
  show "accounting c (snd (release_persistent_reservation c' now q p))"
    using acc accounting_release_persistent [OF acc, of q]
      keepsD [OF keeps_publish, of "accounting c"]
    by (auto simp: release_persistent_reservation_def skip_then_apply held_persistent_def)
qed

lemma keeps_finalizers [keeps_intros]:
  "keeps (accounting c) (start_finalizer r q discard reason phase)"
  "keeps (accounting c) (finalize_accounting c' now f)"
  "keeps (accounting c) (accounting_task_done c' now f)"
  unfolding finalize_accounting_def accounting_task_done_def
  by (intro keeps_intros keeps_modify | simp add: keeps_def start_finalizer_def Let_def)+

section \<open>Start-up, maintenance and shutdown\<close>

lemma keeps_start_launches [keeps_intros]: "keeps (accounting c) (start_launches n)"
proof (induction n)
  case (Suc n)
  then show ?case unfolding start_launches.simps by (intro keeps_intros)
qed simp

lemma keeps_lifecycle [keeps_intros]:
  "keeps (accounting c) start_enter"
  "keeps (accounting c) (start_leave was_cancelled startup_done)"
  "keeps (accounting c) startup_task_done"
  "keeps (accounting c) (start_once_begin c' now)"
  "keeps (accounting c) start_gives_up"
  "keeps (accounting c) (start_once_registered b)"
  "keeps (accounting c) start_registration_interrupted"
  "keeps (accounting c) (refresh c' now dead)"
  "keeps (accounting c) (maintain c' now dead)"
  "keeps (accounting c) (retire_for_shutdown s)"
  unfolding start_enter_def start_leave_def startup_task_done_def start_once_begin_def
    start_gives_up_def start_once_registered_def start_registration_interrupted_def
    refresh_def maintain_def retire_for_shutdown_def
  by ((intro keeps_intros keeps_modify)?; simp)+

lemma keeps_lifecycle_loops [keeps_intros]:
  "keeps (accounting c) (start_once_interrupted c' now tasks)"
  "keeps (accounting c) (start_once_failed c' now don pending)"
  "keeps (accounting c) (recover_cancelled_start c' now tasks ss)"
  "keeps (accounting c) (quiesce c' now)"
  "keeps (accounting c) (close_begin c' now startup_in_flight)"
  unfolding start_once_interrupted_def start_once_failed_def recover_cancelled_start_def
    quiesce_def close_begin_def
  by ((intro keeps_intros keeps_modify)?; simp)+

end
