(* ===== verification/Pool_Structure.thy ===== *)
theory Pool_Structure
  imports Pool_Accounting
begin

text \<open>
  Where a browser of the pool can be: in \<open>_slots\<close>, in the hands of a launch task, in a close task
  or among the failed closes, and never in two of them; and how many there can be.
\<close>

section \<open>Structure\<close>

definition close_structure :: "pool \<Rightarrow> bool" where
  "close_structure p \<longleftrightarrow>
     distinct (slots p)
     \<and> (\<forall>s \<in> set (slots p). state (heap p s) \<noteq> Closing)
     \<and> (\<forall>s \<ge> next_slot p. state (heap p s) = Closing)
     \<and> distinct (map fst (close_tasks p))
     \<and> distinct (failed_close_slots p)
     \<and> (\<forall>s. dict_has s (close_tasks p) \<longrightarrow> s \<notin> set (failed_close_slots p))
     \<and> (\<forall>s. dict_has s (close_tasks p) \<or> s \<in> set (failed_close_slots p) \<longrightarrow>
             state (heap p s) = Closing \<and> s < next_slot p)"

definition task_structure :: "pool \<Rightarrow> bool" where
  "task_structure p \<longleftrightarrow>
     distinct (create_tasks p)
     \<and> distinct (create_watchers p)
     \<and> set (create_tasks p) \<inter> set (create_watchers p) = {}
     \<and> (\<forall>t. t \<in> set (create_tasks p) \<or> t \<in> set (create_watchers p) \<or> t \<in> set (create_supervisors p) \<longrightarrow>
             t < next_task p)"

definition launch_structure :: "pool \<Rightarrow> bool" where
  "launch_structure p \<longleftrightarrow>
     (\<forall>t s. create_outcomes p t = Created s \<longrightarrow> t < next_task p \<and> s < next_slot p)
     \<and> (\<forall>t t' s. create_outcomes p t = Created s \<longrightarrow> t' \<noteq> t \<longrightarrow> create_outcomes p t' \<noteq> Created s)
     \<and> (\<forall>t s. create_outcomes p t = Created s \<longrightarrow>
             t \<in> set (create_tasks p) \<or> t \<in> set (create_watchers p) \<longrightarrow> s \<notin> set (slots p))
     \<and> (\<forall>t s. create_outcomes p t = Created s \<longrightarrow> t \<in> set (create_tasks p) \<longrightarrow> state (heap p s) \<noteq> Closing)"

definition structured :: "pool \<Rightarrow> bool" where
  "structured p \<longleftrightarrow> close_structure p \<and> task_structure p \<and> launch_structure p"

lemmas structure_defs = structured_def close_structure_def task_structure_def launch_structure_def

lemma launch_old:
  "launch_structure p \<Longrightarrow> create_outcomes p t = Created s \<Longrightarrow> t < next_task p \<and> s < next_slot p"
  by (simp add: launch_structure_def)

lemma launch_inj:
  "launch_structure p \<Longrightarrow> create_outcomes p t = Created s \<Longrightarrow> create_outcomes p t' = Created s \<Longrightarrow> t = t'"
  unfolding launch_structure_def by blast

lemma launch_disjoint:
  "launch_structure p \<Longrightarrow> create_outcomes p t = Created s \<Longrightarrow>
     t \<in> set (create_tasks p) \<or> t \<in> set (create_watchers p) \<Longrightarrow> s \<notin> set (slots p)"
  unfolding launch_structure_def by blast

lemma launch_open:
  "launch_structure p \<Longrightarrow> create_outcomes p t = Created s \<Longrightarrow> t \<in> set (create_tasks p) \<Longrightarrow>
     state (heap p s) \<noteq> Closing"
  unfolding launch_structure_def by blast

text \<open>A launch that ends creates a slot nobody knew.\<close>

lemma launch_structure_created:
  assumes l: "launch_structure p" and t: "t < next_task p" and b: "state b \<noteq> Closing"
    and n: "next_slot p \<notin> set (slots p)"
    and o': "create_outcomes p' = (create_outcomes p)(t := Created (next_slot p))"
    and "heap p' = (heap p)(next_slot p := b)" "next_slot p' = Suc (next_slot p)"
    "next_task p' = next_task p" "slots p' = slots p" "create_tasks p' = create_tasks p"
    "create_watchers p' = create_watchers p"
  shows "launch_structure p'"
proof -
  have fresh: "create_outcomes p t' \<noteq> Created (next_slot p)" for t'
    using launch_old [OF l] by blast
  have old: "t' \<noteq> t \<and> create_outcomes p t' = Created s \<or> t' = t \<and> s = next_slot p"
    if "create_outcomes p' t' = Created s" for t' s
    using that by (auto simp: o' split: if_splits)
  show ?thesis
    unfolding launch_structure_def assms(6-)
  proof (intro conjI allI impI)
    fix t' s assume "create_outcomes p' t' = Created s"
    from old [OF this] launch_old [OF l, of t' s] t show "t' < next_task p" "s < Suc (next_slot p)" by auto
  next
    fix t1 t2 s assume "create_outcomes p' t1 = Created s" "t2 \<noteq> t1"
    with old [of t1 s] old [of t2 s] fresh launch_inj [OF l, of t1 s t2]
    show "create_outcomes p' t2 \<noteq> Created s" by auto
  next
    fix t' s assume "create_outcomes p' t' = Created s"
      and "t' \<in> set (create_tasks p) \<or> t' \<in> set (create_watchers p)"
    with old [of t' s] n launch_disjoint [OF l, of t' s] show "s \<notin> set (slots p)" by blast
  next
    fix t' s assume "create_outcomes p' t' = Created s" and "t' \<in> set (create_tasks p)"
    with old [of t' s] b fresh [of t'] launch_open [OF l, of t' s]
    show "state (((heap p)(next_slot p := b)) s) \<noteq> Closing" by auto
  qed
qed

text \<open>Forgetting outcomes, and taking tasks and slots away, keeps the launches in order.\<close>

lemma launch_structure_sub:
  assumes "launch_structure p"
    and "\<And>t s. create_outcomes p' t = Created s \<Longrightarrow> create_outcomes p t = Created s"
    and "next_task p \<le> next_task p'" and "next_slot p \<le> next_slot p'"
    and "\<And>t s. create_outcomes p' t = Created s \<Longrightarrow>
           t \<in> set (create_tasks p') \<or> t \<in> set (create_watchers p') \<Longrightarrow> s \<notin> set (slots p')"
    and "\<And>t s. create_outcomes p' t = Created s \<Longrightarrow> t \<in> set (create_tasks p') \<Longrightarrow>
           state (heap p' s) \<noteq> Closing"
  shows "launch_structure p'"
  using assms unfolding launch_structure_def by (meson less_le_trans)

definition bounded :: "pool_config \<Rightarrow> pool \<Rightarrow> bool" where
  "bounded c p \<longleftrightarrow> closed p \<or> physical_generations p \<le> max_physical_generations c"

text \<open>The slots an operation may retire or close: those in \<open>_slots\<close>, and the closing ones, which it
  leaves alone.  Nothing takes a slot out of this set.\<close>

definition pool_owned :: "pool \<Rightarrow> nat \<Rightarrow> bool" where
  "pool_owned p s \<longleftrightarrow> s \<in> set (slots p) \<or> (state (heap p s) = Closing \<and> s < next_slot p)"

definition sound :: "pool_config \<Rightarrow> nat set \<Rightarrow> nat set \<Rightarrow> pool \<Rightarrow> bool" where
  "sound c owned failing p \<longleftrightarrow>
     structured p \<and> bounded c p \<and> (\<forall>s \<in> owned. pool_owned p s)
     \<and> (\<forall>s \<in> failing. s \<in> set (failed_close_slots p) \<or> dict_has s (close_tasks p))"

text \<open>An operation that launches nothing only has to keep the structure.\<close>

lemma sound_smaller:
  assumes "sound c Q F p" and "structured p'"
    and "\<And>s. s \<in> Q \<Longrightarrow> pool_owned p' s"
    and "\<And>s. s \<in> F \<Longrightarrow> s \<in> set (failed_close_slots p') \<or> dict_has s (close_tasks p')"
    and "physical_generations p' \<le> physical_generations p" and "closed p' = closed p"
  shows "sound c Q F p'"
  using assms unfolding sound_def bounded_def by auto

definition structure_view :: "pool \<Rightarrow> nat list \<times> (nat \<Rightarrow> slot_state) \<times> nat \<times> (nat \<times> nat) list \<times> nat list
    \<times> nat list \<times> nat list \<times> nat list \<times> nat \<times> (nat \<Rightarrow> create_outcome) \<times> bool" where
  "structure_view p =
     (slots p, (\<lambda>s. state (heap p s)), next_slot p, close_tasks p, failed_close_slots p,
      create_tasks p, create_watchers p, create_supervisors p, next_task p, create_outcomes p, closed p)"

lemma sound_cong: "structure_view p' = structure_view p \<Longrightarrow> sound c Q F p' = sound c Q F p"
  by (simp add: structure_view_def sound_def structure_defs bounded_def pool_owned_def
        physical_generations_def fun_eq_iff)

lemma keeps_sound_modify:
  "(\<And>p. structure_view (f p) = structure_view p) \<Longrightarrow> keeps (sound c Q F) (modify f)"
  by (rule keeps_modify) (simp cong: sound_cong)

lemma sound_irrelevant [simp]:
  "sound c Q F (p\<lparr>started := b\<rparr>) = sound c Q F p"
  "sound c Q F (p\<lparr>starting := b\<rparr>) = sound c Q F p"
  "sound c Q F (p\<lparr>waiting_requests := n\<rparr>) = sound c Q F p"
  "sound c Q F (p\<lparr>startup_task := b\<rparr>) = sound c Q F p"
  "sound c Q F (p\<lparr>startup_waiters := n\<rparr>) = sound c Q F p"
  "sound c Q F (p\<lparr>physically_closed_slots := ss\<rparr>) = sound c Q F p"
  "sound c Q F (p\<lparr>accounting_tasks := fs\<rparr>) = sound c Q F p"
  "sound c Q F (p\<lparr>last_create_failure := e\<rparr>) = sound c Q F p"
  "sound c Q F (p\<lparr>create_failure_generation := n\<rparr>) = sound c Q F p"
  "sound c Q F (p\<lparr>transient_contexts := n\<rparr>) = sound c Q F p"
  "sound c Q F (p\<lparr>persistent_contexts := n\<rparr>) = sound c Q F p"
  "sound c Q F (p\<lparr>reservations := rs\<rparr>) = sound c Q F p"
  "sound c Q F (p\<lparr>next_reservation := n\<rparr>) = sound c Q F p"
  "sound c Q F (p\<lparr>persistent_released := pr\<rparr>) = sound c Q F p"
  "sound c Q F (p\<lparr>next_persistent := n\<rparr>) = sound c Q F p"
  by (rule sound_cong, simp add: structure_view_def)+

lemma sound_upd_slot:
  "(\<And>b. state (f b) = state b) \<Longrightarrow> keeps (sound c Q F) (upd_slot s f)"
  unfolding upd_slot_def by (rule keeps_sound_modify) (auto simp: structure_view_def)

lemma sound_emit [keeps_intros]: "keeps (sound c Q F) (emit e)"
  unfolding emit_def by (rule keeps_sound_modify) (simp add: structure_view_def)

lemma sound_log [keeps_intros]: "keeps (sound c Q F) (log_acquire_timeout c' now reason)"
  unfolding log_acquire_timeout_def by (intro keeps_intros keeps_snapshot)

lemma sound_retired: "sound c Q F p \<Longrightarrow> sound c Q F (retired s reason p)"
  by (auto simp: sound_def structure_defs bounded_def pool_owned_def physical_generations_def retired_heap)

lemma sound_mark_retiring [keeps_intros]: "keeps (sound c Q F) (mark_retiring s reason)"
  by (simp add: keeps_def sound_retired)

section \<open>Closing\<close>

lemma structured_closing_state:
  assumes st: "structured p" and s: "state (heap p s) \<noteq> Closing"
    and free: "\<And>t. t \<in> set (create_tasks p) \<Longrightarrow> create_outcomes p t \<noteq> Created s"
  shows "structured (closing_state s reason p)"
proof -
  have "s < next_slot p" "\<not> dict_has s (close_tasks p)" "s \<notin> set (failed_close_slots p)"
    using st s by (force simp: structure_defs not_less [symmetric])+
  moreover have "set (remove1 s (slots p)) = set (slots p) - {s}"
    using st by (simp add: structure_defs)
  ultimately show ?thesis
    using st s free unfolding structure_defs
    by (auto simp: distinct_dict_set less_SucI)
qed

lemma length_remove1_if: "length (remove1 x xs) = (if x \<in> set xs then length xs - 1 else length xs)"
  by (induction xs) (auto dest: length_pos_if_in_set)

lemma physical_closing_state:
  assumes st: "structured p" and s: "state (heap p s) \<noteq> Closing"
  shows "physical_generations (closing_state s reason p) =
           (if s \<in> set (slots p) then physical_generations p else Suc (physical_generations p))"
proof -
  have "\<not> dict_has s (close_tasks p)" using st s by (auto simp: structure_defs)
  then show ?thesis
    using length_pos_if_in_set [of s "slots p"]
    by (auto simp: physical_generations_def length_dict_set length_remove1_if)
qed

lemma slot_allocated: "structured p \<Longrightarrow> state (heap p s) \<noteq> Closing \<Longrightarrow> s < next_slot p"
  by (force simp: structure_defs not_less [symmetric])

lemma pool_owned_closing_state:
  "structured p \<Longrightarrow> state (heap p s) \<noteq> Closing \<Longrightarrow> pool_owned p s' \<Longrightarrow>
     pool_owned (closing_state s reason p) s'"
  using slot_allocated by (auto simp: pool_owned_def)

lemma sound_schedule_close:
  assumes "sound c Q F p" and "pool_owned p s"
  shows "sound c Q F (snd (schedule_close s reason p))"
proof (cases "state (heap p s) = Closing \<or> active_contexts (heap p s) \<noteq> 0")
  case True
  with assms show ?thesis by (auto simp: schedule_close_cases)
next
  case False
  then have s: "state (heap p s) \<noteq> Closing" "s \<in> set (slots p)" and st: "structured p"
    using assms by (auto simp: pool_owned_def sound_def)
  have "structured (closing_state s reason p)"
    by (rule structured_closing_state [OF st s(1)]) (use st s(2) in \<open>auto simp: structure_defs\<close>)
  with False assms s physical_closing_state [OF st s(1), of reason] show ?thesis
    by (auto simp: schedule_close_cases sound_def bounded_def pool_owned_closing_state [OF st])
qed

lemma keeps_schedule_close_owned [keeps_intros]:
  "s \<in> Q \<Longrightarrow> keeps (sound c Q F) (schedule_close s reason)"
  by (rule keepsI, rule sound_schedule_close) (auto simp: sound_def)

lemma sound_failed_close_retry:
  assumes "sound c Q F p" and "s \<in> set (failed_close_slots p) \<or> dict_has s (close_tasks p)"
  shows "sound c Q F (snd (schedule_failed_close_retry s p))"
proof (cases "dict_get (close_tasks p) s")
  case None
  then have s: "s \<in> set (failed_close_slots p)" "\<not> dict_has s (close_tasks p)"
    using assms(2) by (auto simp: dict_get_None)
  let ?p = "p\<lparr>failed_close_slots := set_discard s (failed_close_slots p),
              close_tasks := dict_set s (next_task p) (close_tasks p), next_task := Suc (next_task p)\<rparr>"
  have "structured p" using assms(1) by (simp add: sound_def)
  then have "structured ?p"
    using s unfolding structure_defs by (auto simp: distinct_dict_set less_SucI)
  moreover have "physical_generations ?p = physical_generations p"
    using s \<open>structured p\<close> length_set_discard_in [of "failed_close_slots p" s]
    by (simp add: physical_generations_def length_dict_set structure_defs)
  ultimately have "sound c Q F ?p"
    using assms(1) by (auto simp: sound_def bounded_def pool_owned_def)
  then show ?thesis
    using None by (simp add: schedule_failed_close_retry_def skip_then_apply start_close_task_def)
next
  case (Some t)
  with assms show ?thesis by (simp add: schedule_failed_close_retry_def)
qed

lemma keeps_failed_close_retry [keeps_intros]:
  "s \<in> F \<Longrightarrow> keeps (sound c Q F) (schedule_failed_close_retry s)"
  by (rule keepsI, rule sound_failed_close_retry) (auto simp: sound_def)

text \<open>An operation chosen by the state may rely on what the state owns at that moment.\<close>

lemma sound_fail: "sound c Q F p \<Longrightarrow> sound c Q (F \<union> set (failed_close_slots p)) p"
  by (auto simp: sound_def)

lemma sound_weaken: "sound c Q F p \<Longrightarrow> Q' \<subseteq> Q \<Longrightarrow> F' \<subseteq> F \<Longrightarrow> sound c Q' F' p"
  by (auto simp: sound_def)

lemma keeps_sound_with_slots:
  assumes "\<And>p. keeps (sound c (Q \<union> set (slots p)) F) (m p)"
  shows "keeps (sound c Q F) (with_state m)"
proof (rule keepsI)
  fix p assume "sound c Q F p"
  then have "sound c (Q \<union> set (slots p)) F p"
    by (auto simp: sound_def pool_owned_def)
  from keepsD [OF assms this] show "sound c Q F (snd (with_state m p))"
    by (auto intro: sound_weaken)
qed

lemma keeps_sound_with_failed:
  assumes "\<And>p. keeps (sound c Q (F \<union> set (failed_close_slots p))) (m p)"
  shows "keeps (sound c Q F) (with_state m)"
proof (rule keepsI)
  fix p assume "sound c Q F p"
  from keepsD [OF assms sound_fail [OF this]] show "sound c Q F (snd (with_state m p))"
    by (auto intro: sound_weaken)
qed

lemma sound_retry_failed_closes [keeps_intros]: "keeps (sound c Q F) (retry_failed_closes now)"
  unfolding retry_failed_closes_def
  by (rule keeps_sound_with_failed) (intro keeps_intros; simp)

lemma sound_refresh_slot [keeps_intros]: "s \<in> Q \<Longrightarrow> keeps (sound c Q F) (refresh_slot c' now dead s)"
  unfolding refresh_slot_def by (intro keeps_intros; simp)

lemma sound_refresh_recycling [keeps_intros]: "keeps (sound c Q F) (refresh_recycling c' now dead)"
  unfolding refresh_recycling_def
  by (rule keeps_sound_with_slots) (intro keeps_intros; simp)

section \<open>Launching\<close>

lemma start_create_task_effect:
  assumes "structured p"
  shows "structured (snd (start_create_task b p))"
    and "physical_generations (snd (start_create_task b p)) = Suc (physical_generations p)"
    and "pool_owned (snd (start_create_task b p)) s = pool_owned p s"
    and "closed (snd (start_create_task b p)) = closed p"
proof -
  have n: "next_task p \<notin> set (create_tasks p)" "next_task p \<notin> set (create_watchers p)"
    using assms by (auto simp: structured_def task_structure_def)
  let ?q = "snd (start_create_task b p)"
  have q: "slots ?q = slots p" "heap ?q = heap p" "next_slot ?q = next_slot p"
    "close_tasks ?q = close_tasks p" "failed_close_slots ?q = failed_close_slots p"
    "create_tasks ?q = create_tasks p @ [next_task p]" "create_watchers ?q = create_watchers p"
    "set (create_supervisors ?q) \<subseteq> insert (next_task p) (set (create_supervisors p))"
    "next_task ?q = Suc (next_task p)" "create_outcomes ?q = (create_outcomes p)(next_task p := Running)"
    using n by (auto simp: start_create_task_def Let_def set_add_def)
  have sup: "t < Suc (next_task p)" if "t \<in> set (create_supervisors ?q)" for t
    using that q(8) assms by (auto simp: structure_defs intro: less_SucI)
  show "structured (snd (start_create_task b p))"
    unfolding structured_def
  proof (intro conjI)
    show "close_structure ?q" using assms by (simp add: structured_def close_structure_def q)
    show "task_structure ?q"
      using assms n sup by (auto simp: structured_def task_structure_def q less_SucI)
    show "launch_structure ?q"
      using assms unfolding structured_def launch_structure_def q
      by (simp add: less_SucI)
  qed
  show "physical_generations (snd (start_create_task b p)) = Suc (physical_generations p)"
    using n by (simp add: physical_generations_def start_create_task_def Let_def length_set_add)
  show "pool_owned (snd (start_create_task b p)) s = pool_owned p s"
    "closed (snd (start_create_task b p)) = closed p"
    by (simp_all add: pool_owned_def start_create_task_def Let_def)
qed

lemma sound_start_create_task:
  assumes "sound c Q {} p" and "physical_generations p < max_physical_generations c"
  shows "sound c Q {} (snd (start_create_task b p))"
  using assms start_create_task_effect [of p b] by (auto simp: sound_def bounded_def)

lemma start_create_task_Inr: "fst (start_create_task b p) = Inr (next_task p)"
  by (simp add: start_create_task_def Let_def)

lemma replenish_loop_sound:
  "sound c Q {} p \<Longrightarrow> physical_generations p + n \<le> max_physical_generations c \<Longrightarrow>
     sound c Q {} (snd (replenish_loop c n p))"
proof (induction n arbitrary: p)
  case (Suc n)
  let ?p = "snd (start_create_task True p)"
  from Suc.prems have "sound c Q {} ?p" "physical_generations ?p + n \<le> max_physical_generations c"
    using sound_start_create_task [of c Q p True] start_create_task_effect(2) [of p True]
    by (auto simp: sound_def)
  from Suc.IH [OF this] Suc.prems(1) show ?case
    using start_create_task_Inr [of True p]
    by (cases "start_create_task True p") (simp add: seq_apply)
qed simp

lemma max_browsers_le_physical: "max_browsers c \<le> max_physical_generations c"
  by (simp add: max_physical_generations_def)

lemma sound_replenish [keeps_intros]: "keeps (sound c Q {}) (replenish c now)"
proof (rule keepsI)
  fix p assume "sound c Q {} p"
  then show "sound c Q {} (snd (replenish c now p))"
    using replenish_loop_sound [of c Q p "nat (min (missing_browsers c now p)
        (int (max_browsers c) - int (physical_generations p)))"] max_browsers_le_physical [of c]
    by (cases "physical_generations p \<le> max_browsers c") (auto simp: replenish_def)
qed

lemma length_discard_le: "length (set_discard t ts) \<le> length ts"
  by (rule length_set_discard_le)

lemma sound_finish_create_task [keeps_intros]: "keeps (sound c Q F) (finish_create_task t)"
proof (rule keepsI)
  fix p assume "sound c Q F p"
  then show "sound c Q F (snd (finish_create_task t p))"
    using length_discard_le [of t "create_tasks p"]
    by (auto simp: sound_def structure_defs bounded_def pool_owned_def physical_generations_def)
qed

lemma sound_abandon_create_task [keeps_intros]: "keeps (sound c Q F) (abandon_create_task t)"
proof (rule keepsI)
  fix p assume s: "sound c Q F p"
  show "sound c Q F (snd (abandon_create_task t p))"
  proof (cases "t \<notin> set (create_tasks p) \<or> t \<in> set (create_watchers p)")
    case True
    with s show ?thesis by (auto simp: abandon_create_task_def)
  next
    case False
    let ?p = "p\<lparr>create_tasks := set_discard t (create_tasks p),
                create_supervisors := set_discard t (create_supervisors p),
                create_watchers := create_watchers p @ [t]\<rparr>"
    have st: "structured p" using s by (simp add: sound_def)
    then have "structured ?p" using False unfolding structure_defs by auto
    moreover have "physical_generations ?p = physical_generations p"
      using False st length_set_discard_in [of "create_tasks p" t]
      by (auto simp: physical_generations_def structure_defs)
    ultimately have "sound c Q F ?p" using s by (auto simp: sound_def bounded_def pool_owned_def)
    with False show ?thesis by (simp add: abandon_create_task_def skip_then_apply)
  qed
qed

lemma sound_create_slot_done:
  assumes s: "sound c Q {} p" and t: "t \<in> set (create_tasks p) \<or> t \<in> set (create_watchers p)"
    and "create_outcomes p t = Running"
  shows "sound c Q {} (snd (create_slot_done now t p))"
proof -
  let ?n = "next_slot p"
  let ?p = "p\<lparr>heap := (heap p)(?n := new_browser_slot now),
              create_outcomes := (create_outcomes p)(t := Created ?n), next_slot := Suc ?n\<rparr>"
  have st: "structured p" using s by (simp add: sound_def)
  have n: "?n \<notin> set (slots p)" "\<not> dict_has ?n (close_tasks p)" "?n \<notin> set (failed_close_slots p)"
    "\<And>t. create_outcomes p t \<noteq> Created ?n"
    using st by (auto simp: structured_def close_structure_def launch_structure_def)
  have "structured ?p"
    unfolding structured_def
  proof (intro conjI)
    show "close_structure ?p"
      using st n by (auto simp: structured_def close_structure_def new_browser_slot_def less_SucI)
    show "task_structure ?p" using st by (simp add: structured_def task_structure_def)
    show "launch_structure ?p"
    proof (rule launch_structure_created [of p t "new_browser_slot now"])
      show "launch_structure p" using st by (simp add: structured_def)
      show "t < next_task p" using st t unfolding structured_def task_structure_def by blast
    qed (simp_all add: n new_browser_slot_def)
  qed
  moreover have "pool_owned ?p s'" if "s' \<in> Q" for s'
    using s that n(1) by (auto simp: sound_def pool_owned_def)
  ultimately have "sound c Q {} ?p"
    by (rule sound_smaller [OF s]) (simp_all add: physical_generations_def)
  moreover have "structure_view (snd (create_slot_done now t p)) = structure_view ?p"
    by (simp add: create_slot_done_def skip_then_apply emit_def structure_view_def)
  ultimately show ?thesis by (metis sound_cong)
qed

lemma sound_create_slot_failed:
  assumes "sound c Q F p"
  shows "sound c Q F (snd (create_slot_failed e t p))"
proof -
  let ?p = "p\<lparr>create_outcomes := (create_outcomes p)(t := CreateFailed e)\<rparr>"
  have st: "structured p" using assms by (simp add: sound_def)
  have "structured ?p"
    unfolding structured_def
  proof (intro conjI)
    show "close_structure ?p" using st by (simp add: structured_def close_structure_def)
    show "task_structure ?p" using st by (simp add: structured_def task_structure_def)
    show "launch_structure ?p"
    proof (rule launch_structure_sub [of p])
      show l: "launch_structure p" using st by (simp add: structured_def)
      fix t' s assume *: "create_outcomes ?p t' = Created s"
      then show **: "create_outcomes p t' = Created s" by (simp split: if_splits)
      show "t' \<in> set (create_tasks ?p) \<or> t' \<in> set (create_watchers ?p) \<Longrightarrow> s \<notin> set (slots ?p)"
        using launch_disjoint [OF l **] by simp
      show "t' \<in> set (create_tasks ?p) \<Longrightarrow> state (heap ?p s) \<noteq> Closing"
        using launch_open [OF l **] by simp
    qed simp_all
  qed
  then have "sound c Q F ?p"
    by (rule sound_smaller [OF assms])
      (use assms in \<open>simp_all add: physical_generations_def sound_def pool_owned_def\<close>)
  moreover have "structure_view (snd (create_slot_failed e t p)) = structure_view ?p"
    by (simp add: create_slot_failed_def skip_then_apply emit_def structure_view_def)
  ultimately show ?thesis by (metis sound_cong)
qed

end
