(* ===== verification/Pool_Sections.thy ===== *)
theory Pool_Sections
  imports Pool_Structure
begin

text \<open>
  Every critical section of the pool keeps the structure and the physical ceiling.
\<close>

section \<open>The end of a launch\<close>

lemma sound_publish: "sound c Q F p \<Longrightarrow> sound c Q F (snd (publish_metrics_unlocked c' now p))"
  by (rule keepsD [OF keeps_publish, of "sound c Q F"])

lemma sound_supervise_timed_out [keeps_intros]:
  "keeps (sound c Q F) (supervise_timed_out c' now t)"
  unfolding supervise_timed_out_def by (intro keeps_intros)

lemma sound_create_supervisor_done [keeps_intros]: "keeps (sound c Q F) (create_supervisor_done t)"
proof (rule keepsI)
  fix p assume s: "sound c Q F p"
  let ?p = "p\<lparr>create_supervisors := set_discard t (create_supervisors p)\<rparr>"
  have st: "structured p" using s by (simp add: sound_def)
  have "structured ?p"
    using st unfolding structured_def close_structure_def task_structure_def launch_structure_def
    by simp
  then have "sound c Q F ?p"
    by (rule sound_smaller [OF s])
      (use s in \<open>simp_all add: physical_generations_def sound_def pool_owned_def\<close>)
  then show "sound c Q F (snd (create_supervisor_done t p))"
    by (simp add: create_supervisor_done_def)
qed

text \<open>A slot that a launch made and no task holds any more can be closed or taken in, as long
  as there is room for one more generation.\<close>

lemma sound_close_created:
  assumes s: "sound c Q F p" and free: "\<And>t. t \<in> set (create_tasks p) \<Longrightarrow> create_outcomes p t \<noteq> Created s'"
    and room: "closed p \<or> physical_generations p < max_physical_generations c"
  shows "sound c Q F (snd (schedule_close s' reason p))"
proof (cases "state (heap p s') = Closing \<or> active_contexts (heap p s') \<noteq> 0")
  case True
  with s show ?thesis by (auto simp: schedule_close_cases)
next
  case False
  then have ns: "state (heap p s') \<noteq> Closing" and st: "structured p"
    using s by (auto simp: sound_def)
  have "sound c Q F (closing_state s' reason p)"
    unfolding sound_def
  proof (intro conjI ballI)
    show "structured (closing_state s' reason p)"
      by (rule structured_closing_state [OF st ns free])
    show "bounded c (closing_state s' reason p)"
      using room s physical_closing_state [OF st ns, of reason]
      by (auto simp: bounded_def sound_def)
    show "pool_owned (closing_state s' reason p) q" if "q \<in> Q" for q
      using pool_owned_closing_state [OF st ns] s that by (simp add: sound_def)
    show "q \<in> set (failed_close_slots (closing_state s' reason p))
        \<or> dict_has q (close_tasks (closing_state s' reason p))" if "q \<in> F" for q
      using s that by (auto simp: sound_def)
  qed
  with False show ?thesis by (simp add: schedule_close_cases)
qed

lemma sound_take_in:
  assumes s: "sound c Q F p" and "state (heap p s') \<noteq> Closing" and "s' \<notin> set (slots p)"
    and free: "\<And>t. t \<in> set (create_tasks p) \<or> t \<in> set (create_watchers p) \<Longrightarrow> create_outcomes p t \<noteq> Created s'"
    and room: "closed p \<or> physical_generations p < max_physical_generations c"
  shows "sound c Q F (p\<lparr>slots := slots p @ [s']\<rparr>)"
  unfolding sound_def
proof (intro conjI ballI)
  let ?p = "p\<lparr>slots := slots p @ [s']\<rparr>"
  have st: "structured p" using s by (simp add: sound_def)
  show "structured ?p"
    unfolding structured_def
  proof (intro conjI)
    show "close_structure ?p"
      using st assms(2,3) by (simp add: structured_def close_structure_def)
    show "task_structure ?p" using st by (simp add: structured_def task_structure_def)
    show "launch_structure ?p"
    proof (rule launch_structure_sub [of p])
      show l: "launch_structure p" using st by (simp add: structured_def)
      fix t q assume "create_outcomes ?p t = Created q"
      then show **: "create_outcomes p t = Created q" by simp
      show "t \<in> set (create_tasks ?p) \<or> t \<in> set (create_watchers ?p) \<Longrightarrow> q \<notin> set (slots ?p)"
        using launch_disjoint [OF l **] free [of t] ** by auto
      show "t \<in> set (create_tasks ?p) \<Longrightarrow> state (heap ?p q) \<noteq> Closing"
        using launch_open [OF l **] by simp
    qed simp_all
  qed
  show "bounded c ?p" using room s by (auto simp: bounded_def sound_def physical_generations_def)
  show "pool_owned ?p q" if "q \<in> Q" for q using s that by (auto simp: sound_def pool_owned_def)
  show "q \<in> set (failed_close_slots ?p) \<or> dict_has q (close_tasks ?p)" if "q \<in> F" for q
    using s that by (simp add: sound_def)
qed

lemma sound_finish_create:
  "sound c Q F p \<Longrightarrow> sound c Q F (p\<lparr>create_tasks := set_discard t (create_tasks p)\<rparr>)"
  using keepsD [OF sound_finish_create_task, of c Q F p t] by simp

lemma physical_finish_create:
  assumes "structured p" and "t \<in> set (create_tasks p)"
  shows "Suc (physical_generations (p\<lparr>create_tasks := set_discard t (create_tasks p)\<rparr>)) = physical_generations p"
  using assms length_set_discard_in [of "create_tasks p" t] length_pos_if_in_set [of t "create_tasks p"]
  by (simp add: physical_generations_def structured_def task_structure_def)

lemma sound_create_failure [simp]:
  "sound c Q F (p\<lparr>create_failure_generation := n, last_create_failure := e\<rparr>) = sound c Q F p"
  by (rule sound_cong) (simp add: structure_view_def)

lemma sound_supervise_finished [keeps_intros]: "keeps (sound c Q F) (supervise_finished c' now t)"
proof (rule keepsI)
  fix p assume s: "sound c Q F p"
  let ?p = "p\<lparr>create_tasks := set_discard t (create_tasks p)\<rparr>"
  have st: "structured p" and l: "launch_structure p"
    using s by (simp_all add: sound_def structured_def)
  have pub: "sound c Q F (snd (publish_metrics_unlocked c' now p'))" if "sound c Q F p'" for p'
    by (rule sound_publish [OF that])
  have created: "sound c Q F (snd (supervise_finished c' now t p))"
    if t: "t \<in> set (create_tasks p)" and o': "create_outcomes p t = Created s'" for s'
  proof -
    have free: "t' \<in> set (create_tasks ?p) \<or> t' \<in> set (create_watchers ?p) \<Longrightarrow> create_outcomes ?p t' \<noteq> Created s'" for t'
      using launch_inj [OF l o', of t'] st t by (auto simp: structured_def task_structure_def)
    have room: "closed ?p \<or> physical_generations ?p < max_physical_generations c"
      using physical_finish_create [OF st t] s by (auto simp: sound_def bounded_def)
    have "sound c Q F (snd (schedule_close s' Shutdown ?p))"
      by (rule sound_close_created [OF sound_finish_create [OF s] _ room]) (use free in blast)
    moreover have "sound c Q F (?p\<lparr>slots := slots ?p @ [s']\<rparr>)"
      by (rule sound_take_in [OF sound_finish_create [OF s] _ _ free room])
        (use launch_open [OF l o' t] launch_disjoint [OF l o'] t in auto)
    ultimately show ?thesis
      using t o' pub
      by (auto simp: supervise_finished_def skip_then_apply seq_apply split: prod.split sum.split)
  qed
  show "sound c Q F (snd (supervise_finished c' now t p))"
  proof (cases "t \<in> set (create_tasks p)")
    case True
    show ?thesis
    proof (cases "create_outcomes p t")
      case (CreateFailed e)
      with True pub [of "?p\<lparr>create_failure_generation := Suc (create_failure_generation p),
          last_create_failure := Some e\<rparr>"] sound_finish_create [OF s, of t]
      show ?thesis by (simp add: supervise_finished_def skip_then_apply)
    qed (use created True s in \<open>simp_all add: supervise_finished_def\<close>)
  qed (use s in \<open>simp add: supervise_finished_def\<close>)
qed

lemma sound_drop_watcher:
  assumes s: "sound c Q F p"
  shows "sound c Q F (p\<lparr>create_watchers := set_discard t (create_watchers p)\<rparr>)" (is "sound c Q F ?p")
proof (rule sound_smaller [OF s])
  have st: "structured p" using s by (simp add: sound_def)
  show "structured ?p"
    unfolding structured_def
  proof (intro conjI)
    show "close_structure ?p" using st by (simp add: structured_def close_structure_def)
    show "task_structure ?p" using st by (auto simp: structured_def task_structure_def)
    show "launch_structure ?p"
    proof (rule launch_structure_sub [of p])
      show l: "launch_structure p" using st by (simp add: structured_def)
      fix t q assume "create_outcomes ?p t = Created q"
      then show **: "create_outcomes p t = Created q" by simp
      show "t \<in> set (create_tasks ?p) \<or> t \<in> set (create_watchers ?p) \<Longrightarrow> q \<notin> set (slots ?p)"
        using launch_disjoint [OF l **] by auto
      show "t \<in> set (create_tasks ?p) \<Longrightarrow> state (heap ?p q) \<noteq> Closing"
        using launch_open [OF l **] by simp
    qed simp_all
  qed
  show "physical_generations ?p \<le> physical_generations p"
    using length_discard_le [of t "create_watchers p"] by (simp add: physical_generations_def)
qed (use s in \<open>simp_all add: sound_def pool_owned_def\<close>)

lemma sound_finish_abandoned_creation:
  assumes s: "sound c Q F p" and t: "t \<in> set (create_watchers p)"
  shows "sound c Q F (snd (finish_abandoned_creation c' now t p))"
proof -
  let ?p = "p\<lparr>create_watchers := set_discard t (create_watchers p)\<rparr>"
  have st: "structured p" and l: "launch_structure p"
    using s by (simp_all add: sound_def structured_def)
  have pub: "sound c Q F (snd (publish_metrics_unlocked c' now p'))" if "sound c Q F p'" for p'
    by (rule sound_publish [OF that])
  have p: "sound c Q F ?p" by (rule sound_drop_watcher [OF s])
  have "Suc (physical_generations ?p) = physical_generations p"
    using st t length_set_discard_in [of "create_watchers p" t] length_pos_if_in_set [OF t]
    by (simp add: physical_generations_def structured_def task_structure_def)
  then have room: "closed ?p \<or> physical_generations ?p < max_physical_generations c"
    using s by (auto simp: sound_def bounded_def)
  have close: "sound c Q F (snd (schedule_close s' reason ?p))" if o': "create_outcomes p t = Created s'" for s' reason
  proof (rule sound_close_created [OF p _ room])
    show "create_outcomes ?p t' \<noteq> Created s'" if "t' \<in> set (create_tasks ?p)" for t'
      using launch_inj [OF l o', of t'] st t that by (auto simp: structured_def task_structure_def)
  qed
  show ?thesis
  proof (cases "create_outcomes p t")
    case (Created s')
    let ?r = "if closed p then Shutdown else ErrorReason"
    show ?thesis
      using Created close [OF Created, of ?r] pub
      by (cases "schedule_close s' ?r ?p")
        (auto simp: finish_abandoned_creation_def skip_then_apply seq_apply
          simp del: if_split split: sum.split)
  qed (use p pub in \<open>auto simp: finish_abandoned_creation_def skip_then_apply\<close>)
qed

section \<open>The end of a close\<close>

lemma sound_close_settled:
  assumes s: "sound c Q {} p"
  shows "sound c Q {} (p\<lparr>close_tasks := dict_del s' (close_tasks p),
           failed_close_slots := set_discard s' (failed_close_slots p)\<rparr>)" (is "sound c Q {} ?p")
proof (rule sound_smaller [OF s])
  have st: "structured p" using s by (simp add: sound_def)
  show "structured ?p"
    unfolding structured_def
  proof (intro conjI)
    show "close_structure ?p"
      using st by (auto simp: structured_def close_structure_def distinct_dict_del)
    show "task_structure ?p" using st by (simp add: structured_def task_structure_def)
    show "launch_structure ?p" using st by (simp add: structured_def launch_structure_def)
  qed
  show "physical_generations ?p \<le> physical_generations p"
    using length_discard_le [of s' "failed_close_slots p"] length_dict_del_le [of s' "close_tasks p"]
    by (simp add: physical_generations_def)
qed (use s in \<open>simp_all add: sound_def pool_owned_def\<close>)

lemma sound_drop_close_task:
  assumes s: "sound c Q {} p"
  shows "sound c Q {} (p\<lparr>close_tasks := dict_del s' (close_tasks p)\<rparr>)" (is "sound c Q {} ?p")
proof (rule sound_smaller [OF s])
  have st: "structured p" using s by (simp add: sound_def)
  show "structured ?p"
    unfolding structured_def
  proof (intro conjI)
    show "close_structure ?p"
      using st by (auto simp: structured_def close_structure_def distinct_dict_del)
    show "task_structure ?p" using st by (simp add: structured_def task_structure_def)
    show "launch_structure ?p" using st by (simp add: structured_def launch_structure_def)
  qed
  show "physical_generations ?p \<le> physical_generations p"
    using length_dict_del_le [of s' "close_tasks p"] by (simp add: physical_generations_def)
qed (use s in \<open>simp_all add: sound_def pool_owned_def\<close>)

lemma sound_close_failed:
  assumes s: "sound c Q {} p" and t: "dict_has s' (close_tasks p)"
  shows "sound c Q {} (p\<lparr>close_tasks := dict_del s' (close_tasks p),
           failed_close_slots := set_add s' (failed_close_slots p)\<rparr>)" (is "sound c Q {} ?p")
proof (rule sound_smaller [OF s])
  have st: "structured p" using s by (simp add: sound_def)
  show "structured ?p"
    unfolding structured_def
  proof (intro conjI)
    show "close_structure ?p"
      using st t by (auto simp: structured_def close_structure_def distinct_dict_del distinct_set_add)
    show "task_structure ?p" using st by (simp add: structured_def task_structure_def)
    show "launch_structure ?p" using st by (simp add: structured_def launch_structure_def)
  qed
  show "physical_generations ?p \<le> physical_generations p"
    using st t length_dict_del [of "close_tasks p" s']
    by (simp add: physical_generations_def structured_def close_structure_def length_set_add)
qed (use s in \<open>simp_all add: sound_def pool_owned_def\<close>)

lemma sound_finish_close_slot:
  assumes s: "sound c Q {} p" and t: "dict_has s' (close_tasks p)"
  shows "sound c Q {} (snd (finish_close_slot c now dead s' ok p))"
proof -
  have k: "keeps (sound c Q {}) (skip_then (replenish c now) (publish_metrics_unlocked c now))"
    by (intro keeps_intros)
  let ?ok = "p\<lparr>close_tasks := dict_del s' (close_tasks p),
               failed_close_slots := set_discard s' (failed_close_slots p),
               physically_closed_slots := set_discard s' (physically_closed_slots p)\<rparr>"
  have settled: "sound c Q {} ?ok"
    using sound_close_settled [OF s, of s'] by simp
  let ?b = "(heap p s')\<lparr>close_failures := Suc (close_failures (heap p s')), next_close_retry_at :=
              now + min CLOSE_RETRY_MAX_BACKOFF (seconds (2 * 2 ^ close_failures (heap p s')))\<rparr>"
  let ?bad = "p\<lparr>close_tasks := dict_del s' (close_tasks p), heap := (heap p)(s' := ?b),
                failed_close_slots := set_add s' (failed_close_slots p)\<rparr>"
  have "sound c Q {} ?bad"
    by (rule iffD2 [OF sound_cong sound_close_failed [OF s t]])
      (simp add: structure_view_def fun_eq_iff)
  with settled keepsD [OF k] show ?thesis
    by (auto simp: finish_close_slot_def skip_then_apply upd_slot_def)
qed

lemma sound_reconcile_aborted [keeps_intros]:
  "keeps (sound c Q {}) (reconcile_aborted_close_task c now dead s' t)"
proof (rule keepsI)
  fix p assume s: "sound c Q {} p"
  show "sound c Q {} (snd (reconcile_aborted_close_task c now dead s' t p))"
  proof (cases "dict_get (close_tasks p) s' = Some t")
    case True
    then have "dict_has s' (close_tasks p)" by (metis dict_get_None option.distinct(1))
    with True sound_finish_close_slot [OF s] show ?thesis
      by (simp add: reconcile_aborted_close_task_def)
  qed (use s in \<open>simp add: reconcile_aborted_close_task_def\<close>)
qed

lemma sound_physical_close_finished [keeps_intros]: "keeps (sound c Q F) (physical_close_finished s')"
  unfolding physical_close_finished_def by (rule keeps_modify) simp

lemma sound_discard_failed:
  assumes s: "sound c Q {} p"
  shows "sound c Q {} (p\<lparr>failed_close_slots := set_discard s' (failed_close_slots p)\<rparr>)" (is "sound c Q {} ?p")
proof (rule sound_smaller [OF s])
  have st: "structured p" using s by (simp add: sound_def)
  show "structured ?p"
    unfolding structured_def
  proof (intro conjI)
    show "close_structure ?p" using st by (auto simp: structured_def close_structure_def)
    show "task_structure ?p" using st by (simp add: structured_def task_structure_def)
    show "launch_structure ?p" using st by (simp add: structured_def launch_structure_def)
  qed
  show "physical_generations ?p \<le> physical_generations p"
    using length_discard_le [of s' "failed_close_slots p"] by (simp add: physical_generations_def)
qed (use s in \<open>simp_all add: sound_def pool_owned_def\<close>)

lemma sound_reconcile_late [keeps_intros]:
  "keeps (sound c Q {}) (reconcile_late_physical_close c' now fin s')"
proof (rule keepsI)
  fix p assume s: "sound c Q {} p"
  then show "sound c Q {} (snd (reconcile_late_physical_close c' now fin s' p))"
    using sound_publish [of c Q "{}"] sound_discard_failed [OF s, of s']
    by (auto simp: reconcile_late_physical_close_def skip_then_apply)
qed

lemma sound_run_close_slot:
  "sound c Q {} p \<Longrightarrow> dict_has s' (close_tasks p) \<Longrightarrow>
     sound c Q {} (snd (run_close_slot c now dead s' attempts p))"
  unfolding run_close_slot_def by (rule sound_finish_close_slot)

section \<open>Reserving, releasing, acquiring\<close>

lemma sound_reserve_slot [keeps_intros]: "keeps (sound c Q F) (reserve_slot c' now s' kind)"
  unfolding reserve_slot_def
  by (intro keeps_intros sound_upd_slot keeps_modify) simp_all

lemma sound_retire_after_release [keeps_intros]:
  "s' \<in> Q \<Longrightarrow> keeps (sound c Q F) (retire_after_release c' now s' discard reason phase)"
  unfolding retire_after_release_def by (intro keeps_intros)

lemma sound_release_slot:
  assumes s: "sound c Q F p" and acc: "accounting c p"
  shows "sound c Q F (snd (release_slot c' now r discard reason phase p))"
proof (cases "r \<in> held p")
  case True
  let ?s = "res_slot (reservations p r)"
  have "?s \<in> set (slots p)"
    using held_positive(1) [OF acc True] acc by (simp add: accounting_def)
  then have "sound c (insert ?s Q) F p" using s by (auto simp: sound_def pool_owned_def)
  then have "sound c (insert ?s Q) F (release_effect r p)"
    by (rule iffD2 [OF sound_cong, rotated]) (auto simp: structure_view_def release_effect_def Let_def)
  moreover have "keeps (sound c (insert ?s Q) F)
      (skip_then (retire_after_release c' now ?s discard reason phase) (publish_metrics_unlocked c' now))"
    by (intro keeps_intros) simp
  ultimately have "sound c (insert ?s Q) F (snd (release_slot c' now r discard reason phase p))"
    unfolding release_slot_eq [OF acc True] by (rule keepsD [rotated])
  then show ?thesis by (rule sound_weaken) auto
next
  case False
  with s show ?thesis by (simp add: release_slot_released)
qed

lemma sound_start_create_room:
  assumes "sound c Q {} p" and "physical_generations p < max_physical_generations c"
  shows "sound c Q {} (snd (start_create_task b p))"
  by (rule sound_start_create_task [OF assms])

lemma sound_skip_then:
  "keeps (sound c Q F) n \<Longrightarrow> sound c Q F (snd (m p)) \<Longrightarrow> sound c Q F (snd (skip_then m n p))"
  by (cases "m p") (auto simp: skip_then_apply dest: keepsD split: sum.split)

lemma sound_acquire_wait [keeps_intros]: "keeps (sound c Q {}) (acquire_wait c later l)"
proof (rule keepsI)
  fix p assume s: "sound c Q {} p"
  let ?m = "if may_launch c l p
            then seq (start_create_task True) (\<lambda>_. publish_metrics_unlocked c later) else ret ()"
  let ?n = "if deadline l - later \<le> 0
        then skip_then (log_acquire_timeout c later ''capacity'') (raise_exn capacity_timeout)
        else skip_then (modify (\<lambda>p. p\<lparr>waiting_requests := Suc (waiting_requests p)\<rparr>))
               (skip_then (publish_metrics_unlocked c later) (ret (MustWait (launched l \<or> may_launch c l p))))"
  have "sound c Q {} (snd (?m p))"
  proof (cases "may_launch c l p")
    case True
    then have "sound c Q {} (snd (start_create_task True p))"
      by (intro sound_start_create_room [OF s]) (simp add: may_launch_def)
    from sound_publish [OF this] True show ?thesis
      by (simp add: seq_apply start_create_task_def Let_def)
  qed (use s in simp)
  moreover have "keeps (sound c Q {}) ?n" by (intro keeps_intros keeps_modify) simp
  ultimately have "sound c Q {} (snd (skip_then ?m ?n p))"
    by (rule sound_skip_then [rotated])
  then show "sound c Q {} (snd (acquire_wait c later l p))"
    by (simp add: acquire_wait_def)
qed

lemma sound_acquire_pick [keeps_intros]: "keeps (sound c Q {}) (acquire_pick c now later kind l)"
  unfolding acquire_pick_def by (intro keeps_intros)

lemma sound_acquire_section [keeps_intros]: "keeps (sound c Q {}) (acquire_section c now later dead kind l)"
  unfolding acquire_section_def by (intro keeps_intros)

lemma sound_acquire_wakeup [keeps_intros]: "keeps (sound c Q F) (acquire_wakeup c' now w)"
  unfolding acquire_wakeup_def by (intro keeps_intros keeps_modify) simp

lemma sound_persistent [keeps_intros]:
  "keeps (sound c Q F) (reserve_persistent c' now)"
  "keeps (sound c Q F) (release_persistent_reservation c' now q)"
  "keeps (sound c Q F) (accounting_task_done c' now f)"
  unfolding reserve_persistent_def release_persistent_reservation_def accounting_task_done_def
  by (intro keeps_intros keeps_modify; simp)+

text \<open>The finalizers release under the accounting invariant, so the two travel together.\<close>

definition consistent :: "pool_config \<Rightarrow> nat set \<Rightarrow> pool \<Rightarrow> bool" where
  "consistent c Q p \<longleftrightarrow> accounting c p \<and> sound c Q {} p"

lemma keeps_consistent:
  "keeps (accounting c) m \<Longrightarrow> keeps (sound c Q {}) m \<Longrightarrow> keeps (consistent c Q) m"
  by (simp add: keeps_def consistent_def)

lemma consistent_release_slot [keeps_intros]:
  "keeps (consistent c Q) (release_slot c' now r discard reason phase)"
  using keepsD [OF keeps_release_slot] sound_release_slot
  by (auto simp: keeps_def consistent_def)

lemma consistent_finalize [keeps_intros]: "keeps (consistent c Q) (finalize_accounting c' now f)"
  unfolding finalize_accounting_def
  by (intro keeps_intros; rule keeps_consistent; intro keeps_intros)

lemma sound_start_finalizer:
  assumes s: "sound c Q F p"
  shows "sound c Q F (snd (start_finalizer r q discard reason phase p))" (is "sound c Q F ?p")
proof (rule sound_smaller [OF s])
  have st: "structured p" using s by (simp add: sound_def)
  show "structured ?p"
    unfolding structured_def
  proof (intro conjI)
    show "close_structure ?p"
      using st by (simp add: structured_def close_structure_def start_finalizer_def Let_def)
    show "task_structure ?p"
      using st by (auto simp: structured_def task_structure_def less_SucI start_finalizer_def Let_def)
    show "launch_structure ?p"
      using st by (simp add: structured_def launch_structure_def less_SucI start_finalizer_def Let_def)
  qed
qed (use s in \<open>simp_all add: start_finalizer_def Let_def physical_generations_def sound_def pool_owned_def\<close>)

lemma consistent_start_finalizer [keeps_intros]:
  "keeps (consistent c Q) (start_finalizer r q discard reason phase)"
  by (intro keeps_consistent keeps_intros keepsI sound_start_finalizer)

section \<open>Start-up and shutdown\<close>

lemma start_create_task_pair: "start_create_task b p = (Inr (next_task p), snd (start_create_task b p))"
  by (simp add: start_create_task_def Let_def)

lemma start_create_task_fields [simp]:
  "next_task (snd (start_create_task b p)) = Suc (next_task p)"
  "closed (snd (start_create_task b p)) = closed p"
  "create_supervisors (snd (start_create_task False p)) = create_supervisors p"
  "set (create_supervisors (snd (start_create_task b p))) \<subseteq> insert (next_task p) (set (create_supervisors p))"
  "set (create_tasks (snd (start_create_task b p))) = insert (next_task p) (set (create_tasks p))"
  by (auto simp: start_create_task_def Let_def set_add_def)

lemma start_launches_result: "fst (start_launches n p) = Inr [next_task p..<next_task p + n]"
proof (induction n arbitrary: p)
  case (Suc n)
  let ?p = "snd (start_create_task False p)"
  obtain q where q: "start_launches n ?p = (Inr [next_task ?p..<next_task ?p + n], q)"
    using Suc.IH [of ?p] by (metis prod.collapse)
  show ?case
    by (simp add: seq_Inr [OF start_create_task_pair] seq_Inr [of "start_launches n", OF q] upt_conv_Cons)
qed simp

lemma start_launches_pair: "start_launches n p = (Inr [next_task p..<next_task p + n], snd (start_launches n p))"
  by (metis prod.collapse start_launches_result)

lemma start_launches_Suc:
  "snd (start_launches (Suc n) p) = snd (start_launches n (snd (start_create_task False p)))"
  by (simp add: seq_Inr [OF start_create_task_pair] seq_Inr [OF start_launches_pair])

lemma start_launches_fields:
  "create_supervisors (snd (start_launches n p)) = create_supervisors p
   \<and> closed (snd (start_launches n p)) = closed p
   \<and> next_task (snd (start_launches n p)) = next_task p + n
   \<and> set (create_tasks (snd (start_launches n p))) = set (create_tasks p) \<union> {next_task p..<next_task p + n}"
proof (induction n arbitrary: p)
  case (Suc n)
  then show ?case
    unfolding start_launches_Suc by (auto simp del: start_launches.simps)
qed simp

lemma sound_start_launches:
  "sound c Q {} p \<Longrightarrow> physical_generations p + n \<le> max_physical_generations c \<Longrightarrow>
     sound c Q {} (snd (start_launches n p))"
proof (induction n arbitrary: p)
  case (Suc n)
  let ?p = "snd (start_create_task False p)"
  have "sound c Q {} ?p" "physical_generations ?p + n \<le> max_physical_generations c"
    using Suc.prems sound_start_create_task [of c Q p False] start_create_task_effect(2) [of p False]
    by (auto simp: sound_def)
  then show ?case unfolding start_launches_Suc by (rule Suc.IH)
qed simp

lemma sound_start_once_begin [keeps_intros]: "keeps (sound c Q {}) (start_once_begin c now)"
proof (rule keepsI)
  fix p assume s: "sound c Q {} p"
  show "sound c Q {} (snd (start_once_begin c now p))"
  proof (cases "started p \<or> closed p \<or> physical_generations p + min_browsers c > max_physical_generations c")
    case True
    with s show ?thesis by (auto simp: start_once_begin_def)
  next
    case False
    let ?p = "p\<lparr>started := True, starting := True\<rparr>" and ?n = "min_browsers c"
    have "sound c Q {} ?p" using s by simp
    then have l: "sound c Q {} (snd (start_launches ?n ?p))"
      by (rule sound_start_launches) (use False in \<open>simp add: physical_generations_def\<close>)
    have k: "keeps (sound c Q {}) (skip_then (publish_metrics_unlocked c now)
               (skip_then (modify (\<lambda>p. p\<lparr>starting := (ts \<noteq> [])\<rparr>)) (ret (Some ts))))" for ts
      by (intro keeps_intros keeps_modify) simp
    have "start_once_begin c now p = seq (start_launches ?n) (\<lambda>ts. skip_then (publish_metrics_unlocked c now)
               (skip_then (modify (\<lambda>p. p\<lparr>starting := (ts \<noteq> [])\<rparr>)) (ret (Some ts)))) ?p"
      using False by (simp add: start_once_begin_def skip_then_apply [of "modify (\<lambda>p. p\<lparr>started := True, starting := True\<rparr>)"])
    then show ?thesis
      using keepsD [OF k [of "[next_task p..<next_task p + ?n]"] l] by (simp add: seq_Inr [OF start_launches_pair])
  qed
qed

lemma sound_closed [simp]: "sound c Q F p \<Longrightarrow> sound c Q F (p\<lparr>closed := True\<rparr>)"
  unfolding sound_def structured_def close_structure_def task_structure_def launch_structure_def
    bounded_def pool_owned_def
  by simp

lemma sound_flags [keeps_intros]:
  "keeps (sound c Q F) start_enter"
  "keeps (sound c Q F) (start_leave was_cancelled startup_done)"
  "keeps (sound c Q F) startup_task_done"
  "keeps (sound c Q F) start_gives_up"
  "keeps (sound c Q F) (start_once_registered b)"
  "keeps (sound c Q F) start_registration_interrupted"
  "keeps (sound c Q F) (start_once_interrupted c' now tasks)"
  unfolding start_enter_def start_leave_def startup_task_done_def start_gives_up_def
    start_once_registered_def start_registration_interrupted_def start_once_interrupted_def
  by ((intro keeps_intros keeps_modify)?; simp)+

lemma sound_serving [keeps_intros]:
  "keeps (sound c Q {}) (refresh c now dead)"
  "keeps (sound c Q {}) (maintain c now dead)"
  unfolding refresh_def maintain_def by (intro keeps_intros)+

lemma sound_retire_for_shutdown [keeps_intros]: "s' \<in> Q \<Longrightarrow> keeps (sound c Q F) (retire_for_shutdown s')"
  unfolding retire_for_shutdown_def by (intro keeps_intros)

lemma sound_recover_cancelled_start [keeps_intros]:
  "set ss \<subseteq> Q \<Longrightarrow> keeps (sound c Q F) (recover_cancelled_start c' now tasks ss)"
  unfolding recover_cancelled_start_def by (intro keeps_intros) auto

lemma sound_quiesce [keeps_intros]: "keeps (sound c Q F) (quiesce c' now)"
proof -
  have r: "keeps (sound c Q F) (with_state (\<lambda>p. for_each retire_for_shutdown (slots p)))"
    by (rule keeps_sound_with_slots) (intro keeps_intros; simp)
  show ?thesis
    unfolding quiesce_def by (intro keeps_intros keeps_modify r) simp
qed

lemma sound_close_begin [keeps_intros]: "keeps (sound c Q F) (close_begin c' now b)"
proof -
  have r: "keeps (sound c Q F) (with_state (\<lambda>p. for_each retire_for_shutdown (slots p)))"
    by (rule keeps_sound_with_slots) (intro keeps_intros; simp)
  have f: "keeps (sound c Q F) (with_state (\<lambda>p. for_each
             (\<lambda>s. seq (schedule_failed_close_retry s) (\<lambda>_. ret ())) (failed_close_slots p)))"
    by (rule keeps_sound_with_failed) (intro keeps_intros; simp)
  show ?thesis
    unfolding close_begin_def by (intro keeps_intros keeps_modify r f) simp
qed

text \<open>Closing the slots of a start-up that came to nothing: one at a time, each into the room its
  launch leaves.\<close>

lemma sound_do_close:
  assumes "sound c Q F (snd (schedule_close s r p))"
    and "sound c Q F (snd (m (snd (schedule_close s r p))))"
  shows "sound c Q F (snd (skip_then (do_schedule_close s r) m p))"
  using assms by (cases "schedule_close s r p") (auto simp: skip_then_apply seq_apply split: sum.split)

lemma sound_close_each:
  assumes "sound c Q F p"
    and "\<And>s t. s \<in> set ss \<Longrightarrow> t \<in> set (create_tasks p) \<Longrightarrow> create_outcomes p t \<noteq> Created s"
    and "closed p \<or> physical_generations p + length ss \<le> max_physical_generations c"
  shows "sound c Q F (snd (for_each (\<lambda>s. do_schedule_close s (r s)) ss p))"
  using assms
proof (induction ss arbitrary: p)
  case (Cons s ss)
  let ?p = "snd (schedule_close s (r s) p)"
  have st: "structured p" using Cons.prems(1) by (simp add: sound_def)
  have p: "sound c Q F ?p"
    by (rule sound_close_created) (use Cons.prems in auto)
  have "create_tasks ?p = create_tasks p" "create_outcomes ?p = create_outcomes p" "closed ?p = closed p"
    "physical_generations ?p \<le> Suc (physical_generations p)"
    using physical_closing_state [OF st] by (auto simp: schedule_close_cases)
  then have "sound c Q F (snd (for_each (\<lambda>s. do_schedule_close s (r s)) ss ?p))"
    using Cons.prems(2,3) by (intro Cons.IH p) auto
  with p show ?case
    unfolding for_each.simps by (rule sound_do_close)
qed simp

end
