(* ===== verification/Pool_Invariant.thy ===== *)
theory Pool_Invariant
  imports Pool_Sections
begin

text \<open>
  The pool as a machine: every critical section is a step, any two of them interleave, and what
  is true in every reachable state of it.
\<close>

section \<open>Start-ups in flight\<close>

text \<open>The waiting callers are the counted ones.  The launches a start-up waits for are not
  supervised, and counted until somebody abandons them, which only a shutdown does; what they created is not in \<open>_slots\<close> yet.
  The other list names the launches that were registered already.\<close>

definition pending :: "nat list \<Rightarrow> nat list \<Rightarrow> nat \<Rightarrow> nat \<Rightarrow> pool \<Rightarrow> bool" where
  "pending ts vs n k p \<longleftrightarrow> waiting_requests p = n \<and> startup_waiters p = k \<and> distinct (ts @ vs)
     \<and> (\<forall>t \<in> set vs. t < next_task p)
     \<and> (\<forall>t \<in> set ts. t < next_task p \<and> t \<notin> set (create_supervisors p)
                     \<and> (closed p \<or> t \<in> set (create_tasks p))
                     \<and> (\<forall>s. create_outcomes p t = Created s \<longrightarrow> s \<notin> set (slots p)))"

definition pending_view :: "pool \<Rightarrow> nat \<times> nat \<times> nat \<times> nat list \<times> bool \<times> nat list
    \<times> nat list \<times> (nat \<Rightarrow> create_outcome)" where
  "pending_view p = (waiting_requests p, startup_waiters p, next_task p, create_supervisors p, closed p, create_tasks p,
      slots p, create_outcomes p)"

lemma pending_cong: "pending_view p' = pending_view p \<Longrightarrow> pending ts vs n k p' = pending ts vs n k p"
  by (simp add: pending_view_def pending_def)

lemma keeps_pending_modify:
  "(\<And>p. pending_view (f p) = pending_view p) \<Longrightarrow> keeps (pending ts vs n k) (modify f)"
  by (rule keeps_modify) (metis pending_cong)

lemma pending_upd_slot [keeps_intros]: "keeps (pending ts vs n k) (upd_slot s f)"
  unfolding upd_slot_def by (rule keeps_pending_modify) (simp add: pending_view_def)

lemma pending_emit [keeps_intros]: "keeps (pending ts vs n k) (emit e)"
  unfolding emit_def by (rule keeps_pending_modify) (simp add: pending_view_def)

lemma pending_log [keeps_intros]: "keeps (pending ts vs n k) (log_acquire_timeout c now reason)"
  unfolding log_acquire_timeout_def by (intro keeps_intros keeps_snapshot)

lemma pending_mark_retiring [keeps_intros]: "keeps (pending ts vs n k) (mark_retiring s reason)"
  unfolding mark_retiring_def by (intro keeps_intros)

lemma pending_start_close_task [keeps_intros]: "keeps (pending ts vs n k) (start_close_task s)"
  by (rule keepsI) (auto simp: start_close_task_def pending_def less_SucI)

lemma pending_schedule_close [keeps_intros]: "keeps (pending ts vs n k) (schedule_close s reason)"
  unfolding schedule_close_def
  by (intro keeps_intros keeps_modify) (auto simp: pending_def dest: notin_set_remove1)

lemma pending_failed_close_retry [keeps_intros]: "keeps (pending ts vs n k) (schedule_failed_close_retry s)"
  unfolding schedule_failed_close_retry_def
  by (intro keeps_intros keeps_pending_modify) (simp_all add: pending_view_def)

lemma pending_refresh [keeps_intros]:
  "keeps (pending ts vs n k) (retry_failed_closes now)"
  "keeps (pending ts vs n k) (refresh_slot c now dead s)"
  unfolding retry_failed_closes_def refresh_slot_def by (intro keeps_intros)+

lemma pending_refresh_recycling [keeps_intros]: "keeps (pending ts vs n k) (refresh_recycling c now dead)"
  unfolding refresh_recycling_def by (intro keeps_intros)

lemma pending_start_create_task [keeps_intros]: "keeps (pending ts vs n k) (start_create_task b)"
  by (rule keepsI) (auto simp: start_create_task_def Let_def pending_def set_add_def less_SucI)

lemma pending_finish_create_task:
  "t \<notin> set ts \<Longrightarrow> pending ts vs n k p \<Longrightarrow> pending ts vs n k (p\<lparr>create_tasks := set_discard t (create_tasks p)\<rparr>)"
  by (auto simp: pending_def)

lemma pending_finish [keeps_intros]: "t \<notin> set ts \<Longrightarrow> keeps (pending ts vs n k) (finish_create_task t)"
  by (rule keepsI) (simp add: pending_finish_create_task)

lemma pending_supervisors:
  "pending ts vs n k p \<Longrightarrow> pending ts vs n k (p\<lparr>create_supervisors := set_discard t (create_supervisors p)\<rparr>)"
  by (auto simp: pending_def)

lemma pending_abandon [keeps_intros]: "t \<notin> set ts \<Longrightarrow> keeps (pending ts vs n k) (abandon_create_task t)"
  unfolding abandon_create_task_def
  by (intro keeps_intros keeps_modify) (auto simp: pending_def)

lemma pending_replenish_loop [keeps_intros]: "keeps (pending ts vs n k) (replenish_loop c m)"
proof (induction m)
  case (Suc m)
  then show ?case unfolding replenish_loop.simps by (intro keeps_intros)
qed simp

lemma pending_replenish [keeps_intros]: "keeps (pending ts vs n k) (replenish c now)"
  unfolding replenish_def by (intro keeps_intros)

lemma pending_create_slot_failed [keeps_intros]: "keeps (pending ts vs n k) (create_slot_failed e t)"
  unfolding create_slot_failed_def
  by (intro keeps_intros keeps_modify) (auto simp: pending_def split: if_splits)

lemma pending_create_slot_done:
  assumes "sound c Q F p" and "pending ts vs n k p"
  shows "pending ts vs n k (snd (create_slot_done now t p))"
proof -
  have "next_slot p \<notin> set (slots p)"
    using assms(1) by (auto simp: sound_def structured_def close_structure_def)
  with assms(2) show ?thesis
    by (auto simp: create_slot_done_def skip_then_apply emit_def pending_def)
qed

lemma pending_supervise_timed_out: "t \<notin> set ts \<Longrightarrow> keeps (pending ts vs n k) (supervise_timed_out c now t)"
  unfolding supervise_timed_out_def by (intro keeps_intros)

lemma pending_take_in:
  assumes "launch_structure p" and "create_outcomes p t = Created s" and "t \<notin> set ts" and "pending ts vs n k p"
  shows "pending ts vs n k (p\<lparr>slots := slots p @ [s]\<rparr>)"
proof -
  have "s' \<noteq> s" if "t' \<in> set ts" "create_outcomes p t' = Created s'" for t' s'
    using launch_inj [OF assms(1,2), of t'] that assms(3) by auto
  with assms(4) show ?thesis by (fastforce simp: pending_def)
qed

lemma pending_supervise_finished:
  assumes l: "launch_structure p" and t: "t \<notin> set ts" and pend: "pending ts vs n k p"
  shows "pending ts vs n k (snd (supervise_finished c now t p))"
proof -
  let ?p = "p\<lparr>create_tasks := set_discard t (create_tasks p)\<rparr>"
  have p: "pending ts vs n k ?p" by (rule pending_finish_create_task [OF t pend])
  have close: "keeps (pending ts vs n k) (skip_then (do_schedule_close s Shutdown) (publish_metrics_unlocked c now))" for s
    by (intro keeps_intros)
  have pub: "keeps (pending ts vs n k) (publish_metrics_unlocked c now)" by (intro keeps_intros)
  have take: "pending ts vs n k (p\<lparr>create_tasks := set_discard t (create_tasks p), slots := slots p @ [s]\<rparr>)"
    if "create_outcomes p t = Created s" for s
    using pending_take_in [of ?p t s ts vs n k] p that l t by (auto simp: launch_structure_def)
  have fail: "pending ts vs n k (?p\<lparr>create_failure_generation := g, last_create_failure := e\<rparr>)" for g e
    using p by (subst pending_cong [of _ ?p]) (simp_all add: pending_view_def)
  show ?thesis
    using pend p keepsD [OF close p] keepsD [OF pub take] keepsD [OF pub fail]
    by (auto simp: supervise_finished_def skip_then_apply [of "finish_create_task _"]
        skip_then_apply [of "modify _"] split: create_outcome.split)
qed

lemma pending_create_end [keeps_intros]:
  "keeps (pending ts vs n k) (create_supervisor_done t)"
  "keeps (pending ts vs n k) (finish_abandoned_creation c now t)"
  unfolding create_supervisor_done_def finish_abandoned_creation_def
  by (intro keeps_intros keeps_modify; auto simp: pending_def)+

lemma pending_close [keeps_intros]:
  "keeps (pending ts vs n k) (finish_close_slot c now dead s ok)"
  "keeps (pending ts vs n k) (physical_close_finished s)"
  "keeps (pending ts vs n k) (reconcile_late_physical_close c now fin s)"
  unfolding finish_close_slot_def physical_close_finished_def reconcile_late_physical_close_def
  by (intro keeps_intros keeps_pending_modify; simp add: pending_view_def)+

lemma pending_run_close [keeps_intros]:
  "keeps (pending ts vs n k) (reconcile_aborted_close_task c now dead s t)"
  "keeps (pending ts vs n k) (run_close_slot c now dead s attempts)"
  unfolding reconcile_aborted_close_task_def run_close_slot_def by (intro keeps_intros)+

lemma pending_slot [keeps_intros]:
  "keeps (pending ts vs n k) (reserve_slot c now s kind)"
  "keeps (pending ts vs n k) (retire_after_release c now s discard reason phase)"
  unfolding reserve_slot_def retire_after_release_def
  by (intro keeps_intros keeps_pending_modify; simp add: pending_view_def)+

lemma pending_release [keeps_intros]: "keeps (pending ts vs n k) (release_slot c now r discard reason phase)"
  unfolding release_slot_def Let_def
  by (intro keeps_intros keeps_pending_modify; simp add: pending_view_def)

lemma pending_persistent [keeps_intros]:
  "keeps (pending ts vs n k) (reserve_persistent c now)"
  "keeps (pending ts vs n k) (release_persistent_reservation c now q)"
  "keeps (pending ts vs n k) (accounting_task_done c now f)"
  unfolding reserve_persistent_def release_persistent_reservation_def accounting_task_done_def
  by (intro keeps_intros keeps_pending_modify; simp add: pending_view_def)+

lemma pending_finalizer [keeps_intros]:
  "keeps (pending ts vs n k) (start_finalizer r q discard reason phase)"
  "keeps (pending ts vs n k) (finalize_accounting c now f)"
proof -
  show "keeps (pending ts vs n k) (start_finalizer r q discard reason phase)"
    by (rule keepsI) (auto simp: start_finalizer_def Let_def pending_def less_SucI)
  show "keeps (pending ts vs n k) (finalize_accounting c now f)"
    unfolding finalize_accounting_def by (intro keeps_intros)
qed

lemma pending_flags [keeps_intros]:
  "keeps (pending ts vs n k) startup_task_done"
  "keeps (pending ts vs n k) start_gives_up"
  "keeps (pending ts vs n k) (start_once_registered b)"
  "keeps (pending ts vs n k) start_registration_interrupted"
  unfolding startup_task_done_def start_gives_up_def
    start_once_registered_def start_registration_interrupted_def
  by ((intro keeps_intros keeps_pending_modify)?; simp add: pending_view_def)+

lemma pending_serving [keeps_intros]:
  "keeps (pending ts vs n k) (refresh c now dead)"
  "keeps (pending ts vs n k) (maintain c now dead)"
  "keeps (pending ts vs n k) (retire_for_shutdown s)"
  unfolding refresh_def maintain_def retire_for_shutdown_def by (intro keeps_intros)+

section \<open>Publishing never fails\<close>

lemma sum_list_ge_sum: "sum f (set xs) \<le> sum_list (map (f :: 'a \<Rightarrow> nat) xs)"
  by (induction xs) (auto simp: sum.insert_if intro: trans_le_add2)

lemma transient_le_active:
  assumes acc: "accounting c p"
  shows "transient_contexts p \<le> total_active p"
proof -
  have "held_transient p \<subseteq> (\<Union>s \<in> set (slots p). held_on p s)"
  proof
    fix r assume "r \<in> held_transient p"
    then have r: "r \<in> held p" by (simp add: held_def held_transient_def)
    with held_positive(1) [OF acc r] acc have "res_slot (reservations p r) \<in> set (slots p)"
      by (simp add: accounting_def)
    with r show "r \<in> (\<Union>s \<in> set (slots p). held_on p s)" by (auto simp: held_def held_on_def)
  qed
  then have "card (held_transient p) \<le> card (\<Union>s \<in> set (slots p). held_on p s)"
    by (intro card_mono) (auto simp: held_finite [OF acc])
  also have "\<dots> \<le> (\<Sum>s \<in> set (slots p). card (held_on p s))"
    by (rule card_UN_le) simp
  also have "\<dots> = (\<Sum>s \<in> set (slots p). active_contexts (heap p s))"
    using acc by (simp add: accounting_def)
  also have "\<dots> \<le> total_active p" unfolding total_active_def by (rule sum_list_ge_sum)
  finally show ?thesis using acc by (simp add: accounting_def)
qed

lemma publish_ok: "accounting c p \<Longrightarrow> publish_metrics_unlocked c' now p = (Inr (), p)"
  using transient_le_active [of c p]
  by (simp add: publish_metrics_unlocked_def snapshot_unlocked_def seq_apply Let_def)

lemma log_acquire_timeout_ok:
  "accounting c p \<Longrightarrow> log_acquire_timeout c' now reason p =
     (Inr (), p\<lparr>pool_events := pool_events p @ [PoolAcquireTimedOut reason]\<rparr>)"
  using transient_le_active [of c p]
  by (simp add: log_acquire_timeout_def snapshot_unlocked_def seq_apply Let_def emit_def)

lemma accounting_events [simp]: "accounting c (p\<lparr>pool_events := es\<rparr>) = accounting c p"
  by (rule accounting_cong) (simp add: accounting_view_def)

section \<open>Waiting and starting\<close>

lemma keeps_result: "keeps I m \<Longrightarrow> I p \<Longrightarrow> m p = (r, p') \<Longrightarrow> I p'"
  by (metis keepsD snd_conv)

lemma pending_waiting [simp]:
  "pending ts vs n k (p\<lparr>waiting_requests := n'\<rparr>) \<longleftrightarrow> n' = n \<and> pending ts vs (waiting_requests p) k p"
  "pending ts vs n k (p\<lparr>startup_waiters := k'\<rparr>) \<longleftrightarrow> k' = k \<and> pending ts vs n (startup_waiters p) p"
  "pending ts vs n k (p\<lparr>startup_task := b\<rparr>) \<longleftrightarrow> pending ts vs n k p"
  "pending ts vs n k (p\<lparr>pool_events := es\<rparr>) \<longleftrightarrow> pending ts vs n k p"
  by (auto simp: pending_def)

lemma acquire_wait_result:
  assumes acc: "accounting c p" and pend: "pending ts vs n k p" and m: "acquire_wait c later l p = (r, p')"
  shows "case r of Inr (MustWait b) \<Rightarrow> pending ts vs (Suc n) k p' | _ \<Rightarrow> pending ts vs n k p'"
    and "r \<in> {Inl capacity_timeout, Inr (MustWait True), Inr (MustWait False)}"
proof -
  let ?m = "if may_launch c l p
            then seq (start_create_task True) (\<lambda>_. publish_metrics_unlocked c later) else ret ()"
  have acc1: "accounting c (snd (?m p))"
    by (rule keepsD [of "accounting c" ?m, OF _ acc]) (intro keeps_intros)
  have pend1: "pending ts vs n k (snd (?m p))"
    by (rule keepsD [of "pending ts vs n k" ?m, OF _ pend]) (intro keeps_intros)
  have ok: "fst (?m p) = Inr ()"
    using publish_ok [of c "snd (start_create_task True p)"] keepsD [OF keeps_start_create_task acc, of True]
    by (simp add: seq_Inr [OF start_create_task_pair])
  obtain q where q: "?m p = (Inr (), q)" using ok by (metis prod.collapse)
  have acc2: "accounting c q" and pend2: "pending ts vs n k q" using acc1 pend1 q by simp_all
  have "waiting_requests q = n" using pend2 by (simp add: pending_def)
  moreover have "acquire_wait c later l p =
     (if deadline l - later \<le> 0
      then (Inl capacity_timeout, q\<lparr>pool_events := pool_events q @ [PoolAcquireTimedOut ''capacity'']\<rparr>)
      else (Inr (MustWait (launched l \<or> may_launch c l p)), q\<lparr>waiting_requests := Suc (waiting_requests q)\<rparr>))"
    unfolding acquire_wait_def with_state_eq skip_then_apply [of ?m] q
    using acc2 by (simp add: skip_then_apply log_acquire_timeout_ok publish_ok)
  ultimately show "case r of Inr (MustWait b) \<Rightarrow> pending ts vs (Suc n) k p' | _ \<Rightarrow> pending ts vs n k p'"
    and "r \<in> {Inl capacity_timeout, Inr (MustWait True), Inr (MustWait False)}"
    using m pend2 by (auto split: if_splits)
qed

lemma acquire_pick_result:
  assumes acc: "accounting c p" and pend: "pending ts vs n k p" and m: "acquire_pick c now later kind l p = (r, p')"
  shows "case r of Inr (MustWait b) \<Rightarrow> pending ts vs (Suc n) k p' | _ \<Rightarrow> pending ts vs n k p'"
proof -
  have reserve: "pending ts vs n k p' \<and> (case r of Inr (MustWait b) \<Rightarrow> False | _ \<Rightarrow> True)"
    if "seq (reserve_slot c now s kind)
          (\<lambda>r. skip_then (publish_metrics_unlocked c now) (ret (Reserved r))) p = (r, p')" for s
  proof -
    have "keeps (pending ts vs n k) (seq (reserve_slot c now s kind)
          (\<lambda>r. skip_then (publish_metrics_unlocked c now) (ret (Reserved r))))"
      by (intro keeps_intros)
    from keeps_result [OF this pend that] that show ?thesis
      by (auto simp: seq_apply skip_then_apply split: prod.splits sum.splits)
  qed
  show ?thesis
    using m reserve acquire_wait_result(1) [OF acc pend, of later l] pend
    by (fastforce simp: acquire_pick_def split: option.splits if_splits sum.splits acquire_step.splits)
qed

lemma acquire_section_result:
  assumes acc: "accounting c p" and pend: "pending ts vs n k p"
    and m: "acquire_section c now later dead kind l p = (r, p')"
  shows "case r of Inr (MustWait b) \<Rightarrow> pending ts vs (Suc n) k p' | _ \<Rightarrow> pending ts vs n k p'"
proof (cases "closed p \<or> now \<ge> deadline l")
  case True
  then show ?thesis
    using m pend
    by (auto simp: acquire_section_def skip_then_apply log_acquire_timeout_ok [OF acc] split: if_splits)
next
  case False
  obtain x q where q: "refresh_recycling c now dead p = (x, q)" by (cases "refresh_recycling c now dead p")
  have "accounting c q" "pending ts vs n k q"
    using keeps_result [OF keeps_refresh_recycling acc q]
      keeps_result [OF pending_refresh_recycling pend q] .
  with False m q acquire_pick_result [of c q ts vs n k now later kind l] show ?thesis
    by (auto simp: acquire_section_def skip_then_apply split: sum.splits)
qed

lemma acquire_wakeup_result:
  assumes acc: "accounting c p" and pend: "pending ts vs (Suc n) k p"
  shows "pending ts vs n k (snd (acquire_wakeup c' now w p))"
    and "fst (acquire_wakeup c' now w p) =
      (case w of Notified \<Rightarrow> Inr () | WaitTimedOut \<Rightarrow> Inl capacity_timeout | WaitCancelled \<Rightarrow> Inl CancelledError)"
proof -
  have w: "waiting_requests p = Suc n" using pend by (simp add: pending_def)
  have fin: "with_state (\<lambda>p. if waiting_requests p = 0
          then raise_exn (RuntimeError ''Pool waiter accounting underflow'')
          else skip_then (modify (\<lambda>p. p\<lparr>waiting_requests := waiting_requests p - 1\<rparr>))
                 (publish_metrics_unlocked c' now)) (p\<lparr>pool_events := es\<rparr>)
        = (Inr (), p\<lparr>pool_events := es, waiting_requests := n\<rparr>)" for es
    using w acc publish_ok [of c "p\<lparr>pool_events := es, waiting_requests := n\<rparr>"]
    by (simp add: skip_then_apply)
  show "pending ts vs n k (snd (acquire_wakeup c' now w p))"
    and "fst (acquire_wakeup c' now w p) =
      (case w of Notified \<Rightarrow> Inr () | WaitTimedOut \<Rightarrow> Inl capacity_timeout | WaitCancelled \<Rightarrow> Inl CancelledError)"
    using fin [of "pool_events p"] fin [of "pool_events p @ [PoolAcquireTimedOut ''capacity'']"] pend w
    by (cases w; simp add: acquire_wakeup_def try_finally_def skip_then_apply log_acquire_timeout_ok [OF acc])+
qed

lemma start_enter_result:
  assumes "pending ts vs n k p" and "start_enter p = (r, p')"
  shows "pending ts vs n (case r of Inr True \<Rightarrow> Suc k | _ \<Rightarrow> k) p'"
  using assms by (auto simp: start_enter_def skip_then_apply pending_def split: if_splits)

lemma start_leave_result:
  assumes "pending ts vs n (Suc k) p"
  shows "pending ts vs n k (snd (start_leave w d p))"
    and "fst (start_leave w d p) = Inr (w \<and> k = 0 \<and> \<not> d)"
proof -
  have "startup_waiters p = Suc k" using assms by (simp add: pending_def)
  with assms show "pending ts vs n k (snd (start_leave w d p))"
    and "fst (start_leave w d p) = Inr (w \<and> k = 0 \<and> \<not> d)"
    by (simp_all add: start_leave_def skip_then_apply)
qed

section \<open>The sections of a start-up\<close>

lemma pending_append:
  "pending (ts @ us) vs n k p \<longleftrightarrow> pending ts vs n k p \<and> pending us vs n k p \<and> set ts \<inter> set us = {}"
  by (auto simp: pending_def)

lemma finish_each:
  "for_each finish_create_task ts p =
     (Inr (), p\<lparr>create_tasks := filter (\<lambda>t. t \<notin> set ts) (create_tasks p)\<rparr>)"
proof (induction ts arbitrary: p)
  case (Cons t ts)
  then show ?case by (simp add: skip_then_apply set_discard_def conj_commute)
qed simp

lemma length_filter_removed:
  "distinct xs \<Longrightarrow> distinct ts \<Longrightarrow> set ts \<subseteq> set xs \<Longrightarrow>
     length (filter (\<lambda>t. t \<notin> set ts) xs) + length ts = length xs"
proof -
  assume d: "distinct xs" "distinct ts" "set ts \<subseteq> set xs"
  have "length (filter (\<lambda>t. t \<notin> set ts) xs) = card (set xs - set ts)"
    using d(1) by (simp add: distinct_card [symmetric] set_diff_eq)
  with d show ?thesis
    by (simp add: card_Diff_subset distinct_card card_mono flip: distinct_card)
qed

lemma abandon_effect:
  assumes "structured p"
  shows "fst (abandon_create_task t p) = Inr ()"
    and "closed (snd (abandon_create_task t p)) = closed p"
    and "create_outcomes (snd (abandon_create_task t p)) = create_outcomes p"
    and "set (create_tasks (snd (abandon_create_task t p))) \<subseteq> set (create_tasks p)"
    and "physical_generations (snd (abandon_create_task t p)) = physical_generations p"
  using assms length_set_discard_in [of "create_tasks p" t] length_pos_if_in_set [of t "create_tasks p"]
  by (auto simp: abandon_create_task_def skip_then_apply physical_generations_def
      structured_def task_structure_def)

lemma abandon_each:
  assumes "sound c Q F p"
  shows "fst (for_each abandon_create_task ts p) = Inr ()
    \<and> closed (snd (for_each abandon_create_task ts p)) = closed p
    \<and> create_outcomes (snd (for_each abandon_create_task ts p)) = create_outcomes p
    \<and> set (create_tasks (snd (for_each abandon_create_task ts p))) \<subseteq> set (create_tasks p)
    \<and> physical_generations (snd (for_each abandon_create_task ts p)) = physical_generations p"
  using assms
proof (induction ts arbitrary: p)
  case (Cons t ts)
  let ?p = "snd (abandon_create_task t p)"
  have st: "structured p" using Cons.prems by (simp add: sound_def)
  have p: "abandon_create_task t p = (Inr (), ?p)" using abandon_effect(1) [OF st] by (metis prod.collapse)
  have "sound c Q F ?p" by (rule keepsD [OF sound_abandon_create_task Cons.prems])
  from Cons.IH [OF this] abandon_effect [OF st, of t] show ?case
    unfolding for_each.simps skip_then_Inr [of "abandon_create_task t", OF p] by (metis subset_trans)
qed simp

text \<open>Finishing the launches of a start-up leaves room for the browsers they created.\<close>

lemma finish_started:
  assumes s: "sound c Q F p" and pend: "pending ts vs n k p" and sub: "set don \<subseteq> set ts" "distinct don"
  defines "q \<equiv> p\<lparr>create_tasks := filter (\<lambda>t. t \<notin> set don) (create_tasks p)\<rparr>"
  shows "sound c Q F q"
    and "closed q \<or> physical_generations q + length don \<le> max_physical_generations c"
    and "\<And>s t. s \<in> set (created_slots p don) \<Longrightarrow> t \<in> set (create_tasks q) \<Longrightarrow> create_outcomes q t \<noteq> Created s"
proof -
  have l: "launch_structure p" and st: "structured p" using s by (simp_all add: sound_def structured_def)
  show "sound c Q F q"
    using keepsD [OF keeps_for_each [of don "sound c Q F" finish_create_task, OF sound_finish_create_task] s]
    by (simp add: finish_each q_def)
  show "closed q \<or> physical_generations q + length don \<le> max_physical_generations c"
  proof (cases "closed p")
    case False
    then have "set don \<subseteq> set (create_tasks p)" using pend sub by (auto simp: pending_def)
    from length_filter_removed [OF _ sub(2) this] st
    have "physical_generations q + length don = physical_generations p"
      by (simp add: q_def physical_generations_def structured_def task_structure_def)
    with s False show ?thesis by (simp add: sound_def bounded_def)
  qed (simp add: q_def)
  show "create_outcomes q t \<noteq> Created s" if "s \<in> set (created_slots p don)" "t \<in> set (create_tasks q)" for s t
  proof
    assume "create_outcomes q t = Created s"
    moreover from that(1) obtain t' where "t' \<in> set don" "create_outcomes p t' = Created s"
      by (auto simp: created_slots_def split: create_outcome.splits)
    ultimately have "t \<in> set don" using launch_inj [OF l] by (auto simp: q_def)
    with that(2) show False by (simp add: q_def)
  qed
qed

lemma length_created_slots: "length (created_slots p ts) \<le> length ts"
  unfolding created_slots_def by (induction ts) (auto split: create_outcome.split)

lemma created_slots_mem: "s \<in> set (created_slots p ts) \<longleftrightarrow> (\<exists>t \<in> set ts. create_outcomes p t = Created s)"
proof
  assume "\<exists>t \<in> set ts. create_outcomes p t = Created s"
  then obtain t where "t \<in> set ts" "create_outcomes p t = Created s" by blast
  then show "s \<in> set (created_slots p ts)" by (force simp: created_slots_def)
qed (auto simp: created_slots_def split: create_outcome.splits)

lemma created_slots_cong: "create_outcomes q = create_outcomes p \<Longrightarrow> created_slots q ts = created_slots p ts"
  by (simp add: created_slots_def)

lemma sound_start_once_failed:
  assumes s: "sound c Q F p" and pend: "pending ts vs n k p"
    and "set don \<subseteq> set ts" "distinct don"
  shows "sound c Q F (snd (start_once_failed c' now don rest p))"
proof -
  let ?q = "p\<lparr>create_tasks := filter (\<lambda>t. t \<notin> set don) (create_tasks p)\<rparr>"
  let ?a = "snd (for_each abandon_create_task rest ?q)"
  note fin = finish_started [OF assms]
  have a: "fst (for_each abandon_create_task rest ?q) = Inr ()" "closed ?a = closed p"
    "create_outcomes ?a = create_outcomes p" "set (create_tasks ?a) \<subseteq> set (create_tasks ?q)"
    "physical_generations ?a = physical_generations ?q"
    using abandon_each [OF fin(1), of rest] by auto
  have "sound c Q F ?a"
    using keepsD [OF keeps_for_each [of rest "sound c Q F" abandon_create_task, OF sound_abandon_create_task] fin(1)] .
  then have closes: "sound c Q F (snd (for_each (\<lambda>s. do_schedule_close s ErrorReason) (created_slots ?a don) ?a))"
  proof (rule sound_close_each)
    show "create_outcomes ?a t \<noteq> Created s"
      if "s \<in> set (created_slots ?a don)" "t \<in> set (create_tasks ?a)" for s t
      using fin(3) [of s t] that a(3,4) created_slots_cong [OF a(3), of don] by auto
    show "closed ?a \<or> physical_generations ?a + length (created_slots ?a don) \<le> max_physical_generations c"
      using fin(2) a(2,5) length_created_slots [of ?a don] by auto
  qed
  have k: "keeps (sound c Q F) (skip_then start_gives_up
      (skip_then (if rest \<noteq> [] then log_acquire_timeout c' now ''browser_launch'' else ret ())
        (publish_metrics_unlocked c' now)))"
    by (intro keeps_intros)
  have e: "for_each abandon_create_task rest ?q = (Inr (), ?a)" using a(1) by (metis prod.collapse)
  show ?thesis
    unfolding start_once_failed_def
      skip_then_Inr [of "for_each finish_create_task don", OF finish_each]
      skip_then_Inr [of "for_each abandon_create_task rest", OF e]
    by (rule sound_skip_then [OF k]) (use closes in simp)
qed

lemma pending_created:
  assumes "pending ts vs n k p" and "set ts \<inter> set us = {}"
  shows "pending ts vs n k (p\<lparr>create_tasks := filter (\<lambda>t. t \<notin> set us) (create_tasks p)\<rparr>)"
  using assms by (auto simp: pending_def)

lemma pending_for_each [keeps_intros]:
  "set ts \<inter> set us = {} \<Longrightarrow> keeps (pending ts vs n k) (for_each finish_create_task us)"
  "set ts \<inter> set us = {} \<Longrightarrow> keeps (pending ts vs n k) (for_each abandon_create_task us)"
  by (intro keeps_intros; blast)+

lemma pending_start_up:
  assumes "set ts \<inter> set us = {}"
  shows "keeps (pending ts vs n k) (start_once_interrupted c now us)"
    and "set rest \<subseteq> set us \<Longrightarrow> set don \<subseteq> set us \<Longrightarrow> keeps (pending ts vs n k) (start_once_failed c now don rest)"
  unfolding start_once_interrupted_def start_once_failed_def
  by (intro keeps_intros; use assms in auto)+

lemma pending_recover [keeps_intros]:
  "set ts \<inter> set us = {} \<Longrightarrow> keeps (pending ts vs n k) (recover_cancelled_start c now us ss)"
  unfolding recover_cancelled_start_def by (intro keeps_intros)

lemma pending_slots_append:
  assumes "pending ts vs n k p"
    and "\<And>t s. t \<in> set ts \<Longrightarrow> create_outcomes p t = Created s \<Longrightarrow> s \<notin> set ss"
  shows "pending ts vs n k (p\<lparr>slots := slots p @ ss\<rparr>)"
  using assms unfolding pending_def by simp

lemma pending_register:
  assumes l: "launch_structure p" and d: "set ts \<inter> set us = {}" and pend: "pending ts vs n k p"
  shows "pending ts vs n k (snd (register_started_slots c now us (created_slots p us) cancelled p))"
proof -
  let ?ss = "created_slots p us" and ?q = "p\<lparr>create_tasks := filter (\<lambda>t. t \<notin> set us) (create_tasks p)\<rparr>"
  have q: "pending ts vs n k ?q" by (rule pending_created [OF pend d])
  have dis: "s \<notin> set ?ss" if "t \<in> set ts" "create_outcomes p t = Created s" for t s
  proof
    assume "s \<in> set ?ss"
    then obtain t' where "t' \<in> set us" "create_outcomes p t' = Created s"
      unfolding created_slots_mem by blast
    with launch_inj [OF l that(2)] that(1) d show False by blast
  qed
  have "pending ts vs n k (?q\<lparr>slots := slots ?q @ ?ss\<rparr>)"
    by (rule pending_slots_append [OF q], erule dis) simp
  then have take: "pending ts vs n k (p\<lparr>create_tasks := filter (\<lambda>t. t \<notin> set us) (create_tasks p),
      slots := slots p @ ?ss\<rparr>)"
    by simp
  have k: "keeps (pending ts vs n k) (skip_then (for_each (\<lambda>s. do_schedule_close s (r s)) ?ss)
        (skip_then (publish_metrics_unlocked c now) (ret False)))" for r
    by (intro keeps_intros)
  have pub: "keeps (pending ts vs n k) (skip_then (publish_metrics_unlocked c now) (ret True))"
    by (intro keeps_intros)
  show ?thesis
    unfolding register_started_slots_def skip_then_Inr [of "for_each finish_create_task us", OF finish_each]
    using keepsD [OF k q] keepsD [OF pub take] by (simp add: skip_then_apply [of "modify _"])
qed

lemma sound_take_in_all:
  assumes "sound c Q F p"
    and "\<And>s. s \<in> set ss \<Longrightarrow> state (heap p s) \<noteq> Closing \<and> s \<notin> set (slots p)" and "distinct ss"
    and "\<And>s t. s \<in> set ss \<Longrightarrow> t \<in> set (create_tasks p) \<or> t \<in> set (create_watchers p) \<Longrightarrow>
           create_outcomes p t \<noteq> Created s"
    and "closed p \<or> physical_generations p + length ss \<le> max_physical_generations c"
  shows "sound c Q F (p\<lparr>slots := slots p @ ss\<rparr>)"
  using assms
proof (induction ss arbitrary: p)
  case (Cons s ss)
  let ?p = "p\<lparr>slots := slots p @ [s]\<rparr>"
  have "sound c Q F ?p" by (rule sound_take_in) (use Cons.prems in auto)
  then have "sound c Q F (?p\<lparr>slots := slots ?p @ ss\<rparr>)"
    by (rule Cons.IH) (use Cons.prems in \<open>auto simp: physical_generations_def\<close>)
  then show ?case by simp
qed simp

lemma created_slots_distinct:
  assumes l: "launch_structure p" and "distinct ts"
  shows "distinct (created_slots p ts)"
  using assms(2)
proof (induction ts)
  case (Cons t ts)
  have "s \<notin> set (created_slots p ts)" if "create_outcomes p t = Created s" for s
  proof
    assume "s \<in> set (created_slots p ts)"
    then obtain t' where "t' \<in> set ts" "create_outcomes p t' = Created s"
      by (auto simp: created_slots_def split: create_outcome.splits)
    with launch_inj [OF l that] Cons.prems show False by auto
  qed
  with Cons show ?case by (auto simp: created_slots_def split: create_outcome.split)
qed (simp add: created_slots_def)

text \<open>Registration hands every browser over to the pool: into \<open>_slots\<close>, or into a close task.\<close>

lemma consistent_register:
  assumes con: "consistent c Q p" and pend: "pending ts vs n k p"
    and b: "\<not> closed p \<Longrightarrow> \<not> cancelled \<Longrightarrow> set ts \<subseteq> set (create_tasks p)"
  shows "consistent c Q (snd (register_started_slots c' now ts (created_slots p ts) cancelled p))"
proof -
  let ?ss = "created_slots p ts"
  let ?q = "p\<lparr>create_tasks := filter (\<lambda>t. t \<notin> set ts) (create_tasks p)\<rparr>"
  have s: "sound c Q {} p" and acc: "accounting c p" using con by (simp_all add: consistent_def)
  have l: "launch_structure p" using s by (simp add: sound_def structured_def)
  have d: "distinct ts" using pend by (simp add: pending_def)
  note fin = finish_started [OF s pend subset_refl d]
  show ?thesis
  proof (cases "closed p \<or> cancelled")
    case True
    let ?r = "if closed p then Shutdown else ErrorReason"
    have "sound c Q {} (snd (for_each (\<lambda>s. do_schedule_close s ?r) ?ss ?q))"
      by (rule sound_close_each [OF fin(1)])
        (use fin(2,3) length_created_slots [of p ts] in auto)
    moreover have "accounting c (snd (for_each (\<lambda>s. do_schedule_close s ?r) ?ss ?q))"
      by (rule keepsD [of "accounting c"]) (use acc in \<open>auto intro!: keeps_intros\<close>)
    ultimately have "consistent c Q (snd (for_each (\<lambda>s. do_schedule_close s ?r) ?ss ?q))"
      by (simp add: consistent_def)
    moreover have "keeps (consistent c Q) (skip_then (publish_metrics_unlocked c' now) (ret False))"
      by (intro keeps_intros)
    ultimately have "consistent c Q (snd (skip_then (for_each (\<lambda>s. do_schedule_close s ?r) ?ss)
        (skip_then (publish_metrics_unlocked c' now) (ret False)) ?q))"
      by (cases "for_each (\<lambda>s. do_schedule_close s ?r) ?ss ?q")
        (auto simp: skip_then_apply [of "for_each _ _"] dest: keepsD split: sum.split)
    with True show ?thesis
      unfolding register_started_slots_def
        skip_then_Inr [of "for_each finish_create_task ts", OF finish_each]
      by (simp cong: if_cong)
  next
    case False
    have "sound c Q {} (?q\<lparr>slots := slots ?q @ ?ss\<rparr>)"
    proof (rule sound_take_in_all [OF fin(1)])
      fix s assume "s \<in> set ?ss"
      then obtain t where t: "t \<in> set ts" "create_outcomes p t = Created s"
        by (auto simp: created_slots_mem)
      moreover have "t \<in> set (create_tasks p)" using b False t(1) by auto
      ultimately show "state (heap ?q s) \<noteq> Closing \<and> s \<notin> set (slots ?q)"
        using launch_open [OF l] launch_disjoint [OF l] by auto
      fix t' assume t': "t' \<in> set (create_tasks ?q) \<or> t' \<in> set (create_watchers ?q)"
      show "create_outcomes ?q t' \<noteq> Created s"
      proof
        assume "create_outcomes ?q t' = Created s"
        then have "t' = t" using launch_inj [OF l, of t' s t] t by simp
        with t' t(1) \<open>t \<in> set (create_tasks p)\<close> s show False
          by (auto simp: sound_def structured_def task_structure_def)
      qed
    next
      show "distinct ?ss" by (rule created_slots_distinct [OF l d])
      show "closed ?q \<or> physical_generations ?q + length ?ss \<le> max_physical_generations c"
        using fin(2) length_created_slots [of p ts] by auto
    qed
    moreover have "accounting c (?q\<lparr>slots := slots ?q @ ?ss\<rparr>)"
      by (rule accounting_append_slot)
        (use acc launch_old [OF l] in \<open>auto simp: created_slots_mem\<close>)
    ultimately have "consistent c Q (?q\<lparr>slots := slots ?q @ ?ss\<rparr>)"
      unfolding consistent_def by simp
    with False publish_ok [of c "?q\<lparr>slots := slots ?q @ ?ss\<rparr>" c' now] show ?thesis
      unfolding register_started_slots_def
        skip_then_Inr [of "for_each finish_create_task ts", OF finish_each]
      by (simp add: skip_then_apply consistent_def)
  qed
qed

lemma schedule_close_idle:
  assumes idle: "active_contexts (heap p s) = 0" and q: "q = snd (schedule_close s r p)"
  shows "fst (do_schedule_close s r p) = Inr ()" and "snd (do_schedule_close s r p) = q"
    and "state (heap q s) = Closing" and "next_slot q = next_slot p"
    and "active_contexts (heap q s') = active_contexts (heap p s')"
    and "state (heap p s') = Closing \<Longrightarrow> state (heap q s') = Closing"
  using idle by (auto simp: q seq_apply schedule_close_cases)

lemma close_each_result:
  assumes f: "\<And>s p. f s p = do_schedule_close s (r s) p"
    and "\<And>s. s \<in> set ss \<Longrightarrow> active_contexts (heap p s) = 0"
  shows "fst (for_each f ss p) = Inr () \<and> next_slot (snd (for_each f ss p)) = next_slot p
    \<and> (\<forall>s. s \<in> set ss \<or> state (heap p s) = Closing \<longrightarrow> state (heap (snd (for_each f ss p)) s) = Closing)"
  using assms(2)
proof (induction ss arbitrary: p)
  case (Cons s ss)
  let ?p = "snd (schedule_close s (r s) p)"
  have s: "active_contexts (heap p s) = 0" using Cons.prems by simp
  note e = schedule_close_idle [where r = "r s", OF s refl]
  have d: "f s p = (Inr (), ?p)" using e(1,2) unfolding f by (metis prod.collapse)
  have "\<And>s'. s' \<in> set ss \<Longrightarrow> active_contexts (heap ?p s') = 0"
    using Cons.prems e(5) by simp
  from Cons.IH [OF this] e(3,4,6) show ?case
    unfolding for_each.simps skip_then_Inr [of "f s", OF d] by auto
qed simp

lemma register_owned:
  assumes con: "consistent c Q p" and pend: "pending ts vs n k p" and s: "s \<in> set (created_slots p ts)"
  shows "pool_owned (snd (register_started_slots c' now ts (created_slots p ts) cancelled p)) s"
proof -
  let ?ss = "created_slots p ts"
  let ?q = "p\<lparr>create_tasks := filter (\<lambda>t. t \<notin> set ts) (create_tasks p)\<rparr>"
  have l: "launch_structure p" and acc: "accounting c p"
    using con by (simp_all add: consistent_def sound_def structured_def)
  have new: "s' < next_slot p" and idle: "active_contexts (heap ?q s') = 0" if s': "s' \<in> set ?ss" for s'
  proof -
    obtain t where t: "t \<in> set ts" "create_outcomes p t = Created s'"
      using s' unfolding created_slots_mem by blast
    with launch_old [OF l] show "s' < next_slot p" by blast
    have "s' \<notin> set (slots p)" using pend t by (auto simp: pending_def)
    with acc show "active_contexts (heap ?q s') = 0" by (auto simp: accounting_def)
  qed
  show ?thesis
  proof (cases "closed p \<or> cancelled")
    case True
    let ?r = "if closed p then Shutdown else ErrorReason"
    let ?e = "snd (for_each (\<lambda>s. do_schedule_close s ?r) ?ss ?q)"
    have r: "fst (for_each (\<lambda>s. do_schedule_close s ?r) ?ss ?q) = Inr ()"
      "state (heap ?e s) = Closing" "next_slot ?e = next_slot p"
      using close_each_result [of "\<lambda>s. do_schedule_close s ?r" "\<lambda>_. ?r" ?ss ?q, OF refl idle] s by auto
    have acc': "accounting c ?e"
      by (rule keepsD [of "accounting c"]) (use acc in \<open>auto intro!: keeps_intros\<close>)
    have e: "for_each (\<lambda>s. do_schedule_close s ?r) ?ss ?q = (Inr (), ?e)"
      using r(1) by (metis prod.collapse)
    have "register_started_slots c' now ts ?ss cancelled p =
      skip_then (for_each (\<lambda>s. do_schedule_close s ?r) ?ss)
        (skip_then (publish_metrics_unlocked c' now) (ret False)) ?q"
      unfolding register_started_slots_def
        skip_then_Inr [of "for_each finish_create_task ts", OF finish_each]
      using True by (simp cong: if_cong)
    also have "\<dots> = (Inr False, ?e)"
      unfolding skip_then_Inr [of "for_each _ _", OF e]
      by (simp add: skip_then_apply publish_ok [OF acc'])
    finally show ?thesis using r new [OF s] by (simp add: pool_owned_def)
  next
    case False
    have "accounting c (?q\<lparr>slots := slots ?q @ ?ss\<rparr>)"
      by (rule accounting_append_slot) (use acc new in auto)
    with False publish_ok [of c "?q\<lparr>slots := slots ?q @ ?ss\<rparr>" c' now] s show ?thesis
      unfolding register_started_slots_def
        skip_then_Inr [of "for_each finish_create_task ts", OF finish_each]
      by (simp add: skip_then_apply pool_owned_def)
  qed
qed

section \<open>The machine\<close>

text \<open>
  The coroutines that are suspended inside the pool: start-ups between two sections of
  \<open>_start_once\<close> (with the registration's \<open>cancelled\<close> flag), callers of \<open>_acquire_slot\<close> waiting on
  the condition, callers of \<open>start()\<close> waiting for the start-up task.
\<close>

datatype startup =
    Launching "nat list"
  | Registering "nat list" bool
  | Registered "nat list" "nat list" bool bool

fun startup_tasks :: "startup \<Rightarrow> nat list" where
  "startup_tasks (Launching ts) = ts"
| "startup_tasks (Registering ts _) = ts"
| "startup_tasks (Registered ts ss _ _) = []"

fun registered_tasks :: "startup \<Rightarrow> nat list" where
  "registered_tasks (Registered ts _ _ _) = ts"
| "registered_tasks _ = []"

fun startup_slots :: "startup \<Rightarrow> nat list" where
  "startup_slots (Registered ts ss _ _) = ss"
| "startup_slots _ = []"

record machine =
  the_pool :: pool
  startups :: "startup list"
  waiters :: nat
  starters :: nat

definition startups_of :: "machine \<Rightarrow> nat list" where
  "startups_of m = concat (map startup_tasks (startups m))"

definition registered_of :: "machine \<Rightarrow> nat list" where
  "registered_of m = concat (map registered_tasks (startups m))"

definition owned_of :: "machine \<Rightarrow> nat set" where
  "owned_of m = set (concat (map startup_slots (startups m)))"

definition machine_ok :: "pool_config \<Rightarrow> machine \<Rightarrow> bool" where
  "machine_ok c m \<longleftrightarrow> consistent c (owned_of m) (the_pool m)
     \<and> pending (startups_of m) (registered_of m) (waiters m) (starters m) (the_pool m)"

definition new_machine :: machine where
  "new_machine = \<lparr>the_pool = new_pool, startups = [], waiters = 0, starters = 0\<rparr>"

text \<open>Sections that need no coroutine's position: whoever runs them, they may run now.\<close>

inductive free_section :: "pool_config \<Rightarrow> pool \<Rightarrow> unit pool_prog \<Rightarrow> bool" for c p where
  fs_finalize: "f \<in> set (accounting_tasks p) \<Longrightarrow> free_section c p (finalize_accounting c now f)"
| fs_finalized: "free_section c p (accounting_task_done c now f)"
| fs_start_finalizer: "free_section c p (seq (start_finalizer r q discard reason phase) (\<lambda>_. ret ()))"
| fs_reserve_persistent: "free_section c p (seq (reserve_persistent c now) (\<lambda>_. ret ()))"
| fs_release: "free_section c p (release_slot c now r discard reason phase)"
| fs_created: "t \<in> set (create_tasks p) \<or> t \<in> set (create_watchers p) \<Longrightarrow> create_outcomes p t = Running \<Longrightarrow>
    free_section c p (create_slot_done now t)"
| fs_create_failed: "t \<in> set (create_tasks p) \<or> t \<in> set (create_watchers p) \<Longrightarrow>
    create_outcomes p t = Running \<Longrightarrow> free_section c p (create_slot_failed e t)"
| fs_supervise_timeout: "t \<in> set (create_supervisors p) \<Longrightarrow> free_section c p (supervise_timed_out c now t)"
| fs_supervise: "t \<in> set (create_supervisors p) \<Longrightarrow> create_outcomes p t \<noteq> Running \<Longrightarrow>
    free_section c p (supervise_finished c now t)"
| fs_supervisor_done: "free_section c p (create_supervisor_done t)"
| fs_abandoned: "t \<in> set (create_watchers p) \<Longrightarrow> create_outcomes p t \<noteq> Running \<Longrightarrow>
    free_section c p (finish_abandoned_creation c now t)"
| fs_close: "dict_has s (close_tasks p) \<Longrightarrow> free_section c p (run_close_slot c now dead s attempts)"
| fs_close_aborted: "free_section c p (reconcile_aborted_close_task c now dead s t)"
| fs_physically_closed: "free_section c p (physical_close_finished s)"
| fs_late_close: "free_section c p (reconcile_late_physical_close c now fin s)"
| fs_refresh: "free_section c p (refresh c now dead)"
| fs_maintain: "free_section c p (maintain c now dead)"
| fs_quiesce: "free_section c p (quiesce c now)"
| fs_close_begin: "free_section c p (seq (close_begin c now b) (\<lambda>_. ret ()))"
| fs_startup_done: "free_section c p startup_task_done"

fun waits :: "exn + acquire_step \<Rightarrow> nat" where
  "waits (Inr (MustWait _)) = 1"
| "waits _ = 0"

inductive pool_step :: "pool_config \<Rightarrow> machine \<Rightarrow> machine \<Rightarrow> bool" for c where
  step_free: "free_section c (the_pool m) prog \<Longrightarrow> pool_step c m (m\<lparr>the_pool := snd (prog (the_pool m))\<rparr>)"
| step_acquire: "acquire_section c now later dead kind l (the_pool m) = (r, p) \<Longrightarrow>
    pool_step c m (m\<lparr>the_pool := p, waiters := waiters m + waits r\<rparr>)"
| step_wakeup: "waiters m = Suc n \<Longrightarrow>
    pool_step c m (m\<lparr>the_pool := snd (acquire_wakeup c now w (the_pool m)), waiters := n\<rparr>)"
| step_start_enter: "start_enter (the_pool m) = (r, p) \<Longrightarrow>
    pool_step c m (m\<lparr>the_pool := p, starters := starters m + (if r = Inr True then 1 else 0)\<rparr>)"
| step_start_leave: "starters m = Suc n \<Longrightarrow>
    pool_step c m (m\<lparr>the_pool := snd (start_leave w d (the_pool m)), starters := n\<rparr>)"
| step_begin: "start_once_begin c now (the_pool m) = (r, p) \<Longrightarrow>
    pool_step c m (m\<lparr>the_pool := p, startups := startups m
      @ (case r of Inr (Some ts) \<Rightarrow> [Launching ts] | _ \<Rightarrow> [])\<rparr>)"
| step_interrupted: "startups m = xs @ Launching ts # ys \<Longrightarrow>
    pool_step c m (m\<lparr>the_pool := snd (start_once_interrupted c now ts (the_pool m)), startups := xs @ ys\<rparr>)"
| step_failed: "startups m = xs @ Launching ts # ys \<Longrightarrow> distinct don \<Longrightarrow> set don \<union> set rest = set ts \<Longrightarrow>
    pool_step c m (m\<lparr>the_pool := snd (start_once_failed c now don rest (the_pool m)), startups := xs @ ys\<rparr>)"
| step_all_created: "startups m = xs @ Launching ts # ys \<Longrightarrow>
    (\<And>t. t \<in> set ts \<Longrightarrow> \<exists>s. create_outcomes (the_pool m) t = Created s) \<Longrightarrow>
    pool_step c m (m\<lparr>startups := xs @ Registering ts False # ys\<rparr>)"
| step_registering_cancelled: "startups m = xs @ Registering ts False # ys \<Longrightarrow>
    pool_step c m (m\<lparr>the_pool := snd (start_registration_interrupted (the_pool m)),
                     startups := xs @ Registering ts True # ys\<rparr>)"
| step_register: "startups m = xs @ Registering ts b # ys \<Longrightarrow>
    register_started_slots c now ts (created_slots (the_pool m) ts) b (the_pool m) = (r, p) \<Longrightarrow>
    pool_step c m (m\<lparr>the_pool := p,
      startups := xs @ Registered ts (created_slots (the_pool m) ts) (r = Inr True) b # ys\<rparr>)"
| step_registered: "startups m = xs @ Registered ts ss r False # ys \<Longrightarrow>
    pool_step c m (m\<lparr>the_pool := snd (start_once_registered r (the_pool m)), startups := xs @ ys\<rparr>)"
| step_registered_cancelled: "startups m = xs @ Registered ts ss r False # ys \<Longrightarrow>
    pool_step c m (m\<lparr>the_pool := snd (start_registration_interrupted (the_pool m)),
                     startups := xs @ Registered ts ss r True # ys\<rparr>)"
| step_recover: "startups m = xs @ Registered ts ss r True # ys \<Longrightarrow>
    pool_step c m (m\<lparr>the_pool := snd (recover_cancelled_start c now ts ss (the_pool m)), startups := xs @ ys\<rparr>)"

section \<open>Every step keeps the machine in order\<close>

lemma consistentD:
  assumes "consistent c Q p"
  shows "accounting c p" "sound c Q {} p" "launch_structure p" "structured p"
  using assms by (simp_all add: consistent_def sound_def structured_def)

lemma consistent_weaken: "consistent c Q p \<Longrightarrow> Q' \<subseteq> Q \<Longrightarrow> consistent c Q' p"
  using sound_weaken [of c Q "{}" p Q' "{}"] by (simp add: consistent_def)

lemma consistent_keeps:
  assumes "consistent c Q p" and "keeps (accounting c) m" and "keeps (sound c Q {}) m"
  shows "consistent c Q (snd (m p))"
  unfolding consistent_def
  using keepsD [OF assms(2)] keepsD [OF assms(3)] assms(1) by (simp add: consistent_def)

lemma pending_subD: "t \<in> set ts \<Longrightarrow> pending ts vs n k p \<Longrightarrow> t \<notin> set (create_supervisors p)"
  by (simp add: pending_def)

lemma free_section_consistent:
  assumes con: "consistent c Q p" and fs: "free_section c p m"
  shows "consistent c Q (snd (m p))"
  using fs
proof cases
  case (fs_finalize f now)
  then show ?thesis using con by (auto intro: keepsD [OF consistent_finalize])
next
  case (fs_finalized now f)
  then show ?thesis using con by (auto intro!: consistent_keeps keeps_intros)
next
  case (fs_start_finalizer r q discard reason phase)
  then have "keeps (consistent c Q) m" by (auto intro!: keeps_intros)
  then show ?thesis using con by (rule keepsD)
next
  case (fs_reserve_persistent now)
  then show ?thesis using con by (auto intro!: consistent_keeps keeps_intros)
next
  case (fs_release now r discard reason phase)
  then show ?thesis using con by (auto intro: keepsD [OF consistent_release_slot])
next
  case (fs_created t now)
  then show ?thesis
    using consistentD [OF con] keepsD [OF keeps_create_slot_done] sound_create_slot_done
    by (auto simp: consistent_def)
next
  case (fs_create_failed t e)
  then show ?thesis
    using consistentD [OF con] keepsD [OF keeps_create_slot_failed] sound_create_slot_failed
    by (auto simp: consistent_def)
next
  case (fs_supervise_timeout t now)
  then show ?thesis using con by (auto intro!: consistent_keeps keeps_intros)
next
  case (fs_supervise t now)
  then show ?thesis using con by (auto intro!: consistent_keeps keeps_intros)
next
  case (fs_supervisor_done t)
  then show ?thesis using con by (auto intro!: consistent_keeps keeps_intros)
next
  case (fs_abandoned t now)
  then show ?thesis
    using consistentD [OF con] keepsD [OF keeps_finish_abandoned_creation] sound_finish_abandoned_creation
    by (auto simp: consistent_def)
next
  case (fs_close s now dead attempts)
  then show ?thesis
    using consistentD [OF con] keepsD [OF keeps_reconcile(4)] sound_run_close_slot
    by (auto simp: consistent_def)
next
  case (fs_close_aborted now dead s t)
  then show ?thesis using con by (auto intro!: consistent_keeps keeps_intros)
next
  case (fs_physically_closed s)
  then show ?thesis using con by (auto intro!: consistent_keeps keeps_intros)
next
  case (fs_late_close now fin s)
  then show ?thesis using con by (auto intro!: consistent_keeps keeps_intros)
next
  case (fs_refresh now dead)
  then show ?thesis using con by (auto intro!: consistent_keeps keeps_intros)
next
  case (fs_maintain now dead)
  then show ?thesis using con by (auto intro!: consistent_keeps keeps_intros)
next
  case (fs_quiesce now)
  then show ?thesis using con by (auto intro!: consistent_keeps keeps_intros)
next
  case (fs_close_begin now b)
  then show ?thesis using con by (auto intro!: consistent_keeps keeps_intros)
next
  case fs_startup_done
  then show ?thesis using con by (auto intro!: consistent_keeps keeps_intros)
qed

lemma pending_closing:
  "keeps (\<lambda>p. pending ts vs n k p \<and> closed p) (abandon_create_task t)"
  "keeps (\<lambda>p. pending ts vs n k p \<and> closed p) (retire_for_shutdown s)"
  "keeps (\<lambda>p. pending ts vs n k p \<and> closed p) (schedule_failed_close_retry s)"
proof -
  have still: "keeps closed (retire_for_shutdown s)" "keeps closed (schedule_failed_close_retry s)"
    unfolding retire_for_shutdown_def schedule_failed_close_retry_def start_close_task_def
    by (auto simp: keeps_def schedule_close_cases skip_then_apply seq_apply split: option.split)
  show "keeps (\<lambda>p. pending ts vs n k p \<and> closed p) (abandon_create_task t)"
    by (rule keepsI) (auto simp: abandon_create_task_def skip_then_apply pending_def)
  show "keeps (\<lambda>p. pending ts vs n k p \<and> closed p) (retire_for_shutdown s)"
    "keeps (\<lambda>p. pending ts vs n k p \<and> closed p) (schedule_failed_close_retry s)"
    using still pending_serving(3) pending_failed_close_retry unfolding keeps_def by blast+
qed

lemma pending_shutdown [keeps_intros]:
  "keeps (pending ts vs n k) (quiesce c now)"
  "keeps (pending ts vs n k) (close_begin c now b)"
proof -
  let ?I = "\<lambda>p. pending ts vs n k p \<and> closed p"
  have body: "keeps ?I (skip_then (with_state (\<lambda>p. for_each abandon_create_task (create_tasks p)))
    (skip_then (with_state (\<lambda>p. for_each retire_for_shutdown (slots p))) (publish_metrics_unlocked c now)))"
    "keeps ?I (skip_then (with_state (\<lambda>p. for_each abandon_create_task (create_tasks p)))
      (skip_then (with_state (\<lambda>p. for_each (\<lambda>s. seq (schedule_failed_close_retry s) (\<lambda>_. ret ()))
                                  (failed_close_slots p)))
      (skip_then (with_state (\<lambda>p. for_each retire_for_shutdown (slots p)))
      (skip_then (publish_metrics_unlocked c now) (ret True)))))"
    by (intro keeps_intros pending_closing)+
  have closed: "?I (p\<lparr>closed := True\<rparr>)" if "pending ts vs n k p" for p
    using that by (simp add: pending_def)
  show "keeps (pending ts vs n k) (quiesce c now)"
    by (rule keepsI) (use keepsD [OF body(1) closed] in \<open>simp add: quiesce_def skip_then_Inr [of "modify _", OF modify_eq]\<close>)
  show "keeps (pending ts vs n k) (close_begin c now b)"
    by (rule keepsI) (use keepsD [OF body(2) closed] in \<open>simp add: close_begin_def skip_then_Inr [of "modify _", OF modify_eq]\<close>)
qed

lemma free_section_pending:
  assumes con: "consistent c Q p" and fs: "free_section c p m" and pend: "pending ts vs n k p"
  shows "pending ts vs n k (snd (m p))"
  using fs
proof cases
  case (fs_created t now)
  then show ?thesis using pending_create_slot_done consistentD(2) [OF con] pend by blast
next
  case (fs_supervise_timeout t now)
  then have "t \<notin> set ts" using pend by (auto simp: pending_def)
  with fs_supervise_timeout show ?thesis using keepsD [OF pending_supervise_timed_out pend] by blast
next
  case (fs_supervise t now)
  then have "t \<notin> set ts" using pend by (auto simp: pending_def)
  with fs_supervise show ?thesis using pending_supervise_finished consistentD(3) [OF con] pend by blast
next
  case (fs_start_finalizer r q discard reason phase)
  then have "keeps (pending ts vs n k) m" by (auto intro!: keeps_intros)
  then show ?thesis using pend by (rule keepsD)
next
  case (fs_reserve_persistent now)
  then have "keeps (pending ts vs n k) m" by (auto intro!: keeps_intros)
  then show ?thesis using pend by (rule keepsD)
next
  case (fs_close_begin now b)
  then have "keeps (pending ts vs n k) m" by (auto intro!: keeps_intros)
  then show ?thesis using pend by (rule keepsD)
qed (simp only:, rule keepsD [of "pending ts vs n k", OF _ pend], intro keeps_intros)+

lemma pending_drop: "pending (A @ ts @ B) vs n k p \<Longrightarrow> pending (A @ B) vs n k p"
  by (auto simp: pending_def)

lemma pending_only: "pending (A @ ts @ B) vs n k p \<Longrightarrow> pending ts vs n k p \<and> set (A @ B) \<inter> set ts = {}"
  by (auto simp: pending_def)

lemma pending_drop_registered:
  "pending ts (A @ us @ B) n k p \<Longrightarrow> pending ts (A @ B) n k p \<and> set ts \<inter> set us = {}"
  by (auto simp: pending_def)

lemma pending_move: "pending (A @ ts @ B) (V @ W) n k p \<Longrightarrow> pending (A @ B) (V @ ts @ W) n k p"
  by (auto simp: pending_def)

lemma start_launches_outcomes:
  "create_outcomes (snd (start_launches n p)) t =
     (if t \<in> {next_task p..<next_task p + n} then Running else create_outcomes p t)"
proof (induction n arbitrary: p)
  case (Suc n)
  let ?p = "snd (start_create_task False p)"
  have "create_outcomes ?p = (create_outcomes p)(next_task p := Running)"
    by (simp add: start_create_task_def Let_def)
  then show ?case
    unfolding start_launches_Suc Suc.IH by auto
qed simp

lemma start_once_begin_result:
  assumes con: "consistent c Q p" and pend: "pending ts vs n k p"
    and m: "start_once_begin c now p = (r, p')"
  shows "pending (ts @ (case r of Inr (Some us) \<Rightarrow> us | _ \<Rightarrow> [])) vs n k p'"
proof (cases "started p \<or> closed p \<or> physical_generations p + min_browsers c > max_physical_generations c")
  case True
  with assms show ?thesis by (auto simp: start_once_begin_def split: if_splits)
next
  case False
  let ?p = "p\<lparr>started := True, starting := True\<rparr>" and ?n = "min_browsers c"
  let ?ts = "[next_task p..<next_task p + ?n]" and ?q = "snd (start_launches ?n ?p)"
  have acc: "accounting c ?p" and st: "structured p"
    using consistentD [OF con] by simp_all
  have pub: "publish_metrics_unlocked c now ?q = (Inr (), ?q)"
    by (rule publish_ok, rule keepsD [OF keeps_start_launches acc])
  have sup: "t \<notin> set (create_supervisors p)" and fresh: "create_outcomes ?q t = Running"
    if "t \<in> set ?ts" for t
    using st that start_launches_outcomes [of ?n ?p] by (auto simp: structured_def task_structure_def)
  have "pending ts vs n k ?p" using pend by (simp add: pending_def)
  moreover have "keeps (pending ts vs n k) (start_launches m)" for m
    by (induction m) (auto intro!: keeps_intros)
  ultimately have q: "pending ts vs n k ?q" by (metis keepsD)
  have new: "pending ?ts vs n k ?q" and dis: "set ts \<inter> set ?ts = {}"
  proof -
    note fields = start_launches_fields [of ?n ?p]
    have "\<forall>t \<in> set ?ts. t \<in> set (create_tasks ?q) \<and> t < next_task ?q" using fields by auto
    moreover have "\<forall>t \<in> set ?ts. t \<notin> set (create_supervisors ?q)"
      using fields sup by auto
    moreover have "\<forall>t \<in> set ?ts. t \<notin> set vs" "\<forall>t \<in> set ts. t < next_task p"
      using pend by (auto simp: pending_def)
    moreover have "\<forall>t \<in> set ?ts. \<forall>s. create_outcomes ?q t \<noteq> Created s" using fresh by auto
    ultimately show "pending ?ts vs n k ?q" "set ts \<inter> set ?ts = {}"
      using q by (auto simp: pending_def)
  qed
  have body: "keeps (pending (ts @ ?ts) vs n k) (skip_then (publish_metrics_unlocked c now)
       (skip_then (modify (\<lambda>p. p\<lparr>starting := (?ts \<noteq> [])\<rparr>)) (ret (Some ?ts))))"
    by (intro keeps_intros keeps_pending_modify) (simp add: pending_view_def)
  have e: "start_once_begin c now p = skip_then (publish_metrics_unlocked c now)
       (skip_then (modify (\<lambda>p. p\<lparr>starting := (?ts \<noteq> [])\<rparr>)) (ret (Some ?ts))) ?q"
    using False
    by (simp add: start_once_begin_def skip_then_Inr [of "modify _", OF modify_eq]
        seq_Inr [OF start_launches_pair])
  then have "publish_metrics_unlocked c now ?q = (Inr (), ?q) \<Longrightarrow> r = Inr (Some ?ts)"
    using m by (simp add: skip_then_apply)
  then have r: "r = Inr (Some ?ts)" using pub by blast
  have "pending (ts @ ?ts) vs n k ?q" using q new dis unfolding pending_append by blast
  then have "pending (ts @ ?ts) vs n k p'"
    by (rule keeps_result [OF body]) (use e m in \<open>rule trans [OF sym]\<close>)
  with r show ?thesis by simp
qed

lemma acquire_pending:
  assumes "accounting c p" and "pending ts vs n k p" and "acquire_section c now later dead kind l p = (r, p')"
  shows "pending ts vs (n + waits r) k p'"
  using acquire_section_result [OF assms] by (auto split: sum.splits acquire_step.splits)

lemma owned_of_simps [simp]:
  "owned_of (m\<lparr>startups := ss\<rparr>) = set (concat (map startup_slots ss))"
  "owned_of (m\<lparr>the_pool := p\<rparr>) = owned_of m" "owned_of (m\<lparr>waiters := n\<rparr>) = owned_of m"
  "owned_of (m\<lparr>starters := n\<rparr>) = owned_of m"
  "startups_of (m\<lparr>startups := ss\<rparr>) = concat (map startup_tasks ss)"
  "startups_of (m\<lparr>the_pool := p\<rparr>) = startups_of m" "startups_of (m\<lparr>waiters := n\<rparr>) = startups_of m"
  "startups_of (m\<lparr>starters := n\<rparr>) = startups_of m"
  "registered_of (m\<lparr>startups := ss\<rparr>) = concat (map registered_tasks ss)"
  "registered_of (m\<lparr>the_pool := p\<rparr>) = registered_of m" "registered_of (m\<lparr>waiters := n\<rparr>) = registered_of m"
  "registered_of (m\<lparr>starters := n\<rparr>) = registered_of m"
  by (simp_all add: owned_of_def startups_of_def registered_of_def)

lemma consistent_result:
  assumes "consistent c Q p" and "m p = (r, p')" and "keeps (accounting c) m" and "keeps (sound c Q {}) m"
  shows "consistent c Q p'"
  using consistent_keeps [OF assms(1,3,4)] assms(2) by simp

lemma machine_ok_unfold:
  "machine_ok c m \<Longrightarrow> startups m = xs @ st # ys \<Longrightarrow>
     consistent c (set (concat (map startup_slots xs)) \<union> set (startup_slots st) \<union> set (concat (map startup_slots ys))) (the_pool m)
     \<and> pending (concat (map startup_tasks xs) @ startup_tasks st @ concat (map startup_tasks ys))
         (concat (map registered_tasks xs) @ registered_tasks st @ concat (map registered_tasks ys))
         (waiters m) (starters m) (the_pool m)"
  by (simp add: machine_ok_def owned_of_def startups_of_def registered_of_def Un_ac)

lemma machine_ok_startups:
  assumes "consistent c (set (concat (map startup_slots ss))) p"
    and "pending (concat (map startup_tasks ss)) (concat (map registered_tasks ss)) (waiters m) (starters m) p"
  shows "machine_ok c (m\<lparr>the_pool := p, startups := ss\<rparr>)"
  using assms by (simp add: machine_ok_def)

text \<open>A start-up leaves the machine, alone of all start-ups; what the others wait for stays.\<close>

lemma startup_leaves:
  assumes ok: "machine_ok c m" and ss: "startups m = xs @ st # ys"
    and con: "\<And>Q. consistent c (Q \<union> set (startup_slots st)) (the_pool m) \<Longrightarrow>
        pending (startup_tasks st) (registered_of m) (waiters m) (starters m) (the_pool m) \<Longrightarrow>
        consistent c Q p'"
    and pend: "\<And>ts vs. set ts \<inter> set (startup_tasks st @ registered_tasks st) = {} \<Longrightarrow>
        pending ts vs (waiters m) (starters m) (the_pool m) \<Longrightarrow> pending ts vs (waiters m) (starters m) p'"
  shows "machine_ok c (m\<lparr>the_pool := p', startups := xs @ ys\<rparr>)"
proof (rule machine_ok_startups)
  define A B V W Q where "A = concat (map startup_tasks xs)" "B = concat (map startup_tasks ys)"
    "V = concat (map registered_tasks xs)" "W = concat (map registered_tasks ys)"
    "Q = set (concat (map startup_slots (xs @ ys)))"
  note d = this
  note u = machine_ok_unfold [OF ok ss, folded d]
  have p: "pending (A @ startup_tasks st @ B) (V @ registered_tasks st @ W) (waiters m) (starters m) (the_pool m)"
    using u by blast
  have r: "registered_of m = V @ registered_tasks st @ W" by (simp add: registered_of_def ss d)
  have "consistent c (Q \<union> set (startup_slots st)) (the_pool m)"
    using ok by (simp add: machine_ok_def owned_of_def ss d Un_ac)
  then have "consistent c Q p'"
    by (rule con) (use pending_only [OF p] r in simp)
  then show "consistent c (set (concat (map startup_slots (xs @ ys)))) p'" by (simp add: d)
  have q: "pending (A @ B) (V @ W) (waiters m) (starters m) (the_pool m)"
    using pending_drop_registered [OF pending_drop [OF p]] by blast
  have "set (A @ B) \<inter> set (startup_tasks st @ registered_tasks st) = {}"
    using pending_only [OF p] pending_drop_registered [OF pending_drop [OF p]] by auto
  from pend [OF this q]
  show "pending (concat (map startup_tasks (xs @ ys))) (concat (map registered_tasks (xs @ ys)))
      (waiters m) (starters m) p'" by (simp add: d)
qed

lemma step_interrupted_ok:
  assumes ok: "machine_ok c m" and ss: "startups m = xs @ Launching ts # ys"
  shows "machine_ok c (m\<lparr>the_pool := snd (start_once_interrupted c now ts (the_pool m)), startups := xs @ ys\<rparr>)"
  by (rule startup_leaves [OF ok ss])
    (auto intro!: consistent_keeps keeps_intros keepsD [OF pending_start_up(1)])

lemma step_failed_ok:
  assumes ok: "machine_ok c m" and ss: "startups m = xs @ Launching ts # ys"
    and d: "distinct don" "set don \<union> set rest = set ts"
  shows "machine_ok c (m\<lparr>the_pool := snd (start_once_failed c now don rest (the_pool m)), startups := xs @ ys\<rparr>)"
proof (rule startup_leaves [OF ok ss])
  fix Q assume con: "consistent c (Q \<union> set (startup_slots (Launching ts))) (the_pool m)"
    and p: "pending (startup_tasks (Launching ts)) (registered_of m) (waiters m) (starters m) (the_pool m)"
  have "set don \<subseteq> set (startup_tasks (Launching ts))" using d(2) by auto
  from sound_start_once_failed [OF consistentD(2) [OF con] p this d(1)]
  show "consistent c Q (snd (start_once_failed c now don rest (the_pool m)))"
    unfolding consistent_def using keepsD [OF keeps_lifecycle_loops(2) consistentD(1) [OF con]] by simp
qed (use d(2) in \<open>auto intro!: keepsD [OF pending_start_up(2) [of _ ts]]\<close>)

lemma step_registered_ok:
  assumes ok: "machine_ok c m" and ss: "startups m = xs @ Registered ts cs r b # ys"
  shows "machine_ok c (m\<lparr>the_pool := snd (start_once_registered r (the_pool m)), startups := xs @ ys\<rparr>)"
proof (rule startup_leaves [OF ok ss])
  fix Q assume "consistent c (Q \<union> set (startup_slots (Registered ts cs r b))) (the_pool m)"
  then have "consistent c Q (the_pool m)" by (rule consistent_weaken) simp
  then show "consistent c Q (snd (start_once_registered r (the_pool m)))"
    by (intro consistent_keeps keeps_intros)
qed (auto intro!: keepsD [OF pending_flags(3)])

lemma step_recover_ok:
  assumes ok: "machine_ok c m" and ss: "startups m = xs @ Registered ts cs r b # ys"
  shows "machine_ok c (m\<lparr>the_pool := snd (recover_cancelled_start c now ts cs (the_pool m)), startups := xs @ ys\<rparr>)"
proof (rule startup_leaves [OF ok ss])
  fix Q assume "consistent c (Q \<union> set (startup_slots (Registered ts cs r b))) (the_pool m)"
  then have "consistent c (Q \<union> set cs) (snd (recover_cancelled_start c now ts cs (the_pool m)))"
    by (intro consistent_keeps keeps_intros) auto
  then show "consistent c Q (snd (recover_cancelled_start c now ts cs (the_pool m)))"
    by (rule consistent_weaken) simp
qed (auto intro!: keepsD [OF pending_recover])

lemma step_register_ok:
  assumes ok: "machine_ok c m" and ss: "startups m = xs @ Registering ts b # ys"
    and reg: "register_started_slots c now ts (created_slots (the_pool m) ts) b (the_pool m) = (r, p)"
  shows "machine_ok c (m\<lparr>the_pool := p,
      startups := xs @ Registered ts (created_slots (the_pool m) ts) (r = Inr True) b # ys\<rparr>)"
proof (rule machine_ok_startups)
  define A B V W Q where "A = concat (map startup_tasks xs)" "B = concat (map startup_tasks ys)"
    "V = concat (map registered_tasks xs)" "W = concat (map registered_tasks ys)"
    "Q = set (concat (map startup_slots (xs @ ys)))"
  note d = this
  let ?cs = "created_slots (the_pool m) ts" and ?p = "the_pool m"
  have p: "pending (A @ ts @ B) (V @ W) (waiters m) (starters m) ?p"
    using machine_ok_unfold [OF ok ss, folded d] by simp
  have con: "consistent c Q ?p" using ok by (simp add: machine_ok_def owned_of_def ss d)
  note own = pending_only [OF p]
  have p': "p = snd (register_started_slots c now ts ?cs b ?p)" using reg by simp
  have "consistent c Q p"
    unfolding p'
    by (rule consistent_register [OF con conjunct1 [OF own]]) (use own in \<open>auto simp: pending_def\<close>)
  moreover have "\<forall>s \<in> set ?cs. pool_owned p s"
    unfolding p' using register_owned [OF con conjunct1 [OF own]] by blast
  ultimately have "consistent c (Q \<union> set ?cs) p" by (auto simp: consistent_def sound_def)
  then show "consistent c (set (concat (map startup_slots (xs @ Registered ts ?cs (r = Inr True) b # ys)))) p"
    by (simp add: d Un_ac)
  have "pending (A @ B) (V @ ts @ W) (waiters m) (starters m) ?p" by (rule pending_move [OF p])
  then have "pending (A @ B) (V @ ts @ W) (waiters m) (starters m) p"
    unfolding p' by (rule pending_register [OF consistentD(3) [OF con] conjunct2 [OF own]])
  then show "pending (concat (map startup_tasks (xs @ Registered ts ?cs (r = Inr True) b # ys)))
      (concat (map registered_tasks (xs @ Registered ts ?cs (r = Inr True) b # ys))) (waiters m) (starters m) p"
    by (simp add: d)
qed

lemma pool_step_ok:
  assumes ok: "machine_ok c m" and step: "pool_step c m m'"
  shows "machine_ok c m'"
proof -
  note con = ok [unfolded machine_ok_def, THEN conjunct1] and pend = ok [unfolded machine_ok_def, THEN conjunct2]
  note acc = consistentD(1) [OF con]
  show ?thesis
    using step
  proof cases
    case (step_free prog)
    then show ?thesis
      using free_section_consistent [OF con] free_section_pending [OF con _ pend]
      by (simp add: machine_ok_def)
  next
    case (step_acquire now later dead kind l r p)
    moreover have "consistent c (owned_of m) p"
      by (rule consistent_result [of c _ _ "acquire_section c now later dead kind l", OF con step_acquire(2)]) (intro keeps_intros)+
    ultimately show ?thesis
      using acquire_pending [OF acc pend step_acquire(2)] by (simp add: machine_ok_def)
  next
    case (step_wakeup n now w)
    moreover have "consistent c (owned_of m) (snd (acquire_wakeup c now w (the_pool m)))"
      by (rule consistent_keeps [OF con]) (intro keeps_intros)+
    ultimately show ?thesis
      using acquire_wakeup_result(1) [OF acc, of "startups_of m" "registered_of m" n "starters m"] pend
      by (simp add: machine_ok_def)
  next
    case (step_start_enter r p)
    moreover have "consistent c (owned_of m) p"
      by (rule consistent_result [of c _ _ start_enter, OF con step_start_enter(2)]) (intro keeps_intros)+
    ultimately show ?thesis
      using start_enter_result [OF pend step_start_enter(2)]
      by (auto simp: machine_ok_def split: sum.splits bool.splits)
  next
    case (step_start_leave n w d)
    moreover have "consistent c (owned_of m) (snd (start_leave w d (the_pool m)))"
      by (rule consistent_keeps [OF con]) (intro keeps_intros)+
    ultimately show ?thesis
      using start_leave_result(1) [of "startups_of m" "registered_of m" "waiters m" n] pend
      by (simp add: machine_ok_def)
  next
    case (step_begin now r p)
    have "consistent c (owned_of m) p"
      by (rule consistent_result [of c _ _ "start_once_begin c now", OF con step_begin(2)]) (intro keeps_intros)+
    with start_once_begin_result [OF con pend step_begin(2)] step_begin(1) show ?thesis
      by (cases r; cases "case r of Inr (Some ts) \<Rightarrow> Some ts | _ \<Rightarrow> None")
        (simp_all add: machine_ok_def startups_of_def owned_of_def registered_of_def split: option.splits)
  next
    case (step_all_created xs ts ys)
    then show ?thesis using ok by (simp add: machine_ok_def startups_of_def owned_of_def registered_of_def)
  next
    case (step_registering_cancelled xs ts ys)
    moreover have "consistent c (owned_of m) (snd (start_registration_interrupted (the_pool m)))"
      by (rule consistent_keeps [OF con]) (intro keeps_intros)+
    ultimately show ?thesis
      using keepsD [OF pending_flags(4) pend]
      by (simp add: machine_ok_def startups_of_def owned_of_def registered_of_def)
  next
    case (step_registered_cancelled xs ts ss r ys)
    moreover have "consistent c (owned_of m) (snd (start_registration_interrupted (the_pool m)))"
      by (rule consistent_keeps [OF con]) (intro keeps_intros)+
    ultimately show ?thesis
      using keepsD [OF pending_flags(4) pend]
      by (simp add: machine_ok_def startups_of_def owned_of_def registered_of_def)
  qed (use ok step_interrupted_ok step_failed_ok step_register_ok step_registered_ok step_recover_ok in simp_all)
qed

lemma new_machine_ok: "machine_ok c new_machine"
  by (simp add: machine_ok_def new_machine_def consistent_def accounting_def sound_def structured_def
      close_structure_def task_structure_def launch_structure_def bounded_def physical_generations_def
      owned_of_def startups_of_def registered_of_def pending_def new_pool_def new_browser_slot_def
      held_def held_on_def held_transient_def held_persistent_def dict_has_def)

abbreviation pool_reach :: "pool_config \<Rightarrow> machine \<Rightarrow> bool" where
  "pool_reach c \<equiv> reach (\<lambda>m. m = new_machine) (pool_step c)"

interpretation pool: invariant_machine "\<lambda>m. m = new_machine" "pool_step c" "machine_ok c" for c
  by unfold_locales (auto intro: pool_step_ok new_machine_ok)

end
