(* ===== verification/Pool_Properties.thy ===== *)
theory Pool_Properties
  imports Pool_Invariant
begin

text \<open>
  The properties of the browser pool: in every state that any interleaving of its critical
  sections can reach, and for its operations one by one.
\<close>

section \<open>A run to look at\<close>

definition demo_config :: pool_config where
  "demo_config = \<lparr>min_browsers = 1, max_browsers = 2, max_contexts_per_browser = 2, browser_max_uses = 100,
     browser_max_age = seconds 3600, acquire_timeout = seconds 30, reserved_transient_contexts = 1\<rparr>"

definition demo_started :: pool where
  "demo_started = snd (start_once_begin demo_config 0 new_pool)"

definition demo_created :: pool where
  "demo_created = snd (create_slot_done 0 0 demo_started)"

definition demo_registered :: pool where
  "demo_registered = snd (register_started_slots demo_config 0 [0] [0] False demo_created)"

definition demo_ready :: pool where
  "demo_ready = snd (start_once_registered True demo_registered)"

definition no_browser_died :: "nat \<Rightarrow> bool" where
  "no_browser_died s = False"

definition demo_leased :: pool where
  "demo_leased = snd (acquire_section demo_config 0 0 no_browser_died Transient
                        (acquire_begin demo_config 0 demo_ready) demo_ready)"

definition demo_machine :: "pool \<Rightarrow> machine" where
  "demo_machine p = \<lparr>the_pool = p, startups = [], waiters = 0, starters = 0\<rparr>"

lemmas demo_defs = demo_config_def demo_started_def demo_created_def demo_registered_def demo_ready_def
  demo_leased_def

lemma demo_started_result: "fst (start_once_begin demo_config 0 new_pool) = Inr (Some [0])"
  by code_simp

lemma demo_created_facts:
  "0 \<in> set (create_tasks demo_started)" "create_outcomes demo_started 0 = Running"
  "create_outcomes demo_created 0 = Created 0" "created_slots demo_created [0] = [0]"
  by code_simp+

lemma demo_registered_result:
  "fst (register_started_slots demo_config 0 [0] [0] False demo_created) = Inr True"
  by code_simp

lemma demo_acquire_result:
  "fst (acquire_section demo_config 0 0 no_browser_died Transient
          (acquire_begin demo_config 0 demo_ready) demo_ready) = Inr (Reserved 0)"
  by code_simp

lemma demo_leased_facts:
  "active_contexts (heap demo_leased 0) = 1" "slots demo_leased = [0]" "\<not> closed demo_leased"
  "res_released (reservations demo_leased 0) = False" "transient_contexts demo_leased = 1"
  by code_simp+

lemma demo_ready_reach: "pool_reach demo_config (demo_machine demo_ready)"
proof -
  let ?m0 = new_machine
  let ?m1 = "?m0\<lparr>the_pool := demo_started, startups := [Launching [0]]\<rparr>"
  let ?m2 = "?m1\<lparr>the_pool := demo_created\<rparr>"
  let ?m3 = "?m2\<lparr>startups := [Registering [0] False]\<rparr>"
  let ?m4 = "?m3\<lparr>the_pool := demo_registered, startups := [Registered [0] [0] True False]\<rparr>"
  have "pool_reach demo_config ?m0" by (rule reach_init) simp
  moreover have "pool_step demo_config ?m0 ?m1"
    using step_begin [of demo_config 0 ?m0 "Inr (Some [0])" demo_started] demo_started_result
    by (simp add: new_machine_def demo_started_def prod_eq_iff)
  moreover have "pool_step demo_config ?m1 ?m2"
    using step_free [of demo_config ?m1 "create_slot_done 0 0"] demo_created_facts
      fs_created [of 0 demo_started demo_config 0]
    by (simp add: demo_created_def)
  moreover have "pool_step demo_config ?m2 ?m3"
    using step_all_created [of ?m2 "[]" "[0]" "[]" demo_config] demo_created_facts by simp
  moreover have "pool_step demo_config ?m3 ?m4"
    using step_register [of ?m3 "[]" "[0]" False "[]" demo_config 0 "Inr True" demo_registered]
      demo_registered_result demo_created_facts
    by (simp add: demo_registered_def prod_eq_iff)
  moreover have "pool_step demo_config ?m4 (demo_machine demo_ready)"
    using step_registered [of ?m4 "[]" "[0]" "[0]" True "[]" demo_config]
    by (simp add: demo_ready_def demo_machine_def new_machine_def)
  ultimately show ?thesis by (meson reach_step)
qed

lemma demo_reach: "pool_reach demo_config (demo_machine demo_leased)"
proof -
  have "pool_step demo_config (demo_machine demo_ready) (demo_machine demo_leased)"
    using step_acquire [of demo_config 0 0 no_browser_died Transient "acquire_begin demo_config 0 demo_ready"
        "demo_machine demo_ready" "Inr (Reserved 0)" demo_leased] demo_acquire_result
    by (simp add: demo_machine_def demo_leased_def prod_eq_iff)
  with demo_ready_reach show ?thesis by (rule reach_step)
qed

section \<open>What holds in every reachable state\<close>

lemma reach_facts:
  assumes "pool_reach c m"
  shows "accounting c (the_pool m)" "sound c {} {} (the_pool m)" "structured (the_pool m)"
    "waiting_requests (the_pool m) = waiters m" "startup_waiters (the_pool m) = starters m"
    "consistent c {} (the_pool m)"
  using pool.inv_reach [OF assms] consistent_weaken [of c "owned_of m" "the_pool m" "{}"]
  by (auto simp: machine_ok_def consistent_def sound_def pending_def)

lemma the_pool_demo [simp]: "the_pool (demo_machine p) = p"
  by (simp add: demo_machine_def)

text \<open>C1.  The pool's counters are exact in every reachable state: \<open>active_contexts\<close> of a browser is
  the number of unreleased reservations on it and never passes \<open>max_contexts_per_browser\<close>,
  \<open>_transient_contexts\<close> and \<open>_persistent_contexts\<close> count the unreleased reservations of their kind,
  and \<open>_waiting_requests\<close> counts the callers that wait.\<close>

theorem pool_accounting_exact:
  assumes "pool_reach c m"
  shows "active_contexts (heap (the_pool m) s) = card (held_on (the_pool m) s)
    \<and> active_contexts (heap (the_pool m) s) \<le> max_contexts_per_browser c
    \<and> transient_contexts (the_pool m) = card (held_transient (the_pool m))
    \<and> persistent_contexts (the_pool m) = card (held_persistent (the_pool m))
    \<and> waiting_requests (the_pool m) = waiters m"
  using reach_facts(1,4) [OF assms] unfolding accounting_def by blast

lemma pool_accounting_exact_witness:
  "card (held_on demo_leased 0) = 1 \<and> card (held_transient demo_leased) = 1"
  using pool_accounting_exact [OF demo_reach, of 0] demo_leased_facts by simp

text \<open>C2.  While the pool is open, browsers in \<open>_slots\<close>, launches, abandoned launches, closes and failed
  closes together never exceed \<open>_max_physical_generations\<close>, whatever fails, is cancelled or times out.\<close>

theorem pool_physical_ceiling:
  assumes "pool_reach c m" and "\<not> closed (the_pool m)"
  shows "physical_generations (the_pool m) \<le> max_physical_generations c"
  using reach_facts(2) [OF assms(1)] assms(2) by (simp add: sound_def bounded_def)

lemma pool_physical_ceiling_witness: "physical_generations demo_leased \<le> 4"
  using pool_physical_ceiling [OF demo_reach] demo_leased_facts(3)
  by (simp add: demo_config_def max_physical_generations_def)

text \<open>C3.  A browser that holds a context is in \<open>_slots\<close>, is not closing, and has neither a close task
  nor a failed close.\<close>

theorem pool_busy_browser_open:
  assumes "pool_reach c m" and "0 < active_contexts (heap (the_pool m) s)"
  shows "s \<in> set (slots (the_pool m)) \<and> state (heap (the_pool m) s) \<noteq> Closing
    \<and> \<not> dict_has s (close_tasks (the_pool m)) \<and> s \<notin> set (failed_close_slots (the_pool m))"
proof -
  have "s \<in> set (slots (the_pool m))"
    using reach_facts(1) [OF assms(1)] assms(2) by (simp add: accounting_def)
  then show ?thesis
    using reach_facts(3) [OF assms(1)] by (auto simp: structured_def close_structure_def)
qed

lemma pool_busy_browser_open_witness: "0 \<in> set (slots demo_leased) \<and> state (heap demo_leased 0) \<noteq> Closing"
  using pool_busy_browser_open [OF demo_reach, of 0] demo_leased_facts by simp

text \<open>C4.  Persistent contexts leave the reserved transient head-room free.\<close>

theorem pool_persistent_headroom:
  assumes "pool_reach c m" and "reserved_transient_contexts c \<le> max_browsers c * max_contexts_per_browser c"
  shows "card (held_persistent (the_pool m)) + reserved_transient_contexts c
           \<le> max_browsers c * max_contexts_per_browser c"
proof -
  have "card (held_persistent (the_pool m)) \<le> max_persistent_contexts c"
    using reach_facts(1) [OF assms(1)] unfolding accounting_def by metis
  with assms(2) show ?thesis
    unfolding max_persistent_contexts_def by (simp del: of_nat_mult)
qed

lemma pool_persistent_headroom_witness: "card (held_persistent demo_leased) + 1 \<le> 4"
  using pool_persistent_headroom [OF demo_reach] by (simp add: demo_config_def)

section \<open>Releasing\<close>

lemma retire_after_release_ok: "fst (retire_after_release c now s discard reason phase p) = Inr ()"
  by (auto simp: retire_after_release_def skip_then_apply seq_apply schedule_close_cases emit_def
      retired_heap split: if_splits)

lemma release_slot_ok:
  assumes "accounting c p"
  shows "fst (release_slot c' now r discard reason phase p) = Inr ()"
proof (cases "r \<in> held p")
  case True
  let ?m = "retire_after_release c' now (res_slot (reservations p r)) discard reason phase"
  have acc: "accounting c (snd (?m (release_effect r p)))"
    by (rule keepsD [OF keeps_retire_after_release accounting_release_effect [OF assms True]])
  have "?m (release_effect r p) = (Inr (), snd (?m (release_effect r p)))"
    using retire_after_release_ok [of c'] by (metis prod.collapse)
  then show ?thesis
    unfolding release_slot_eq [OF assms True]
    by (subst skip_then_Inr [of ?m]) (auto simp: publish_ok [OF acc] retire_after_release_ok)
qed (simp add: release_slot_released)

lemma release_persistent_ok:
  assumes acc: "accounting c p"
  shows "fst (release_persistent_reservation c' now q p) = Inr ()"
proof (cases "persistent_released p q")
  case False
  then have q: "q \<in> held_persistent p" by (simp add: held_persistent_def)
  from publish_ok [OF accounting_release_persistent(1) [OF acc q]] accounting_release_persistent(2) [OF acc q] False
  show ?thesis by (simp add: release_persistent_reservation_def skip_then_apply)
qed (simp add: release_persistent_reservation_def)



lemma retire_after_release_held [simp]: "held (snd (retire_after_release c now s discard reason phase p)) = held p"
proof -
  have "reservations (snd (retire_after_release c now s discard reason phase p)) = reservations p"
    by (auto simp: retire_after_release_def skip_then_apply seq_apply schedule_close_cases emit_def retired_heap
        split: if_splits)
  then show ?thesis by (simp add: held_def)
qed

lemma release_slot_held:
  assumes acc: "accounting c p"
  shows "held (snd (release_slot c' now r discard reason phase p)) = held p - {r}"
proof (cases "r \<in> held p")
  case True
  let ?m = "retire_after_release c' now (res_slot (reservations p r)) discard reason phase"
  have m: "?m (release_effect r p) = (Inr (), snd (?m (release_effect r p)))"
    using retire_after_release_ok [of c'] by (metis prod.collapse)
  have acc': "accounting c (snd (?m (release_effect r p)))"
    by (rule keepsD [OF keeps_retire_after_release accounting_release_effect [OF acc True]])
  have "held (release_effect r p) = held p - {r}"
    by (auto simp: held_def release_effect_def Let_def)
  then show ?thesis
    unfolding release_slot_eq [OF acc True] skip_then_Inr [of ?m, OF m]
    by (simp add: publish_ok [OF acc'])
qed (simp add: release_slot_released)

text \<open>A reservation is released at most once: after a release, another release of the same
  reservation changes nothing, so a finalizer that races a second one is harmless.\<close>

theorem release_slot_idempotent:
  assumes "pool_reach c m" and p': "p' = snd (release_slot c now r discard reason phase (the_pool m))"
  shows "held p' = held (the_pool m) - {r} \<and> release_slot c now' r discard' reason' phase' p' = (Inr (), p')"
proof -
  have "held p' = held (the_pool m) - {r}"
    unfolding p' by (rule release_slot_held [OF reach_facts(1) [OF assms(1)]])
  then show ?thesis using release_slot_released [of r p'] by auto
qed

lemma release_slot_idempotent_witness:
  "held (snd (release_slot demo_config 1 0 False ErrorReason ''cleanup'' demo_leased)) = held demo_leased - {0}"
  using release_slot_idempotent [OF demo_reach refl, of 1 0 False ErrorReason "''cleanup''"] by simp

section \<open>Retiring\<close>

text \<open>A hard retire reason wins over a soft one and is never replaced by a soft one: once a
  browser was marked for an error, a disconnect or a shutdown, a later recycle limit leaves the
  reason alone.\<close>

theorem hard_retire_reason_wins:
  "state (heap p s) = Closing
   \<or> (let p' = snd (mark_retiring s reason p) in
        state (heap p' s) = Retiring
        \<and> is_soft_retire_reason (retire_reason (heap p' s)) =
            (is_soft_retire_reason (Some reason)
             \<and> (retire_reason (heap p s) = None \<or> is_soft_retire_reason (retire_reason (heap p s)))))"
  by (cases "retire_reason (heap p s)") (auto simp: retired_heap retired_slot_def)

end
