(* ===== verification/Sessions.thy ===== *)
theory Sessions
  imports Errors "HOL-Library.List_Lexorder" "HOL-Library.Char_ord"
begin

text \<open>
  The session registry (\<open>camouflare/sessions.py\<close>).  Sessions, pending creations and cleanup tasks are
  objects with identity and are named by numbers; the registry's dictionaries keep insertion order.
  The coroutines are cut at their awaits: \<open>destroy\<close> and \<open>close\<close> are the critical section and what
  follows the wait.  The end of a cleanup task is an argument.
\<close>

section \<open>State\<close>

datatype close_reason = Expired | ErrorClose | Destroyed

record session =
  session_id :: string
  session_context :: nat
  session_proxy :: "(string \<times> string) list option"
  ttl_seconds :: "int option"
  session_created_at :: time
  last_used_at :: time
  lock_held :: bool
  in_use :: nat

record closing_session =
  closing_of :: nat
  closing_task :: nat
  closing_reason :: close_reason

record pending_creation =
  builders :: nat
  settled :: bool

datatype session_event = SessionCreated | SessionRejected | SessionExpired | SessionError | SessionDestroyed

record session_manager =
  max_sessions :: nat
  default_ttl_seconds :: int
  session_heap :: "nat \<Rightarrow> session"
  next_session :: nat
  sessions :: "(string \<times> nat) list"
  closing :: "(string \<times> closing_session) list"
  creations :: "(string \<times> nat) list"
  pending_heap :: "nat \<Rightarrow> pending_creation"
  next_pending :: nat
  next_close_task :: nat
  manager_closed :: bool
  session_events :: "session_event list"

definition no_session :: session where
  "no_session = \<lparr>session_id = [], session_context = 0, session_proxy = None, ttl_seconds = None,
     session_created_at = 0, last_used_at = 0, lock_held = False, in_use = 0\<rparr>"

definition new_session_manager :: "nat \<Rightarrow> int \<Rightarrow> time \<Rightarrow> exn + session_manager" where
  "new_session_manager limit ttl cleanup_timeout =
     (if cleanup_timeout \<le> 0 then Inl (ValueError ''cleanup timeout must be greater than zero'')
      else Inr \<lparr>max_sessions = limit, default_ttl_seconds = ttl, session_heap = (\<lambda>_. no_session), next_session = 0,
      sessions = [], closing = [], creations = [], pending_heap = (\<lambda>_. \<lparr>builders = 0, settled = False\<rparr>),
      next_pending = 0, next_close_task = 0, manager_closed = False, session_events = []\<rparr>)"

type_synonym 'a session_prog = "(session_manager, 'a, exn) prog"

definition record_session_event :: "session_event \<Rightarrow> unit session_prog" where
  "record_session_event e = modify (\<lambda>m. m\<lparr>session_events := session_events m @ [e]\<rparr>)"

definition session_unavailable_error :: "string \<Rightarrow> exn" where
  "session_unavailable_error msg =
     CamouflareError ((camouflare_error_with msg SESSION_NOT_FOUND True)\<lparr>err_class := SessionUnavailableErrorClass\<rparr>)"

definition session_cleanup_error :: "bool \<Rightarrow> exn" where
  "session_cleanup_error timed_out =
     CamouflareError ((camouflare_error_with
       (if timed_out then ''The session was removed, but its cleanup exceeded the cleanup timeout.''
        else ''The session was removed, but its cleanup failed.'')
       (if timed_out then REQUEST_TIMEOUT else INTERNAL_ERROR) True)\<lparr>err_class := SessionCleanupErrorClass\<rparr>)"

section \<open>Reading\<close>

definition expired :: "time \<Rightarrow> session \<Rightarrow> bool" where
  "expired now s = (case ttl_seconds s of None \<Rightarrow> False
                    | Some ttl \<Rightarrow> now - session_created_at s \<ge> seconds ttl)"

definition touch :: "time \<Rightarrow> nat \<Rightarrow> unit session_prog" where
  "touch now s = modify (\<lambda>m. m\<lparr>session_heap := (session_heap m)(s := (session_heap m s)\<lparr>last_used_at := now\<rparr>)\<rparr>)"

record session_snapshot =
  snap_active :: nat
  snap_in_use :: nat
  snap_closing :: nat
  snap_max :: nat

definition session_snapshot_of :: "session_manager \<Rightarrow> session_snapshot" where
  "session_snapshot_of m =
     \<lparr>snap_active = length (sessions m),
      snap_in_use = sum_list (map (\<lambda>(_, s). in_use (session_heap m s)) (sessions m))
                    + sum_list (map (\<lambda>(_, c). in_use (session_heap m (closing_of c))) (closing m)),
      snap_closing = length (closing m), snap_max = max_sessions m\<rparr>"

definition get_session :: "session_manager \<Rightarrow> string \<Rightarrow> nat option" where
  "get_session m sid = dict_get (sessions m) sid"

definition list_ids :: "session_manager \<Rightarrow> string list" where
  "list_ids m = sort (map fst (sessions m))"

definition is_closing :: "session_manager \<Rightarrow> string \<Rightarrow> bool" where
  "is_closing m sid \<longleftrightarrow> dict_has sid (closing m)"

definition raise_if_closing :: "string \<Rightarrow> unit session_prog" where
  "raise_if_closing sid = with_state (\<lambda>m.
     if dict_has sid (closing m)
     then raise_exn (session_unavailable_error ''The session is still closing; retry after its cleanup finishes.'')
     else ret ())"

section \<open>Checking sessions out\<close>

definition upd_session :: "nat \<Rightarrow> (session \<Rightarrow> session) \<Rightarrow> unit session_prog" where
  "upd_session s f = modify (\<lambda>m. m\<lparr>session_heap := (session_heap m)(s := f (session_heap m s))\<rparr>)"

definition mark_in_use :: "nat \<Rightarrow> unit session_prog" where
  "mark_in_use s = upd_session s (\<lambda>x. x\<lparr>in_use := Suc (in_use x)\<rparr>)"

definition mark_released :: "nat \<Rightarrow> unit session_prog" where
  "mark_released s = with_state (\<lambda>m.
     if in_use (session_heap m s) = 0 then raise_exn (RuntimeError ''Session in-use accounting underflow.'')
     else upd_session s (\<lambda>x. x\<lparr>in_use := in_use x - 1\<rparr>))"

section \<open>Registering\<close>

definition register_or_get ::
    "time \<Rightarrow> string \<Rightarrow> nat \<Rightarrow> (string \<times> string) list option \<Rightarrow> int option \<Rightarrow> (nat \<times> bool) session_prog" where
  "register_or_get now sid context proxy ttl = with_state (\<lambda>m.
     if manager_closed m then raise_exn (RuntimeError ''Session manager is closed.'')
     else case dict_get (sessions m) sid of
       Some s \<Rightarrow> ret (s, False)
     | None \<Rightarrow>
         skip_then (raise_if_closing sid)
          (if length (sessions m) + length (closing m) \<ge> max_sessions m
           then skip_then (record_session_event SessionRejected) (raise_exn (CamouflareError session_capacity_error))
           else
             skip_then (modify (\<lambda>m. m\<lparr>
                 session_heap := (session_heap m)(next_session m :=
                   \<lparr>session_id = sid, session_context = context, session_proxy = proxy,
                    ttl_seconds = Some (case ttl of None \<Rightarrow> default_ttl_seconds m | Some t \<Rightarrow> t),
                    session_created_at = now, last_used_at = now, lock_held = False, in_use = 0\<rparr>),
                 next_session := Suc (next_session m),
                 sessions := dict_set sid (next_session m) (sessions m),
                 pending_heap := (case dict_get (creations m) sid of None \<Rightarrow> pending_heap m
                   | Some p \<Rightarrow> (pending_heap m)(p := (pending_heap m p)\<lparr>settled := True\<rparr>))\<rparr>))
            (skip_then (record_session_event SessionCreated) (ret (next_session m, True)))))"

definition register_existing ::
    "time \<Rightarrow> string \<Rightarrow> nat \<Rightarrow> (string \<times> string) list option \<Rightarrow> int option \<Rightarrow> nat session_prog" where
  "register_existing now sid context proxy ttl =
     seq (register_or_get now sid context proxy ttl) (\<lambda>(s, created).
       if \<not> created then raise_exn (RuntimeError ''Session already exists.'') else ret s)"

text \<open>The two ends of the \<open>creating\<close> block; the entry hands the pending object to the exit.\<close>

definition creating_enter :: "string \<Rightarrow> nat session_prog" where
  "creating_enter sid = with_state (\<lambda>m.
     let p = (case dict_get (creations m) sid of None \<Rightarrow> next_pending m | Some p \<Rightarrow> p) in
     skip_then (if dict_has sid (creations m) then ret ()
                else modify (\<lambda>m. m\<lparr>creations := dict_set sid p (creations m), next_pending := Suc (next_pending m),
                                   pending_heap := (pending_heap m)(p := \<lparr>builders = 0, settled = False\<rparr>)\<rparr>))
    (skip_then (modify (\<lambda>m. m\<lparr>pending_heap :=
         (pending_heap m)(p := (pending_heap m p)\<lparr>builders := Suc (builders (pending_heap m p))\<rparr>)\<rparr>))
      (ret p)))"

definition creating_exit :: "string \<Rightarrow> nat \<Rightarrow> unit session_prog" where
  "creating_exit sid p =
     skip_then (modify (\<lambda>m. m\<lparr>pending_heap :=
         (pending_heap m)(p := (pending_heap m p)\<lparr>builders := builders (pending_heap m p) - 1\<rparr>)\<rparr>))
       (with_state (\<lambda>m.
          if builders (pending_heap m p) = 0
          then skip_then (if dict_get (creations m) sid = Some p
                          then modify (\<lambda>m. m\<lparr>creations := dict_del sid (creations m)\<rparr>) else ret ())
                 (modify (\<lambda>m. m\<lparr>pending_heap := (pending_heap m)(p := (pending_heap m p)\<lparr>settled := True\<rparr>)\<rparr>))
          else ret ()))"

text \<open>\<open>wait_for_creation\<close>: what it waits for, if anything; afterwards it returns \<open>get_session\<close>.\<close>

datatype creation_wait = AlreadyThere nat | AwaitSettled nat | NothingToAwait

definition wait_for_creation_begin :: "session_manager \<Rightarrow> string \<Rightarrow> time \<Rightarrow> creation_wait" where
  "wait_for_creation_begin m sid timeout =
     (case dict_get (sessions m) sid of
        Some s \<Rightarrow> AlreadyThere s
      | None \<Rightarrow> (case dict_get (creations m) sid of
                   Some p \<Rightarrow> if timeout > 0 then AwaitSettled p else NothingToAwait
                 | None \<Rightarrow> NothingToAwait))"

section \<open>Removing\<close>

definition start_closing :: "nat \<Rightarrow> close_reason \<Rightarrow> closing_session session_prog" where
  "start_closing s reason = with_state (\<lambda>m.
     let sid = session_id (session_heap m s) in
     case dict_get (closing m) sid of
       Some c \<Rightarrow> ret c
     | None \<Rightarrow>
         (let c = \<lparr>closing_of = s, closing_task = next_close_task m, closing_reason = reason\<rparr> in
          skip_then (modify (\<lambda>m. m\<lparr>next_close_task := Suc (next_close_task m),
                                   closing := dict_set sid c (closing m)\<rparr>)) (ret c)))"

definition pop_session :: "string \<Rightarrow> unit session_prog" where
  "pop_session sid = modify (\<lambda>m. m\<lparr>sessions := dict_del sid (sessions m)\<rparr>)"

definition expired_ids :: "time \<Rightarrow> string option \<Rightarrow> session_manager \<Rightarrow> string list" where
  "expired_ids now exclude m =
     map fst (filter (\<lambda>(sid, s). Some sid \<noteq> exclude \<and> expired now (session_heap m s)
                \<and> in_use (session_heap m s) = 0 \<and> \<not> lock_held (session_heap m s)) (sessions m))"

primrec start_closing_all :: "nat list \<Rightarrow> close_reason \<Rightarrow> closing_session list session_prog" where
  "start_closing_all [] reason = ret []"
| "start_closing_all (s # ss) reason =
     seq (start_closing s reason) (\<lambda>c. seq (start_closing_all ss reason) (\<lambda>cs. ret (c # cs)))"

definition session_at :: "session_manager \<Rightarrow> string \<Rightarrow> nat" where
  "session_at m sid = (case dict_get (sessions m) sid of Some s \<Rightarrow> s | None \<Rightarrow> 0)"

definition prune_expired :: "time \<Rightarrow> string option \<Rightarrow> string list session_prog" where
  "prune_expired now exclude = with_state (\<lambda>m.
     if manager_closed m then ret []
     else let ids = expired_ids now exclude m;
              ss = map (session_at m) ids in
       skip_then (for_each pop_session ids)
         (seq (start_closing_all ss Expired) (\<lambda>_.
           skip_then (for_each (\<lambda>_. record_session_event SessionExpired) ss) (ret (sort ids)))))"

definition evict_if_current :: "nat \<Rightarrow> bool session_prog" where
  "evict_if_current s = with_state (\<lambda>m.
     let sid = session_id (session_heap m s) in
     if dict_get (sessions m) sid \<noteq> Some s then ret False
     else skip_then (pop_session sid)
            (seq (start_closing s ErrorClose) (\<lambda>_.
              skip_then (record_session_event SessionError) (ret True))))"

definition destroy_begin :: "string option \<Rightarrow> closing_session option session_prog" where
  "destroy_begin sid = with_state (\<lambda>m.
     case sid of
       None \<Rightarrow> ret None
     | Some sid \<Rightarrow>
         if sid = [] then ret None
         else case dict_get (sessions m) sid of
           Some s \<Rightarrow> skip_then (pop_session sid) (seq (start_closing s Destroyed) (\<lambda>c. ret (Some c)))
         | None \<Rightarrow> ret (dict_get (closing m) sid))"

text \<open>How a cleanup task ends.\<close>

datatype task_end = TaskDone | TaskFailed exn | TaskCancelled

text \<open>\<open>destroy\<close> after its wait; without a cleanup to wait for it returns \<open>False\<close>.\<close>

definition destroy_result :: "closing_session option \<Rightarrow> task_end \<Rightarrow> exn + bool" where
  "destroy_result c e = (case c of None \<Rightarrow> Inr False
     | Some _ \<Rightarrow> (case e of TaskCancelled \<Rightarrow> Inl (session_cleanup_error False)
                  | TaskFailed x \<Rightarrow> Inl (session_cleanup_error (is_TimeoutError x))
                  | TaskDone \<Rightarrow> Inr True))"

definition close_manager :: "closing_session list session_prog" where
  "close_manager = with_state (\<lambda>m.
     skip_then (modify (\<lambda>m. m\<lparr>manager_closed := True, sessions := []\<rparr>))
       (seq (start_closing_all (map snd (sessions m)) Destroyed) (\<lambda>cs. ret (map snd (closing m) @ cs))))"

text \<open>\<open>_close_session\<close>: what the close task ends with.  \<open>None\<close> for the first argument is a cancelled
  wait; the cleanup group is awaited before the error is raised.\<close>

definition close_session_error :: "task_end option \<Rightarrow> string \<Rightarrow> exn option" where
  "close_session_error waited timeout_text = (case waited of
     None \<Rightarrow> Some CancelledError
   | Some TaskCancelled \<Rightarrow> Some (TimeoutError (''Session cleanup exceeded '' @ timeout_text @ '' seconds.''))
   | Some (TaskFailed e) \<Rightarrow> Some e
   | Some TaskDone \<Rightarrow> None)"

definition closing_done :: "string \<Rightarrow> nat \<Rightarrow> task_end \<Rightarrow> unit session_prog" where
  "closing_done sid t e =
     (let consume = (if e = TaskDone then ret True
                     else skip_then (record_session_event SessionError) (ret False)) in
      with_state (\<lambda>m. case dict_get (closing m) sid of
        None \<Rightarrow> seq consume (\<lambda>_. ret ())
      | Some c \<Rightarrow>
          if closing_task c \<noteq> t then seq consume (\<lambda>_. ret ())
          else skip_then (modify (\<lambda>m. m\<lparr>closing := dict_del sid (closing m)\<rparr>))
                 (seq consume (\<lambda>ok. if ok \<and> closing_reason c = Destroyed
                                    then record_session_event SessionDestroyed else ret ()))))"

end
