(* ===== verification/Session_Registry.thy ===== *)
theory Session_Registry
  imports Sessions
begin

text \<open>
  What the session registry promises: its capacity, one session per id, no reuse of an id whose
  cleanup still runs; the contract of the operations that commands call, and the registry as the
  provider of that contract.
\<close>

section \<open>The registry invariant\<close>

text \<open>\<open>popped\<close> are the sessions that a critical section has taken out of \<open>_sessions\<close> and not yet put
  under a closing tombstone; between two sections it is empty.\<close>

definition registry_inv :: "nat list \<Rightarrow> session_manager \<Rightarrow> bool" where
  "registry_inv popped m \<longleftrightarrow>
     distinct (map fst (sessions m)) \<and> distinct (map fst (closing m))
     \<and> distinct (map (\<lambda>s. session_id (session_heap m s)) popped)
     \<and> (\<forall>sid. dict_has sid (sessions m) \<longrightarrow> \<not> dict_has sid (closing m))
     \<and> (\<forall>s \<in> set popped. s < next_session m \<and> \<not> dict_has (session_id (session_heap m s)) (sessions m)
            \<and> \<not> dict_has (session_id (session_heap m s)) (closing m))
     \<and> length (sessions m) + length (closing m) + length popped \<le> max_sessions m
     \<and> (\<forall>sid s. dict_get (sessions m) sid = Some s \<longrightarrow> session_id (session_heap m s) = sid \<and> s < next_session m)
     \<and> (\<forall>sid c. dict_get (closing m) sid = Some c \<longrightarrow>
            session_id (session_heap m (closing_of c)) = sid \<and> closing_of c < next_session m)
     \<and> (manager_closed m \<longrightarrow> sessions m = [])"

abbreviation registry_ok :: "session_manager \<Rightarrow> bool" where
  "registry_ok \<equiv> registry_inv []"

definition registry_view :: "session_manager \<Rightarrow> nat \<times> (nat \<Rightarrow> string) \<times> nat \<times> (string \<times> nat) list
    \<times> (string \<times> closing_session) list \<times> bool" where
  "registry_view m = (max_sessions m, (\<lambda>s. session_id (session_heap m s)), next_session m, sessions m, closing m,
     manager_closed m)"

lemma registry_cong: "registry_view m' = registry_view m \<Longrightarrow> registry_inv S m' = registry_inv S m"
  by (simp add: registry_view_def registry_inv_def fun_eq_iff)

lemma keeps_registry_modify:
  "(\<And>m. registry_view (f m) = registry_view m) \<Longrightarrow> keeps (registry_inv S) (modify f)"
  by (rule keeps_modify) (metis registry_cong)

lemma keeps_record_session_event [keeps_intros]: "keeps (registry_inv S) (record_session_event e)"
  unfolding record_session_event_def by (rule keeps_registry_modify) (simp add: registry_view_def)

lemma keeps_upd_session [keeps_intros]:
  "(\<And>x. session_id (f x) = session_id x) \<Longrightarrow> keeps (registry_inv S) (upd_session s f)"
  unfolding upd_session_def by (rule keeps_registry_modify) (auto simp: registry_view_def)

lemma keeps_touch [keeps_intros]: "keeps (registry_inv S) (touch now s)"
  unfolding touch_def by (rule keeps_registry_modify) (auto simp: registry_view_def)

lemma keeps_marks [keeps_intros]:
  "keeps (registry_inv S) (mark_in_use s)" "keeps (registry_inv S) (mark_released s)"
  unfolding mark_in_use_def mark_released_def by (intro keeps_intros; simp)+

lemma keeps_creating [keeps_intros]:
  "keeps (registry_inv S) (creating_enter sid)" "keeps (registry_inv S) (creating_exit sid p)"
  unfolding creating_enter_def creating_exit_def Let_def
  by (intro keeps_intros keeps_registry_modify; simp add: registry_view_def)+

lemma keeps_raise_if_closing [keeps_intros]: "keeps I (raise_if_closing sid)"
  unfolding raise_if_closing_def by (intro keeps_intros)

section \<open>Registering\<close>

text \<open>What a successful registration leaves behind.\<close>

definition new_session_of ::
    "time \<Rightarrow> string \<Rightarrow> nat \<Rightarrow> (string \<times> string) list option \<Rightarrow> int option \<Rightarrow> session_manager \<Rightarrow> session" where
  "new_session_of now sid context proxy ttl m =
     \<lparr>session_id = sid, session_context = context, session_proxy = proxy,
      ttl_seconds = Some (case ttl of None \<Rightarrow> default_ttl_seconds m | Some t \<Rightarrow> t),
      session_created_at = now, last_used_at = now, lock_held = False, in_use = 0\<rparr>"

lemma register_cases:
  "register_or_get now sid context proxy ttl m =
     (if manager_closed m then (Inl (RuntimeError ''Session manager is closed.''), m)
      else case dict_get (sessions m) sid of
        Some s \<Rightarrow> (Inr (s, False), m)
      | None \<Rightarrow>
         if dict_has sid (closing m)
         then (Inl (session_unavailable_error ''The session is still closing; retry after its cleanup finishes.''), m)
         else if length (sessions m) + length (closing m) \<ge> max_sessions m
         then (Inl (CamouflareError session_capacity_error), m\<lparr>session_events := session_events m @ [SessionRejected]\<rparr>)
         else (Inr (next_session m, True), m\<lparr>
            session_heap := (session_heap m)(next_session m := new_session_of now sid context proxy ttl m),
            next_session := Suc (next_session m), sessions := dict_set sid (next_session m) (sessions m),
            pending_heap := (case dict_get (creations m) sid of None \<Rightarrow> pending_heap m
                   | Some p \<Rightarrow> (pending_heap m)(p := (pending_heap m p)\<lparr>settled := True\<rparr>)),
            session_events := session_events m @ [SessionCreated]\<rparr>))"
  by (simp add: register_or_get_def raise_if_closing_def skip_then_apply record_session_event_def
      new_session_of_def split: option.split)

lemma registry_register:
  assumes ok: "registry_ok m" and "\<not> manager_closed m" and "dict_get (sessions m) sid = None"
    and "\<not> dict_has sid (closing m)" and "length (sessions m) + length (closing m) < max_sessions m"
  shows "registry_ok (m\<lparr>session_heap := (session_heap m)(next_session m := new_session_of now sid context proxy ttl m),
            next_session := Suc (next_session m), sessions := dict_set sid (next_session m) (sessions m)\<rparr>)"
proof -
  have old: "s \<noteq> next_session m" if "dict_get (sessions m) k = Some s" for k s
    using ok that by (auto simp: registry_inv_def)
  have old': "closing_of c \<noteq> next_session m" if "dict_get (closing m) k = Some c" for k c
    using ok that by (fastforce simp: registry_inv_def)
  show ?thesis
    using assms old old' unfolding registry_inv_def
    by (auto simp: distinct_dict_set length_dict_set dict_get_None new_session_of_def less_SucI)
qed

lemma keeps_register [keeps_intros]: "keeps registry_ok (register_or_get now sid context proxy ttl)"
proof (rule keepsI)
  fix m assume ok: "registry_ok m"
  let ?m = "m\<lparr>session_heap := (session_heap m)(next_session m := new_session_of now sid context proxy ttl m),
            next_session := Suc (next_session m), sessions := dict_set sid (next_session m) (sessions m)\<rparr>"
  have "registry_ok (?m\<lparr>pending_heap := ph, session_events := es\<rparr>) = registry_ok ?m" for ph es
    by (rule registry_cong) (simp add: registry_view_def)
  moreover have "registry_ok (m\<lparr>session_events := es\<rparr>)" for es
    using ok by (subst registry_cong [of _ m]) (simp_all add: registry_view_def)
  ultimately show "registry_ok (snd (register_or_get now sid context proxy ttl m))"
    using ok registry_register [OF ok] by (auto simp: register_cases split: option.split)
qed

lemma keeps_register_existing [keeps_intros]: "keeps registry_ok (register_existing now sid context proxy ttl)"
  unfolding register_existing_def by (intro keeps_intros) (auto split: prod.split)

section \<open>Removing\<close>

lemma pop_session_eq: "pop_session sid m = (Inr (), m\<lparr>sessions := dict_del sid (sessions m)\<rparr>)"
  by (simp add: pop_session_def)

lemma registry_pop:
  assumes inv: "registry_inv S m" and s: "dict_get (sessions m) sid = Some s"
  shows "registry_inv (S @ [s]) (m\<lparr>sessions := dict_del sid (sessions m)\<rparr>)"
proof -
  have id: "session_id (session_heap m s) = sid" "s < next_session m"
    using inv s by (simp_all add: registry_inv_def)
  have sid: "dict_has sid (sessions m)" by (rule dict_get_Some_has [OF s])
  have fresh: "session_id (session_heap m x) \<noteq> sid" if "x \<in> set S" for x
    using inv that sid by (auto simp: registry_inv_def)
  have "Suc (length (dict_del sid (sessions m))) = length (sessions m)"
    using inv sid by (simp add: registry_inv_def length_dict_del)
  moreover have "sessions m \<noteq> []" using s by auto
  ultimately show ?thesis
    using inv id sid fresh unfolding registry_inv_def
    by (auto simp: distinct_dict_del)
qed

lemma start_closing_cases:
  "start_closing s reason m =
     (case dict_get (closing m) (session_id (session_heap m s)) of
        Some c \<Rightarrow> (Inr c, m)
      | None \<Rightarrow> (let c = \<lparr>closing_of = s, closing_task = next_close_task m, closing_reason = reason\<rparr> in
          (Inr c, m\<lparr>next_close_task := Suc (next_close_task m),
                    closing := dict_set (session_id (session_heap m s)) c (closing m)\<rparr>)))"
  by (simp add: start_closing_def Let_def skip_then_apply split: option.split)

lemma registry_start_closing:
  assumes inv: "registry_inv (s # S) m"
  shows "registry_inv S (snd (start_closing s reason m))"
proof -
  let ?sid = "session_id (session_heap m s)"
  have s: "\<not> dict_has ?sid (sessions m)" "\<not> dict_has ?sid (closing m)" "s < next_session m"
    using inv by (simp_all add: registry_inv_def)
  have other: "session_id (session_heap m x) \<noteq> ?sid" if "x \<in> set S" for x
  proof -
    have "?sid \<notin> (\<lambda>x. session_id (session_heap m x)) ` set S"
      using inv by (simp add: registry_inv_def)
    with that show ?thesis by (metis image_eqI)
  qed
  have "dict_get (closing m) ?sid = None" using s(2) by (simp add: dict_get_None)
  then show ?thesis
    using inv s other unfolding registry_inv_def
    by (auto simp: start_closing_cases Let_def distinct_dict_set length_dict_set)
qed

lemma start_closing_Inr: "\<exists>c m'. start_closing s reason m = (Inr c, m')"
  by (cases "dict_get (closing m) (session_id (session_heap m s))") (auto simp: start_closing_cases Let_def)

lemma start_closing_all_Inr: "\<exists>cs. fst (start_closing_all ss reason m) = Inr cs \<and> length cs = length ss"
proof (induction ss arbitrary: m)
  case (Cons s ss)
  obtain c m1 where c: "start_closing s reason m = (Inr c, m1)"
    using start_closing_Inr by blast
  obtain cs m2 where "start_closing_all ss reason m1 = (Inr cs, m2)" "length cs = length ss"
    using Cons.IH [of m1] by (metis prod.collapse)
  with c show ?case by (simp add: seq_apply)
qed simp

lemma registry_start_closing_all:
  "registry_inv (ss @ S) m \<Longrightarrow> registry_inv S (snd (start_closing_all ss reason m))"
proof (induction ss arbitrary: m)
  case (Cons s ss)
  obtain c m1 where c: "start_closing s reason m = (Inr c, m1)"
    using start_closing_Inr by blast
  obtain cs m2 where cs: "start_closing_all ss reason m1 = (Inr cs, m2)"
    using start_closing_all_Inr [of ss reason m1] by (metis prod.collapse)
  have "registry_inv (ss @ S) m1"
    using registry_start_closing [of s "ss @ S" m reason] Cons.prems c by simp
  from Cons.IH [OF this] c cs show ?case by (simp add: seq_apply)
qed simp

lemma start_closing_sessions [simp]: "sessions (snd (start_closing s reason m)) = sessions m"
  by (simp add: start_closing_cases Let_def split: option.split)

lemma registry_pop_each:
  assumes "registry_inv S m" and "distinct ids" and "\<forall>sid \<in> set ids. dict_has sid (sessions m)"
  shows "fst (for_each pop_session ids m) = Inr ()
    \<and> registry_inv (S @ map (session_at m) ids)
        (snd (for_each pop_session ids m))"
  using assms
proof (induction ids arbitrary: S m)
  case (Cons sid ids)
  let ?m = "m\<lparr>sessions := dict_del sid (sessions m)\<rparr>"
  obtain s where s: "dict_get (sessions m) sid = Some s"
    using Cons.prems(3) by (auto simp: dict_has_get)
  have "registry_inv (S @ [s]) ?m" by (rule registry_pop [OF Cons.prems(1) s])
  moreover have eq: "map (session_at ?m) ids = map (session_at m) ids" "session_at m sid = s"
    using Cons.prems(2) s by (auto simp: session_at_def)
  moreover have "fst (for_each pop_session ids ?m) = Inr ()
    \<and> registry_inv ((S @ [s]) @ map (session_at ?m) ids) (snd (for_each pop_session ids ?m))"
    by (rule Cons.IH) (use Cons.prems calculation(1) in auto)
  ultimately show ?case
    unfolding for_each.simps skip_then_Inr [of "pop_session sid", OF pop_session_eq] by (simp add: eq)
qed simp

lemma expired_ids_in: "sid \<in> set (expired_ids now exclude m) \<Longrightarrow> dict_has sid (sessions m)"
  by (force simp: expired_ids_def dict_has_def)

lemma distinct_expired_ids: "registry_inv S m \<Longrightarrow> distinct (expired_ids now exclude m)"
  by (simp add: expired_ids_def registry_inv_def distinct_map_filter)

lemma keeps_prune_expired [keeps_intros]: "keeps registry_ok (prune_expired now exclude)"
proof (rule keepsI)
  fix m assume ok: "registry_ok m"
  let ?ids = "expired_ids now exclude m"
  let ?ss = "map (session_at m) ?ids"
  have pop: "fst (for_each pop_session ?ids m) = Inr ()"
    "registry_inv (?ss @ []) (snd (for_each pop_session ?ids m))"
    using registry_pop_each [OF ok distinct_expired_ids [OF ok]] expired_ids_in by fastforce+
  obtain m1 where m1: "for_each pop_session ?ids m = (Inr (), m1)" using pop(1) by (metis prod.collapse)
  obtain cs m2 where m2: "start_closing_all ?ss Expired m1 = (Inr cs, m2)"
    using start_closing_all_Inr [of ?ss Expired m1] by (metis prod.collapse)
  have "registry_ok m2"
    using registry_start_closing_all [of ?ss "[]" m1 Expired] pop(2) m1 m2 by simp
  moreover have "keeps registry_ok (skip_then (for_each (\<lambda>_. record_session_event SessionExpired) ?ss) (ret (sort ?ids)))"
    by (intro keeps_intros)
  ultimately show "registry_ok (snd (prune_expired now exclude m))"
    using ok m1 m2 by (auto simp: prune_expired_def Let_def skip_then_apply [of "for_each pop_session _"] seq_apply
        dest: keepsD)
qed

text \<open>A removal: out of \<open>_sessions\<close>, under a tombstone.\<close>

lemma registry_remove:
  assumes ok: "registry_ok m" and s: "dict_get (sessions m) sid = Some s"
  shows "registry_ok (snd (start_closing s reason (m\<lparr>sessions := dict_del sid (sessions m)\<rparr>)))"
  using registry_start_closing [of s "[]"] registry_pop [OF ok s] by simp

lemma keeps_evict [keeps_intros]: "keeps registry_ok (evict_if_current s)"
proof (rule keepsI)
  fix m assume ok: "registry_ok m"
  let ?sid = "session_id (session_heap m s)"
  obtain c m1 where c: "start_closing s ErrorClose (m\<lparr>sessions := dict_del ?sid (sessions m)\<rparr>) = (Inr c, m1)"
    using start_closing_Inr by blast
  have "registry_ok m1" if "dict_get (sessions m) ?sid = Some s"
    using registry_remove [OF ok that, of ErrorClose] c by simp
  then show "registry_ok (snd (evict_if_current s m))"
    using ok c keepsD [OF keeps_record_session_event, of "[]" m1 SessionError]
    by (auto simp: evict_if_current_def Let_def skip_then_apply seq_apply pop_session_eq record_session_event_def)
qed

lemma keeps_destroy_begin [keeps_intros]: "keeps registry_ok (destroy_begin sid)"
proof (rule keepsI)
  fix m assume ok: "registry_ok m"
  have "registry_ok (snd (seq (start_closing s Destroyed) (\<lambda>c. ret (Some c))
          (m\<lparr>sessions := dict_del k (sessions m)\<rparr>)))" if "dict_get (sessions m) k = Some s" for k s
  proof -
    obtain c m1 where c: "start_closing s Destroyed (m\<lparr>sessions := dict_del k (sessions m)\<rparr>) = (Inr c, m1)"
      using start_closing_Inr by blast
    with registry_remove [OF ok that, of Destroyed] show ?thesis by (simp add: seq_apply)
  qed
  then show "registry_ok (snd (destroy_begin sid m))"
    using ok by (auto simp: destroy_begin_def skip_then_apply pop_session_eq split: option.split)
qed

lemma keeps_close_manager [keeps_intros]: "keeps registry_ok close_manager"
proof (rule keepsI)
  fix m assume ok: "registry_ok m"
  let ?m = "m\<lparr>manager_closed := True, sessions := []\<rparr>" and ?ss = "map snd (sessions m)"
  have ids: "map (\<lambda>s. session_id (session_heap m s)) ?ss = map fst (sessions m)"
    using ok by (auto simp: registry_inv_def dict_get_distinct)
  have d: "distinct (map (\<lambda>s. session_id (session_heap m s)) ?ss)"
    unfolding ids using ok by (simp add: registry_inv_def)
  have mem: "s < next_session m \<and> \<not> dict_has (session_id (session_heap m s)) (closing m)" if s: "s \<in> set ?ss" for s
  proof -
    obtain sid where "(sid, s) \<in> set (sessions m)" using s by auto
    then have "dict_get (sessions m) sid = Some s"
      using ok by (simp add: registry_inv_def dict_get_distinct)
    with ok dict_get_Some_has [OF this] show ?thesis by (auto simp: registry_inv_def)
  qed
  have "registry_inv (?ss @ []) ?m"
    using ok d mem unfolding registry_inv_def by (simp add: dict_has_def del: map_map)
  from registry_start_closing_all [OF this, of Destroyed] show "registry_ok (snd (close_manager m))"
    by (auto simp: close_manager_def skip_then_apply seq_apply split: prod.split sum.split)
qed

lemma keeps_closing_done [keeps_intros]: "keeps registry_ok (closing_done sid t e)"
proof -
  have "keeps registry_ok (modify (\<lambda>m. m\<lparr>closing := dict_del sid (closing m)\<rparr>))"
  proof (rule keeps_modify)
    fix m assume ok: "registry_ok m"
    then show "registry_ok (m\<lparr>closing := dict_del sid (closing m)\<rparr>)"
      using length_dict_del_le [of sid "closing m"] unfolding registry_inv_def
      by (auto simp: distinct_dict_del)
  qed
  then show ?thesis unfolding closing_done_def Let_def by (intro keeps_intros)
qed

section \<open>The contract of the registry\<close>

text \<open>What commands rely on when they look sessions up, register the contexts they built, and evict
  the ones that broke.  \<open>look\<close> is the lookup, \<open>add\<close> a registration that answers the session and
  whether it is new, \<open>evict\<close> an eviction by identity that answers whether it took place.\<close>

locale session_registry =
  fixes look :: "'s \<Rightarrow> string \<Rightarrow> nat option"
    and add :: "string \<Rightarrow> 's \<Rightarrow> (exn + (nat \<times> bool)) \<times> 's"
    and evict :: "nat \<Rightarrow> 's \<Rightarrow> (exn + bool) \<times> 's"
    and inv :: "'s \<Rightarrow> bool"
  assumes add_inv: "inv s \<Longrightarrow> inv (snd (add k s))"
    and evict_inv: "inv s \<Longrightarrow> inv (snd (evict x s))"
    and add_new: "inv s \<Longrightarrow> add k s = (Inr (x, True), s') \<Longrightarrow>
        look s k = None \<and> look s' = (look s)(k \<mapsto> x) \<and> (\<forall>k'. look s k' \<noteq> Some x)"
    and add_old: "inv s \<Longrightarrow> add k s = (Inr (x, False), s') \<Longrightarrow> look s k = Some x \<and> s' = s"
    and add_error: "inv s \<Longrightarrow> add k s = (Inl e, s') \<Longrightarrow> look s' = look s"
    and evict_done: "inv s \<Longrightarrow> evict x s = (Inr True, s') \<Longrightarrow>
        \<exists>k. look s k = Some x \<and> look s' = (look s)(k := None)"
    and evict_absent: "inv s \<Longrightarrow> evict x s = (Inr False, s') \<Longrightarrow> (\<forall>k. look s k \<noteq> Some x) \<and> s' = s"
    and evict_Inr: "inv s \<Longrightarrow> \<exists>b. fst (evict x s) = Inr b"
    and look_inj: "inv s \<Longrightarrow> look s k = Some x \<Longrightarrow> look s k' = Some x \<Longrightarrow> k = k'"
begin

text \<open>Of two builders of the same id at most one wins; the other is handed the winner's session.\<close>

lemma second_builder_loses:
  assumes "inv s" and "add k s = (Inr (x, True), s1)" and "add k s1 = (r, s2)"
  shows "(case r of Inl _ \<Rightarrow> True | Inr (y, new) \<Rightarrow> y = x \<and> \<not> new) \<and> look s2 k = Some x"
proof -
  have s1: "inv s1" and x: "look s1 k = Some x"
    using add_inv [OF assms(1), of k] add_new [OF assms(1,2)] assms(2) by auto
  show ?thesis
  proof (cases r)
    case (Inl e)
    with add_error [OF s1] assms(3) x show ?thesis by simp
  next
    case (Inr yb)
    obtain y b where yb: "yb = (y, b)" by fastforce
    show ?thesis
    proof (cases b)
      case True
      with add_new [OF s1, of k y s2] assms(3) Inr yb x show ?thesis by simp
    next
      case False
      with add_old [OF s1, of k y s2] assms(3) Inr yb x show ?thesis by simp
    qed
  qed
qed

text \<open>An eviction never removes a replacement: it takes its own session out and nothing else.\<close>

lemma evict_only_own:
  assumes "inv s" and "look s k = Some y" and "y \<noteq> x"
  shows "look (snd (evict x s)) k = Some y"
proof -
  obtain b s' where e: "evict x s = (Inr b, s')" using evict_Inr [OF assms(1), of x] by (metis prod.collapse)
  show ?thesis
  proof (cases b)
    case True
    with evict_done [OF assms(1), of x s'] e obtain k' where "look s k' = Some x" "look s' = (look s)(k' := None)"
      by auto
    with assms e show ?thesis by auto
  next
    case False
    with evict_absent [OF assms(1), of x s'] e assms show ?thesis by simp
  qed
qed

lemma evicted_gone:
  assumes "inv s"
  shows "look (snd (evict x s)) k \<noteq> Some x"
proof -
  obtain b s' where e: "evict x s = (Inr b, s')" using evict_Inr [OF assms, of x] by (metis prod.collapse)
  show ?thesis
  proof (cases b)
    case True
    with evict_done [OF assms, of x s'] e obtain k' where "look s k' = Some x" "look s' = (look s)(k' := None)"
      by auto
    with look_inj [OF assms, of k' x k] e show ?thesis by auto
  next
    case False
    with evict_absent [OF assms, of x s'] e show ?thesis by simp
  qed
qed

end

lemma get_after_register:
  assumes ok: "registry_ok m" and r: "register_or_get now sid context proxy ttl m = (Inr (x, True), m')"
  shows "get_session m sid = None \<and> get_session m' = (get_session m)(sid \<mapsto> x) \<and> (\<forall>k. get_session m k \<noteq> Some x)"
proof -
  have "\<forall>k. get_session m k \<noteq> Some (next_session m)"
    using ok by (fastforce simp: registry_inv_def get_session_def)
  with r show ?thesis
    by (auto simp: register_cases get_session_def fun_eq_iff split: option.splits if_splits)
qed

lemma evict_cases:
  assumes "evict_if_current s m = (r, m')"
  shows "(r = Inr False \<and> m' = m \<and> get_session m (session_id (session_heap m s)) \<noteq> Some s)
    \<or> (r = Inr True \<and> get_session m (session_id (session_heap m s)) = Some s
        \<and> get_session m' = (get_session m)(session_id (session_heap m s) := None))"
proof -
  let ?sid = "session_id (session_heap m s)"
  obtain c m1 where c: "start_closing s ErrorClose (m\<lparr>sessions := dict_del ?sid (sessions m)\<rparr>) = (Inr c, m1)"
    using start_closing_Inr by blast
  then have "sessions m1 = dict_del ?sid (sessions m)"
    using start_closing_sessions [of s ErrorClose "m\<lparr>sessions := dict_del ?sid (sessions m)\<rparr>"] by simp
  with assms c show ?thesis
    by (auto simp: evict_if_current_def Let_def skip_then_apply seq_apply pop_session_eq record_session_event_def
        get_session_def fun_eq_iff split: if_splits)
qed

interpretation registry: session_registry get_session "\<lambda>k. register_or_get now k ctx proxy ttl"
  evict_if_current registry_ok for now ctx proxy ttl
proof
  fix m k x m' e k'
  assume ok: "registry_ok m"
  have own: "session_id (session_heap m y) = j" if "get_session m j = Some y" for j y
    using ok that by (simp add: registry_inv_def get_session_def)
  show "registry_ok (snd (register_or_get now k ctx proxy ttl m))" by (rule keepsD [OF keeps_register ok])
  show "registry_ok (snd (evict_if_current x m))" by (rule keepsD [OF keeps_evict ok])
  show "register_or_get now k ctx proxy ttl m = (Inr (x, True), m') \<Longrightarrow> get_session m k = None
      \<and> get_session m' = (get_session m)(k \<mapsto> x) \<and> (\<forall>k'. get_session m k' \<noteq> Some x)"
    by (rule get_after_register [OF ok])
  show "register_or_get now k ctx proxy ttl m = (Inr (x, False), m') \<Longrightarrow> get_session m k = Some x \<and> m' = m"
    by (auto simp: register_cases get_session_def split: option.splits if_splits)
  show "register_or_get now k ctx proxy ttl m = (Inl e, m') \<Longrightarrow> get_session m' = get_session m"
    by (auto simp: register_cases get_session_def split: option.splits if_splits)
  show "evict_if_current x m = (Inr True, m') \<Longrightarrow>
      \<exists>k. get_session m k = Some x \<and> get_session m' = (get_session m)(k := None)"
    using evict_cases [of x m "Inr True" m'] by auto
  show "evict_if_current x m = (Inr False, m') \<Longrightarrow> (\<forall>k. get_session m k \<noteq> Some x) \<and> m' = m"
    using evict_cases [of x m "Inr False" m'] own by auto
  show "\<exists>b. fst (evict_if_current x m) = Inr b"
    using evict_cases [of x m] by (metis prod.collapse)
  show "get_session m k = Some x \<Longrightarrow> get_session m k' = Some x \<Longrightarrow> k = k'" using own by metis
qed

end
