(* ===== verification/Session_Properties.thy ===== *)
theory Session_Properties
  imports Session_Registry
begin

text \<open>
  The properties of the session registry, in every state its critical sections can reach.
\<close>

section \<open>The registry as a machine\<close>

inductive session_step :: "session_manager \<Rightarrow> session_manager \<Rightarrow> bool" where
  ss_register: "session_step m (snd (register_or_get now sid ctx proxy ttl m))"
| ss_register_existing: "session_step m (snd (register_existing now sid ctx proxy ttl m))"
| ss_creating_enter: "session_step m (snd (creating_enter sid m))"
| ss_creating_exit: "session_step m (snd (creating_exit sid p m))"
| ss_touch: "session_step m (snd (touch now s m))"
| ss_in_use: "session_step m (snd (mark_in_use s m))"
| ss_released: "session_step m (snd (mark_released s m))"
| ss_lock: "session_step m (snd (upd_session s (\<lambda>x. x\<lparr>lock_held := b\<rparr>) m))"
| ss_prune: "session_step m (snd (prune_expired now exclude m))"
| ss_evict: "session_step m (snd (evict_if_current s m))"
| ss_destroy: "session_step m (snd (destroy_begin sid m))"
| ss_close: "session_step m (snd (close_manager m))"
| ss_closing_done: "session_step m (snd (closing_done sid t e m))"

definition empty_registry :: "session_manager \<Rightarrow> bool" where
  "empty_registry m \<longleftrightarrow> (\<exists>limit ttl timeout. new_session_manager limit ttl timeout = Inr m)"

abbreviation session_reach :: "session_manager \<Rightarrow> bool" where
  "session_reach \<equiv> reach empty_registry session_step"

lemma empty_registry_ok: "empty_registry m \<Longrightarrow> registry_ok m"
  by (auto simp: empty_registry_def new_session_manager_def registry_inv_def dict_has_def split: if_splits)

lemma session_step_ok:
  assumes "registry_ok m" and "session_step m m'"
  shows "registry_ok m'"
  using assms(2)
  by (cases; simp only:; intro keepsD [of registry_ok, OF _ assms(1)] keeps_intros; simp)

interpretation session_machine: invariant_machine empty_registry session_step registry_ok
  by unfold_locales (auto intro: empty_registry_ok session_step_ok)

section \<open>A registry to look at\<close>

definition demo_manager :: session_manager where
  "demo_manager = (case new_session_manager 2 60 1 of Inr m \<Rightarrow> m | Inl _ \<Rightarrow> undefined)"

definition demo_one :: session_manager where
  "demo_one = snd (register_or_get 0 ''a'' 7 None None demo_manager)"

definition demo_two :: session_manager where
  "demo_two = snd (register_or_get 0 ''b'' 8 None (Some 0) demo_one)"

lemma demo_new: "new_session_manager 2 60 1 = Inr demo_manager"
  by (simp add: demo_manager_def new_session_manager_def)

lemma demo_sessions_reach: "session_reach demo_one" "session_reach demo_two"
proof -
  have "session_reach demo_manager"
    by (rule reach_init) (auto simp: empty_registry_def intro: demo_new)
  then show "session_reach demo_one" unfolding demo_one_def by (rule reach_step) (rule ss_register)
  then show "session_reach demo_two" unfolding demo_two_def by (rule reach_step) (rule ss_register)
qed

lemma demo_sessions_facts:
  "fst (register_or_get 0 ''a'' 7 None None demo_manager) = Inr (0, True)"
  "get_session demo_two ''a'' = Some 0" "get_session demo_two ''b'' = Some 1"
  "length (sessions demo_two) = 2"
  by (simp_all add: demo_two_def demo_one_def demo_manager_def new_session_manager_def register_cases
      get_session_def dict_has_def)

section \<open>Properties\<close>

text \<open>C22.  Active sessions and sessions whose cleanup still runs together never exceed
  \<open>max_sessions\<close>; an id is active, closing or free, never two of these; every entry is filed under
  the id of its own session.\<close>

theorem session_capacity:
  assumes "session_reach m"
  shows "length (sessions m) + length (closing m) \<le> max_sessions m
    \<and> distinct (map fst (sessions m) @ map fst (closing m))
    \<and> (\<forall>sid s. get_session m sid = Some s \<longrightarrow> session_id (session_heap m s) = sid)"
  using session_machine.inv_reach [OF assms]
  by (auto simp: registry_inv_def get_session_def dict_has_def)

lemma session_capacity_witness:
  "length (sessions demo_two) = 2 \<and> length (sessions demo_two) + length (closing demo_two) \<le> max_sessions demo_two"
  using session_capacity [OF demo_sessions_reach(2)] demo_sessions_facts by simp

text \<open>Of two concurrent builders of a session id at most one registers: once one has, any later
  registration of the id hands out the winner's session, or fails, and the winner stays registered.\<close>

theorem session_one_winner:
  assumes "session_reach m"
    and "register_or_get now sid ctx proxy ttl m = (Inr (x, True), m1)"
    and "register_or_get now' sid ctx' proxy' ttl' m1 = (r, m2)"
  shows "(\<forall>y new. r = Inr (y, new) \<longrightarrow> y = x \<and> \<not> new) \<and> get_session m2 sid = Some x"
proof -
  have ok: "registry_ok m" by (rule session_machine.inv_reach [OF assms(1)])
  have x: "get_session m1 sid = Some x" using get_after_register [OF ok assms(2)] by simp
  then have "register_or_get now' sid ctx' proxy' ttl' m1 =
      (if manager_closed m1 then Inl (RuntimeError ''Session manager is closed.'') else Inr (x, False), m1)"
    by (simp add: register_cases get_session_def)
  with assms(3) x show ?thesis by (auto split: if_splits)
qed

lemma session_one_winner_witness:
  "get_session (snd (register_or_get 5 ''a'' 9 None None demo_one)) ''a'' = Some 0"
proof -
  have "session_reach demo_manager"
    by (rule reach_init) (auto simp: empty_registry_def intro: demo_new)
  moreover have "register_or_get 0 ''a'' 7 None None demo_manager = (Inr (0, True), demo_one)"
    using demo_sessions_facts(1) by (simp add: demo_one_def prod_eq_iff)
  moreover obtain r m where r: "register_or_get 5 ''a'' 9 None None demo_one = (r, m)" by fastforce
  ultimately have "get_session m ''a'' = Some 0" using session_one_winner by blast
  with r show ?thesis by simp
qed

text \<open>A late failure of one request evicts its own session at most: a session that was
  registered under the same id meanwhile, and every other session, stays registered, and the
  evicted one is found under no id.\<close>

theorem evict_spares_replacements:
  assumes "session_reach m"
  shows "get_session (snd (evict_if_current x m)) sid \<noteq> Some x
    \<and> (get_session m sid \<noteq> None \<and> get_session m sid \<noteq> Some x \<longrightarrow>
         get_session (snd (evict_if_current x m)) sid = get_session m sid)"
proof -
  have ok: "registry_ok m" by (rule session_machine.inv_reach [OF assms])
  show ?thesis
    using registry.evicted_gone [OF ok, of x sid] registry.evict_only_own [OF ok, of sid _ x] by auto
qed

lemma evict_spares_replacements_witness:
  "get_session (snd (evict_if_current 0 demo_two)) ''b'' = Some 1
   \<and> get_session (snd (evict_if_current 0 demo_two)) ''a'' \<noteq> Some 0"
  using evict_spares_replacements [OF demo_sessions_reach(2), of 0 "''b''"]
    evict_spares_replacements [OF demo_sessions_reach(2), of 0 "''a''"] demo_sessions_facts
  by simp

text \<open>An id whose cleanup still runs is refused: registering it raises the retryable
  \<open>SESSION_NOT_FOUND\<close> error and registers nothing, even when there is room.\<close>

theorem closing_id_refused:
  assumes "session_reach m" and "is_closing m sid" and "\<not> manager_closed m"
  shows "register_or_get now sid ctx proxy ttl m =
     (Inl (session_unavailable_error ''The session is still closing; retry after its cleanup finishes.''), m)"
proof -
  have "dict_get (sessions m) sid = None"
    using session_machine.inv_reach [OF assms(1)] assms(2)
    by (auto simp: registry_inv_def is_closing_def dict_get_None)
  with assms(2,3) show ?thesis by (simp add: register_cases is_closing_def)
qed

definition demo_closing :: session_manager where
  "demo_closing = snd (destroy_begin (Some ''a'') demo_one)"

lemma closing_id_refused_witness:
  "fst (register_or_get 0 ''a'' 9 None None demo_closing) =
     Inl (session_unavailable_error ''The session is still closing; retry after its cleanup finishes.'')"
proof -
  have "session_reach demo_closing"
    unfolding demo_closing_def by (rule reach_step [OF demo_sessions_reach(1)]) (rule ss_destroy)
  moreover have "is_closing demo_closing ''a'' \<and> \<not> manager_closed demo_closing"
    by (simp add: demo_closing_def demo_one_def demo_manager_def new_session_manager_def register_cases
        destroy_begin_def skip_then_apply seq_apply pop_session_eq start_closing_cases is_closing_def dict_has_def
        new_session_of_def Let_def)
  ultimately show ?thesis using closing_id_refused by simp
qed

end
