(* ===== verification/Addresses.thy ===== *)
theory Addresses
  imports Prelude "HOL-Library.Word"
begin

text \<open>
  IP addresses as the program uses them: the parser of \<open>ipaddress.ip_address\<close> and the range tests
  \<open>is_loopback\<close>, \<open>is_multicast\<close>, \<open>is_private\<close> and \<open>is_global\<close> of Python 3.12's standard library,
  on 32-bit and 128-bit words.
\<close>

unbundle bit_operations_syntax

section \<open>Cutting strings\<close>

text \<open>\<open>s.partition(c)\<close>: before, whether found, after.\<close>

fun partition_on :: "char \<Rightarrow> string \<Rightarrow> string \<times> bool \<times> string" where
  "partition_on c [] = ([], False, [])"
| "partition_on c (d # s) =
     (if d = c then ([], True, s)
      else case partition_on c s of (a, found, b) \<Rightarrow> (d # a, found, b))"

text \<open>\<open>s.rpartition(c)\<close>: without a separator the text is in the last part.\<close>

definition rpartition_on :: "char \<Rightarrow> string \<Rightarrow> string \<times> bool \<times> string" where
  "rpartition_on c s =
     (case partition_on c (rev s) of (b, found, a) \<Rightarrow>
        if found then (rev a, True, rev b) else ([], False, s))"

lemma partition_on_found: "partition_on c s = (a, found, b) \<Longrightarrow> found = (c \<in> set s)"
  by (induction s arbitrary: a b found) (auto split: if_splits prod.splits)

lemma partition_on_append: "c \<notin> set a \<Longrightarrow> partition_on c (a @ c # b) = (a, True, b)"
  by (induction a) auto

lemma partition_on_absent: "c \<notin> set s \<Longrightarrow> partition_on c s = (s, False, [])"
  by (induction s) auto

lemma partition_on_join: "partition_on c s = (a, True, b) \<Longrightarrow> s = a @ c # b \<and> c \<notin> set a"
proof (induction s arbitrary: a b)
  case (Cons d s)
  then show ?case by (auto split: if_splits prod.splits)
qed simp

section \<open>Addresses\<close>

datatype ip_addr = V4 "32 word" | V6 "128 word" "string option"

definition parse_octet :: "string \<Rightarrow> nat option" where
  "parse_octet s =
     (if s = [] \<or> \<not> list_all is_digit s \<or> length s > 3 \<or> (s \<noteq> ''0'' \<and> hd s = CHR ''0'') then None
      else if digits_value s > 255 then None else Some (digits_value s))"

fun all_some :: "'a option list \<Rightarrow> 'a list option" where
  "all_some [] = Some []"
| "all_some (None # xs) = None"
| "all_some (Some x # xs) = (case all_some xs of None \<Rightarrow> None | Some ys \<Rightarrow> Some (x # ys))"

definition word_of_parts :: "nat \<Rightarrow> nat list \<Rightarrow> nat" where
  "word_of_parts base xs = foldl (\<lambda>n x. n * base + x) 0 xs"

definition ipv4_of_string :: "string \<Rightarrow> 32 word option" where
  "ipv4_of_string s =
     (let octets = split_on (CHR ''.'') s in
      if CHR ''/'' \<in> set s \<or> s = [] \<or> length octets \<noteq> 4 then None
      else case all_some (map parse_octet octets) of
        None \<Rightarrow> None
      | Some xs \<Rightarrow> Some (of_nat (word_of_parts 256 xs)))"

definition hex_value :: "char \<Rightarrow> nat option" where
  "hex_value c = (let n = ord c in
     if 48 \<le> n \<and> n \<le> 57 then Some (n - 48)
     else if 65 \<le> n \<and> n \<le> 70 then Some (n - 55)
     else if 97 \<le> n \<and> n \<le> 102 then Some (n - 87) else None)"

definition parse_hextet :: "string \<Rightarrow> nat option" where
  "parse_hextet s = (case all_some (map hex_value s) of
     None \<Rightarrow> None
   | Some ds \<Rightarrow> if length s > 4 \<or> s = [] then None else Some (word_of_parts 16 ds))"

text \<open>A hextet is still text or was already read from a dotted IPv4 suffix.\<close>

datatype ip_part = TextPart string | ValuePart nat

definition part_empty :: "ip_part \<Rightarrow> bool" where
  "part_empty p \<longleftrightarrow> p = TextPart []"

fun part_value :: "ip_part \<Rightarrow> nat option" where
  "part_value (TextPart s) = parse_hextet s"
| "part_value (ValuePart n) = Some n"

definition ipv6_parts :: "string \<Rightarrow> ip_part list option" where
  "ipv6_parts s =
     (let parts = split_on (CHR '':'') s in
      if s = [] \<or> length parts < 3 then None
      else if CHR ''.'' \<in> set (last parts)
      then (case ipv4_of_string (last parts) of
              None \<Rightarrow> None
            | Some w \<Rightarrow> Some (map TextPart (butlast parts)
                @ [ValuePart (unat w div 65536), ValuePart (unat w mod 65536)]))
      else Some (map TextPart parts))"

text \<open>The positions of the empty parts between the end points.\<close>

definition skip_positions :: "ip_part list \<Rightarrow> nat list" where
  "skip_positions ps = filter (\<lambda>i. part_empty (ps ! i)) [1..<length ps - 1]"

definition hextets_of :: "ip_part list \<Rightarrow> nat list option" where
  "hextets_of ps =
     (if length ps > 9 then None
      else case skip_positions ps of
        [] \<Rightarrow>
          if length ps \<noteq> 8 \<or> part_empty (hd ps) \<or> part_empty (last ps) then None
          else all_some (map part_value ps)
      | [i] \<Rightarrow>
          (let lead = part_empty (hd ps); trail = part_empty (last ps);
               hi = (if lead then i - 1 else i);
               lo = (if trail then length ps - i - 2 else length ps - i - 1)
           in if lead \<and> hi \<noteq> 0 \<or> trail \<and> lo \<noteq> 0 \<or> hi + lo \<ge> 8 then None
              else case (all_some (map part_value (take hi ps)),
                         all_some (map part_value (drop (length ps - lo) ps))) of
                     (Some xs, Some ys) \<Rightarrow> Some (xs @ replicate (8 - (hi + lo)) 0 @ ys)
                   | _ \<Rightarrow> None)
      | _ \<Rightarrow> None)"

definition ipv6_of_string :: "string \<Rightarrow> ip_addr option" where
  "ipv6_of_string s =
     (case partition_on (CHR ''%'') s of (addr, has_scope, scope) \<Rightarrow>
        if CHR ''/'' \<in> set s \<or> has_scope \<and> (scope = [] \<or> CHR ''%'' \<in> set scope) then None
        else case ipv6_parts addr of
          None \<Rightarrow> None
        | Some ps \<Rightarrow> (case hextets_of ps of
            None \<Rightarrow> None
          | Some xs \<Rightarrow> Some (V6 (of_nat (word_of_parts 65536 xs)) (if has_scope then Some scope else None))))"

text \<open>\<open>ip_address(s)\<close>; \<open>None\<close> is its \<open>ValueError\<close>.\<close>

definition ip_address :: "string \<Rightarrow> ip_addr option" where
  "ip_address s = (case ipv4_of_string s of Some w \<Rightarrow> Some (V4 w) | None \<Rightarrow> ipv6_of_string s)"

section \<open>Ranges\<close>

text \<open>\<open>address in network\<close>: the first \<open>plen\<close> bits agree.\<close>

definition in_net4 :: "32 word \<Rightarrow> 32 word \<times> nat \<Rightarrow> bool" where
  "in_net4 a net = (drop_bit (32 - snd net) a = drop_bit (32 - snd net) (fst net))"

definition in_net6 :: "128 word \<Rightarrow> 128 word \<times> nat \<Rightarrow> bool" where
  "in_net6 a net = (drop_bit (128 - snd net) a = drop_bit (128 - snd net) (fst net))"

definition private_networks4 :: "(32 word \<times> nat) list" where
  "private_networks4 =
     [(0x00000000, 8), (0x0A000000, 8), (0x7F000000, 8), (0xA9FE0000, 16), (0xAC100000, 12),
      (0xC0000000, 24), (0xC00000AA, 31), (0xC0000200, 24), (0xC0A80000, 16), (0xC6120000, 15),
      (0xC6336400, 24), (0xCB007100, 24), (0xF0000000, 4), (0xFFFFFFFF, 32)]"

definition private_exceptions4 :: "(32 word \<times> nat) list" where
  "private_exceptions4 = [(0xC0000009, 32), (0xC000000A, 32)]"

definition is_private4 :: "32 word \<Rightarrow> bool" where
  "is_private4 a \<longleftrightarrow> list_ex (in_net4 a) private_networks4 \<and> \<not> list_ex (in_net4 a) private_exceptions4"

definition private_networks6 :: "(128 word \<times> nat) list" where
  "private_networks6 =
     [(1, 128), (0, 128), (push_bit 32 0xFFFF, 96), (push_bit 80 0x0064FF9B0001, 48),
      (push_bit 112 0x0100, 64), (push_bit 112 0x2001, 23), (push_bit 96 0x20010DB8, 32),
      (push_bit 112 0x2002, 16), (push_bit 112 0xFC00, 7), (push_bit 112 0xFE80, 10)]"

definition private_exceptions6 :: "(128 word \<times> nat) list" where
  "private_exceptions6 =
     [(push_bit 96 0x20010001 + 1, 128), (push_bit 96 0x20010001 + 2, 128), (push_bit 96 0x20010003, 32),
      (push_bit 80 0x200100040112, 48), (push_bit 96 0x20010020, 28), (push_bit 96 0x20010030, 28)]"

definition ipv4_mapped :: "128 word \<Rightarrow> 32 word option" where
  "ipv4_mapped a = (if drop_bit 32 a = 0xFFFF then Some (ucast a) else None)"

fun is_private :: "ip_addr \<Rightarrow> bool" where
  "is_private (V4 a) = is_private4 a"
| "is_private (V6 a scope) = (case ipv4_mapped a of
     Some b \<Rightarrow> is_private4 b
   | None \<Rightarrow> list_ex (in_net6 a) private_networks6 \<and> \<not> list_ex (in_net6 a) private_exceptions6)"

fun is_global :: "ip_addr \<Rightarrow> bool" where
  "is_global (V4 a) = (\<not> in_net4 a (0x64400000, 10) \<and> \<not> is_private4 a)"
| "is_global (V6 a scope) = (\<not> is_private (V6 a scope))"

fun is_loopback :: "ip_addr \<Rightarrow> bool" where
  "is_loopback (V4 a) = in_net4 a (0x7F000000, 8)"
| "is_loopback (V6 a scope) = (a = 1)"

fun is_multicast :: "ip_addr \<Rightarrow> bool" where
  "is_multicast (V4 a) = in_net4 a (0xE0000000, 4)"
| "is_multicast (V6 a scope) = in_net6 a (push_bit 112 0xFF00, 8)"

end
