(* ===== verification/Urls.thy ===== *)
theory Urls
  imports Errors Addresses
begin

text \<open>
  URLs as the program takes them apart and puts them together: \<open>urlsplit\<close>, \<open>urlunsplit\<close>, \<open>urljoin\<close>,
  \<open>quote\<close>, \<open>unquote\<close> and the \<open>SplitResult\<close> attributes of Python 3.12's \<open>urllib.parse\<close>.  Code points
  are 0 to 255, on which the NFKC check of \<open>urlsplit\<close> never objects; a decoded code point above 255
  is read as a question mark.
\<close>

section \<open>Results\<close>

definition and_then :: "'e + 'a \<Rightarrow> ('a \<Rightarrow> 'e + 'b) \<Rightarrow> 'e + 'b" where
  "and_then r f = (case r of Inl e \<Rightarrow> Inl e | Inr x \<Rightarrow> f x)"

lemma and_then_simps [simp]: "and_then (Inl e) f = Inl e" "and_then (Inr x) f = f x"
  by (simp_all add: and_then_def)

lemma and_then_Inr: "and_then r f = Inr y \<longleftrightarrow> (\<exists>x. r = Inr x \<and> f x = Inr y)"
  by (cases r) auto

lemma and_then_Inl: "and_then r f = Inl e \<longleftrightarrow> r = Inl e \<or> (\<exists>x. r = Inr x \<and> f x = Inl e)"
  by (cases r) auto

section \<open>Splitting\<close>

record split_url =
  url_scheme :: string
  url_netloc :: string
  url_path :: string
  url_query :: string
  url_fragment :: string

definition is_alpha_ascii :: "char \<Rightarrow> bool" where
  "is_alpha_ascii c \<longleftrightarrow> (65 \<le> ord c \<and> ord c \<le> 90) \<or> (97 \<le> ord c \<and> ord c \<le> 122)"

definition scheme_char :: "char \<Rightarrow> bool" where
  "scheme_char c \<longleftrightarrow> is_alnum_ascii c \<or> c \<in> set ''+-.''"

definition url_clean :: "string \<Rightarrow> string" where
  "url_clean url = filter (\<lambda>c. ord c \<notin> {9, 10, 13}) (dropWhile (\<lambda>c. ord c \<le> 32) url)"

text \<open>The scheme, if the text starts with one, and what follows its colon.\<close>

definition split_scheme :: "string \<Rightarrow> string \<Rightarrow> string \<times> string" where
  "split_scheme dflt url = (case partition_on (CHR '':'') url of (s, found, rest) \<Rightarrow>
     if found \<and> s \<noteq> [] \<and> is_alpha_ascii (hd s) \<and> list_all scheme_char s then (str_lower s, rest)
     else (dflt, url))"

definition split_netloc :: "string \<Rightarrow> string \<times> string" where
  "split_netloc url = (let stop = (\<lambda>c. c \<in> set ''/?#'') in
     (takeWhile (\<lambda>c. \<not> stop c) url, dropWhile (\<lambda>c. \<not> stop c) url))"

definition is_ipvfuture :: "string \<Rightarrow> bool" where
  "is_ipvfuture s \<longleftrightarrow>
     (let digits = takeWhile (\<lambda>c. hex_value c \<noteq> None) (tl s); rest = drop (length digits) (tl s) in
      digits \<noteq> [] \<and> starts_with ''.'' rest \<and> length rest > 1)"

definition bracketed_host_ok :: "string \<Rightarrow> bool" where
  "bracketed_host_ok host =
     (if starts_with ''v'' host then is_ipvfuture host
      else case ip_address host of Some (V6 a scope) \<Rightarrow> True | _ \<Rightarrow> False)"

definition after_at :: "string \<Rightarrow> string" where
  "after_at netloc = (case rpartition_on (CHR ''@'') netloc of (_, _, hostinfo) \<Rightarrow> hostinfo)"

definition bracketed_netloc_ok :: "string \<Rightarrow> bool" where
  "bracketed_netloc_ok netloc =
     (case partition_on (CHR ''['') (after_at netloc) of (pre, have_open, bracketed) \<Rightarrow>
        if have_open
        then (case partition_on (CHR '']'') bracketed of (host, _, port) \<Rightarrow>
          pre = [] \<and> (port = [] \<or> starts_with '':'' port) \<and> bracketed_host_ok host)
        else (case partition_on (CHR '':'') (after_at netloc) of (host, _, _) \<Rightarrow> bracketed_host_ok host))"

definition netloc_ok :: "string \<Rightarrow> bool" where
  "netloc_ok netloc \<longleftrightarrow>
     (CHR ''['' \<in> set netloc) = (CHR '']'' \<in> set netloc)
     \<and> (CHR ''['' \<in> set netloc \<longrightarrow> bracketed_netloc_ok netloc)"

definition urlsplit_default :: "string \<Rightarrow> string \<Rightarrow> exn + split_url" where
  "urlsplit_default dflt url =
     (case split_scheme dflt (url_clean url) of (scheme, rest) \<Rightarrow>
      case (if starts_with ''//'' rest then split_netloc (drop 2 rest) else ([], rest)) of (netloc, rest) \<Rightarrow>
      if \<not> netloc_ok netloc then Inl (ValueError ''Invalid IPv6 URL'')
      else case partition_on (CHR ''#'') rest of (rest, _, fragment) \<Rightarrow>
           case partition_on (CHR ''?'') rest of (path, _, query) \<Rightarrow>
        Inr \<lparr>url_scheme = scheme, url_netloc = netloc, url_path = path, url_query = query,
             url_fragment = fragment\<rparr>)"

definition urlsplit :: "string \<Rightarrow> exn + split_url" where
  "urlsplit url = urlsplit_default [] url"

section \<open>The authority\<close>

definition userinfo_of :: "split_url \<Rightarrow> string option \<times> string option" where
  "userinfo_of u = (case rpartition_on (CHR ''@'') (url_netloc u) of (userinfo, have_info, _) \<Rightarrow>
     if \<not> have_info then (None, None)
     else case partition_on (CHR '':'') userinfo of (name, have_password, password) \<Rightarrow>
       (Some name, if have_password then Some password else None))"

definition url_username :: "split_url \<Rightarrow> string option" where
  "url_username u = fst (userinfo_of u)"

definition url_password :: "split_url \<Rightarrow> string option" where
  "url_password u = snd (userinfo_of u)"

definition hostinfo_of :: "split_url \<Rightarrow> string \<times> string" where
  "hostinfo_of u = (let hostinfo = after_at (url_netloc u) in
     case partition_on (CHR ''['') hostinfo of (_, have_open, bracketed) \<Rightarrow>
       if have_open
       then (case partition_on (CHR '']'') bracketed of (host, _, rest) \<Rightarrow>
             case partition_on (CHR '':'') rest of (_, _, port) \<Rightarrow> (host, port))
       else (case partition_on (CHR '':'') hostinfo of (host, _, port) \<Rightarrow> (host, port)))"

definition url_hostname :: "split_url \<Rightarrow> string option" where
  "url_hostname u = (case partition_on (CHR ''%'') (fst (hostinfo_of u)) of (host, percent, zone) \<Rightarrow>
     if fst (hostinfo_of u) = [] then None
     else Some (str_lower host @ (if percent then ''%'' @ zone else [])))"

definition url_port :: "split_url \<Rightarrow> exn + nat option" where
  "url_port u = (let port = snd (hostinfo_of u) in
     if port = [] then Inr None
     else if \<not> list_all is_digit port then Inl (ValueError ''Port could not be cast to integer value'')
     else if digits_value port > 65535 then Inl (ValueError ''Port out of range 0-65535'')
     else Inr (Some (digits_value port)))"

section \<open>Putting together\<close>

definition uses_netloc :: "string list" where
  "uses_netloc = ['''', ''ftp'', ''http'', ''gopher'', ''nntp'', ''telnet'', ''imap'', ''wais'', ''file'', ''mms'',
     ''https'', ''shttp'', ''snews'', ''prospero'', ''rtsp'', ''rtsps'', ''rtspu'', ''rsync'', ''svn'', ''svn+ssh'',
     ''sftp'', ''nfs'', ''git'', ''git+ssh'', ''ws'', ''wss'', ''itms-services'']"

definition uses_relative :: "string list" where
  "uses_relative = ['''', ''ftp'', ''http'', ''gopher'', ''nntp'', ''imap'', ''wais'', ''file'', ''https'', ''shttp'',
     ''mms'', ''prospero'', ''rtsp'', ''rtsps'', ''rtspu'', ''sftp'', ''svn'', ''svn+ssh'', ''ws'', ''wss'']"

definition uses_params :: "string list" where
  "uses_params = ['''', ''ftp'', ''hdl'', ''prospero'', ''http'', ''https'', ''shttp'', ''rtsp'', ''rtsps'', ''sip'',
     ''sips'', ''mms'', ''sftp'', ''tel'']"

definition urlunsplit :: "split_url \<Rightarrow> string" where
  "urlunsplit u =
     (let path = url_path u;
          authority = (if url_netloc u \<noteq> []
              \<or> url_scheme u \<noteq> [] \<and> url_scheme u \<in> set uses_netloc \<and> \<not> starts_with ''//'' path
            then ''//'' @ url_netloc u @ (if path \<noteq> [] \<and> \<not> starts_with ''/'' path then ''/'' @ path else path)
            else path)
      in (if url_scheme u = [] then [] else url_scheme u @ '':'') @ authority
         @ (if url_query u = [] then [] else ''?'' @ url_query u)
         @ (if url_fragment u = [] then [] else ''#'' @ url_fragment u))"

section \<open>Joining\<close>

text \<open>\<open>_splitparams\<close>: the parameters of the last path segment.\<close>

definition split_params :: "string \<Rightarrow> string \<times> string" where
  "split_params path = (case rpartition_on (CHR ''/'') path of (dir, slash, final) \<Rightarrow>
     case partition_on (CHR '';'') final of (seg, _, params) \<Rightarrow>
       ((if slash then dir @ ''/'' else []) @ seg, params))"

definition urlparse :: "string \<Rightarrow> string \<Rightarrow> exn + split_url \<times> string" where
  "urlparse dflt url = and_then (urlsplit_default dflt url) (\<lambda>u.
     if url_scheme u \<in> set uses_params \<and> CHR '';'' \<in> set (url_path u)
     then (case split_params (url_path u) of (path, params) \<Rightarrow> Inr (u\<lparr>url_path := path\<rparr>, params))
     else Inr (u, []))"

definition urlunparse :: "split_url \<Rightarrow> string \<Rightarrow> string" where
  "urlunparse u params = urlunsplit (if params = [] then u else u\<lparr>url_path := url_path u @ '';'' @ params\<rparr>)"

fun resolve_dots :: "string list \<Rightarrow> string list \<Rightarrow> string list" where
  "resolve_dots acc [] = acc"
| "resolve_dots acc (seg # segs) =
     (if seg = ''..'' then resolve_dots (butlast acc) segs
      else if seg = ''.'' then resolve_dots acc segs
      else resolve_dots (acc @ [seg]) segs)"

definition join_segments :: "string \<Rightarrow> string \<Rightarrow> string list" where
  "join_segments base_path path =
     (if starts_with ''/'' path then split_on (CHR ''/'') path
      else let parts = split_on (CHR ''/'') base_path;
               base = (if last parts \<noteq> [] then butlast parts else parts);
               segs = base @ split_on (CHR ''/'') path
           in if length segs \<le> 2 then segs
              else hd segs # filter (\<lambda>s. s \<noteq> []) (butlast (tl segs)) @ [last segs])"

definition join_path :: "string \<Rightarrow> string \<Rightarrow> string" where
  "join_path base_path path =
     (let segs = join_segments base_path path;
          resolved = resolve_dots [] segs @ (if last segs \<in> {''.'', ''..''} then [[]] else []);
          joined = join_with ''/'' resolved
      in if joined = [] then ''/'' else joined)"

definition urljoin :: "string \<Rightarrow> string \<Rightarrow> exn + string" where
  "urljoin base url =
     (if base = [] then Inr url
      else if url = [] then Inr base
      else and_then (urlparse [] base) (\<lambda>(b, bparams).
           and_then (urlparse (url_scheme b) url) (\<lambda>(u, params).
        if url_scheme u \<noteq> url_scheme b \<or> url_scheme u \<notin> set uses_relative then Inr url
        else if url_scheme u \<in> set uses_netloc \<and> url_netloc u \<noteq> [] then Inr (urlunparse u params)
        else let u = (if url_scheme u \<in> set uses_netloc then u\<lparr>url_netloc := url_netloc b\<rparr> else u) in
          if url_path u = [] \<and> params = []
          then Inr (urlunparse (u\<lparr>url_path := url_path b,
                                   url_query := (if url_query u = [] then url_query b else url_query u)\<rparr>) bparams)
          else Inr (urlunparse (u\<lparr>url_path := join_path (url_path b) (url_path u)\<rparr>) params))))"

section \<open>Percent encoding\<close>

definition hex_digit :: "nat \<Rightarrow> char" where
  "hex_digit n = char_of (if n < 10 then 48 + n else 55 + n)"

definition utf8_bytes :: "char \<Rightarrow> nat list" where
  "utf8_bytes c = (if ord c < 128 then [ord c] else [192 + ord c div 64, 128 + ord c mod 64])"

definition always_safe :: "char \<Rightarrow> bool" where
  "always_safe c \<longleftrightarrow> is_alnum_ascii c \<or> c \<in> set ''_.-~''"

definition percent :: "nat \<Rightarrow> string" where
  "percent b = [CHR ''%'', hex_digit (b div 16), hex_digit (b mod 16)]"

definition quote_char :: "string \<Rightarrow> char \<Rightarrow> string" where
  "quote_char safe c =
     (if always_safe c \<or> c \<in> set safe \<and> ord c < 128 then [c] else concat (map percent (utf8_bytes c)))"

definition quote :: "string \<Rightarrow> string \<Rightarrow> string" where
  "quote safe s = concat (map (quote_char safe) s)"

text \<open>UTF-8 with \<open>errors='replace'\<close>: an ill-formed sequence becomes one U+FFFD per maximal prefix.\<close>

definition utf8_cont :: "nat \<Rightarrow> bool" where
  "utf8_cont b \<longleftrightarrow> 128 \<le> b \<and> b \<le> 191"

definition utf8_second_ok :: "nat \<Rightarrow> nat \<Rightarrow> bool" where
  "utf8_second_ok lead b \<longleftrightarrow> utf8_cont b
     \<and> (lead = 224 \<longrightarrow> 160 \<le> b) \<and> (lead = 237 \<longrightarrow> b \<le> 159)
     \<and> (lead = 240 \<longrightarrow> 144 \<le> b) \<and> (lead = 244 \<longrightarrow> b \<le> 143)"

text \<open>How many continuation bytes a lead byte asks for; \<open>None\<close> when it is none.\<close>

definition utf8_need :: "nat \<Rightarrow> nat option" where
  "utf8_need b = (if 194 \<le> b \<and> b \<le> 223 then Some 1 else if 224 \<le> b \<and> b \<le> 239 then Some 2
     else if 240 \<le> b \<and> b \<le> 244 then Some 3 else None)"

text \<open>The bytes after the lead that belong to its sequence.\<close>

definition utf8_tail :: "nat \<Rightarrow> nat list \<Rightarrow> nat list" where
  "utf8_tail b bs = (case utf8_need b of None \<Rightarrow> [] | Some n \<Rightarrow>
     (case bs of [] \<Rightarrow> []
      | c # cs \<Rightarrow> if utf8_second_ok b c then c # takeWhile utf8_cont (take (n - 1) cs) else []))"

definition utf8_code :: "nat \<Rightarrow> nat list \<Rightarrow> nat" where
  "utf8_code b cs = (if utf8_need b \<noteq> Some (length cs) then 65533
     else foldl (\<lambda>n c. n * 64 + (c - 128)) (b mod (if b < 224 then 32 else if b < 240 then 16 else 8)) cs)"

function utf8_decode :: "nat list \<Rightarrow> nat list" where
  "utf8_decode [] = []"
| "utf8_decode (b # bs) = (if b < 128 then b # utf8_decode bs
     else utf8_code b (utf8_tail b bs) # utf8_decode (drop (length (utf8_tail b bs)) bs))"
  by pat_completeness auto
termination
  by (relation "measure length") auto

definition char_of_code :: "nat \<Rightarrow> char" where
  "char_of_code n = (if n < 256 then char_of n else CHR ''?'')"

fun unquote_bytes :: "string \<Rightarrow> nat list" where
  "unquote_bytes [] = []"
| "unquote_bytes (c # s) =
     (case s of a # b # rest \<Rightarrow>
        (case (hex_value a, hex_value b) of
           (Some x, Some y) \<Rightarrow> if c = CHR ''%'' then (16 * x + y) # unquote_bytes rest else ord c # unquote_bytes s
         | _ \<Rightarrow> ord c # unquote_bytes s)
      | _ \<Rightarrow> ord c # unquote_bytes s)"

text \<open>Only the ASCII runs of the text are unquoted and decoded.\<close>

function unquote :: "string \<Rightarrow> string" where
  "unquote s = (if s = [] then []
     else let ascii = takeWhile (\<lambda>c. ord c < 128) s; rest = dropWhile (\<lambda>c. ord c < 128) s in
       map char_of_code (utf8_decode (unquote_bytes ascii))
       @ takeWhile (\<lambda>c. ord c \<ge> 128) rest @ unquote (dropWhile (\<lambda>c. ord c \<ge> 128) rest))"
  by pat_completeness auto
termination
proof (relation "measure length")
  fix s ascii rest :: string
  assume s: "s \<noteq> []" and rest: "rest = dropWhile (\<lambda>c. ord c < 128) s"
  show "(dropWhile (\<lambda>c. ord c \<ge> 128) rest, s) \<in> measure length"
  proof (cases "ord (hd s) < 128")
    case True
    then have "length rest < length s"
      using s rest by (cases s) (auto simp: less_Suc_eq_le length_dropWhile_le)
    then show ?thesis using length_dropWhile_le [of "\<lambda>c. ord c \<ge> 128" rest] by simp
  next
    case False
    then have "rest = s" using s rest by (cases s) auto
    with False s show ?thesis by (cases s) (auto simp: less_Suc_eq_le length_dropWhile_le)
  qed
qed simp

declare unquote.simps [simp del]

text \<open>Code equations that unfold only on a known argument, for evaluation inside the kernel.\<close>

lemma unquote_code [code]:
  "unquote [] = []"
  "unquote (c # s) = (let ascii = takeWhile (\<lambda>c. ord c < 128) (c # s); rest = dropWhile (\<lambda>c. ord c < 128) (c # s) in
       map char_of_code (utf8_decode (unquote_bytes ascii))
       @ takeWhile (\<lambda>c. ord c \<ge> 128) rest @ unquote (dropWhile (\<lambda>c. ord c \<ge> 128) rest))"
  by (subst unquote.simps, simp)+

lemma nat_str_code [code]:
  "nat_str n = (case n < 10 of True \<Rightarrow> [char_of (48 + n)] | False \<Rightarrow> nat_str (n div 10) @ [char_of (48 + n mod 10)])"
  by (subst nat_str.simps) simp

section \<open>Evaluation on literals\<close>

text \<open>What \<open>simp\<close> needs to evaluate the string and URL functions on a literal.\<close>

lemmas text_eval = ord_def char_of_eq_iff is_digit_def is_alnum_ascii_def is_space_def str_lower_def lower_char_def
  str_strip_def str_lstrip_def str_rstrip_def digits_value_def ends_with_def rpartition_on_def Let_def

lemmas address_eval = ip_address_def ipv4_of_string_def parse_octet_def word_of_parts_def

lemmas url_eval = urlsplit_def urlsplit_default_def split_scheme_def url_clean_def is_alpha_ascii_def scheme_char_def
  split_netloc_def netloc_ok_def url_hostname_def url_port_def url_username_def url_password_def userinfo_of_def
  hostinfo_of_def after_at_def urlunsplit_def uses_netloc_def

end
