(* ===== verification/Config.thy ===== *)
theory Config
  imports Urls
begin

text \<open>
  The settings and the proxy normaliser (\<open>camouflare/config.py\<close>).  The environment is a partial
  map; \<open>linux\<close> is \<open>platform.system() == "Linux"\<close>.  \<open>repr_val\<close> is \<open>str\<close> of the JSON values
  other than strings, booleans, integers and null.  A proxy dictionary is a Python value, its
  normal form is a dictionary of strings.
\<close>

section \<open>Python conversions\<close>

definition upper_char :: "char \<Rightarrow> string" where
  "upper_char c = (let n = ord c in
     if (97 \<le> n \<and> n \<le> 122) \<or> (224 \<le> n \<and> n \<le> 254 \<and> n \<noteq> 247) then [char_of (n - 32)]
     else if n = 223 then ''SS'' else if n = 181 \<or> n = 255 then ''?'' else [c])"

definition str_upper :: "string \<Rightarrow> string" where
  "str_upper s = concat (map upper_char s)"

definition int_space :: "char \<Rightarrow> bool" where
  "int_space c = (let n = ord c in (9 \<le> n \<and> n \<le> 13) \<or> n \<in> {32, 133, 160})"

definition strip_chars :: "(char \<Rightarrow> bool) \<Rightarrow> string \<Rightarrow> string" where
  "strip_chars p s = rev (dropWhile p (rev (dropWhile p s)))"

text \<open>\<open>int(s)\<close>; \<open>None\<close> is its \<open>ValueError\<close>.\<close>

definition int_of_digits :: "string \<Rightarrow> nat option" where
  "int_of_digits s = (let groups = split_on (CHR ''_'') s in
     if list_all (\<lambda>g. g \<noteq> [] \<and> list_all is_digit g) groups \<and> length (concat groups) \<le> 4300
     then Some (digits_value (concat groups)) else None)"

definition py_int :: "string \<Rightarrow> int option" where
  "py_int s = (case strip_chars int_space s of
     [] \<Rightarrow> None
   | c # ds \<Rightarrow> if c = CHR ''-'' then map_option (\<lambda>n. - int n) (int_of_digits ds)
              else map_option int (int_of_digits (if c = CHR ''+'' then ds else c # ds)))"

text \<open>\<open>str(v)\<close>\<close>

definition py_str :: "(py_val \<Rightarrow> string) \<Rightarrow> py_val \<Rightarrow> string" where
  "py_str repr_val v = (case v of PyStr s \<Rightarrow> s | PyInt i \<Rightarrow> int_str i | PyNone \<Rightarrow> ''None''
     | PyBool b \<Rightarrow> if b then ''True'' else ''False'' | _ \<Rightarrow> repr_val v)"

section \<open>The environment\<close>

type_synonym environment = "string \<Rightarrow> string option"

definition int_env :: "environment \<Rightarrow> string \<Rightarrow> int \<Rightarrow> int" where
  "int_env env name dflt = (case env name of
     None \<Rightarrow> dflt
   | Some value \<Rightarrow> if value = [] then dflt else (case py_int value of None \<Rightarrow> dflt | Some i \<Rightarrow> i))"

definition truthy_words :: "string set" where
  "truthy_words = {''1'', ''true'', ''yes'', ''on''}"

definition bool_env :: "environment \<Rightarrow> string \<Rightarrow> bool \<Rightarrow> bool" where
  "bool_env env name dflt = (case env name of
     None \<Rightarrow> dflt
   | Some value \<Rightarrow> if value = [] then dflt else str_lower value \<in> truthy_words)"

datatype headless_mode = Headless bool | Virtual

definition headless_env :: "bool \<Rightarrow> environment \<Rightarrow> exn + headless_mode" where
  "headless_env linux env = (case env ''HEADLESS'' of
     None \<Rightarrow> Inr (if linux then Virtual else Headless True)
   | Some value \<Rightarrow>
       if value = [] then Inr (if linux then Virtual else Headless True)
       else let normalized = str_lower (str_strip value) in
         if normalized \<in> truthy_words then Inr (Headless True)
         else if normalized \<in> {''0'', ''false'', ''no'', ''off''} then Inr (Headless False)
         else if normalized = ''virtual'' then Inr Virtual
         else Inl (ValueError ''HEADLESS must be one of true, false, 1, 0, yes, no, on, off, or virtual.''))"

definition challenge_solver_env :: "environment \<Rightarrow> exn + string" where
  "challenge_solver_env env = (case env ''CHALLENGE_SOLVER'' of
     None \<Rightarrow> Inr ''none''
   | Some value \<Rightarrow>
       if value = [] then Inr ''none''
       else let normalized = str_lower (str_strip value) in
         if normalized \<in> {''click'', ''none''} then Inr normalized
         else Inl (ValueError ''CHALLENGE_SOLVER must be one of click or none.''))"

section \<open>Proxies\<close>

type_synonym proxy = "(string \<times> string) list"

definition invalid_proxy_error :: exn where
  "invalid_proxy_error =
     invalid_request ''Request parameter 'proxy' must contain a valid HTTP(S), SOCKS4, or SOCKS5 server.''"

definition as_proxy_error :: "exn + 'a \<Rightarrow> exn + 'a" where
  "as_proxy_error r = (case r of Inl e \<Rightarrow> Inl invalid_proxy_error | Inr x \<Rightarrow> Inr x)"

text \<open>A server without a scheme: it must be a bare authority without credentials.\<close>

definition bare_proxy_server :: "string \<Rightarrow> exn + proxy" where
  "bare_proxy_server server =
     and_then (as_proxy_error (urlsplit (''//'' @ server))) (\<lambda>authority.
     and_then (as_proxy_error (url_port authority)) (\<lambda>_.
       if url_hostname authority = None \<or> url_path authority \<noteq> [] \<or> url_query authority \<noteq> []
          \<or> url_fragment authority \<noteq> [] \<or> url_username authority \<noteq> None \<or> url_password authority \<noteq> None
       then Inl invalid_proxy_error
       else Inr [(''server'', server)]))"

definition bracket_host :: "string \<Rightarrow> string" where
  "bracket_host host = (if CHR '':'' \<in> set host \<and> \<not> starts_with ''['' host then ''['' @ host @ '']'' else host)"

definition proxy_netloc :: "string \<Rightarrow> nat option \<Rightarrow> string" where
  "proxy_netloc host port = (case port of None \<Rightarrow> bracket_host host | Some p \<Rightarrow> bracket_host host @ '':'' @ nat_str p)"

definition opt_field :: "string \<Rightarrow> string option \<Rightarrow> proxy" where
  "opt_field name v = (case v of None \<Rightarrow> [] | Some x \<Rightarrow> [(name, x)])"

definition normalize_proxy_server :: "string \<Rightarrow> exn + proxy" where
  "normalize_proxy_server raw =
     (let server = str_strip raw in
      if server = [] \<or> list_ex is_space server then Inl invalid_proxy_error
      else and_then (as_proxy_error (urlsplit server)) (\<lambda>parsed.
        if url_scheme parsed = [] \<or> url_netloc parsed = [] then bare_proxy_server server
        else if str_lower (url_scheme parsed) \<notin> {''http'', ''https'', ''socks4'', ''socks5'', ''socks5h''}
        then Inl invalid_proxy_error
        else let scheme = (if str_lower (url_scheme parsed) = ''socks5h'' then ''socks5''
                           else str_lower (url_scheme parsed)) in
          and_then (as_proxy_error (url_port parsed)) (\<lambda>port.
            case url_hostname parsed of
              None \<Rightarrow> Inl invalid_proxy_error
            | Some host \<Rightarrow>
                if url_path parsed \<notin> {[], ''/''} \<or> url_query parsed \<noteq> [] \<or> url_fragment parsed \<noteq> []
                then Inl invalid_proxy_error
                else Inr ([(''server'', urlunsplit \<lparr>url_scheme = scheme, url_netloc = proxy_netloc host port,
                                           url_path = [], url_query = [], url_fragment = []\<rparr>)]
                          @ opt_field ''username'' (map_option unquote (url_username parsed))
                          @ opt_field ''password'' (map_option unquote (url_password parsed))))))"

text \<open>The size check of one SOCKS5 credential; text of code points below 256 always encodes.\<close>

definition socks5_credential_ok :: "proxy \<Rightarrow> string \<Rightarrow> exn + unit" where
  "socks5_credential_ok d name = (case dict_get d name of
     None \<Rightarrow> Inr ()
   | Some v \<Rightarrow> if utf8_size v > 255
       then Inl (invalid_request (''Request parameter 'proxy.'' @ name @ [CHR 0x27] @
         '' must be at most 255 UTF-8 bytes for SOCKS5 authentication.''))
       else Inr ())"

definition nonempty_field :: "proxy \<Rightarrow> string \<Rightarrow> bool" where
  "nonempty_field d name \<longleftrightarrow> (case dict_get d name of None \<Rightarrow> False | Some v \<Rightarrow> v \<noteq> [])"

definition overlay_field :: "(py_val \<Rightarrow> string) \<Rightarrow> string \<Rightarrow> py_val \<Rightarrow> proxy \<Rightarrow> proxy" where
  "overlay_field repr_val name v d = (if v = PyNone then d else dict_set name (py_str repr_val v) d)"

text \<open>What the scheme of the normalised server says about its credentials.\<close>

definition check_proxy_credentials :: "proxy \<Rightarrow> exn + proxy option" where
  "check_proxy_credentials normalized =
     and_then (urlsplit (the (dict_get normalized ''server''))) (\<lambda>u.
       let scheme = str_lower (url_scheme u) in
       if scheme = ''socks4'' \<and> (nonempty_field normalized ''username'' \<or> nonempty_field normalized ''password'')
       then Inl (invalid_request ''Request parameter 'proxy' cannot use authentication with SOCKS4.'')
       else if scheme = ''socks5''
       then and_then (socks5_credential_ok normalized ''username'') (\<lambda>_.
            and_then (socks5_credential_ok normalized ''password'') (\<lambda>_. Inr (Some normalized)))
       else Inr (Some normalized))"

definition normalize_proxy :: "(py_val \<Rightarrow> string) \<Rightarrow> py_dict option \<Rightarrow> exn + proxy option" where
  "normalize_proxy repr_val proxy = (case proxy of
     None \<Rightarrow> Inr None
   | Some d \<Rightarrow>
       (let server = (if py_truthy (dget d ''server'') then dget d ''server'' else dget d ''url'') in
        if \<not> py_truthy server then Inr None
        else case server of
          PyStr s \<Rightarrow> and_then (normalize_proxy_server s) (\<lambda>base.
            check_proxy_credentials
              (overlay_field repr_val ''password'' (dget d ''password'')
                (overlay_field repr_val ''username'' (dget d ''username'') base)))
        | _ \<Rightarrow> Inl invalid_proxy_error))"

section \<open>Settings\<close>

record settings =
  set_host :: string
  set_port :: int
  log_level :: string
  api_token :: "string option"
  headless :: headless_mode
  proxy_url :: "string option"
  proxy_username :: "string option"
  proxy_password :: "string option"
  pool_min_browsers :: int
  pool_max_browsers :: int
  pool_max_contexts_per_browser :: int
  pool_reserved_transient_contexts :: int
  pool_acquire_timeout_ms :: int
  http_max_concurrency :: int
  set_max_sessions :: int
  session_ttl_minutes :: int
  set_browser_max_uses :: int
  browser_max_age_minutes :: int
  max_request_body_bytes :: int
  max_response_body_bytes :: int
  max_screenshot_bytes :: int
  max_solution_bytes :: int
  max_timeout_ms :: int
  max_session_ttl_minutes :: int
  session_reaper_interval_seconds :: int
  pool_maintenance_interval_seconds :: int
  shutdown_timeout_seconds :: int
  cleanup_timeout_seconds :: int
  readiness_timeout_ms :: int
  prometheus_enabled :: bool
  challenge_solver :: string
  log_format :: string

definition nonempty :: "string option \<Rightarrow> bool" where
  "nonempty v \<longleftrightarrow> (case v of None \<Rightarrow> False | Some s \<Rightarrow> s \<noteq> [])"

definition env_or :: "environment \<Rightarrow> string \<Rightarrow> string \<Rightarrow> string" where
  "env_or env name dflt = (case env name of None \<Rightarrow> dflt | Some v \<Rightarrow> v)"

definition log_level_value :: "settings \<Rightarrow> nat" where
  "log_level_value s = (case dict_get [(''CRITICAL'', 50), (''FATAL'', 50), (''ERROR'', 40), (''WARN'', 30),
       (''WARNING'', 30), (''INFO'', 20), (''DEBUG'', 10), (''NOTSET'', 0)] (log_level s) of
     None \<Rightarrow> 20 | Some n \<Rightarrow> n)"

definition session_ttl_seconds :: "settings \<Rightarrow> int" where
  "session_ttl_seconds s = session_ttl_minutes s * 60"

definition browser_max_age_seconds :: "settings \<Rightarrow> int" where
  "browser_max_age_seconds s = browser_max_age_minutes s * 60"

text \<open>The two timeouts in seconds are floats of the source; here they are microseconds.\<close>

definition pool_acquire_timeout :: "settings \<Rightarrow> time" where
  "pool_acquire_timeout s = pool_acquire_timeout_ms s * 1000"

definition readiness_timeout :: "settings \<Rightarrow> time" where
  "readiness_timeout s = readiness_timeout_ms s * 1000"

definition env_proxy :: "settings \<Rightarrow> py_dict option" where
  "env_proxy s = (if \<not> nonempty (proxy_url s) then None
     else Some ([(''server'', PyStr (the (proxy_url s)))]
       @ (if nonempty (proxy_username s) then [(''username'', PyStr (the (proxy_username s)))] else [])
       @ (if nonempty (proxy_password s) then [(''password'', PyStr (the (proxy_password s)))] else [])))"

definition settings_limits :: "settings \<Rightarrow> resource_limits" where
  "settings_limits s =
     \<lparr>response_body_bytes = nat (max_response_body_bytes s), screenshot_bytes = nat (max_screenshot_bytes s),
      solution_bytes = nat (max_solution_bytes s)\<rparr>"

definition is_loopback_host :: "string \<Rightarrow> bool" where
  "is_loopback_host host =
     (let normalized = rev (dropWhile (\<lambda>c. c = CHR ''.'') (rev (str_lower (str_strip host)))) in
      if normalized = ''localhost'' then True
      else let address = (if starts_with ''['' normalized \<and> ends_with '']'' normalized
                          then butlast (tl normalized) else normalized) in
        case ip_address address of None \<Rightarrow> False | Some a \<Rightarrow> is_loopback a)"

definition positive_limits :: "settings \<Rightarrow> (string \<times> int) list" where
  "positive_limits s =
     [(''HTTP_MAX_CONCURRENCY'', http_max_concurrency s),
      (''MAX_REQUEST_BODY_BYTES'', max_request_body_bytes s),
      (''MAX_RESPONSE_BODY_BYTES'', max_response_body_bytes s),
      (''MAX_SCREENSHOT_BYTES'', max_screenshot_bytes s),
      (''MAX_SOLUTION_BYTES'', max_solution_bytes s),
      (''MAX_TIMEOUT_MS'', max_timeout_ms s),
      (''MAX_SESSION_TTL_MINUTES'', max_session_ttl_minutes s),
      (''SESSION_REAPER_INTERVAL_SECONDS'', session_reaper_interval_seconds s),
      (''POOL_MAINTENANCE_INTERVAL_SECONDS'', pool_maintenance_interval_seconds s),
      (''SHUTDOWN_TIMEOUT_SECONDS'', shutdown_timeout_seconds s),
      (''CLEANUP_TIMEOUT_SECONDS'', cleanup_timeout_seconds s),
      (''READINESS_TIMEOUT_MS'', readiness_timeout_ms s)]"

text \<open>The checks in their order; the first that fails names the error.\<close>

definition settings_checks :: "settings \<Rightarrow> (bool \<times> string) list" where
  "settings_checks s =
     [(1 \<le> set_port s \<and> set_port s \<le> 65535, ''PORT must be between 1 and 65535.''),
      (0 \<le> pool_min_browsers s, ''POOL_MIN_BROWSERS must be zero or greater.''),
      (0 < pool_max_browsers s, ''POOL_MAX_BROWSERS must be greater than zero.''),
      (pool_min_browsers s \<le> pool_max_browsers s, ''POOL_MIN_BROWSERS cannot exceed POOL_MAX_BROWSERS.''),
      (0 < pool_max_contexts_per_browser s, ''POOL_MAX_CONTEXTS_PER_BROWSER must be greater than zero.''),
      (0 \<le> pool_reserved_transient_contexts s
        \<and> pool_reserved_transient_contexts s \<le> pool_max_browsers s * pool_max_contexts_per_browser s,
       ''POOL_RESERVED_TRANSIENT_CONTEXTS must be between zero and total pool capacity.''),
      (0 < pool_acquire_timeout_ms s, ''POOL_ACQUIRE_TIMEOUT_MS must be greater than zero.''),
      (0 < set_max_sessions s, ''MAX_SESSIONS must be greater than zero.''),
      (0 < session_ttl_minutes s, ''SESSION_TTL_MINUTES must be greater than zero.''),
      (0 < set_browser_max_uses s, ''BROWSER_MAX_USES must be greater than zero.''),
      (0 < browser_max_age_minutes s, ''BROWSER_MAX_AGE_MINUTES must be greater than zero.'')]
     @ map (\<lambda>(name, value). (0 < value, name @ '' must be greater than zero.'')) (positive_limits s)
     @ [(session_ttl_minutes s \<le> max_session_ttl_minutes s, ''SESSION_TTL_MINUTES cannot exceed MAX_SESSION_TTL_MINUTES.''),
        (log_format s \<in> {''text'', ''json''}, ''LOG_FORMAT must be either text or json.''),
        (nonempty (api_token s) \<or> is_loopback_host (set_host s),
         ''CAMOUFLARE_API_TOKEN is required when HOST is not a loopback address.'')]"

fun first_failed :: "(bool \<times> string) list \<Rightarrow> exn + unit" where
  "first_failed [] = Inr ()"
| "first_failed ((ok, msg) # checks) = (if ok then first_failed checks else Inl (ValueError msg))"

definition validate_settings :: "(py_val \<Rightarrow> string) \<Rightarrow> settings \<Rightarrow> exn + unit" where
  "validate_settings repr_val s = and_then (first_failed (settings_checks s)) (\<lambda>_.
     if nonempty (proxy_url s)
     then (case normalize_proxy repr_val (env_proxy s) of
             Inl (CamouflareError e) \<Rightarrow> Inl (ValueError (''PROXY_URL/PROXY_SERVER is invalid: '' @ err_message e))
           | Inl e \<Rightarrow> Inl e
           | Inr _ \<Rightarrow> Inr ())
     else Inr ())"

definition read_settings :: "environment \<Rightarrow> headless_mode \<Rightarrow> string \<Rightarrow> settings" where
  "read_settings env hl solver =
     \<lparr>set_host = env_or env ''HOST'' ''127.0.0.1'',
      set_port = int_env env ''PORT'' 8191,
      log_level = str_upper (env_or env ''LOG_LEVEL'' ''INFO''),
      api_token = env ''CAMOUFLARE_API_TOKEN'',
      headless = hl,
      proxy_url = (if nonempty (env ''PROXY_URL'') then env ''PROXY_URL'' else env ''PROXY_SERVER''),
      proxy_username = env ''PROXY_USERNAME'',
      proxy_password = env ''PROXY_PASSWORD'',
      pool_min_browsers = int_env env ''POOL_MIN_BROWSERS'' 1,
      pool_max_browsers = int_env env ''POOL_MAX_BROWSERS'' 2,
      pool_max_contexts_per_browser = int_env env ''POOL_MAX_CONTEXTS_PER_BROWSER'' 1,
      pool_reserved_transient_contexts = int_env env ''POOL_RESERVED_TRANSIENT_CONTEXTS'' 1,
      pool_acquire_timeout_ms = int_env env ''POOL_ACQUIRE_TIMEOUT_MS'' 30000,
      http_max_concurrency = int_env env ''HTTP_MAX_CONCURRENCY'' 8,
      set_max_sessions = int_env env ''MAX_SESSIONS'' 32,
      session_ttl_minutes = int_env env ''SESSION_TTL_MINUTES'' 60,
      set_browser_max_uses = int_env env ''BROWSER_MAX_USES'' 200,
      browser_max_age_minutes = int_env env ''BROWSER_MAX_AGE_MINUTES'' 120,
      max_request_body_bytes = int_env env ''MAX_REQUEST_BODY_BYTES'' 4194304,
      max_response_body_bytes = int_env env ''MAX_RESPONSE_BODY_BYTES'' 33554432,
      max_screenshot_bytes = int_env env ''MAX_SCREENSHOT_BYTES'' 16777216,
      max_solution_bytes = int_env env ''MAX_SOLUTION_BYTES'' 67108864,
      max_timeout_ms = int_env env ''MAX_TIMEOUT_MS'' 300000,
      max_session_ttl_minutes = int_env env ''MAX_SESSION_TTL_MINUTES'' 1440,
      session_reaper_interval_seconds = int_env env ''SESSION_REAPER_INTERVAL_SECONDS'' 30,
      pool_maintenance_interval_seconds = int_env env ''POOL_MAINTENANCE_INTERVAL_SECONDS'' 15,
      shutdown_timeout_seconds = int_env env ''SHUTDOWN_TIMEOUT_SECONDS'' 30,
      cleanup_timeout_seconds = int_env env ''CLEANUP_TIMEOUT_SECONDS'' 10,
      readiness_timeout_ms = int_env env ''READINESS_TIMEOUT_MS'' 15000,
      prometheus_enabled = bool_env env ''PROMETHEUS_ENABLED'' False,
      challenge_solver = solver,
      log_format = str_lower (str_strip (env_or env ''LOG_FORMAT'' ''text''))\<rparr>"

text \<open>\<open>Settings()\<close>: the fields are read in their order, then the whole is validated.\<close>

definition load_settings :: "(py_val \<Rightarrow> string) \<Rightarrow> bool \<Rightarrow> environment \<Rightarrow> exn + settings" where
  "load_settings repr_val linux env =
     and_then (headless_env linux env) (\<lambda>hl.
     and_then (challenge_solver_env env) (\<lambda>solver.
       let s = read_settings env hl solver in
       and_then (validate_settings repr_val s) (\<lambda>_. Inr s)))"

end
