(* ===== verification/Config_Properties.thy ===== *)
theory Config_Properties
  imports Config
begin

text \<open>
  What the settings and the proxy normaliser guarantee: a server that loads has consistent limits and
  is never open to the network without a token; a normalised proxy carries its credentials beside
  the server, never in it, and normalising it again changes nothing.
\<close>

named_theorems text_facts \<open>which characters the pieces of a text may hold\<close>

section \<open>Characters of pieces\<close>

lemma partition_on_sets:
  "partition_on c s = (a, found, b) \<Longrightarrow> set a \<subseteq> set s \<and> set b \<subseteq> set s \<and> c \<notin> set a"
  by (induction s arbitrary: a b found) (auto split: if_splits prod.splits)

lemma partition_on_unfound: "partition_on c s = (a, False, b) \<Longrightarrow> a = s \<and> b = []"
  using partition_on_found [of c s a False b] partition_on_absent [of c s] by simp

lemma partition_on_cover: "partition_on c s = (a, found, b) \<Longrightarrow> set s \<subseteq> insert c (set a \<union> set b)"
  by (induction s arbitrary: a b found) (auto split: if_splits prod.splits)

lemma rpartition_on_sets:
  "rpartition_on c s = (a, found, b) \<Longrightarrow> set b \<subseteq> set s \<and> c \<notin> set b"
  unfolding rpartition_on_def
  using partition_on_sets [of c "rev s"] partition_on_found [of c "rev s"]
  by (fastforce split: prod.splits if_splits)

lemma lower_char_fixed:
  assumes "ord d < 97 \<or> 122 < ord d \<and> ord d < 224 \<or> 254 < ord d"
  shows "lower_char c = d \<longleftrightarrow> c = d \<and> \<not> (65 \<le> ord d \<and> ord d \<le> 90) \<and> \<not> (192 \<le> ord d \<and> ord d \<le> 222 \<and> ord d \<noteq> 215)"
proof -
  have "ord (char_of (ord c + 32)) = ord c + 32" if "ord c \<le> 222"
    using that by (simp add: ord_def)
  then show ?thesis using assms by (auto simp: lower_char_def Let_def)
qed

lemma set_str_lower:
  assumes "ord d < 65 \<or> 90 < ord d \<and> ord d < 97 \<or> 122 < ord d \<and> ord d < 192"
  shows "d \<in> set (str_lower s) \<longleftrightarrow> d \<in> set s"
proof -
  have "lower_char c = d \<longleftrightarrow> c = d" for c
    using lower_char_fixed [of d c] assms by auto
  then show ?thesis unfolding str_lower_def set_map by (metis image_iff)
qed

lemma lower_char_idem [simp]: "lower_char (lower_char c) = lower_char c"
proof -
  have "ord (char_of (ord c + 32)) = ord c + 32" if "ord c \<le> 222"
    using that by (simp add: ord_def)
  then show ?thesis by (auto simp: lower_char_def Let_def)
qed

lemma str_lower_idem [simp]: "str_lower (str_lower s) = str_lower s"
  by (simp add: str_lower_def)

lemma str_lower_Nil [simp]: "str_lower s = [] \<longleftrightarrow> s = []" "str_lower [] = []"
  by (simp_all add: str_lower_def)

lemma nat_str_free: "\<not> (48 \<le> ord c \<and> ord c \<le> 57) \<Longrightarrow> c \<notin> set (nat_str n)"
  using nat_str_chars by blast

lemma strip_no_space:
  assumes "\<not> list_ex is_space s"
  shows "str_strip s = s"
proof -
  have "dropWhile is_space t = t" if "set t = set s" for t
    using assms that by (cases t) (auto simp: list_ex_iff)
  then show ?thesis by (simp add: str_strip_def str_lstrip_def str_rstrip_def)
qed

section \<open>Hosts\<close>

lemma after_at_sets: "set (after_at n) \<subseteq> set n" "CHR ''@'' \<notin> set (after_at n)"
  by (cases "rpartition_on (CHR ''@'') n" rule: prod_cases3;
      use rpartition_on_sets [of "CHR ''@''" n] in \<open>force simp: after_at_def\<close>)+

lemma hostinfo_sets: "set (fst (hostinfo_of u)) \<subseteq> set (after_at (url_netloc u))"
proof -
  obtain pre op br where b: "partition_on (CHR ''['') (after_at (url_netloc u)) = (pre, op, br)"
    by (metis prod_cases3)
  obtain h1 f1 r1 where h1: "partition_on (CHR '']'') br = (h1, f1, r1)" by (metis prod_cases3)
  obtain h2 f2 r2 where h2: "partition_on (CHR '':'') (after_at (url_netloc u)) = (h2, f2, r2)"
    by (metis prod_cases3)
  show ?thesis
    using b h1 h2 partition_on_sets [OF b] partition_on_sets [OF h1] partition_on_sets [OF h2]
    by (auto simp: hostinfo_of_def Let_def split: prod.splits)
qed

lemma hostname_parts:
  assumes "url_hostname u = Some h"
  obtains a f z where "partition_on (CHR ''%'') (fst (hostinfo_of u)) = (a, f, z)"
    "h = str_lower a @ (if f then ''%'' @ z else [])" "fst (hostinfo_of u) \<noteq> []"
  using assms by (auto simp: url_hostname_def split: prod.splits if_splits)

text \<open>A host name holds no character of these classes that its authority does not hold.\<close>

lemma hostname_char:
  assumes "url_hostname u = Some h" and "c \<in> set h"
    and "ord c < 65 \<or> 90 < ord c \<and> ord c < 97 \<or> 122 < ord c \<and> ord c < 192"
  shows "c \<in> set (fst (hostinfo_of u))"
proof -
  obtain a f z where p: "partition_on (CHR ''%'') (fst (hostinfo_of u)) = (a, f, z)"
    and h: "h = str_lower a @ (if f then ''%'' @ z else [])"
    using hostname_parts [OF assms(1)] by metis
  show ?thesis
    using assms(2,3) h partition_on_sets [OF p] partition_on_found [OF p]
    by (auto simp: set_str_lower split: if_splits)
qed

lemma hostname_nonempty: "url_hostname u = Some h \<Longrightarrow> h \<noteq> []"
  using partition_on_unfound [of "CHR ''%''" "fst (hostinfo_of u)"]
  by (elim hostname_parts) (fastforce split: if_splits)

lemma proxy_netloc_char:
  assumes "c \<in> set (proxy_netloc h port)" and "c \<notin> set h"
  shows "c \<in> set ''[]:'' \<or> 48 \<le> ord c \<and> ord c \<le> 57"
  using assms nat_str_chars by (fastforce simp: proxy_netloc_def bracket_host_def split: option.splits if_splits)

section \<open>Normalised servers\<close>

lemma urlsplit_netloc:
  assumes "urlsplit s = Inr u"
  shows "set (url_netloc u) \<inter> set ''/?#'' = {}" and "netloc_ok (url_netloc u)"
    and "set (url_netloc u) \<subseteq> set s"
    and "\<forall>c \<in> set (url_netloc u). ord c \<notin> {9, 10, 13}"
proof -
  obtain scheme rest where a: "split_scheme [] (url_clean s) = (scheme, rest)" by fastforce
  have u: "url_netloc u = (if starts_with ''//'' rest then takeWhile (\<lambda>c. c \<notin> set ''/?#'') (drop 2 rest) else [])
      \<and> netloc_ok (url_netloc u)"
    using assms a by (auto simp: urlsplit_def urlsplit_default_def split_netloc_def Let_def split: prod.splits if_splits)
  have rest: "set rest \<subseteq> set (url_clean s)"
    using a partition_on_sets [of "CHR '':''" "url_clean s"]
    by (auto simp: split_scheme_def split: prod.splits if_splits)
  then have n: "set (url_netloc u) \<subseteq> set (url_clean s)"
    using u by (auto dest!: set_takeWhileD in_set_dropD split: if_splits)
  from u show "netloc_ok (url_netloc u)" by (rule conjunct2)
  show "set (url_netloc u) \<inter> set ''/?#'' = {}"
    using u by (auto dest: set_takeWhileD split: if_splits)
  show "set (url_netloc u) \<subseteq> set s" "\<forall>c \<in> set (url_netloc u). ord c \<notin> {9, 10, 13}"
    using n by (auto simp: url_clean_def dest!: set_dropWhileD)
qed

text \<open>The two ways a server is accepted.\<close>

lemma normalize_server_cases:
  assumes "normalize_proxy_server raw = Inr d"
  obtains (bare) "d = [(''server'', str_strip raw)]" "bare_proxy_server (str_strip raw) = Inr d"
  | (schemed) u port host scheme where
      "urlsplit (str_strip raw) = Inr u" "url_port u = Inr port" "url_hostname u = Some host"
      "scheme \<in> {''http'', ''https'', ''socks4'', ''socks5''}"
      "dict_get d ''server'' = Some (scheme @ ''://'' @ proxy_netloc host port)"
proof -
  let ?s = "str_strip raw"
  obtain u where u: "urlsplit ?s = Inr u"
    using assms by (cases "urlsplit ?s")
      (auto simp: normalize_proxy_server_def Let_def as_proxy_error_def and_then_def split: if_splits)
  show thesis
  proof (cases "url_scheme u = [] \<or> url_netloc u = []")
    case True
    then have "bare_proxy_server ?s = Inr d"
      using assms u by (auto simp: normalize_proxy_server_def Let_def as_proxy_error_def split: if_splits)
    moreover from this have "d = [(''server'', ?s)]"
      by (auto simp: bare_proxy_server_def and_then_Inr split: if_splits)
    ultimately show thesis by (rule bare [rotated])
  next
    case False
    let ?scheme = "if str_lower (url_scheme u) = ''socks5h'' then ''socks5'' else str_lower (url_scheme u)"
    from assms u False obtain port host where p: "url_port u = Inr port" "url_hostname u = Some host"
      and d: "\<exists>rest. d = (''server'', urlunsplit \<lparr>url_scheme = ?scheme, url_netloc = proxy_netloc host port,
                                  url_path = [], url_query = [], url_fragment = []\<rparr>) # rest"
      and sc: "?scheme \<in> {''http'', ''https'', ''socks4'', ''socks5''}"
      by (cases "url_port u"; cases "url_hostname u")
        (auto simp: normalize_proxy_server_def Let_def as_proxy_error_def split: if_splits)
    have "proxy_netloc host port \<noteq> []"
      using hostname_nonempty [OF p(2)] by (auto simp: proxy_netloc_def bracket_host_def split: option.splits)
    with d sc have "dict_get d ''server'' = Some (?scheme @ ''://'' @ proxy_netloc host port)"
      by (auto simp: urlunsplit_def)
    then show thesis by (rule schemed [OF u p sc])
  qed
qed

lemma url_clean_authority: "\<not> list_ex is_space s \<Longrightarrow> url_clean (''//'' @ s) = ''//'' @ s"
  by (auto simp: url_clean_def ord_def list_ex_iff is_space_def Let_def filter_id_conv)

lemma urlsplit_authority:
  assumes "\<not> list_ex is_space s" and "urlsplit (''//'' @ s) = Inr u"
  shows "set s \<subseteq> set ''?#'' \<union> set (url_netloc u) \<union> set (url_path u) \<union> set (url_query u) \<union> set (url_fragment u)"
proof -
  have sch: "split_scheme [] (''//'' @ s) = ([], ''//'' @ s)"
    by (auto simp: split_scheme_def is_alpha_ascii_def ord_def split: prod.splits)
  obtain n r where n: "split_netloc s = (n, r)" by fastforce
  then have s: "s = n @ r" by (auto simp: split_netloc_def Let_def)
  obtain r' f frag where f: "partition_on (CHR ''#'') r = (r', f, frag)" by (metis prod_cases3)
  obtain path g query where q: "partition_on (CHR ''?'') r' = (path, g, query)" by (metis prod_cases3)
  have "u = \<lparr>url_scheme = [], url_netloc = n, url_path = path, url_query = query, url_fragment = frag\<rparr>"
    using assms(2) n f q unfolding urlsplit_def urlsplit_default_def url_clean_authority [OF assms(1)] sch
    by (auto split: if_splits)
  then show ?thesis
    using s partition_on_cover [OF f] partition_on_cover [OF q] by auto
qed

lemma str_strip_no_space: "\<not> list_ex is_space (str_strip s) \<Longrightarrow> str_strip (str_strip s) = str_strip s"
  by (rule strip_no_space)

lemma normalize_server_clean:
  "normalize_proxy_server raw = Inr d \<Longrightarrow> str_strip raw \<noteq> [] \<and> \<not> list_ex is_space (str_strip raw)"
  by (auto simp: normalize_proxy_server_def Let_def split: if_splits)

lemma no_username_no_at: "url_username u = None \<Longrightarrow> CHR ''@'' \<notin> set (url_netloc u)"
  using partition_on_found [of "CHR ''@''" "rev (url_netloc u)"]
  by (auto simp: url_username_def userinfo_of_def rpartition_on_def split: prod.splits if_splits)

lemma no_at_server:
  assumes "normalize_proxy_server raw = Inr d"
  shows "\<exists>server. dict_get d ''server'' = Some server \<and> CHR ''@'' \<notin> set server"
  using assms
proof (cases rule: normalize_server_cases)
  case bare
  then obtain u where "urlsplit (''//'' @ str_strip raw) = Inr u" "url_path u = []" "url_query u = []"
      "url_fragment u = []" "url_username u = None"
    by (cases "urlsplit (''//'' @ str_strip raw)")
      (auto simp: bare_proxy_server_def as_proxy_error_def and_then_Inr split: if_splits)
  then have "CHR ''@'' \<notin> set (str_strip raw)"
    using urlsplit_authority [of "str_strip raw" u] normalize_server_clean [OF assms] no_username_no_at [of u] by auto
  with bare show ?thesis by simp
next
  case (schemed u port host scheme)
  have "CHR ''@'' \<notin> set host"
    using hostname_char [OF schemed(3), of "CHR ''@''"] hostinfo_sets [of u] after_at_sets [of "url_netloc u"]
    by (auto simp: ord_def)
  then have "CHR ''@'' \<notin> set (proxy_netloc host port)"
    using proxy_netloc_char [of "CHR ''@''" host port] by (auto simp: ord_def)
  with schemed show ?thesis by auto
qed

section \<open>Reading a normal form back\<close>

definition proxy_schemes :: "string set" where
  "proxy_schemes = {''http'', ''https'', ''socks4'', ''socks5''}"

definition plain_netloc :: "string \<Rightarrow> bool" where
  "plain_netloc n \<longleftrightarrow> n \<noteq> [] \<and> set n \<inter> set ''/?#[]@'' = {} \<and> \<not> list_ex is_space n"

lemma proxy_scheme_facts:
  assumes "s \<in> proxy_schemes"
  shows "s \<noteq> [] \<and> is_alpha_ascii (hd s) \<and> list_all scheme_char s \<and> str_lower s = s \<and> CHR '':'' \<notin> set s
    \<and> list_all (\<lambda>c. 32 < ord c) s"
proof -
  have "\<forall>s \<in> proxy_schemes. s \<noteq> [] \<and> is_alpha_ascii (hd s) \<and> list_all scheme_char s \<and> str_lower s = s
      \<and> CHR '':'' \<notin> set s \<and> list_all (\<lambda>c. 32 < ord c) s"
    by code_simp
  with assms show ?thesis by blast
qed

lemma urlsplit_scheme_netloc:
  assumes sc: "scheme \<in> proxy_schemes" and n: "plain_netloc n"
  shows "urlsplit (scheme @ ''://'' @ n) =
    Inr \<lparr>url_scheme = scheme, url_netloc = n, url_path = [], url_query = [], url_fragment = []\<rparr>"
proof -
  have nf: "\<forall>c \<in> set n. c \<notin> set ''/?#[]''" "\<forall>c \<in> set n. ord c \<notin> {9, 10, 13}"
  proof -
    have "set n \<inter> set ''/?#[]@'' = {}" using n by (simp only: plain_netloc_def)
    then show "\<forall>c \<in> set n. c \<notin> set ''/?#[]''" by auto
    have "\<forall>c \<in> set n. \<not> is_space c" using n by (simp only: plain_netloc_def list_ex_iff) blast
    then show "\<forall>c \<in> set n. ord c \<notin> {9, 10, 13}" by (fastforce simp: is_space_def Let_def)
  qed
  note sf = proxy_scheme_facts [OF sc]
  have "\<forall>c \<in> set scheme. ord c \<notin> {9, 10, 13}" using sf by (fastforce simp: list_all_iff)
  moreover have "\<forall>c \<in> set ''://''. ord c \<notin> {9, 10, 13}" by (simp add: ord_def)
  ultimately have "filter (\<lambda>c. ord c \<notin> {9, 10, 13}) (scheme @ ''://'' @ n) = scheme @ ''://'' @ n"
    unfolding filter_id_conv set_append using nf(2) by blast
  moreover have "dropWhile (\<lambda>c. ord c \<le> 32) (scheme @ ''://'' @ n) = scheme @ ''://'' @ n"
    using sf by (cases scheme) auto
  ultimately have "url_clean (scheme @ ''://'' @ n) = scheme @ ''://'' @ n" by (simp only: url_clean_def)
  moreover have "split_scheme [] (scheme @ ''://'' @ n) = (scheme, ''//'' @ n)"
    using sf partition_on_append [of "CHR '':''" scheme "''//'' @ n"] by (simp add: split_scheme_def)
  moreover have "split_netloc n = (n, [])"
    using nf by (auto simp: split_netloc_def Let_def takeWhile_eq_all_conv dropWhile_eq_Nil_conv)
  moreover have "netloc_ok n" using nf by (auto simp: netloc_ok_def)
  ultimately show ?thesis by (simp add: urlsplit_def urlsplit_default_def)
qed

lemma plain_after_at: "plain_netloc n \<Longrightarrow> after_at n = n"
  by (auto simp: after_at_def rpartition_on_def plain_netloc_def partition_on_absent)

definition plain_host :: "string \<Rightarrow> bool" where
  "plain_host h \<longleftrightarrow> h \<noteq> [] \<and> set h \<inter> set ''/?#[]@:'' = {} \<and> \<not> list_ex is_space h"

lemma plain_proxy_netloc:
  assumes "plain_host h"
  shows "plain_netloc (proxy_netloc h port)"
proof -
  have h: "bracket_host h = h" "h \<noteq> []" using assms by (auto simp: plain_host_def bracket_host_def)
  have c: "c \<in> set h \<or> c = CHR '':'' \<or> 48 \<le> ord c \<and> ord c \<le> 57" if "c \<in> set (proxy_netloc h port)" for c
    using that h nat_str_chars by (auto simp: proxy_netloc_def split: option.splits)
  have "set (proxy_netloc h port) \<inter> set ''/?#[]@'' = {}"
  proof (rule equals0I)
    fix c assume "c \<in> set (proxy_netloc h port) \<inter> set ''/?#[]@''"
    with c [of c] assms show False by (auto simp: plain_host_def ord_def)
  qed
  moreover have "\<not> list_ex is_space (proxy_netloc h port)"
  proof
    assume "list_ex is_space (proxy_netloc h port)"
    then obtain x where x: "x \<in> set (proxy_netloc h port)" "is_space x" by (auto simp: list_ex_iff)
    have "x \<notin> set h" using assms x(2) by (auto simp: plain_host_def list_ex_iff)
    with c [OF x(1)] x(2) show False by (auto simp: is_space_def Let_def ord_def)
  qed
  moreover have "proxy_netloc h port \<noteq> []" using h by (simp add: proxy_netloc_def split: option.split)
  ultimately show ?thesis by (simp add: plain_netloc_def)
qed

lemma proxy_netloc_hostinfo:
  assumes "plain_host h" and "url_netloc u = proxy_netloc h port"
  shows "hostinfo_of u = (h, case port of None \<Rightarrow> [] | Some p \<Rightarrow> nat_str p)"
proof -
  have n: "plain_netloc (url_netloc u)" using assms plain_proxy_netloc by simp
  then have "partition_on (CHR ''['') (url_netloc u) = (url_netloc u, False, [])"
    by (intro partition_on_absent) (auto simp: plain_netloc_def)
  moreover have "partition_on (CHR '':'') (url_netloc u) =
      (h, port \<noteq> None, case port of None \<Rightarrow> [] | Some p \<Rightarrow> nat_str p)"
    using assms partition_on_append [of "CHR '':''" h] partition_on_absent [of "CHR '':''" h]
    by (auto simp: proxy_netloc_def bracket_host_def plain_host_def split: option.splits)
  ultimately show ?thesis using plain_after_at [OF n] by (simp add: hostinfo_of_def)
qed

text \<open>A host that \<open>url_hostname\<close> gave is a fixed point of the lower-casing it does.\<close>

lemma hostname_again:
  assumes "url_hostname u = Some h" and "fst (hostinfo_of v) = h"
  shows "url_hostname v = Some h"
proof -
  obtain a f z where p: "partition_on (CHR ''%'') (fst (hostinfo_of u)) = (a, f, z)"
    and h: "h = str_lower a @ (if f then ''%'' @ z else [])"
    using hostname_parts [OF assms(1)] by metis
  have "CHR ''%'' \<notin> set (str_lower a)"
    using partition_on_sets [OF p] set_str_lower [of "CHR ''%''" a] by (simp add: ord_def)
  then have "partition_on (CHR ''%'') h = (str_lower a, f, if f then z else [])"
    using h by (simp add: partition_on_append partition_on_absent)
  with h hostname_nonempty [OF assms(1)] assms(2) show ?thesis by (simp add: url_hostname_def)
qed

lemma port_again:
  assumes "url_port u = Inr port" and "snd (hostinfo_of v) = (case port of None \<Rightarrow> [] | Some p \<Rightarrow> nat_str p)"
  shows "url_port v = Inr port"
proof -
  have "p \<le> 65535" if "port = Some p" for p
    using assms(1) that by (auto simp: url_port_def Let_def split: if_splits)
  with assms(2) show ?thesis
    by (cases port) (auto simp: url_port_def is_digit_nat_str digits_value_nat_str)
qed

lemma normalize_server_again:
  assumes d: "normalize_proxy_server raw = Inr d" and nb: "CHR ''['' \<notin> set raw"
    and s: "dict_get d ''server'' = Some server"
  shows "normalize_proxy_server server = Inr [(''server'', server)]"
  using d
proof (cases rule: normalize_server_cases)
  case bare
  have sv: "server = str_strip raw" using bare s by simp
  note clean = normalize_server_clean [OF d]
  have "normalize_proxy_server server = normalize_proxy_server raw"
    using strip_no_space [of server] sv clean by (simp add: normalize_proxy_server_def)
  with d bare sv show ?thesis by simp
next
  case (schemed u port host scheme)
  note clean = normalize_server_clean [OF d]
  have raw: "set (str_strip raw) \<subseteq> set raw"
    by (auto simp: str_strip_def str_lstrip_def str_rstrip_def dest!: set_dropWhileD)
  note net = urlsplit_netloc [OF schemed(1)]
  have free: "CHR ''['' \<notin> set (url_netloc u)" "CHR '']'' \<notin> set (url_netloc u)"
    using net nb raw by (auto simp: netloc_ok_def)
  obtain a f z where p: "partition_on (CHR '':'') (after_at (url_netloc u)) = (a, f, z)" by (metis prod_cases3)
  have "partition_on (CHR ''['') (after_at (url_netloc u)) = (after_at (url_netloc u), False, [])"
    using free after_at_sets(1) [of "url_netloc u"] by (intro partition_on_absent) blast
  with p have "fst (hostinfo_of u) = a" by (simp add: hostinfo_of_def Let_def)
  then have a: "CHR '':'' \<notin> set (fst (hostinfo_of u))" using partition_on_sets [OF p] by simp
  have from_net: "c \<in> set (url_netloc u)" "c \<in> set (after_at (url_netloc u))" "c \<in> set (fst (hostinfo_of u))"
    if "c \<in> set host" "ord c < 65 \<or> 90 < ord c \<and> ord c < 97 \<or> 122 < ord c \<and> ord c < 192" for c
    using hostname_char [OF schemed(3) that] hostinfo_sets [of u] after_at_sets [of "url_netloc u"] by auto
  have "set host \<inter> set ''/?#[]@:'' = {}"
  proof (rule equals0I)
    fix c assume c: "c \<in> set host \<inter> set ''/?#[]@:''"
    then have "ord c < 65 \<or> 90 < ord c \<and> ord c < 97" by (auto simp: ord_def)
    with c from_net [of c] a free net(1) after_at_sets(2) [of "url_netloc u"] show False by auto
  qed
  moreover have "\<not> list_ex is_space host"
  proof
    assume "list_ex is_space host"
    then obtain x where x: "x \<in> set host" "is_space x" by (auto simp: list_ex_iff)
    then have "x \<in> set (str_strip raw)"
      using from_net(1) [OF x(1)] net(3) by (auto simp: is_space_def Let_def)
    with x(2) clean show False by (auto simp: list_ex_iff)
  qed
  ultimately have "plain_host host" using hostname_nonempty [OF schemed(3)] by (simp add: plain_host_def)
  then have pl: "plain_netloc (proxy_netloc host port)" by (rule plain_proxy_netloc)
  let ?v = "\<lparr>url_scheme = scheme, url_netloc = proxy_netloc host port, url_path = [], url_query = [], url_fragment = []\<rparr>"
  have sv: "server = scheme @ ''://'' @ proxy_netloc host port" using schemed s by simp
  have split: "urlsplit server = Inr ?v"
    unfolding sv using schemed pl by (intro urlsplit_scheme_netloc) (auto simp: proxy_schemes_def)
  have hi: "hostinfo_of ?v = (host, case port of None \<Rightarrow> [] | Some p \<Rightarrow> nat_str p)"
    using proxy_netloc_hostinfo [OF \<open>plain_host host\<close>, of ?v] by simp
  have "url_hostname ?v = Some host" "url_port ?v = Inr port"
    using hostname_again [OF schemed(3), of ?v] port_again [OF schemed(2), of ?v] hi by auto
  moreover have "url_username ?v = None" "url_password ?v = None"
    using pl by (auto simp: url_username_def url_password_def userinfo_of_def rpartition_on_def partition_on_absent
        plain_netloc_def)
  moreover have "server \<noteq> []" "\<not> list_ex is_space server"
    using schemed(4) pl sv by (auto simp: plain_netloc_def is_space_def ord_def)
  ultimately show ?thesis
    using split strip_no_space [of server] schemed(4) sv pl
    by (auto simp: normalize_proxy_server_def as_proxy_error_def opt_field_def urlunsplit_def plain_netloc_def
        str_lower_def lower_char_def ord_def)
qed

section \<open>The whole proxy\<close>

definition proxy_ok :: "proxy \<Rightarrow> bool" where
  "proxy_ok p \<longleftrightarrow> (\<exists>u. urlsplit (the (dict_get p ''server'')) = Inr u
     \<and> (str_lower (url_scheme u) = ''socks4'' \<longrightarrow> \<not> nonempty_field p ''username'' \<and> \<not> nonempty_field p ''password'')
     \<and> (str_lower (url_scheme u) = ''socks5'' \<longrightarrow>
          (\<forall>n \<in> {''username'', ''password''}. \<forall>v. dict_get p n = Some v \<longrightarrow> utf8_size v \<le> 255)))"

lemma credential_ok_Inr:
  "socks5_credential_ok q n = Inr y \<longleftrightarrow> (\<forall>v. dict_get q n = Some v \<longrightarrow> utf8_size v \<le> 255)"
  by (auto simp: socks5_credential_ok_def split: option.split)

lemma check_credentials_Inr: "check_proxy_credentials q = Inr x \<longleftrightarrow> x = Some q \<and> proxy_ok q"
  by (cases "urlsplit (the (dict_get q ''server''))")
    (auto simp: check_proxy_credentials_def proxy_ok_def Let_def and_then_Inr credential_ok_Inr)

lemma normalize_proxy_Some:
  "normalize_proxy r (Some d) = Inr (Some p) \<longleftrightarrow>
     (\<exists>s base. (if py_truthy (dget d ''server'') then dget d ''server'' else dget d ''url'') = PyStr s \<and> s \<noteq> []
       \<and> normalize_proxy_server s = Inr base \<and> proxy_ok p
       \<and> p = overlay_field r ''password'' (dget d ''password'') (overlay_field r ''username'' (dget d ''username'') base))"
  (is "?lhs \<longleftrightarrow> ?rhs")
proof -
  let ?v = "if py_truthy (dget d ''server'') then dget d ''server'' else dget d ''url''"
  show ?thesis
  proof (cases ?v)
    case (PyStr s)
    then show ?thesis
      unfolding normalize_proxy_def Let_def by (auto simp: and_then_Inr check_credentials_Inr)
  qed (auto simp: normalize_proxy_def Let_def)
qed

lemma overlay_get [simp]:
  "dict_get (overlay_field r n v d) k = (if k = n \<and> v \<noteq> PyNone then Some (py_str r v) else dict_get d k)"
  by (simp add: overlay_field_def)

lemma proxy_ok_cong:
  assumes "\<forall>k. dict_get p' k = dict_get p k" shows "proxy_ok p' = proxy_ok p"
  using assms by (simp add: proxy_ok_def nonempty_field_def)

lemma base_keys:
  assumes "normalize_proxy_server s = Inr base" and "k \<notin> {''server'', ''username'', ''password''}"
  shows "dict_get base k = None"
proof -
  have of: "dict_get (opt_field n v @ d) k = (if n = k \<and> v \<noteq> None then v else dict_get d k)" for n v d
    by (cases v) (auto simp: opt_field_def)
  have "dict_get (opt_field n v) k = None" if "n \<noteq> k" for n v
    using that by (cases v) (auto simp: opt_field_def)
  with of show ?thesis
    using assms unfolding normalize_proxy_server_def bare_proxy_server_def Let_def
    by (auto simp: and_then_Inr split: if_splits option.splits)
qed

definition as_py :: "proxy \<Rightarrow> py_dict" where
  "as_py p = map (\<lambda>(k, v). (k, PyStr v)) p"

lemma dget_as_py: "dget (as_py p) k = (case dict_get p k of None \<Rightarrow> PyNone | Some v \<Rightarrow> PyStr v)"
  by (induction p k rule: dict_get.induct) (auto simp: dget_def as_py_def)

section \<open>Properties\<close>

text \<open>C23.  A normalised proxy never carries credentials inside its server, uses none at all with SOCKS4, and with
  SOCKS5 keeps each within the 255 bytes of its length octet.\<close>

theorem proxy_credentials_apart:
  assumes "normalize_proxy r (Some d) = Inr (Some p)"
  shows "(\<exists>server. dict_get p ''server'' = Some server \<and> CHR ''@'' \<notin> set server) \<and> proxy_ok p"
proof -
  obtain s base where base: "normalize_proxy_server s = Inr base" and ok: "proxy_ok p"
    and p: "p = overlay_field r ''password'' (dget d ''password'') (overlay_field r ''username'' (dget d ''username'') base)"
    using assms by (auto simp: normalize_proxy_Some)
  show ?thesis using no_at_server [OF base] ok p by simp
qed


lemma loaded_settings_facts:
  assumes "load_settings r linux env = Inr s"
  shows "0 \<le> pool_min_browsers s \<and> pool_min_browsers s \<le> pool_max_browsers s \<and> 0 < pool_max_browsers s
    \<and> 0 < pool_max_contexts_per_browser s
    \<and> 0 \<le> pool_reserved_transient_contexts s
    \<and> pool_reserved_transient_contexts s \<le> pool_max_browsers s * pool_max_contexts_per_browser s
    \<and> 0 < session_ttl_seconds s \<and> session_ttl_minutes s \<le> max_session_ttl_minutes s
    \<and> (\<forall>(name, value) \<in> set (positive_limits s). 0 < value)
    \<and> (nonempty (api_token s) \<or> is_loopback_host (set_host s))"
proof -
  have ff: "first_failed cs = Inr u \<longleftrightarrow> list_all fst cs" for cs u
    by (induction cs rule: first_failed.induct) auto
  obtain u where "validate_settings r s = Inr u"
    using assms by (auto simp: load_settings_def and_then_Inr Let_def)
  then have "list_all fst (settings_checks s)"
    by (auto simp: validate_settings_def and_then_Inr ff)
  then show ?thesis
    by (auto simp: settings_checks_def session_ttl_seconds_def list_all_iff)
qed


section \<open>Examples\<close>

definition demo_url :: string where
  "demo_url = ''socks5h://us%65r:p@EXAMPLE.com:1080/''"

definition demo_proxy :: py_dict where
  "demo_proxy = [(''url'', PyStr demo_url), (''password'', PyStr ''secret'')]"

definition demo_normal :: proxy where
  "demo_normal = [(''server'', ''socks5://example.com:1080''), (''username'', ''user''), (''password'', ''secret'')]"

definition demo_parts :: split_url where
  "demo_parts = \<lparr>url_scheme = ''socks5h'', url_netloc = ''us%65r:p@EXAMPLE.com:1080'', url_path = ''/'',
     url_query = [], url_fragment = []\<rparr>"

lemma demo_unquoted: "unquote ''us%65r'' = ''user''" "unquote ''p'' = ''p''"
  by code_simp+

lemma demo_parts_facts:
  "urlsplit demo_url = Inr demo_parts"
  "url_port demo_parts = Inr (Some 1080)" "url_hostname demo_parts = Some ''example.com''"
  "map_option unquote (url_username demo_parts) = Some ''user''"
  "map_option unquote (url_password demo_parts) = Some ''p''"
  "str_lower (url_scheme demo_parts) = ''socks5h''" "url_netloc demo_parts \<noteq> []"
  "url_path demo_parts = ''/''" "url_query demo_parts = []" "url_fragment demo_parts = []"
  "str_strip demo_url = demo_url" "demo_url \<noteq> []"
  "\<not> list_ex is_space demo_url"
  "urlunsplit \<lparr>url_scheme = ''socks5'', url_netloc = proxy_netloc ''example.com'' (Some 1080), url_path = [],
     url_query = [], url_fragment = []\<rparr> = ''socks5://example.com:1080''"
  by ((simp add: demo_url_def demo_parts_def url_eval text_eval proxy_netloc_def bracket_host_def nat_str_code
      demo_unquoted)+)

lemma demo_normalized: "normalize_proxy (\<lambda>_. []) (Some demo_proxy) = Inr (Some demo_normal)"
proof -
  have "url_scheme demo_parts \<noteq> []" by (simp add: demo_parts_def)
  then have "normalize_proxy_server demo_url =
      Inr [(''server'', ''socks5://example.com:1080''), (''username'', ''user''), (''password'', ''p'')]"
    by (simp add: normalize_proxy_server_def Let_def demo_parts_facts as_proxy_error_def opt_field_def)
  moreover have "check_proxy_credentials demo_normal = Inr (Some demo_normal)"
    by code_simp
  ultimately show ?thesis
    using demo_parts_facts
    by (simp add: normalize_proxy_def demo_proxy_def dget_def overlay_field_def py_str_def demo_normal_def Let_def)
qed

lemma proxy_credentials_apart_witness:
  "CHR ''@'' \<notin> set ''socks5://example.com:1080'' \<and> proxy_ok demo_normal"
  using proxy_credentials_apart [OF demo_normalized] by (simp add: demo_normal_def)


lemma default_settings_load: "\<exists>s. load_settings (\<lambda>_. []) True (\<lambda>_. None) = Inr s"
proof -
  have "is_loopback_host ''127.0.0.1''"
    by (simp add: is_loopback_host_def text_eval address_eval) code_simp
  then have "first_failed (settings_checks (read_settings (\<lambda>_. None) Virtual ''none'')) = Inr ()"
    by (simp add: settings_checks_def read_settings_def positive_limits_def int_env_def env_or_def text_eval)
  then show ?thesis
    by (simp add: load_settings_def headless_env_def challenge_solver_env_def validate_settings_def Let_def)
      (simp add: read_settings_def nonempty_def)
qed


end
