(* ===== verification/Cookie_Policy.thy ===== *)
theory Cookie_Policy
  imports Config
begin

text \<open>
  Public suffixes of cookie domains (\<open>camouflare/cookie_policy.py\<close>), and the code outside the
  repository that the request model relies on.  \<open>idna_label\<close> is \<open>ToASCII\<close> of one non-ASCII label,
  \<open>public_suffix\<close> the lookup of the publicsuffixlist package, \<open>repr_val\<close> the text of JSON values
  that are not strings, booleans, integers or null, and \<open>dump_size\<close> the size of the compact JSON
  dump.
\<close>

record externals =
  idna_label :: "string \<Rightarrow> string option"
  public_suffix :: "string \<Rightarrow> string option"
  repr_val :: "py_val \<Rightarrow> string"
  dump_size :: "py_val \<Rightarrow> nat"

definition is_ascii :: "string \<Rightarrow> bool" where
  "is_ascii s \<longleftrightarrow> list_all (\<lambda>c. ord c < 128) s"

definition idna_ascii_label_ok :: "string \<Rightarrow> bool" where
  "idna_ascii_label_ok l \<longleftrightarrow> l \<noteq> [] \<and> length l < 64"

definition idna_to_ascii :: "externals \<Rightarrow> string \<Rightarrow> string option" where
  "idna_to_ascii x l =
     (if is_ascii l then (if idna_ascii_label_ok l then Some l else None) else idna_label x l)"

text \<open>\<open>s.encode("idna").decode("ascii")\<close>; \<open>None\<close> is its \<open>UnicodeError\<close>.\<close>

definition idna_encode :: "externals \<Rightarrow> string \<Rightarrow> string option" where
  "idna_encode x s =
     (if s = [] then Some []
      else let labels = split_on (CHR ''.'') s in
        if is_ascii s
        then (if list_all idna_ascii_label_ok (butlast labels) \<and> length (last labels) < 64 then Some s else None)
        else let trailing = (last labels = []); named = (if trailing then butlast labels else labels) in
          case all_some (map (idna_to_ascii x) named) of
            None \<Rightarrow> None
          | Some ls \<Rightarrow> Some (join_with ''.'' ls @ (if trailing then ''.'' else [])))"

definition lstrip_dots :: "string \<Rightarrow> string" where
  "lstrip_dots s = dropWhile (\<lambda>c. c = CHR ''.'') s"

definition rstrip_dots :: "string \<Rightarrow> string" where
  "rstrip_dots s = rev (dropWhile (\<lambda>c. c = CHR ''.'') (rev s))"

definition is_public_suffix :: "externals \<Rightarrow> string \<Rightarrow> bool" where
  "is_public_suffix x domain =
     (let normalized = rstrip_dots (lstrip_dots (str_lower (str_strip domain))) in
      if normalized = [] then False
      else if ip_address normalized \<noteq> None then False
      else case idna_encode x normalized of
        None \<Rightarrow> True
      | Some ascii_domain \<Rightarrow> (case public_suffix x ascii_domain of
          None \<Rightarrow> False
        | Some suffix \<Rightarrow> rstrip_dots (str_lower suffix) = ascii_domain))"

end
