(* ===== verification/Models.thy ===== *)
theory Models
  imports Cookie_Policy
begin

text \<open>
  The request and response models (\<open>camouflare/models.py\<close>): the parsed \<open>/v1\<close> request, its field
  validators, the cookie validator, the readers of the target headers, and the envelope.  Parsing of
  JSON types is pydantic's; a record of type \<open>v1_request\<close> is what it hands to the validators.
  Pydantic reports every failing field; a failing field check of its own is a \<open>ValueError\<close> with
  pydantic's error type.
\<close>

section \<open>Python equality and numbers\<close>

text \<open>A finite float or integer as numerator and exponent of two.\<close>

fun py_num :: "py_val \<Rightarrow> (int \<times> int) option" where
  "py_num (PyBool b) = Some (if b then 1 else 0, 0)"
| "py_num (PyInt i) = Some (i, 0)"
| "py_num (PyFloat (Fin m e)) = Some (m, e)"
| "py_num _ = None"

definition same_number :: "int \<times> int \<Rightarrow> int \<times> int \<Rightarrow> bool" where
  "same_number a b = (let k = min (snd a) (snd b) in
     fst a * 2 ^ nat (snd a - k) = fst b * 2 ^ nat (snd b - k))"

text \<open>\<open>a == b\<close>; elements of a container also match by identity, and the decoder makes one NaN.\<close>

function py_eq :: "py_val \<Rightarrow> py_val \<Rightarrow> bool" where
  "py_eq a b = (case (py_num a, py_num b) of
     (Some x, Some y) \<Rightarrow> same_number x y
   | (None, None) \<Rightarrow> (case (a, b) of
        (PyList xs, PyList ys) \<Rightarrow>
           length xs = length ys \<and> (\<forall>p \<in> set (zip xs ys). p = (PyFloat NaN, PyFloat NaN) \<or> py_eq (fst p) (snd p))
      | (PyDict d, PyDict e) \<Rightarrow>
           length d = length e
           \<and> (\<forall>kv \<in> set d. case dict_get e (fst kv) of None \<Rightarrow> False
                | Some w \<Rightarrow> (snd kv, w) = (PyFloat NaN, PyFloat NaN) \<or> py_eq (snd kv) w)
      | (PyFloat f, PyFloat g) \<Rightarrow> f = g \<and> f \<noteq> NaN
      | _ \<Rightarrow> a = b)
   | _ \<Rightarrow> False)"
  by pat_completeness auto
termination
proof (relation "measure (\<lambda>(a, b). size a)"; clarsimp)
  fix xs ys :: "py_val list" and v w
  assume "(v, w) \<in> set (zip xs ys)"
  then have "v \<in> set xs" by (rule set_zip_leftD)
  then show "size v < Suc (size_list size xs)"
    by (simp add: less_Suc_eq_le size_list_estimation')
next
  fix d e :: "(string \<times> py_val) list" and k v w
  assume "(k, v) \<in> set d"
  then show "size v < Suc (size_list (size_prod (\<lambda>_. 0) size) d)"
    by (simp add: less_Suc_eq_le size_list_estimation' [where x = "(k, v)"])
qed

declare py_eq.simps [simp del]

text \<open>\<open>float(i)\<close> of an integer rounds to nearest; from the middle above the largest double on it raises.\<close>

definition float_overflows :: "int \<Rightarrow> bool" where
  "float_overflows i \<longleftrightarrow> abs i \<ge> 2 ^ 1024 - 2 ^ 970"

definition overflow_error :: exn where
  "overflow_error = OtherError ''OverflowError'' ''int too large to convert to float''"

section \<open>The request\<close>

datatype transport = HttpTransport | BrowserTransport
datatype text_encoding = TextEncoding | Base64Encoding

record v1_request =
  cmd :: "string option"
  req_url :: "string option"
  max_timeout :: int
  req_proxy :: "py_dict option"
  req_session :: "string option"
  req_ttl_minutes :: "int option"
  req_cookies :: "py_dict list option"
  return_only_cookies :: bool
  return_screenshot :: bool
  wait_in_seconds :: "int option"
  disable_media :: "bool option"
  post_data :: "string option"
  tabs_till_verify :: "int option"
  req_headers :: "py_dict option"
  req_user_agent :: "string option"
  download :: "bool option"
  return_raw_html :: "bool option"
  req_transport :: "transport option"
  req_response_encoding :: "text_encoding option"
  max_response_bytes :: "int option"
  follow_redirects :: "int option"

definition empty_request :: v1_request where
  "empty_request = \<lparr>cmd = None, req_url = None, max_timeout = 60000, req_proxy = None, req_session = None,
     req_ttl_minutes = None, req_cookies = None, return_only_cookies = False, return_screenshot = False,
     wait_in_seconds = None, disable_media = None, post_data = None, tabs_till_verify = None,
     req_headers = None, req_user_agent = None, download = None, return_raw_html = None,
     req_transport = None, req_response_encoding = None, max_response_bytes = None, follow_redirects = None\<rparr>"

section \<open>URLs and header text\<close>

definition has_control :: "string \<Rightarrow> bool" where
  "has_control s \<longleftrightarrow> list_ex (\<lambda>c. ord c < 32 \<or> ord c = 127) s"

definition parameter_url_error :: "string \<Rightarrow> exn" where
  "parameter_url_error parameter =
     ValueError (''Request parameter '' @ [CHR 0x27] @ parameter @ [CHR 0x27]
       @ '' must be a valid absolute http or https URL.'')"

text \<open>What an absolute http(s) URL must pass, here and in the HTTP transport's \<open>clean_url\<close>.\<close>

definition http_hostname_ok :: "split_url \<Rightarrow> bool" where
  "http_hostname_ok u \<longleftrightarrow> (case url_hostname u of None \<Rightarrow> False | Some h \<Rightarrow> \<not> list_ex is_space h)"

definition validate_absolute_http_url :: "string \<Rightarrow> string \<Rightarrow> exn + unit" where
  "validate_absolute_http_url parameter value =
     (if has_control value then Inl (parameter_url_error parameter)
      else case urlsplit value of
        Inl _ \<Rightarrow> Inl (parameter_url_error parameter)
      | Inr parsed \<Rightarrow> (case url_port parsed of
          Inl _ \<Rightarrow> Inl (parameter_url_error parameter)
        | Inr _ \<Rightarrow>
            if str_lower (url_scheme parsed) \<notin> {''http'', ''https''} \<or> \<not> http_hostname_ok parsed
            then Inl (parameter_url_error parameter) else Inr ()))"

definition unquote_marks :: "string \<Rightarrow> string" where
  "unquote_marks url = str_strip (filter (\<lambda>c. c \<noteq> CHR 0x22) url)"

definition has_forbidden_header_control :: "string \<Rightarrow> bool" where
  "has_forbidden_header_control s \<longleftrightarrow> list_ex (\<lambda>c. ord c < 32 \<and> ord c \<noteq> 9 \<or> ord c = 127) s"

definition token_char :: "char \<Rightarrow> bool" where
  "token_char c \<longleftrightarrow> is_alnum_ascii c \<or> c \<in> set (''!#$%&*+-.^_`|~'' @ [CHR 0x27])"

definition is_token :: "string \<Rightarrow> bool" where
  "is_token s \<longleftrightarrow> s \<noteq> [] \<and> list_all token_char s"

definition is_cookie_value :: "string \<Rightarrow> bool" where
  "is_cookie_value s \<longleftrightarrow> list_all (\<lambda>c. 32 \<le> ord c \<and> ord c \<le> 126 \<and> c \<noteq> CHR '';'') s"

section \<open>Cookies\<close>

definition cookie_fields :: "string set" where
  "cookie_fields = {''name'', ''value'', ''url'', ''domain'', ''path'', ''expires'', ''expiry'', ''httpOnly'', ''secure'',
     ''sameSite'', ''partitionKey''}"

definition cookie_error :: "nat \<Rightarrow> string \<Rightarrow> exn" where
  "cookie_error index rest =
     ValueError (''Request parameter '' @ [CHR 0x27] @ ''cookies['' @ nat_str index @ '']'' @ rest)"

definition cookie_field_error :: "nat \<Rightarrow> string \<Rightarrow> exn" where
  "cookie_field_error index field = cookie_error index (''.'' @ field @ [CHR 0x27] @ '' is invalid.'')"

definition casefold_char :: "char \<Rightarrow> string" where
  "casefold_char c = (if ord c = 223 then ''ss'' else if ord c = 181 then ''?'' else [lower_char c])"

definition str_casefold :: "string \<Rightarrow> string" where
  "str_casefold s = concat (map casefold_char s)"

definition canonical_same_site_name :: "string \<Rightarrow> string option" where
  "canonical_same_site_name s =
     dict_get [(''strict'', ''Strict''), (''lax'', ''Lax''), (''none'', ''None'')] (str_casefold s)"

definition valid_label :: "string \<Rightarrow> bool" where
  "valid_label l \<longleftrightarrow> l \<noteq> [] \<and> length l \<le> 63 \<and> is_alnum_ascii (hd l) \<and> is_alnum_ascii (last l)
     \<and> list_all (\<lambda>c. is_alnum_ascii c \<or> c = CHR ''-'') l"

definition valid_cookie_domain :: "externals \<Rightarrow> string \<Rightarrow> bool" where
  "valid_cookie_domain x domain =
     (if domain = [] \<or> starts_with ''..'' domain \<or> ends_with ''.'' domain \<or> list_ex is_space domain
         \<or> list_ex (\<lambda>c. c \<in> set ''/@?#:'') domain
      then False
      else let host = lstrip_dots domain in
        if ip_address host \<noteq> None then True
        else case idna_encode x host of
          None \<Rightarrow> False
        | Some ascii_host \<Rightarrow> length ascii_host \<le> 253 \<and> list_all valid_label (split_on (CHR ''.'') ascii_host))"

text \<open>The known fields, with \<open>expiry\<close> renamed to \<open>expires\<close>.\<close>

definition rename_expiry :: "nat \<Rightarrow> py_dict \<Rightarrow> exn + py_dict" where
  "rename_expiry index d = (case dict_get d ''expiry'' of
     None \<Rightarrow> Inr d
   | Some expiry \<Rightarrow>
       if (case dict_get d ''expires'' of None \<Rightarrow> False | Some e \<Rightarrow> \<not> py_eq e expiry)
       then Inl (cookie_error index ([CHR 0x27] @ '' cannot contain conflicting '' @ [CHR 0x27] @ ''expiry''
              @ [CHR 0x27] @ '' and '' @ [CHR 0x27] @ ''expires'' @ [CHR 0x27] @ '' values.''))
       else Inr (dict_set ''expires'' expiry (dict_del ''expiry'' d)))"

definition canonical_same_site :: "nat \<Rightarrow> py_dict \<Rightarrow> exn + py_dict" where
  "canonical_same_site index d = (case dict_get d ''sameSite'' of
     None \<Rightarrow> Inr d
   | Some (PyStr s) \<Rightarrow> (case canonical_same_site_name s of
         None \<Rightarrow> Inl (cookie_field_error index ''sameSite'')
       | Some v \<Rightarrow> Inr (dict_set ''sameSite'' (PyStr v) d))
   | Some _ \<Rightarrow> Inl (cookie_field_error index ''sameSite''))"

text \<open>The scope: a URL, a domain or the target; afterwards \<open>url\<close> says whether the cookie has a URL.\<close>

definition cookie_scope :: "externals \<Rightarrow> nat \<Rightarrow> string option \<Rightarrow> py_dict \<Rightarrow> exn + py_dict" where
  "cookie_scope x index target d =
     (let url = dget d ''url''; domain = dget d ''domain'' in
      if url \<noteq> PyNone \<and> domain \<noteq> PyNone
      then Inl (cookie_error index ([CHR 0x27] @ '' cannot include both '' @ [CHR 0x27] @ ''url'' @ [CHR 0x27] @ '' and ''
             @ [CHR 0x27] @ ''domain'' @ [CHR 0x27] @ ''.''))
      else if url \<noteq> PyNone
      then (case url of
          PyStr s \<Rightarrow> and_then (validate_absolute_http_url (''cookies['' @ nat_str index @ ''].url'') s) (\<lambda>_. Inr d)
        | _ \<Rightarrow> Inl (cookie_field_error index ''url''))
      else if domain \<noteq> PyNone
      then (case domain of
          PyStr s \<Rightarrow>
            if \<not> valid_cookie_domain x s then Inl (cookie_field_error index ''domain'')
            else if is_public_suffix x s
            then Inl (cookie_error index (''.domain'' @ [CHR 0x27] @ '' cannot be a public suffix.''))
            else Inr d
        | _ \<Rightarrow> Inl (cookie_field_error index ''domain''))
      else if nonempty target
      then Inr (dict_set ''url'' (PyStr (unquote_marks (the target))) d)
      else Inl (cookie_error index ([CHR 0x27] @ '' must include either '' @ [CHR 0x27] @ ''url'' @ [CHR 0x27] @ '' or ''
             @ [CHR 0x27] @ ''domain'' @ [CHR 0x27] @ '' when no target URL is available.'')))"

definition drop_nulls :: "py_dict \<Rightarrow> py_dict" where
  "drop_nulls d = filter (\<lambda>(k, v). v \<noteq> PyNone) d"

definition cookie_path :: "nat \<Rightarrow> py_dict \<Rightarrow> exn + py_dict" where
  "cookie_path index d =
     (if dget d ''domain'' \<noteq> PyNone \<or> dict_has ''path'' d
      then (case (case dict_get d ''path'' of None \<Rightarrow> PyStr ''/'' | Some p \<Rightarrow> p) of
          PyStr p \<Rightarrow> if \<not> starts_with ''/'' p \<or> has_control p then Inl (cookie_field_error index ''path'')
                    else Inr (dict_set ''path'' (PyStr p) (drop_nulls d))
        | _ \<Rightarrow> Inl (cookie_field_error index ''path''))
      else Inr (drop_nulls d))"

definition is_py_bool :: "py_val \<Rightarrow> bool" where
  "is_py_bool v = (case v of PyBool _ \<Rightarrow> True | _ \<Rightarrow> False)"

definition cookie_flag :: "nat \<Rightarrow> py_dict \<Rightarrow> string \<Rightarrow> exn + unit" where
  "cookie_flag index d field = (case dict_get d field of None \<Rightarrow> Inr ()
     | Some v \<Rightarrow> if is_py_bool v then Inr () else Inl (cookie_field_error index field))"

definition cookie_expires :: "nat \<Rightarrow> py_dict \<Rightarrow> exn + unit" where
  "cookie_expires index d = (case dict_get d ''expires'' of
     None \<Rightarrow> Inr ()
   | Some (PyInt i) \<Rightarrow> if float_overflows i then Inl overflow_error else Inr ()
   | Some (PyFloat (Fin m e)) \<Rightarrow> Inr ()
   | Some _ \<Rightarrow> Inl (cookie_field_error index ''expires''))"

definition is_secure :: "py_dict \<Rightarrow> bool" where
  "is_secure d \<longleftrightarrow> py_truthy (dget d ''secure'')"

definition cookie_partition :: "nat \<Rightarrow> py_dict \<Rightarrow> exn + unit" where
  "cookie_partition index d = (case dict_get d ''partitionKey'' of
     None \<Rightarrow> Inr ()
   | Some (PyStr s) \<Rightarrow>
       and_then (validate_absolute_http_url (''cookies['' @ nat_str index @ ''].partitionKey'') s) (\<lambda>_.
         if is_secure d then Inr ()
         else Inl (cookie_error index (''.partitionKey'' @ [CHR 0x27] @ '' requires '' @ [CHR 0x27] @ ''secure''
                @ [CHR 0x27] @ '' to be true.'')))
   | Some _ \<Rightarrow> Inl (cookie_field_error index ''partitionKey''))"

text \<open>\<open>d\<close> is \<open>normalized_input\<close>, \<open>n\<close> is \<open>normalized\<close>.\<close>

definition cookie_prefix :: "nat \<Rightarrow> string \<Rightarrow> py_dict \<Rightarrow> py_dict \<Rightarrow> exn + unit" where
  "cookie_prefix index name d n =
     (if dget d ''sameSite'' = PyStr ''None'' \<and> \<not> is_secure d
      then Inl (cookie_error index (''.sameSite'' @ [CHR 0x27] @ '' = '' @ [CHR 0x27] @ ''None'' @ [CHR 0x27] @ '' requires ''
             @ [CHR 0x27] @ ''secure'' @ [CHR 0x27] @ '' to be true.''))
      else if starts_with ''__Secure-'' name \<and> \<not> is_secure d
      then Inl (cookie_error index ([CHR 0x27] @ '' uses the __Secure- prefix without '' @ [CHR 0x27] @ ''secure''
             @ [CHR 0x27] @ ''.''))
      else if starts_with ''__Host-'' name
              \<and> (\<not> is_secure d \<or> dget d ''url'' = PyNone
                 \<or> (case dict_get n ''path'' of None \<Rightarrow> False | Some p \<Rightarrow> p \<noteq> PyStr ''/''))
      then Inl (cookie_error index ([CHR 0x27] @ '' has invalid __Host- cookie scope.''))
      else Inr ())"

definition validate_cookie :: "externals \<Rightarrow> nat \<Rightarrow> string option \<Rightarrow> py_dict \<Rightarrow> exn + py_dict" where
  "validate_cookie x index target cookie = (case (dget cookie ''name'', dget cookie ''value'') of
     (PyStr name, value) \<Rightarrow>
       if \<not> is_token name then Inl (cookie_field_error index ''name'')
       else if (case value of PyStr v \<Rightarrow> \<not> is_cookie_value v | _ \<Rightarrow> True) then Inl (cookie_field_error index ''value'')
       else
         and_then (rename_expiry index (filter (\<lambda>(k, v). k \<in> cookie_fields) cookie)) (\<lambda>d.
         and_then (canonical_same_site index d) (\<lambda>d.
         and_then (cookie_scope x index target d) (\<lambda>d.
         and_then (cookie_path index d) (\<lambda>n.
         and_then (cookie_flag index d ''secure'') (\<lambda>_.
         and_then (cookie_flag index d ''httpOnly'') (\<lambda>_.
         and_then (cookie_expires index d) (\<lambda>_.
         and_then (cookie_partition index d) (\<lambda>_.
         and_then (cookie_prefix index name d n) (\<lambda>_. Inr n)))))))))
   | _ \<Rightarrow> Inl (cookie_field_error index ''name''))"

section \<open>Validating a request\<close>

definition q :: "string \<Rightarrow> string" where
  "q s = [CHR 0x27] @ s @ [CHR 0x27]"

definition validate_target_url :: "string option \<Rightarrow> exn + unit" where
  "validate_target_url value = (if nonempty value
     then validate_absolute_http_url ''url'' (unquote_marks (the value)) else Inr ())"

text \<open>A \<open>CamouflareError\<close> of the normaliser becomes the \<open>ValueError\<close> that pydantic reports.\<close>

definition validate_proxy :: "externals \<Rightarrow> py_dict option \<Rightarrow> exn + unit" where
  "validate_proxy x value = (case value of None \<Rightarrow> Inr ()
     | Some d \<Rightarrow> (case normalize_proxy (repr_val x) (Some d) of
         Inl (CamouflareError e) \<Rightarrow> Inl (ValueError (err_message e))
       | Inl e \<Rightarrow> Inl e
       | Inr None \<Rightarrow> Inl (ValueError (''Request parameter '' @ q ''proxy'' @ '' must include a server.''))
       | Inr (Some _) \<Rightarrow> Inr ()))"

fun validate_header_items :: "externals \<Rightarrow> py_dict \<Rightarrow> exn + unit" where
  "validate_header_items x [] = Inr ()"
| "validate_header_items x ((name, raw) # items) =
     (if \<not> is_token name
      then Inl (ValueError (''Request parameter '' @ q ''headers'' @ '' contains invalid name '' @ q name @ ''.''))
      else if raw \<noteq> PyNone \<and> has_forbidden_header_control (py_str (repr_val x) raw)
      then Inl (ValueError (''Request parameter '' @ q (''headers['' @ name @ '']'') @ '' contains invalid control characters.''))
      else validate_header_items x items)"

definition validate_target_headers :: "externals \<Rightarrow> py_dict option \<Rightarrow> exn + unit" where
  "validate_target_headers x value = (case value of None \<Rightarrow> Inr () | Some d \<Rightarrow> validate_header_items x d)"

definition validate_user_agent :: "string option \<Rightarrow> exn + unit" where
  "validate_user_agent value = (case value of None \<Rightarrow> Inr ()
     | Some v \<Rightarrow> if has_forbidden_header_control v
         then Inl (ValueError (''Request parameter '' @ q ''userAgent'' @ '' contains invalid control characters.''))
         else Inr ())"

text \<open>Pydantic's own constraint of a field, then its validator.\<close>

definition field_rule :: "string \<Rightarrow> bool \<Rightarrow> string \<Rightarrow> exn + unit \<Rightarrow> (string \<times> exn) list" where
  "field_rule name ok kind after =
     (if \<not> ok then [(name, ValueError kind)] else case after of Inl e \<Rightarrow> [(name, e)] | Inr _ \<Rightarrow> [])"

definition opt_ok :: "('a \<Rightarrow> bool) \<Rightarrow> 'a option \<Rightarrow> bool" where
  "opt_ok p v = (case v of None \<Rightarrow> True | Some y \<Rightarrow> p y)"

definition field_errors :: "externals \<Rightarrow> v1_request \<Rightarrow> (string \<times> exn) list" where
  "field_errors x r = concat
     [field_rule ''url'' (opt_ok (\<lambda>s. length s \<le> MAX_URL_LENGTH) (req_url r)) ''string_too_long'' (validate_target_url (req_url r)),
      field_rule ''maxTimeout'' (0 < max_timeout r) ''greater_than'' (Inr ()),
      field_rule ''proxy'' True [] (validate_proxy x (req_proxy r)),
      field_rule ''session'' (opt_ok (\<lambda>s. length s \<le> MAX_SESSION_ID_LENGTH) (req_session r)) ''string_too_long'' (Inr ()),
      field_rule ''session_ttl_minutes'' (opt_ok (\<lambda>n. 0 < n) (req_ttl_minutes r)) ''greater_than'' (Inr ()),
      field_rule ''cookies'' (opt_ok (\<lambda>cs. length cs \<le> MAX_COOKIES) (req_cookies r)) ''too_long'' (Inr ()),
      field_rule ''waitInSeconds'' (opt_ok (\<lambda>n. 0 \<le> n) (wait_in_seconds r)) ''greater_than_equal'' (Inr ()),
      field_rule ''headers'' (opt_ok (\<lambda>d. length d \<le> MAX_TARGET_HEADERS) (req_headers r)) ''too_long''
        (validate_target_headers x (req_headers r)),
      field_rule ''userAgent'' True [] (validate_user_agent (req_user_agent r)),
      field_rule ''maxResponseBytes'' (opt_ok (\<lambda>n. 0 < n) (max_response_bytes r)) ''greater_than'' (Inr ()),
      field_rule ''followRedirects'' (opt_ok (\<lambda>n. 0 \<le> n) (follow_redirects r)) ''greater_than_equal'' (Inr ()),
      field_rule ''followRedirects'' (opt_ok (\<lambda>n. n \<le> int MAX_HTTP_REDIRECTS) (follow_redirects r)) ''less_than_equal'' (Inr ())]"

fun validate_cookies :: "externals \<Rightarrow> string option \<Rightarrow> nat \<Rightarrow> py_dict list \<Rightarrow> exn + py_dict list" where
  "validate_cookies x target index [] = Inr []"
| "validate_cookies x target index (c # cs) =
     and_then (validate_cookie x index target c) (\<lambda>c'.
     and_then (validate_cookies x target (Suc index) cs) (\<lambda>cs'. Inr (c' # cs')))"

definition size_limit_error :: "string \<Rightarrow> nat \<Rightarrow> string \<Rightarrow> exn" where
  "size_limit_error field maximum rest =
     ValueError (''Request parameter '' @ q field @ '' exceeds the '' @ nat_str maximum @ ''-byte limit'' @ rest)"

definition validate_structural_sizes :: "externals \<Rightarrow> v1_request \<Rightarrow> exn + v1_request" where
  "validate_structural_sizes x r =
     (if opt_ok (\<lambda>h. dump_size x (PyDict h) \<le> MAX_TARGET_HEADER_BYTES) (req_headers r)
      then case req_cookies r of
          None \<Rightarrow> Inr r
        | Some cs \<Rightarrow>
            if dump_size x (PyList (map PyDict cs)) > MAX_COOKIE_BYTES
            then Inl (size_limit_error ''cookies'' MAX_COOKIE_BYTES ''.'')
            else and_then (validate_cookies x (req_url r) 0 cs) (\<lambda>normalized.
              if dump_size x (PyList (map PyDict normalized)) > MAX_COOKIE_BYTES
              then Inl (size_limit_error ''cookies'' MAX_COOKIE_BYTES '' after applying target URL cookie scope.'')
              else Inr (r\<lparr>req_cookies := Some normalized\<rparr>))
      else Inl (size_limit_error ''headers'' MAX_TARGET_HEADER_BYTES ''.''))"

text \<open>Pydantic turns a \<open>ValueError\<close> into its \<open>ValidationError\<close>; any other exception leaves it.\<close>

datatype invalid_payload = ValidationError "(string \<times> exn) list" | Escaped exn

definition model_validate :: "externals \<Rightarrow> v1_request \<Rightarrow> invalid_payload + v1_request" where
  "model_validate x r =
     (if field_errors x r \<noteq> [] then Inl (ValidationError (field_errors x r))
      else case validate_structural_sizes x r of
        Inl (ValueError m) \<Rightarrow> Inl (ValidationError [([], ValueError m)])
      | Inl e \<Rightarrow> Inl (Escaped e)
      | Inr r' \<Rightarrow> Inr r')"

section \<open>The target's headers\<close>

definition target_headers :: "externals \<Rightarrow> v1_request \<Rightarrow> (string \<times> string) list" where
  "target_headers x r = (case req_headers r of None \<Rightarrow> []
     | Some h \<Rightarrow> map (\<lambda>(n, v). (n, py_str (repr_val x) v))
         (filter (\<lambda>(n, v). v \<noteq> PyNone \<and> str_lower n \<notin> {''referer'', ''referrer'', ''user-agent''}) h))"

definition first_header :: "externals \<Rightarrow> string set \<Rightarrow> py_dict \<Rightarrow> string option" where
  "first_header x names h = (case filter (\<lambda>(n, v). str_lower n \<in> names \<and> v \<noteq> PyNone) h of
     [] \<Rightarrow> None | (n, v) # _ \<Rightarrow> Some (py_str (repr_val x) v))"

definition target_referer :: "externals \<Rightarrow> v1_request \<Rightarrow> string option" where
  "target_referer x r = (case req_headers r of None \<Rightarrow> None
     | Some h \<Rightarrow> first_header x {''referer'', ''referrer''} h)"

definition target_user_agent :: "externals \<Rightarrow> v1_request \<Rightarrow> string option" where
  "target_user_agent x r =
     (if nonempty (req_user_agent r) then req_user_agent r
      else case req_headers r of None \<Rightarrow> None | Some h \<Rightarrow> first_header x {''user-agent''} h)"

section \<open>The envelope\<close>

record v1_response =
  resp_status :: string
  resp_message :: string
  resp_solution :: "solution option"
  resp_session :: "string option"
  resp_sessions :: "string list option"
  resp_error_code :: "v1_error_code option"
  resp_retryable :: "bool option"
  resp_outcome_unknown :: "bool option"
  resp_fallback_used :: "bool option"
  start_timestamp :: int
  end_timestamp :: int
  resp_version :: string

definition ok_response :: "int \<Rightarrow> string \<Rightarrow> v1_response" where
  "ok_response now version = \<lparr>resp_status = ''ok'', resp_message = [], resp_solution = None, resp_session = None,
     resp_sessions = None, resp_error_code = None, resp_retryable = None, resp_outcome_unknown = None,
     resp_fallback_used = None, start_timestamp = now, end_timestamp = now, resp_version = version\<rparr>"

definition error_response ::
    "int \<Rightarrow> string \<Rightarrow> string \<Rightarrow> int option \<Rightarrow> v1_error_code option \<Rightarrow> bool option \<Rightarrow> bool option \<Rightarrow> bool option
     \<Rightarrow> solution option \<Rightarrow> v1_response" where
  "error_response now message version started code retry outcome_unknown fallback sol =
     \<lparr>resp_status = ''error'', resp_message = message, resp_solution = sol, resp_session = None,
      resp_sessions = None, resp_error_code = code, resp_retryable = retry, resp_outcome_unknown = outcome_unknown,
      resp_fallback_used = fallback,
      start_timestamp = (case started of None \<Rightarrow> now | Some t \<Rightarrow> if t = 0 then now else t),
      end_timestamp = now, resp_version = version\<rparr>"

end
