(* ===== verification/Model_Properties.thy ===== *)
theory Model_Properties
  imports Models
begin

text \<open>
  What the cookie validator accepts, and that accepting is stable: a cookie that was normalised is
  accepted again as it is.
\<close>

section \<open>Dictionaries through the validator\<close>

lemma dict_set_same: "dict_get d k = Some v \<Longrightarrow> dict_set k v d = d"
  by (induction d k rule: dict_get.induct) (auto split: if_splits)

lemma dict_get_filter_keys:
  "dict_get (filter (\<lambda>(k, v). P k) d) k = (if P k then dict_get d k else None)"
  by (induction d) auto

lemma distinct_filter_fst: "distinct (map fst d) \<Longrightarrow> distinct (map fst (filter p d))"
  by (induction d) auto

lemma dict_get_drop_nulls:
  "distinct (map fst d) \<Longrightarrow> dict_get (drop_nulls d) k = (if dget d k = PyNone then None else dict_get d k)"
proof (induction d k rule: dict_get.induct)
  case (2 k' v d k)
  have "dict_get d k' = None" using 2(2) by (simp add: dict_get_None dict_has_def)
  moreover from this have "dict_get (drop_nulls d) k' = None"
    by (force simp: dict_get_None dict_has_def drop_nulls_def)
  ultimately show ?case using 2 by (auto simp: drop_nulls_def dget_def)
qed (simp add: drop_nulls_def dget_def)

lemma drop_nulls_id: "(\<forall>k. dict_get d k \<noteq> Some PyNone) \<Longrightarrow> distinct (map fst d) \<Longrightarrow> drop_nulls d = d"
  unfolding drop_nulls_def filter_id_conv using dict_get_distinct [of d] by fastforce

section \<open>The stages\<close>

lemma rename_facts:
  assumes "rename_expiry i d = Inr d'" and "distinct (map fst d)"
  shows "distinct (map fst d') \<and> dict_get d' ''expiry'' = None
    \<and> (\<forall>k. k \<noteq> ''expires'' \<and> k \<noteq> ''expiry'' \<longrightarrow> dict_get d' k = dict_get d k)"
  using assms
  by (auto simp: rename_expiry_def distinct_dict_set distinct_dict_del split: option.splits if_splits)

lemma same_site_facts:
  assumes "canonical_same_site i d = Inr d'" and "distinct (map fst d)"
  shows "distinct (map fst d')
    \<and> (\<forall>k. k \<noteq> ''sameSite'' \<longrightarrow> dict_get d' k = dict_get d k)
    \<and> (dict_get d' ''sameSite'' = None \<or>
       (\<exists>s \<in> {''Strict'', ''Lax'', ''None''}. dict_get d' ''sameSite'' = Some (PyStr s)))"
  using assms
  by (auto simp: canonical_same_site_def canonical_same_site_name_def distinct_dict_set
      split: option.splits py_val.splits if_splits)

text \<open>One scope and only one: a URL, or a domain that is neither malformed nor a public suffix.\<close>

definition scope_ok :: "externals \<Rightarrow> py_dict \<Rightarrow> bool" where
  "scope_ok x d \<longleftrightarrow>
     (\<exists>u. dget d ''url'' = PyStr u \<and> dget d ''domain'' = PyNone)
     \<or> (\<exists>s. dget d ''domain'' = PyStr s \<and> dget d ''url'' = PyNone \<and> valid_cookie_domain x s \<and> \<not> is_public_suffix x s)"

lemma scope_facts:
  assumes "cookie_scope x i t d = Inr d'" and "distinct (map fst d)"
  shows "distinct (map fst d')
    \<and> (\<forall>k. k \<noteq> ''url'' \<longrightarrow> dict_get d' k = dict_get d k) \<and> scope_ok x d'"
proof (cases "dget d ''url'' = PyNone \<and> dget d ''domain'' = PyNone")
  case True
  with assms have "d' = dict_set ''url'' (PyStr (unquote_marks (the t))) d"
    by (auto simp: cookie_scope_def Let_def split: if_splits)
  with True assms(2) show ?thesis
    by (auto simp: distinct_dict_set scope_ok_def dget_def)
next
  case False
  with assms show ?thesis
    by (auto simp: cookie_scope_def Let_def scope_ok_def and_then_Inr split: if_splits py_val.splits)
qed

lemma validate_url_any_parameter:
  "validate_absolute_http_url p s = Inr u \<Longrightarrow> validate_absolute_http_url p' s = Inr u"
  by (auto simp: validate_absolute_http_url_def split: sum.splits if_splits)

lemma scope_again:
  assumes "scope_ok x d" and "\<forall>u. dget d ''url'' = PyStr u \<longrightarrow> validate_absolute_http_url [] u = Inr ()"
  shows "cookie_scope x i t d = Inr d"
proof (cases "dget d ''url'' = PyNone")
  case True
  with assms(1) show ?thesis by (auto simp: scope_ok_def cookie_scope_def)
next
  case False
  with assms(1) obtain u where u: "dget d ''url'' = PyStr u" "dget d ''domain'' = PyNone" by (auto simp: scope_ok_def)
  have "validate_absolute_http_url p u = Inr ()" for p
    using assms(2) u(1) validate_url_any_parameter [of "[]" u "()" p] by simp
  with u show ?thesis by (simp add: cookie_scope_def)
qed

lemma path_facts:
  assumes "cookie_path i d = Inr n" and "distinct (map fst d)"
  shows "distinct (map fst n)
    \<and> (\<forall>k. k \<noteq> ''path'' \<longrightarrow> dict_get n k = (if dget d k = PyNone then None else dict_get d k))
    \<and> (case dict_get n ''path'' of None \<Rightarrow> dget d ''domain'' = PyNone
        | Some p \<Rightarrow> \<exists>s. p = PyStr s \<and> starts_with ''/'' s \<and> \<not> has_control s)"
proof -
  have nulls: "distinct (map fst (drop_nulls d))"
    using assms(2) by (simp add: drop_nulls_def distinct_filter_fst)
  note get = dict_get_drop_nulls [OF assms(2)]
  show ?thesis
  proof (cases "dget d ''domain'' \<noteq> PyNone \<or> dict_has ''path'' d")
    case True
    then obtain s where "n = dict_set ''path'' (PyStr s) (drop_nulls d)" "starts_with ''/'' s" "\<not> has_control s"
      using assms(1) by (auto simp: cookie_path_def split: if_splits option.splits py_val.splits)
    with nulls get show ?thesis by (simp add: distinct_dict_set)
  next
    case False
    then have "n = drop_nulls d" "dict_get d ''path'' = None"
      using assms(1) by (auto simp: cookie_path_def dict_get_None)
    with nulls get False show ?thesis by (auto simp: dget_def)
  qed
qed

lemma path_again:
  assumes "distinct (map fst n)" and "\<forall>k. dict_get n k \<noteq> Some PyNone"
    and "case dict_get n ''path'' of None \<Rightarrow> dget n ''domain'' = PyNone
        | Some p \<Rightarrow> \<exists>s. p = PyStr s \<and> starts_with ''/'' s \<and> \<not> has_control s"
  shows "cookie_path i n = Inr n"
proof (cases "dict_get n ''path''")
  case None
  then show ?thesis
    using assms(3) drop_nulls_id [OF assms(2,1)] dict_get_None [THEN iffD1, OF None] by (simp add: cookie_path_def)
next
  case (Some p)
  then show ?thesis
    using assms(3) drop_nulls_id [OF assms(2,1)] dict_set_same [OF Some] dict_get_Some_has [OF Some]
    by (auto simp: cookie_path_def)
qed

section \<open>The validator as a whole\<close>

text \<open>The stages of an accepted cookie.\<close>

lemma validate_cookie_stages:
  assumes "validate_cookie x i t c = Inr n"
  obtains name v d1 d2 d where "dget c ''name'' = PyStr name" "is_token name" "dget c ''value'' = PyStr v" "is_cookie_value v"
    "rename_expiry i (filter (\<lambda>(k, v). k \<in> cookie_fields) c) = Inr d1" "canonical_same_site i d1 = Inr d2"
    "cookie_scope x i t d2 = Inr d" "cookie_path i d = Inr n" "cookie_flag i d ''secure'' = Inr ()"
    "cookie_flag i d ''httpOnly'' = Inr ()" "cookie_expires i d = Inr ()" "cookie_partition i d = Inr ()"
    "cookie_prefix i name d n = Inr ()"
  using assms unfolding validate_cookie_def prod.case
  by (cases "dget c ''name''"; simp split: if_splits py_val.splits) (auto simp: and_then_Inr)

text \<open>What the later checks establish about the fields they read.\<close>

definition fields_ok :: "string \<Rightarrow> py_dict \<Rightarrow> bool" where
  "fields_ok name d \<longleftrightarrow>
     (\<forall>f \<in> {''secure'', ''httpOnly''}. \<forall>v. dict_get d f = Some v \<longrightarrow> is_py_bool v)
     \<and> (\<forall>v. dict_get d ''expires'' = Some v \<longrightarrow> (\<exists>k. v = PyInt k \<and> \<not> float_overflows k) \<or> (\<exists>m e. v = PyFloat (Fin m e)))
     \<and> (\<forall>v. dict_get d ''partitionKey'' = Some v \<longrightarrow>
          is_secure d \<and> (\<exists>s. v = PyStr s \<and> validate_absolute_http_url [] s = Inr ()))
     \<and> (dget d ''sameSite'' = PyStr ''None'' \<longrightarrow> is_secure d)
     \<and> (starts_with ''__Secure-'' name \<longrightarrow> is_secure d)
     \<and> (starts_with ''__Host-'' name \<longrightarrow> is_secure d \<and> dget d ''url'' \<noteq> PyNone)"

lemma cookie_flag_Inr: "cookie_flag i d f = Inr () \<longleftrightarrow> (\<forall>v. dict_get d f = Some v \<longrightarrow> is_py_bool v)"
  by (auto simp: cookie_flag_def split: option.splits)

lemma cookie_expires_Inr: "cookie_expires i d = Inr () \<longleftrightarrow>
    (\<forall>v. dict_get d ''expires'' = Some v \<longrightarrow> (\<exists>k. v = PyInt k \<and> \<not> float_overflows k) \<or> (\<exists>m e. v = PyFloat (Fin m e)))"
  by (auto simp: cookie_expires_def split: option.splits py_val.splits py_float.splits)

lemma cookie_partition_Inr: "cookie_partition i d = Inr () \<longleftrightarrow>
    (\<forall>v. dict_get d ''partitionKey'' = Some v \<longrightarrow>
       is_secure d \<and> (\<exists>s. v = PyStr s \<and> validate_absolute_http_url [] s = Inr ()))"
  using validate_url_any_parameter
  by (fastforce simp: cookie_partition_def and_then_Inr split: option.splits py_val.splits if_splits)

lemma cookie_prefix_Inr: "cookie_prefix i name d n = Inr () \<longleftrightarrow>
    (dget d ''sameSite'' = PyStr ''None'' \<longrightarrow> is_secure d) \<and> (starts_with ''__Secure-'' name \<longrightarrow> is_secure d)
    \<and> (starts_with ''__Host-'' name \<longrightarrow> is_secure d \<and> dget d ''url'' \<noteq> PyNone
         \<and> (\<forall>p. dict_get n ''path'' = Some p \<longrightarrow> p = PyStr ''/''))"
  by (auto simp: cookie_prefix_def split: option.splits)

lemma later_checks:
  "cookie_flag i d ''secure'' = Inr () \<and> cookie_flag i d ''httpOnly'' = Inr () \<and> cookie_expires i d = Inr ()
     \<and> cookie_partition i d = Inr () \<and> cookie_prefix i name d n = Inr () \<longleftrightarrow>
   fields_ok name d \<and> (starts_with ''__Host-'' name \<longrightarrow> (\<forall>p. dict_get n ''path'' = Some p \<longrightarrow> p = PyStr ''/''))"
  unfolding cookie_flag_Inr cookie_expires_Inr cookie_partition_Inr cookie_prefix_Inr fields_ok_def by auto

text \<open>The shape of a normal form.\<close>

definition cookie_ok :: "externals \<Rightarrow> py_dict \<Rightarrow> bool" where
  "cookie_ok x n \<longleftrightarrow>
     distinct (map fst n) \<and> (\<forall>k. dict_get n k \<noteq> Some PyNone)
     \<and> (\<forall>k. k \<notin> cookie_fields \<or> k = ''expiry'' \<longrightarrow> dict_get n k = None)
     \<and> scope_ok x n
     \<and> (dict_get n ''sameSite'' = None \<or> (\<exists>s \<in> {''Strict'', ''Lax'', ''None''}. dict_get n ''sameSite'' = Some (PyStr s)))
     \<and> (case dict_get n ''path'' of None \<Rightarrow> dget n ''domain'' = PyNone
        | Some p \<Rightarrow> \<exists>s. p = PyStr s \<and> starts_with ''/'' s \<and> \<not> has_control s)
     \<and> (\<exists>name v. dget n ''name'' = PyStr name \<and> is_token name \<and> dget n ''value'' = PyStr v \<and> is_cookie_value v
          \<and> fields_ok name n
          \<and> (starts_with ''__Host-'' name \<longrightarrow> (\<forall>p. dict_get n ''path'' = Some p \<longrightarrow> p = PyStr ''/'')))"

lemma scope_ok_cong: "dget n ''url'' = dget d ''url'' \<Longrightarrow> dget n ''domain'' = dget d ''domain'' \<Longrightarrow> scope_ok x n = scope_ok x d"
  by (simp add: scope_ok_def)

lemma validated_cookie_ok:
  assumes "validate_cookie x i t c = Inr n" and "distinct (map fst c)"
  shows "cookie_ok x n \<and> (\<exists>d2 d. cookie_scope x i t d2 = Inr d \<and> dget n ''url'' = dget d ''url'')"
  using assms(1)
proof (rule validate_cookie_stages)
  fix name v d1 d2 d
  let ?c = "filter (\<lambda>(k, v). k \<in> cookie_fields) c"
  assume nv: "dget c ''name'' = PyStr name" "is_token name" "dget c ''value'' = PyStr v" "is_cookie_value v"
    and s: "rename_expiry i ?c = Inr d1" "canonical_same_site i d1 = Inr d2" "cookie_scope x i t d2 = Inr d"
      "cookie_path i d = Inr n"
    and l: "cookie_flag i d ''secure'' = Inr ()" "cookie_flag i d ''httpOnly'' = Inr ()" "cookie_expires i d = Inr ()"
      "cookie_partition i d = Inr ()" "cookie_prefix i name d n = Inr ()"
  have "distinct (map fst ?c)" using assms(2) by (rule distinct_filter_fst)
  note r = rename_facts [OF s(1) this]
  note ss = same_site_facts [OF s(2) conjunct1 [OF r]]
  note sc = scope_facts [OF s(3) conjunct1 [OF ss]]
  note p = path_facts [OF s(4) conjunct1 [OF sc]]
  have gn: "dict_get n k = (if dget d k = PyNone then None else dict_get d k)" if "k \<noteq> ''path''" for k
    using p that by blast
  then have dn: "dget n k = dget d k" if "k \<noteq> ''path''" for k using that by (simp add: dget_def)
  have gc: "dict_get d k = (if k \<in> cookie_fields then dict_get c k else None)"
    if "k \<notin> {''expires'', ''expiry'', ''sameSite'', ''url''}" for k
    using that r ss sc by (simp add: dict_get_filter_keys)
  have "dget d ''name'' = PyStr name" "dget d ''value'' = PyStr v"
    using gc [of "''name''"] gc [of "''value''"] nv by (simp_all add: dget_def cookie_fields_def)
  then have nv': "dget n ''name'' = PyStr name" "dget n ''value'' = PyStr v" using dn by simp_all
  have fl: "fields_ok name d" "starts_with ''__Host-'' name \<longrightarrow> (\<forall>p. dict_get n ''path'' = Some p \<longrightarrow> p = PyStr ''/'')"
    using later_checks [of i d name n] l by simp_all
  have sec: "is_secure n = is_secure d" by (simp add: is_secure_def dn)
  have up: "dict_get n k = Some w \<Longrightarrow> dict_get d k = Some w" if "k \<noteq> ''path''" for k w
    using gn [OF that] by (simp split: if_splits)
  have "fields_ok name n"
    using fl(1) up sec dn unfolding fields_ok_def by simp
  moreover have "\<forall>k. dict_get n k \<noteq> Some PyNone"
  proof
    fix k show "dict_get n k \<noteq> Some PyNone"
      by (cases "k = ''path''"; use p gn [of k] in \<open>auto simp: dget_def split: option.splits if_splits\<close>)
  qed
  moreover have "\<forall>k. k \<notin> cookie_fields \<or> k = ''expiry'' \<longrightarrow> dict_get n k = None"
  proof (intro allI impI)
    fix k assume k: "k \<notin> cookie_fields \<or> k = ''expiry''"
    have "dict_get d k = None"
    proof (cases "k = ''expiry''")
      case True
      then show ?thesis using r ss sc by simp
    next
      case False
      with k have "k \<notin> {''expires'', ''expiry'', ''sameSite'', ''url''}" by (auto simp: cookie_fields_def)
      with k False show ?thesis using gc by simp
    qed
    moreover have "k \<noteq> ''path''" using k by (auto simp: cookie_fields_def)
    ultimately show "dict_get n k = None" using gn by (simp add: dget_def)
  qed
  moreover have "scope_ok x n" using sc scope_ok_cong [of n d x] dn by simp
  moreover have "dict_get n ''sameSite'' = None \<or>
      (\<exists>s \<in> {''Strict'', ''Lax'', ''None''}. dict_get n ''sameSite'' = Some (PyStr s))"
    using ss sc up [of "''sameSite''"] by (cases "dict_get n ''sameSite''") fastforce+
  moreover have "case dict_get n ''path'' of None \<Rightarrow> dget n ''domain'' = PyNone
      | Some p \<Rightarrow> \<exists>s. p = PyStr s \<and> starts_with ''/'' s \<and> \<not> has_control s"
  proof -
    have eq: "dget n ''domain'' = dget d ''domain''" by (rule dn) simp
    show ?thesis unfolding eq by (rule conjunct2 [OF conjunct2 [OF p]])
  qed
  moreover have "distinct (map fst n)" using p by blast
  ultimately have "cookie_ok x n"
    unfolding cookie_ok_def using nv(2,4) nv' fl(2) by blast
  moreover have "dget n ''url'' = dget d ''url''" by (rule dn) simp
  ultimately show "cookie_ok x n \<and> (\<exists>d2 d. cookie_scope x i t d2 = Inr d \<and> dget n ''url'' = dget d ''url'')"
    using s(3) by blast
qed

lemma scope_url_valid:
  assumes "cookie_scope x i t d = Inr d'" and "validate_target_url t = Inr ()" and "dget d' ''url'' = PyStr u"
  shows "validate_absolute_http_url [] u = Inr ()"
proof (cases "dget d ''url'' = PyNone \<and> dget d ''domain'' = PyNone")
  case True
  with assms(1) have "d' = dict_set ''url'' (PyStr (unquote_marks (the t))) d" and "nonempty t"
    by (simp_all add: cookie_scope_def Let_def split: if_splits)
  with assms(2,3) have "validate_absolute_http_url ''url'' u = Inr ()"
    by (simp add: validate_target_url_def dget_def)
  then show ?thesis by (rule validate_url_any_parameter)
next
  case False
  with assms(1,3) have "d' = d" by (auto simp: cookie_scope_def Let_def and_then_Inr split: if_splits py_val.splits)
  with assms(1,3) False have "validate_absolute_http_url (''cookies['' @ nat_str i @ ''].url'') u = Inr ()"
    by (simp add: cookie_scope_def Let_def and_then_Inr split: if_splits)
  then show ?thesis by (rule validate_url_any_parameter)
qed

lemma same_site_names: "s \<in> {''Strict'', ''Lax'', ''None''} \<Longrightarrow> canonical_same_site_name s = Some s"
  by (auto simp: canonical_same_site_name_def str_casefold_def casefold_char_def text_eval)

lemma cookie_ok_again:
  assumes ok: "cookie_ok x n" and u: "\<forall>u. dget n ''url'' = PyStr u \<longrightarrow> validate_absolute_http_url [] u = Inr ()"
  shows "validate_cookie x i t n = Inr n"
proof -
  obtain name v where nv: "dget n ''name'' = PyStr name" "is_token name" "dget n ''value'' = PyStr v" "is_cookie_value v"
    and f: "fields_ok name n" "starts_with ''__Host-'' name \<longrightarrow> (\<forall>p. dict_get n ''path'' = Some p \<longrightarrow> p = PyStr ''/'')"
    using ok by (auto simp: cookie_ok_def)
  have d: "distinct (map fst n)" "\<forall>k. dict_get n k \<noteq> Some PyNone" using ok by (simp_all add: cookie_ok_def)
  have "filter (\<lambda>(k, v). k \<in> cookie_fields) n = n"
    unfolding filter_id_conv using ok dict_get_distinct [OF d(1)] by (fastforce simp: cookie_ok_def)
  moreover have "rename_expiry i n = Inr n" using ok by (simp add: cookie_ok_def rename_expiry_def)
  moreover have "canonical_same_site i n = Inr n"
    using ok same_site_names dict_set_same [of n "''sameSite''"]
    by (auto simp: cookie_ok_def canonical_same_site_def)
  moreover have "cookie_scope x i t n = Inr n" using scope_again [OF _ u] ok by (simp add: cookie_ok_def)
  moreover have "cookie_path i n = Inr n" using path_again [OF d] ok by (simp add: cookie_ok_def)
  ultimately show ?thesis
    using nv later_checks [of i n name n] f by (simp add: validate_cookie_def)
qed

section \<open>Properties\<close>

text \<open>C26.  A cookie that passes validation is safe to hand to a browser: a token name and a printable value, only
  known fields, exactly one of a URL and a domain, the domain well formed and no public suffix, a path from the root
  without control characters, \<open>SameSite=None\<close>, partitioned and prefixed cookies only with \<open>secure\<close>, and
  \<open>__Host-\<close> cookies host-only on \<open>/\<close>.\<close>

theorem accepted_cookie_safe:
  assumes "validate_cookie x i t c = Inr n" and "distinct (map fst c)"
  shows "cookie_ok x n"
  using validated_cookie_ok [OF assms] by blast

text \<open>C27.  Validation is stable: a cookie that came out of it, for a target that itself is a valid URL, is accepted
  again unchanged, at any position and for any target.\<close>

theorem validated_cookie_stable:
  assumes "validate_cookie x i t c = Inr n" and "distinct (map fst c)" and "validate_target_url t = Inr ()"
  shows "validate_cookie x j t' n = Inr n"
proof -
  obtain d2 d where s: "cookie_scope x i t d2 = Inr d" "dget n ''url'' = dget d ''url''" and ok: "cookie_ok x n"
    using validated_cookie_ok [OF assms(1,2)] by blast
  have "\<forall>u. dget n ''url'' = PyStr u \<longrightarrow> validate_absolute_http_url [] u = Inr ()"
    unfolding s(2) using scope_url_valid [OF s(1) assms(3)] by blast
  with ok show ?thesis by (rule cookie_ok_again)
qed

text \<open>An integer expiry beyond the range of a double is not reported as an invalid request: the
  \<open>OverflowError\<close> of \<open>float(expires)\<close> leaves the validator, and pydantic does not turn it into a
  validation error.\<close>

theorem huge_expiry_escapes:
  assumes "float_overflows k"
    and "c = [(''name'', PyStr ''a''), (''value'', PyStr ''b''), (''url'', PyStr ''http://h/''), (''expires'', PyInt k)]"
    and "dump_size x (PyList [PyDict c]) \<le> MAX_COOKIE_BYTES"
  shows "model_validate x (empty_request\<lparr>req_cookies := Some [c]\<rparr>) = Inl (Escaped overflow_error)"
proof -
  have url: "validate_absolute_http_url p ''http://h/'' = Inr ()" for p
    by (simp add: validate_absolute_http_url_def has_control_def http_hostname_ok_def url_eval text_eval)
  have t: "is_token ''a''" "is_cookie_value ''b''" by code_simp+
  have "validate_cookie x 0 None c = Inl overflow_error"
    using assms(1) t url
    by (simp add: assms(2) validate_cookie_def dget_def cookie_fields_def rename_expiry_def canonical_same_site_def
        cookie_scope_def cookie_path_def dict_has_def drop_nulls_def cookie_flag_def cookie_expires_def)
  then have "validate_structural_sizes x (empty_request\<lparr>req_cookies := Some [c]\<rparr>) = Inl overflow_error"
    using assms(3) by (simp add: validate_structural_sizes_def empty_request_def opt_ok_def)
  moreover have "field_errors x (empty_request\<lparr>req_cookies := Some [c]\<rparr>) = []"
    by (simp add: field_errors_def empty_request_def field_rule_def opt_ok_def validate_target_url_def nonempty_def
        validate_proxy_def validate_target_headers_def validate_user_agent_def MAX_COOKIES_def)
  ultimately show ?thesis by (simp add: model_validate_def overflow_error_def)
qed

section \<open>Examples\<close>

definition demo_externals :: externals where
  "demo_externals = \<lparr>idna_label = (\<lambda>_. None), public_suffix = (\<lambda>d. Some (last (split_on (CHR ''.'') d))),
     repr_val = (\<lambda>_. []), dump_size = (\<lambda>_. 0)\<rparr>"

definition demo_cookie :: py_dict where
  "demo_cookie = [(''name'', PyStr ''sid''), (''value'', PyStr ''1''), (''url'', PyStr ''http://h/''),
     (''hostOnly'', PyBool True), (''sameSite'', PyStr ''LAX''), (''expiry'', PyInt 5)]"

definition demo_accepted :: py_dict where
  "demo_accepted = [(''name'', PyStr ''sid''), (''value'', PyStr ''1''), (''url'', PyStr ''http://h/''),
     (''sameSite'', PyStr ''Lax''), (''expires'', PyInt 5)]"

lemma demo_cookie_accepted: "validate_cookie x 0 None demo_cookie = Inr demo_accepted"
proof -
  have url: "validate_absolute_http_url p ''http://h/'' = Inr ()" for p
    by (simp add: validate_absolute_http_url_def has_control_def http_hostname_ok_def url_eval text_eval)
  have t: "is_token ''sid''" "is_cookie_value ''1''" "canonical_same_site_name ''LAX'' = Some ''Lax''"
    "\<not> float_overflows 5" "\<not> starts_with ''__Secure-'' ''sid''" "\<not> starts_with ''__Host-'' ''sid''"
    by code_simp+
  show ?thesis
    using t url
    by (simp add: demo_cookie_def demo_accepted_def validate_cookie_def dget_def cookie_fields_def rename_expiry_def
        canonical_same_site_def cookie_scope_def cookie_path_def dict_has_def dict_del_def drop_nulls_def cookie_flag_def
        cookie_expires_def cookie_partition_def cookie_prefix_def)
qed

lemma accepted_cookie_safe_witness: "cookie_ok demo_externals demo_accepted"
  by (rule accepted_cookie_safe [OF demo_cookie_accepted]) (simp add: demo_cookie_def)

lemma validated_cookie_stable_witness: "validate_cookie demo_externals 7 (Some ''x'') demo_accepted = Inr demo_accepted"
  by (rule validated_cookie_stable [OF demo_cookie_accepted])
    (simp_all add: demo_cookie_def validate_target_url_def nonempty_def)

lemma huge_expiry_escapes_witness:
  "\<exists>c. model_validate demo_externals (empty_request\<lparr>req_cookies := Some [c]\<rparr>) = Inl (Escaped overflow_error)"
  using huge_expiry_escapes [of "2 ^ 1024" _ demo_externals]
  by (auto simp: float_overflows_def demo_externals_def)

end
