(* ===== verification/Access.thy ===== *)
theory Access
  imports Models
begin

text \<open>
  The HTTP edge of the service (\<open>camouflare/app.py\<close>): who may call it, how a request body is read,
  how an exception of a command becomes an envelope and a status code, and the passive
  diagnostics.  Routing, the lifespan and JSON rendering are FastAPI's.  A request is what the edge
  reads of it; header names are lower case, as Starlette gives them, and an absent header is
  \<open>None\<close>.
\<close>

section \<open>Requests\<close>

record http_request =
  client_host :: "string option"
  header :: "string \<Rightarrow> string option"
  http_method :: string
  http_path :: string
  http_scheme :: string

definition default_port :: "string \<Rightarrow> nat" where
  "default_port scheme = (if scheme = ''https'' then 443 else 80)"

definition port_or_default :: "string \<Rightarrow> nat option \<Rightarrow> nat" where
  "port_or_default scheme port = (case port of None \<Rightarrow> default_port scheme
     | Some p \<Rightarrow> if p = 0 then default_port scheme else p)"

definition is_json_media_type :: "string \<Rightarrow> bool" where
  "is_json_media_type media_type =
     (if media_type = ''application/json'' then True
      else case partition_on (CHR ''/'') media_type of (type_name, separator, subtype) \<Rightarrow>
        type_name = ''application'' \<and> separator \<and> length subtype > length ''+json'' \<and> ends_with ''+json'' subtype)"

section \<open>Tokens\<close>

definition api_token_from_request :: "http_request \<Rightarrow> string option" where
  "api_token_from_request r =
     (if nonempty (header r ''x-api-token'') then header r ''x-api-token''
      else if \<not> nonempty (header r ''authorization'') then None
      else case partition_on (CHR '' '') (the (header r ''authorization'')) of (scheme, _, token) \<Rightarrow>
        if str_lower scheme \<noteq> ''bearer'' \<or> token = [] then None else Some token)"

text \<open>\<open>secrets.compare_digest\<close> on text accepts ASCII only.\<close>

definition compare_digest :: "string \<Rightarrow> string \<Rightarrow> exn + bool" where
  "compare_digest a b =
     (if is_ascii a \<and> is_ascii b then Inr (a = b)
      else Inl (OtherError ''TypeError'' ''comparing strings with non-ASCII characters is not supported''))"

definition api_token_matches :: "http_request \<Rightarrow> string \<Rightarrow> exn + bool" where
  "api_token_matches r expected = (case api_token_from_request r of
     None \<Rightarrow> Inr False
   | Some supplied \<Rightarrow> compare_digest supplied expected)"

section \<open>Requests without a token\<close>

type_synonym origin = "string \<times> string \<times> nat"

definition request_origin :: "http_request \<Rightarrow> origin option" where
  "request_origin r = (case header r ''host'' of
     None \<Rightarrow> None
   | Some host \<Rightarrow>
       if list_ex (\<lambda>c. c \<in> set ''/?#@'' \<or> ord c = 92 \<or> ord c = 0) host then None
       else case urlsplit (''//'' @ host) of
         Inl _ \<Rightarrow> None
       | Inr parsed \<Rightarrow> (case url_port parsed of
           Inl _ \<Rightarrow> None
         | Inr port \<Rightarrow> (case url_hostname parsed of
             None \<Rightarrow> None
           | Some hostname \<Rightarrow>
               let scheme = str_lower (http_scheme r) in
               if \<not> is_loopback_host hostname \<or> scheme \<notin> {''http'', ''https''} then None
               else Some (scheme, rstrip_dots (str_lower hostname), port_or_default scheme port))))"

definition normalized_origin :: "string \<Rightarrow> origin option" where
  "normalized_origin origin = (case urlsplit origin of
     Inl _ \<Rightarrow> None
   | Inr parsed \<Rightarrow> (case url_port parsed of
       Inl _ \<Rightarrow> None
     | Inr port \<Rightarrow> (case url_hostname parsed of
         None \<Rightarrow> None
       | Some hostname \<Rightarrow>
           let scheme = str_lower (url_scheme parsed) in
           if scheme \<notin> {''http'', ''https''} \<or> \<not> is_loopback_host hostname \<or> url_username parsed \<noteq> None
              \<or> url_password parsed \<noteq> None \<or> url_path parsed \<notin> {[], ''/''} \<or> url_query parsed \<noteq> []
              \<or> url_fragment parsed \<noteq> []
           then None
           else Some (scheme, rstrip_dots (str_lower hostname), port_or_default scheme port))))"

definition media_type_of :: "http_request \<Rightarrow> string" where
  "media_type_of r = (case partition_on (CHR '';'') (case header r ''content-type'' of None \<Rightarrow> [] | Some t \<Rightarrow> t) of
     (media, _, _) \<Rightarrow> str_lower (str_strip media))"

definition tokenless_policy_error :: "http_request \<Rightarrow> (string \<times> nat) option" where
  "tokenless_policy_error r =
     (if \<not> (case client_host r of None \<Rightarrow> False | Some h \<Rightarrow> is_loopback_host h)
      then Some (''Tokenless requests require a loopback client'', 403)
      else case request_origin r of
        None \<Rightarrow> Some (''Invalid Host header'', 400)
      | Some own \<Rightarrow>
          if (case header r ''origin'' of None \<Rightarrow> False | Some origin \<Rightarrow> normalized_origin origin \<noteq> Some own)
          then Some (''Cross-origin requests require CAMOUFLARE_API_TOKEN'', 403)
          else if (case header r ''sec-fetch-site'' of None \<Rightarrow> False
                   | Some site \<Rightarrow> str_lower site \<notin> {''none'', ''same-origin''})
          then Some (''Cross-site requests require CAMOUFLARE_API_TOKEN'', 403)
          else if http_method r = ''POST'' \<and> http_path r = ''/v1'' \<and> \<not> is_json_media_type (media_type_of r)
          then Some (''Content-Type must be application/json'', 415)
          else None)"

text \<open>The middleware's decision.  An exception of the token check passes through it.\<close>

datatype gate = Refused string nat | PassOn | Raised exn

definition request_gate :: "settings \<Rightarrow> http_request \<Rightarrow> gate" where
  "request_gate s r =
     (if \<not> nonempty (api_token s)
      then (case tokenless_policy_error r of
              Some (detail, status) \<Rightarrow> Refused detail status
            | None \<Rightarrow> PassOn)
      else if http_path r = ''/health'' then PassOn
      else case api_token_matches r (the (api_token s)) of
        Inl e \<Rightarrow> Raised e
      | Inr ok \<Rightarrow> if ok then PassOn else Refused ''Unauthorized'' 401)"

section \<open>Reading the body\<close>

definition body_limit_error :: "nat \<Rightarrow> exn" where
  "body_limit_error maximum =
     ResourceLimitError (''Request body exceeds the configured '' @ nat_str maximum @ ''-byte limit.'')"

text \<open>The chunks of the stream in order; \<open>received\<close> is the size of \<open>kept\<close>.\<close>

fun read_chunks :: "nat \<Rightarrow> nat \<Rightarrow> string \<Rightarrow> string list \<Rightarrow> exn + string" where
  "read_chunks maximum received kept [] = Inr kept"
| "read_chunks maximum received kept (chunk # chunks) =
     (if received + length chunk > maximum then Inl (body_limit_error maximum)
      else read_chunks maximum (received + length chunk) (kept @ chunk) chunks)"

text \<open>A length that is absent counts as 0, one that is no integer as -1.\<close>

definition declared_length :: "http_request \<Rightarrow> int" where
  "declared_length r =
     (if nonempty (header r ''content-length'')
      then (case py_int (the (header r ''content-length'')) of None \<Rightarrow> - 1 | Some n \<Rightarrow> n) else 0)"

definition read_payload :: "nat \<Rightarrow> http_request \<Rightarrow> string list \<Rightarrow> exn + string" where
  "read_payload maximum r chunks =
     (if declared_length r > int maximum then Inl (body_limit_error maximum) else read_chunks maximum 0 [] chunks)"

definition runtime_limit_error :: "string \<Rightarrow> int \<Rightarrow> string \<Rightarrow> exn" where
  "runtime_limit_error field limit unit_text =
     ResourceLimitError (''Request parameter '' @ q field @ '' exceeds the configured '' @ int_str limit @ unit_text)"

definition validate_runtime_limits :: "v1_request \<Rightarrow> settings \<Rightarrow> exn + unit" where
  "validate_runtime_limits r s =
     (if max_timeout r > max_timeout_ms s
      then Inl (runtime_limit_error ''maxTimeout'' (max_timeout_ms s) ''-millisecond limit.'')
      else if \<not> opt_ok (\<lambda>n. n \<le> max_session_ttl_minutes s) (req_ttl_minutes r)
      then Inl (runtime_limit_error ''session_ttl_minutes'' (max_session_ttl_minutes s) ''-minute limit.'')
      else if \<not> opt_ok (\<lambda>n. n \<le> max_response_body_bytes s) (max_response_bytes r)
      then Inl (runtime_limit_error ''maxResponseBytes'' (max_response_body_bytes s) ''-byte limit.'')
      else Inr ())"

section \<open>The answer to a command\<close>

definition KNOWN_COMMANDS :: "string set" where
  "KNOWN_COMMANDS = {''sessions.create'', ''sessions.list'', ''sessions.destroy'', ''request.get'', ''request.post'',
     ''request.head''}"

definition command_label :: "v1_request \<Rightarrow> string" where
  "command_label r = (case cmd r of None \<Rightarrow> ''invalid''
     | Some c \<Rightarrow> if c \<in> KNOWN_COMMANDS then c else ''invalid'')"

text \<open>How the handling of a request can end: an unreadable body, a rejected payload, or the command.\<close>

datatype v1_end =
    BadJson
  | Rejected "(string \<times> exn) list"
  | Failed exn
  | Answered v1_response

text \<open>\<open>msg\<close> is pydantic's text of an error.\<close>

definition validation_error_message :: "(exn \<Rightarrow> string) \<Rightarrow> (string \<times> exn) list \<Rightarrow> string" where
  "validation_error_message msg errors = (case errors of
     [] \<Rightarrow> ''Error: invalid request payload.''
   | (location, e) # _ \<Rightarrow> ''Error: invalid request parameter '' @ q (if location = [] then ''payload'' else location)
       @ '': '' @ msg e @ ''.'')"

text \<open>The \<open>except\<close> clauses in their order; \<open>error_of\<close> fixes the fields they share.\<close>

definition error_of ::
    "int \<Rightarrow> settings \<Rightarrow> string \<Rightarrow> string \<Rightarrow> int \<Rightarrow> v1_error_code \<Rightarrow> bool \<Rightarrow> v1_response" where
  "error_of now s version message started code retry =
     error_response now message version (Some started) (Some code) (Some retry) None None None"

fun exception_response :: "int \<Rightarrow> settings \<Rightarrow> string \<Rightarrow> int \<Rightarrow> string \<Rightarrow> exn \<Rightarrow> v1_response \<times> nat" where
  "exception_response now s version started command (ResourceLimitError m) =
     (error_of now s version (''Error: '' @ m) started RESOURCE_LIMIT_EXCEEDED False, 500)"
| "exception_response now s version started command (PoolAcquireTimeout m) =
     (error_of now s version (''Error: '' @ m) started POOL_UNAVAILABLE True, 503)"
| "exception_response now s version started command (PersistentCapacityError m) =
     (error_of now s version (''Error: '' @ m) started POOL_UNAVAILABLE True, 503)"
| "exception_response now s version started command (CamouflareError e) =
     (error_response now (err_message e) version (Some started) (Some (error_code e)) (Some (retryable e))
        (Some (request_outcome_unknown e)) (fallback_used e) (err_solution e),
      if error_code e = POOL_UNAVAILABLE then 503 else 500)"
| "exception_response now s version started command (TimeoutError m) =
     ((error_of now s version ''Error: Request exceeded maxTimeout.'' started REQUEST_TIMEOUT (command \<noteq> ''request.post''))
        \<lparr>resp_outcome_unknown := Some (command = ''request.post'')\<rparr>, 500)"
| "exception_response now s version started command e =
     (error_of now s version (''Error: '' @ exn_str e) started INTERNAL_ERROR False, 500)"

text \<open>Every \<open>Exception\<close> is answered; a cancellation passes.\<close>

fun v1_response_of :: "(exn \<Rightarrow> string) \<Rightarrow> int \<Rightarrow> settings \<Rightarrow> string \<Rightarrow> int \<Rightarrow> string \<Rightarrow> v1_end \<Rightarrow> exn + v1_response \<times> nat" where
  "v1_response_of msg now s version started command BadJson =
     Inr (error_of now s version ''Error: invalid JSON request payload.'' started INVALID_REQUEST False, 500)"
| "v1_response_of msg now s version started command (Rejected errors) =
     Inr (error_of now s version (validation_error_message msg errors) started INVALID_REQUEST False, 500)"
| "v1_response_of msg now s version started command (Failed e) =
     (if is_Exception e then Inr (exception_response now s version started command e) else Inl e)"
| "v1_response_of msg now s version started command (Answered r) = Inr (r, if resp_status r = ''ok'' then 200 else 500)"

text \<open>The envelope that leaves: stamped, and replaced when its dump is beyond the limit.\<close>

definition finish_response ::
    "(v1_response \<Rightarrow> nat) \<Rightarrow> settings \<Rightarrow> string \<Rightarrow> int \<Rightarrow> int \<Rightarrow> v1_response \<times> nat \<Rightarrow> v1_response \<times> nat" where
  "finish_response response_size s version now started rs =
     (let r = (fst rs)\<lparr>resp_version := version, start_timestamp := started, end_timestamp := now\<rparr> in
      case ensure_json_size response_size r (nat (max_solution_bytes s)) ''Solution payload'' of
        Inr _ \<Rightarrow> (r, snd rs)
      | Inl e \<Rightarrow> (error_of now s version (''Error: '' @ exn_str e) started RESOURCE_LIMIT_EXCEEDED False, 500))"

section \<open>Logging\<close>

definition MAX_LOGGED_ERROR_MESSAGE_CHARS :: nat where
  "MAX_LOGGED_ERROR_MESSAGE_CHARS = 300"

definition loggable_error_message :: "string \<Rightarrow> string option" where
  "loggable_error_message message =
     (if message = [] then None
      else case partition_on (CHR 0x0A) message of (line, _, _) \<Rightarrow> Some (take MAX_LOGGED_ERROR_MESSAGE_CHARS line))"

definition safe_target_host :: "string option \<Rightarrow> string option" where
  "safe_target_host url =
     (if \<not> nonempty url then None
      else case urlsplit (the url) of
        Inl _ \<Rightarrow> None
      | Inr parsed \<Rightarrow> (case url_hostname parsed of
          None \<Rightarrow> None
        | Some host \<Rightarrow> (let normalized = take 253 (rstrip_dots (str_lower host)) in
            if normalized = [] \<or> list_ex (\<lambda>c. is_space c \<or> ord c < 32) normalized then None else Some normalized)))"

section \<open>Readiness\<close>

datatype readiness = Saturated | Ready | NotReady string

text \<open>\<open>full\<close> is the pool's answer, \<open>probe\<close> how the probe ended, if it ran.\<close>

definition readiness_of :: "bool \<Rightarrow> exn option \<Rightarrow> readiness \<times> nat" where
  "readiness_of full probe =
     (if full then (Saturated, 200)
      else case probe of
        None \<Rightarrow> (Ready, 200)
      | Some (PoolAcquireTimeout m) \<Rightarrow> (NotReady m, 503)
      | Some (TimeoutError m) \<Rightarrow>
          (NotReady (if m = [] then ''Readiness check exceeded its configured timeout.'' else m), 503)
      | Some e \<Rightarrow> (NotReady (exn_str e), 503))"

section \<open>Diagnostics\<close>

record diagnostics_pool =
  ready_browser_slots :: int
  retiring_browser_slots :: int
  creating_slots :: int
  closing_slots :: int
  diag_active_contexts :: int
  diag_transient_contexts :: int
  diag_persistent_contexts :: int
  diag_waiting_requests :: int
  usable_context_slots :: int
  idle_recyclable_slots :: int
  diag_max_browsers :: int
  diag_max_contexts :: int
  diag_max_slots :: int

definition py_trunc :: "int \<Rightarrow> int \<Rightarrow> int" where
  "py_trunc m e = (if e \<ge> 0 then m * 2 ^ nat e else sgn m * (abs m div 2 ^ nat (- e)))"

fun parsed_non_negative_int :: "py_val \<Rightarrow> int \<Rightarrow> int" where
  "parsed_non_negative_int (PyStr s) dflt = max 0 (case py_int s of None \<Rightarrow> dflt | Some i \<Rightarrow> i)"
| "parsed_non_negative_int (PyBool b) dflt = (if b then 1 else 0)"
| "parsed_non_negative_int (PyInt i) dflt = max 0 i"
| "parsed_non_negative_int (PyFloat (Fin m e)) dflt = max 0 (py_trunc m e)"
| "parsed_non_negative_int _ dflt = max 0 dflt"

text \<open>A snapshot that could not be read is the empty dictionary.\<close>

definition snapshot_value :: "py_dict \<Rightarrow> string \<Rightarrow> int \<Rightarrow> py_val" where
  "snapshot_value d name dflt = (case dict_get d name of None \<Rightarrow> PyInt dflt | Some v \<Rightarrow> v)"

definition snapshot_int :: "py_dict \<Rightarrow> string \<Rightarrow> int \<Rightarrow> int" where
  "snapshot_int d name dflt = parsed_non_negative_int (snapshot_value d name dflt) dflt"

definition snapshot_positive_int :: "py_dict \<Rightarrow> string \<Rightarrow> int \<Rightarrow> int" where
  "snapshot_positive_int d name dflt =
     (let parsed = parsed_non_negative_int (snapshot_value d name dflt) dflt in
      if parsed > 0 then parsed else max 1 dflt)"

definition diagnostics_pool_of :: "settings \<Rightarrow> py_dict \<Rightarrow> diagnostics_pool" where
  "diagnostics_pool_of s d =
     (let browsers = snapshot_positive_int d ''max_browsers'' (pool_max_browsers s);
          contexts = snapshot_positive_int d ''max_contexts_per_browser'' (pool_max_contexts_per_browser s);
          ready = snapshot_int d ''ready_browser_slots'' (snapshot_int d ''browser_slots'' 0);
          active = snapshot_int d ''active_contexts'' 0
      in \<lparr>ready_browser_slots = ready,
          retiring_browser_slots = snapshot_int d ''retiring_browser_slots'' 0,
          creating_slots = snapshot_int d ''creating_slots'' 0,
          closing_slots = snapshot_int d ''closing_slots'' 0,
          diag_active_contexts = active,
          diag_transient_contexts = snapshot_int d ''transient_contexts'' 0,
          diag_persistent_contexts = snapshot_int d ''persistent_contexts'' 0,
          diag_waiting_requests = snapshot_int d ''waiting_requests'' 0,
          usable_context_slots = snapshot_int d ''usable_context_slots'' (max 0 (ready * contexts - active)),
          idle_recyclable_slots = snapshot_int d ''idle_recyclable_slots'' 0,
          diag_max_browsers = browsers,
          diag_max_contexts = contexts,
          diag_max_slots = snapshot_positive_int d ''max_slots'' (browsers * contexts)\<rparr>)"

datatype capacity = Available | CapacitySaturated | Recovering | Unavailable

definition capacity_state :: "diagnostics_pool \<Rightarrow> int \<Rightarrow> capacity" where
  "capacity_state p cleanup_in_flight =
     (if usable_context_slots p > 0 then Available
      else if retiring_browser_slots p > 0 \<or> creating_slots p > 0 \<or> closing_slots p > 0
              \<or> idle_recyclable_slots p > 0 \<or> cleanup_in_flight > 0 then Recovering
      else if diag_active_contexts p > 0 \<or> diag_waiting_requests p > 0 then CapacitySaturated
      else Unavailable)"

end
