(* ===== verification/Access_Properties.thy ===== *)
theory Access_Properties
  imports Access Config_Properties
begin

text \<open>
  Who gets through the edge, how much of a body is read, what every failure is answered with, and
  that diagnostics are well formed whatever the snapshots hold.
\<close>

section \<open>The gate\<close>

lemma tokenless_pass:
  assumes "tokenless_policy_error r = None"
  shows "(\<exists>h. client_host r = Some h \<and> is_loopback_host h) \<and> request_origin r \<noteq> None
    \<and> (\<forall>origin. header r ''origin'' = Some origin \<longrightarrow> normalized_origin origin = request_origin r)
    \<and> (\<forall>site. header r ''sec-fetch-site'' = Some site \<longrightarrow> str_lower site \<in> {''none'', ''same-origin''})
    \<and> (http_method r = ''POST'' \<and> http_path r = ''/v1'' \<longrightarrow> is_json_media_type (media_type_of r))"
proof (cases "request_origin r")
  case None
  with assms show ?thesis by (auto simp: tokenless_policy_error_def split: if_splits)
next
  case (Some own)
  show ?thesis
    using assms unfolding tokenless_policy_error_def Some option.case
    by (simp add: Some split: if_splits option.splits)
qed

lemma request_origin_loopback:
  assumes "request_origin r = Some own"
  obtains host u h where "header r ''host'' = Some host" "urlsplit (''//'' @ host) = Inr u" "url_hostname u = Some h"
    "is_loopback_host h"
  using assms by (auto simp: request_origin_def Let_def split: option.splits if_splits sum.splits)

text \<open>C28.  A server that runs without a token is bound to a loopback address and lets a request through only from a
  loopback client, with a \<open>Host\<close> that names a loopback host (a rebound DNS name does not), from no foreign origin,
  and, for a command, with a JSON media type that a cross-site form cannot send.\<close>

theorem tokenless_server_is_local:
  assumes "load_settings rv linux env = Inr s" and "\<not> nonempty (api_token s)" and "request_gate s r = PassOn"
  shows "is_loopback_host (set_host s)
    \<and> (\<exists>h. client_host r = Some h \<and> is_loopback_host h)
    \<and> (\<exists>host u h. header r ''host'' = Some host \<and> urlsplit (''//'' @ host) = Inr u \<and> url_hostname u = Some h
         \<and> is_loopback_host h)
    \<and> (\<forall>origin. header r ''origin'' = Some origin \<longrightarrow> normalized_origin origin = request_origin r)
    \<and> (http_method r = ''POST'' \<and> http_path r = ''/v1'' \<longrightarrow> is_json_media_type (media_type_of r))"
proof -
  have "tokenless_policy_error r = None"
    using assms(2,3) by (simp add: request_gate_def split: option.splits prod.splits)
  note pass = tokenless_pass [OF this]
  then obtain own where "request_origin r = Some own" by blast
  then obtain host u h where "header r ''host'' = Some host" "urlsplit (''//'' @ host) = Inr u" "url_hostname u = Some h"
      "is_loopback_host h"
    by (rule request_origin_loopback)
  then show ?thesis using pass loaded_settings_facts [OF assms(1)] assms(2) by blast
qed

text \<open>C29.  With a token configured, every path but \<open>/health\<close> is reached only by a request that carries that very
  token, in \<open>X-Api-Token\<close> or as a bearer token.\<close>

theorem token_gate:
  assumes "api_token s = Some token" and "token \<noteq> []" and "http_path r \<noteq> ''/health''" and "request_gate s r = PassOn"
  shows "header r ''x-api-token'' = Some token
    \<or> (\<exists>scheme. header r ''authorization'' = Some (scheme @ '' '' @ token) \<and> str_lower scheme = ''bearer'')"
proof -
  have t: "api_token_from_request r = Some token"
    using assms by (auto simp: request_gate_def nonempty_def api_token_matches_def compare_digest_def
        split: sum.splits if_splits option.splits)
  show ?thesis
  proof (cases "nonempty (header r ''x-api-token'')")
    case True
    with t show ?thesis by (simp add: api_token_from_request_def)
  next
    case False
    obtain scheme f tok where p: "partition_on (CHR '' '') (the (header r ''authorization'')) = (scheme, f, tok)"
      by (metis prod_cases3)
    have a: "nonempty (header r ''authorization'')" and tok: "tok = token" "str_lower scheme = ''bearer''" "tok \<noteq> []"
      using t False p by (auto simp: api_token_from_request_def split: if_splits)
    have "f" using p tok(3) partition_on_unfound [of "CHR '' ''" _ scheme tok] by (cases f) auto
    then have "the (header r ''authorization'') = scheme @ '' '' @ token"
      using partition_on_join [of "CHR '' ''" _ scheme tok] p tok(1) by simp
    then show ?thesis using a tok(2) by (auto simp: nonempty_def split: option.splits)
  qed
qed

text \<open>A supplied token with a character beyond ASCII is not refused: the constant-time comparison raises, and the
  exception leaves the middleware outside its handler.\<close>

theorem non_ascii_token_raises:
  assumes "api_token s = Some token" and "token \<noteq> []" and "http_path r \<noteq> ''/health''"
    and "header r ''x-api-token'' = Some supplied" and "\<not> is_ascii supplied"
  shows "request_gate s r =
    Raised (OtherError ''TypeError'' ''comparing strings with non-ASCII characters is not supported'')"
proof -
  have "supplied \<noteq> []" using assms(5) by (auto simp: is_ascii_def)
  with assms show ?thesis
    by (simp add: request_gate_def nonempty_def api_token_matches_def api_token_from_request_def compare_digest_def)
qed

section \<open>Bodies and answers\<close>

lemma read_chunks_Inr:
  "length kept = received \<Longrightarrow> received \<le> maximum \<Longrightarrow>
     read_chunks maximum received kept chunks = Inr body \<longleftrightarrow>
       body = kept @ concat chunks \<and> length body \<le> maximum"
  by (induction chunks arbitrary: received kept) auto

text \<open>A body is read exactly when neither its declared nor its real size exceeds the limit, and then it is the
  concatenation of the stream; otherwise the answer is the limit error, whatever the stream still holds.\<close>

theorem payload_within_limit:
  "read_payload maximum r chunks =
     (if declared_length r \<le> int maximum \<and> length (concat chunks) \<le> maximum
      then Inr (concat chunks) else Inl (body_limit_error maximum))"
proof -
  have fail: "read_chunks maximum received kept chunks = Inl (body_limit_error maximum)"
    if "received \<le> maximum" "length kept = received" "length (kept @ concat chunks) > maximum" for received kept chunks
    using that by (induction chunks arbitrary: received kept) auto
  have "read_chunks maximum 0 [] chunks =
      (if length (concat chunks) \<le> maximum then Inr (concat chunks) else Inl (body_limit_error maximum))"
    using read_chunks_Inr [of "[]" 0 maximum chunks "concat chunks"] fail [of 0 "[]" chunks] by auto
  then show ?thesis by (simp add: read_payload_def)
qed


text \<open>What leaves fits the configured size or is the resource-limit error without any solution, and always
  carries the server's version and the start time of the request.\<close>

theorem response_size_limited:
  "(\<exists>r status. finish_response size_of s version now started rs = (r, status)
     \<and> (size_of r \<le> nat (max_solution_bytes s)
        \<or> status = 500 \<and> resp_error_code r = Some RESOURCE_LIMIT_EXCEEDED \<and> resp_solution r = None)
     \<and> resp_version r = version \<and> (start_timestamp r = started \<or> started = 0))"
proof (cases "size_of ((fst rs)\<lparr>resp_version := version, start_timestamp := started, end_timestamp := now\<rparr>)
    \<le> nat (max_solution_bytes s)")
  case True
  then show ?thesis by (simp add: finish_response_def ensure_json_size_def)
next
  case False
  then show ?thesis by (simp add: finish_response_def ensure_json_size_def error_of_def error_response_def)
qed

section \<open>Diagnostics\<close>

lemma parsed_non_negative [simp]: "0 \<le> parsed_non_negative_int v d"
  by (induction v d rule: parsed_non_negative_int.induct) auto

lemma snapshot_int_nonneg [simp]: "0 \<le> snapshot_int d name n"
  by (simp add: snapshot_int_def)

lemma snapshot_positive [simp]: "1 \<le> snapshot_positive_int d name n"
  by (simp add: snapshot_positive_int_def Let_def)

text \<open>Whatever the pool's snapshot holds, even none at all, the diagnostics satisfy the constraints of their
  response model: no field is negative and the maxima are at least one.\<close>

theorem diagnostics_well_formed:
  "let p = diagnostics_pool_of s d in
     0 \<le> ready_browser_slots p \<and> 0 \<le> retiring_browser_slots p \<and> 0 \<le> creating_slots p \<and> 0 \<le> closing_slots p
     \<and> 0 \<le> diag_active_contexts p \<and> 0 \<le> diag_transient_contexts p \<and> 0 \<le> diag_persistent_contexts p
     \<and> 0 \<le> diag_waiting_requests p \<and> 0 \<le> usable_context_slots p \<and> 0 \<le> idle_recyclable_slots p
     \<and> 1 \<le> diag_max_browsers p \<and> 1 \<le> diag_max_contexts p \<and> 1 \<le> diag_max_slots p"
  by (simp add: diagnostics_pool_of_def Let_def)

section \<open>Examples\<close>

definition demo_local :: http_request where
  "demo_local = \<lparr>client_host = Some ''127.0.0.1'', header = (\<lambda>n. if n = ''host'' then Some ''localhost:8191'' else None),
     http_method = ''GET'', http_path = ''/ready'', http_scheme = ''http''\<rparr>"

lemma demo_loopback: "is_loopback_host ''127.0.0.1''" "is_loopback_host ''localhost''"
  by (simp_all add: is_loopback_host_def text_eval address_eval, code_simp)

lemma demo_local_passes: "tokenless_policy_error demo_local = None"
proof -
  have "request_origin demo_local = Some (''http'', ''localhost'', 8191)"
    using demo_loopback(2)
    by (simp add: request_origin_def demo_local_def url_eval text_eval port_or_default_def rstrip_dots_def)
  then show ?thesis
    using demo_loopback(1) by (simp add: tokenless_policy_error_def demo_local_def)
qed

lemma demo_settings: "\<exists>s. load_settings (\<lambda>_. []) True (\<lambda>_. None) = Inr s \<and> api_token s = None"
proof -
  obtain s where s: "load_settings (\<lambda>_. []) True (\<lambda>_. None) = Inr s"
    using default_settings_load by blast
  then have "api_token s = None" by (auto simp: load_settings_def and_then_Inr Let_def read_settings_def)
  with s show ?thesis by blast
qed

lemma tokenless_server_is_local_witness:
  "\<exists>s. api_token s = None \<and> is_loopback_host (set_host s) \<and> request_gate s demo_local = PassOn"
proof -
  obtain s where s: "load_settings (\<lambda>_. []) True (\<lambda>_. None) = Inr s" "api_token s = None" using demo_settings by blast
  then have "request_gate s demo_local = PassOn"
    using demo_local_passes by (simp add: request_gate_def nonempty_def)
  then show ?thesis using tokenless_server_is_local [OF s(1)] s(2) by (auto simp: nonempty_def)
qed

definition demo_guarded :: settings where
  "demo_guarded = (read_settings (\<lambda>_. None) Virtual ''none'')\<lparr>api_token := Some ''t''\<rparr>"

definition demo_bearer :: http_request where
  "demo_bearer = demo_local\<lparr>header := (\<lambda>n. if n = ''authorization'' then Some ''Bearer t'' else None)\<rparr>"

lemma token_gate_witness:
  "\<exists>scheme. header demo_bearer ''authorization'' = Some (scheme @ '' '' @ ''t'') \<and> str_lower scheme = ''bearer''"
proof -
  have "str_lower ''Bearer'' = ''bearer''" by code_simp
  then have "request_gate demo_guarded demo_bearer = PassOn"
    by (simp add: request_gate_def demo_guarded_def demo_bearer_def demo_local_def nonempty_def api_token_matches_def
        api_token_from_request_def compare_digest_def is_ascii_def ord_def)
  then show ?thesis
    using token_gate [of demo_guarded "''t''" demo_bearer] by (simp add: demo_guarded_def demo_bearer_def demo_local_def)
qed

lemma non_ascii_token_raises_witness:
  "request_gate demo_guarded (demo_local\<lparr>header := (\<lambda>n. if n = ''x-api-token'' then Some [char_of (233::nat)] else None)\<rparr>)
     = Raised (OtherError ''TypeError'' ''comparing strings with non-ASCII characters is not supported'')"
  by (rule non_ascii_token_raises [where token = "''t''" and supplied = "[char_of (233::nat)]"])
    (simp_all add: demo_guarded_def demo_local_def is_ascii_def ord_def)


end
