(* ===== verification/Http_Rules.thy ===== *)
theory Http_Rules
  imports Models
begin

text \<open>
  The rules of the HTTP transport (\<open>camouflare/http_transport.py\<close>): which targets and proxies it
  accepts, what it puts on the wire, how it names failures and which headers follow a redirect.
\<close>

unbundle bit_operations_syntax

section \<open>Public addresses\<close>

definition in_nat64 :: "128 word \<Rightarrow> bool" where
  "in_nat64 a = in_net6 a (push_bit 96 0x0064FF9B, 96)"

definition sixtofour :: "128 word \<Rightarrow> 32 word option" where
  "sixtofour a = (if drop_bit 112 a = 0x2002 then Some (ucast (drop_bit 80 a)) else None)"

definition is_public4 :: "32 word \<Rightarrow> bool" where
  "is_public4 a \<longleftrightarrow> is_global (V4 a) \<and> \<not> is_multicast (V4 a)"

fun is_public_address :: "ip_addr \<Rightarrow> bool" where
  "is_public_address (V4 a) = is_public4 a"
| "is_public_address (V6 a scope) =
     (case ipv4_mapped a of
        Some b \<Rightarrow> is_public4 b
      | None \<Rightarrow>
          if in_nat64 a then is_public4 (ucast a)
          else if (case sixtofour a of Some b \<Rightarrow> \<not> is_public4 b | None \<Rightarrow> False) then False
          else is_global (V6 a scope) \<and> \<not> is_multicast (V6 a scope))"

definition strip_brackets :: "string \<Rightarrow> string" where
  "strip_brackets s = strip_chars (\<lambda>c. c = CHR ''['' \<or> c = CHR '']'') s"

definition ip_literal :: "string option \<Rightarrow> ip_addr option" where
  "ip_literal host = (if \<not> nonempty host then None else ip_address (strip_brackets (the host)))"

definition private_target_error :: "string \<Rightarrow> exn" where
  "private_target_error host =
     invalid_request (''Target host '' @ q host
       @ '' resolves to a private, loopback, link-local, or otherwise non-public address.'')"

section \<open>Target URLs\<close>

definition url_parameter_error :: "string \<Rightarrow> exn" where
  "url_parameter_error rest = invalid_request (''Request parameter '' @ q ''url'' @ rest)"

definition clean_url :: "string option \<Rightarrow> exn + string" where
  "clean_url url =
     (if \<not> nonempty url then Inl (url_parameter_error '' is mandatory.'')
      else let cleaned = unquote_marks (the url);
               invalid = url_parameter_error '' must be a valid absolute http or https URL.'' in
        if has_control cleaned then Inl invalid
        else case urlsplit cleaned of
          Inl _ \<Rightarrow> Inl invalid
        | Inr parsed \<Rightarrow> (case url_port parsed of
            Inl _ \<Rightarrow> Inl invalid
          | Inr _ \<Rightarrow>
              if str_lower (url_scheme parsed) \<notin> {''http'', ''https''}
              then Inl (url_parameter_error '' must use the http or https scheme.'')
              else if \<not> http_hostname_ok parsed then Inl invalid
              else Inr cleaned))"

definition quote_url_for_http :: "string \<Rightarrow> exn + string" where
  "quote_url_for_http url = and_then (urlsplit url) (\<lambda>u. Inr (urlunsplit
     (u\<lparr>url_path := quote ''/%'' (url_path u), url_query := quote ''=&?/%+;,:'' (url_query u),
        url_fragment := quote ''=&?/%+;,:'' (url_fragment u)\<rparr>)))"

text \<open>\<open>_wire_url\<close>: an ASCII host is kept, another is IDNA encoded.\<close>

definition wire_url :: "externals \<Rightarrow> string \<Rightarrow> exn + string" where
  "wire_url x url =
     and_then (quote_url_for_http url) (\<lambda>quoted.
     and_then (urlsplit quoted) (\<lambda>u.
       let hostname = (case url_hostname u of None \<Rightarrow> [] | Some h \<Rightarrow> h) in
       if is_ascii hostname then Inr (urlunsplit u)
       else case idna_encode x hostname of
         None \<Rightarrow> Inl (url_parameter_error '' has an invalid internationalized hostname.'')
       | Some ascii_host \<Rightarrow>
           and_then (url_port u) (\<lambda>port.
             let netloc = (case port of None \<Rightarrow> ascii_host | Some p \<Rightarrow> ascii_host @ '':'' @ nat_str p);
                 userinfo = (case url_username u of None \<Rightarrow> []
                   | Some n \<Rightarrow> n @ (case url_password u of None \<Rightarrow> [] | Some p \<Rightarrow> '':'' @ p) @ ''@'')
             in Inr (urlunsplit (u\<lparr>url_netloc := userinfo @ netloc\<rparr>)))))"

definition url_default_port :: "split_url \<Rightarrow> nat" where
  "url_default_port u = (if str_lower (url_scheme u) = ''https'' then 443 else 80)"

definition bracketed_host_header :: "string \<Rightarrow> exn + string option" where
  "bracketed_host_header wire =
     and_then (urlsplit wire) (\<lambda>u. case url_hostname u of
       None \<Rightarrow> Inr None
     | Some host \<Rightarrow>
         if CHR '':'' \<notin> set host then Inr None
         else and_then (url_port u) (\<lambda>port. Inr (Some (''['' @ host @ '']'' @
           (case port of None \<Rightarrow> [] | Some p \<Rightarrow> if p = url_default_port u then [] else '':'' @ nat_str p)))))"

type_synonym url_origin = "string \<times> string \<times> nat"

definition url_origin_of :: "string \<Rightarrow> exn + url_origin" where
  "url_origin_of url = and_then (urlsplit url) (\<lambda>u. and_then (url_port u) (\<lambda>port.
     Inr (str_lower (url_scheme u), str_lower (case url_hostname u of None \<Rightarrow> [] | Some h \<Rightarrow> h),
          (case port of None \<Rightarrow> url_default_port u | Some p \<Rightarrow> if p = 0 then url_default_port u else p))))"

definition safe_url_origin :: "string \<Rightarrow> url_origin option" where
  "safe_url_origin url = (case url_origin_of url of Inl _ \<Rightarrow> None | Inr origin \<Rightarrow> Some origin)"

text \<open>\<open>_redirect_url\<close>: \<open>None\<close> when the location cannot be requested.\<close>

definition redirect_url :: "string \<Rightarrow> string \<Rightarrow> string option" where
  "redirect_url current location = (case urljoin current location of
     Inl _ \<Rightarrow> None
   | Inr joined \<Rightarrow> (case clean_url (Some joined) of Inl _ \<Rightarrow> None | Inr url \<Rightarrow> Some url))"

section \<open>Headers\<close>

type_synonym headers = "(string \<times> string) list"

definition has_header :: "headers \<Rightarrow> string \<Rightarrow> bool" where
  "has_header hs name = list_ex (\<lambda>(n, v). str_lower n = str_lower name) hs"

definition set_default_header :: "string \<Rightarrow> string \<Rightarrow> headers \<Rightarrow> headers" where
  "set_default_header name value hs = (if has_header hs name then hs else dict_set name value hs)"

definition header_value :: "headers \<Rightarrow> string \<Rightarrow> string option" where
  "header_value hs name = (case filter (\<lambda>(n, v). str_lower n = str_lower name) hs of [] \<Rightarrow> None | (n, v) # _ \<Rightarrow> Some v)"

definition DEFAULT_HEADERS :: headers where
  "DEFAULT_HEADERS =
     [(''User-Agent'', ''Mozilla/5.0 (Windows NT 10.0; Win64; x64) AppleWebKit/537.36 (KHTML, like Gecko) Chrome/122.0.0.0 Safari/537.36''),
      (''Accept'', ''text/html,application/xhtml+xml,application/xml;q=0.9,*/*;q=0.8''),
      (''Accept-Language'', ''tr-TR,tr;q=0.9,en-US;q=0.8,en;q=0.7''),
      (''Accept-Encoding'', ''gzip, deflate'')]"

definition with_default_headers :: "headers \<Rightarrow> headers" where
  "with_default_headers hs = fold (\<lambda>(n, v). set_default_header n v) DEFAULT_HEADERS hs"

text \<open>Headers bound to the target's origin leave with a redirect to another one.\<close>

definition headers_for_origin :: "headers \<Rightarrow> string set \<Rightarrow> url_origin \<Rightarrow> string \<Rightarrow> headers" where
  "headers_for_origin hs bound target_origin url =
     (if safe_url_origin url = Some target_origin then hs
      else filter (\<lambda>(n, v). str_lower n \<notin> bound) hs)"

section \<open>Proxies\<close>

definition proxy_server_url :: "(string \<times> string) list \<Rightarrow> exn + string" where
  "proxy_server_url proxy =
     (let server = the (dict_get proxy ''server'');
          server = (if contains ''://'' server then server else ''http://'' @ server) in
      and_then (urlsplit server) (\<lambda>u.
        if str_lower (url_scheme u) \<notin> {''http'', ''https'', ''socks5'', ''socks5h''}
        then Inl (invalid_request ''The HTTP transport supports HTTP, HTTPS, and SOCKS5 proxies.'')
        else Inr server))"

text \<open>The URL and the credentials handed to httpcore.\<close>

definition httpcore_proxy :: "(string \<times> string) list \<Rightarrow> exn + string \<times> (nat list \<times> nat list) option" where
  "httpcore_proxy proxy = and_then (proxy_server_url proxy) (\<lambda>server.
     let username = dict_get proxy ''username''; password = dict_get proxy ''password'';
         encode = (\<lambda>v. concat (map utf8_bytes (case v of None \<Rightarrow> [] | Some s \<Rightarrow> s))) in
     Inr (server, if username \<noteq> None \<or> password \<noteq> None then Some (encode username, encode password) else None))"

section \<open>Failures\<close>

definition transport_error :: "string \<Rightarrow> v1_error_code \<Rightarrow> bool \<Rightarrow> exn" where
  "transport_error msg code retry = CamouflareError (camouflare_error_with msg code retry)"

definition shutting_down_error :: exn where
  "shutting_down_error = transport_error ''The HTTP transport is shutting down.'' POOL_UNAVAILABLE True"

definition exn_message :: "exn \<Rightarrow> string" where
  "exn_message e = (if exn_str e = [] then exn_class_name e else exn_str e)"

fun is_network_failure :: "exn \<Rightarrow> bool" where
  "is_network_failure (NetError c m) = (c \<in> {HttpcoreTimeout, ConnectError, NetworkError, RemoteProtocolError})"
| "is_network_failure e = is_TimeoutError e"

definition proxy_phase_error :: "exn \<Rightarrow> string \<Rightarrow> exn" where
  "proxy_phase_error e message =
     (if is_TimeoutError e \<or> (case e of NetError HttpcoreTimeout m \<Rightarrow> True | _ \<Rightarrow> False)
      then transport_error ''Timed out connecting through the proxy.'' PROXY_CONNECTION_ERROR True
      else transport_error (''The proxy connection failed: '' @ message) PROXY_CONNECTION_ERROR
             (\<not> contains ''CERTIFICATE_VERIFY_FAILED'' message))"

text \<open>\<open>str.isdigit\<close> also holds of the superscript digits, for which \<open>int\<close> raises.\<close>

definition uni_digit :: "char \<Rightarrow> bool" where
  "uni_digit c \<longleftrightarrow> is_digit c \<or> ord c \<in> {178, 179, 185}"

definition proxy_error :: "string \<Rightarrow> exn" where
  "proxy_error message =
     (if list_ex (\<lambda>failure. contains failure message)
           [''Network unreachable'', ''Host unreachable'', ''Connection refused'', ''TTL expired'']
         \<or> take 4 message \<in> {''502 '', ''504 ''}
      then transport_error (''The proxy could not reach the target: '' @ message) TARGET_UNREACHABLE True
      else let code = take 3 message;
               has_status = (code \<noteq> [] \<and> list_all uni_digit code \<and> take 1 (drop 3 message) = '' '') in
        if has_status \<and> \<not> list_all is_digit code
        then ValueError (''invalid literal for int() with base 10: '' @ code)
        else if contains ''username/password'' (str_lower message)
             \<or> has_status \<and> 400 \<le> digits_value code \<and> digits_value code < 500
        then transport_error (''The proxy refused the request: '' @ message) PROXY_CONNECTION_ERROR False
        else transport_error (''The proxy connection failed: '' @ message) PROXY_CONNECTION_ERROR True)"

definition connect_error :: "string \<Rightarrow> exn" where
  "connect_error message =
     (if contains ''CERTIFICATE_VERIFY_FAILED'' message
      then transport_error (''The target TLS certificate could not be verified: '' @ message) TARGET_UNREACHABLE False
      else if contains ''SSL'' message \<or> contains ''TLS'' message
      then transport_error (''TLS handshake with the target failed: '' @ message) TARGET_UNREACHABLE True
      else transport_error (''Could not connect to the target: '' @ message) TARGET_UNREACHABLE True)"

text \<open>\<open>None\<close>: an unexpected exception that is raised as it is.\<close>

definition classify_transport_error :: "bool \<Rightarrow> bool \<Rightarrow> exn \<Rightarrow> exn option" where
  "classify_transport_error proxied tunnel_open e =
     (let message = exn_message e in
      case e of
        NetError ProxyError _ \<Rightarrow> Some (proxy_error message)
      | NetError LocalProtocolError _ \<Rightarrow> Some (invalid_request (''The HTTP request is invalid: '' @ message))
      | NetError SocksError _ \<Rightarrow> Some (proxy_phase_error e message)
      | _ \<Rightarrow>
          if proxied \<and> \<not> tunnel_open \<and> is_network_failure e then Some (proxy_phase_error e message)
          else if is_TimeoutError e \<or> (case e of NetError HttpcoreTimeout _ \<Rightarrow> True | _ \<Rightarrow> False)
          then Some (transport_error ''HTTP request timed out before the target responded.'' NAVIGATION_TIMEOUT True)
          else case e of
            NetError ConnectError _ \<Rightarrow> Some (connect_error message)
          | NetError NetworkError _ \<Rightarrow> Some (transport_error (''The target connection failed: '' @ message) TARGET_UNREACHABLE True)
          | NetError RemoteProtocolError _ \<Rightarrow>
              Some (transport_error (''The target connection failed: '' @ message) TARGET_UNREACHABLE True)
          | _ \<Rightarrow> None)"

end
