(* ===== verification/Http_Fetch.thy ===== *)
theory Http_Fetch
  imports Http_Rules
begin

text \<open>
  One stateless exchange of the HTTP transport (\<open>HttpTransport._fetch\<close> and the body reader of
  \<open>camouflare/http_transport.py\<close>).  What is not under \<open>src/\<close> is a parameter: the answer of the
  connector to the hop with a given number, the clock, the standard cookie jar, and the content
  decoders, each a step function on its own state.  The redirect loop keeps the hops it sent.
\<close>

section \<open>Requests and answers\<close>

datatype body_mode = FullBody | PrefixBody | NoBody

record http_fetch =
  fetch_url :: string
  fetch_method :: string
  fetch_headers :: headers
  origin_bound :: "string set"
  fetch_proxy :: "(string \<times> string) list option"
  max_redirects :: nat
  max_body_bytes :: nat
  fetch_body :: body_mode
  require_https :: bool
  block_private_targets :: bool

record hop_request =
  hop_method :: string
  hop_url :: string
  hop_headers :: headers
  hop_timeout :: time

record hop_response =
  hop_status :: nat
  response_headers :: headers
  chunks :: "string list"

section \<open>Reading a body\<close>

text \<open>A generator of chunks: what it yields and how it ends.  The consumer asks for one chunk at a
  time, so what follows a stop is never produced.\<close>

datatype stream_end = StreamDone | PrefixComplete | StreamError exn

type_synonym chunk_stream = "string list \<times> stream_end"

definition stream_limit_error :: "string \<Rightarrow> nat \<Rightarrow> exn" where
  "stream_limit_error label maximum =
     ResourceLimitError (label @ '' exceeds the configured '' @ nat_str maximum @ ''-byte limit.'')"

fun limited_chunks :: "string \<Rightarrow> nat \<Rightarrow> bool \<Rightarrow> nat \<Rightarrow> string list \<Rightarrow> stream_end \<Rightarrow> chunk_stream" where
  "limited_chunks label maximum prefix_only received [] e = ([], e)"
| "limited_chunks label maximum prefix_only received (c # cs) e =
     (let available = maximum - received in
      if length c > available
      then (if \<not> prefix_only then ([], StreamError (stream_limit_error label maximum))
            else (if available > 0 then [take available c] else [], PrefixComplete))
      else case limited_chunks label maximum prefix_only (received + length c) cs e of (ds, e') \<Rightarrow> (c # ds, e'))"

text \<open>A decoder: one call returns the output, whether more is pending, and the new state, or fails;
  \<open>finish\<close> tells whether the encoding was complete.\<close>

record 'd decoder =
  decoder_state :: 'd
  decompress :: "'d \<Rightarrow> string \<Rightarrow> exn + string \<times> bool \<times> 'd"
  finish :: "'d \<Rightarrow> exn option"

definition deadline_error :: exn where
  "deadline_error = TimeoutError ''HTTP request exceeded the request deadline.''"

text \<open>The inner loop of \<open>_decoded_body_chunks\<close> for one input chunk.  Every turn checks the deadline, which
  passes after \<open>turns\<close> of them.\<close>

fun drain :: "('d \<Rightarrow> string \<Rightarrow> exn + string \<times> bool \<times> 'd) \<Rightarrow> nat \<Rightarrow> 'd \<Rightarrow> string
    \<Rightarrow> string list \<times> (exn + 'd)" where
  "drain step 0 st data = ([], Inl deadline_error)"
| "drain step (Suc turns) st data =
     (case step st data of
        Inl e \<Rightarrow> ([], Inl e)
      | Inr (out, pending, st') \<Rightarrow>
          (let more = (if pending then drain step turns st' [] else ([], Inr st')) in
           (if out = [] then fst more else out # fst more, snd more)))"

fun decoded_chunks :: "'d decoder \<Rightarrow> nat \<Rightarrow> string list \<Rightarrow> stream_end \<Rightarrow> chunk_stream" where
  "decoded_chunks d turns [] e =
     (case e of StreamDone \<Rightarrow> (case finish d (decoder_state d) of None \<Rightarrow> ([], StreamDone) | Some x \<Rightarrow> ([], StreamError x))
      | _ \<Rightarrow> ([], e))"
| "decoded_chunks d turns (c # cs) e =
     (case drain (decompress d) turns (decoder_state d) c of
        (out, Inl x) \<Rightarrow> (out, StreamError x)
      | (out, Inr st) \<Rightarrow>
          (case decoded_chunks (d\<lparr>decoder_state := st\<rparr>) turns cs e of (ds, e') \<Rightarrow> (out @ ds, e')))"

definition decode_layer :: "nat \<Rightarrow> bool \<Rightarrow> nat \<Rightarrow> 'd decoder \<Rightarrow> chunk_stream \<Rightarrow> chunk_stream" where
  "decode_layer maximum prefix_only turns d s =
     (case decoded_chunks d turns (fst s) (snd s) of (cs, e) \<Rightarrow>
        limited_chunks ''Decoded response body'' maximum prefix_only 0 cs e)"

definition decode_body :: "nat \<Rightarrow> bool \<Rightarrow> nat \<Rightarrow> 'd decoder list \<Rightarrow> string list \<Rightarrow> exn + string" where
  "decode_body maximum prefix_only turns ds wire =
     (case fold (decode_layer maximum prefix_only turns) ds
             (limited_chunks ''Response body'' maximum prefix_only 0 wire StreamDone) of
        (cs, StreamError e) \<Rightarrow> Inl e
      | (cs, _) \<Rightarrow> Inr (concat cs))"

definition http_decode_error :: "string \<Rightarrow> exn" where
  "http_decode_error msg =
     CamouflareError ((camouflare_error_with msg RESPONSE_DECODE_ERROR False)\<lparr>err_class := HttpDecodeErrorClass\<rparr>)"

section \<open>Content codings\<close>

definition all_values :: "headers \<Rightarrow> string \<Rightarrow> string list" where
  "all_values hs name = map snd (filter (\<lambda>(n, v). str_lower n = str_lower name) hs)"

definition content_codings :: "headers \<Rightarrow> string list" where
  "content_codings hs =
     map (\<lambda>c. if c = ''x-gzip'' then ''gzip'' else c)
       (filter (\<lambda>c. c \<noteq> [] \<and> c \<noteq> ''identity'')
         (map (\<lambda>t. str_lower (str_strip t))
           (concat (map (split_on (CHR '','')) (all_values hs ''Content-Encoding'')))))"

datatype coding = Gzip | Deflate

text \<open>The decoders in removal order: the last coding applied comes off first.\<close>

fun decoders_of :: "string list \<Rightarrow> exn + coding list" where
  "decoders_of [] = Inr []"
| "decoders_of (c # cs) =
     (if c = ''gzip'' then and_then (decoders_of cs) (\<lambda>ds. Inr (Gzip # ds))
      else if c = ''deflate'' then and_then (decoders_of cs) (\<lambda>ds. Inr (Deflate # ds))
      else Inl (http_decode_error (''HTTP response uses unsupported content encoding '' @ q (take 64 c) @ ''.'')))"

definition MAX_CONTENT_CODINGS :: nat where
  "MAX_CONTENT_CODINGS = 4"

definition content_decoders :: "string list \<Rightarrow> exn + coding list" where
  "content_decoders codings =
     (if length codings > MAX_CONTENT_CODINGS
      then Inl (http_decode_error (''HTTP response uses more than '' @ nat_str MAX_CONTENT_CODINGS @ '' content encodings.''))
      else decoders_of (rev codings))"

text \<open>An RFC 1950 header: method 8, window at most 7, and a multiple of 31.\<close>

definition has_zlib_header :: "8 word \<Rightarrow> 8 word \<Rightarrow> bool" where
  "has_zlib_header cmf flags \<longleftrightarrow>
     cmf AND 0x0F = 8 \<and> drop_bit 4 cmf \<le> 7 \<and> (unat cmf * 256 + unat flags) mod 31 = 0"

definition declared_oversize :: "headers \<Rightarrow> nat \<Rightarrow> exn + unit" where
  "declared_oversize hs maximum =
     (let declared = str_strip (case all_values hs ''Content-Length'' of [] \<Rightarrow> [] | v # _ \<Rightarrow> v) in
      if declared = [] \<or> \<not> list_all uni_digit declared then Inr ()
      else if \<not> list_all is_digit declared then Inl (ValueError (''invalid literal for int() with base 10: '' @ declared))
      else if digits_value declared > maximum then Inl (stream_limit_error ''Response body'' maximum)
      else Inr ())"

text \<open>The chunks taken off the wire: empty ones are skipped, and none is read past the limit.\<close>

fun take_wire :: "nat \<Rightarrow> nat \<Rightarrow> string list \<Rightarrow> string list" where
  "take_wire maximum received [] = []"
| "take_wire maximum received (c # cs) =
     (if c = [] then take_wire maximum received cs
      else c # (if received + length c > maximum then [] else take_wire maximum (received + length c) cs))"

definition read_body ::
    "(coding \<Rightarrow> 'd decoder) \<Rightarrow> nat \<Rightarrow> string \<Rightarrow> body_mode \<Rightarrow> nat \<Rightarrow> hop_response \<Rightarrow> exn + string \<times> bool" where
  "read_body decoder_for turns verb mode maximum r =
     (if verb = ''HEAD'' \<or> mode = NoBody \<or> hop_status r \<in> {204, 304} then Inr ([], False)
      else and_then (content_decoders (content_codings (response_headers r))) (\<lambda>codings.
        and_then (if mode = PrefixBody then Inr () else declared_oversize (response_headers r) maximum) (\<lambda>_.
        and_then (decode_body maximum (mode = PrefixBody) turns (map decoder_for codings)
                    (take_wire maximum 0 (chunks r))) (\<lambda>body.
          Inr (body, codings \<noteq> [])))))"

section \<open>The redirect loop\<close>

text \<open>What the exchange meets outside: answers, clock readings and the cookie jar.\<close>

record 'j http_world =
  answer :: "nat \<Rightarrow> hop_request \<Rightarrow> exn + hop_response"
  clock :: "nat \<Rightarrow> time"
  jar_header :: "'j \<Rightarrow> string \<Rightarrow> string option"
  jar_extract :: "'j \<Rightarrow> headers \<Rightarrow> string \<Rightarrow> 'j"

record 'j http_result =
  result_url :: string
  result_status :: nat
  result_headers :: headers
  result_body :: string
  content_decoded :: bool
  result_jar :: 'j
  result_user_agent :: "string option"

definition REDIRECT_STATUSES :: "nat set" where
  "REDIRECT_STATUSES = {301, 302, 303, 307, 308}"

definition check_target :: "http_fetch \<Rightarrow> bool \<Rightarrow> bool \<Rightarrow> string \<Rightarrow> exn + unit" where
  "check_target r block_private redirected url = and_then (urlsplit url) (\<lambda>u.
     if require_https r \<and> str_lower (url_scheme u) \<noteq> ''https''
     then Inl (invalid_request ((if redirected then ''A redirect target'' else ''Request parameter '' @ q ''url'')
            @ '' must use https for the HTTP transport.''))
     else if block_private
       \<and> (case ip_literal (url_hostname u) of None \<Rightarrow> False | Some literal \<Rightarrow> \<not> is_public_address literal)
     then Inl (private_target_error (the (url_hostname u)))
     else Inr ())"

text \<open>The jar's cookies and the host header are added only where the caller gave none.\<close>

definition add_cookie_header :: "string option \<Rightarrow> headers \<Rightarrow> headers" where
  "add_cookie_header cookie hs =
     (if has_header hs ''Cookie'' then hs else case cookie of None \<Rightarrow> hs | Some c \<Rightarrow> dict_set ''Cookie'' c hs)"

definition add_host_header :: "string option \<Rightarrow> headers \<Rightarrow> headers" where
  "add_host_header host hs =
     (case host of None \<Rightarrow> hs | Some h \<Rightarrow> if has_header hs ''Host'' then hs else (''Host'', h) # hs)"

definition build_hop ::
    "externals \<Rightarrow> ('j, 'm) http_world_scheme \<Rightarrow> http_fetch \<Rightarrow> time \<Rightarrow> url_origin \<Rightarrow> nat \<Rightarrow> string \<Rightarrow> 'j \<Rightarrow> exn + hop_request" where
  "build_hop x w r deadline target_origin n current jar =
     (let hs = headers_for_origin (fetch_headers r) (origin_bound r) target_origin current in
      and_then (quote_url_for_http current) (\<lambda>cookie_url.
      let hs = add_cookie_header (jar_header w jar cookie_url) hs in
      and_then (wire_url x current) (\<lambda>wire.
      and_then (bracketed_host_header wire) (\<lambda>host.
      let hs = add_host_header host hs;
          remaining = deadline - clock w n in
      if remaining \<le> 0 then Inl deadline_error
      else Inr \<lparr>hop_method = fetch_method r, hop_url = wire, hop_headers = hs, hop_timeout = remaining\<rparr>))))"

definition next_url :: "http_fetch \<Rightarrow> nat \<Rightarrow> string \<Rightarrow> hop_response \<Rightarrow> string option" where
  "next_url r left current resp =
     (case all_values (response_headers resp) ''Location'' of
        [] \<Rightarrow> None
      | location # _ \<Rightarrow>
          if hop_status resp \<in> REDIRECT_STATUSES \<and> location \<noteq> [] \<and> left > 0 then redirect_url current location else None)"

type_synonym trace = "(string \<times> hop_request) list"

fun fetch_loop ::
    "externals \<Rightarrow> ('j, 'm) http_world_scheme \<Rightarrow> (coding \<Rightarrow> 'd decoder) \<Rightarrow> nat \<Rightarrow> http_fetch \<Rightarrow> bool \<Rightarrow> time \<Rightarrow> url_origin
     \<Rightarrow> nat \<Rightarrow> nat \<Rightarrow> string \<Rightarrow> 'j \<Rightarrow> trace \<times> (exn + 'j http_result)" where
  "fetch_loop x w dec turns r block deadline origin left n current jar =
     (case build_hop x w r deadline origin n current jar of
        Inl e \<Rightarrow> ([], Inl e)
      | Inr hop \<Rightarrow> (case answer w n hop of
          Inl e \<Rightarrow> ([(current, hop)], Inl e)
        | Inr resp \<Rightarrow>
            (case quote_url_for_http current of
               Inl e \<Rightarrow> ([(current, hop)], Inl e)
             | Inr cookie_url \<Rightarrow>
                 (let jar' = jar_extract w jar (response_headers resp) cookie_url in
                  case (next_url r left current resp, left) of
                    (Some url, Suc left') \<Rightarrow>
                      (case check_target r block True url of
                         Inl e \<Rightarrow> ([(current, hop)], Inl e)
                       | Inr _ \<Rightarrow> (case fetch_loop x w dec turns r block deadline origin left' (Suc n) url jar' of
                           (t, res) \<Rightarrow> ((current, hop) # t, res)))
                  | _ \<Rightarrow> ([(current, hop)],
                      and_then (read_body dec turns (fetch_method r) (fetch_body r) (max_body_bytes r) resp)
                        (\<lambda>(body, decoded). Inr
                          \<lparr>result_url = cookie_url, result_status = hop_status resp,
                           result_headers = response_headers resp, result_body = body, content_decoded = decoded,
                           result_jar = jar', result_user_agent = header_value (fetch_headers r) ''User-Agent''\<rparr>))))))"

definition fetch ::
    "externals \<Rightarrow> ('j, 'm) http_world_scheme \<Rightarrow> (coding \<Rightarrow> 'd decoder) \<Rightarrow> nat \<Rightarrow> http_fetch \<Rightarrow> time \<Rightarrow> 'j
     \<Rightarrow> trace \<times> (exn + 'j http_result)" where
  "fetch x w dec turns r deadline jar =
     (case and_then (case fetch_proxy r of None \<Rightarrow> Inr [] | Some p \<Rightarrow> proxy_server_url p) (\<lambda>_.
             and_then (clean_url (Some (fetch_url r))) (\<lambda>url.
             and_then (check_target r (block_private_targets r \<and> fetch_proxy r = None) False url) (\<lambda>_.
             and_then (url_origin_of url) (\<lambda>origin. Inr (url, origin))))) of
        Inl e \<Rightarrow> ([], Inl e)
      | Inr (url, origin) \<Rightarrow>
          fetch_loop x w dec turns r (block_private_targets r \<and> fetch_proxy r = None) deadline origin (max_redirects r) 0 url jar)"

section \<open>Connecting to vetted addresses\<close>

text \<open>\<open>PublicAddressBackend.connect_tcp\<close>: the resolver's answer, the vetting, and the attempts in order.
  \<open>connect\<close> is the inner backend; the result lists the addresses it was asked to connect to.\<close>

fun try_addresses :: "(string \<Rightarrow> exn + 'c) \<Rightarrow> exn \<Rightarrow> string list \<Rightarrow> string list \<times> (exn + 'c)" where
  "try_addresses connect last_error [] = ([], Inl last_error)"
| "try_addresses connect last_error (a # as) =
     (case connect a of
        Inr c \<Rightarrow> ([a], Inr c)
      | Inl (NetError k m) \<Rightarrow>
          if k = ConnectError \<or> k = HttpcoreTimeout
          then (case try_addresses connect (NetError k m) as of (t, r) \<Rightarrow> (a # t, r))
          else ([a], Inl (NetError k m))
      | Inl e \<Rightarrow> ([a], Inl e))"

definition connect_public ::
    "(string \<Rightarrow> exn + string list) \<Rightarrow> (string \<Rightarrow> exn + 'c) \<Rightarrow> string \<Rightarrow> string list \<times> (exn + 'c)" where
  "connect_public resolve connect host =
     (case resolve host of
        Inl e \<Rightarrow> ([], Inl (if is_TimeoutError e then NetError HttpcoreTimeout (''Timed out resolving '' @ host @ ''.'')
                          else case e of OtherError c m \<Rightarrow>
                              if c = ''OSError'' then NetError ConnectError (''Could not resolve '' @ host @ '': '' @ m) else e
                            | _ \<Rightarrow> e))
      | Inr [] \<Rightarrow> ([], Inl (NetError ConnectError (''Could not resolve '' @ host @ ''.'')))
      | Inr addresses \<Rightarrow>
          (case filter (\<lambda>a. \<not> (case ip_address a of Some ip \<Rightarrow> is_public_address ip | None \<Rightarrow> False)) addresses of
             [] \<Rightarrow> try_addresses connect (NetError ConnectError []) addresses
           | a # _ \<Rightarrow> ([], Inl (case ip_address a of
                 None \<Rightarrow> ValueError (q a @ '' does not appear to be an IPv4 or IPv6 address'')
               | Some _ \<Rightarrow> private_target_error host))))"

end
