(* ===== verification/Http_Properties.thy ===== *)
theory Http_Properties
  imports Http_Fetch Model_Properties Config_Properties
begin

text \<open>
  What the HTTP transport guarantees of every exchange: where it connects, what it sends where, how
  often it follows a redirect, and how much of a body it returns.
\<close>

section \<open>Addresses\<close>

text \<open>The IPv4 addresses that reaching an address may mean.\<close>

fun embedded4 :: "ip_addr \<Rightarrow> 32 word set" where
  "embedded4 (V4 a) = {a}"
| "embedded4 (V6 a scope) = (case ipv4_mapped a of Some b \<Rightarrow> {b}
     | None \<Rightarrow> if in_nat64 a then {ucast a} else set_option (sixtofour a))"

text \<open>C31.  A public address embeds no private, shared or multicast IPv4 address: not as an IPv4-mapped address, not
  through NAT64 and not through 6to4.\<close>

theorem public_address_embeds_public:
  assumes "is_public_address addr" and "b \<in> embedded4 addr"
  shows "\<not> is_private4 b \<and> \<not> in_net4 b (0x64400000, 10) \<and> \<not> is_multicast (V4 b)"
proof -
  have "is_public4 b"
    using assms by (cases addr) (auto split: option.splits if_splits)
  then show ?thesis by (simp add: is_public4_def)
qed

lemma try_addresses_sub:
  "try_addresses connect e as = (t, r) \<Longrightarrow> set t \<subseteq> set as \<and> (\<forall>c. r = Inr c \<longrightarrow> t \<noteq> [] \<and> connect (last t) = Inr c)"
proof (induction connect e as arbitrary: t r rule: try_addresses.induct)
  case (2 connect e a as)
  show ?case
  proof (cases "connect a")
    case (Inr c)
    with 2(2) show ?thesis by auto
  next
    case (Inl x)
    show ?thesis
    proof (cases "\<exists>k m. x = NetError k m \<and> (k = ConnectError \<or> k = HttpcoreTimeout)")
      case True
      then obtain k m where x: "x = NetError k m" "k = ConnectError \<or> k = HttpcoreTimeout" by blast
      obtain t' r' where tr: "try_addresses connect (NetError k m) as = (t', r')" by fastforce
      with 2(2) Inl x have "t = a # t'" "r = r'" by auto
      with 2(1) [OF Inl x(1) x(2) tr] show ?thesis by auto
    next
      case False
      with 2(2) Inl show ?thesis by (cases x) auto
    qed
  qed
qed simp


section \<open>Redirects\<close>

lemma fetch_loop_cases:
  assumes "fetch_loop x w dec turns r block deadline origin left n current jar = (t, res)"
  obtains (none) "t = []"
  | (last_hop) hop where "build_hop x w r deadline origin n current jar = Inr hop" "t = [(current, hop)]"
  | (redirected) hop left' url jar' t' where "build_hop x w r deadline origin n current jar = Inr hop" "left = Suc left'"
      "check_target r block True url = Inr ()"
      "fetch_loop x w dec turns r block deadline origin left' (Suc n) url jar' = (t', res)" "t = (current, hop) # t'"
proof (cases "build_hop x w r deadline origin n current jar")
  case (Inl e)
  with assms have "t = []" by simp
  then show thesis by (rule none)
next
  case hop: (Inr hop)
  show thesis
  proof (cases "\<exists>resp cu url left'. answer w n hop = Inr resp \<and> quote_url_for_http current = Inr cu
        \<and> next_url r left current resp = Some url \<and> left = Suc left' \<and> check_target r block True url = Inr ()")
    case True
    then obtain resp cu url left' where s: "answer w n hop = Inr resp" "quote_url_for_http current = Inr cu"
      "next_url r left current resp = Some url" "left = Suc left'" "check_target r block True url = Inr ()" by blast
    obtain t' res' where rec: "fetch_loop x w dec turns r block deadline origin left' (Suc n) url
        (jar_extract w jar (response_headers resp) cu) = (t', res')" by fastforce
    with assms hop s have "t = (current, hop) # t'" "res = res'" by simp_all
    with rec show thesis using redirected [OF hop s(4,5)] by blast
  next
    case False
    have "t = [(current, hop)]"
    proof (cases "answer w n hop")
      case (Inr resp)
      show ?thesis
      proof (cases "quote_url_for_http current")
        case cu: (Inr cu)
        with False Inr assms hop show ?thesis
          by (cases left; cases "next_url r left current resp"; cases "check_target r block True (the (next_url r left current resp))")
            auto
      qed (use assms hop Inr in simp)
    qed (use assms hop in simp)
    with hop show thesis by (rule last_hop)
  qed
qed

definition hop_ok :: "externals \<Rightarrow> ('j, 'm) http_world_scheme \<Rightarrow> http_fetch \<Rightarrow> bool \<Rightarrow> time \<Rightarrow> url_origin \<Rightarrow> string \<times> hop_request \<Rightarrow> bool" where
  "hop_ok x w r block deadline origin p \<longleftrightarrow> (\<exists>red. check_target r block red (fst p) = Inr ())
     \<and> (\<exists>k j. build_hop x w r deadline origin k (fst p) j = Inr (snd p))"

lemma fetch_loop_trace:
  assumes "fetch_loop x w dec turns r block deadline origin left n current jar = (t, res)"
    and "check_target r block red current = Inr ()"
  shows "length t \<le> Suc left \<and> (\<forall>p \<in> set t. hop_ok x w r block deadline origin p)"
  using assms
proof (induction left arbitrary: n current jar t red)
  case 0
  from 0(1) show ?case
  proof (cases rule: fetch_loop_cases)
    case (last_hop hop)
    with 0(2) show ?thesis by (auto simp: hop_ok_def)
  qed auto
next
  case (Suc left)
  from Suc.prems(1) show ?case
  proof (cases rule: fetch_loop_cases)
    case (last_hop hop)
    with Suc.prems(2) show ?thesis by (auto simp: hop_ok_def)
  next
    case (redirected hop left' url jar' t')
    then have "length t' \<le> Suc left \<and> (\<forall>p \<in> set t'. hop_ok x w r block deadline origin p)"
      using Suc.IH by simp
    moreover have "hop_ok x w r block deadline origin (current, hop)"
      using redirected(1) Suc.prems(2) by (auto simp: hop_ok_def)
    ultimately show ?thesis using redirected(5) by simp
  qed simp
qed

lemma fetch_trace:
  assumes "fetch x w dec turns r deadline jar = (t, res)" and "t \<noteq> []"
  obtains url origin where "clean_url (Some (fetch_url r)) = Inr url" "url_origin_of url = Inr origin"
    "length t \<le> Suc (max_redirects r)"
    "\<forall>p \<in> set t. hop_ok x w r (block_private_targets r \<and> fetch_proxy r = None) deadline origin p"
proof -
  let ?block = "block_private_targets r \<and> fetch_proxy r = None"
  obtain url origin where u: "clean_url (Some (fetch_url r)) = Inr url" "url_origin_of url = Inr origin"
      "check_target r ?block False url = Inr ()"
    and l: "fetch_loop x w dec turns r ?block deadline origin (max_redirects r) 0 url jar = (t, res)"
    using assms unfolding fetch_def by (auto simp: and_then_Inr split: sum.splits)
  show thesis using fetch_loop_trace [OF l u(3)] u(1,2) that by blast
qed

text \<open>An exchange ends after at most \<open>max_redirects\<close> redirects: it sends at most one hop more.\<close>

theorem redirects_bounded:
  assumes "fetch x w dec turns r deadline jar = (t, res)"
  shows "length t \<le> Suc (max_redirects r)"
proof (cases "t = []")
  case False
  show ?thesis by (rule fetch_trace [OF assms False])
qed simp


lemma build_hop_headers:
  assumes "build_hop x w r deadline origin k url j = Inr hop" and "(n, v) \<in> set (hop_headers hop)"
  shows "(n, v) \<in> set (headers_for_origin (fetch_headers r) (origin_bound r) origin url) \<or> n = ''Cookie'' \<or> n = ''Host''"
proof -
  let ?hs = "headers_for_origin (fetch_headers r) (origin_bound r) origin url"
  have ds: "(n, v) \<in> set (dict_set k y d) \<Longrightarrow> (n, v) \<in> set d \<or> n = k" for k :: string and y :: string and d
    by (induction k y d rule: dict_set.induct) (auto split: if_splits)
  obtain cookie host where "hop_headers hop = add_host_header host (add_cookie_header cookie ?hs)"
    using assms(1) by (auto simp: build_hop_def Let_def and_then_Inr split: if_splits)
  with assms(2) have "(n, v) \<in> set (add_cookie_header cookie ?hs) \<or> n = ''Host''"
    by (auto simp: add_host_header_def split: option.splits if_splits)
  then show ?thesis using ds [of "''Cookie''"] by (auto simp: add_cookie_header_def split: option.splits if_splits)
qed


section \<open>Bodies\<close>

lemma limited_length:
  "limited_chunks l m p received cs e = (ds, e') \<Longrightarrow> received \<le> m \<Longrightarrow> received + length (concat ds) \<le> m"
  by (induction l m p received cs e arbitrary: ds e' rule: limited_chunks.induct)
    (fastforce simp: Let_def split: if_splits prod.splits)+

lemma decode_body_length:
  assumes "decode_body m p turns ds wire = Inr b"
  shows "length b \<le> m"
proof -
  let ?start = "limited_chunks ''Response body'' m p 0 wire StreamDone"
  have "length (concat (fst (fold (decode_layer m p turns) ds ?start))) \<le> m"
  proof (cases ds rule: rev_cases)
    case Nil
    then show ?thesis using limited_length [of _ m p 0] by (metis fold_simps(1) le0 plus_nat.add_0 prod.collapse)
  next
    case (snoc ds' d)
    obtain cs e where c: "decoded_chunks d turns (fst (fold (decode_layer m p turns) ds' ?start))
        (snd (fold (decode_layer m p turns) ds' ?start)) = (cs, e)" by fastforce
    obtain cs' e' where "limited_chunks ''Decoded response body'' m p 0 cs e = (cs', e')" by fastforce
    with limited_length [OF this] c snoc show ?thesis by (simp add: decode_layer_def)
  qed
  moreover have "b = concat (fst (fold (decode_layer m p turns) ds ?start))"
    using assms by (auto simp: decode_body_def split: prod.splits stream_end.splits)
  ultimately show ?thesis by simp
qed

text \<open>C37.  Whatever the server sends and the decoders produce, a body that is returned is within the byte limit.\<close>

theorem body_within_limit:
  assumes "read_body dec turns verb mode maximum resp = Inr (body, decoded)"
  shows "length body \<le> maximum"
  using assms by (auto simp: read_body_def and_then_Inr split: if_splits dest: decode_body_length)

lemma limited_full:
  assumes "limited_chunks l m False received cs StreamDone = (ds, e)" and "\<forall>x. e \<noteq> StreamError x" and "received \<le> m"
  shows "ds = cs \<and> received + length (concat cs) \<le> m"
  using assms
proof (induction cs arbitrary: received ds)
  case (Cons c cs)
  show ?case
  proof (cases "length c > m - received")
    case True
    with Cons.prems show ?thesis by (auto simp: Let_def)
  next
    case False
    obtain ds' where ds': "limited_chunks l m False (received + length c) cs StreamDone = (ds', e)" "ds = c # ds'"
      using Cons.prems(1) False by (auto simp: Let_def split: prod.splits)
    have "received + length c \<le> m" using False Cons.prems(3) by simp
    from Cons.IH [OF ds'(1) Cons.prems(2) this] ds'(2) show ?thesis by auto
  qed
qed simp

lemma take_wire_cases:
  "received \<le> m \<Longrightarrow> concat (take_wire m received cs) = concat cs \<or> received + length (concat (take_wire m received cs)) > m"
  by (induction m received cs rule: take_wire.induct) auto

text \<open>A full read of an uncoded body is never silently cut: it returns every byte of the stream, or fails.\<close>

theorem full_body_complete:
  assumes "read_body dec turns verb FullBody maximum resp = Inr (body, decoded)"
    and "content_codings (response_headers resp) = []" and "verb \<noteq> ''HEAD''" and "hop_status resp \<notin> {204, 304}"
  shows "body = concat (chunks resp) \<and> \<not> decoded"
proof -
  let ?wire = "take_wire maximum 0 (chunks resp)"
  have db: "decode_body maximum False turns (map dec []) ?wire = Inr body" "\<not> decoded"
    using assms by (auto simp: read_body_def content_decoders_def and_then_Inr MAX_CONTENT_CODINGS_def)
  obtain ds e where l: "limited_chunks ''Response body'' maximum False 0 ?wire StreamDone = (ds, e)" by fastforce
  have "\<forall>x. e \<noteq> StreamError x" "body = concat ds"
    using db(1) l by (auto simp: decode_body_def split: stream_end.splits)
  with limited_full [OF l] have "body = concat ?wire" "length (concat ?wire) \<le> maximum" by auto
  with take_wire_cases [of 0 maximum "chunks resp"] db(2) show ?thesis by auto
qed

section \<open>Failures\<close>

text \<open>Once a proxy has connected the hop to the target, a failure is named exactly as it is without a proxy.\<close>

theorem tunnel_failure_like_direct:
  "classify_transport_error True True e = classify_transport_error False opened e"
  by (simp add: classify_transport_error_def Let_def)

text \<open>Before that, a timeout or network failure of a proxied hop is reported as the proxy's, never as the
  target's.\<close>

theorem proxy_phase_failure:
  assumes "is_network_failure e"
  shows "\<exists>err. classify_transport_error True False e = Some (CamouflareError err)
    \<and> error_code err = PROXY_CONNECTION_ERROR"
proof (cases e)
  case (NetError c m)
  with assms show ?thesis
    by (cases c) (auto simp: classify_transport_error_def Let_def proxy_phase_error_def transport_error_def
        camouflare_error_with_def)
qed (use assms in \<open>auto simp: classify_transport_error_def Let_def proxy_phase_error_def transport_error_def
        camouflare_error_with_def\<close>)

section \<open>Examples\<close>

lemmas http_eval = clean_url_def unquote_marks_def has_control_def http_hostname_ok_def quote_url_for_http_def
  quote_def quote_char_def always_safe_def wire_url_def is_ascii_def bracketed_host_header_def url_origin_of_def
  url_default_port_def check_target_def ip_literal_def strip_brackets_def strip_chars_def nonempty_def

lemma demo_url_facts:
  assumes "u = ''https://a/'' \<or> u = ''https://b/''"
  shows "clean_url (Some u) = Inr u" "quote_url_for_http u = Inr u" "wire_url x u = Inr u"
    "url_origin_of u = Inr (''https'', [u ! 8], 443)" "bracketed_host_header u = Inr None"
    "redirect_url ''https://a/'' u = Some u"
proof -
  have "ip_address ''a'' = None" "ip_address ''b'' = None"
    by (simp_all add: address_eval text_eval ipv6_of_string_def ipv6_parts_def)
  show "clean_url (Some u) = Inr u" "quote_url_for_http u = Inr u"  "wire_url x u = Inr u"
    "url_origin_of u = Inr (''https'', [u ! 8], 443)" "bracketed_host_header u = Inr None"
    using assms by (elim disjE; simp add: http_eval url_eval text_eval)+
  show "redirect_url ''https://a/'' u = Some u"
    using assms by (elim disjE; simp add: redirect_url_def urljoin_def urlparse_def urlunparse_def uses_relative_def
        uses_params_def http_eval url_eval text_eval)
qed

definition demo_fetch :: http_fetch where
  "demo_fetch = \<lparr>fetch_url = ''https://a/'', fetch_method = ''GET'', fetch_headers = [(''X-Key'', ''k'')],
     origin_bound = {''x-key'', ''cookie''}, fetch_proxy = None, max_redirects = 1, max_body_bytes = 10, fetch_body = FullBody,
     require_https = True, block_private_targets = True\<rparr>"

definition demo_world :: "unit http_world" where
  "demo_world = \<lparr>answer = (\<lambda>n hop. Inr (if n = 0
       then \<lparr>hop_status = 302, response_headers = [(''Location'', ''https://b/'')], chunks = []\<rparr>
       else \<lparr>hop_status = 200, response_headers = [], chunks = [''hi'']\<rparr>)),
     clock = (\<lambda>n. 0), jar_header = (\<lambda>j u. if u = ''https://b/'' then Some ''c=1'' else None), jar_extract = (\<lambda>j h u. j)\<rparr>"

definition demo_hop_a :: hop_request where
  "demo_hop_a = \<lparr>hop_method = ''GET'', hop_url = ''https://a/'', hop_headers = [(''X-Key'', ''k'')], hop_timeout = 5\<rparr>"

definition demo_hop_b :: hop_request where
  "demo_hop_b = \<lparr>hop_method = ''GET'', hop_url = ''https://b/'', hop_headers = [(''Cookie'', ''c=1'')], hop_timeout = 5\<rparr>"

lemma demo_exchange:
  fixes dec :: "coding \<Rightarrow> unit decoder"
  shows "\<exists>res. fetch x demo_world dec 1 demo_fetch 5 () =
    ([(''https://a/'', demo_hop_a), (''https://b/'', demo_hop_b)], Inr res) \<and> result_body res = ''hi''"
proof -
  note A = demo_url_facts [of "''https://a/''", simplified] and B = demo_url_facts [of "''https://b/''", simplified]
  have o: "safe_url_origin ''https://a/'' = Some (''https'', ''a'', 443)" "safe_url_origin ''https://b/'' = Some (''https'', ''b'', 443)"
    by (simp_all add: safe_url_origin_def A B)
  have ip: "ip_address ''a'' = None" "ip_address ''b'' = None"
    by (simp_all add: address_eval text_eval ipv6_of_string_def ipv6_parts_def)
  have ct: "check_target demo_fetch True red ''https://a/'' = Inr ()" "check_target demo_fetch True red ''https://b/'' = Inr ()" for red
    by (simp_all add: demo_fetch_def http_eval url_eval text_eval ip)
  have ha: "build_hop x demo_world demo_fetch 5 (''https'', ''a'', 443) 0 ''https://a/'' () = Inr demo_hop_a"
    by (simp add: build_hop_def A headers_for_origin_def o add_cookie_header_def add_host_header_def)
      (simp add: demo_fetch_def demo_world_def demo_hop_a_def has_header_def text_eval)
  have hb: "build_hop x demo_world demo_fetch 5 (''https'', ''a'', 443) 1 ''https://b/'' () = Inr demo_hop_b"
    by (simp add: build_hop_def B headers_for_origin_def o add_cookie_header_def add_host_header_def)
      (simp add: demo_fetch_def demo_world_def demo_hop_b_def has_header_def text_eval)
  have rb: "read_body dec 1 ''GET'' FullBody 10 \<lparr>hop_status = 200, response_headers = [], chunks = [''hi'']\<rparr> = Inr (''hi'', False)"
    by (simp add: read_body_def content_codings_def all_values_def content_decoders_def MAX_CONTENT_CODINGS_def
        declared_oversize_def decode_body_def str_strip_def str_lstrip_def str_rstrip_def)
  have an: "answer demo_world 0 h = Inr \<lparr>hop_status = 302, response_headers = [(''Location'', ''https://b/'')], chunks = []\<rparr>"
    "answer demo_world (Suc 0) h = Inr \<lparr>hop_status = 200, response_headers = [], chunks = [''hi'']\<rparr>" for h
    by (simp_all add: demo_world_def)
  have nx: "next_url demo_fetch (Suc 0) ''https://a/'' \<lparr>hop_status = 302, response_headers = [(''Location'', ''https://b/'')], chunks = []\<rparr>
      = Some ''https://b/''"
    "next_url demo_fetch 0 ''https://b/'' \<lparr>hop_status = 200, response_headers = [], chunks = [''hi'']\<rparr> = None"
    by (simp_all add: next_url_def all_values_def REDIRECT_STATUSES_def B text_eval)
  have second: "\<exists>res. fetch_loop x demo_world dec 1 demo_fetch True 5 (''https'', ''a'', 443) 0 (Suc 0) ''https://b/'' () =
      ([(''https://b/'', demo_hop_b)], Inr res) \<and> result_body res = ''hi''"
    using rb by (simp add: hb [unfolded One_nat_def] B an nx demo_fetch_def [THEN arg_cong [where f = fetch_method]]
        demo_fetch_def [THEN arg_cong [where f = fetch_body]] demo_fetch_def [THEN arg_cong [where f = max_body_bytes]])
  then obtain res where res: "fetch_loop x demo_world dec 1 demo_fetch True 5 (''https'', ''a'', 443) 0 (Suc 0) ''https://b/'' () =
      ([(''https://b/'', demo_hop_b)], Inr res)" "result_body res = ''hi''" by blast
  have "fetch_loop x demo_world dec 1 demo_fetch True 5 (''https'', ''a'', 443) (Suc 0) 0 ''https://a/'' () =
      ([(''https://a/'', demo_hop_a), (''https://b/'', demo_hop_b)], Inr res)"
    using res(1) by (simp add: ha A an nx ct)
  moreover have "fetch x demo_world dec 1 demo_fetch 5 () =
      fetch_loop x demo_world dec 1 demo_fetch True 5 (''https'', ''a'', 443) (Suc 0) 0 ''https://a/'' ()"
    using ct(1) [of False] by (simp add: fetch_def A demo_fetch_def)
  ultimately show ?thesis using res(2) by simp
qed

definition demo_decoder :: "coding \<Rightarrow> unit decoder" where
  "demo_decoder c = \<lparr>decoder_state = (), decompress = (\<lambda>s d. Inr (d, False, ())), finish = (\<lambda>s. None)\<rparr>"

lemma public_address_embeds_public_witness: "\<not> is_private4 0x08080808"
  using public_address_embeds_public [of "V4 0x08080808" "0x08080808"]
  by (simp add: is_public4_def in_net4_def is_private4_def private_networks4_def private_exceptions4_def)


lemma redirects_bounded_witness:
  "\<exists>t res. fetch demo_externals demo_world demo_decoder 1 demo_fetch 5 () = (t, Inr res) \<and> length t = 2
     \<and> length t \<le> Suc (max_redirects demo_fetch)"
proof -
  obtain res where f: "fetch demo_externals demo_world demo_decoder 1 demo_fetch 5 () =
    ([(''https://a/'', demo_hop_a), (''https://b/'', demo_hop_b)], Inr res)"
    using demo_exchange [of demo_externals demo_decoder] by blast
  from f redirects_bounded [OF f] show ?thesis by auto
qed



lemma body_within_limit_witness: "length ''hi'' \<le> 2"
proof -
  have "read_body demo_decoder 1 ''GET'' FullBody 2 \<lparr>hop_status = 200, response_headers = [], chunks = [''hi'']\<rparr> = Inr (''hi'', False)"
    by (simp add: read_body_def content_codings_def all_values_def content_decoders_def MAX_CONTENT_CODINGS_def
        declared_oversize_def decode_body_def str_strip_def str_lstrip_def str_rstrip_def)
  from body_within_limit [OF this] show ?thesis .
qed

lemma full_body_complete_witness: "''hi'' = concat [''h'', [], ''i'']"
proof -
  have "read_body demo_decoder 1 ''GET'' FullBody 2 \<lparr>hop_status = 200, response_headers = [], chunks = [''h'', [], ''i'']\<rparr> = Inr (''hi'', False)"
    by (simp add: read_body_def content_codings_def all_values_def content_decoders_def MAX_CONTENT_CODINGS_def
        declared_oversize_def decode_body_def str_strip_def str_lstrip_def str_rstrip_def)
  from full_body_complete [OF this] show ?thesis by (simp add: content_codings_def all_values_def)
qed

lemma proxy_phase_failure_witness:
  "\<exists>err. classify_transport_error True False (NetError ConnectError ''refused'') = Some (CamouflareError err)
    \<and> error_code err = PROXY_CONNECTION_ERROR"
  by (rule proxy_phase_failure) simp

end
