(* ===== verification/Http_Capacity.thy ===== *)
theory Http_Capacity
  imports Http_Rules
begin

text \<open>
  The bounded capacity of \<open>HttpTransport\<close> (\<open>camouflare/http_transport.py\<close>): its semaphore with the
  waiters asyncio queues, its counters, quiesce and release.  \<open>_acquire\<close> is cut at its one await: what it
  does at once, and what a waiter does when it resumes or its wait times out.  A released slot is handed to
  the first waiter, who holds it (\<open>slot_granted\<close>) until it runs.
\<close>

record http_slots =
  slot_limit :: nat
  slot_value :: nat
  slot_queue :: nat
  slot_granted :: nat
  http_active :: nat
  http_waiting :: nat
  http_accepting :: bool
  http_idle :: bool

type_synonym 'a slots_prog = "(http_slots, 'a, exn) prog"

definition new_http_slots :: "int \<Rightarrow> exn + http_slots" where
  "new_http_slots n =
     (if n \<le> 0 then Inl (ValueError ''HTTP transport concurrency must be greater than zero.'')
      else Inr \<lparr>slot_limit = nat n, slot_value = nat n, slot_queue = 0, slot_granted = 0, http_active = 0,
                http_waiting = 0, http_accepting = True, http_idle = True\<rparr>)"

definition http_snapshot :: "http_slots \<Rightarrow> (string \<times> nat) list" where
  "http_snapshot s =
     [(''max_concurrency'', slot_limit s), (''active_requests'', http_active s),
      (''waiting_requests'', http_waiting s), (''available_slots'', slot_limit s - http_active s)]"

definition capacity_error :: exn where
  "capacity_error = transport_error ''Timed out waiting for HTTP transport capacity.'' POOL_UNAVAILABLE True"

section \<open>The semaphore\<close>

text \<open>\<open>asyncio.Semaphore.locked\<close> counts a woken waiter that has not run yet.\<close>

definition slots_locked :: "http_slots \<Rightarrow> bool" where
  "slots_locked s \<longleftrightarrow> slot_value s = 0 \<or> slot_queue s + slot_granted s > 0"

definition wake_next :: "http_slots \<Rightarrow> http_slots" where
  "wake_next s =
     (if slot_queue s > 0 \<and> slot_value s > 0
      then s\<lparr>slot_value := slot_value s - 1, slot_queue := slot_queue s - 1, slot_granted := Suc (slot_granted s)\<rparr>
      else s)"

definition slot_release :: "http_slots \<Rightarrow> http_slots" where
  "slot_release s = wake_next (s\<lparr>slot_value := Suc (slot_value s)\<rparr>)"

section \<open>Operations\<close>

definition enter_active :: "unit slots_prog" where
  "enter_active = modify (\<lambda>s. s\<lparr>http_active := Suc (http_active s), http_idle := False\<rparr>)"

text \<open>The part of \<open>_acquire\<close> before it may suspend; the result tells whether the slot is held already.\<close>

definition acquire_begin :: "time \<Rightarrow> bool \<Rightarrow> bool slots_prog" where
  "acquire_begin remaining may_wait = with_state (\<lambda>s.
     if \<not> http_accepting s then raise_exn shutting_down_error
     else if slots_locked s \<or> remaining \<le> 0
     then skip_then (modify (\<lambda>s. s\<lparr>http_waiting := Suc (http_waiting s)\<rparr>))
       (if remaining \<le> 0 \<or> \<not> may_wait
        then skip_then (modify (\<lambda>s. s\<lparr>http_waiting := http_waiting s - 1\<rparr>)) (raise_exn capacity_error)
        else skip_then (modify (\<lambda>s. s\<lparr>slot_queue := Suc (slot_queue s)\<rparr>)) (ret False))
     else skip_then (modify (\<lambda>s. s\<lparr>slot_value := slot_value s - 1\<rparr>)) (skip_then enter_active (ret True)))"

text \<open>A woken waiter runs: it passes a further free slot on, then takes its own unless the transport was
  quiesced meanwhile.\<close>

definition acquire_resume :: "unit slots_prog" where
  "acquire_resume =
     skip_then (modify (\<lambda>s. wake_next (s\<lparr>slot_granted := slot_granted s - 1\<rparr>)))
    (skip_then (modify (\<lambda>s. s\<lparr>http_waiting := http_waiting s - 1\<rparr>))
      (with_state (\<lambda>s. if http_accepting s then enter_active
                       else skip_then (modify slot_release) (raise_exn shutting_down_error))))"

text \<open>A waiter whose wait ends without a slot, and one that was handed a slot when its wait ended.\<close>

definition acquire_timed_out :: "unit slots_prog" where
  "acquire_timed_out =
     skip_then (modify (\<lambda>s. s\<lparr>slot_queue := slot_queue s - 1, http_waiting := http_waiting s - 1\<rparr>))
       (raise_exn capacity_error)"

definition acquire_cancelled_granted :: "unit slots_prog" where
  "acquire_cancelled_granted =
     skip_then (modify (\<lambda>s. slot_release (s\<lparr>slot_granted := slot_granted s - 1\<rparr>)))
    (skip_then (modify (\<lambda>s. s\<lparr>http_waiting := http_waiting s - 1\<rparr>)) (raise_exn capacity_error))"

definition http_release :: "unit slots_prog" where
  "http_release =
     skip_then (modify (\<lambda>s. s\<lparr>http_active := http_active s - 1\<rparr>))
    (skip_then (modify slot_release)
      (with_state (\<lambda>s. if http_active s = 0 then modify (\<lambda>s. s\<lparr>http_idle := True\<rparr>) else ret ())))"

definition http_quiesce :: "unit slots_prog" where
  "http_quiesce = modify (\<lambda>s. s\<lparr>http_accepting := False\<rparr>)"

section \<open>The machine\<close>

text \<open>A waiter resumes or is cancelled only when there is one in that position, and only a request that runs
  releases.\<close>

inductive http_step :: "http_slots \<Rightarrow> http_slots \<Rightarrow> bool" where
  hs_begin: "http_step s (snd (acquire_begin remaining may_wait s))"
| hs_resume: "slot_granted s > 0 \<Longrightarrow> http_step s (snd (acquire_resume s))"
| hs_timeout: "slot_queue s > 0 \<Longrightarrow> http_step s (snd (acquire_timed_out s))"
| hs_cancelled: "slot_granted s > 0 \<Longrightarrow> http_step s (snd (acquire_cancelled_granted s))"
| hs_release: "http_active s > 0 \<Longrightarrow> http_step s (snd (http_release s))"
| hs_quiesce: "http_step s (snd (http_quiesce s))"

definition fresh_slots :: "http_slots \<Rightarrow> bool" where
  "fresh_slots s \<longleftrightarrow> (\<exists>n. new_http_slots n = Inr s)"

abbreviation http_reach :: "http_slots \<Rightarrow> bool" where
  "http_reach \<equiv> reach fresh_slots http_step"

definition slots_ok :: "http_slots \<Rightarrow> bool" where
  "slots_ok s \<longleftrightarrow> 0 < slot_limit s
     \<and> slot_value s + slot_granted s + http_active s = slot_limit s
     \<and> http_waiting s = slot_queue s + slot_granted s
     \<and> (slot_queue s = 0 \<or> slot_value s = 0 \<or> 0 < slot_granted s)
     \<and> (http_idle s \<longleftrightarrow> http_active s = 0)"

lemmas slots_defs = acquire_begin_def acquire_resume_def acquire_timed_out_def acquire_cancelled_granted_def
  http_release_def http_quiesce_def enter_active_def slot_release_def wake_next_def slots_locked_def

lemma fresh_slots_ok: "fresh_slots s \<Longrightarrow> slots_ok s"
  by (auto simp: fresh_slots_def new_http_slots_def slots_ok_def split: if_splits)

lemma http_step_ok:
  assumes "slots_ok s" and "http_step s t"
  shows "slots_ok t"
  using assms(2,1)
  by (cases; simp add: slots_defs skip_then_apply) (auto simp: slots_ok_def)

interpretation http_slots: invariant_machine fresh_slots http_step slots_ok
  by unfold_locales (auto intro: fresh_slots_ok http_step_ok)

section \<open>Properties\<close>

text \<open>C39.  In every reachable state the slots are conserved: free, handed to a waiter, or held by a running request, so
  never more than \<open>max_concurrency\<close> requests run; the waiting counter counts the waiters, and \<open>idle\<close> means
  that nothing runs.\<close>

theorem http_slots_conserved:
  assumes "http_reach s"
  shows "slot_value s + slot_granted s + http_active s = slot_limit s
    \<and> http_waiting s = slot_queue s + slot_granted s \<and> (http_idle s = (http_active s = 0))
    \<and> dict_get (http_snapshot s) ''available_slots'' = Some (slot_value s + slot_granted s)"
  using http_slots.inv_reach [OF assms] by (auto simp: slots_ok_def http_snapshot_def)

text \<open>C40.  No wake-up is lost: while requests wait and none runs, one of the waiters has been handed a slot and will
  run.\<close>

theorem http_waiter_served:
  assumes "http_reach s" and "0 < http_waiting s" and "http_active s = 0"
  shows "0 < slot_granted s"
  using http_slots.inv_reach [OF assms(1)] assms(2,3) by (auto simp: slots_ok_def)

text \<open>After quiesce the transport only drains: no step admits a request, whatever was waiting.\<close>

theorem quiesced_transport_drains:
  assumes "\<not> http_accepting s" and "http_step\<^sup>*\<^sup>* s t"
  shows "\<not> http_accepting t \<and> http_active t \<le> http_active s"
  using assms(2)
proof (induction rule: rtranclp_induct)
  case (step t u)
  from step(2) have "\<not> http_accepting t \<Longrightarrow> \<not> http_accepting u \<and> http_active u \<le> http_active t"
    by (cases; simp add: slots_defs skip_then_apply)
  with step(3) show ?case by simp
qed (use assms(1) in simp)

section \<open>Examples\<close>

definition demo_slots :: http_slots where
  "demo_slots = (case new_http_slots 1 of Inr s \<Rightarrow> s | Inl _ \<Rightarrow> undefined)"

definition demo_running :: http_slots where
  "demo_running = snd (acquire_begin 5 True demo_slots)"

definition demo_queued :: http_slots where
  "demo_queued = snd (acquire_begin 5 True demo_running)"

definition demo_handed :: http_slots where
  "demo_handed = snd (http_release demo_queued)"

lemmas demo_slots_eval = demo_handed_def demo_queued_def demo_running_def demo_slots_def new_http_slots_def slots_defs
  skip_then_apply

lemma demo_slots_reach: "http_reach demo_handed"
proof -
  have "new_http_slots 1 = Inr demo_slots" by (simp add: demo_slots_def new_http_slots_def)
  then have "http_reach demo_slots" by (intro reach_init) (auto simp: fresh_slots_def)
  then have "http_reach demo_running" unfolding demo_running_def by (rule reach_step) (rule hs_begin)
  then have "http_reach demo_queued" unfolding demo_queued_def by (rule reach_step) (rule hs_begin)
  then show ?thesis
    unfolding demo_handed_def by (rule reach_step) (rule hs_release, simp add: demo_slots_eval)
qed

lemma http_slots_conserved_witness:
  "slot_limit demo_handed = 1 \<and> slot_value demo_handed + slot_granted demo_handed + http_active demo_handed = slot_limit demo_handed"
  using http_slots_conserved [OF demo_slots_reach] by (simp add: demo_slots_eval)

lemma http_waiter_served_witness: "0 < slot_granted demo_handed"
  by (rule http_waiter_served [OF demo_slots_reach]) (simp_all add: demo_slots_eval)

lemma quiesced_transport_drains_witness:
  "http_active (snd (acquire_resume (demo_handed\<lparr>http_accepting := False\<rparr>))) \<le> http_active demo_handed"
proof -
  let ?s = "demo_handed\<lparr>http_accepting := False\<rparr>"
  have "http_step ?s (snd (acquire_resume ?s))" by (rule hs_resume) (simp add: demo_slots_eval)
  then show ?thesis using quiesced_transport_drains [of ?s "snd (acquire_resume ?s)"] by auto
qed

end
