(* ===== verification/Page.thy ===== *)
theory Page
  imports Http_Fetch
begin

text \<open>
  What a request meets in the browser: the page, its context, the captcha provider and the HTTP
  transport (\<open>camouflare/protocols.py\<close>).  None of these is under \<open>src/\<close>, so they are the parameter
  \<open>browser_world\<close>: the outcome of the operation performed at a given moment.  Moments are numbered
  by the state of the request, which also lists the operations performed so far; a reading of the
  clock is an operation, so time may pass between any two steps.
\<close>

section \<open>Responses\<close>

text \<open>A browser response or a buffered \<open>RawResponse\<close>.  An attribute the object lacks is \<open>None\<close>.\<close>

record page_response =
  page_raw :: bool
  page_resp_url :: string
  page_status :: "int option"
  page_headers :: headers
  page_body :: "(exn + string) option"
  page_text :: "(exn + string) option"
  page_cookies :: "py_dict list option"
  page_solution_cookies :: "py_dict list option"
  page_user_agent :: "string option"
  page_fallback_used :: bool

text \<open>The answer of the context's request API.\<close>

record api_response =
  api_url :: "string option"
  api_status :: "int option"
  api_headers :: headers
  api_body :: "(exn + string) option"
  api_text :: "(exn + string) option"

section \<open>The world of one request\<close>

datatype browser_call =
    ReadClock
  | ReadTitle
  | ReadContent
  | ReadMarkers
  | ReadUserAgent
  | ReadPageUrl
  | TakeScreenshot
  | Goto string int
  | WaitForCommit int
  | WaitForIdle int
  | SetHeaders headers
  | AddInitScript string
  | AddCookies "py_dict list"
  | ReadCookies
  | RouteMedia string
  | UnrouteMedia string
  | PostRequest string string headers int
  | DisposeResponse
  | DirectGet http_fetch int bool
  | SleepFor int
  | SolveCaptcha
  | PrepareCaptcha
  | CloseCaptcha
  | Observed string string

record 'j browser_world =
  clock_at :: "nat \<Rightarrow> time"
  title_at :: "nat \<Rightarrow> exn + string"
  content_at :: "nat \<Rightarrow> exn + string"
  markers_at :: "nat \<Rightarrow> exn + py_val"
  user_agent_at :: "nat \<Rightarrow> exn + string"
  page_url_at :: "nat \<Rightarrow> exn + string"
  main_frame_at :: "nat \<Rightarrow> page_response option"
  screenshot_at :: "nat \<Rightarrow> exn + string"
  goto_at :: "nat \<Rightarrow> exn + page_response option"
  commit_at :: "nat \<Rightarrow> exn + unit"
  idle_at :: "nat \<Rightarrow> exn + unit"
  set_headers_at :: "nat \<Rightarrow> exn + unit"
  init_script_at :: "nat \<Rightarrow> exn + unit"
  has_init_script :: bool
  add_cookies_at :: "nat \<Rightarrow> exn + unit"
  cookies_at :: "nat \<Rightarrow> exn + py_dict list"
  route_at :: "nat \<Rightarrow> exn + unit"
  unroute_at :: "nat \<Rightarrow> exn + unit"
  has_unroute :: bool
  has_post :: bool
  post_at :: "nat \<Rightarrow> exn + api_response"
  dispose_at :: "nat \<Rightarrow> exn + unit"
  has_transport :: bool
  transport_at :: "nat \<Rightarrow> http_fetch \<Rightarrow> exn + 'j http_result"
  jar_cookies :: "'j \<Rightarrow> py_dict list"
  jar_solution_cookies :: "'j \<Rightarrow> py_dict list"
  sleep_at :: "nat \<Rightarrow> exn + unit"
  solve_at :: "nat \<Rightarrow> exn + string option"
  has_prepare :: bool
  prepare_at :: "nat \<Rightarrow> exn + unit"
  close_captcha_at :: "nat \<Rightarrow> exn + unit"

text \<open>\<open>_media_routes\<close> has an entry for the context; \<open>post_started\<close> is \<open>_PostRequestState.started\<close>.\<close>

record browse =
  moment :: nat
  calls :: "browser_call list"
  media_routed :: bool
  post_started :: bool

type_synonym 'a browse_prog = "(browse, 'a, exn) prog"

definition new_browse :: "bool \<Rightarrow> browse" where
  "new_browse routed = \<lparr>moment = 0, calls = [], media_routed = routed, post_started = False\<rparr>"

definition ask :: "browser_call \<Rightarrow> (nat \<Rightarrow> exn + 'a) \<Rightarrow> 'a browse_prog" where
  "ask c answer_at = (\<lambda>s. (answer_at (moment s), s\<lparr>moment := Suc (moment s), calls := calls s @ [c]\<rparr>))"

definition read_clock :: "'j browser_world \<Rightarrow> time browse_prog" where
  "read_clock w = ask ReadClock (\<lambda>n. Inr (clock_at w n))"

definition observe_label :: "string \<Rightarrow> string \<Rightarrow> unit browse_prog" where
  "observe_label metric label = ask (Observed metric label) (\<lambda>_. Inr ())"

definition of_sum :: "exn + 'a \<Rightarrow> 'a browse_prog" where
  "of_sum r = (\<lambda>s. (r, s))"

text \<open>\<open>except Exception\<close>: a cancellation passes.\<close>

definition except_Exception :: "'a browse_prog \<Rightarrow> (exn \<Rightarrow> 'a browse_prog) \<Rightarrow> 'a browse_prog" where
  "except_Exception m h = try_except m (\<lambda>e. if is_Exception e then h e else raise_exn e)"

section \<open>The text library\<close>

text \<open>What the code takes from Python's HTML parser, entity table, codecs and message parser: the events
  the parser hands to the handlers of its subclass, or its exception; \<open>html.unescape\<close>; the known codecs;
  decoding with replacement, which a codec that is no text encoding refuses; and the charset parameter of a \<open>Content-Type\<close> header.\<close>

datatype html_event =
    StartTag string "(string \<times> string option) list"
  | EndTag string
  | TextData string

record text_lib =
  html_events :: "string \<Rightarrow> exn + html_event list"
  html_unescape :: "string \<Rightarrow> string"
  codec_known :: "string \<Rightarrow> bool"
  decode_replace :: "string \<Rightarrow> string \<Rightarrow> exn + string"
  message_charset :: "headers \<Rightarrow> string option"

section \<open>Reading what a request did\<close>

fun is_post_call :: "browser_call \<Rightarrow> bool" where
  "is_post_call (PostRequest _ _ _ _) = True"
| "is_post_call _ = False"

text \<open>From \<open>s\<close> to \<open>t\<close> only operations satisfying \<open>P\<close> were performed, each at its own moment, and a POST
  is marked as started exactly when one was sent.\<close>

definition steps_to :: "(browser_call \<Rightarrow> bool) \<Rightarrow> browse \<Rightarrow> browse \<Rightarrow> bool" where
  "steps_to P s t \<longleftrightarrow> (\<exists>cs. calls t = calls s @ cs \<and> list_all P cs \<and> moment t = moment s + length cs
     \<and> (post_started t \<longleftrightarrow> post_started s \<or> list_ex is_post_call cs))"

definition issues :: "(browser_call \<Rightarrow> bool) \<Rightarrow> 'a browse_prog \<Rightarrow> bool" where
  "issues P m \<longleftrightarrow> (\<forall>s. steps_to P s (snd (m s)))"

named_theorems issues_intros \<open>compositional rules for the operations a program issues\<close>

lemma steps_refl [simp]: "steps_to P s s"
  by (auto simp: steps_to_def)

lemma steps_trans [trans]: "steps_to P s t \<Longrightarrow> steps_to P t u \<Longrightarrow> steps_to P s u"
proof -
  assume "steps_to P s t" "steps_to P t u"
  then obtain cs ds where
    "calls t = calls s @ cs" "list_all P cs" "moment t = moment s + length cs"
    "post_started t \<longleftrightarrow> post_started s \<or> list_ex is_post_call cs"
    "calls u = calls t @ ds" "list_all P ds" "moment u = moment t + length ds"
    "post_started u \<longleftrightarrow> post_started t \<or> list_ex is_post_call ds"
    unfolding steps_to_def by blast
  then show ?thesis unfolding steps_to_def by (intro exI [of _ "cs @ ds"]) auto
qed

lemma steps_mono: "steps_to P s t \<Longrightarrow> (\<And>c. P c \<Longrightarrow> Q c) \<Longrightarrow> steps_to Q s t"
  unfolding steps_to_def by (meson list.pred_mono_strong)

lemma issuesD: "issues P m \<Longrightarrow> steps_to P s (snd (m s))"
  by (simp add: issues_def)

lemma issues_new: "issues P m \<Longrightarrow> list_all P (calls (snd (m (new_browse b))))"
  by (drule issuesD [where s = "new_browse b"]) (auto simp: steps_to_def new_browse_def)

lemma issues_mono: "issues P m \<Longrightarrow> (\<And>c. P c \<Longrightarrow> Q c) \<Longrightarrow> issues Q m"
  unfolding issues_def using steps_mono by blast

lemma issues_stay: "(\<And>s. calls (snd (m s)) = calls s \<and> moment (snd (m s)) = moment s
    \<and> post_started (snd (m s)) = post_started s) \<Longrightarrow> issues P m"
  by (simp add: issues_def steps_to_def)

lemma issues_ret [simp, issues_intros]: "issues P (ret x)"
  by (simp add: issues_stay)

lemma issues_raise [simp, issues_intros]: "issues P (raise_exn e)"
  by (simp add: issues_stay)

lemma issues_of_sum [simp, issues_intros]: "issues P (of_sum r)"
  by (simp add: issues_stay of_sum_def)

lemma issues_gets [simp, issues_intros]: "issues P (gets f)"
  by (simp add: issues_stay)

lemma issues_ask [issues_intros]: "P c \<Longrightarrow> \<not> is_post_call c \<Longrightarrow> issues P (ask c f)"
  by (auto simp: issues_def ask_def steps_to_def)

lemma issues_read_clock [issues_intros]: "P ReadClock \<Longrightarrow> issues P (read_clock w)"
  unfolding read_clock_def by (rule issues_ask) simp_all

lemma issues_observe [issues_intros]: "P (Observed a b) \<Longrightarrow> issues P (observe_label a b)"
  unfolding observe_label_def by (rule issues_ask) simp_all

lemma issues_step:
  assumes "issues P m" and "\<And>r s'. m s = (r, s') \<Longrightarrow> steps_to P s' t"
  shows "steps_to P s t"
  using issuesD [OF assms(1), of s] assms(2) [OF prod.collapse [symmetric]] by (rule steps_trans)

lemma issues_seq_value:
  assumes "issues P m" and "\<And>x s s'. m s = (Inr x, s') \<Longrightarrow> issues P (f x)"
  shows "issues P (seq m f)"
  unfolding issues_def [of P "seq m f"]
proof (intro allI, rule issues_step [OF assms(1)])
  fix s r s'
  assume m: "m s = (r, s')"
  show "steps_to P s' (snd (seq m f s))"
  proof (cases r)
    case (Inr x)
    with m have "m s = (Inr x, s')" by simp
    from issuesD [OF assms(2) [OF this]] this show ?thesis by (simp add: seq_apply)
  qed (simp add: seq_apply m)
qed

lemma issues_seq [issues_intros]: "issues P m \<Longrightarrow> (\<And>x. issues P (f x)) \<Longrightarrow> issues P (seq m f)"
  by (rule issues_seq_value)

lemma issues_skip_then [issues_intros]: "issues P m \<Longrightarrow> issues P n \<Longrightarrow> issues P (skip_then m n)"
  unfolding skip_then_def by (rule issues_seq)

lemma issues_try_except [issues_intros]: "issues P m \<Longrightarrow> (\<And>e. issues P (h e)) \<Longrightarrow> issues P (try_except m h)"
  unfolding issues_def [of P "try_except m h"]
  by (intro allI, erule issues_step) (auto simp: try_except_def split: sum.split dest: issuesD)

lemma issues_except_Exception [issues_intros]:
  "issues P m \<Longrightarrow> (\<And>e. issues P (h e)) \<Longrightarrow> issues P (except_Exception m h)"
  unfolding except_Exception_def by (rule issues_try_except) auto

lemma try_finally_state: "m s = (r, s') \<Longrightarrow> snd (try_finally m f s) = snd (f s')"
  by (simp add: try_finally_def split: prod.split sum.split)

lemma issues_try_finally [issues_intros]: "issues P m \<Longrightarrow> issues P f \<Longrightarrow> issues P (try_finally m f)"
  unfolding issues_def [of P "try_finally m f"]
  by (intro allI, erule issues_step) (simp add: try_finally_state issuesD)

lemma issues_with_state [issues_intros]: "(\<And>s. issues P (f s)) \<Longrightarrow> issues P (with_state f)"
  by (simp add: issues_def)

lemma issues_modify [issues_intros]:
  "(\<And>s. calls (f s) = calls s \<and> moment (f s) = moment s \<and> post_started (f s) = post_started s) \<Longrightarrow> issues P (modify f)"
  by (simp add: issues_stay)

lemma issues_if [issues_intros]: "(b \<Longrightarrow> issues P m) \<Longrightarrow> (\<not> b \<Longrightarrow> issues P n) \<Longrightarrow> issues P (if b then m else n)"
  by simp

lemma issues_case_option [issues_intros]:
  "issues P m \<Longrightarrow> (\<And>x. issues P (f x)) \<Longrightarrow> issues P (case y of None \<Rightarrow> m | Some x \<Rightarrow> f x)"
  by (simp split: option.split)

lemma issues_case_sum [issues_intros]:
  "(\<And>x. issues P (f x)) \<Longrightarrow> (\<And>x. issues P (g x)) \<Longrightarrow> issues P (case y of Inl x \<Rightarrow> f x | Inr x \<Rightarrow> g x)"
  by (simp split: sum.split)

lemma issues_case_prod [issues_intros]: "(\<And>x z. issues P (f x z)) \<Longrightarrow> issues P (case y of (x, z) \<Rightarrow> f x z)"
  by (simp split: prod.split)

lemma issues_for_each [issues_intros]: "(\<And>x. x \<in> set xs \<Longrightarrow> issues P (f x)) \<Longrightarrow> issues P (for_each f xs)"
  by (induction xs) (auto intro: issues_intros)

lemma issues_unless_raise [simp, issues_intros]: "issues P (unless_raise b e)"
  by (simp add: unless_raise_def)

end
