(* ===== verification/Collection.thy ===== *)
theory Collection
  imports Page
begin

text \<open>
  Classifying browser errors and collecting the solution of a request
  (\<open>camouflare/solution.py\<close>).
\<close>

section \<open>Text\<close>

text \<open>\<open>s.split()\<close> without a separator; \<open>" ".join(s.split())\<close>.\<close>

fun words_of :: "string \<Rightarrow> string \<Rightarrow> string list" where
  "words_of w [] = (if w = [] then [] else [rev w])"
| "words_of w (c # s) =
     (if is_space c then (if w = [] then words_of [] s else rev w # words_of [] s) else words_of (c # w) s)"

definition str_words :: "string \<Rightarrow> string list" where
  "str_words s = words_of [] s"

definition normalize_space :: "string \<Rightarrow> string" where
  "normalize_space s = join_with '' '' (str_words s)"

text \<open>\<open>re.sub(r"\s+", " ", s)\<close>\<close>

fun squeeze_space :: "string \<Rightarrow> string" where
  "squeeze_space [] = []"
| "squeeze_space (c # s) =
     (if is_space c then (case s of d # _ \<Rightarrow> if is_space d then squeeze_space s else CHR '' '' # squeeze_space s
                          | [] \<Rightarrow> '' '')
      else c # squeeze_space s)"

text \<open>What precedes and what follows the first occurrence of a lower-case needle, ignoring case.\<close>

fun split_ci :: "string \<Rightarrow> string \<Rightarrow> (string \<times> string) option" where
  "split_ci needle [] = (if needle = [] then Some ([], []) else None)"
| "split_ci needle (c # s) =
     (if starts_with needle (str_lower (c # s)) then Some ([], drop (length needle) (c # s))
      else map_option (\<lambda>(a, b). (c # a, b)) (split_ci needle s))"

text \<open>The regular expression \<open><title[^>]*>(.*?)</title>\<close>: its leftmost match starts at the first \<open><title\<close>,
  for a later start can only see a later bracket.\<close>

definition html_title :: "text_lib \<Rightarrow> string \<Rightarrow> string" where
  "html_title lib content = (case split_ci ''<title'' content of
     None \<Rightarrow> []
   | Some (_, attrs) \<Rightarrow> (case partition_on (CHR ''>'') attrs of
       (_, False, _) \<Rightarrow> []
     | (_, True, inner) \<Rightarrow> (case split_ci ''</title>'' inner of
         None \<Rightarrow> []
       | Some (title, _) \<Rightarrow> str_strip (html_unescape lib (squeeze_space title)))))"

section \<open>Browser errors\<close>

definition BEST_EFFORT_BROWSER_ERROR_MARKERS :: "string list" where
  "BEST_EFFORT_BROWSER_ERROR_MARKERS =
     [''page is navigating and changing the content'', ''execution context was destroyed'',
      ''writeunixtransport closed'', ''transport closed'', ''connection closed'', ''the handler is closed'',
      ''browser has been closed'', ''browser closed'', ''target closed'',
      ''target page, context or browser has been closed'', ''page crashed'', ''target crashed'']"

definition TARGET_UNREACHABLE_ERROR_NAMES :: "string list" where
  "TARGET_UNREACHABLE_ERROR_NAMES =
     [''NS_ERROR_UNKNOWN_HOST'', ''NS_ERROR_CONNECTION_REFUSED'', ''NS_ERROR_NET_RESET'',
      ''NS_ERROR_NET_INTERRUPT'', ''NS_ERROR_NET_PARTIAL_TRANSFER'']"

definition EMPTY_ERROR_RESPONSE_ERROR_NAMES :: "string list" where
  "EMPTY_ERROR_RESPONSE_ERROR_NAMES = [''NS_ERROR_NET_EMPTY_RESPONSE'', ''NS_ERROR_NET_ERROR_RESPONSE'']"

definition is_best_effort_browser_error :: "exn \<Rightarrow> bool" where
  "is_best_effort_browser_error e \<longleftrightarrow>
     list_ex (\<lambda>marker. contains marker (str_lower (exn_str e))) BEST_EFFORT_BROWSER_ERROR_MARKERS"

definition is_timeout_error :: "exn \<Rightarrow> bool" where
  "is_timeout_error e \<longleftrightarrow> contains ''timeout'' (str_lower (exn_class_name e))
     \<or> contains ''timed out'' (str_lower (exn_str e)) \<or> contains ''timeout'' (str_lower (exn_str e))"

text \<open>\<open>\w\<close> on the code points up to 255.\<close>

definition word_char :: "char \<Rightarrow> bool" where
  "word_char c \<longleftrightarrow> is_alnum_ascii c \<or> c = CHR ''_''
     \<or> ord c \<in> {170, 178, 179, 181, 185, 186, 188, 189, 190}
     \<or> 192 \<le> ord c \<and> ord c \<noteq> 215 \<and> ord c \<noteq> 247"

definition error_name_char :: "char \<Rightarrow> bool" where
  "error_name_char c \<longleftrightarrow> 65 \<le> ord c \<and> ord c \<le> 90 \<or> is_digit c \<or> c = CHR ''_''"

text \<open>\<open>(NS_[A-Z0-9_]+)\b\<close>: giving characters back never reaches a word boundary.\<close>

definition ns_error_name :: "string \<Rightarrow> string option" where
  "ns_error_name s =
     (if starts_with ''NS_'' s
      then let name = takeWhile error_name_char (drop 3 s); rest = dropWhile error_name_char (drop 3 s) in
        if name \<noteq> [] \<and> (rest = [] \<or> \<not> word_char (hd rest)) then Some (''NS_'' @ name) else None
      else None)"

text \<open>\<open>[A-Za-z]+\.[A-Za-z]+: \<close>\<close>

definition api_prefix_rest :: "string \<Rightarrow> string option" where
  "api_prefix_rest s =
     (case dropWhile is_alpha_ascii s of
        [] \<Rightarrow> None
      | d # after \<Rightarrow>
          if takeWhile is_alpha_ascii s \<noteq> [] \<and> d = CHR ''.'' \<and> takeWhile is_alpha_ascii after \<noteq> []
             \<and> starts_with '': '' (dropWhile is_alpha_ascii after)
          then Some (drop 2 (dropWhile is_alpha_ascii after)) else None)"

definition browser_error_name :: "exn \<Rightarrow> string option" where
  "browser_error_name e =
     (let line = str_strip (fst (partition_on (CHR 0x0A) (exn_str e))) in
      case api_prefix_rest line of
        None \<Rightarrow> ns_error_name line
      | Some rest \<Rightarrow> (case ns_error_name rest of None \<Rightarrow> ns_error_name line | Some name \<Rightarrow> Some name))"

definition is_target_unreachable_error :: "exn \<Rightarrow> bool" where
  "is_target_unreachable_error e \<longleftrightarrow>
     (case browser_error_name e of None \<Rightarrow> False | Some n \<Rightarrow> n \<in> set TARGET_UNREACHABLE_ERROR_NAMES)"

definition is_empty_error_response_error :: "exn \<Rightarrow> bool" where
  "is_empty_error_response_error e \<longleftrightarrow>
     (case browser_error_name e of None \<Rightarrow> False | Some n \<Rightarrow> n \<in> set EMPTY_ERROR_RESPONSE_ERROR_NAMES)"

section \<open>Cookies of the solution\<close>

definition solution_cookie :: "externals \<Rightarrow> py_dict \<Rightarrow> exn + py_dict" where
  "solution_cookie x cookie =
     (let cookie_url = dget cookie ''url'';
          n = dict_del ''url'' cookie;
          done = (\<lambda>n.
            let n = (if dict_has ''path'' n then n else dict_set ''path'' (PyStr ''/'') n);
                expires = dget n ''expires'' in
            if expires \<noteq> PyNone \<and> \<not> py_eq expires (PyInt (-1)) \<and> \<not> dict_has ''expiry'' n
            then dict_set ''expiry'' expires n else n) in
      if py_truthy cookie_url \<and> \<not> py_truthy (dget n ''domain'')
      then and_then (urlsplit (py_str (repr_val x) cookie_url)) (\<lambda>parts.
        let n = (if nonempty (url_hostname parts)
                 then dict_set ''domain'' (PyStr (the (url_hostname parts))) n else n);
            n = (if \<not> py_truthy (dget n ''path'')
                 then (case rpartition_on (CHR ''/'') (url_path parts) of (parent, found, last_part) \<Rightarrow>
                   let parent = (if found then parent else last_part) in
                   dict_set ''path'' (PyStr (if parent = [] then ''/'' else parent)) n)
                 else n) in
        Inr (done n))
      else Inr (done n))"

definition str_or :: "externals \<Rightarrow> string \<Rightarrow> py_dict \<Rightarrow> string \<Rightarrow> string" where
  "str_or x k d dflt = (case dict_get d k of None \<Rightarrow> dflt | Some v \<Rightarrow> py_str (repr_val x) v)"

definition cookie_key :: "externals \<Rightarrow> py_dict \<Rightarrow> string \<times> string \<times> string" where
  "cookie_key x n = (str_casefold (str_or x ''domain'' n []), str_or x ''path'' n ''/'', str_or x ''name'' n [])"

fun merge_cookies_into ::
    "externals \<Rightarrow> ((string \<times> string \<times> string) \<times> py_dict) list \<Rightarrow> py_dict list
     \<Rightarrow> exn + ((string \<times> string \<times> string) \<times> py_dict) list" where
  "merge_cookies_into x merged [] = Inr merged"
| "merge_cookies_into x merged (c # cs) =
     and_then (solution_cookie x c) (\<lambda>n. merge_cookies_into x (dict_set (cookie_key x n) n merged) cs)"

definition merge_solution_cookies :: "externals \<Rightarrow> py_dict list \<Rightarrow> py_dict list \<Rightarrow> exn + py_dict list" where
  "merge_solution_cookies x context_cookies response_cookies =
     and_then (merge_cookies_into x [] (context_cookies @ response_cookies)) (\<lambda>merged. Inr (map snd merged))"

section \<open>Charset and body\<close>

definition charset_char :: "char \<Rightarrow> bool" where
  "charset_char c \<longleftrightarrow> c \<noteq> CHR '';'' \<and> \<not> is_space c"

text \<open>The first \<open>charset=\<close> that is followed by a value.\<close>

function charset_in :: "string \<Rightarrow> string option" where
  "charset_in s = (case split_ci ''charset='' s of
     None \<Rightarrow> None
   | Some (_, rest) \<Rightarrow>
       let value = takeWhile charset_char rest in if value \<noteq> [] then Some value
       else if length rest < length s then charset_in rest else None)"
  by pat_completeness auto
termination by (relation "measure length") auto

declare charset_in.simps [simp del]

definition known_charset :: "text_lib \<Rightarrow> string \<Rightarrow> string" where
  "known_charset lib candidate = (if candidate \<noteq> [] \<and> codec_known lib candidate then candidate else ''utf-8'')"

text \<open>Of a header mapping, and of the parsed message of a direct response.\<close>

definition response_charset :: "text_lib \<Rightarrow> headers \<Rightarrow> string" where
  "response_charset lib hs =
     (let content_type = (case dict_get hs ''content-type'' of
            Some v \<Rightarrow> if v \<noteq> [] then v else (case dict_get hs ''Content-Type'' of Some w \<Rightarrow> w | None \<Rightarrow> [])
          | None \<Rightarrow> (case dict_get hs ''Content-Type'' of Some w \<Rightarrow> w | None \<Rightarrow> [])) in
      known_charset lib (case charset_in content_type of Some c \<Rightarrow> c | None \<Rightarrow> []))"

definition message_response_charset :: "text_lib \<Rightarrow> headers \<Rightarrow> string" where
  "message_response_charset lib hs =
     (case message_charset lib hs of
        Some c \<Rightarrow> if c \<noteq> [] then known_charset lib c else response_charset lib hs
      | None \<Rightarrow> response_charset lib hs)"

definition raw_mime_types :: "string list" where
  "raw_mime_types = [''application/json'', ''application/xml'', ''text/plain'', ''text/xml'']"

definition should_return_raw_response_body :: "page_response option \<Rightarrow> bool" where
  "should_return_raw_response_body pr = (case pr of
     None \<Rightarrow> False
   | Some r \<Rightarrow> page_raw r
      \<or> (let content_type = (case filter (\<lambda>(k, v). str_lower k = ''content-type'') (page_headers r) of
               [] \<Rightarrow> [] | (_, v) # _ \<Rightarrow> v);
             mime = str_lower (str_strip (fst (partition_on (CHR '';'') content_type))) in
         mime \<in> set raw_mime_types \<or> ends_with ''+json'' mime \<or> ends_with ''+xml'' mime))"

section \<open>Reading the page\<close>

definition safe_page_title :: "'j browser_world \<Rightarrow> string browse_prog" where
  "safe_page_title w = except_Exception (ask ReadTitle (title_at w)) (\<lambda>_. ret [])"

definition safe_context_cookies :: "'j browser_world \<Rightarrow> py_dict list browse_prog" where
  "safe_context_cookies w = except_Exception (ask ReadCookies (cookies_at w)) (\<lambda>_. ret [])"

text \<open>\<open>page.content()\<close> within the size limit.\<close>

definition limited_content :: "'j browser_world \<Rightarrow> resource_limits \<Rightarrow> string browse_prog" where
  "limited_content w limits = seq (ask ReadContent (content_at w)) (\<lambda>content.
     skip_then (of_sum (ensure_text_size content (response_body_bytes limits) ''Response body'')) (ret content))"

fun is_ResourceLimitError :: "exn \<Rightarrow> bool" where
  "is_ResourceLimitError (ResourceLimitError _) = True"
| "is_ResourceLimitError _ = False"

definition safe_page_content :: "'j browser_world \<Rightarrow> resource_limits \<Rightarrow> string browse_prog" where
  "safe_page_content w limits = except_Exception (limited_content w limits)
     (\<lambda>e. if is_ResourceLimitError e then raise_exn e else ret [])"

definition safe_user_agent :: "externals \<Rightarrow> 'j browser_world \<Rightarrow> v1_request \<Rightarrow> string browse_prog" where
  "safe_user_agent x w r = except_Exception (ask ReadUserAgent (user_agent_at w))
     (\<lambda>_. ret (case target_user_agent x r of None \<Rightarrow> [] | Some u \<Rightarrow> u))"

definition page_url :: "'j browser_world \<Rightarrow> string browse_prog" where
  "page_url w = except_Exception (ask ReadPageUrl (page_url_at w)) (\<lambda>_. ret [])"

definition response_url :: "page_response option \<Rightarrow> string" where
  "response_url pr = (case pr of None \<Rightarrow> [] | Some r \<Rightarrow> page_resp_url r)"

definition raw_body_text :: "text_lib \<Rightarrow> resource_limits \<Rightarrow> page_response \<Rightarrow> exn + string" where
  "raw_body_text lib limits r = (case page_body r of
     Some body \<Rightarrow> and_then body (\<lambda>b.
       and_then (ensure_bytes_size b (response_body_bytes limits) ''Response body'') (\<lambda>_.
         decode_replace lib (response_charset lib (page_headers r)) b))
   | None \<Rightarrow> (case page_text r of
       Some text \<Rightarrow> and_then text (\<lambda>t.
         and_then (ensure_text_size t (response_body_bytes limits) ''Response body'') (\<lambda>_. Inr t))
     | None \<Rightarrow> Inl (OtherError ''NoReader'' [])))"

definition response_text_or_page_content ::
    "text_lib \<Rightarrow> 'j browser_world \<Rightarrow> page_response option \<Rightarrow> resource_limits \<Rightarrow> string browse_prog" where
  "response_text_or_page_content lib w pr limits =
     (if should_return_raw_response_body pr
      then except_Exception (of_sum (raw_body_text lib limits (the pr)))
        (\<lambda>e. if is_ResourceLimitError e then raise_exn e else safe_page_content w limits)
      else safe_page_content w limits)"

section \<open>The solution\<close>

definition take_screenshot :: "'j browser_world \<Rightarrow> (string \<Rightarrow> string) \<Rightarrow> resource_limits \<Rightarrow> string option browse_prog" where
  "take_screenshot w b64encode limits = except_Exception
     (seq (ask TakeScreenshot (screenshot_at w)) (\<lambda>bytes.
        skip_then (of_sum (ensure_bytes_size bytes (screenshot_bytes limits) ''Screenshot''))
       (skip_then (observe_label ''payload_size'' ''screenshot'') (ret (Some (b64encode bytes))))))
     (\<lambda>e. if is_ResourceLimitError e then raise_exn e else ret None)"

definition solution_status :: "page_response option \<Rightarrow> int" where
  "solution_status pr = (case pr of None \<Rightarrow> 0 | Some r \<Rightarrow> (case page_status r of None \<Rightarrow> 200 | Some n \<Rightarrow> n))"

definition response_cookies :: "page_response option \<Rightarrow> py_dict list" where
  "response_cookies pr = (case pr of None \<Rightarrow> []
     | Some r \<Rightarrow> (case page_solution_cookies r of Some cs \<Rightarrow> cs
        | None \<Rightarrow> (case page_cookies r of Some cs \<Rightarrow> cs | None \<Rightarrow> [])))"

definition collect_solution ::
    "externals \<Rightarrow> 'j browser_world \<Rightarrow> (string \<Rightarrow> string) \<Rightarrow> resource_limits \<Rightarrow> v1_request
     \<Rightarrow> page_response option \<Rightarrow> string \<Rightarrow> string option \<Rightarrow> solution browse_prog" where
  "collect_solution x w b64encode limits r pr content token =
     seq (safe_context_cookies w) (\<lambda>context_cookies.
     seq (of_sum (merge_solution_cookies x context_cookies (response_cookies pr))) (\<lambda>cookies.
     if length cookies > MAX_COOKIES
     then raise_exn (ResourceLimitError (''Response cookies exceed the configured '' @ nat_str MAX_COOKIES @ ''-item limit.''))
     else
     skip_then (of_sum (ensure_json_size (dump_size x) (PyList (map PyDict cookies)) MAX_COOKIE_BYTES ''Response cookies''))
     (seq (case pr of
             Some p \<Rightarrow> if page_raw p \<and> nonempty (page_user_agent p) then ret (the (page_user_agent p))
                       else safe_user_agent x w r
           | None \<Rightarrow> safe_user_agent x w r) (\<lambda>agent.
     seq (page_url w) (\<lambda>current.
     let url = (if current \<noteq> [] \<and> current \<noteq> ''about:blank'' then current else response_url pr) in
     if return_only_cookies r
     then ret \<lparr>sol_url = url, sol_status = solution_status pr, sol_headers = None, sol_response = None,
               sol_cookies = cookies, sol_user_agent = agent, sol_screenshot = None,
               sol_turnstile_token = token, sol_response_encoding = None, sol_body_bytes = None\<rparr>
     else
     skip_then (of_sum (ensure_text_size content (response_body_bytes limits) ''Response body''))
    (skip_then (observe_label ''payload_size'' ''response'')
    (seq (if return_screenshot r then take_screenshot w b64encode limits else ret None) (\<lambda>screenshot.
     ret \<lparr>sol_url = url, sol_status = solution_status pr,
          sol_headers = Some (case pr of None \<Rightarrow> [] | Some p \<Rightarrow> page_headers p), sol_response = Some content,
          sol_cookies = cookies, sol_user_agent = agent, sol_screenshot = screenshot,
          sol_turnstile_token = token, sol_response_encoding = None, sol_body_bytes = None\<rparr>))))))))"

definition navigation_error_message :: "'j browser_world \<Rightarrow> exn \<Rightarrow> page_response option \<Rightarrow> string browse_prog" where
  "navigation_error_message w e pr = seq (page_url w) (\<lambda>current.
     ret (join_with ''; '' ([''Navigation failed: '' @ exn_str e]
       @ (if current \<noteq> [] then [''current_url='' @ current] else [])
       @ (case pr of None \<Rightarrow> [] | Some p \<Rightarrow> (case page_status p of None \<Rightarrow> []
           | Some n \<Rightarrow> [''response_status='' @ int_str n])))))"

end
