(* ===== verification/Challenge.thy ===== *)
theory Challenge
  imports Collection
begin

text \<open>
  Challenge and hard-block detection and the clearance poll (\<open>camouflare/challenge.py\<close>).  The
  structure parser is the fold of its three handlers over the events Python's HTML parser emits.
\<close>

section \<open>The structure parser\<close>

definition HARD_BLOCK_PROBE_CHARS :: nat where "HARD_BLOCK_PROBE_CHARS = 65536"
definition HARD_BLOCK_CONTAINER_ID :: string where "HARD_BLOCK_CONTAINER_ID = ''cf-error-details''"
definition HARD_BLOCK_HEADLINE_KEY :: string where "HARD_BLOCK_HEADLINE_KEY = ''block_headline''"
definition HARD_BLOCK_HEADLINE :: string where "HARD_BLOCK_HEADLINE = ''sorry, you have been blocked''"
definition HARD_BLOCK_CODE_CLASS :: string where "HARD_BLOCK_CODE_CLASS = ''cf-error-code''"

definition HARD_BLOCK_ERROR_CODES :: "string list" where
  "HARD_BLOCK_ERROR_CODES = [''1005'', ''1006'', ''1007'', ''1008'', ''1009'', ''1010'', ''1012'', ''1020'']"

definition HARD_BLOCK_TITLE :: string where "HARD_BLOCK_TITLE = ''attention required! | cloudflare''"
definition ACCESS_DENIED_TITLE_PREFIX :: string where "ACCESS_DENIED_TITLE_PREFIX = ''access denied | ''"
definition ACCESS_DENIED_TITLE_SUFFIX :: string where
  "ACCESS_DENIED_TITLE_SUFFIX = '' used cloudflare to restrict access''"

definition VOID_HTML_TAGS :: "string list" where
  "VOID_HTML_TAGS = [''area'', ''base'', ''br'', ''col'', ''embed'', ''hr'', ''img'', ''input'', ''link'', ''meta'',
     ''param'', ''source'', ''track'', ''wbr'']"

record block_parser =
  title_text :: "string option"
  blocked :: bool
  container_tag :: "string option"
  container_depth :: nat
  title_parts :: "string option"
  heading_parts :: "string option"
  code_tag :: "string option"
  code_parts :: string

definition new_parser :: block_parser where
  "new_parser = \<lparr>title_text = None, blocked = False, container_tag = None, container_depth = 0,
     title_parts = None, heading_parts = None, code_tag = None, code_parts = []\<rparr>"

text \<open>The attribute dictionary: a repeated name keeps its last value, a missing value is empty.\<close>

definition attribute :: "(string \<times> string option) list \<Rightarrow> string \<Rightarrow> string option" where
  "attribute attrs name = (case filter (\<lambda>(n, v). n = name) (rev attrs) of
     [] \<Rightarrow> None | (_, v) # _ \<Rightarrow> Some (case v of None \<Rightarrow> [] | Some s \<Rightarrow> s))"

definition opens_container :: "block_parser \<Rightarrow> string \<Rightarrow> (string \<times> string option) list \<Rightarrow> bool" where
  "opens_container p tag attrs \<longleftrightarrow> container_tag p = None \<and> tag \<notin> set VOID_HTML_TAGS
     \<and> attribute attrs ''id'' = Some HARD_BLOCK_CONTAINER_ID"

definition enter_container :: "block_parser \<Rightarrow> string \<Rightarrow> (string \<times> string option) list \<Rightarrow> block_parser" where
  "enter_container p tag attrs =
     (if container_tag p = Some tag then p\<lparr>container_depth := Suc (container_depth p)\<rparr>
      else if opens_container p tag attrs then p\<lparr>container_tag := Some tag, container_depth := 1\<rparr> else p)"

definition mark_inside :: "block_parser \<Rightarrow> string \<Rightarrow> (string \<times> string option) list \<Rightarrow> block_parser" where
  "mark_inside p tag attrs =
     (let p = (if attribute attrs ''data-translate'' = Some HARD_BLOCK_HEADLINE_KEY then p\<lparr>blocked := True\<rparr> else p);
          p = (if tag = ''h1'' then p\<lparr>heading_parts := Some []\<rparr> else p) in
      if code_tag p = None
         \<and> HARD_BLOCK_CODE_CLASS \<in> set (str_words (case attribute attrs ''class'' of None \<Rightarrow> [] | Some c \<Rightarrow> c))
      then p\<lparr>code_tag := Some tag, code_parts := []\<rparr> else p)"

definition handle_starttag :: "string \<Rightarrow> (string \<times> string option) list \<Rightarrow> block_parser \<Rightarrow> block_parser" where
  "handle_starttag tag attrs p =
     (if tag = ''title'' \<and> title_text p = None \<and> title_parts p = None then p\<lparr>title_parts := Some []\<rparr>
      else let p = enter_container p tag attrs in
        if container_tag p = None then p else mark_inside p tag attrs)"

definition end_title :: "string \<Rightarrow> block_parser \<Rightarrow> block_parser" where
  "end_title tag p = (if tag = ''title'' \<and> title_parts p \<noteq> None
     then p\<lparr>title_text := title_parts p, title_parts := None\<rparr> else p)"

definition end_heading :: "string \<Rightarrow> block_parser \<Rightarrow> block_parser" where
  "end_heading tag p = (case heading_parts p of
     Some parts \<Rightarrow> if tag = ''h1''
       then p\<lparr>blocked := blocked p \<or> str_lower (normalize_space parts) = HARD_BLOCK_HEADLINE, heading_parts := None\<rparr>
       else p
   | None \<Rightarrow> p)"

definition end_code :: "string \<Rightarrow> block_parser \<Rightarrow> block_parser" where
  "end_code tag p = (if code_tag p = Some tag
     then p\<lparr>blocked := blocked p \<or> str_strip (code_parts p) \<in> set HARD_BLOCK_ERROR_CODES, code_tag := None\<rparr> else p)"

definition end_container :: "string \<Rightarrow> block_parser \<Rightarrow> block_parser" where
  "end_container tag p = (if container_tag p = Some tag
     then if container_depth p = 1
          then p\<lparr>container_depth := 0, container_tag := None, heading_parts := None, code_tag := None, code_parts := []\<rparr>
          else p\<lparr>container_depth := container_depth p - 1\<rparr>
     else p)"

definition handle_endtag :: "string \<Rightarrow> block_parser \<Rightarrow> block_parser" where
  "handle_endtag tag p = end_container tag (end_code tag (end_heading tag (end_title tag p)))"

definition handle_data :: "string \<Rightarrow> block_parser \<Rightarrow> block_parser" where
  "handle_data data p = p\<lparr>
     title_parts := map_option (\<lambda>s. s @ data) (title_parts p),
     heading_parts := map_option (\<lambda>s. s @ data) (heading_parts p),
     code_parts := (if code_tag p \<noteq> None then code_parts p @ data else code_parts p)\<rparr>"

fun handle :: "html_event \<Rightarrow> block_parser \<Rightarrow> block_parser" where
  "handle (StartTag tag attrs) p = handle_starttag tag attrs p"
| "handle (EndTag tag) p = handle_endtag tag p"
| "handle (TextData data) p = handle_data data p"

definition parse_events :: "html_event list \<Rightarrow> block_parser" where
  "parse_events es = fold handle es new_parser"

section \<open>Classifying a document\<close>

datatype challenge_state = Present | Cleared | Blocked | Unknown

definition CHALLENGE_TITLES :: "string list" where
  "CHALLENGE_TITLES = [''just a moment...'', ''ddos-guard'']"

definition CHALLENGE_MARKERS :: "string list" where
  "CHALLENGE_MARKERS = [''/cdn-cgi/challenge-platform/'', ''cf-challenge'']"

definition title_is_challenge :: "string \<Rightarrow> bool" where
  "title_is_challenge title \<longleftrightarrow> str_lower (str_strip title) \<in> set CHALLENGE_TITLES"

definition content_has_challenge_markers :: "text_lib \<Rightarrow> string \<Rightarrow> bool" where
  "content_has_challenge_markers lib content \<longleftrightarrow>
     list_ex (\<lambda>marker. contains marker (str_lower content)) CHALLENGE_MARKERS
     \<or> title_is_challenge (html_title lib content)"

definition hard_block_corroborated :: "string \<Rightarrow> int option \<Rightarrow> bool" where
  "hard_block_corroborated title status =
     (if status = Some 403 then True
      else let normalized = str_lower (normalize_space title) in
        normalized = HARD_BLOCK_TITLE
        \<or> starts_with ACCESS_DENIED_TITLE_PREFIX normalized \<and> ends_with ACCESS_DENIED_TITLE_SUFFIX normalized)"

text \<open>A byte order mark (U+FEFF) lies beyond the modelled characters.\<close>

definition looks_like_markup :: "string \<Rightarrow> bool" where
  "looks_like_markup s \<longleftrightarrow> starts_with ''<'' (dropWhile (\<lambda>c. c \<in> {CHR '' '', CHR 0x09, CHR 0x0D, CHR 0x0A}) s)"

definition content_is_hard_block :: "text_lib \<Rightarrow> string \<Rightarrow> int option \<Rightarrow> bool" where
  "content_is_hard_block lib content status =
     (let prefix = take HARD_BLOCK_PROBE_CHARS content in
      if \<not> contains HARD_BLOCK_CONTAINER_ID prefix then False
      else if \<not> looks_like_markup prefix then False
      else case html_events lib prefix of
        Inl _ \<Rightarrow> False
      | Inr es \<Rightarrow> let p = parse_events es in
          blocked p \<and> hard_block_corroborated (case title_text p of None \<Rightarrow> [] | Some t \<Rightarrow> t) status)"

definition content_state :: "text_lib \<Rightarrow> string \<Rightarrow> int option \<Rightarrow> challenge_state" where
  "content_state lib content status =
     (if content_is_hard_block lib content status then Blocked
      else if content_has_challenge_markers lib content then Present else Cleared)"

text \<open>The flags the page script returned; anything but a dictionary counts as none.\<close>

definition marker_flag :: "py_val \<Rightarrow> string \<Rightarrow> bool" where
  "marker_flag markers name \<longleftrightarrow> (case markers of PyDict d \<Rightarrow> py_truthy (dget d name) | _ \<Rightarrow> False)"

definition marker_state :: "string \<Rightarrow> py_val \<Rightarrow> int option \<Rightarrow> challenge_state" where
  "marker_state title markers status =
     (if marker_flag markers ''block'' \<and> hard_block_corroborated title status then Blocked
      else if title_is_challenge title \<or> marker_flag markers ''challenge'' then Present else Cleared)"

definition title_state :: "string \<Rightarrow> challenge_state" where
  "title_state title = (if title_is_challenge title then Present else Unknown)"

definition challenge_state_of ::
    "text_lib \<Rightarrow> 'j browser_world \<Rightarrow> resource_limits \<Rightarrow> bool \<Rightarrow> int option \<Rightarrow> challenge_state browse_prog" where
  "challenge_state_of lib w limits include_content status = seq (safe_page_title w) (\<lambda>title.
     if \<not> include_content
     then except_Exception (seq (ask ReadMarkers (markers_at w)) (\<lambda>m. ret (marker_state title m status)))
            (\<lambda>_. ret (title_state title))
     else except_Exception
       (seq (limited_content w limits) (\<lambda>content.
          let st = content_state lib content status in
          ret (if st = Cleared \<and> title_is_challenge title then Present else st)))
       (\<lambda>e. if is_ResourceLimitError e then raise_exn e else ret (title_state title)))"

section \<open>Solving and waiting\<close>

text \<open>The provider runs under the remaining budget; its timeout is a \<open>TimeoutError\<close> of the operation.\<close>

definition solve_challenge :: "'j browser_world \<Rightarrow> string option browse_prog" where
  "solve_challenge w = except_Exception (ask SolveCaptcha (solve_at w))
     (\<lambda>e. if is_TimeoutError e then raise_exn (ChallengeSolveError ''Challenge solve timed out.'')
          else raise_exn (ChallengeSolveError (''Challenge solve failed: '' @ exn_str e)))"

text \<open>\<open>waitInSeconds\<close>: the sleep is cut off at the remaining budget.\<close>

definition wait_requested :: "'j browser_world \<Rightarrow> int \<Rightarrow> unit browse_prog" where
  "wait_requested w secs = except_Exception (ask (SleepFor (secs * 1000)) (sleep_at w))
     (\<lambda>e. if is_TimeoutError e then raise_exn (RequestTimeoutError ''Request timed out during waitInSeconds.'')
          else raise_exn e)"

definition CHALLENGE_CLEAR_POLL_MS :: int where "CHALLENGE_CLEAR_POLL_MS = 1000"
definition CHALLENGE_RESULT_RESERVE_MS :: int where "CHALLENGE_RESULT_RESERVE_MS = 1000"

definition resolved :: "challenge_state \<Rightarrow> bool" where
  "resolved st \<longleftrightarrow> st = Cleared \<or> st = Blocked"

definition remaining_now :: "'j browser_world \<Rightarrow> timeout_timer \<Rightarrow> int browse_prog" where
  "remaining_now w timer = seq (read_clock w) (\<lambda>now. ret (remaining_ms now timer))"

text \<open>One turn: the step, the sleep and the next inspection; \<open>None\<close> when the reserve is all that is left,
  else the step and whether the page is resolved.\<close>

definition poll_turn ::
    "text_lib \<Rightarrow> 'j browser_world \<Rightarrow> timeout_timer \<Rightarrow> resource_limits \<Rightarrow> bool \<Rightarrow> int \<Rightarrow> int
     \<Rightarrow> (int \<times> bool) option browse_prog" where
  "poll_turn lib w timer limits include_content budget waited = seq (remaining_now w timer) (\<lambda>left.
     let step = min (min CHALLENGE_CLEAR_POLL_MS (budget - waited)) (left - CHALLENGE_RESULT_RESERVE_MS) in
     if step \<le> 0 then ret None
     else skip_then (ask (SleepFor step) (sleep_at w))
       (seq (challenge_state_of lib w limits include_content None) (\<lambda>st. ret (Some (step, resolved st)))))"

lemma poll_turn_progress:
  "poll_turn lib w timer limits ic budget waited s = (Inr (Some (step, b)), s') \<Longrightarrow> 0 < step"
  by (auto simp: poll_turn_def seq_apply skip_then_apply Let_def split: prod.splits sum.splits if_splits)

function poll_until_cleared ::
    "text_lib \<Rightarrow> 'j browser_world \<Rightarrow> timeout_timer \<Rightarrow> resource_limits \<Rightarrow> bool \<Rightarrow> int \<Rightarrow> int \<Rightarrow> bool browse_prog" where
  "poll_until_cleared lib w timer limits ic budget waited s =
     (if waited < budget
      then case poll_turn lib w timer limits ic budget waited s of
          (Inl e, s') \<Rightarrow> (Inl e, s')
        | (Inr None, s') \<Rightarrow> (Inr False, s')
        | (Inr (Some (step, True)), s') \<Rightarrow> (Inr True, s')
        | (Inr (Some (step, False)), s') \<Rightarrow> poll_until_cleared lib w timer limits ic budget (waited + step) s'
      else (Inr False, s))"
  by pat_completeness auto
termination
  by (relation "measure (\<lambda>(lib, w, timer, limits, ic, budget, waited, s). nat (budget - waited))")
    (auto dest: poll_turn_progress [OF sym])

declare poll_until_cleared.simps [simp del]

definition wait_for_challenge_cleared ::
    "text_lib \<Rightarrow> 'j browser_world \<Rightarrow> timeout_timer \<Rightarrow> resource_limits \<Rightarrow> bool \<Rightarrow> bool browse_prog" where
  "wait_for_challenge_cleared lib w timer limits include_content =
     seq (challenge_state_of lib w limits include_content None) (\<lambda>st.
       if resolved st then ret True
       else seq (remaining_now w timer) (\<lambda>left.
         poll_until_cleared lib w timer limits include_content (max 0 (left - CHALLENGE_RESULT_RESERVE_MS)) 0))"

end
