(* ===== verification/Navigation.thy ===== *)
theory Navigation
  imports Challenge
begin

text \<open>
  Navigating to the target (\<open>camouflare/navigation.py\<close>): the time budget of the stages, the browser
  GET with its direct-HTTP preflight and fallbacks, and the POST through the context's request API.
\<close>

section \<open>Request headers\<close>

definition origin_bound_target_headers :: "externals \<Rightarrow> v1_request \<Rightarrow> headers" where
  "origin_bound_target_headers x r =
     (let hs = target_headers x r in
      case target_referer x r of
        Some v \<Rightarrow> if v \<noteq> [] then dict_set ''Referer'' v hs else hs
      | None \<Rightarrow> hs)"

definition target_request_headers :: "externals \<Rightarrow> v1_request \<Rightarrow> string option \<Rightarrow> headers" where
  "target_request_headers x r default_content_type =
     (let hs = origin_bound_target_headers x r;
          hs = (case target_user_agent x r of
                  Some v \<Rightarrow> if v \<noteq> [] then dict_set ''User-Agent'' v hs else hs
                | None \<Rightarrow> hs) in
      case default_content_type of Some t \<Rightarrow> set_default_header ''Content-Type'' t hs | None \<Rightarrow> hs)"

section \<open>The time budget\<close>

definition DOMCONTENTLOADED_NAVIGATION_TIMEOUT_MS :: int where "DOMCONTENTLOADED_NAVIGATION_TIMEOUT_MS = 15000"
definition DIRECT_HTTP_CHALLENGE_PROBE_BYTES :: nat where "DIRECT_HTTP_CHALLENGE_PROBE_BYTES = 65536"

definition result_reserve_ms :: "timeout_timer \<Rightarrow> int" where
  "result_reserve_ms timer = min CHALLENGE_RESULT_RESERVE_MS (max 1 (timeout_ms timer div 2))"

definition unspent_ms :: "time \<Rightarrow> timeout_timer \<Rightarrow> int" where
  "unspent_ms now timer = timeout_ms timer - elapsed_ms now timer"

definition unspent_now :: "'j browser_world \<Rightarrow> timeout_timer \<Rightarrow> int browse_prog" where
  "unspent_now w timer = seq (read_clock w) (\<lambda>now. ret (unspent_ms now timer))"

text \<open>The bounded timer has at least one millisecond, as every timer.\<close>

definition timer_keeping :: "time \<Rightarrow> timeout_timer \<Rightarrow> int \<Rightarrow> timeout_timer option" where
  "timer_keeping now timer reserve =
     (if unspent_ms now timer \<le> reserve then None
      else Some \<lparr>timeout_ms = max 1 (timeout_ms timer - reserve), started_at = started_at timer\<rparr>)"

definition no_time_error :: exn where
  "no_time_error = TimeoutError ''The request deadline left no time for navigation.''"

definition navigation_timer :: "'j browser_world \<Rightarrow> timeout_timer \<Rightarrow> timeout_timer browse_prog" where
  "navigation_timer w timer = seq (unspent_now w timer) (\<lambda>unspent.
     let reserve = min (result_reserve_ms timer) (max 1 (unspent div 2)) in
     seq (read_clock w) (\<lambda>now. case timer_keeping now timer reserve of
        None \<Rightarrow> raise_exn no_time_error
      | Some t \<Rightarrow> ret t))"

definition stage_timeout_ms :: "'j browser_world \<Rightarrow> timeout_timer \<Rightarrow> int \<Rightarrow> int browse_prog" where
  "stage_timeout_ms w timer reserve = seq (unspent_now w timer) (\<lambda>unspent.
     ret (min DOMCONTENTLOADED_NAVIGATION_TIMEOUT_MS (max 1 (unspent - reserve))))"

section \<open>The direct HTTP request\<close>

definition direct_fetch :: "externals \<Rightarrow> resource_limits \<Rightarrow> v1_request \<Rightarrow> string \<Rightarrow> http_fetch" where
  "direct_fetch x limits r url =
     \<lparr>fetch_url = url, fetch_method = ''GET'',
      fetch_headers = with_default_headers (target_request_headers x r None),
      origin_bound = set (map (\<lambda>(n, v). str_lower n) (origin_bound_target_headers x r)),
      fetch_proxy = None, max_redirects = MAX_HTTP_REDIRECTS,
      max_body_bytes = (if return_only_cookies r then DIRECT_HTTP_CHALLENGE_PROBE_BYTES else response_body_bytes limits),
      fetch_body = (if return_only_cookies r then PrefixBody else FullBody),
      require_https = False, block_private_targets = False\<rparr>"

definition raw_response_of :: "text_lib \<Rightarrow> 'j browser_world \<Rightarrow> 'j http_result \<Rightarrow> exn + page_response" where
  "raw_response_of lib w res = and_then
     (decode_replace lib (message_response_charset lib (result_headers res)) (result_body res)) (\<lambda>body. Inr
     \<lparr>page_raw = True, page_resp_url = result_url res, page_status = Some (int (result_status res)),
      page_headers = fold (\<lambda>(n, v). dict_set n v) (result_headers res) [], page_body = None,
      page_text = Some (Inr body), page_cookies = Some (jar_cookies w (result_jar res)),
      page_solution_cookies = Some (jar_solution_cookies w (result_jar res)),
      page_user_agent = result_user_agent res, page_fallback_used = False\<rparr>)"

definition direct_http_get ::
    "externals \<Rightarrow> text_lib \<Rightarrow> 'j browser_world \<Rightarrow> resource_limits \<Rightarrow> v1_request \<Rightarrow> string \<Rightarrow> timeout_timer
     \<Rightarrow> page_response browse_prog" where
  "direct_http_get x lib w limits r url timer =
     (if \<not> has_transport w then raise_exn (RuntimeError ''HTTP transport is not configured for this runtime.'')
      else seq (remaining_now w timer) (\<lambda>left.
        let f = direct_fetch x limits r url in
        seq (ask (DirectGet f left (origin_bound_target_headers x r \<noteq> [])) (\<lambda>n. transport_at w n f)) (\<lambda>res.
          of_sum (raw_response_of lib w res))))"

definition import_direct_response_cookies :: "'j browser_world \<Rightarrow> page_response \<Rightarrow> unit browse_prog" where
  "import_direct_response_cookies w resp = (case page_cookies resp of
     None \<Rightarrow> ret () | Some [] \<Rightarrow> ret ()
   | Some (c # cs) \<Rightarrow> ask (AddCookies (c # cs)) (add_cookies_at w))"

fun is_HttpDecodeError :: "exn \<Rightarrow> bool" where
  "is_HttpDecodeError (CamouflareError e) \<longleftrightarrow> err_class e = HttpDecodeErrorClass"
| "is_HttpDecodeError _ \<longleftrightarrow> False"

definition never_masked :: "exn \<Rightarrow> bool" where
  "never_masked e \<longleftrightarrow> is_ResourceLimitError e \<or> is_HttpDecodeError e"

definition raw_text :: "page_response \<Rightarrow> string" where
  "raw_text resp = (case page_text resp of Some (Inr t) \<Rightarrow> t | _ \<Rightarrow> [])"

text \<open>The preflight and the fallback after a timeout share their steps; the fallback marks its response.\<close>

definition try_direct_http_get ::
    "externals \<Rightarrow> text_lib \<Rightarrow> 'j browser_world \<Rightarrow> resource_limits \<Rightarrow> v1_request \<Rightarrow> bool \<Rightarrow> string \<Rightarrow> timeout_timer
     \<Rightarrow> page_response option browse_prog" where
  "try_direct_http_get x lib w limits r fallback url timer =
     seq (except_Exception (seq (direct_http_get x lib w limits r url timer) (\<lambda>resp. ret (Some resp)))
            (\<lambda>e. if never_masked e then raise_exn e else ret None)) (\<lambda>got.
     case got of None \<Rightarrow> ret None
     | Some resp \<Rightarrow>
         if \<not> (case page_status resp of None \<Rightarrow> False | Some n \<Rightarrow> 200 \<le> n \<and> n < 300) then ret None
         else if content_has_challenge_markers lib (raw_text resp) then ret None
         else seq (except_Exception (skip_then (import_direct_response_cookies w resp) (ret True)) (\<lambda>_. ret False))
           (\<lambda>imported. ret (if imported
              then Some (if fallback then resp\<lparr>page_fallback_used := True\<rparr> else resp) else None)))"

definition should_try_direct_get_first :: "v1_request \<Rightarrow> exn + bool" where
  "should_try_direct_get_first r =
     (if return_screenshot r \<or> (case wait_in_seconds r of None \<Rightarrow> False | Some n \<Rightarrow> n \<noteq> 0)
         \<or> (case req_cookies r of None \<Rightarrow> False | Some cs \<Rightarrow> cs \<noteq> [])
      then Inr False
      else and_then (clean_url (req_url r)) (\<lambda>url. and_then (urlsplit url) (\<lambda>u.
        Inr (''ajax=true'' \<in> set (split_on (CHR ''&'') (str_lower (url_query u)))))))"

definition fallback_after_browser_transport ::
    "externals \<Rightarrow> text_lib \<Rightarrow> 'j browser_world \<Rightarrow> resource_limits \<Rightarrow> v1_request \<Rightarrow> string \<Rightarrow> timeout_timer \<Rightarrow> exn
     \<Rightarrow> page_response browse_prog" where
  "fallback_after_browser_transport x lib w limits r url timer browser_error =
     seq (except_Exception (direct_http_get x lib w limits r url timer)
            (\<lambda>e. skip_then (observe_label ''browser_transport_error'' ''navigation'')
               (raise_exn (if never_masked e then e else browser_error)))) (\<lambda>resp.
     skip_then (except_Exception (import_direct_response_cookies w resp) (\<lambda>_. ret ()))
    (skip_then (observe_label ''browser_transport_error'' ''navigation'')
      (ret (resp\<lparr>page_fallback_used := True\<rparr>))))"

section \<open>GET\<close>

text \<open>What follows a failed commit wait, and a failed \<open>goto\<close>.\<close>

definition after_transport_error ::
    "externals \<Rightarrow> text_lib \<Rightarrow> 'j browser_world \<Rightarrow> resource_limits \<Rightarrow> v1_request \<Rightarrow> bool \<Rightarrow> string \<Rightarrow> timeout_timer \<Rightarrow> exn
     \<Rightarrow> page_response option browse_prog" where
  "after_transport_error x lib w limits r allow_fallback url timer e =
     (if is_best_effort_browser_error e
      then if allow_fallback
        then seq (fallback_after_browser_transport x lib w limits r url timer e) (\<lambda>resp. ret (Some resp))
        else skip_then (observe_label ''browser_transport_error'' ''navigation'') (raise_exn e)
      else raise_exn e)"

definition after_commit_error ::
    "externals \<Rightarrow> text_lib \<Rightarrow> 'j browser_world \<Rightarrow> resource_limits \<Rightarrow> v1_request \<Rightarrow> bool \<Rightarrow> bool \<Rightarrow> string \<Rightarrow> timeout_timer \<Rightarrow> exn
     \<Rightarrow> page_response option browse_prog" where
  "after_commit_error x lib w limits r allow_fallback timeout_fallback url timer e =
     seq (if timeout_fallback \<and> is_timeout_error e
          then seq (unspent_now w timer) (\<lambda>left.
            if left > 0 then try_direct_http_get x lib w limits r True url timer else ret None)
          else ret None) (\<lambda>got.
     case got of Some resp \<Rightarrow> ret (Some resp)
     | None \<Rightarrow> after_transport_error x lib w limits r allow_fallback url timer e)"

definition browser_get ::
    "externals \<Rightarrow> text_lib \<Rightarrow> 'j browser_world \<Rightarrow> resource_limits \<Rightarrow> v1_request \<Rightarrow> bool \<Rightarrow> bool \<Rightarrow> string
     \<Rightarrow> timeout_timer \<Rightarrow> timeout_timer \<Rightarrow> page_response option browse_prog" where
  "browser_get x lib w limits r allow_fallback timeout_fallback url nav_timer browser_timer =
     seq (stage_timeout_ms w browser_timer 1) (\<lambda>goto_timeout.
     except_Exception (ask (Goto url goto_timeout) (goto_at w)) (\<lambda>e.
       if is_timeout_error e
       then seq (stage_timeout_ms w browser_timer 0) (\<lambda>commit_timeout.
         except_Exception (skip_then (ask (WaitForCommit commit_timeout) (commit_at w)) (ret None))
           (after_commit_error x lib w limits r allow_fallback timeout_fallback url nav_timer))
       else after_transport_error x lib w limits r allow_fallback url nav_timer e))"

definition start_error :: exn where
  "start_error = TimeoutError ''Navigation timed out before browser navigation could start.''"

definition navigate_in_browser ::
    "externals \<Rightarrow> text_lib \<Rightarrow> 'j browser_world \<Rightarrow> resource_limits \<Rightarrow> v1_request \<Rightarrow> bool \<Rightarrow> string
     \<Rightarrow> timeout_timer \<Rightarrow> page_response option browse_prog" where
  "navigate_in_browser x lib w limits r allow_fallback url nav_timer =
     seq (if allow_fallback then of_sum (should_try_direct_get_first r) else ret False) (\<lambda>timeout_fallback.
     seq (if timeout_fallback
          then seq (unspent_now w nav_timer) (\<lambda>left.
            ret (min DOMCONTENTLOADED_NAVIGATION_TIMEOUT_MS (max 0 left div 2)))
          else ret 0) (\<lambda>reserve.
     seq (read_clock w) (\<lambda>now. case timer_keeping now nav_timer reserve of
       None \<Rightarrow> raise_exn start_error
     | Some browser_timer \<Rightarrow>
         seq (unspent_now w browser_timer) (\<lambda>left.
           if left < 2 then raise_exn start_error
           else browser_get x lib w limits r allow_fallback timeout_fallback url nav_timer browser_timer))))"

definition navigate_get ::
    "externals \<Rightarrow> text_lib \<Rightarrow> 'j browser_world \<Rightarrow> resource_limits \<Rightarrow> v1_request \<Rightarrow> timeout_timer \<Rightarrow> bool \<Rightarrow> bool
     \<Rightarrow> page_response option browse_prog" where
  "navigate_get x lib w limits r timer allow_fallback allow_first =
     seq (of_sum (clean_url (req_url r))) (\<lambda>url.
     if origin_bound_target_headers x r \<noteq> []
     then if \<not> allow_first
       then raise_exn (invalid_request
              ''Non-User-Agent headers on request.get require a stateless request without a proxy.'')
       else if return_screenshot r \<and> \<not> return_only_cookies r
       then raise_exn (invalid_request
              ''returnScreenshot is not supported when request.get uses origin-bound headers.'')
       else seq (navigation_timer w timer) (\<lambda>nav_timer.
            seq (direct_http_get x lib w limits r url nav_timer) (\<lambda>resp.
            skip_then (import_direct_response_cookies w resp) (ret (Some resp))))
     else seq (navigation_timer w timer) (\<lambda>nav_timer.
       seq (if allow_first then of_sum (should_try_direct_get_first r) else ret False) (\<lambda>first.
       seq (if first then try_direct_http_get x lib w limits r False url nav_timer else ret None) (\<lambda>got.
       case got of Some resp \<Rightarrow> ret (Some resp)
       | None \<Rightarrow> navigate_in_browser x lib w limits r allow_fallback url nav_timer))))"

definition wait_networkidle_best_effort :: "'j browser_world \<Rightarrow> timeout_timer \<Rightarrow> unit browse_prog" where
  "wait_networkidle_best_effort w timer = seq (unspent_now w timer) (\<lambda>left.
     let timeout = min 5000 (left - result_reserve_ms timer) in
     if timeout \<le> 0 then ret ()
     else except_Exception (ask (WaitForIdle timeout) (idle_at w)) (\<lambda>_. ret ()))"

section \<open>POST\<close>

definition api_response_text :: "text_lib \<Rightarrow> resource_limits \<Rightarrow> bool \<Rightarrow> api_response \<Rightarrow> exn + string" where
  "api_response_text lib limits want_body r =
     (if \<not> want_body then Inr []
      else case api_body r of
        Some body \<Rightarrow> and_then body (\<lambda>b.
          and_then (ensure_bytes_size b (response_body_bytes limits) ''Response body'') (\<lambda>_.
            decode_replace lib (response_charset lib (api_headers r)) b))
      | None \<Rightarrow> and_then (case api_text r of Some t \<Rightarrow> t | None \<Rightarrow> Inr []) (\<lambda>t.
          and_then (ensure_text_size t (response_body_bytes limits) ''Response body'') (\<lambda>_. Inr t)))"

definition raw_response_from_api_response ::
    "text_lib \<Rightarrow> 'j browser_world \<Rightarrow> resource_limits \<Rightarrow> bool \<Rightarrow> string \<Rightarrow> api_response \<Rightarrow> page_response browse_prog" where
  "raw_response_from_api_response lib w limits want_body fallback_url r =
     try_finally
       (seq (of_sum (api_response_text lib limits want_body r)) (\<lambda>body. ret
          \<lparr>page_raw = True, page_resp_url = (if nonempty (api_url r) then the (api_url r) else fallback_url),
           page_status = Some (case api_status r of None \<Rightarrow> 200 | Some n \<Rightarrow> n), page_headers = api_headers r,
           page_body = None, page_text = Some (Inr body), page_cookies = Some [],
           page_solution_cookies = Some [], page_user_agent = None, page_fallback_used = False\<rparr>))
       (except_Exception (ask DisposeResponse (dispose_at w)) (\<lambda>_. ret ()))"

definition post_with_context_request ::
    "externals \<Rightarrow> text_lib \<Rightarrow> 'j browser_world \<Rightarrow> resource_limits \<Rightarrow> v1_request \<Rightarrow> timeout_timer
     \<Rightarrow> page_response option browse_prog" where
  "post_with_context_request x lib w limits r timer =
     (if \<not> has_post w then ret None
      else seq (of_sum (clean_url (req_url r))) (\<lambda>url.
        let hs = target_request_headers x r (Some ''application/x-www-form-urlencoded'') in
        skip_then (modify (\<lambda>s. s\<lparr>post_started := True\<rparr>))
       (seq (remaining_now w timer) (\<lambda>left.
        seq (ask (PostRequest url (case post_data r of None \<Rightarrow> [] | Some d \<Rightarrow> d) hs left) (post_at w)) (\<lambda>resp.
        seq (raw_response_from_api_response lib w limits (\<not> return_only_cookies r) url resp) (\<lambda>raw.
          ret (Some raw)))))))"

definition submit_post ::
    "externals \<Rightarrow> text_lib \<Rightarrow> 'j browser_world \<Rightarrow> resource_limits \<Rightarrow> v1_request \<Rightarrow> timeout_timer
     \<Rightarrow> page_response option browse_prog" where
  "submit_post x lib w limits r timer =
     (if return_screenshot r \<and> \<not> return_only_cookies r
      then raise_exn (invalid_request
        (''returnScreenshot is not supported for request.post because POST responses are not loaded into ''
         @ ''a browser page.''))
      else seq (post_with_context_request x lib w limits r timer) (\<lambda>got. case got of
          Some raw \<Rightarrow> ret (Some raw)
        | None \<Rightarrow> raise_exn (invalid_request
            (''request.post requires a browser context request transport so redirects can remain disabled.''))))"

end
