(* ===== verification/Solver.thy ===== *)
theory Solver
  imports Navigation
begin

text \<open>
  Solving one request on an open page (\<open>camouflare/solver.py\<close>): setting the page up, navigating,
  detecting and clearing a challenge, and classifying the final document.
\<close>

text \<open>The parameters of a run.  The wall-clock stamp and the version of the envelope are overwritten by the
  callers.\<close>

record 'j solve_env =
  ext :: externals
  text_of :: text_lib
  world :: "'j browser_world"
  b64 :: "string \<Rightarrow> string"
  env_limits :: resource_limits
  env_stamp :: int
  env_version :: string

definition is_post :: "v1_request \<Rightarrow> bool" where "is_post r \<longleftrightarrow> cmd r = Some ''request.post''"
definition is_get :: "v1_request \<Rightarrow> bool" where "is_get r \<longleftrightarrow> cmd r = Some ''request.get''"

section \<open>Setting the page up\<close>

definition MEDIA_PATTERNS :: "string list" where
  "MEDIA_PATTERNS = [''**/*.{png,jpg,jpeg,gif,webp,bmp,svg,ico,avif}'', ''**/*.{css,woff,woff2,ttf,otf,eot}'']"

definition apply_media_blocking :: "'j browser_world \<Rightarrow> bool \<Rightarrow> unit browse_prog" where
  "apply_media_blocking w enabled = with_state (\<lambda>s.
     if enabled
     then if media_routed s then ret ()
       else skip_then (for_each (\<lambda>p. ask (RouteMedia p) (route_at w)) MEDIA_PATTERNS)
              (modify (\<lambda>s. s\<lparr>media_routed := True\<rparr>))
     else if \<not> media_routed s then ret ()
     else skip_then
       (if has_unroute w
        then for_each (\<lambda>p. except_Exception (ask (UnrouteMedia p) (unroute_at w)) (\<lambda>_. ret ())) MEDIA_PATTERNS
        else ret ())
       (modify (\<lambda>s. s\<lparr>media_routed := False\<rparr>)))"

definition install_user_agent_override :: "'j browser_world \<Rightarrow> string option \<Rightarrow> unit browse_prog" where
  "install_user_agent_override w agent =
     (if \<not> nonempty agent \<or> \<not> has_init_script w then ret ()
      else ask (AddInitScript (the agent)) (init_script_at w))"

definition set_up :: "externals \<Rightarrow> 'j browser_world \<Rightarrow> v1_request \<Rightarrow> unit browse_prog" where
  "set_up x w r =
     (let agent = target_user_agent x r in
      skip_then (if nonempty agent then ask (SetHeaders [(''User-Agent'', the agent)]) (set_headers_at w) else ret ())
     (skip_then (install_user_agent_override w agent)
     (skip_then (apply_media_blocking w (disable_media r = Some True))
     (case req_cookies r of
        Some (c # cs) \<Rightarrow> ask (AddCookies (c # cs)) (add_cookies_at w)
      | _ \<Rightarrow> ret ()))))"

section \<open>Responses\<close>

definition main_frame_now :: "'j browser_world \<Rightarrow> page_response option browse_prog" where
  "main_frame_now w = gets (\<lambda>s. main_frame_at w (moment s))"

definition effective_response :: "'j browser_world \<Rightarrow> page_response option \<Rightarrow> page_response option browse_prog" where
  "effective_response w resp = (case resp of
     Some p \<Rightarrow> if page_raw p then ret resp
       else seq (main_frame_now w) (\<lambda>final. ret (case final of Some f \<Rightarrow> Some f | None \<Rightarrow> resp))
   | None \<Rightarrow> main_frame_now w)"

definition response_status :: "page_response option \<Rightarrow> int option" where
  "response_status resp = (case resp of None \<Rightarrow> None | Some p \<Rightarrow> page_status p)"

definition empty_error_response :: "exn \<Rightarrow> page_response option \<Rightarrow> page_response option" where
  "empty_error_response e upstream = (case upstream of None \<Rightarrow> None
     | Some p \<Rightarrow> (case page_status p of None \<Rightarrow> None
        | Some status \<Rightarrow>
            if status < 400 \<or> \<not> is_empty_error_response_error e then None
            else Some \<lparr>page_raw = True, page_resp_url = page_resp_url p, page_status = Some status,
                       page_headers = page_headers p, page_body = None, page_text = Some (Inr []),
                       page_cookies = Some [], page_solution_cookies = Some [], page_user_agent = None,
                       page_fallback_used = False\<rparr>))"

definition buffered_response_text :: "page_response option \<Rightarrow> string option" where
  "buffered_response_text resp = (case resp of None \<Rightarrow> None
     | Some p \<Rightarrow> if \<not> page_raw p then None
        else (case page_text p of Some (Inr t) \<Rightarrow> Some t | _ \<Rightarrow> None))"

section \<open>Results\<close>

definition collect ::
    "'j solve_env \<Rightarrow> v1_request \<Rightarrow> page_response option \<Rightarrow> string \<Rightarrow> string option \<Rightarrow> solution browse_prog" where
  "collect v r pr content token = collect_solution (ext v) (world v) (b64 v) (env_limits v) r pr content token"

definition inspected_content :: "'j solve_env \<Rightarrow> v1_request \<Rightarrow> string browse_prog" where
  "inspected_content v r = (if \<not> return_only_cookies r then safe_page_content (world v) (env_limits v) else ret [])"

definition failed_with ::
    "'j solve_env \<Rightarrow> v1_request \<Rightarrow> page_response option \<Rightarrow> string \<Rightarrow> string option
     \<Rightarrow> string \<Rightarrow> v1_error_code \<Rightarrow> bool \<Rightarrow> bool option \<Rightarrow> bool option \<Rightarrow> v1_response browse_prog" where
  "failed_with v r pr content token message code retry outcome_unknown fallback =
     seq (collect v r pr content token) (\<lambda>sol. ret ((ok_response (env_stamp v) (env_version v))
       \<lparr>resp_status := ''error'', resp_message := message, resp_error_code := Some code, resp_retryable := Some retry,
        resp_outcome_unknown := outcome_unknown, resp_fallback_used := fallback, resp_solution := Some sol\<rparr>))"

definition started_now :: "bool browse_prog" where
  "started_now = gets post_started"

text \<open>A failed navigation, classified.\<close>

definition navigation_code :: "exn \<Rightarrow> v1_error_code" where
  "navigation_code e = (case e of CamouflareError d \<Rightarrow> error_code d
     | _ \<Rightarrow> if is_best_effort_browser_error e then BROWSER_TRANSPORT_CLOSED
            else if is_timeout_error e then NAVIGATION_TIMEOUT
            else if is_target_unreachable_error e then TARGET_UNREACHABLE else INTERNAL_ERROR)"

definition navigation_retryable :: "v1_request \<Rightarrow> bool \<Rightarrow> exn \<Rightarrow> bool" where
  "navigation_retryable r started e =
     (if started then False
      else case e of CamouflareError d \<Rightarrow> retryable d
        | _ \<Rightarrow> is_get r \<and> (is_best_effort_browser_error e \<or> is_timeout_error e \<or> is_target_unreachable_error e))"

definition navigation_outcome_unknown :: "bool \<Rightarrow> exn \<Rightarrow> bool" where
  "navigation_outcome_unknown started e = (case e of
     CamouflareError d \<Rightarrow> started \<or> request_outcome_unknown d | _ \<Rightarrow> started)"

definition navigation_failed :: "'j solve_env \<Rightarrow> v1_request \<Rightarrow> exn \<Rightarrow> v1_response browse_prog" where
  "navigation_failed v r e =
     skip_then (if is_timeout_error e then observe_label ''timeout'' ''navigation'' else ret ())
    (skip_then (if is_best_effort_browser_error e \<and> is_post r
                then observe_label ''browser_transport_error'' ''navigation'' else ret ())
    (seq (inspected_content v r) (\<lambda>content.
     seq (navigation_error_message (world v) e None) (\<lambda>message.
     seq started_now (\<lambda>started.
       failed_with v r None content None message (navigation_code e) (navigation_retryable r started e)
         (Some (navigation_outcome_unknown started e)) None)))))"

definition challenge_remained :: string where
  "challenge_remained = ''Challenge remained after solving attempt.''"

text \<open>An error after navigation: never retryable, its outcome unknown once a POST has started.\<close>

definition failed_after ::
    "'j solve_env \<Rightarrow> v1_request \<Rightarrow> page_response option \<Rightarrow> string \<Rightarrow> string option \<Rightarrow> string \<Rightarrow> v1_error_code \<Rightarrow> bool
     \<Rightarrow> bool option \<Rightarrow> v1_response browse_prog" where
  "failed_after v r pr content token message code retry fallback = seq started_now (\<lambda>started.
     failed_with v r pr content token message code retry (Some started) fallback)"

section \<open>The challenge\<close>

text \<open>The state of the page and whether a buffered response is a hard block.\<close>

definition detect :: "'j solve_env \<Rightarrow> v1_request \<Rightarrow> page_response option \<Rightarrow> challenge_state browse_prog" where
  "detect v r resp = seq (effective_response (world v) resp) (\<lambda>initial.
     seq (challenge_state_of (text_of v) (world v) (env_limits v) (\<not> return_only_cookies r) (response_status initial)) (\<lambda>st.
     ret (if st \<noteq> Blocked
          then (case buffered_response_text initial of
             Some t \<Rightarrow> if content_is_hard_block (text_of v) t (response_status initial) then Blocked else st
           | None \<Rightarrow> st)
          else st)))"

text \<open>Solve and wait; the result is an error response or the token.\<close>

definition clear_challenge ::
    "'j solve_env \<Rightarrow> v1_request \<Rightarrow> timeout_timer \<Rightarrow> page_response option \<Rightarrow> bool option
     \<Rightarrow> (v1_response + string option) browse_prog" where
  "clear_challenge v r timer resp fallback =
     skip_then (apply_media_blocking (world v) False)
    (seq (try_except (seq (solve_challenge (world v)) (\<lambda>token. ret (Inr token)))
            (\<lambda>e. case e of ChallengeSolveError m \<Rightarrow> ret (Inl m) | _ \<Rightarrow> raise_exn e)) (\<lambda>solved. case solved of
       Inl m \<Rightarrow>
         skip_then (if contains ''timed out'' (str_lower m)
            then skip_then (observe_label ''timeout'' ''challenge'') (observe_label ''challenge'' ''timeout'')
            else observe_label ''challenge'' ''failed'')
           (seq (inspected_content v r) (\<lambda>content.
             seq (failed_after v r resp content None m CHALLENGE_FAILED False fallback) (\<lambda>failure. ret (Inl failure))))
     | Inr token \<Rightarrow>
         seq (wait_for_challenge_cleared (text_of v) (world v) timer (env_limits v) (\<not> return_only_cookies r)) (\<lambda>cleared.
         if cleared then ret (Inr token)
         else skip_then (observe_label ''challenge'' ''failed'')
           (seq (inspected_content v r) (\<lambda>content.
             seq (failed_after v r resp content token challenge_remained CHALLENGE_FAILED False fallback)
               (\<lambda>failure. ret (Inl failure)))))))"

section \<open>The final document\<close>

definition classify ::
    "'j solve_env \<Rightarrow> v1_request \<Rightarrow> page_response option \<Rightarrow> challenge_state \<Rightarrow> (string \<times> challenge_state) browse_prog" where
  "classify v r eff st =
     (let lib = text_of v; w = world v; status = response_status eff in
      if \<not> return_only_cookies r
      then seq (response_text_or_page_content lib w eff (env_limits v)) (\<lambda>content.
        if st = Blocked then ret (content, st)
        else if content_state lib content status = Cleared
        then seq (safe_page_title w) (\<lambda>title. ret (content, if title_is_challenge title then Present else Cleared))
        else ret (content, content_state lib content status))
      else if st = Blocked then ret ([], st)
      else seq (challenge_state_of lib w (env_limits v) False status) (\<lambda>st.
        ret ([], if st \<noteq> Blocked \<and> st \<noteq> Present
                 then (case buffered_response_text eff of Some t \<Rightarrow> content_state lib t status | None \<Rightarrow> st)
                 else st)))"

definition finish_solve ::
    "'j solve_env \<Rightarrow> v1_request \<Rightarrow> page_response option \<Rightarrow> bool \<Rightarrow> challenge_state \<Rightarrow> string option \<Rightarrow> bool option
     \<Rightarrow> v1_response browse_prog" where
  "finish_solve v r resp detected st token fallback =
     seq (effective_response (world v) resp) (\<lambda>eff.
     seq (classify v r eff st) (\<lambda>(content, st).
     let note_failed = (if detected then observe_label ''challenge'' ''failed'' else ret ()) in
     if st = Blocked
     then skip_then note_failed
       (failed_after v r eff content token ''Target returned a bot/WAF block page.'' TARGET_BLOCKED False fallback)
     else if st = Present
     then skip_then note_failed (failed_after v r eff content token challenge_remained CHALLENGE_FAILED False fallback)
     else skip_then (if detected then observe_label ''challenge'' ''solved'' else ret ())
       (seq (collect v r eff content token) (\<lambda>sol. ret ((ok_response (env_stamp v) (env_version v))
          \<lparr>resp_message := (if detected then ''Challenge solved!'' else ''Challenge not detected!''),
           resp_fallback_used := fallback, resp_solution := Some sol\<rparr>)))))"

definition after_navigation ::
    "'j solve_env \<Rightarrow> v1_request \<Rightarrow> timeout_timer \<Rightarrow> page_response option \<Rightarrow> v1_response browse_prog" where
  "after_navigation v r timer resp =
     (let fallback = (case resp of Some p \<Rightarrow> if page_fallback_used p then Some True else None | None \<Rightarrow> None) in
      skip_then (wait_networkidle_best_effort (world v) timer)
     (seq (detect v r resp) (\<lambda>st.
      let detected = (st = Present) in
      skip_then (observe_label ''challenge'' (if detected then ''detected'' else ''not_detected''))
     (seq (if detected then clear_challenge v r timer resp fallback else ret (Inr None)) (\<lambda>outcome. case outcome of
        Inl failure \<Rightarrow> ret failure
      | Inr token \<Rightarrow>
          seq (case wait_in_seconds r of
                 Some n \<Rightarrow> if st \<noteq> Blocked \<and> n > 0
                   then try_except (skip_then (wait_requested (world v) n) (ret None))
                     (\<lambda>e. case e of RequestTimeoutError m \<Rightarrow> ret (Some m) | _ \<Rightarrow> raise_exn e)
                   else ret None
               | None \<Rightarrow> ret None) (\<lambda>late. case late of
            Some m \<Rightarrow>
              skip_then (observe_label ''timeout'' ''collection'')
             (seq (inspected_content v r) (\<lambda>content.
                failed_after v r resp content token m REQUEST_TIMEOUT (is_get r) fallback))
          | None \<Rightarrow> finish_solve v r resp detected st token fallback))))))"

section \<open>The run\<close>

definition navigate ::
    "'j solve_env \<Rightarrow> v1_request \<Rightarrow> timeout_timer \<Rightarrow> bool \<Rightarrow> bool \<Rightarrow> page_response option browse_prog" where
  "navigate v r timer allow_fallback allow_first =
     (if is_post r then submit_post (ext v) (text_of v) (world v) (env_limits v) r timer
      else navigate_get (ext v) (text_of v) (world v) (env_limits v) r timer allow_fallback allow_first)"

definition run_solve_inner ::
    "'j solve_env \<Rightarrow> v1_request \<Rightarrow> timeout_timer \<Rightarrow> bool \<Rightarrow> bool \<Rightarrow> v1_response browse_prog" where
  "run_solve_inner v r timer allow_fallback allow_first =
     seq (except_Exception (skip_then (set_up (ext v) (world v) r) (ret None)) (\<lambda>e. ret (Some e))) (\<lambda>setup_error.
     case setup_error of
       Some e \<Rightarrow> seq (inspected_content v r) (\<lambda>content.
         failed_with v r None content None (''Request setup failed: '' @ exn_str e) INTERNAL_ERROR False None None)
     | None \<Rightarrow>
         seq (except_Exception
                (seq (navigate v r timer allow_fallback allow_first) (\<lambda>resp. ret (Inr resp)))
                (\<lambda>e. if is_ResourceLimitError e then raise_exn e
                     else seq (main_frame_now (world v)) (\<lambda>final. case empty_error_response e final of
                         Some p \<Rightarrow> ret (Inr (Some p)) | None \<Rightarrow> ret (Inl e)))) (\<lambda>navigated.
         case navigated of
           Inl e \<Rightarrow> navigation_failed v r e
         | Inr resp \<Rightarrow> after_navigation v r timer resp))"

definition post_request_failure :: "exn \<Rightarrow> camouflare_error" where
  "post_request_failure e = (case e of
     CamouflareError d \<Rightarrow>
       (camouflare_error_with (err_message d) (error_code d) False)
         \<lparr>request_outcome_unknown := True, fallback_used := fallback_used d, err_solution := err_solution d\<rparr>
   | _ \<Rightarrow>
       (camouflare_error_with (exn_str e)
          (if is_ResourceLimitError e then RESOURCE_LIMIT_EXCEEDED
           else if is_best_effort_browser_error e then BROWSER_TRANSPORT_CLOSED
           else if is_timeout_error e then NAVIGATION_TIMEOUT
           else if is_target_unreachable_error e then TARGET_UNREACHABLE else INTERNAL_ERROR) False)
         \<lparr>request_outcome_unknown := True\<rparr>)"

definition run_solve ::
    "'j solve_env \<Rightarrow> v1_request \<Rightarrow> timeout_timer \<Rightarrow> bool \<Rightarrow> bool \<Rightarrow> v1_response browse_prog" where
  "run_solve v r timer allow_fallback allow_first =
     except_Exception (run_solve_inner v r timer allow_fallback allow_first) (\<lambda>e. with_state (\<lambda>s.
       if \<not> post_started s then raise_exn e
       else case e of
         CamouflareError d \<Rightarrow>
           if request_outcome_unknown d \<and> \<not> retryable d then raise_exn e
           else raise_exn (CamouflareError (post_request_failure e))
       | _ \<Rightarrow> raise_exn (CamouflareError (post_request_failure e))))"

text \<open>The captcha provider is prepared before and closed after the run; an error of its cleanup is ignored.\<close>

definition solve_request ::
    "'j solve_env \<Rightarrow> v1_request \<Rightarrow> timeout_timer \<Rightarrow> bool \<Rightarrow> bool \<Rightarrow> v1_response browse_prog" where
  "solve_request v r timer allow_fallback allow_first =
     try_finally
       (skip_then (if has_prepare (world v) then ask PrepareCaptcha (prepare_at (world v)) else ret ())
         (run_solve v r timer allow_fallback allow_first))
       (except_Exception (ask CloseCaptcha (close_captcha_at (world v))) (\<lambda>_. ret ()))"

end
