(* ===== verification/Solver_History.thy ===== *)
theory Solver_History
  imports Solver
begin

text \<open>
  Which operations the parts of a solve perform: the history lemmas the properties of the solver rest on.
\<close>

fun is_effect :: "browser_call \<Rightarrow> bool" where
  "is_effect (Goto _ _) = True"
| "is_effect (WaitForCommit _) = True"
| "is_effect (WaitForIdle _) = True"
| "is_effect (PostRequest _ _ _ _) = True"
| "is_effect (DirectGet _ _ _) = True"
| "is_effect (SleepFor _) = True"
| "is_effect _ = False"

text \<open>A predicate that constrains only the operations that wait or reach the target.\<close>

definition quiet :: "(browser_call \<Rightarrow> bool) \<Rightarrow> bool" where
  "quiet P \<longleftrightarrow> (\<forall>c. is_effect c \<or> P c)"

lemma quietD: "quiet P \<Longrightarrow> \<not> is_effect c \<Longrightarrow> P c"
  by (auto simp: quiet_def)

named_theorems quiet_issues \<open>programs that perform no operation with an effect\<close>

lemma issues_quiet_ask [quiet_issues]: "quiet P \<Longrightarrow> \<not> is_effect c \<Longrightarrow> issues P (ask c f)"
  by (rule issues_ask) (auto dest: quietD elim: is_post_call.elims)

lemma issues_quiet_clock [quiet_issues]: "quiet P \<Longrightarrow> issues P (read_clock w)"
  by (rule issues_read_clock) (simp add: quietD)

lemma issues_quiet_observe [quiet_issues]: "quiet P \<Longrightarrow> issues P (observe_label a b)"
  by (rule issues_observe) (simp add: quietD)

lemma issues_let [issues_intros]: "(\<And>x. issues P (f x)) \<Longrightarrow> issues P (let x = y in f x)"
  by simp

lemma issues_case_exn [issues_intros]:
  "(\<And>m. issues P (f m)) \<Longrightarrow> issues P g \<Longrightarrow> issues P (case e of ChallengeSolveError m \<Rightarrow> f m | _ \<Rightarrow> g)"
  "(\<And>m. issues P (f m)) \<Longrightarrow> issues P g \<Longrightarrow> issues P (case e of RequestTimeoutError m \<Rightarrow> f m | _ \<Rightarrow> g)"
  "(\<And>d. issues P (h d)) \<Longrightarrow> issues P g \<Longrightarrow> issues P (case e of CamouflareError d \<Rightarrow> h d | _ \<Rightarrow> g)"
  by (simp_all split: exn.split)

lemma issues_case_list [issues_intros]:
  "issues P m \<Longrightarrow> (\<And>y ys. issues P (f y ys)) \<Longrightarrow> issues P (case l of [] \<Rightarrow> m | y # ys \<Rightarrow> f y ys)"
  by (simp split: list.split)

section \<open>Reading and collecting\<close>

lemma quiet_reading [quiet_issues]:
  assumes "quiet P"
  shows "issues P (safe_page_title w)" "issues P (safe_context_cookies w)" "issues P (limited_content w limits)"
    "issues P (safe_page_content w limits)" "issues P (safe_user_agent x w r)" "issues P (page_url w)"
    "issues P (response_text_or_page_content lib w pr limits)" "issues P (take_screenshot w enc limits)"
  unfolding safe_page_title_def safe_context_cookies_def limited_content_def safe_page_content_def
    safe_user_agent_def page_url_def response_text_or_page_content_def take_screenshot_def
  by (intro issues_intros quiet_issues assms; simp)+

lemma quiet_collecting [quiet_issues]:
  assumes "quiet P"
  shows "issues P (collect_solution x w enc limits r pr content token)"
    "issues P (navigation_error_message w e pr)"
    "issues P (challenge_state_of lib w limits ic status)" "issues P (solve_challenge w)"
  unfolding collect_solution_def navigation_error_message_def challenge_state_of_def solve_challenge_def
  by (intro issues_intros quiet_issues assms; simp)+

lemma quiet_clocks [quiet_issues]:
  assumes "quiet P"
  shows "issues P (remaining_now w timer)" "issues P (unspent_now w timer)" "issues P (stage_timeout_ms w timer n)"
    "issues P (navigation_timer w timer)" "issues P (import_direct_response_cookies w resp)"
  unfolding remaining_now_def unspent_now_def stage_timeout_ms_def navigation_timer_def import_direct_response_cookies_def
  by (intro issues_intros quiet_issues assms; simp)+

lemma quiet_page_setup [quiet_issues]:
  assumes "quiet P"
  shows "issues P (apply_media_blocking w b)" "issues P (install_user_agent_override w agent)" "issues P (set_up x w r)"
    "issues P (effective_response w resp)" "issues P (main_frame_now w)"
    "issues P (collect v r pr content token)" "issues P (inspected_content v r)"
    "issues P (raw_response_from_api_response lib w limits wb url api)"
  unfolding apply_media_blocking_def install_user_agent_override_def set_up_def effective_response_def
    main_frame_now_def collect_def inspected_content_def raw_response_from_api_response_def
  by (intro issues_intros quiet_issues assms; simp)+

lemma quiet_results [quiet_issues]:
  assumes "quiet P"
  shows "issues P (failed_with v r pr content token m code retry u fb)"
    "issues P (failed_after v r pr content token m code retry fb)"
    "issues P (navigation_failed v r e)" "issues P (detect v r resp)" "issues P (classify v r resp st)"
    "issues P (finish_solve v r resp detected st token fb)"
  unfolding failed_with_def failed_after_def navigation_failed_def detect_def classify_def finish_solve_def
    started_now_def Let_def
  by (intro quiet_issues issues_intros assms; simp)+

section \<open>Waiting and navigating\<close>

lemma issues_poll:
  assumes "quiet P" and "\<And>n. 0 < n \<Longrightarrow> n \<le> 1000 \<Longrightarrow> P (SleepFor n)"
  shows "issues P (poll_turn lib w timer limits ic budget waited)"
  unfolding poll_turn_def Let_def
  by (intro quiet_issues issues_intros assms) (auto simp: CHALLENGE_CLEAR_POLL_MS_def)

lemma issues_poll_until_cleared:
  assumes "quiet P" and "\<And>n. 0 < n \<Longrightarrow> n \<le> 1000 \<Longrightarrow> P (SleepFor n)"
  shows "issues P (poll_until_cleared lib w timer limits ic budget waited)"
proof -
  have "steps_to P s (snd (poll_until_cleared lib w timer limits ic budget waited s))" for s
  proof (induction lib w timer limits ic budget waited s rule: poll_until_cleared.induct)
    case (1 lib w timer limits ic budget waited s)
    show ?case
    proof (cases "waited < budget")
      case True
      show ?thesis
      proof (rule issues_step [where m = "poll_turn lib w timer limits ic budget waited"], rule issues_poll [OF assms])
        fix r s'
        assume turn: "poll_turn lib w timer limits ic budget waited s = (r, s')"
        show "steps_to P s' (snd (poll_until_cleared lib w timer limits ic budget waited s))"
          using 1 [OF True] turn True
          by (subst poll_until_cleared.simps) (auto split: sum.split option.split prod.split bool.split)
      qed
    qed (subst poll_until_cleared.simps, simp)
  qed
  then show ?thesis by (simp add: issues_def)
qed

lemma issues_wait_for_challenge_cleared:
  assumes "quiet P" and "\<And>n. 0 < n \<Longrightarrow> n \<le> 1000 \<Longrightarrow> P (SleepFor n)"
  shows "issues P (wait_for_challenge_cleared lib w timer limits ic)"
  unfolding wait_for_challenge_cleared_def
  by (intro issues_poll_until_cleared quiet_issues issues_intros assms)

lemma stage_timeout_bounds: "stage_timeout_ms w timer n s = (Inr t, s') \<Longrightarrow> 1 \<le> t \<and> t \<le> 15000"
  by (auto simp: stage_timeout_ms_def unspent_now_def read_clock_def ask_def seq_apply
      DOMCONTENTLOADED_NAVIGATION_TIMEOUT_MS_def)

lemma remaining_now_pos: "remaining_now w timer s = (Inr n, s') \<Longrightarrow> 0 < n"
  by (auto simp: remaining_now_def read_clock_def ask_def seq_apply)

lemma issues_direct_http_get:
  assumes "quiet P" and "\<And>n. 0 < n \<Longrightarrow> P (DirectGet (direct_fetch x limits r url) n (origin_bound_target_headers x r \<noteq> []))"
  shows "issues P (direct_http_get x lib w limits r url timer)"
  unfolding direct_http_get_def Let_def
  by (intro issues_if issues_raise issues_seq_value [OF quiet_clocks(1)] issues_seq issues_ask issues_of_sum assms)
    (auto dest: remaining_now_pos)

lemma issues_direct_attempts:
  assumes "quiet P" and "\<And>n. 0 < n \<Longrightarrow> P (DirectGet (direct_fetch x limits r url) n (origin_bound_target_headers x r \<noteq> []))"
  shows "issues P (try_direct_http_get x lib w limits r fb url timer)"
    "issues P (fallback_after_browser_transport x lib w limits r url timer e)"
  unfolding try_direct_http_get_def fallback_after_browser_transport_def
  by (intro issues_direct_http_get quiet_issues issues_intros assms; simp)+

lemma issues_after_error:
  assumes "quiet P"
    and "\<And>n. allow \<Longrightarrow> 0 < n \<Longrightarrow> P (DirectGet (direct_fetch x limits r url) n (origin_bound_target_headers x r \<noteq> []))"
  shows "issues P (after_transport_error x lib w limits r allow url timer e)"
    and "fallback \<Longrightarrow> allow \<Longrightarrow> issues P (after_commit_error x lib w limits r allow fallback url timer e)"
    and "\<not> fallback \<Longrightarrow> issues P (after_commit_error x lib w limits r allow fallback url timer e)"
proof -
  show t: "issues P (after_transport_error x lib w limits r allow url timer e)" for e
  proof (cases allow)
    case True
    then show ?thesis unfolding after_transport_error_def
      by (intro issues_direct_attempts issues_intros assms; simp)
  next
    case False
    then show ?thesis unfolding after_transport_error_def
      by (simp, intro impI quiet_issues issues_intros assms; simp)
  qed
  show "issues P (after_commit_error x lib w limits r allow fallback url timer e)" if "fallback" "allow"
    unfolding after_commit_error_def
    by (intro issues_direct_attempts quiet_issues issues_intros assms t; simp add: that)
  show "issues P (after_commit_error x lib w limits r allow fallback url timer e)" if "\<not> fallback"
    unfolding after_commit_error_def using that t by (auto intro: issues_intros)
qed

section \<open>The whole solve\<close>

text \<open>The direct HTTP request of a solve, and what constrains each operation with an effect.\<close>

definition direct_call :: "externals \<Rightarrow> resource_limits \<Rightarrow> v1_request \<Rightarrow> string \<Rightarrow> int \<Rightarrow> browser_call" where
  "direct_call x limits r url n = DirectGet (direct_fetch x limits r url) n (origin_bound_target_headers x r \<noteq> [])"

definition stage_time :: "int \<Rightarrow> bool" where
  "stage_time n \<longleftrightarrow> 1 \<le> n \<and> n \<le> 15000"

lemma issues_browser_get:
  assumes "quiet P" and "\<And>n. stage_time n \<Longrightarrow> P (Goto url n) \<and> P (WaitForCommit n)"
    and "\<And>n. allow \<Longrightarrow> 0 < n \<Longrightarrow> P (direct_call x limits r url n)" and "fallback \<longrightarrow> allow"
  shows "issues P (browser_get x lib w limits r allow fallback url nav_timer browser_timer)"
proof -
  note direct = assms(3) [unfolded direct_call_def]
  have commit: "issues P (after_commit_error x lib w limits r allow fallback url nav_timer e)" for e
    using issues_after_error(2,3) [OF assms(1) direct] assms(4) by (cases fallback) auto
  show ?thesis
    unfolding browser_get_def
    by (intro issues_seq_value [OF quiet_clocks(3)] issues_except_Exception issues_ask issues_if issues_skip_then
        issues_ret commit issues_after_error(1) assms(1) direct)
      (auto dest!: stage_timeout_bounds intro: assms(2) [THEN conjunct1] assms(2) [THEN conjunct2] simp: stage_time_def)
qed

lemma issues_navigate_in_browser:
  assumes "quiet P" and "\<And>n. stage_time n \<Longrightarrow> P (Goto url n) \<and> P (WaitForCommit n)"
    and "\<And>n. allow \<Longrightarrow> 0 < n \<Longrightarrow> P (direct_call x limits r url n)"
  shows "issues P (navigate_in_browser x lib w limits r allow url nav_timer)"
  unfolding navigate_in_browser_def
proof (rule issues_seq_value)
  show "issues P (if allow then of_sum (should_try_direct_get_first r) else ret False)" by simp
next
  fix fallback s s'
  assume "(if allow then of_sum (should_try_direct_get_first r) else ret False) s = (Inr fallback, s')"
  then have "fallback \<longrightarrow> allow" by (auto split: if_splits)
  from issues_browser_get [OF assms this]
  show "issues P (seq (if fallback then seq (unspent_now w nav_timer) (\<lambda>left.
            ret (min DOMCONTENTLOADED_NAVIGATION_TIMEOUT_MS (max 0 left div 2))) else ret 0) (\<lambda>reserve.
     seq (read_clock w) (\<lambda>now. case timer_keeping now nav_timer reserve of None \<Rightarrow> raise_exn start_error
     | Some browser_timer \<Rightarrow> seq (unspent_now w browser_timer) (\<lambda>left.
         if left < 2 then raise_exn start_error
         else browser_get x lib w limits r allow fallback url nav_timer browser_timer))))"
    by (intro quiet_issues issues_intros assms(1); simp)
qed

lemma issues_navigate_get:
  assumes "quiet P"
    and "\<And>u n. origin_bound_target_headers x r = [] \<Longrightarrow> stage_time n \<Longrightarrow> P (Goto u n) \<and> P (WaitForCommit n)"
    and "\<And>u n. allow \<or> first \<Longrightarrow> 0 < n \<Longrightarrow> P (direct_call x limits r u n)"
  shows "issues P (navigate_get x lib w limits r timer allow first)"
proof -
  note direct = assms(3) [unfolded direct_call_def]
  have bound: "issues P (seq (navigation_timer w timer) (\<lambda>nav_timer.
       seq (direct_http_get x lib w limits r url nav_timer) (\<lambda>resp.
         skip_then (import_direct_response_cookies w resp) (ret (Some resp)))))" if first for url
    by (intro issues_direct_http_get quiet_issues issues_intros assms(1) direct; simp add: that)
  have free: "issues P (seq (navigation_timer w timer) (\<lambda>nav_timer.
       seq (if first then of_sum (should_try_direct_get_first r) else ret False) (\<lambda>eligible.
       seq (if eligible then try_direct_http_get x lib w limits r False url nav_timer else ret None) (\<lambda>got.
       case got of Some resp \<Rightarrow> ret (Some resp)
       | None \<Rightarrow> navigate_in_browser x lib w limits r allow url nav_timer))))" if "origin_bound_target_headers x r = []" for url
  proof (rule issues_seq, rule quiet_clocks(4) [OF assms(1)], rule issues_seq_value)
    fix nav_timer
    show "issues P (if first then of_sum (should_try_direct_get_first r) else ret False)" by simp
    fix eligible s s'
    assume "(if first then of_sum (should_try_direct_get_first r) else ret False) s = (Inr eligible, s')"
    then have "eligible \<longrightarrow> first" by (auto split: if_splits)
    then show "issues P (seq (if eligible then try_direct_http_get x lib w limits r False url nav_timer else ret None)
        (\<lambda>got. case got of Some resp \<Rightarrow> ret (Some resp)
         | None \<Rightarrow> navigate_in_browser x lib w limits r allow url nav_timer))"
      by (intro issues_seq issues_if issues_case_option issues_ret issues_direct_attempts(1)
          issues_navigate_in_browser assms(1) assms(2) [OF that] assms(3) direct) auto
  qed
  show ?thesis
    unfolding navigate_get_def by (rule issues_seq) (simp_all add: bound free)
qed

lemma issues_post_request:
  assumes "quiet P" and "\<And>u d hs n. 0 < n \<Longrightarrow> P (PostRequest u d hs n)"
  shows "issues P (skip_then (modify (\<lambda>s. s\<lparr>post_started := True\<rparr>))
      (seq (remaining_now w timer) (\<lambda>left. ask (PostRequest u d hs left) (post_at w))))"
  using assms quietD [OF assms(1), of ReadClock]
  by (auto simp: issues_def steps_to_def skip_then_apply seq_apply remaining_now_def read_clock_def ask_def)

lemma issues_submit_post:
  assumes "quiet P" and "\<And>u d hs n. 0 < n \<Longrightarrow> P (PostRequest u d hs n)"
  shows "issues P (submit_post x lib w limits r timer)"
proof -
  have "skip_then (modify (\<lambda>s. s\<lparr>post_started := True\<rparr>)) (seq (remaining_now w timer) (\<lambda>left. seq (ask (g left) h) f))
      = seq (skip_then (modify (\<lambda>s. s\<lparr>post_started := True\<rparr>)) (seq (remaining_now w timer) (\<lambda>left. ask (g left) h))) f"
    for g and h :: "nat \<Rightarrow> exn + api_response" and f :: "api_response \<Rightarrow> page_response option browse_prog"
    by (simp add: skip_then_def seq_assoc)
  then have "issues P (post_with_context_request x lib w limits r timer)"
    unfolding post_with_context_request_def Let_def
    by (simp, intro impI issues_post_request issues_ret issues_seq issues_of_sum quiet_page_setup assms)
  then show ?thesis unfolding submit_post_def by (intro issues_intros)
qed

lemma issues_idle:
  assumes "quiet P" and "\<And>n. 1 \<le> n \<Longrightarrow> n \<le> 5000 \<Longrightarrow> P (WaitForIdle n)"
  shows "issues P (wait_networkidle_best_effort w timer)"
  unfolding wait_networkidle_best_effort_def Let_def
  by (intro quiet_issues issues_intros assms) auto

lemma issues_wait_requested: "P (SleepFor (n * 1000)) \<Longrightarrow> issues P (wait_requested w n)"
  unfolding wait_requested_def by (intro issues_intros) simp_all

lemma issues_clear_challenge:
  assumes "quiet P" and "\<And>n. 0 < n \<Longrightarrow> P (SleepFor n)"
  shows "issues P (clear_challenge v r timer resp fb)"
  unfolding clear_challenge_def
  by (intro issues_wait_for_challenge_cleared quiet_issues issues_intros assms; (simp add: assms)?)

lemma issues_after_navigation:
  assumes "quiet P" and "\<And>n. 1 \<le> n \<Longrightarrow> n \<le> 5000 \<Longrightarrow> P (WaitForIdle n)" and "\<And>n. 0 < n \<Longrightarrow> P (SleepFor n)"
  shows "issues P (after_navigation v r timer resp)"
  unfolding after_navigation_def Let_def
  by (intro issues_idle issues_clear_challenge issues_wait_requested quiet_issues issues_intros assms; (simp add: assms)?)

lemma issues_solve_request:
  assumes "quiet P" and "\<And>n. 1 \<le> n \<Longrightarrow> n \<le> 5000 \<Longrightarrow> P (WaitForIdle n)" and "\<And>n. 0 < n \<Longrightarrow> P (SleepFor n)"
    and "\<And>u n. \<not> is_post r \<Longrightarrow> origin_bound_target_headers (ext v) r = [] \<Longrightarrow> stage_time n
           \<Longrightarrow> P (Goto u n) \<and> P (WaitForCommit n)"
    and "\<And>u n. \<not> is_post r \<Longrightarrow> allow \<or> first \<Longrightarrow> 0 < n \<Longrightarrow> P (direct_call (ext v) (env_limits v) r u n)"
    and "\<And>u d hs n. is_post r \<Longrightarrow> 0 < n \<Longrightarrow> P (PostRequest u d hs n)"
  shows "issues P (solve_request v r timer allow first)"
proof -
  have "issues P (navigate v r timer allow first)"
  proof (cases "is_post r")
    case True
    with issues_submit_post [OF assms(1,6)] show ?thesis by (simp add: navigate_def)
  next
    case False
    with issues_navigate_get [OF assms(1) assms(4) [OF False] assms(5) [OF False]] show ?thesis by (simp add: navigate_def)
  qed
  then have "issues P (run_solve_inner v r timer allow first)"
    unfolding run_solve_inner_def
    by (intro issues_after_navigation quiet_issues issues_intros assms; simp add: assms)
  then show ?thesis
    unfolding solve_request_def run_solve_def
    by (intro quiet_issues issues_intros assms; simp)
qed

end
