(* ===== verification/Solver_Properties.thy ===== *)
theory Solver_Properties
  imports Solver_History Http_Properties
begin

text \<open>
  The properties of a solve: what it may do to the target, how a started POST fails, and what a
  successful result guarantees.
\<close>

section \<open>Results of a program\<close>

text \<open>\<open>yields Q m\<close>: a value that \<open>m\<close> returns satisfies \<open>Q\<close> in the state it returns in.\<close>

definition yields :: "('a \<Rightarrow> browse \<Rightarrow> bool) \<Rightarrow> 'a browse_prog \<Rightarrow> bool" where
  "yields Q m \<longleftrightarrow> (\<forall>s x t. m s = (Inr x, t) \<longrightarrow> Q x t)"

named_theorems yields_intros \<open>compositional rules for the values a program returns\<close>

lemma yieldsI: "(\<And>s x t. m s = (Inr x, t) \<Longrightarrow> Q x t) \<Longrightarrow> yields Q m"
  by (simp add: yields_def)

lemma yieldsD: "yields Q m \<Longrightarrow> m s = (Inr x, t) \<Longrightarrow> Q x t"
  by (simp add: yields_def)

lemma yields_ret [yields_intros]: "(\<And>s. Q x s) \<Longrightarrow> yields Q (ret x)"
  by (simp add: yields_def)

lemma yields_raise [simp, yields_intros]: "yields Q (raise_exn e)"
  by (simp add: yields_def)

lemma yields_seq_value: "(\<And>x s s'. m s = (Inr x, s') \<Longrightarrow> yields Q (f x)) \<Longrightarrow> yields Q (seq m f)"
  by (rule yieldsI) (auto simp: seq_apply split: prod.splits sum.splits dest: yieldsD)

lemma yields_seq [yields_intros]: "(\<And>x. yields Q (f x)) \<Longrightarrow> yields Q (seq m f)"
  by (rule yields_seq_value)

lemma yields_skip_then [yields_intros]: "yields Q n \<Longrightarrow> yields Q (skip_then m n)"
  unfolding skip_then_def by (rule yields_seq)

lemma yields_try_except [yields_intros]: "yields Q m \<Longrightarrow> (\<And>e. yields Q (h e)) \<Longrightarrow> yields Q (try_except m h)"
  by (rule yieldsI) (auto simp: try_except_def split: prod.splits sum.splits dest: yieldsD)

lemma yields_except_Exception [yields_intros]:
  "yields Q m \<Longrightarrow> (\<And>e. yields Q (h e)) \<Longrightarrow> yields Q (except_Exception m h)"
  unfolding except_Exception_def by (rule yields_try_except) auto

lemma yields_if [yields_intros]: "(b \<Longrightarrow> yields Q m) \<Longrightarrow> (\<not> b \<Longrightarrow> yields Q n) \<Longrightarrow> yields Q (if b then m else n)"
  by simp

lemma yields_case_option [yields_intros]:
  "(y = None \<Longrightarrow> yields Q m) \<Longrightarrow> (\<And>x. y = Some x \<Longrightarrow> yields Q (f x)) \<Longrightarrow> yields Q (case y of None \<Rightarrow> m | Some x \<Rightarrow> f x)"
  by (simp split: option.split)

section \<open>A started POST\<close>

lemma same_started: "issues (\<lambda>c. \<not> is_post_call c) m \<Longrightarrow> m s = (x, t) \<Longrightarrow> post_started t = post_started s"
  by (drule issuesD [where s = s]) (auto simp: steps_to_def list_all_iff list_ex_iff)

lemma quiet_no_post [simp]: "quiet (\<lambda>c. \<not> is_post_call c)"
  by (auto simp: quiet_def elim: is_post_call.elims)

text \<open>What an error that follows a started POST must say.\<close>

definition says_unknown :: "v1_response \<Rightarrow> bool" where
  "says_unknown resp \<longleftrightarrow> resp_retryable resp = Some False \<and> resp_outcome_unknown resp = Some True"

definition honest :: "v1_request \<Rightarrow> v1_response \<Rightarrow> browse \<Rightarrow> bool" where
  "honest r resp s \<longleftrightarrow> resp_status resp = ''ok'' \<or> \<not> is_post r \<or> \<not> post_started s \<or> says_unknown resp"

lemma post_not_get: "is_post r \<Longrightarrow> \<not> is_get r"
  by (simp add: is_post_def is_get_def)

lemma collect_same: "collect v r pr content token s = (x, t) \<Longrightarrow> post_started t = post_started s"
  by (rule same_started [OF quiet_page_setup(6) [OF quiet_no_post]])

lemma failed_with_result:
  "failed_with v r pr content token m code retry u fb s = (Inr resp, t) \<Longrightarrow>
     resp_status resp = ''error'' \<and> resp_error_code resp = Some code \<and> resp_retryable resp = Some retry
     \<and> resp_outcome_unknown resp = u \<and> post_started t = post_started s"
  by (auto simp: failed_with_def seq_apply ok_response_def dest: collect_same split: prod.splits sum.splits)

lemma honest_failed_after: "is_post r \<longrightarrow> \<not> retry \<Longrightarrow> yields (honest r) (failed_after v r pr content token m code retry fb)"
  by (rule yieldsI) (auto simp: failed_after_def started_now_def seq_apply honest_def says_unknown_def dest!: failed_with_result)

lemma honest_navigation_failed: "yields (honest r) (navigation_failed v r e)"
  unfolding navigation_failed_def
  by (intro yields_intros yieldsI)
    (auto simp: started_now_def seq_apply honest_def says_unknown_def navigation_retryable_def
      navigation_outcome_unknown_def dest!: failed_with_result split: exn.splits)

lemma honest_ok: "resp_status resp = ''ok'' \<Longrightarrow> honest r resp s"
  by (simp add: honest_def)

lemma honest_finish_solve: "yields (honest r) (finish_solve v r resp detected st token fb)"
  unfolding finish_solve_def Let_def
  by (intro yields_intros) (auto intro!: yields_intros honest_failed_after honest_ok simp: ok_response_def)

text \<open>A predicate that every error after navigation and every final result satisfies holds of the result of
  the part after navigation.\<close>

definition failure_is :: "(v1_response \<Rightarrow> browse \<Rightarrow> bool) \<Rightarrow> v1_response + string option \<Rightarrow> browse \<Rightarrow> bool" where
  "failure_is Q x s = (case x of Inl resp \<Rightarrow> Q resp s | Inr _ \<Rightarrow> True)"

lemma clear_challenge_failure:
  assumes "\<And>content token m. yields Q (failed_after v r resp content token m CHALLENGE_FAILED False fb)"
  shows "yields (failure_is Q) (clear_challenge v r timer resp fb)"
proof -
  have fail: "yields (failure_is Q)
      (skip_then M (seq (inspected_content v r) (\<lambda>content.
         seq (failed_after v r resp content token m CHALLENGE_FAILED False fb)
           (\<lambda>failure. ret (Inl failure) :: (v1_response + string option) browse_prog))))"
    for M :: "unit browse_prog" and token m
  proof (intro yields_skip_then yields_seq [of _ _ "inspected_content v r"])
    fix content
    show "yields (failure_is Q)
        (seq (failed_after v r resp content token m CHALLENGE_FAILED False fb)
          (\<lambda>failure. ret (Inl failure) :: (v1_response + string option) browse_prog))"
      using assms [of content token m]
      by (auto simp: yields_def seq_apply failure_is_def split: prod.splits sum.splits)
  qed
  show ?thesis
    unfolding clear_challenge_def
    by (intro yields_skip_then yields_seq)
      (auto split: sum.split simp: failure_is_def [of _ "Inr _"]
        intro!: fail yields_ret yields_seq [of _ _ "wait_for_challenge_cleared _ _ _ _ _"])
qed

lemma after_navigation_result:
  assumes fail: "\<And>content token m code retry fb. is_post r \<longrightarrow> \<not> retry \<Longrightarrow>
      yields Q (failed_after v r resp content token m code retry fb)"
    and fin: "\<And>detected st token fb. yields Q (finish_solve v r resp detected st token fb)"
  shows "yields Q (after_navigation v r timer resp)"
proof -
  have rest: "yields Q (seq M (\<lambda>late. case late of
            Some m \<Rightarrow> skip_then (observe_label ''timeout'' ''collection'')
             (seq (inspected_content v r) (\<lambda>content. failed_after v r resp content token m REQUEST_TIMEOUT (is_get r) fb))
          | None \<Rightarrow> finish_solve v r resp detected st token fb))" for M token fb detected st
    by (intro yields_intros fail fin) (simp add: post_not_get)
  have outcome: "yields Q (seq (if d then clear_challenge v r timer resp fb else ret (Inr None)) (\<lambda>outcome.
      case outcome of Inl failure \<Rightarrow> ret failure | Inr token \<Rightarrow> F token))" if "\<And>token. yields Q (F token)" for d fb F
  proof (rule yieldsI)
    fix s x t
    assume run: "seq (if d then clear_challenge v r timer resp fb else ret (Inr None)) (\<lambda>outcome.
      case outcome of Inl failure \<Rightarrow> ret failure | Inr token \<Rightarrow> F token) s = (Inr x, t)"
    have "yields (failure_is Q) (clear_challenge v r timer resp fb)"
      by (rule clear_challenge_failure) (rule fail, simp)
    from run yieldsD [OF this] yieldsD [OF that] show "Q x t"
      by (cases d) (fastforce simp: seq_apply failure_is_def split: prod.splits sum.splits)+
  qed
  show ?thesis
    unfolding after_navigation_def Let_def
    by (intro yields_skip_then yields_seq outcome rest)
qed

lemma honest_after_navigation: "yields (honest r) (after_navigation v r timer resp)"
  by (rule after_navigation_result) (rule honest_failed_after honest_finish_solve, assumption?)+

lemma honest_run_solve_inner:
  assumes "run_solve_inner v r timer allow first s = (Inr resp, t)" and "\<not> post_started s"
  shows "honest r resp t"
proof -
  let ?set_up = "except_Exception (skip_then (set_up (ext v) (world v) r) (ret None)) (\<lambda>e. ret (Some e))"
  obtain y s1 where s1: "?set_up s = (y, s1)" by fastforce
  have "issues (\<lambda>c. \<not> is_post_call c) ?set_up"
    by (intro quiet_issues issues_intros quiet_no_post)
  from same_started [OF this s1] assms(2) have started: "\<not> post_started s1" by simp
  have same: "inspected_content v r s1 = (z, s2) \<Longrightarrow> \<not> post_started s2" for z s2
    using same_started [OF quiet_page_setup(7) [OF quiet_no_post]] started by metis
  note run = assms(1) [unfolded run_solve_inner_def seq_apply [of ?set_up] s1]
  show ?thesis
  proof (cases y)
    case (Inr z)
    show ?thesis
    proof (cases z)
      case None
      with run Inr have "yields (honest r) (seq (except_Exception
           (seq (navigate v r timer allow first) (\<lambda>resp. ret (Inr resp)))
           (\<lambda>e. if is_ResourceLimitError e then raise_exn e
                else seq (main_frame_now (world v)) (\<lambda>final. case empty_error_response e final of
                    Some p \<Rightarrow> ret (Inr (Some p)) | None \<Rightarrow> ret (Inl e)))) (\<lambda>navigated.
         case navigated of Inl e \<Rightarrow> navigation_failed v r e | Inr resp \<Rightarrow> after_navigation v r timer resp)) \<Longrightarrow> ?thesis"
        by (auto dest: yieldsD)
      then show ?thesis
        by (rule meta_mp) (rule yields_seq, auto split: sum.split intro: honest_navigation_failed honest_after_navigation)
    next
      case (Some e)
      with run Inr show ?thesis
        by (auto simp: seq_apply honest_def split: prod.splits sum.splits
            dest!: failed_with_result dest: same)
    qed
  qed (use run in simp)
qed

lemma finaliser_outcome:
  assumes "except_Exception (ask c f) (\<lambda>_. ret ()) s = (z, t)"
  shows "(z = Inl CancelledError \<or> z = Inr ()) \<and> post_started t = post_started s"
  using assms by (auto simp: except_Exception_def try_except_def ask_def split: sum.splits if_splits elim: is_Exception.elims)

lemma started_is_post:
  assumes "solve_request v r timer allow first (new_browse b) = (res, s)" and "post_started s"
  shows "is_post r"
proof -
  have "issues (\<lambda>c. is_post_call c \<longrightarrow> is_post r) (solve_request v r timer allow first)"
    by (rule issues_solve_request) (auto simp: quiet_def direct_call_def elim: is_post_call.elims)
  from issuesD [OF this, of "new_browse b"] assms show ?thesis
    by (auto simp: steps_to_def new_browse_def list_all_iff list_ex_iff)
qed

lemma run_solve_outcome:
  assumes "run_solve v r timer allow first s = (res, t)" and "\<not> post_started s" and "post_started t" and "is_post r"
  shows "case res of Inr resp \<Rightarrow> resp_status resp = ''ok'' \<or> says_unknown resp
    | Inl e \<Rightarrow> e = CancelledError \<or> (\<exists>d. e = CamouflareError d \<and> \<not> retryable d \<and> request_outcome_unknown d)"
proof -
  obtain y s1 where inner: "run_solve_inner v r timer allow first s = (y, s1)" by fastforce
  show ?thesis
  proof (cases y)
    case (Inr resp)
    with assms inner honest_run_solve_inner [of v r timer allow first s resp s1] show ?thesis
      by (auto simp: run_solve_def except_Exception_def try_except_def honest_def)
  next
    case (Inl e)
    have unknown: "\<not> retryable (post_request_failure e') \<and> request_outcome_unknown (post_request_failure e')" for e'
      by (simp add: post_request_failure_def camouflare_error_with_def split: exn.split)
    from Inl assms inner show ?thesis
      by (cases e) (auto simp: run_solve_def except_Exception_def try_except_def unknown split: if_splits)
  qed
qed

section \<open>Sending at most once\<close>

definition posts :: "browse \<Rightarrow> nat" where
  "posts s = length (filter is_post_call (calls s))"

definition posts_le :: "nat \<Rightarrow> 'a browse_prog \<Rightarrow> bool" where
  "posts_le n m \<longleftrightarrow> (\<forall>s. posts (snd (m s)) \<le> posts s + n)"

lemma posts_leD: "posts_le n m \<Longrightarrow> posts (snd (m s)) \<le> posts s + n"
  by (simp add: posts_le_def)

lemma posts_le_none: "issues (\<lambda>c. \<not> is_post_call c) m \<Longrightarrow> posts_le n m"
  unfolding posts_le_def
proof
  fix s
  assume "issues (\<lambda>c. \<not> is_post_call c) m"
  from issuesD [OF this, of s] show "posts (snd (m s)) \<le> posts s + n"
    by (auto simp: steps_to_def posts_def list_all_iff)
qed

lemma posts_le_chain:
  assumes "posts_le i m" and "\<And>r s'. m s = (r, s') \<Longrightarrow> posts t \<le> posts s' + j"
  shows "posts t \<le> posts s + (i + j)"
  using posts_leD [OF assms(1), of s] assms(2) [OF prod.collapse [symmetric]] by simp

lemma posts_le_seq: "posts_le i m \<Longrightarrow> (\<And>x. posts_le j (f x)) \<Longrightarrow> posts_le (i + j) (seq m f)"
  unfolding posts_le_def [of "i + j"]
  by (intro allI, erule posts_le_chain) (auto simp: seq_apply split: sum.split intro: posts_leD)

lemma posts_le_skip_then: "posts_le i m \<Longrightarrow> posts_le j n \<Longrightarrow> posts_le (i + j) (skip_then m n)"
  unfolding skip_then_def by (rule posts_le_seq)

lemma posts_le_except: "posts_le i m \<Longrightarrow> (\<And>e. posts_le j (h e)) \<Longrightarrow> posts_le (i + j) (except_Exception m h)"
  unfolding posts_le_def [of "i + j"]
  by (intro allI, erule posts_le_chain)
    (auto simp: except_Exception_def try_except_def split: sum.split intro: posts_leD)

lemma posts_le_finally: "posts_le i m \<Longrightarrow> posts_le j f \<Longrightarrow> posts_le (i + j) (try_finally m f)"
  unfolding posts_le_def [of "i + j"]
  by (intro allI, erule posts_le_chain) (simp add: try_finally_state posts_leD)

lemma posts_le_ask: "posts_le 1 (ask c f)"
  by (simp add: posts_le_def posts_def ask_def)

lemma posts_le_with_state: "(\<And>s. posts_le n (f s)) \<Longrightarrow> posts_le n (with_state f)"
  by (simp add: posts_le_def)

lemma posts_le_if: "posts_le n m \<Longrightarrow> posts_le n m' \<Longrightarrow> posts_le n (if b then m else m')"
  by simp

text \<open>The programs around the navigation send nothing.\<close>

lemma posts_le_mark: "posts_le 0 (modify (\<lambda>s. s\<lparr>post_started := b\<rparr>))"
  by (simp add: posts_le_def posts_def)

lemma posts_le_submit_post: "posts_le 1 (submit_post x lib w limits r timer)"
proof -
  have send: "posts_le (0 + (0 + (1 + 0))) (skip_then (modify (\<lambda>s. s\<lparr>post_started := True\<rparr>))
      (seq (remaining_now w timer) (\<lambda>left. seq (ask (c left) (post_at w)) (\<lambda>resp.
        seq (raw_response_from_api_response lib w limits b url resp) (\<lambda>raw. ret (Some raw))))))" for c b url
    by (intro posts_le_seq posts_le_skip_then posts_le_ask posts_le_mark posts_le_none)
      (intro quiet_issues issues_intros quiet_no_post)+
  have "posts_le (0 + (0 + (0 + (1 + 0)))) (post_with_context_request x lib w limits r timer)"
  proof (cases "has_post w")
    case True
    show ?thesis
      unfolding post_with_context_request_def Let_def
      by (simp only: True not_True_eq_False if_False) (rule posts_le_seq [OF posts_le_none [OF issues_of_sum]], rule send)
  qed (simp add: post_with_context_request_def posts_le_none)
  then have "posts_le ((0 + (0 + (0 + (1 + 0)))) + 0) (seq (post_with_context_request x lib w limits r timer) (\<lambda>got. case got of
      Some raw \<Rightarrow> ret (Some raw) | None \<Rightarrow> raise_exn e))" for e
    by (rule posts_le_seq) (intro posts_le_none issues_intros)
  then show ?thesis unfolding submit_post_def by (simp add: posts_le_none)
qed

lemma posts_le_solve_request: "posts_le 1 (solve_request v r timer allow first)"
proof -
  have nav: "posts_le 1 (navigate v r timer allow first)"
  proof (cases "is_post r")
    case False
    then have "issues (\<lambda>c. \<not> is_post_call c) (navigate v r timer allow first)"
      unfolding navigate_def by (simp, intro issues_navigate_get) (auto simp: direct_call_def)
    then show ?thesis by (rule posts_le_none)
  qed (use posts_le_submit_post in \<open>simp add: navigate_def\<close>)
  have rest: "posts_le 0 (case z of Inl e \<Rightarrow> navigation_failed v r e | Inr resp \<Rightarrow> after_navigation v r timer resp)" for z
    by (intro posts_le_none issues_case_sum quiet_results issues_after_navigation quiet_no_post) simp_all
  have "posts_le (0 + (((1 + 0) + 0) + 0)) (run_solve_inner v r timer allow first)"
    unfolding run_solve_inner_def
  proof (rule posts_le_seq)
    show "posts_le 0 (except_Exception (skip_then (set_up (ext v) (world v) r) (ret None)) (\<lambda>e. ret (Some e)))"
      by (intro posts_le_none quiet_issues issues_intros quiet_no_post)
  next
    fix z
    have failed: "posts_le n (seq (inspected_content v r) (\<lambda>content. failed_with v r None content None m code False None None))" for n m code
      by (intro posts_le_none quiet_issues issues_intros quiet_no_post)
    have "posts_le (1 + 0 + 0) (except_Exception (seq (navigate v r timer allow first) (\<lambda>resp. ret (Inr resp)))
        (\<lambda>e. if is_ResourceLimitError e then raise_exn e
             else seq (main_frame_now (world v)) (\<lambda>final. case empty_error_response e final of
                 Some p \<Rightarrow> ret (Inr (Some p)) | None \<Rightarrow> ret (Inl e))))"
      by (intro posts_le_except posts_le_seq nav) (intro posts_le_none quiet_issues issues_intros quiet_no_post)+
    from posts_le_seq [OF this rest] failed
    show "posts_le (1 + 0 + 0 + 0) (case z of
       Some e \<Rightarrow> seq (inspected_content v r) (\<lambda>content.
         failed_with v r None content None (''Request setup failed: '' @ exn_str e) INTERNAL_ERROR False None None)
     | None \<Rightarrow> seq (except_Exception (seq (navigate v r timer allow first) (\<lambda>resp. ret (Inr resp)))
                (\<lambda>e. if is_ResourceLimitError e then raise_exn e
                     else seq (main_frame_now (world v)) (\<lambda>final. case empty_error_response e final of
                         Some p \<Rightarrow> ret (Inr (Some p)) | None \<Rightarrow> ret (Inl e)))) (\<lambda>navigated.
         case navigated of Inl e \<Rightarrow> navigation_failed v r e | Inr resp \<Rightarrow> after_navigation v r timer resp))"
      by (simp split: option.split)
  qed
  then have inner: "posts_le 1 (run_solve_inner v r timer allow first)" by simp
  have "posts_le (1 + 0) (run_solve v r timer allow first)"
    unfolding run_solve_def
    by (intro posts_le_except inner posts_le_with_state posts_le_none issues_intros)
  then have "posts_le ((0 + (1 + 0)) + 0) (solve_request v r timer allow first)"
    unfolding solve_request_def
    by (intro posts_le_finally posts_le_skip_then)
      (assumption | intro posts_le_none quiet_issues issues_intros quiet_no_post; simp)+
  then show ?thesis by simp
qed

section \<open>What a success guarantees\<close>

lemma of_sum_seq: "seq (of_sum r) f s = (case r of Inl e \<Rightarrow> (Inl e, s) | Inr x \<Rightarrow> f x s)"
  by (simp add: seq_apply of_sum_def)

lemma of_sum_skip: "skip_then (of_sum r) m s = (case r of Inl e \<Rightarrow> (Inl e, s) | Inr x \<Rightarrow> m s)"
  by (simp add: skip_then_apply of_sum_def)

text \<open>The limits a collected solution satisfies.\<close>

definition within_limits :: "externals \<Rightarrow> resource_limits \<Rightarrow> v1_request \<Rightarrow> solution \<Rightarrow> bool" where
  "within_limits x limits r sol \<longleftrightarrow>
     length (sol_cookies sol) \<le> MAX_COOKIES \<and> dump_size x (PyList (map PyDict (sol_cookies sol))) \<le> MAX_COOKIE_BYTES
     \<and> (if return_only_cookies r then sol_response sol = None \<and> sol_screenshot sol = None
        else \<exists>c. sol_response sol = Some c \<and> utf8_size c \<le> response_body_bytes limits)"

lemma collect_solution_result:
  "yields (\<lambda>sol _. within_limits x limits r sol \<and> sol_status sol = solution_status pr
      \<and> (return_only_cookies r \<or> sol_response sol = Some content)) (collect_solution x w enc limits r pr content token)"
  unfolding collect_solution_def
  by (intro yields_seq [of _ _ "safe_context_cookies w"] yields_seq [of _ _ "of_sum (merge_solution_cookies _ _ _)"]
      yields_if yields_raise, rule yieldsI)
    (auto simp: ensure_json_size_def of_sum_def seq_apply skip_then_apply within_limits_def Let_def
      split: if_splits sum.splits prod.splits)

text \<open>The status matters to the classifier only when it is 403.\<close>

lemma content_state_status: "content_state lib c (response_status pr) = content_state lib c (Some (solution_status pr))"
  by (simp add: content_state_def content_is_hard_block_def hard_block_corroborated_def Let_def response_status_def
      solution_status_def split: option.split sum.split)

lemma classify_result:
  "yields (\<lambda>(content, st') _. return_only_cookies r \<or> st' = Blocked \<or> st' = Present
      \<or> content_state (text_of v) content (response_status eff) = Cleared) (classify v r eff st)"
proof (cases "return_only_cookies r")
  case False
  then show ?thesis
    unfolding classify_def Let_def
    by (simp, intro yields_intros) (auto intro!: yields_intros simp: content_state_def split: if_splits)
qed (auto simp: yields_def)

text \<open>A result with status \<open>ok\<close> is neither a challenge nor a block page.\<close>

definition sound_ok :: "'j solve_env \<Rightarrow> v1_request \<Rightarrow> v1_response \<Rightarrow> bool" where
  "sound_ok v r resp \<longleftrightarrow> resp_status resp \<noteq> ''ok'' \<or> return_only_cookies r
     \<or> (\<exists>sol c. resp_solution resp = Some sol \<and> sol_response sol = Some c
          \<and> content_state (text_of v) c (Some (sol_status sol)) = Cleared)"

definition limited_solution :: "'j solve_env \<Rightarrow> v1_request \<Rightarrow> v1_response \<Rightarrow> bool" where
  "limited_solution v r resp \<longleftrightarrow>
     (case resp_solution resp of None \<Rightarrow> True | Some sol \<Rightarrow> within_limits (ext v) (env_limits v) r sol)"

definition good_result :: "'j solve_env \<Rightarrow> v1_request \<Rightarrow> v1_response \<Rightarrow> browse \<Rightarrow> bool" where
  "good_result v r resp s \<longleftrightarrow> sound_ok v r resp \<and> limited_solution v r resp"

lemma good_failed_with: "yields (good_result v r) (failed_with v r pr content token m code retry u fb)"
  unfolding failed_with_def
proof (rule yields_seq_value, rule yields_ret)
  fix sol s s' s''
  assume "collect v r pr content token s = (Inr sol, s')"
  from yieldsD [OF collect_solution_result this [unfolded collect_def]]
  show "good_result v r ((ok_response (env_stamp v) (env_version v))
       \<lparr>resp_status := ''error'', resp_message := m, resp_error_code := Some code, resp_retryable := Some retry,
        resp_outcome_unknown := u, resp_fallback_used := fb, resp_solution := Some sol\<rparr>) s''"
    by (simp add: good_result_def sound_ok_def limited_solution_def)
qed

lemma good_failed_after: "yields (good_result v r) (failed_after v r pr content token m code retry fb)"
  unfolding failed_after_def by (intro yields_seq good_failed_with)

lemma good_navigation_failed: "yields (good_result v r) (navigation_failed v r e)"
  unfolding navigation_failed_def by (intro yields_skip_then yields_seq good_failed_with)

lemma good_finish_solve: "yields (good_result v r) (finish_solve v r resp detected st token fb)"
  unfolding finish_solve_def Let_def
proof (intro yields_seq [of _ _ "effective_response _ _"], rule yields_seq_value)
  fix eff y s s'
  assume classified: "classify v r eff st s = (Inr y, s')"
  obtain content st' where y: "y = (content, st')" by fastforce
  from yieldsD [OF classify_result classified] y
  have state: "return_only_cookies r \<or> st' = Blocked \<or> st' = Present
      \<or> content_state (text_of v) content (Some (solution_status eff)) = Cleared"
    by (simp add: content_state_status)
  have ok: "yields (good_result v r) (seq (collect v r eff content token) (\<lambda>sol. ret ((ok_response (env_stamp v) (env_version v))
          \<lparr>resp_message := m, resp_fallback_used := fb, resp_solution := Some sol\<rparr>)))"
    if "st' \<noteq> Blocked" "st' \<noteq> Present" for m
  proof (rule yields_seq_value, rule yields_ret)
    fix sol u u' u''
    assume "collect v r eff content token u = (Inr sol, u')"
    from yieldsD [OF collect_solution_result this [unfolded collect_def]] state that
    show "good_result v r ((ok_response (env_stamp v) (env_version v))
        \<lparr>resp_message := m, resp_fallback_used := fb, resp_solution := Some sol\<rparr>) u''"
      by (auto simp: good_result_def sound_ok_def limited_solution_def)
  qed
  show "yields (good_result v r) (case y of (content, st) \<Rightarrow>
     if st = Blocked
     then skip_then (if detected then observe_label ''challenge'' ''failed'' else ret ())
       (failed_after v r eff content token ''Target returned a bot/WAF block page.'' TARGET_BLOCKED False fb)
     else if st = Present
     then skip_then (if detected then observe_label ''challenge'' ''failed'' else ret ())
       (failed_after v r eff content token challenge_remained CHALLENGE_FAILED False fb)
     else skip_then (if detected then observe_label ''challenge'' ''solved'' else ret ())
       (seq (collect v r eff content token) (\<lambda>sol. ret ((ok_response (env_stamp v) (env_version v))
          \<lparr>resp_message := (if detected then ''Challenge solved!'' else ''Challenge not detected!''),
           resp_fallback_used := fb, resp_solution := Some sol\<rparr>))))"
    by (simp add: y, intro conjI impI yields_skip_then good_failed_after ok; simp)
qed


lemma good_solve_request: "yields (good_result v r) (solve_request v r timer allow first)"
proof -
  have nav: "yields (good_result v r) (after_navigation v r timer resp)" for resp
    by (rule after_navigation_result) (rule good_failed_after good_finish_solve)+
  have inner: "yields (good_result v r) (run_solve_inner v r timer allow first)"
    unfolding run_solve_inner_def
    by (rule yields_seq)
      (auto split: option.split sum.split intro!: yields_seq good_failed_with good_navigation_failed nav)
  have run: "yields (good_result v r) (run_solve v r timer allow first)"
    using inner by (auto simp: yields_def run_solve_def except_Exception_def try_except_def
        split: prod.splits sum.splits if_splits exn.splits)
  then show ?thesis
    unfolding solve_request_def
    by (fastforce simp: yields_def try_finally_def skip_then_apply good_result_def split: prod.splits sum.splits if_splits)
qed

section \<open>A run to look at\<close>

definition demo_lib :: text_lib where
  "demo_lib = \<lparr>html_events = (\<lambda>_. Inr []), html_unescape = (\<lambda>s. s), codec_known = (\<lambda>_. True),
     decode_replace = (\<lambda>_ b. Inr b), message_charset = (\<lambda>_. None)\<rparr>"

definition demo_page :: page_response where
  "demo_page = \<lparr>page_raw = False, page_resp_url = ''https://a.b/'', page_status = Some 200,
     page_headers = [], page_body = None, page_text = None, page_cookies = None,
     page_solution_cookies = None, page_user_agent = None, page_fallback_used = False\<rparr>"

definition demo_api :: api_response where
  "demo_api = \<lparr>api_url = None, api_status = Some 200, api_headers = [], api_body = Some (Inr ''<p>hi''), api_text = None\<rparr>"

definition demo_browser :: "unit browser_world" where
  "demo_browser = \<lparr>clock_at = (\<lambda>_. 0), title_at = (\<lambda>_. Inr ''Home''), content_at = (\<lambda>_. Inr ''<p>hi''),
     markers_at = (\<lambda>_. Inr PyNone), user_agent_at = (\<lambda>_. Inr ''Firefox''), page_url_at = (\<lambda>_. Inr ''https://a.b/''),
     main_frame_at = (\<lambda>_. Some demo_page), screenshot_at = (\<lambda>_. Inr ''png''), goto_at = (\<lambda>_. Inr (Some demo_page)),
     commit_at = (\<lambda>_. Inr ()), idle_at = (\<lambda>_. Inr ()), set_headers_at = (\<lambda>_. Inr ()), init_script_at = (\<lambda>_. Inr ()),
     has_init_script = True, add_cookies_at = (\<lambda>_. Inr ()), cookies_at = (\<lambda>_. Inr []), route_at = (\<lambda>_. Inr ()),
     unroute_at = (\<lambda>_. Inr ()), has_unroute = True, has_post = True,
     post_at = (\<lambda>_. Inr demo_api), dispose_at = (\<lambda>_. Inr ()), has_transport = False,
     transport_at = (\<lambda>_ _. Inl (RuntimeError [])), jar_cookies = (\<lambda>_. []), jar_solution_cookies = (\<lambda>_. []),
     sleep_at = (\<lambda>_. Inr ()), solve_at = (\<lambda>_. Inr None), has_prepare = False, prepare_at = (\<lambda>_. Inr ()),
     close_captcha_at = (\<lambda>_. Inr ())\<rparr>"

definition demo_env :: "unit solve_env" where
  "demo_env = \<lparr>ext = demo_externals, text_of = demo_lib, world = demo_browser, b64 = (\<lambda>s. s),
     env_limits = default_resource_limits, env_stamp = 0, env_version = ''1''\<rparr>"

text \<open>The same with room for four bytes of a body.\<close>

definition demo_small_env :: "unit solve_env" where
  "demo_small_env = demo_env\<lparr>env_limits := \<lparr>response_body_bytes = 4, screenshot_bytes = 4, solution_bytes = 4\<rparr>\<rparr>"

definition demo_post :: v1_request where
  "demo_post = empty_request\<lparr>cmd := Some ''request.post'', req_url := Some ''https://a.b/'', post_data := Some ''x=1''\<rparr>"

definition demo_get :: v1_request where
  "demo_get = empty_request\<lparr>cmd := Some ''request.get'', req_url := Some ''https://a.b/''\<rparr>"

definition demo_timer :: timeout_timer where
  "demo_timer = new_timer 0 60000"

lemma demo_clean: "clean_url (Some ''https://a.b/'') = Inr ''https://a.b/''"
  by (simp add: http_eval url_eval text_eval address_eval)

lemmas run_eval = seq_apply skip_then_apply except_Exception_def try_except_def try_finally_def ask_def of_sum_def
  read_clock_def observe_label_def with_state_def modify_def gets_def ret_def raise_exn_def

lemmas solve_eval = solve_request_def run_solve_def run_solve_inner_def set_up_def install_user_agent_override_def
  apply_media_blocking_def navigate_def is_post_def submit_post_def post_with_context_request_def remaining_now_def
  inspected_content_def safe_page_content_def limited_content_def main_frame_now_def empty_error_response_def
  raw_response_from_api_response_def api_response_text_def

lemmas get_eval = navigate_get_def origin_bound_target_headers_def target_headers_def target_referer_def
  navigation_timer_def unspent_now_def timer_keeping_def navigate_in_browser_def browser_get_def stage_timeout_ms_def
  unspent_ms_def result_reserve_ms_def elapsed_ms_def CHALLENGE_RESULT_RESERVE_MS_def after_navigation_def
  wait_networkidle_best_effort_def detect_def effective_response_def challenge_state_of_def safe_page_title_def
  finish_solve_def classify_def response_text_or_page_content_def collect_def collect_solution_def
  safe_context_cookies_def merge_solution_cookies_def safe_user_agent_def page_url_def buffered_response_text_def
  response_cookies_def ok_response_def

lemmas demo_eval = demo_env_def demo_browser_def demo_post_def demo_get_def demo_small_env_def empty_request_def demo_clean
  new_browse_def demo_api_def nonempty_def demo_lib_def target_user_agent_def demo_page_def demo_timer_def new_timer_def
  default_resource_limits_def demo_externals_def ensure_text_size_def ensure_bytes_size_def ensure_json_size_def
  limit_error_def MAX_COOKIES_def

lemma headerless_page_is_rendered:
  "\<not> page_raw p \<Longrightarrow> page_headers p = [] \<Longrightarrow> should_return_raw_response_body (Some p) = False"
  by (simp add: should_return_raw_response_body_def raw_mime_types_def text_eval)

lemma demo_texts:
  "title_is_challenge ''Home'' = False" "content_state demo_lib ''<p>hi'' s = Cleared" "utf8_size ''<p>hi'' = 5"
  by (simp_all add: title_is_challenge_def CHALLENGE_TITLES_def text_eval content_state_def content_is_hard_block_def
      HARD_BLOCK_PROBE_CHARS_def HARD_BLOCK_CONTAINER_ID_def content_has_challenge_markers_def CHALLENGE_MARKERS_def
      html_title_def utf8_size_def)

section \<open>Properties\<close>

text \<open>C9.  A solve sends at most one POST, whatever fails afterwards, and a request that is no POST sends none;
  a POST is never replayed through the browser or the direct transport.\<close>

theorem post_sent_at_most_once:
  "posts (snd (solve_request v r timer allow first (new_browse b))) \<le> 1
   \<and> list_all (\<lambda>c. case c of PostRequest _ _ _ _ \<Rightarrow> is_post r | Goto _ _ \<Rightarrow> \<not> is_post r | DirectGet _ _ _ \<Rightarrow> \<not> is_post r
        | _ \<Rightarrow> True) (calls (snd (solve_request v r timer allow first (new_browse b))))"
proof
  show "posts (snd (solve_request v r timer allow first (new_browse b))) \<le> 1"
    using posts_leD [OF posts_le_solve_request, of v r timer allow first "new_browse b"] by (simp add: posts_def new_browse_def)
  show "list_all (\<lambda>c. case c of PostRequest _ _ _ _ \<Rightarrow> is_post r | Goto _ _ \<Rightarrow> \<not> is_post r | DirectGet _ _ _ \<Rightarrow> \<not> is_post r
        | _ \<Rightarrow> True) (calls (snd (solve_request v r timer allow first (new_browse b))))"
    by (rule issues_new, rule issues_solve_request)
      (auto simp: quiet_def direct_call_def split: browser_call.split)
qed

text \<open>C10.  Once a POST has started, no failure is reported as retryable: the answer is a success, an error that says
  the outcome is unknown, or an exception that says so; only a cancellation passes unchanged.\<close>

theorem started_post_never_retryable:
  assumes "post_started (snd (solve_request v r timer allow first (new_browse b)))"
  shows "case fst (solve_request v r timer allow first (new_browse b)) of
      Inr resp \<Rightarrow> resp_status resp = ''ok'' \<or> says_unknown resp
    | Inl e \<Rightarrow> e = CancelledError \<or> (\<exists>d. e = CamouflareError d \<and> \<not> retryable d \<and> request_outcome_unknown d)"
proof -
  let ?start = "new_browse b"
  let ?run = "skip_then (if has_prepare (world v) then ask PrepareCaptcha (prepare_at (world v)) else ret ())
         (run_solve v r timer allow first)"
  obtain y s1 where run: "?run ?start = (y, s1)" by fastforce
  obtain z s2 where fin: "except_Exception (ask CloseCaptcha (close_captcha_at (world v))) (\<lambda>_. ret ()) s1 = (z, s2)" by fastforce
  have is_post: "is_post r" using started_is_post [of v r timer allow first b] assms by (metis prod.collapse)
  have snd: "snd (solve_request v r timer allow first ?start) = s2"
    using run fin by (simp add: solve_request_def try_finally_state)
  with assms finaliser_outcome [OF fin] have started: "post_started s1" by simp
  have "\<exists>s0. \<not> post_started s0 \<and> run_solve v r timer allow first s0 = (y, s1)"
  proof (cases "has_prepare (world v)")
    case True
    let ?s0 = "?start\<lparr>moment := Suc 0, calls := [PrepareCaptcha]\<rparr>"
    from True run started have "run_solve v r timer allow first ?s0 = (y, s1)"
      by (cases "prepare_at (world v) 0") (auto simp: skip_then_apply ask_def new_browse_def)
    then show ?thesis by (intro exI [of _ ?s0]) (simp add: new_browse_def)
  next
    case False
    with run show ?thesis by (intro exI [of _ ?start]) (simp add: new_browse_def)
  qed
  then obtain s0 where s0: "\<not> post_started s0" "run_solve v r timer allow first s0 = (y, s1)" by blast
  note outcome = run_solve_outcome [OF s0(2,1) started is_post]
  from finaliser_outcome [OF fin] show ?thesis
  proof (elim conjE disjE)
    assume "z = Inl CancelledError"
    then have "fst (solve_request v r timer allow first ?start) = Inl CancelledError"
      using run fin by (simp add: solve_request_def try_finally_def)
    then show ?thesis by simp
  next
    assume "z = Inr ()"
    then have "fst (solve_request v r timer allow first ?start) = y"
      using run fin by (simp add: solve_request_def try_finally_def)
    with outcome show ?thesis by simp
  qed
qed

lemma demo_post_started: "post_started (snd (solve_request demo_small_env demo_post demo_timer False False (new_browse False)))"
  by (simp add: run_eval solve_eval demo_eval)

lemma started_post_never_retryable_witness:
  "\<exists>d. fst (solve_request demo_small_env demo_post demo_timer False False (new_browse False)) = Inl (CamouflareError d)
     \<and> \<not> retryable d \<and> request_outcome_unknown d"
proof -
  have "\<exists>e. fst (solve_request demo_small_env demo_post demo_timer False False (new_browse False)) = Inl e \<and> e \<noteq> CancelledError"
    by (simp add: run_eval solve_eval demo_eval)
  with started_post_never_retryable [OF demo_post_started] show ?thesis by auto
qed


text \<open>Every time limit handed to the browser is positive and bounded, since 0 would mean no limit: navigation
  stages 1 to 15000 ms, the settling wait 1 to 5000 ms, and a POST or direct request gets a positive rest.\<close>

theorem time_limits_positive:
  "list_all (\<lambda>c. case c of
       Goto _ n \<Rightarrow> 1 \<le> n \<and> n \<le> 15000 | WaitForCommit n \<Rightarrow> 1 \<le> n \<and> n \<le> 15000
     | WaitForIdle n \<Rightarrow> 1 \<le> n \<and> n \<le> 5000 | PostRequest _ _ _ n \<Rightarrow> 0 < n | DirectGet _ n _ \<Rightarrow> 0 < n
     | SleepFor n \<Rightarrow> 0 < n | _ \<Rightarrow> True)
   (calls (snd (solve_request v r timer allow first (new_browse b))))"
  by (rule issues_new, rule issues_solve_request)
    (auto simp: quiet_def direct_call_def stage_time_def split: browser_call.split)

text \<open>C12.  A result with status \<open>ok\<close> carries a document that is neither a block page nor a challenge, judged by the
  status it was delivered with.\<close>

theorem ok_document_is_clear:
  assumes "fst (solve_request v r timer allow first s) = Inr resp" and "resp_status resp = ''ok''"
    and "\<not> return_only_cookies r"
  shows "\<exists>sol c. resp_solution resp = Some sol \<and> sol_response sol = Some c
    \<and> content_state (text_of v) c (Some (sol_status sol)) = Cleared"
proof -
  obtain t where "solve_request v r timer allow first s = (Inr resp, t)" using assms(1) by (metis prod.collapse)
  from yieldsD [OF good_solve_request this] assms(2,3) show ?thesis by (auto simp: good_result_def sound_ok_def)
qed

lemma demo_get_ok:
  "\<exists>resp. fst (solve_request demo_env demo_get demo_timer False False (new_browse False)) = Inr resp \<and> resp_status resp = ''ok''"
  by (simp add: run_eval solve_eval get_eval demo_eval demo_texts demo_texts [unfolded demo_lib_def]
      headerless_page_is_rendered Let_def)

lemma ok_document_is_clear_witness:
  "\<exists>resp sol c. fst (solve_request demo_env demo_get demo_timer False False (new_browse False)) = Inr resp
     \<and> resp_solution resp = Some sol \<and> sol_response sol = Some c"
proof -
  obtain resp where r: "fst (solve_request demo_env demo_get demo_timer False False (new_browse False)) = Inr resp"
    "resp_status resp = ''ok''" using demo_get_ok by blast
  have "\<not> return_only_cookies demo_get" by (simp add: demo_get_def empty_request_def)
  from ok_document_is_clear [OF r this] r(1) show ?thesis by blast
qed

text \<open>Whatever a solve answers, its solution is within the limits: at most 300 cookies of 262144 bytes, and a
  document within the configured size or, for a cookies-only request, no document at all.\<close>

theorem solution_within_limits:
  "case fst (solve_request v r timer allow first s) of Inl _ \<Rightarrow> True
   | Inr resp \<Rightarrow> (case resp_solution resp of None \<Rightarrow> True | Some sol \<Rightarrow> within_limits (ext v) (env_limits v) r sol)"
proof -
  obtain y t where run: "solve_request v r timer allow first s = (y, t)" by fastforce
  with yieldsD [OF good_solve_request, of v r timer allow first s _ t] show ?thesis
    by (auto simp: good_result_def limited_solution_def split: sum.split)
qed

end
