(* ===== verification/Challenge_Properties.thy ===== *)
theory Challenge_Properties
  imports Solver_History Http_Properties
begin

text \<open>
  The properties of challenge detection: what a hard block needs, and what the clearance poll spends.
\<close>

section \<open>The structure parser\<close>

text \<open>A reference for the parser that looks at the whole list of events: where the block container opens, the
  text shown since an element started, and what decides for a block.\<close>

definition opens_block :: "html_event \<Rightarrow> bool" where
  "opens_block e \<longleftrightarrow> (case e of StartTag tag attrs \<Rightarrow>
     tag \<notin> set VOID_HTML_TAGS \<and> attribute attrs ''id'' = Some HARD_BLOCK_CONTAINER_ID | _ \<Rightarrow> False)"

fun event_text :: "html_event \<Rightarrow> string" where
  "event_text (TextData d) = d"
| "event_text _ = []"

definition text_after :: "nat \<Rightarrow> html_event list \<Rightarrow> string" where
  "text_after k es = concat (map event_text (drop (Suc k) es))"

text \<open>An element starting at position \<open>k\<close>, after the container opened or as the container.\<close>

definition element_at :: "html_event list \<Rightarrow> nat \<Rightarrow> string \<Rightarrow> (string \<times> string option) list \<Rightarrow> bool" where
  "element_at es k tag attrs \<longleftrightarrow> k < length es \<and> es ! k = StartTag tag attrs \<and> list_ex opens_block (take (Suc k) es)"

definition has_code_class :: "(string \<times> string option) list \<Rightarrow> bool" where
  "has_code_class attrs \<longleftrightarrow>
     HARD_BLOCK_CODE_CLASS \<in> set (str_words (case attribute attrs ''class'' of None \<Rightarrow> [] | Some c \<Rightarrow> c))"

definition decides :: "html_event list \<Rightarrow> html_event \<Rightarrow> bool" where
  "decides es e \<longleftrightarrow> (case e of
     StartTag tag attrs \<Rightarrow>
       list_ex opens_block (es @ [e]) \<and> attribute attrs ''data-translate'' = Some HARD_BLOCK_HEADLINE_KEY
   | EndTag tag \<Rightarrow>
       (\<exists>k attrs. element_at es k tag attrs
          \<and> (tag = ''h1'' \<and> str_lower (normalize_space (text_after k es)) = HARD_BLOCK_HEADLINE
             \<or> has_code_class attrs \<and> str_strip (text_after k es) \<in> set HARD_BLOCK_ERROR_CODES))
   | TextData _ \<Rightarrow> False)"

definition block_evidence :: "html_event list \<Rightarrow> bool" where
  "block_evidence es \<longleftrightarrow> (\<exists>j < length es. decides (take j es) (es ! j))"

text \<open>The parser's fields against the events read so far.\<close>

definition heading_ok :: "html_event list \<Rightarrow> string option \<Rightarrow> bool" where
  "heading_ok es parts \<longleftrightarrow> (case parts of None \<Rightarrow> True
     | Some t \<Rightarrow> \<exists>k attrs. element_at es k ''h1'' attrs \<and> t = text_after k es)"

definition code_ok :: "html_event list \<Rightarrow> string option \<Rightarrow> string \<Rightarrow> bool" where
  "code_ok es tag parts \<longleftrightarrow> (case tag of None \<Rightarrow> True
     | Some t \<Rightarrow> \<exists>k attrs. element_at es k t attrs \<and> has_code_class attrs \<and> parts = text_after k es)"

definition parser_ok :: "html_event list \<Rightarrow> block_parser \<Rightarrow> bool" where
  "parser_ok es p \<longleftrightarrow>
     (if container_tag p = None then heading_parts p = None \<and> code_tag p = None else list_ex opens_block es)
     \<and> heading_ok es (heading_parts p) \<and> code_ok es (code_tag p) (code_parts p)
     \<and> (blocked p \<longrightarrow> block_evidence es)"

lemma evidence_snoc: "block_evidence es \<Longrightarrow> block_evidence (es @ [e])"
proof -
  assume "block_evidence es"
  then obtain j where "j < length es" "decides (take j es) (es ! j)" unfolding block_evidence_def by blast
  then show ?thesis unfolding block_evidence_def by (intro exI [of _ j]) (simp add: nth_append)
qed

lemma evidence_new: "decides es e \<Longrightarrow> block_evidence (es @ [e])"
  unfolding block_evidence_def by (intro exI [of _ "length es"]) simp

lemma element_snoc: "element_at es k tag attrs \<Longrightarrow> element_at (es @ [e]) k tag attrs"
  by (auto simp: element_at_def nth_append)

lemma element_new: "list_ex opens_block (es @ [StartTag tag attrs]) \<Longrightarrow> element_at (es @ [StartTag tag attrs]) (length es) tag attrs"
  by (simp add: element_at_def)

lemma text_after_snoc: "k < length es \<Longrightarrow> text_after k (es @ [e]) = text_after k es @ event_text e"
  by (simp add: text_after_def)

lemma text_after_new [simp]: "text_after (length es) (es @ [e]) = []"
  by (simp add: text_after_def)

lemma element_lt: "element_at es k tag attrs \<Longrightarrow> k < length es"
  by (simp add: element_at_def)

lemma nothing_collected [simp]: "heading_ok es None" "code_ok es None code"
  by (simp_all add: heading_ok_def code_ok_def)

lemma heading_ok_snoc:
  "heading_ok es parts \<Longrightarrow> heading_ok (es @ [e]) (map_option (\<lambda>t. t @ event_text e) parts)"
  unfolding heading_ok_def by (auto split: option.splits) (metis element_lt element_snoc text_after_snoc)

lemma code_ok_snoc:
  "code_ok es tag parts \<Longrightarrow> code_ok (es @ [e]) tag (if tag \<noteq> None then parts @ event_text e else parts)"
  unfolding code_ok_def by (auto split: option.splits) (metis element_lt element_snoc text_after_snoc)

text \<open>An event that shows no text keeps what was collected.\<close>

lemma silent_snoc:
  assumes "event_text e = []"
  shows "heading_ok es parts \<Longrightarrow> heading_ok (es @ [e]) parts"
    and "code_ok es tag code \<Longrightarrow> code_ok (es @ [e]) tag code"
proof -
  show "heading_ok (es @ [e]) parts" if "heading_ok es parts"
    using heading_ok_snoc [OF that, of e] assms by (cases parts) simp_all
  show "code_ok (es @ [e]) tag code" if "code_ok es tag code"
    using code_ok_snoc [OF that, of e] assms by (cases tag) simp_all
qed

lemma start_keeps_ok:
  assumes "parser_ok es p"
  shows "parser_ok (es @ [StartTag tag attrs]) (handle_starttag tag attrs p)"
proof -
  let ?e = "StartTag tag attrs" and ?p = "enter_container p tag attrs"
  have entered: "(if container_tag ?p = None then heading_parts ?p = None \<and> code_tag ?p = None
        else list_ex opens_block (es @ [?e]))
      \<and> blocked ?p = blocked p \<and> heading_parts ?p = heading_parts p \<and> code_tag ?p = code_tag p \<and> code_parts ?p = code_parts p"
    using assms by (auto simp: parser_ok_def enter_container_def opens_container_def opens_block_def split: if_splits)
  note keep = silent_snoc [of ?e es, simplified]
  have "parser_ok (es @ [?e]) (mark_inside ?p tag attrs)" if "container_tag ?p \<noteq> None"
  proof -
    from that entered have opened: "list_ex opens_block (es @ [?e])" by (simp split: if_splits)
    have new: "element_at (es @ [?e]) (length es) tag attrs" by (rule element_new [OF opened])
    have h: "heading_ok (es @ [?e]) (Some [])" if "tag = ''h1''"
      using new that unfolding heading_ok_def by (auto intro!: exI [of _ "length es"])
    have c: "code_ok (es @ [?e]) (Some tag) []" if "has_code_class attrs"
      using new that unfolding code_ok_def by (auto intro!: exI [of _ "length es"])
    have b: "block_evidence (es @ [?e])" if "attribute attrs ''data-translate'' = Some HARD_BLOCK_HEADLINE_KEY"
      using opened that by (intro evidence_new) (simp add: decides_def)
    show ?thesis
      using assms entered that opened keep h c b evidence_snoc [of es ?e]
      by (auto simp: parser_ok_def mark_inside_def Let_def has_code_class_def)
  qed
  then show ?thesis
    using assms entered keep evidence_snoc [of es ?e]
    by (auto simp: handle_starttag_def Let_def parser_ok_def split: if_splits)
qed

text \<open>Between the four steps of an end tag.\<close>

definition mid_ok :: "html_event list \<Rightarrow> html_event \<Rightarrow> block_parser \<Rightarrow> bool" where
  "mid_ok es e p \<longleftrightarrow> (if container_tag p = None then heading_parts p = None \<and> code_tag p = None else list_ex opens_block es)
      \<and> heading_ok es (heading_parts p) \<and> code_ok es (code_tag p) (code_parts p) \<and> (blocked p \<longrightarrow> block_evidence (es @ [e]))"

lemma end_keeps_ok:
  assumes "parser_ok es p"
  shows "parser_ok (es @ [EndTag tag]) (handle_endtag tag p)"
proof -
  let ?e = "EndTag tag"
  note keep = silent_snoc [of ?e es, simplified]
  have "mid_ok es ?e (end_title tag p)"
    using assms evidence_snoc [of es ?e] by (auto simp: parser_ok_def mid_ok_def end_title_def)
  moreover have "mid_ok es ?e (end_heading tag q)" if ok: "mid_ok es ?e q" for q
  proof (cases "heading_parts q")
    case (Some t)
    have "block_evidence (es @ [?e])" if "tag = ''h1''" "str_lower (normalize_space t) = HARD_BLOCK_HEADLINE"
      using ok Some that by (intro evidence_new) (auto simp: decides_def heading_ok_def mid_ok_def)
    with ok Some show ?thesis by (auto simp: end_heading_def heading_ok_def mid_ok_def split: if_splits)
  qed (use ok in \<open>simp add: end_heading_def\<close>)
  moreover have "mid_ok es ?e (end_code tag q)" if ok: "mid_ok es ?e q" for q
  proof (cases "code_tag q = Some tag")
    case True
    have "block_evidence (es @ [?e])" if "str_strip (code_parts q) \<in> set HARD_BLOCK_ERROR_CODES"
    proof (rule evidence_new)
      from ok True obtain k attrs where "element_at es k tag attrs" "has_code_class attrs" "code_parts q = text_after k es"
        by (auto simp: code_ok_def mid_ok_def)
      with that show "decides es ?e" unfolding decides_def by auto
    qed
    with ok True show ?thesis by (auto simp: end_code_def mid_ok_def split: if_splits)
  qed (use ok in \<open>simp add: end_code_def\<close>)
  moreover have "mid_ok es ?e (end_container tag q)" if "mid_ok es ?e q" for q
    using that by (simp add: end_container_def mid_ok_def)
  ultimately have "mid_ok es ?e (handle_endtag tag p)" by (simp only: handle_endtag_def)
  then show ?thesis using keep by (auto simp: parser_ok_def mid_ok_def split: if_splits)
qed

lemma data_keeps_ok: "parser_ok es p \<Longrightarrow> parser_ok (es @ [TextData d]) (handle_data d p)"
  using evidence_snoc [of es "TextData d"] heading_ok_snoc [of es "heading_parts p" "TextData d"]
    code_ok_snoc [of es "code_tag p" "code_parts p" "TextData d"]
  by (auto simp: parser_ok_def handle_data_def split: if_splits)

lemma parse_events_ok: "parser_ok es (parse_events es)"
proof (induction es rule: rev_induct)
  case Nil
  show ?case by (simp add: parse_events_def new_parser_def parser_ok_def heading_ok_def code_ok_def)
next
  case (snoc e es)
  then have "parser_ok (es @ [e]) (handle e (parse_events es))"
    by (cases e) (auto intro: start_keeps_ok end_keeps_ok data_keeps_ok)
  then show ?case by (simp add: parse_events_def)
qed


definition demo_block_lib :: text_lib where
  "demo_block_lib = \<lparr>html_events = (\<lambda>_. Inr [StartTag ''div'' [(''id'', Some ''cf-error-details'')],
       StartTag ''h1'' [], TextData ''Sorry, you have been blocked'', EndTag ''h1'', EndTag ''div'']),
     html_unescape = (\<lambda>s. s), codec_known = (\<lambda>_. True), decode_replace = (\<lambda>_ b. Inr b), message_charset = (\<lambda>_. None)\<rparr>"

lemmas block_eval = parse_events_def new_parser_def handle_starttag_def handle_endtag_def handle_data_def
  enter_container_def opens_container_def mark_inside_def end_title_def end_heading_def end_code_def end_container_def
  attribute_def str_words_def normalize_space_def

lemma demo_block: "content_is_hard_block demo_block_lib ''<div id=cf-error-details><h1>Sorry'' (Some 403)"
  by (simp add: content_is_hard_block_def demo_block_lib_def block_eval HARD_BLOCK_PROBE_CHARS_def
      HARD_BLOCK_CONTAINER_ID_def HARD_BLOCK_HEADLINE_def HARD_BLOCK_HEADLINE_KEY_def HARD_BLOCK_CODE_CLASS_def
      VOID_HTML_TAGS_def looks_like_markup_def hard_block_corroborated_def text_eval)


section \<open>The clearance poll\<close>

text \<open>Every sleep follows a reading of the clock and leaves the result reserve of that reading.\<close>

definition leaves_reserve :: "'j browser_world \<Rightarrow> timeout_timer \<Rightarrow> nat \<Rightarrow> browse \<Rightarrow> bool" where
  "leaves_reserve w timer start s \<longleftrightarrow> moment s = length (calls s)
     \<and> (\<forall>i n. start \<le> i \<longrightarrow> i < length (calls s) \<longrightarrow> calls s ! i = SleepFor n \<longrightarrow>
          0 < n \<and> n \<le> 1000 \<and> n \<le> remaining_ms (clock_at w (i - 1)) timer - 1000)"

lemma keeps_reserve_ask:
  assumes "\<And>n. c \<noteq> SleepFor n"
  shows "keeps (leaves_reserve w timer k) (ask c f)"
  using assms by (auto simp: keeps_def leaves_reserve_def ask_def nth_append)

lemma keeps_reserve_of_sum: "keeps (leaves_reserve w timer k) (of_sum r)"
  by (simp add: keeps_def of_sum_def)

lemma keeps_except_Exception:
  "keeps I m \<Longrightarrow> (\<And>e. keeps I (h e)) \<Longrightarrow> keeps I (except_Exception m h)"
  unfolding except_Exception_def by (intro keeps_intros)

lemma keeps_reserve_state: "keeps (leaves_reserve w timer k) (challenge_state_of lib w' limits ic status)"
  unfolding challenge_state_of_def safe_page_title_def limited_content_def Let_def
  by (intro keeps_intros keeps_except_Exception keeps_reserve_ask keeps_reserve_of_sum) simp_all

lemma keeps_reserve_turn: "keeps (leaves_reserve w timer k) (poll_turn lib w timer limits ic budget waited)"
proof (rule keepsI)
  fix s
  assume ok: "leaves_reserve w timer k s"
  let ?now = "clock_at w (moment s)"
  let ?s1 = "s\<lparr>moment := Suc (moment s), calls := calls s @ [ReadClock]\<rparr>"
  let ?step = "min (min CHALLENGE_CLEAR_POLL_MS (budget - waited)) (remaining_ms ?now timer - CHALLENGE_RESULT_RESERVE_MS)"
  have s1: "leaves_reserve w timer k ?s1"
    using ok by (auto simp: leaves_reserve_def nth_append)
  let ?s2 = "?s1\<lparr>moment := Suc (Suc (moment s)), calls := calls s @ [ReadClock, SleepFor ?step]\<rparr>"
  have s2: "leaves_reserve w timer k ?s2" if "\<not> ?step \<le> 0"
    using ok that
    by (auto simp: leaves_reserve_def nth_append nth_Cons' CHALLENGE_CLEAR_POLL_MS_def CHALLENGE_RESULT_RESERVE_MS_def
        less_Suc_eq)
  show "leaves_reserve w timer k (snd (poll_turn lib w timer limits ic budget waited s))"
  proof (cases "?step \<le> 0")
    case False
    then have "leaves_reserve w timer k ?s2" by (rule s2)
    with keepsD [OF keeps_reserve_state [of w timer k lib w limits ic None], of ?s2] False
    show ?thesis
      by (auto simp: poll_turn_def remaining_now_def read_clock_def seq_apply skip_then_apply ask_def Let_def
          split: sum.split prod.split)
  qed (use s1 in \<open>simp add: poll_turn_def remaining_now_def read_clock_def seq_apply ask_def Let_def\<close>)
qed

definition slept :: "browse \<Rightarrow> int" where
  "slept s = sum_list (map (\<lambda>c. case c of SleepFor n \<Rightarrow> n | _ \<Rightarrow> 0) (calls s))"

lemma slept_same:
  assumes "issues (\<lambda>c. \<forall>n. c \<noteq> SleepFor n) m"
  shows "slept (snd (m s)) = slept s"
proof -
  obtain cs where cs: "calls (snd (m s)) = calls s @ cs" "list_all (\<lambda>c. \<forall>n. c \<noteq> SleepFor n) cs"
    using issuesD [OF assms, of s] by (auto simp: steps_to_def)
  from cs(2) have "sum_list (map (\<lambda>c. case c of SleepFor n \<Rightarrow> n | _ \<Rightarrow> 0) cs) = 0"
    by (induction cs) (auto split: browser_call.split)
  with cs(1) show ?thesis by (simp add: slept_def)
qed

lemma quiet_no_sleep: "quiet (\<lambda>c. \<forall>n. c \<noteq> SleepFor n)"
  by (auto simp: quiet_def)

lemma slept_state: "slept (snd (challenge_state_of lib w limits ic status s)) = slept s"
  by (rule slept_same) (rule quiet_collecting(3) [OF quiet_no_sleep])

lemma slept_turn:
  assumes "poll_turn lib w timer limits ic budget waited s = (r, t)"
  shows "slept t \<le> slept s + max 0 (budget - waited)"
    and "r = Inr (Some (step, b)) \<Longrightarrow> slept t = slept s + step \<and> step \<le> budget - waited"
proof -
  let ?step = "min (min CHALLENGE_CLEAR_POLL_MS (budget - waited)) (remaining_ms (clock_at w (moment s)) timer - CHALLENGE_RESULT_RESERVE_MS)"
  let ?s2 = "s\<lparr>moment := Suc (Suc (moment s)), calls := calls s @ [ReadClock, SleepFor ?step]\<rparr>"
  have s2: "slept ?s2 = slept s + ?step" by (simp add: slept_def)
  have state: "challenge_state_of lib w limits ic None ?s2 = (y, u) \<Longrightarrow> slept u = slept s + ?step" for y u
    using slept_state [of lib w limits ic None ?s2] s2 by simp
  have step_le: "?step \<le> max 0 (budget - waited)" by simp
  have zero: "slept (s\<lparr>moment := Suc (moment s), calls := calls s @ [ReadClock]\<rparr>) = slept s" by (simp add: slept_def)
  show "slept t \<le> slept s + max 0 (budget - waited)"
    using assms state s2 zero step_le
    by (auto simp: poll_turn_def remaining_now_def read_clock_def seq_apply skip_then_apply ask_def Let_def
        split: if_splits sum.splits prod.splits)
  show "slept t = slept s + step \<and> step \<le> budget - waited" if "r = Inr (Some (step, b))"
    using assms that state
    by (auto simp: poll_turn_def remaining_now_def read_clock_def seq_apply skip_then_apply ask_def Let_def
        split: if_splits sum.splits prod.splits)
qed

lemma poll_spends:
  "slept (snd (poll_until_cleared lib w timer limits ic budget waited s)) \<le> slept s + max 0 (budget - waited)
   \<and> (leaves_reserve w timer k s \<longrightarrow> leaves_reserve w timer k (snd (poll_until_cleared lib w timer limits ic budget waited s)))"
proof (induction lib w timer limits ic budget waited s rule: poll_until_cleared.induct)
  case (1 lib w timer limits ic budget waited s)
  obtain r t where turn: "poll_turn lib w timer limits ic budget waited s = (r, t)" by fastforce
  note once = slept_turn [OF turn]
  have reserve: "leaves_reserve w timer k s \<Longrightarrow> leaves_reserve w timer k t"
    using keepsD [OF keeps_reserve_turn, of w timer k s lib limits ic budget waited] turn by simp
  show ?case
  proof (cases "waited < budget")
    case True
    show ?thesis
    proof (cases "\<exists>step. r = Inr (Some (step, False))")
      case True
      then obtain step where r: "r = Inr (Some (step, False))" by blast
      have "slept (snd (poll_until_cleared lib w timer limits ic budget (waited + step) t))
            \<le> slept t + max 0 (budget - (waited + step))
          \<and> (leaves_reserve w timer k t \<longrightarrow>
             leaves_reserve w timer k (snd (poll_until_cleared lib w timer limits ic budget (waited + step) t)))"
        using 1 [OF \<open>waited < budget\<close> turn [symmetric] r] by blast
      with once(2) [OF r] reserve turn r \<open>waited < budget\<close> show ?thesis
        by (subst (1 2) poll_until_cleared.simps) auto
    next
      case False
      then show ?thesis using once(1) reserve turn
        by (subst (1 2) poll_until_cleared.simps) (auto split: sum.split option.split bool.split)
    qed
  qed (subst (1 2) poll_until_cleared.simps, simp)
qed

text \<open>C14.  The clearance poll spends only spare time: together its sleeps take at most what remained beyond the
  result reserve when it began, and each is positive, at most a second, and leaves the reserve that the clock
  reading before it shows.\<close>

theorem poll_spends_spare_time:
  "let s = snd (wait_for_challenge_cleared lib w timer limits ic (new_browse b)) in
     leaves_reserve w timer 0 s
     \<and> (\<exists>n. slept s \<le> max 0 (remaining_ms (clock_at w n) timer - CHALLENGE_RESULT_RESERVE_MS))"
proof -
  let ?first = "challenge_state_of lib w limits ic None (new_browse b)"
  have start: "leaves_reserve w timer 0 (new_browse b)" "slept (new_browse b) = 0"
    by (simp_all add: leaves_reserve_def new_browse_def slept_def)
  obtain r s where first: "?first = (r, s)" by fastforce
  have s: "leaves_reserve w timer 0 s" "slept s = 0"
    using keepsD [OF keeps_reserve_state start(1), of lib w limits ic None] slept_state [of lib w limits ic None "new_browse b"]
      first start(2) by simp_all
  let ?s1 = "s\<lparr>moment := Suc (moment s), calls := calls s @ [ReadClock]\<rparr>"
  have s1: "leaves_reserve w timer 0 ?s1" "slept ?s1 = 0"
    using s by (auto simp: leaves_reserve_def nth_append slept_def)
  note spend = poll_spends [of lib w timer limits ic
      "max 0 (remaining_ms (clock_at w (moment s)) timer - CHALLENGE_RESULT_RESERVE_MS)" 0 ?s1 0]
  show ?thesis
    using first s s1 spend
    by (cases r) (auto simp: wait_for_challenge_cleared_def seq_apply remaining_now_def read_clock_def ask_def Let_def
        intro!: exI [of _ "moment s"])
qed

end
