(* ===== verification/Socks_Bridge.thy ===== *)
theory Socks_Bridge
  imports Config
begin

text \<open>
  The local SOCKS5 bridge (\<open>camouflare/proxy.py\<close>), which adds the credentials a browser cannot send.
  The bytes each peer sends are the input of a connection; whether an operation on a socket fails, how
  much the tunnel relays and how it ends are the parameter \<open>bridge_world\<close>.
\<close>

section \<open>Addresses as text and bytes\<close>

definition byte :: "nat \<Rightarrow> char" where "byte n = char_of n"

definition bytes_of :: "nat list \<Rightarrow> string" where "bytes_of = map byte"

definition octets :: "string \<Rightarrow> nat list" where "octets = map ord"

text \<open>\<open>n.to_bytes(k, "big")\<close>.\<close>

fun to_octets :: "nat \<Rightarrow> nat \<Rightarrow> nat list" where
  "to_octets 0 n = []"
| "to_octets (Suc k) n = to_octets k (n div 256) @ [n mod 256]"

text \<open>\<open>str(IPv4Address(b))\<close>.\<close>

definition ipv4_text :: "string \<Rightarrow> string" where
  "ipv4_text b = join_with ''.'' (map nat_str (octets b))"

definition hex_digit_char :: "nat \<Rightarrow> char" where
  "hex_digit_char n = char_of (if n < 10 then 48 + n else 87 + n)"

function hex_str :: "nat \<Rightarrow> string" where
  "hex_str n = (if n < 16 then [hex_digit_char n] else hex_str (n div 16) @ [hex_digit_char (n mod 16)])"
  by pat_completeness auto
termination by (relation "measure id") auto

declare hex_str.simps [simp del]

fun hextets :: "nat list \<Rightarrow> nat list" where
  "hextets (a # b # ns) = (a * 256 + b) # hextets ns"
| "hextets _ = []"

text \<open>The standard library's search for the longest run of zero hextets, the first of equals: start and
  length of the run at hand and of the best one so far.\<close>

fun best_zero_run :: "nat list \<Rightarrow> nat \<Rightarrow> nat \<times> nat \<Rightarrow> nat \<times> nat \<Rightarrow> nat \<times> nat" where
  "best_zero_run [] i run best = best"
| "best_zero_run (x # xs) i (start, len) best =
     (if x = 0
      then let run = (if len = 0 then i else start, Suc len)
           in best_zero_run xs (Suc i) run (if snd run > snd best then run else best)
      else best_zero_run xs (Suc i) (start, 0) best)"

definition compressed :: "nat \<times> nat \<Rightarrow> string list \<Rightarrow> string list" where
  "compressed best hs = (let start = fst best; len = snd best in
     if len > 1
     then (if start = 0 then [[]] else []) @ take start hs @ [[]] @ drop (start + len) hs
          @ (if start + len = length hs then [[]] else [])
     else hs)"

text \<open>\<open>str(IPv6Address(b))\<close>.\<close>

definition ipv6_text :: "string \<Rightarrow> string" where
  "ipv6_text b = (let xs = hextets (octets b) in
     join_with '':'' (compressed (best_zero_run xs 0 (0, 0) (0, 0)) (map hex_str xs)))"

definition address_error :: "string \<Rightarrow> exn" where
  "address_error s = ValueError (s @ '' is no IP address'')"

section \<open>Connections\<close>

text \<open>\<open>OSError\<close> and its subclasses, \<open>TimeoutError\<close> among them.\<close>

fun is_OSError :: "exn \<Rightarrow> bool" where
  "is_OSError (TimeoutError m) = True"
| "is_OSError (OtherError name m) = (name \<in> {''OSError'', ''ConnectionError'', ''BrokenPipeError'',
     ''ConnectionResetError'', ''ConnectionAbortedError'', ''ConnectionRefusedError'', ''gaierror''})"
| "is_OSError e = False"

record bridge_world =
  io_at :: "nat \<Rightarrow> exn + unit"
  relayed_up :: nat
  relayed_down :: nat
  relay_end :: "exn + unit"
  client_closing_at :: "nat \<Rightarrow> bool"

record bridge_connection =
  io_count :: nat
  client_in :: string
  client_out :: string
  upstream_in :: string
  upstream_out :: string
  dialled :: "(string \<times> nat) option"
  upstream_open :: bool
  client_open :: bool

type_synonym 'a bridge_prog = "(bridge_connection, 'a, exn) prog"

definition new_connection :: "string \<Rightarrow> string \<Rightarrow> bridge_connection" where
  "new_connection from_client from_upstream =
     \<lparr>io_count = 0, client_in = from_client, client_out = [], upstream_in = from_upstream, upstream_out = [],
      dialled = None, upstream_open = False, client_open = True\<rparr>"

definition io :: "bridge_world \<Rightarrow> unit bridge_prog" where
  "io w = (\<lambda>s. (io_at w (io_count s), s\<lparr>io_count := Suc (io_count s)\<rparr>))"

definition incomplete_read :: exn where
  "incomplete_read = OtherError ''IncompleteReadError'' ''the stream ended''"

text \<open>\<open>readexactly(n)\<close>; \<open>write\<close> followed by \<open>drain\<close>: the bytes are handed over before the drain may fail.\<close>

definition read_client :: "bridge_world \<Rightarrow> nat \<Rightarrow> string bridge_prog" where
  "read_client w n = skip_then (io w) (with_state (\<lambda>s.
     if length (client_in s) < n then raise_exn incomplete_read
     else skip_then (modify (\<lambda>s. s\<lparr>client_in := drop n (client_in s)\<rparr>)) (ret (take n (client_in s)))))"

definition read_upstream :: "bridge_world \<Rightarrow> nat \<Rightarrow> string bridge_prog" where
  "read_upstream w n = skip_then (io w) (with_state (\<lambda>s.
     if length (upstream_in s) < n then raise_exn incomplete_read
     else skip_then (modify (\<lambda>s. s\<lparr>upstream_in := drop n (upstream_in s)\<rparr>)) (ret (take n (upstream_in s)))))"

definition write_client :: "bridge_world \<Rightarrow> nat list \<Rightarrow> unit bridge_prog" where
  "write_client w b = skip_then (modify (\<lambda>s. s\<lparr>client_out := client_out s @ bytes_of b\<rparr>)) (io w)"

definition write_upstream :: "bridge_world \<Rightarrow> nat list \<Rightarrow> unit bridge_prog" where
  "write_upstream w b = skip_then (modify (\<lambda>s. s\<lparr>upstream_out := upstream_out s @ bytes_of b\<rparr>)) (io w)"

section \<open>Addresses on the wire\<close>

definition read_socks_address :: "(nat \<Rightarrow> string bridge_prog) \<Rightarrow> nat \<Rightarrow> string bridge_prog" where
  "read_socks_address read_exactly atyp =
     (if atyp = 1 then seq (read_exactly 4) (\<lambda>b. ret (ipv4_text b))
      else if atyp = 3 then seq (read_exactly 1) (\<lambda>n. read_exactly (ord (hd n)))
      else if atyp = 4 then seq (read_exactly 16) (\<lambda>b. ret (ipv6_text b))
      else raise_exn (RuntimeError (''Unsupported SOCKS address type '' @ nat_str atyp @ ''.'')))"

definition encode_socks_address :: "nat \<Rightarrow> string \<Rightarrow> exn + nat list" where
  "encode_socks_address atyp address =
     (if atyp = 1 then (case ipv4_of_string address of
        None \<Rightarrow> Inl (address_error address) | Some a \<Rightarrow> Inr (1 # to_octets 4 (unat a)))
      else if atyp = 3 then
        (if length address > 255 then Inl (RuntimeError ''SOCKS domain address is too long.'')
         else Inr (3 # length address # octets address))
      else if atyp = 4 then (case ipv6_of_string address of
        Some (V6 a scope) \<Rightarrow> Inr (4 # to_octets 16 (unat a)) | _ \<Rightarrow> Inl (address_error address))
      else Inl (RuntimeError (''Unsupported SOCKS address type '' @ nat_str atyp @ ''.'')))"

section \<open>The handshakes\<close>

text \<open>The two halves of reading a client's request: agreeing on no authentication, then the CONNECT request.\<close>

definition negotiate_method :: "bridge_world \<Rightarrow> unit bridge_prog" where
  "negotiate_method w =
     seq (read_client w 2) (\<lambda>greeting.
     if ord (greeting ! 0) \<noteq> 5 then raise_exn (RuntimeError ''Unsupported SOCKS version.'')
     else seq (read_client w (ord (greeting ! 1))) (\<lambda>methods.
     if CHR 0x00 \<notin> set methods
     then skip_then (write_client w [5, 255]) (raise_exn (RuntimeError ''SOCKS client did not offer no-auth.''))
     else write_client w [5, 0]))"

definition read_connect :: "bridge_world \<Rightarrow> (nat \<times> string \<times> nat) bridge_prog" where
  "read_connect w =
     seq (read_client w 4) (\<lambda>header.
     if ord (header ! 0) \<noteq> 5 \<or> ord (header ! 1) \<noteq> 1
     then raise_exn (RuntimeError ''Only SOCKS5 CONNECT is supported.'')
     else seq (read_socks_address (read_client w) (ord (header ! 3))) (\<lambda>address.
       seq (read_client w 2) (\<lambda>port. ret (ord (header ! 3), address, ord (port ! 0) * 256 + ord (port ! 1)))))"

definition read_client_request :: "bridge_world \<Rightarrow> (nat \<times> string \<times> nat) bridge_prog" where
  "read_client_request w = skip_then (negotiate_method w) (read_connect w)"

definition credential_octets :: "proxy \<Rightarrow> string \<Rightarrow> nat list" where
  "credential_octets p name = concat (map utf8_bytes (case dict_get p name of None \<Rightarrow> [] | Some v \<Rightarrow> v))"

definition authenticate_upstream :: "bridge_world \<Rightarrow> proxy \<Rightarrow> unit bridge_prog" where
  "authenticate_upstream w p =
     (let username = credential_octets p ''username''; password = credential_octets p ''password'' in
      if length username > 255 \<or> length password > 255
      then raise_exn (RuntimeError ''SOCKS proxy username and password must be at most 255 bytes.'')
      else skip_then (write_upstream w [5, 1, 2])
     (seq (read_upstream w 2) (\<lambda>choice.
      if ord (choice ! 0) \<noteq> 5 \<or> ord (choice ! 1) \<noteq> 2
      then raise_exn (RuntimeError ''Upstream SOCKS proxy did not accept username/password auth.'')
      else skip_then (write_upstream w ([1, length username] @ username @ [length password] @ password))
     (seq (read_upstream w 2) (\<lambda>verdict.
      if ord (verdict ! 0) \<noteq> 1 \<or> ord (verdict ! 1) \<noteq> 0
      then raise_exn (RuntimeError ''Upstream SOCKS proxy authentication failed.'') else ret ())))))"

definition upstream_endpoint :: "proxy \<Rightarrow> exn + string \<times> nat" where
  "upstream_endpoint p = and_then (urlsplit (case dict_get p ''server'' of None \<Rightarrow> [] | Some s \<Rightarrow> s)) (\<lambda>u.
     case url_hostname u of
       None \<Rightarrow> Inl (RuntimeError ''SOCKS proxy server must include host and port.'')
     | Some host \<Rightarrow> and_then (url_port u) (\<lambda>port. case port of
         None \<Rightarrow> Inl (RuntimeError ''SOCKS proxy server must include host and port.'')
       | Some n \<Rightarrow> Inr (host, n)))"

definition of_result :: "exn + 'a \<Rightarrow> 'a bridge_prog" where
  "of_result r = (\<lambda>s. (r, s))"

definition close_upstream :: "bridge_world \<Rightarrow> unit bridge_prog" where
  "close_upstream w = skip_then (modify (\<lambda>s. s\<lparr>upstream_open := False\<rparr>))
     (try_except (io w) (\<lambda>e. if is_OSError e then ret () else raise_exn e))"

definition connect_upstream :: "bridge_world \<Rightarrow> proxy \<Rightarrow> nat \<Rightarrow> string \<Rightarrow> nat \<Rightarrow> unit bridge_prog" where
  "connect_upstream w p atyp address port =
     seq (of_result (upstream_endpoint p)) (\<lambda>endpoint.
     skip_then (io w) (skip_then (modify (\<lambda>s. s\<lparr>dialled := Some endpoint, upstream_open := True\<rparr>))
     (try_except
       (skip_then (authenticate_upstream w p)
       (seq (of_result (encode_socks_address atyp address)) (\<lambda>encoded.
        skip_then (write_upstream w ([5, 1, 0] @ encoded @ to_octets 2 port))
       (seq (read_upstream w 4) (\<lambda>header.
        if ord (header ! 0) \<noteq> 5 \<or> ord (header ! 1) \<noteq> 0
        then raise_exn (RuntimeError (''Upstream SOCKS CONNECT failed with reply '' @ nat_str (ord (header ! 1)) @ ''.''))
        else skip_then (read_socks_address (read_upstream w) (ord (header ! 3)))
          (skip_then (read_upstream w 2) (ret ())))))))
       (\<lambda>e. skip_then (close_upstream w) (raise_exn e)))))"

section \<open>One client\<close>

definition success_reply :: "nat list" where "success_reply = [5, 0, 0, 1, 0, 0, 0, 0, 0, 0]"
definition failure_reply :: "nat list" where "failure_reply = [5, 1, 0, 1, 0, 0, 0, 0, 0, 0]"

definition relay :: "bridge_world \<Rightarrow> unit bridge_prog" where
  "relay w = skip_then (modify (\<lambda>s. s\<lparr>
       upstream_out := upstream_out s @ take (relayed_up w) (client_in s), client_in := drop (relayed_up w) (client_in s),
       client_out := client_out s @ take (relayed_down w) (upstream_in s), upstream_in := drop (relayed_down w) (upstream_in s)\<rparr>))
     (of_result (relay_end w))"

definition refuse_client :: "bridge_world \<Rightarrow> unit bridge_prog" where
  "refuse_client w = with_state (\<lambda>s.
     if client_closing_at w (io_count s) then ret ()
     else try_except (write_client w failure_reply) (\<lambda>e. if is_OSError e then ret () else raise_exn e))"

text \<open>The handler: an error before the success reply is answered, one after it is not; both sockets are closed.\<close>

definition handle_client :: "bridge_world \<Rightarrow> proxy \<Rightarrow> unit bridge_prog" where
  "handle_client w p =
     try_finally
       (seq (try_except
              (seq (read_client_request w) (\<lambda>(atyp, address, port).
               skip_then (connect_upstream w p atyp address port)
              (skip_then (write_client w success_reply) (ret True))))
              (\<lambda>e. if is_Exception e then skip_then (refuse_client w) (ret False) else raise_exn e)) (\<lambda>connected.
        if connected then try_except (relay w) (\<lambda>e. if is_Exception e then ret () else raise_exn e) else ret ()))
       (skip_then (with_state (\<lambda>s. if upstream_open s then close_upstream w else ret ()))
         (skip_then (modify (\<lambda>s. s\<lparr>client_open := False\<rparr>))
           (try_except (io w) (\<lambda>e. if is_OSError e then ret () else raise_exn e))))"

section \<open>Leases\<close>

definition requires_local_bridge :: "proxy option \<Rightarrow> exn + bool" where
  "requires_local_bridge p = (case p of None \<Rightarrow> Inr False
     | Some d \<Rightarrow>
         if \<not> nonempty (dict_get d ''username'') \<and> \<not> nonempty (dict_get d ''password'') then Inr False
         else and_then (urlsplit (case dict_get d ''server'' of None \<Rightarrow> [] | Some s \<Rightarrow> s)) (\<lambda>u.
           Inr (str_lower (url_scheme u) \<in> {''socks5'', ''socks5h''})))"

definition bridge_proxy :: "nat \<Rightarrow> proxy" where
  "bridge_proxy port = [(''server'', ''socks5://127.0.0.1:'' @ nat_str port)]"

record proxy_lease =
  lease_number :: nat
  configured_proxy :: "proxy option"
  browser_proxy :: "proxy option"
  bridged :: bool

text \<open>\<open>start\<close> is the outcome of starting a bridge: its local port.\<close>

definition open_proxy_lease :: "nat \<Rightarrow> (exn + nat) \<Rightarrow> proxy option \<Rightarrow> exn + proxy_lease" where
  "open_proxy_lease number start configured = and_then (requires_local_bridge configured) (\<lambda>bridge.
     if \<not> bridge
     then Inr \<lparr>lease_number = number, configured_proxy = configured, browser_proxy = configured, bridged = False\<rparr>
     else and_then start (\<lambda>port. Inr
       \<lparr>lease_number = number, configured_proxy = configured, browser_proxy = Some (bridge_proxy port), bridged = True\<rparr>))"

end
