(* ===== verification/Bridge_Properties.thy ===== *)
theory Bridge_Properties
  imports Socks_Bridge
begin

text \<open>
  The bridge relays the address it was asked for byte by byte: the text forms of the standard library
  read back as the bytes they were made of, and a handshake that succeeds hands the upstream exactly the
  client's request.
\<close>

section \<open>Bytes\<close>

lemma ord_byte [simp]: "n < 256 \<Longrightarrow> ord (byte n) = n"
  by (simp add: ord_def byte_def)

lemma ord_less [simp]: "ord c < 256"
  using nat_of_char_less_256 [of c] by (simp add: ord_def)

lemma ord_le [simp]: "\<not> 255 < ord c"
  using ord_less [of c] by linarith

lemma byte_ord [simp]: "byte (ord c) = c"
  by (simp add: ord_def byte_def)

lemma bytes_octets [simp]: "bytes_of (octets s) = s"
  by (simp add: bytes_of_def octets_def comp_def)

lemma length_octets [simp]: "length (octets s) = length s"
  by (simp add: octets_def)

lemma octets_less: "x \<in> set (octets s) \<Longrightarrow> x < 256"
  by (auto simp: octets_def)

lemma length_to_octets [simp]: "length (to_octets k n) = k"
  by (induction k arbitrary: n) auto

lemma word_of_parts_snoc: "word_of_parts b (xs @ [x]) = word_of_parts b xs * b + x"
  by (simp add: word_of_parts_def)

lemma to_octets_word_of_parts:
  "\<forall>x \<in> set xs. x < 256 \<Longrightarrow> to_octets (length xs) (word_of_parts 256 xs) = xs"
  by (induction xs rule: rev_induct) (auto simp: word_of_parts_snoc)

lemma word_of_parts_less: "\<forall>x \<in> set xs. x < b \<Longrightarrow> word_of_parts b xs < b ^ length xs"
proof (induction xs rule: rev_induct)
  case (snoc x xs)
  then have "word_of_parts b xs + 1 \<le> b ^ length xs" and x: "x < b" by auto
  then have "(word_of_parts b xs + 1) * b \<le> b ^ length xs * b" by (intro mult_le_mono1)
  with x show ?case by (simp add: word_of_parts_snoc algebra_simps)
qed (simp add: word_of_parts_def)

section \<open>Numerals\<close>

lemma char_of_48: "char_of (48 :: nat) = CHR ''0''"
proof -
  have "of_char (CHR ''0'') = (48 :: nat)" by simp
  then show ?thesis by (metis char_of_char)
qed

lemma ord_char_of [simp]: "n < 256 \<Longrightarrow> ord (char_of n) = n"
  by (simp add: ord_def)

lemma hd_nat_str: "0 < n \<Longrightarrow> hd (nat_str n) \<noteq> CHR ''0''"
proof (induction n rule: nat_str.induct)
  case (1 n)
  show ?case
  proof (cases "n < 10")
    case True
    have "ord (char_of (48 + n)) \<noteq> ord (CHR ''0'')" using True 1(2) by (simp add: ord_def)
    then have "char_of (48 + n) \<noteq> CHR ''0''" by metis
    with True show ?thesis by (subst nat_str.simps) simp
  next
    case False
    with 1 show ?thesis by (subst nat_str.simps) simp
  qed
qed

lemma length_nat_str: "n < 10 ^ k \<Longrightarrow> 0 < k \<Longrightarrow> length (nat_str n) \<le> k"
proof (induction k arbitrary: n)
  case (Suc k)
  show ?case
  proof (cases "n < 10")
    case True then show ?thesis by (subst nat_str.simps) simp
  next
    case False
    with Suc.prems(1) have "n div 10 < 10 ^ k" "0 < k" by (auto simp: less_mult_imp_div_less mult.commute intro: gr0I)
    from Suc.IH [OF this] False show ?thesis by (subst nat_str.simps) simp
  qed
qed simp

lemma parse_octet_nat_str: "n < 256 \<Longrightarrow> parse_octet (nat_str n) = Some n"
proof -
  assume n: "n < 256"
  then have "length (nat_str n) \<le> 3" by (intro length_nat_str) auto
  moreover have "nat_str n = ''0'' \<or> hd (nat_str n) \<noteq> CHR ''0''"
  proof (cases "n = 0")
    case True then show ?thesis by (subst (1) nat_str.simps) (simp add: char_of_48)
  qed (use hd_nat_str in simp)
  ultimately show ?thesis using n is_digit_nat_str [of n] by (auto simp: parse_octet_def)
qed

section \<open>Splitting what was joined\<close>

lemma split_on_plain: "c \<notin> set s \<Longrightarrow> split_on c s = [s]"
  by (induction s) auto

lemma split_on_append: "c \<notin> set s \<Longrightarrow> split_on c (s @ c # t) = s # split_on c t"
  by (induction s) auto

lemma split_on_join: "ws \<noteq> [] \<Longrightarrow> \<forall>w \<in> set ws. c \<notin> set w \<Longrightarrow> split_on c (join_with [c] ws) = ws"
proof (induction ws)
  case (Cons w ws)
  then show ?case
    by (cases ws) (simp_all add: split_on_plain split_on_append)
qed simp

lemma set_join_with: "set (join_with sep ws) \<subseteq> set sep \<union> (\<Union>w \<in> set ws. set w)"
  by (induction sep ws rule: join_with.induct) auto

lemma join_with_nonempty: "w \<in> set ws \<Longrightarrow> w \<noteq> [] \<Longrightarrow> join_with sep ws \<noteq> []"
  by (induction sep ws rule: join_with.induct) auto

lemma all_some_map: "(\<And>x. x \<in> set xs \<Longrightarrow> f x = Some (g x)) \<Longrightarrow> all_some (map f xs) = Some (map g xs)"
  by (induction xs) auto

section \<open>IPv4\<close>

lemma ipv4_text_back:
  assumes "length b = 4"
  shows "ipv4_of_string (ipv4_text b) = Some (of_nat (word_of_parts 256 (octets b)))"
proof -
  let ?ws = "map nat_str (octets b)"
  have ne: "?ws \<noteq> []" using assms by (cases b) (auto simp: octets_def)
  have dot: "\<forall>w \<in> set ?ws. CHR ''.'' \<notin> set w"
    using nat_str_chars by (fastforce simp: is_digit_def ord_def)
  have slash: "CHR ''/'' \<notin> set (ipv4_text b)"
    using set_join_with [of "''.''" ?ws] nat_str_chars by (fastforce simp: ipv4_text_def is_digit_def ord_def)
  have "ipv4_text b \<noteq> []"
    using ne unfolding ipv4_text_def by (intro join_with_nonempty [of "hd ?ws"]) (auto simp: hd_map)
  moreover have "split_on (CHR ''.'') (ipv4_text b) = ?ws"
    unfolding ipv4_text_def by (rule split_on_join [OF ne dot])
  moreover have "all_some (map parse_octet ?ws) = Some (octets b)"
    using all_some_map [of "octets b" "\<lambda>n. parse_octet (nat_str n)" "\<lambda>n. n"] octets_less parse_octet_nat_str
    by (simp add: comp_def)
  ultimately show ?thesis using assms slash by (simp add: ipv4_of_string_def)
qed

lemma encode_ipv4:
  assumes "length b = 4"
  shows "encode_socks_address 1 (ipv4_text b) = Inr (1 # octets b)"
proof -
  have "word_of_parts 256 (octets b) < 256 ^ 4"
    using word_of_parts_less [of "octets b" 256] octets_less assms by auto
  then have "unat (of_nat (word_of_parts 256 (octets b)) :: 32 word) = word_of_parts 256 (octets b)"
    by (simp add: unat_of_nat)
  then show ?thesis
    using ipv4_text_back [OF assms] to_octets_word_of_parts [of "octets b"] octets_less assms
    by (auto simp: encode_socks_address_def)
qed

section \<open>IPv6\<close>

lemma hex_value_digit: "n < 16 \<Longrightarrow> hex_value (hex_digit_char n) = Some n"
  by (auto simp: hex_value_def hex_digit_char_def Let_def)

lemma all_some_snoc: "all_some xs = Some ys \<Longrightarrow> all_some (xs @ [Some y]) = Some (ys @ [y])"
  by (induction xs arbitrary: ys rule: all_some.induct) (auto split: option.splits)

lemma hex_str_value: "\<exists>ds. all_some (map hex_value (hex_str n)) = Some ds \<and> word_of_parts 16 ds = n"
proof (induction n rule: hex_str.induct)
  case (1 n)
  show ?case
  proof (cases "n < 16")
    case True
    then show ?thesis by (subst hex_str.simps) (simp add: hex_value_digit word_of_parts_def)
  next
    case False
    with 1 obtain ds where "all_some (map hex_value (hex_str (n div 16))) = Some ds" "word_of_parts 16 ds = n div 16"
      by blast
    with False show ?thesis
      by (subst hex_str.simps) (auto simp: hex_value_digit all_some_snoc word_of_parts_snoc)
  qed
qed

lemma hex_str_nonempty [simp]: "hex_str n \<noteq> []"
  by (subst hex_str.simps) auto

lemma length_hex_str: "n < 16 ^ k \<Longrightarrow> 0 < k \<Longrightarrow> length (hex_str n) \<le> k"
proof (induction k arbitrary: n)
  case (Suc k)
  show ?case
  proof (cases "n < 16")
    case True then show ?thesis by (subst hex_str.simps) simp
  next
    case False
    with Suc.prems(1) have "n div 16 < 16 ^ k" "0 < k" by (auto simp: less_mult_imp_div_less mult.commute intro: gr0I)
    from Suc.IH [OF this] False show ?thesis by (subst hex_str.simps) simp
  qed
qed simp

lemma parse_hextet_hex_str: "n < 65536 \<Longrightarrow> parse_hextet (hex_str n) = Some n"
  using hex_str_value [of n] length_hex_str [of n 4] by (auto simp: parse_hextet_def)

lemma hex_str_chars: "c \<in> set (hex_str n) \<Longrightarrow> is_alnum_ascii c"
proof (induction n rule: hex_str.induct)
  case (1 n)
  have "n < 16 \<Longrightarrow> is_alnum_ascii (hex_digit_char n)" for n
    by (auto simp: is_alnum_ascii_def is_digit_def hex_digit_char_def)
  then show ?case using 1 by (subst (asm) (2) hex_str.simps) (auto split: if_splits)
qed

definition zero_run :: "nat list \<Rightarrow> nat \<Rightarrow> nat \<times> nat \<Rightarrow> bool" where
  "zero_run ys i run \<longleftrightarrow> snd run = 0 \<or> fst run + snd run \<le> i \<and> (\<forall>j. fst run \<le> j \<and> j < fst run + snd run \<longrightarrow> ys ! j = 0)"

lemma best_zero_run_ok:
  assumes "ys = zs @ xs" "zero_run ys (length zs) run" "snd run = 0 \<or> fst run + snd run = length zs"
    "zero_run ys (length zs) best"
  shows "zero_run ys (length ys) (best_zero_run xs (length zs) run best)"
  using assms
proof (induction xs arbitrary: zs run best)
  case Nil
  then show ?case by simp
next
  case (Cons x xs)
  obtain start len where run: "run = (start, len)" by (cases run)
  have ys: "ys = (zs @ [x]) @ xs" and x: "ys ! length zs = x" using Cons.prems(1) by simp_all
  have best: "zero_run ys (length (zs @ [x])) best" using Cons.prems(4) by (auto simp: zero_run_def)
  show ?case
  proof (cases "x = 0")
    case False
    then show ?thesis
      using Cons.IH [OF ys, of "(start, 0)" best] best by (simp add: run zero_run_def)
  next
    case True
    let ?run = "(if len = 0 then length zs else start, Suc len)"
    have "zero_run ys (length (zs @ [x])) ?run"
      using Cons.prems(2,3) True x by (auto simp: zero_run_def run less_Suc_eq)
    then show ?thesis
      using Cons.IH [OF ys, of ?run "if snd ?run > snd best then ?run else best"] best True Cons.prems(3)
      by (auto simp: run Let_def split: if_splits)
  qed
qed

text \<open>Eight hextets and a run of zeros to leave out.\<close>

lemma hextets_of_plain:
  assumes "length hs = 8" "\<forall>h \<in> set hs. h \<noteq> []"
  shows "hextets_of (map TextPart hs) = all_some (map parse_hextet hs)"
proof -
  obtain a b c d e f g h where "hs = [a, b, c, d, e, f, g, h]"
    using assms(1) by (auto simp: numeral_eq_Suc length_Suc_conv)
  with assms(2) show ?thesis
    by (simp add: hextets_of_def skip_positions_def part_empty_def upt_rec comp_def)
qed

lemma filter_upt_single:
  assumes "a \<le> i" "i < b" "\<And>j. a \<le> j \<Longrightarrow> j < b \<Longrightarrow> P j \<longleftrightarrow> j = i"
  shows "filter P [a..<b] = [i]"
proof -
  have "[a..<b] = [a..<i] @ i # [Suc i..<b]" using assms(1,2) upt_add_eq_append [of a i "b - i"] by (simp add: upt_conv_Cons)
  moreover have "filter P [a..<i] = []" "filter P [Suc i..<b] = []" using assms by (auto simp: filter_empty_conv)
  ultimately show ?thesis using assms by simp
qed

lemma hextets_of_gap:
  assumes len: "length A + length B \<le> 6" and A: "\<forall>x \<in> set A. x < 65536" and B: "\<forall>x \<in> set B. x < 65536"
  defines "hs \<equiv> (if A = [] then [[]] else []) @ map hex_str A @ [[]] @ map hex_str B @ (if B = [] then [[]] else [])"
  shows "hextets_of (map TextPart hs) = Some (A @ replicate (8 - (length A + length B)) 0 @ B)"
proof -
  let ?ps = "map TextPart hs"
  let ?i = "if A = [] then 1 else length A"
  have full: "length ?ps = (if A = [] then 1 else 0) + length A + 1 + length B + (if B = [] then 1 else 0)"
    by (simp add: hs_def)
  have "skip_positions ?ps = [?i]"
    unfolding skip_positions_def
  proof (rule filter_upt_single)
    fix j assume "1 \<le> j" "j < length ?ps - 1"
    then show "part_empty (?ps ! j) \<longleftrightarrow> j = ?i"
      unfolding full by (auto simp: hs_def part_empty_def nth_append nth_Cons' split: if_splits)
  qed (use full in \<open>auto simp: Suc_le_eq\<close>)
  moreover have "part_empty (hd ?ps) \<longleftrightarrow> A = []" "part_empty (last ?ps) \<longleftrightarrow> B = []"
    by (cases A; cases B rule: rev_cases; simp add: hs_def part_empty_def)+
  moreover have "all_some (map part_value (take (length A) (map TextPart hs))) = Some A" if "A \<noteq> []"
    using that A all_some_map [of A "\<lambda>x. part_value (TextPart (hex_str x))" "\<lambda>x. x"] parse_hextet_hex_str
    by (simp add: hs_def comp_def)
  moreover have "all_some (map part_value (drop (length ?ps - length B) ?ps)) = Some B" if "B \<noteq> []"
    using that B all_some_map [of B "\<lambda>x. part_value (TextPart (hex_str x))" "\<lambda>x. x"] parse_hextet_hex_str
    by (simp add: hs_def comp_def)
  ultimately show ?thesis
    using len full by (cases "A = []"; cases "B = []") (auto simp: hextets_of_def Let_def)
qed

lemma hextets_of_compressed:
  assumes xs: "length xs = 8" "\<forall>x \<in> set xs. x < 65536" and run: "zero_run xs 8 (start, len)" and len: "1 < len"
  shows "hextets_of (map TextPart (compressed (start, len) (map hex_str xs))) = Some xs"
proof -
  let ?A = "take start xs" and ?B = "drop (start + len) xs"
  have bound: "start + len \<le> 8" and zero: "\<And>j. start \<le> j \<Longrightarrow> j < start + len \<Longrightarrow> xs ! j = 0"
    using run len by (auto simp: zero_run_def)
  have "take len (drop start xs) = replicate len 0"
    using bound xs(1) by (intro nth_equalityI) (auto simp: zero)
  then have split: "xs = ?A @ replicate len 0 @ ?B"
    by (metis append_take_drop_id drop_drop add.commute)
  have A: "length ?A = start" and B: "length ?B = 8 - (start + len)" using bound xs(1) by auto
  have "compressed (start, len) (map hex_str xs)
      = (if ?A = [] then [[]] else []) @ map hex_str ?A @ [[]] @ map hex_str ?B @ (if ?B = [] then [[]] else [])"
    using len bound xs(1) by (auto simp: compressed_def take_map drop_map)
  moreover have "8 - (length ?A + length ?B) = len" "length ?A + length ?B \<le> 6" using A B bound len by auto
  moreover have "\<forall>x \<in> set ?A. x < 65536" "\<forall>x \<in> set ?B. x < 65536"
    using xs(2) by (meson in_set_takeD in_set_dropD)+
  ultimately show ?thesis
    using hextets_of_gap [of ?A ?B] by (simp only: split [symmetric])
qed

lemma hextets_octets:
  assumes "even (length ns)" "\<forall>n \<in> set ns. n < 256"
  shows "2 * length (hextets ns) = length ns" "\<forall>x \<in> set (hextets ns). x < 65536"
    "word_of_parts 65536 (hextets ns) = word_of_parts 256 ns"
proof -
  have fold: "foldl (\<lambda>n x. n * 65536 + x) k (hextets ns) = foldl (\<lambda>n x. n * 256 + x) k ns" for k
    using assms(1) by (induction ns arbitrary: k rule: hextets.induct) (auto simp: algebra_simps)
  show "2 * length (hextets ns) = length ns" "\<forall>x \<in> set (hextets ns). x < 65536"
    using assms by (induction ns rule: hextets.induct) auto
  show "word_of_parts 65536 (hextets ns) = word_of_parts 256 ns" using fold by (simp add: word_of_parts_def)
qed

lemma compressed_parts:
  assumes "length hs = 8" "start + len \<le> 8 \<or> len \<le> 1"
  shows "3 \<le> length (compressed (start, len) hs)" "set (compressed (start, len) hs) \<subseteq> insert [] (set hs)"
  using assms by (auto simp: compressed_def Let_def dest: in_set_takeD in_set_dropD)

lemma ipv6_text_back:
  assumes "length b = 16"
  shows "ipv6_of_string (ipv6_text b) = Some (V6 (of_nat (word_of_parts 256 (octets b))) None)"
proof -
  let ?xs = "hextets (octets b)"
  have xs: "length ?xs = 8" "\<forall>x \<in> set ?xs. x < 65536" "word_of_parts 65536 ?xs = word_of_parts 256 (octets b)"
    using hextets_octets [of "octets b"] octets_less assms by auto
  obtain start len where best: "best_zero_run ?xs 0 (0, 0) (0, 0) = (start, len)" by (cases "best_zero_run ?xs 0 (0, 0) (0, 0)")
  have run: "zero_run ?xs 8 (start, len)"
    using best_zero_run_ok [of ?xs "[]" ?xs "(0, 0)" "(0, 0)"] xs(1) best by (simp add: zero_run_def)
  let ?parts = "compressed (start, len) (map hex_str ?xs)"
  have joined: "ipv6_text b = join_with [CHR '':''] ?parts" by (simp add: ipv6_text_def best)
  have three: "3 \<le> length ?parts" and sub: "set ?parts \<subseteq> insert [] (set (map hex_str ?xs))"
    using compressed_parts [of "map hex_str ?xs" start len] xs(1) run by (auto simp: zero_run_def)
  have chars: "is_alnum_ascii c" if "w \<in> set ?parts" "c \<in> set w" for w c
    using that sub hex_str_chars by auto
  have plain: "\<not> is_alnum_ascii (CHR '':'')" "\<not> is_alnum_ascii (CHR ''%'')" "\<not> is_alnum_ascii (CHR ''/'')"
    "\<not> is_alnum_ascii (CHR ''.'')" by (simp_all add: is_alnum_ascii_def is_digit_def ord_def)
  have split: "split_on (CHR '':'') (ipv6_text b) = ?parts"
    unfolding joined using three chars plain by (intro split_on_join) auto
  have "set (ipv6_text b) \<subseteq> {CHR '':''} \<union> (\<Union>w \<in> set ?parts. set w)"
    unfolding joined using set_join_with [of "[CHR '':'']" ?parts] by simp
  then have absent: "CHR ''%'' \<notin> set (ipv6_text b)" "CHR ''/'' \<notin> set (ipv6_text b)" using chars plain by auto
  have "length (split_on (CHR '':'') (ipv6_text b)) \<noteq> 1" using split three by simp
  then have "ipv6_text b \<noteq> []" by auto
  moreover have "CHR ''.'' \<notin> set (last ?parts)" using three chars plain by (metis last_in_set length_0_conv not_numeral_le_zero)
  ultimately have "ipv6_parts (ipv6_text b) = Some (map TextPart ?parts)" using three by (simp add: ipv6_parts_def split)
  moreover have "hextets_of (map TextPart ?parts) = Some ?xs"
  proof (cases "1 < len")
    case True then show ?thesis using hextets_of_compressed [OF xs(1,2) run] by simp
  next
    case False
    have "all_some (map parse_hextet (map hex_str ?xs)) = Some ?xs"
      using all_some_map [of ?xs "\<lambda>x. parse_hextet (hex_str x)" "\<lambda>x. x"] xs(2) parse_hextet_hex_str by (simp add: comp_def)
    with False show ?thesis using hextets_of_plain [of "map hex_str ?xs"] xs(1) by (simp add: compressed_def)
  qed
  ultimately show ?thesis
    using partition_on_absent [OF absent(1)] absent(2) xs(3) by (simp add: ipv6_of_string_def)
qed

lemma encode_ipv6:
  assumes "length b = 16"
  shows "encode_socks_address 4 (ipv6_text b) = Inr (4 # octets b)"
proof -
  have "word_of_parts 256 (octets b) < 256 ^ 16"
    using word_of_parts_less [of "octets b" 256] octets_less assms by auto
  then have "unat (of_nat (word_of_parts 256 (octets b)) :: 128 word) = word_of_parts 256 (octets b)"
    by (simp add: unat_of_nat)
  then show ?thesis
    using ipv6_text_back [OF assms] to_octets_word_of_parts [of "octets b"] octets_less assms
    by (auto simp: encode_socks_address_def)
qed

section \<open>Steps of a connection\<close>

lemma seqE:
  assumes "seq m f s = (r, t)"
  obtains (raised) e where "m s = (Inl e, t)" "r = Inl e"
  | (returned) x s' where "m s = (Inr x, s')" "f x s' = (r, t)"
proof (cases "m s")
  case (Pair y s')
  then show thesis using assms that by (cases y) (auto simp: seq_apply)
qed

lemma skip_thenE:
  assumes "skip_then m n s = (r, t)"
  obtains (raised) e where "m s = (Inl e, t)" "r = Inl e"
  | (returned) x s' where "m s = (Inr x, s')" "n s' = (r, t)"
  using assms unfolding skip_then_def by (rule seqE)

lemma try_exceptE:
  assumes "try_except m h s = (r, t)"
  obtains (fine) x where "m s = (Inr x, t)" "r = Inr x"
  | (caught) e s' where "m s = (Inl e, s')" "h e s' = (r, t)"
proof (cases "m s")
  case (Pair y s')
  then show thesis using assms that by (cases y) (auto simp: try_except_def)
qed

lemma io_cases: "io w s = (r, t) \<Longrightarrow> t = s\<lparr>io_count := Suc (io_count s)\<rparr>"
  by (simp add: io_def)

lemma read_client_cases:
  assumes "read_client w n s = (r, t)"
  shows "\<exists>k. (\<exists>e. r = Inl e) \<and> t = s\<lparr>io_count := k\<rparr>
    \<or> r = Inr (take n (client_in s)) \<and> n \<le> length (client_in s) \<and> t = s\<lparr>client_in := drop n (client_in s), io_count := k\<rparr>"
  using assms unfolding read_client_def
  by (auto elim!: skip_thenE dest!: io_cases split: if_splits intro!: exI [of _ "Suc (io_count s)"])

lemma read_upstream_cases:
  assumes "read_upstream w n s = (r, t)"
  shows "\<exists>k. (\<exists>e. r = Inl e) \<and> t = s\<lparr>io_count := k\<rparr>
    \<or> r = Inr (take n (upstream_in s)) \<and> n \<le> length (upstream_in s) \<and> t = s\<lparr>upstream_in := drop n (upstream_in s), io_count := k\<rparr>"
  using assms unfolding read_upstream_def
  by (auto elim!: skip_thenE dest!: io_cases split: if_splits intro!: exI [of _ "Suc (io_count s)"])

lemma write_client_cases:
  "write_client w b s = (r, t) \<Longrightarrow> \<exists>k. t = s\<lparr>client_out := client_out s @ bytes_of b, io_count := k\<rparr>"
  unfolding write_client_def by (auto elim!: skip_thenE dest!: io_cases intro!: exI [of _ "Suc (io_count s)"])

lemma write_upstream_cases:
  "write_upstream w b s = (r, t) \<Longrightarrow> \<exists>k. t = s\<lparr>upstream_out := upstream_out s @ bytes_of b, io_count := k\<rparr>"
  unfolding write_upstream_def by (auto elim!: skip_thenE dest!: io_cases intro!: exI [of _ "Suc (io_count s)"])

lemma of_result_eq: "of_result r s = (r', t) \<Longrightarrow> r = r' \<and> t = s"
  by (simp add: of_result_def)

text \<open>The address a client sends is encoded for the upstream as the very bytes read.\<close>

lemma read_address_relays:
  assumes "read_socks_address (read_client w) atyp s = (r, t)"
  shows "\<exists>raw. client_in s = raw @ client_in t \<and> t = s\<lparr>client_in := client_in t, io_count := io_count t\<rparr>
    \<and> (case r of Inl e \<Rightarrow> True | Inr a \<Rightarrow> encode_socks_address atyp a = Inr (atyp # octets raw))"
proof -
  consider "atyp = 1" | "atyp = 3" | "atyp = 4" | "atyp \<notin> {1, 3, 4}" by auto
  then show ?thesis
  proof cases
    case 1
    from assms have "seq (read_client w 4) (\<lambda>b. ret (ipv4_text b)) s = (r, t)" by (simp add: read_socks_address_def 1)
    then show ?thesis
      by (auto elim!: seqE dest!: read_client_cases simp: 1 encode_ipv4 simp del: One_nat_def)
        (rule exI [of _ "take 4 (client_in s)"], simp)
  next
    case 3
    from assms have "seq (read_client w 16) (\<lambda>b. ret (ipv6_text b)) s = (r, t)" by (simp add: read_socks_address_def 3)
    then show ?thesis
      by (auto elim!: seqE dest!: read_client_cases simp: 3 encode_ipv6)
        (rule exI [of _ "take 16 (client_in s)"], simp)
  next
    case 4
    from assms 4 show ?thesis unfolding read_socks_address_def by auto
  next
    case 2
    from assms have "seq (read_client w 1) (\<lambda>n. read_client w (ord (hd n))) s = (r, t)"
      by (simp add: read_socks_address_def 2)
    then show ?thesis
    proof (cases rule: seqE)
      case (raised e)
      from read_client_cases [OF raised(1)] raised(2) show ?thesis by auto
    next
      case (returned n s')
      then obtain k where n: "n = take 1 (client_in s)" "1 \<le> length (client_in s)"
        and s': "s' = s\<lparr>client_in := drop 1 (client_in s), io_count := k\<rparr>"
        using read_client_cases [OF returned(1)] by auto
      then obtain c cs where cs: "client_in s = c # cs" "n = [c]" by (cases "client_in s") auto
      from read_client_cases [OF returned(2)] s' cs have
        "(\<exists>e. r = Inl e) \<and> client_in t = cs \<and> t = s\<lparr>client_in := client_in t, io_count := io_count t\<rparr>
         \<or> r = Inr (take (ord c) cs) \<and> ord c \<le> length cs \<and> client_in t = drop (ord c) cs
           \<and> t = s\<lparr>client_in := client_in t, io_count := io_count t\<rparr>" by auto
      then show ?thesis
      proof (elim disjE conjE exE)
        fix e assume "client_in t = cs" "r = Inl e" "t = s\<lparr>client_in := client_in t, io_count := io_count t\<rparr>"
        then show ?thesis using cs by (intro exI [of _ "[c]"]) simp
      next
        assume "r = Inr (take (ord c) cs)" "ord c \<le> length cs" "client_in t = drop (ord c) cs"
          "t = s\<lparr>client_in := client_in t, io_count := io_count t\<rparr>"
        then show ?thesis using cs
          by (intro exI [of _ "c # take (ord c) cs"]) (simp add: encode_socks_address_def 2 octets_def min_def)
      qed
    qed
  qed
qed

lemma read_address_upstream:
  assumes "read_socks_address (read_upstream w) atyp s = (r, t)"
  shows "t = s\<lparr>upstream_in := upstream_in t, io_count := io_count t\<rparr>"
  using assms unfolding read_socks_address_def
  by (auto elim!: seqE dest!: read_upstream_cases split: if_splits)

section \<open>Handshakes\<close>

text \<open>What the client asks for, as it was sent: the type of the address, the address and the port.\<close>

lemma octet_pair: "length p = 2 \<Longrightarrow> to_octets 2 (ord (p ! 0) * 256 + ord (p ! 1)) = octets p"
  by (auto simp: numeral_2_eq_2 length_Suc_conv octets_def)

lemma pair_bytes: "length b = 2 \<Longrightarrow> ord (b ! 0) = x \<Longrightarrow> ord (b ! 1) = y \<Longrightarrow> b = bytes_of [x, y]"
  by (auto simp: numeral_2_eq_2 length_Suc_conv bytes_of_def)

lemma header_bytes: "length b = 4 \<Longrightarrow> ord (b ! 0) = x \<Longrightarrow> ord (b ! 1) = y \<Longrightarrow> ord (b ! 3) = z
    \<Longrightarrow> b = bytes_of [x, y] @ [b ! 2] @ bytes_of [z]"
  by (auto simp: eval_nat_numeral length_Suc_conv bytes_of_def)

lemma same_but_read:
  "s1 = s\<lparr>client_in := a, io_count := i\<rparr> \<Longrightarrow> s2 = s1\<lparr>client_in := b, io_count := j\<rparr> \<Longrightarrow> t = s2\<lparr>client_in := c, io_count := k\<rparr>
    \<Longrightarrow> t = s\<lparr>client_in := client_in t, io_count := io_count t\<rparr>"
  by simp

lemma same_but_io:
  "s1 = s\<lparr>client_in := a, io_count := i\<rparr> \<Longrightarrow> s2 = s1\<lparr>client_in := b, io_count := j\<rparr> \<Longrightarrow> t = s2\<lparr>io_count := k\<rparr>
    \<Longrightarrow> t = s\<lparr>client_in := client_in t, io_count := io_count t\<rparr>"
  by simp

lemma split_take: "n \<le> length xs \<Longrightarrow> xs = take n xs @ drop n xs \<and> length (take n xs) = n"
  by simp

lemma negotiate_method_cases:
  assumes "negotiate_method w s = (r, t)"
  shows "\<exists>b. t = s\<lparr>client_in := client_in t, client_out := client_out s @ b, io_count := io_count t\<rparr>
    \<and> b \<in> {[], bytes_of [5, 255], bytes_of [5, 0]}
    \<and> (r = Inr () \<longrightarrow> b = bytes_of [5, 0] \<and> (\<exists>methods. CHR 0x00 \<in> set methods
         \<and> client_in s = bytes_of [5, length methods] @ methods @ client_in t))"
  using assms unfolding negotiate_method_def
proof (elim seqE, goal_cases)
  case (1 e)
  then show ?case using read_client_cases by (fastforce intro: exI [of _ "[]"])
next
  case (2 greeting s')
  then obtain k where g: "greeting = take 2 (client_in s)" "2 \<le> length (client_in s)"
    and s': "s' = s\<lparr>client_in := drop 2 (client_in s), io_count := k\<rparr>"
    using read_client_cases by blast
  show ?case
  proof (cases "ord (greeting ! 0) = 5")
    case False
    with 2 s' show ?thesis by (auto intro!: exI [of _ "[]"])
  next
    case five: True
    with 2(2) have "seq (read_client w (ord (greeting ! 1))) (\<lambda>methods.
       if CHR 0x00 \<notin> set methods
       then skip_then (write_client w [5, 255]) (raise_exn (RuntimeError ''SOCKS client did not offer no-auth.''))
       else write_client w [5, 0]) s' = (r, t)" by simp
    then show ?thesis
    proof (cases rule: seqE)
      case (raised e)
      then show ?thesis using s' read_client_cases [OF raised(1)] by (auto intro!: exI [of _ "[]"])
    next
      case (returned methods s2)
      then obtain k' where m: "methods = take (ord (greeting ! 1)) (client_in s')" "ord (greeting ! 1) \<le> length (client_in s')"
        and s2: "s2 = s'\<lparr>client_in := drop (ord (greeting ! 1)) (client_in s'), io_count := k'\<rparr>"
        using read_client_cases by blast
      have two: "greeting = bytes_of [5, length methods]"
        by (rule pair_bytes) (use g m five in simp_all)
      show ?thesis
      proof (cases "CHR 0x00 \<in> set methods")
        case True
        with returned(2) have "write_client w [5, 0] s2 = (r, t)" by simp
        then obtain k2 where t: "t = s2\<lparr>client_out := client_out s2 @ bytes_of [5, 0], io_count := k2\<rparr>"
          using write_client_cases by blast
        have "client_in s = greeting @ client_in s'" using g s' by simp
        moreover have "client_in s' = methods @ client_in s2" using m s2 by simp
        ultimately have "client_in s = bytes_of [5, length methods] @ methods @ client_in t" using two t by simp
        moreover have "t = s\<lparr>client_in := client_in t, client_out := client_out s @ bytes_of [5, 0], io_count := io_count t\<rparr>"
          using t s2 s' by simp
        ultimately show ?thesis using True by blast
      next
        case False
        with returned(2) show ?thesis
          by (auto elim!: skip_thenE dest!: write_client_cases simp: s2 s' intro!: exI [of _ "bytes_of [5, 255]"])
      qed
    qed
  qed
qed

lemma read_connect_cases:
  assumes "read_connect w s = (r, t)"
  shows "t = s\<lparr>client_in := client_in t, io_count := io_count t\<rparr>"
    and "r = Inr (atyp, a, port) \<Longrightarrow> \<exists>reserved addr pb. length reserved = 1
      \<and> client_in s = bytes_of [5, 1] @ reserved @ bytes_of [atyp] @ addr @ pb @ client_in t
      \<and> encode_socks_address atyp a = Inr (atyp # octets addr) \<and> to_octets 2 port = octets pb \<and> atyp < 256"
proof -
  have "t = s\<lparr>client_in := client_in t, io_count := io_count t\<rparr>
    \<and> (r = Inr (atyp, a, port) \<longrightarrow> (\<exists>reserved addr pb. length reserved = 1
      \<and> client_in s = bytes_of [5, 1] @ reserved @ bytes_of [atyp] @ addr @ pb @ client_in t
      \<and> encode_socks_address atyp a = Inr (atyp # octets addr) \<and> to_octets 2 port = octets pb \<and> atyp < 256))" (is ?goal)
    using assms unfolding read_connect_def
  proof (elim seqE, goal_cases)
    case (1 e)
    then show ?case using read_client_cases by fastforce
  next
    case (2 header s1)
    then obtain k where h: "header = take 4 (client_in s)" "4 \<le> length (client_in s)"
      and s1: "s1 = s\<lparr>client_in := drop 4 (client_in s), io_count := k\<rparr>"
      using read_client_cases by blast
    show ?case
    proof (cases "ord (header ! 0) \<noteq> 5 \<or> ord (header ! 1) \<noteq> 1")
      case True
      with 2(2) s1 show ?thesis by auto
    next
      case False
      have header: "header = bytes_of [5, 1] @ [header ! 2] @ bytes_of [ord (header ! 3)]"
        by (rule header_bytes) (use False h in simp_all)
      from False 2(2) have "seq (read_socks_address (read_client w) (ord (header ! 3))) (\<lambda>address.
        seq (read_client w 2) (\<lambda>port. ret (ord (header ! 3), address, ord (port ! 0) * 256 + ord (port ! 1)))) s1 = (r, t)"
        by simp
      then show ?thesis
      proof (cases rule: seqE)
        case (raised e)
        then show ?thesis using s1 read_address_relays [OF raised(1)] by auto
      next
        case (returned addr s2)
        then obtain raw where raw: "client_in s1 = raw @ client_in s2"
          "encode_socks_address (ord (header ! 3)) addr = Inr (ord (header ! 3) # octets raw)"
          and s2: "s2 = s1\<lparr>client_in := client_in s2, io_count := io_count s2\<rparr>"
          using read_address_relays by fastforce
        from returned(2) show ?thesis
        proof (cases rule: seqE)
          case (raised e)
          then obtain k' where "t = s2\<lparr>io_count := k'\<rparr>" using read_client_cases [OF raised(1)] by auto
          then have "t = s\<lparr>client_in := client_in t, io_count := io_count t\<rparr>" by (rule same_but_io [OF s1 s2])
          then show ?thesis using raised(2) by simp
        next
          case (returned pb s3)
          then obtain k' where pb: "pb = take 2 (client_in s2)" "2 \<le> length (client_in s2)"
            and s3: "s3 = s2\<lparr>client_in := drop 2 (client_in s2), io_count := k'\<rparr>"
            using read_client_cases by blast
          have t: "t = s3" and r: "r = Inr (ord (header ! 3), addr, ord (pb ! 0) * 256 + ord (pb ! 1))"
            using returned(2) by simp_all
          have "client_in s = header @ client_in s1" using h s1 by simp
          moreover have "client_in s2 = pb @ client_in s3" using pb s3 by simp
          ultimately have all: "client_in s = bytes_of [5, 1] @ [header ! 2] @ bytes_of [ord (header ! 3)] @ raw @ pb @ client_in t"
            using header raw(1) t by (metis append_assoc)
          have two: "to_octets 2 (ord (pb ! 0) * 256 + ord (pb ! 1)) = octets pb"
            by (rule octet_pair) (use pb in simp)
          have "t = s\<lparr>client_in := client_in t, io_count := io_count t\<rparr>" using t s3 s2 s1 by (metis same_but_read)
          moreover have "\<exists>reserved addr pb. length reserved = 1
              \<and> client_in s = bytes_of [5, 1] @ reserved @ bytes_of [atyp] @ addr @ pb @ client_in t
              \<and> encode_socks_address atyp a = Inr (atyp # octets addr) \<and> to_octets 2 port = octets pb \<and> atyp < 256"
            if "r = Inr (atyp, a, port)"
          proof -
            from that r have "atyp = ord (header ! 3)" "a = addr" "port = ord (pb ! 0) * 256 + ord (pb ! 1)" by simp_all
            then show ?thesis
              using all two raw(2) by (intro exI [of _ "[header ! 2]"] exI [of _ raw] exI [of _ pb]) simp
          qed
          ultimately show ?thesis by blast
        qed
      qed
    qed
  qed
  then show "t = s\<lparr>client_in := client_in t, io_count := io_count t\<rparr>" 
    "r = Inr (atyp, a, port) \<Longrightarrow> \<exists>reserved addr pb. length reserved = 1
      \<and> client_in s = bytes_of [5, 1] @ reserved @ bytes_of [atyp] @ addr @ pb @ client_in t
      \<and> encode_socks_address atyp a = Inr (atyp # octets addr) \<and> to_octets 2 port = octets pb \<and> atyp < 256" by blast+
qed

section \<open>The upstream\<close>

lemma keeps_io: "keeps (\<lambda>s. client_in s = c \<and> client_out s = d) (io w)"
  by (simp add: keeps_def io_def)

lemma keeps_of_result: "keeps P (of_result r)"
  by (simp add: keeps_def of_result_def)

lemma keeps_read_upstream: "keeps (\<lambda>s. client_in s = c \<and> client_out s = d) (read_upstream w n)"
  unfolding read_upstream_def by (intro keeps_intros keeps_io keeps_modify; simp)

lemma keeps_write_upstream: "keeps (\<lambda>s. client_in s = c \<and> client_out s = d) (write_upstream w b)"
  unfolding write_upstream_def by (intro keeps_intros keeps_io keeps_modify; simp)

lemmas keeps_client_side = keeps_io keeps_of_result keeps_read_upstream keeps_write_upstream

lemma keeps_read_address_upstream: "keeps (\<lambda>s. client_in s = c \<and> client_out s = d) (read_socks_address (read_upstream w) atyp)"
  unfolding read_socks_address_def by (intro keeps_intros keeps_client_side)

lemma keeps_connect_upstream: "keeps (\<lambda>s. client_in s = c \<and> client_out s = d) (connect_upstream w p atyp a port)"
  unfolding connect_upstream_def authenticate_upstream_def close_upstream_def Let_def
  by (intro keeps_intros keeps_client_side keeps_read_address_upstream keeps_modify; simp)

lemma read_two:
  assumes "read_upstream w 2 s = (Inr b, t)" "ord (b ! 0) = x" "ord (b ! 1) = y"
  shows "upstream_in s = bytes_of [x, y] @ upstream_in t" "upstream_out t = upstream_out s"
proof -
  obtain k where b: "b = take 2 (upstream_in s)" "2 \<le> length (upstream_in s)"
    and t: "t = s\<lparr>upstream_in := drop 2 (upstream_in s), io_count := k\<rparr>"
    using read_upstream_cases [OF assms(1)] by auto
  have "b = bytes_of [x, y]" by (rule pair_bytes) (use b assms in simp_all)
  then show "upstream_in s = bytes_of [x, y] @ upstream_in t" "upstream_out t = upstream_out s"
    using b(1) append_take_drop_id [of 2 "upstream_in s"] by (simp_all add: t)
qed

lemma authenticate_Inr:
  assumes "authenticate_upstream w p s = (Inr x, t)"
  defines "u \<equiv> credential_octets p ''username''" and "v \<equiv> credential_octets p ''password''"
  shows "upstream_out t = upstream_out s @ bytes_of ([5, 1, 2] @ [1, length u] @ u @ [length v] @ v)"
    "upstream_in s = bytes_of [5, 2, 1, 0] @ upstream_in t" "length u < 256" "length v < 256"
proof -
  have small: "\<not> (length u > 255 \<or> length v > 255)"
    using assms(1) by (auto simp: authenticate_upstream_def u_def v_def Let_def)
  with assms(1) have "skip_then (write_upstream w [5, 1, 2])
     (seq (read_upstream w 2) (\<lambda>choice.
      if ord (choice ! 0) \<noteq> 5 \<or> ord (choice ! 1) \<noteq> 2
      then raise_exn (RuntimeError ''Upstream SOCKS proxy did not accept username/password auth.'')
      else skip_then (write_upstream w ([1, length u] @ u @ [length v] @ v))
     (seq (read_upstream w 2) (\<lambda>verdict.
      if ord (verdict ! 0) \<noteq> 1 \<or> ord (verdict ! 1) \<noteq> 0
      then raise_exn (RuntimeError ''Upstream SOCKS proxy authentication failed.'') else ret ())))) s = (Inr x, t)"
    unfolding authenticate_upstream_def u_def v_def Let_def by (subst (asm) if_not_P) auto
  then obtain s1 choice s2 s3 verdict where
    run: "write_upstream w [5, 1, 2] s = (Inr (), s1)" "read_upstream w 2 s1 = (Inr choice, s2)"
      "write_upstream w ([1, length u] @ u @ [length v] @ v) s2 = (Inr (), s3)" "read_upstream w 2 s3 = (Inr verdict, t)"
    and ok: "ord (choice ! 0) = 5" "ord (choice ! 1) = 2" "ord (verdict ! 0) = 1" "ord (verdict ! 1) = 0"
    by (auto elim!: seqE skip_thenE split: if_splits)
  obtain k1 k2 where s1: "s1 = s\<lparr>upstream_out := upstream_out s @ bytes_of [5, 1, 2], io_count := k1\<rparr>"
    and s3: "s3 = s2\<lparr>upstream_out := upstream_out s2 @ bytes_of ([1, length u] @ u @ [length v] @ v), io_count := k2\<rparr>"
    using write_upstream_cases run(1,3) by meson
  note first = read_two [OF run(2) ok(1,2)] and second = read_two [OF run(4) ok(3,4)]
  show "upstream_out t = upstream_out s @ bytes_of ([5, 1, 2] @ [1, length u] @ u @ [length v] @ v)"
    using first(2) second(2) s1 s3 by (simp add: bytes_of_def)
  show "upstream_in s = bytes_of [5, 2, 1, 0] @ upstream_in t"
    using first(1) second(1) s1 s3 by (simp add: bytes_of_def)
  show "length u < 256" "length v < 256" using small by auto
qed

definition login_octets :: "proxy \<Rightarrow> nat list" where
  "login_octets p = (let u = credential_octets p ''username''; v = credential_octets p ''password'' in
     [5, 1, 2] @ [1, length u] @ u @ [length v] @ v)"

lemma connect_Inr:
  assumes "connect_upstream w p atyp a port s = (Inr x, t)"
  shows "\<exists>enc rest. encode_socks_address atyp a = Inr enc
    \<and> upstream_out t = upstream_out s @ bytes_of (login_octets p) @ bytes_of ([5, 1, 0] @ enc @ to_octets 2 port)
    \<and> upstream_in s = bytes_of [5, 2, 1, 0, 5, 0] @ rest"
proof -
  from assms obtain s1 s2 s3 s4 s5 s6 host pn enc header addr pb where
    "io w s = (Inr (), s1)" and s2: "s2 = s1\<lparr>dialled := Some (host, pn), upstream_open := True\<rparr>"
    and login: "authenticate_upstream w p s2 = (Inr (), s3)" and enc: "encode_socks_address atyp a = Inr enc"
    and sent: "write_upstream w ([5, 1, 0] @ enc @ to_octets 2 port) s3 = (Inr (), s4)"
    and header: "read_upstream w 4 s4 = (Inr header, s5)" and ok: "ord (header ! 0) = 5" "ord (header ! 1) = 0"
    and addr: "read_socks_address (read_upstream w) (ord (header ! 3)) s5 = (Inr addr, s6)"
    and pb: "read_upstream w 2 s6 = (Inr pb, t)"
    unfolding connect_upstream_def
    by (auto elim!: seqE skip_thenE try_exceptE dest!: of_result_eq split: if_splits simp del: One_nat_def)
  obtain k1 where s1: "s1 = s\<lparr>io_count := k1\<rparr>" using io_cases \<open>io w s = (Inr (), s1)\<close> by blast
  obtain k4 where s4: "s4 = s3\<lparr>upstream_out := upstream_out s3 @ bytes_of ([5, 1, 0] @ enc @ to_octets 2 port), io_count := k4\<rparr>"
    using write_upstream_cases [OF sent] by blast
  obtain k5 where h: "header = take 4 (upstream_in s4)" "4 \<le> length (upstream_in s4)"
    and s5: "s5 = s4\<lparr>upstream_in := drop 4 (upstream_in s4), io_count := k5\<rparr>"
    using read_upstream_cases [OF header] by auto
  have "header = bytes_of [5, 0] @ [header ! 2] @ bytes_of [ord (header ! 3)]"
    by (rule header_bytes) (use h ok in simp_all)
  then have u4: "\<exists>rest. upstream_in s4 = bytes_of [5, 0] @ rest"
    using h(1) append_take_drop_id [of 4 "upstream_in s4"] by (metis append_assoc)
  obtain k7 where t: "t = s6\<lparr>upstream_in := drop 2 (upstream_in s6), io_count := k7\<rparr>"
    using read_upstream_cases [OF pb] by auto
  have out: "upstream_out t = upstream_out s4"
    using read_address_upstream [OF addr] by (metis t s5 bridge_connection.select_convs(5) bridge_connection.surjective
        bridge_connection.update_convs(1,4))
  note auth = authenticate_Inr [OF login]
  have "upstream_out t = upstream_out s @ bytes_of (login_octets p) @ bytes_of ([5, 1, 0] @ enc @ to_octets 2 port)"
    using auth(1) out s4 s2 s1 by (simp add: login_octets_def Let_def)
  moreover obtain rest where "upstream_in s = bytes_of [5, 2, 1, 0, 5, 0] @ rest"
    using auth(2) u4 s4 s2 s1 by (auto simp: bytes_of_def)
  ultimately show ?thesis using enc by blast
qed

section \<open>One client\<close>

lemma refuse_client_cases:
  assumes "refuse_client w s = (r, t)"
  shows "client_out t \<in> {client_out s, client_out s @ bytes_of failure_reply}" "upstream_out t = upstream_out s"
  using assms unfolding refuse_client_def
  by (auto elim!: try_exceptE dest!: write_client_cases split: if_splits)

lemma refuse_client_reads: "refuse_client w s = (r, t) \<Longrightarrow> client_in t = client_in s"
  unfolding refuse_client_def by (auto elim!: try_exceptE dest!: write_client_cases split: if_splits)

lemma close_upstream_outs: "close_upstream w s = (r, t) \<Longrightarrow> client_out t = client_out s \<and> upstream_out t = upstream_out s"
  unfolding close_upstream_def by (auto elim!: skip_thenE try_exceptE dest!: io_cases split: if_splits)

lemma relay_outs:
  "relay w s = (r, t) \<Longrightarrow> upstream_out t = upstream_out s @ take (relayed_up w) (client_in s)
     \<and> client_out t = client_out s @ take (relayed_down w) (upstream_in s)"
  unfolding relay_def by (auto elim!: skip_thenE dest!: of_result_eq)

lemma try_finallyE:
  assumes "try_finally m f s = (r, t)"
  obtains rm s' rf where "m s = (rm, s')" "f s' = (rf, t)"
proof (cases "m s")
  case (Pair rm s')
  then have "snd (f s') = t" using assms by (auto simp: try_finally_def split: prod.splits sum.splits)
  then show thesis using Pair that by (metis prod.collapse)
qed

text \<open>What a connection shows once its success reply is out: the client's request is with the upstream.\<close>

definition relayed :: "proxy \<Rightarrow> string \<Rightarrow> string \<Rightarrow> bridge_connection \<Rightarrow> bool" where
  "relayed p c u t \<longleftrightarrow> (\<exists>methods reserved request rest n after.
     CHR 0x00 \<in> set methods \<and> length reserved = 1
     \<and> c = bytes_of [5, length methods] @ methods @ bytes_of [5, 1] @ reserved @ request @ rest
     \<and> u = bytes_of [5, 2, 1, 0, 5, 0] @ after
     \<and> upstream_out t = bytes_of (login_octets p) @ bytes_of [5, 1, 0] @ request @ take n rest)"

lemma frame_client: "t = s\<lparr>client_in := x, client_out := y, io_count := k\<rparr>
    \<Longrightarrow> upstream_out t = upstream_out s \<and> upstream_in t = upstream_in s \<and> client_out t = y"
  by simp

lemma frame_read: "t = s\<lparr>client_in := x, io_count := k\<rparr>
    \<Longrightarrow> upstream_out t = upstream_out s \<and> upstream_in t = upstream_in s \<and> client_out t = client_out s"
  by simp

lemma connected_relayed:
  assumes req: "read_client_request w (new_connection c u) = (Inr (atyp, a, port), s1)"
    and con: "connect_upstream w p atyp a port s1 = (Inr (), s2)"
    and t: "upstream_out t = upstream_out s2 @ take n (client_in s2)"
  shows "relayed p c u t"
proof -
  obtain s0 where neg: "negotiate_method w (new_connection c u) = (Inr (), s0)"
    and rc: "read_connect w s0 = (Inr (atyp, a, port), s1)"
    using req unfolding read_client_request_def by (auto elim: skip_thenE)
  obtain methods b where m: "CHR 0x00 \<in> set methods" "c = bytes_of [5, length methods] @ methods @ client_in s0"
    and s0: "s0 = new_connection c u\<lparr>client_in := client_in s0, client_out := client_out (new_connection c u) @ b, io_count := io_count s0\<rparr>"
    using negotiate_method_cases [OF neg] by (metis new_connection_def bridge_connection.select_convs(2))
  obtain reserved addr pb where a: "length reserved = 1" "atyp < 256"
      "client_in s0 = bytes_of [5, 1] @ reserved @ bytes_of [atyp] @ addr @ pb @ client_in s1"
      "encode_socks_address atyp a = Inr (atyp # octets addr)" "to_octets 2 port = octets pb"
    and s1: "s1 = s0\<lparr>client_in := client_in s1, io_count := io_count s1\<rparr>"
    using read_connect_cases [OF rc] by blast
  have start: "upstream_out s1 = []" "upstream_in s1 = u"
    using frame_client [OF s0] frame_read [OF s1] by (simp_all add: new_connection_def)
  obtain rest where c: "upstream_in s1 = bytes_of [5, 2, 1, 0, 5, 0] @ rest"
    "upstream_out s2 = upstream_out s1 @ bytes_of (login_octets p) @ bytes_of ([5, 1, 0] @ (atyp # octets addr) @ octets pb)"
    using connect_Inr [OF con] a(4,5) by auto
  have "client_in s2 = client_in s1"
    using keepsD [OF keeps_connect_upstream [of "client_in s1" "client_out s1" w p atyp a port], of s1] con by simp
  moreover have "bytes_of ([5, 1, 0] @ (atyp # octets addr) @ octets pb) = bytes_of [5, 1, 0] @ bytes_of [atyp] @ addr @ pb"
    by (simp add: bytes_of_def octets_def comp_def)
  ultimately show ?thesis
    unfolding relayed_def using m a(1,3) c start t
    by (intro exI [of _ methods] exI [of _ reserved] exI [of _ "bytes_of [atyp] @ addr @ pb"] exI [of _ "client_in s1"]
        exI [of _ n] exI [of _ rest]) simp
qed

text \<open>Before the success reply only a method choice and a failure reply are written.\<close>

definition unanswered :: "string \<Rightarrow> bool" where
  "unanswered out \<longleftrightarrow> out \<in> {[], bytes_of [5, 255], bytes_of [5, 0]}"

lemma failure_no_success: "unanswered out \<Longrightarrow> take 4 (out @ bytes_of failure_reply) \<noteq> bytes_of [5, 0, 5, 0]"
  "unanswered out \<Longrightarrow> take 4 out \<noteq> bytes_of [5, 0, 5, 0]"
  by (auto simp: unanswered_def failure_reply_def bytes_of_def byte_def)

lemma request_failure:
  assumes "read_client_request w (new_connection c u) = (r, t)"
  shows "unanswered (client_out t)" "r = Inr x \<Longrightarrow> client_out t = bytes_of [5, 0]"
proof -
  have "unanswered (client_out t) \<and> (r = Inr x \<longrightarrow> client_out t = bytes_of [5, 0])"
    using assms unfolding read_client_request_def
  proof (cases rule: skip_thenE)
    case (raised e)
    obtain b where "b \<in> {[], bytes_of [5, 255], bytes_of [5, 0]}"
      and t: "t = new_connection c u\<lparr>client_in := client_in t, client_out := client_out (new_connection c u) @ b, io_count := io_count t\<rparr>"
      using negotiate_method_cases [OF raised(1)] by blast
    with frame_client [OF t] raised(2) show ?thesis by (simp add: unanswered_def new_connection_def)
  next
    case (returned y s0)
    obtain b where b: "b = bytes_of [5, 0]"
      and s0: "s0 = new_connection c u\<lparr>client_in := client_in s0, client_out := client_out (new_connection c u) @ b, io_count := io_count s0\<rparr>"
      using negotiate_method_cases [OF returned(1)] by auto
    have "client_out t = client_out s0" using frame_read [OF read_connect_cases(1) [OF returned(2)]] by simp
    with frame_client [OF s0] b show ?thesis by (simp add: unanswered_def new_connection_def)
  qed
  then show "unanswered (client_out t)" "r = Inr x \<Longrightarrow> client_out t = bytes_of [5, 0]" by blast+
qed

lemma handshake_cases:
  assumes "try_except
      (seq (read_client_request w) (\<lambda>(atyp, address, port).
         skip_then (connect_upstream w p atyp address port)
        (skip_then (write_client w success_reply) (ret True))))
      (\<lambda>e. if is_Exception e then skip_then (refuse_client w) (ret False) else raise_exn e)
      (new_connection c u) = (r, t)"
    and success: "take 4 (client_out t) = bytes_of [5, 0, 5, 0]"
  shows "\<exists>atyp a port s1 s2. read_client_request w (new_connection c u) = (Inr (atyp, a, port), s1)
    \<and> connect_upstream w p atyp a port s1 = (Inr (), s2) \<and> client_in t = client_in s2 \<and> upstream_out t = upstream_out s2"
proof -
  let ?A = "seq (read_client_request w) (\<lambda>(atyp, address, port).
         skip_then (connect_upstream w p atyp address port)
        (skip_then (write_client w success_reply) (ret True)))"
  have refused: False if "(if is_Exception e then skip_then (refuse_client w) (ret False) else raise_exn e) s = (r, t)"
    "unanswered (client_out s)" for e s
    using that(1) refuse_client_cases(1) [of w s] failure_no_success [OF that(2)] success
    by (auto elim!: skip_thenE split: if_splits)
  have A: "\<exists>atyp a port s1 s2 k. read_client_request w (new_connection c u) = (Inr (atyp, a, port), s1)
      \<and> connect_upstream w p atyp a port s1 = (Inr (), s2) \<and> s = s2\<lparr>client_out := client_out s2 @ bytes_of success_reply, io_count := k\<rparr>
    \<or> unanswered (client_out s)"
    if run: "?A (new_connection c u) = (q, s)" for q s
    using run
  proof (cases rule: seqE)
    case (raised e)
    then show ?thesis using request_failure(1) by blast
  next
    case (returned y s1)
    obtain atyp a port where y: "y = (atyp, a, port)" by (cases y)
    have out: "client_out s1 = bytes_of [5, 0]" using request_failure(2) [OF returned(1)] y by simp
    note keep = keepsD [OF keeps_connect_upstream [of "client_in s1" "client_out s1" w p atyp a port], of s1]
    from returned(2) have "skip_then (connect_upstream w p atyp a port) (skip_then (write_client w success_reply) (ret True)) s1 = (q, s)"
      by (simp add: y)
    then show ?thesis
    proof (cases rule: skip_thenE)
      case (raised e)
      then show ?thesis using keep out by (simp add: unanswered_def)
    next
      case con: (returned z s2)
      then have "\<exists>k. s = s2\<lparr>client_out := client_out s2 @ bytes_of success_reply, io_count := k\<rparr>"
        by (auto elim!: skip_thenE dest!: write_client_cases)
      then show ?thesis using returned(1) con(1) y by auto
    qed
  qed
  from assms(1) show ?thesis
  proof (cases rule: try_exceptE)
    case (fine x)
    from A [OF fine(1)] failure_no_success(2) [of "client_out t"] success show ?thesis by force
  next
    case (caught e s)
    from A [OF caught(1)] refused [OF caught(2)] obtain atyp a port s1 s2 k where
      "read_client_request w (new_connection c u) = (Inr (atyp, a, port), s1)"
      "connect_upstream w p atyp a port s1 = (Inr (), s2)" "s = s2\<lparr>client_out := client_out s2 @ bytes_of success_reply, io_count := k\<rparr>"
      by blast
    moreover have "client_in t = client_in s \<and> upstream_out t = upstream_out s"
      using caught(2) refuse_client_cases(2) refuse_client_reads by (auto elim!: skip_thenE split: if_splits)
    ultimately show ?thesis by auto
  qed
qed

lemma handshake_true:
  assumes "try_except
      (seq (read_client_request w) (\<lambda>(atyp, address, port).
         skip_then (connect_upstream w p atyp address port)
        (skip_then (write_client w success_reply) (ret True))))
      (\<lambda>e. if is_Exception e then skip_then (refuse_client w) (ret False) else raise_exn e) s = (Inr connected, t)"
  shows "connected \<Longrightarrow> 4 \<le> length (client_out t)"
  using assms by (auto elim!: try_exceptE seqE skip_thenE dest!: write_client_cases split: if_splits
      simp: success_reply_def bytes_of_def)

text \<open>C38.  The bridge tells a client that it is connected only when the upstream took the login and the CONNECT, and
  then the upstream got the login, the client's own request byte for byte (address type, address and port) and
  after it nothing but the client's following bytes in their order.\<close>

theorem bridge_relays_verbatim:
  assumes "handle_client w p (new_connection c u) = (r, t)" "take 4 (client_out t) = bytes_of [5, 0, 5, 0]"
  shows "\<exists>methods reserved request rest n after. CHR 0x00 \<in> set methods \<and> length reserved = 1
     \<and> c = bytes_of [5, length methods] @ methods @ bytes_of [5, 1] @ reserved @ request @ rest
     \<and> u = bytes_of [5, 2, 1, 0, 5, 0] @ after
     \<and> upstream_out t = bytes_of (login_octets p) @ bytes_of [5, 1, 0] @ request @ take n rest"
proof -
  from assms(1) obtain rm s rf where
    body: "(seq (try_except
              (seq (read_client_request w) (\<lambda>(atyp, address, port).
               skip_then (connect_upstream w p atyp address port)
              (skip_then (write_client w success_reply) (ret True))))
              (\<lambda>e. if is_Exception e then skip_then (refuse_client w) (ret False) else raise_exn e)) (\<lambda>connected.
        if connected then try_except (relay w) (\<lambda>e. if is_Exception e then ret () else raise_exn e) else ret ()))
      (new_connection c u) = (rm, s)"
    and fin: "client_out t = client_out s \<and> upstream_out t = upstream_out s"
    unfolding handle_client_def
    by (elim try_finallyE) (auto elim!: skip_thenE try_exceptE dest!: io_cases close_upstream_outs split: if_splits)
  from body have "relayed p c u s"
  proof (cases rule: seqE)
    case (raised e)
    with fin assms(2) obtain atyp a port s1 s2 where "read_client_request w (new_connection c u) = (Inr (atyp, a, port), s1)"
      "connect_upstream w p atyp a port s1 = (Inr (), s2)" "upstream_out s = upstream_out s2"
      using handshake_cases [OF raised(1)] by auto
    then show ?thesis by (intro connected_relayed [where n = 0]) auto
  next
    case (returned connected s')
    have rel: "upstream_out s = upstream_out s' @ take (if connected then relayed_up w else 0) (client_in s')"
      "client_out s = client_out s' @ take (if connected then relayed_down w else 0) (upstream_in s')"
      using returned(2) by (auto elim!: try_exceptE dest!: relay_outs split: if_splits)
    have "take 4 (client_out s') = bytes_of [5, 0, 5, 0]"
      using handshake_true [OF returned(1)] rel(2) assms(2) fin by (cases connected) auto
    then obtain atyp a port s1 s2 where "read_client_request w (new_connection c u) = (Inr (atyp, a, port), s1)"
      "connect_upstream w p atyp a port s1 = (Inr (), s2)" "client_in s' = client_in s2" "upstream_out s' = upstream_out s2"
      using handshake_cases [OF returned(1)] by auto
    then show ?thesis using rel(1) by (intro connected_relayed) auto
  qed
  then show ?thesis using fin by (simp add: relayed_def)
qed

definition demo_bridge_world :: bridge_world where
  "demo_bridge_world = \<lparr>io_at = (\<lambda>_. Inr ()), relayed_up = 9, relayed_down = 9, relay_end = Inr (), client_closing_at = (\<lambda>_. False)\<rparr>"

definition demo_upstream :: proxy where
  "demo_upstream = [(''server'', ''socks5://p.example:1080''), (''username'', ''ab''), (''password'', ''c'')]"

definition demo_client_bytes :: string where
  "demo_client_bytes = map char_of [5, 1, 0, 5, 1, 0, 3, 1, 120, 0, 80 :: nat] @ ''hi''"

definition demo_upstream_bytes :: string where
  "demo_upstream_bytes = map char_of [5, 2, 1, 0, 5, 0, 0, 3, 1, 65, 0, 0 :: nat] @ ''yo''"

lemmas bridge_eval = handle_client_def read_client_request_def negotiate_method_def read_connect_def connect_upstream_def
  authenticate_upstream_def upstream_endpoint_def read_socks_address_def encode_socks_address_def read_client_def
  read_upstream_def write_client_def write_upstream_def io_def of_result_def relay_def close_upstream_def
  credential_octets_def utf8_bytes_def bytes_of_def byte_def octets_def ord_def success_reply_def

lemma char_of_0: "char_of (0 :: nat) = CHR 0x00"
proof -
  have "of_char (CHR 0x00) = (0 :: nat)" by simp
  then show ?thesis by (metis char_of_char)
qed

lemma demo_bridge_connected:
  "take 4 (client_out (snd (handle_client demo_bridge_world demo_upstream (new_connection demo_client_bytes demo_upstream_bytes))))
    = bytes_of [5, 0, 5, 0]"
  by (simp add: bridge_eval demo_bridge_world_def demo_upstream_def demo_client_bytes_def demo_upstream_bytes_def
      new_connection_def url_eval text_eval prog_simps char_of_0)

lemma bridge_relays_verbatim_witness:
  "\<exists>methods reserved request rest n after. CHR 0x00 \<in> set methods \<and> length reserved = 1
     \<and> demo_client_bytes = bytes_of [5, length methods] @ methods @ bytes_of [5, 1] @ reserved @ request @ rest
     \<and> demo_upstream_bytes = bytes_of [5, 2, 1, 0, 5, 0] @ after
     \<and> upstream_out (snd (handle_client demo_bridge_world demo_upstream (new_connection demo_client_bytes demo_upstream_bytes)))
         = bytes_of (login_octets demo_upstream) @ bytes_of [5, 1, 0] @ request @ take n rest"
  by (rule bridge_relays_verbatim [OF prod.collapse [symmetric] demo_bridge_connected])

end
