(* ===== verification/Command_Rules.thy ===== *)
theory Command_Rules
  imports Solver Config "HOL-Library.List_Lexorder" "HOL-Library.Char_ord"
begin

text \<open>
  The rules of the command service (\<open>camouflare/commands.py\<close>) that touch no browser: which transport a
  request gets, its proxy, its session lifetime and context options, the HTTP fetch it stands for and the
  solution made of the fetched response.
\<close>

section \<open>Transports\<close>

definition KNOWN_COMMANDS :: "string list" where
  "KNOWN_COMMANDS = [''sessions.create'', ''sessions.list'', ''sessions.destroy'', ''request.get'', ''request.post'',
     ''request.head'']"

definition given_http_parameters :: "v1_request \<Rightarrow> string list" where
  "given_http_parameters r =
     (if req_response_encoding r \<noteq> None then [''responseEncoding''] else [])
     @ (if max_response_bytes r \<noteq> None then [''maxResponseBytes''] else [])
     @ (if follow_redirects r \<noteq> None then [''followRedirects''] else [])"

definition HTTP_TRANSPORT_FORBIDDEN_HEADERS :: "string list" where
  "HTTP_TRANSPORT_FORBIDDEN_HEADERS = [''connection'', ''content-length'', ''host'', ''keep-alive'',
     ''proxy-authorization'', ''proxy-connection'', ''te'', ''trailer'', ''transfer-encoding'', ''upgrade'']"

definition HTTP_TRANSPORT_RESERVE_MS :: int where "HTTP_TRANSPORT_RESERVE_MS = 1000"

definition is_head :: "v1_request \<Rightarrow> bool" where "is_head r \<longleftrightarrow> cmd r = Some ''request.head''"

text \<open>The parameters of a browser request, in the order the message names them.\<close>

definition browser_only_parameters :: "v1_request \<Rightarrow> string list" where
  "browser_only_parameters r =
     (if nonempty (req_session r) then [''session''] else [])
     @ (if req_ttl_minutes r \<noteq> None then [''session_ttl_minutes''] else [])
     @ (if return_screenshot r then [''returnScreenshot''] else [])
     @ (if wait_in_seconds r \<noteq> None \<and> wait_in_seconds r \<noteq> Some 0 then [''waitInSeconds''] else [])
     @ (if disable_media r = Some True then [''disableMedia''] else [])
     @ (if post_data r \<noteq> None then [''postData''] else [])"

definition forbidden_headers :: "v1_request \<Rightarrow> string list" where
  "forbidden_headers r = sort (remdups (map fst (filter (\<lambda>(n, v). str_lower n \<in> set HTTP_TRANSPORT_FORBIDDEN_HEADERS)
     (case req_headers r of None \<Rightarrow> [] | Some h \<Rightarrow> h))))"

definition request_transport :: "externals \<Rightarrow> v1_request \<Rightarrow> exn + transport option" where
  "request_transport x r =
     (if is_head r \<and> req_transport r = Some BrowserTransport
      then Inl (invalid_request ''request.head supports only transport 'http'.'')
      else let t = (if is_head r then Some HttpTransport else req_transport r) in
        if t \<noteq> Some HttpTransport
        then if given_http_parameters r \<noteq> []
          then Inl (invalid_request (''Request parameters '' @ join_with '', '' (given_http_parameters r)
                 @ '' require transport 'http'.''))
          else if t = Some BrowserTransport \<and> is_get r \<and> origin_bound_target_headers x r \<noteq> []
          then Inl (invalid_request (''Transport '' @ q ''browser'' @ '' cannot send non-User-Agent headers on request.get; ''
                 @ ''use transport 'http'.''))
          else Inr t
        else if is_post r then Inl (invalid_request ''request.post does not support transport 'http'.'')
        else if browser_only_parameters r \<noteq> []
        then Inl (invalid_request (''Transport '' @ q ''http'' @ '' does not support request parameters ''
               @ join_with '', '' (browser_only_parameters r) @ ''.''))
        else if forbidden_headers r \<noteq> []
        then Inl (invalid_request (''Transport '' @ q ''http'' @ '' manages these request headers itself: ''
               @ join_with '', '' (forbidden_headers r) @ ''.''))
        else Inr (Some HttpTransport))"

section \<open>Proxy, lifetime and context options\<close>

definition resolve_proxy :: "externals \<Rightarrow> py_dict option \<Rightarrow> py_dict option \<Rightarrow> exn + proxy option" where
  "resolve_proxy x request_proxy settings_proxy =
     (case (case request_proxy of Some (kv # d) \<Rightarrow> Some (kv # d) | _ \<Rightarrow> settings_proxy) of
        Some (kv # d) \<Rightarrow> and_then (normalize_proxy (repr_val x) (Some (kv # d))) (\<lambda>normalized. case normalized of
           None \<Rightarrow> Inl (invalid_request ''Request parameter 'proxy' must include a 'url' (or 'server').'')
         | Some p \<Rightarrow> Inr (Some p))
      | _ \<Rightarrow> Inr None)"

definition resolve_ttl_seconds :: "settings \<Rightarrow> v1_request \<Rightarrow> int" where
  "resolve_ttl_seconds g r = (case req_ttl_minutes r of Some n \<Rightarrow> n * 60 | None \<Rightarrow> session_ttl_seconds g)"

record context_options =
  opt_proxy :: "proxy option"
  opt_user_agent :: "string option"

definition context_options_of :: "externals \<Rightarrow> proxy option \<Rightarrow> v1_request \<Rightarrow> context_options" where
  "context_options_of x p r =
     \<lparr>opt_proxy = (case p of Some (kv # d) \<Rightarrow> p | _ \<Rightarrow> None),
      opt_user_agent = (if nonempty (target_user_agent x r) then target_user_agent x r else None)\<rparr>"

section \<open>The HTTP transport\<close>

definition http_request_fetch :: "externals \<Rightarrow> settings \<Rightarrow> v1_request \<Rightarrow> proxy option \<Rightarrow> http_fetch" where
  "http_request_fetch x g r p =
     \<lparr>fetch_url = (case req_url r of None \<Rightarrow> [] | Some u \<Rightarrow> u),
      fetch_method = (if is_head r then ''HEAD'' else ''GET''),
      fetch_headers = with_default_headers (target_request_headers x r None),
      origin_bound = set (map (\<lambda>(n, v). str_lower n) (origin_bound_target_headers x r)),
      fetch_proxy = p,
      max_redirects = (case follow_redirects r of None \<Rightarrow> MAX_HTTP_REDIRECTS | Some n \<Rightarrow> nat n),
      max_body_bytes = (case max_response_bytes r of None \<Rightarrow> nat (max_response_body_bytes g)
        | Some n \<Rightarrow> if n = 0 then nat (max_response_body_bytes g) else nat n),
      fetch_body = (if return_only_cookies r then NoBody else FullBody),
      require_https = True, block_private_targets = True\<rparr>"

text \<open>The time an HTTP request gets; the timer is read twice.\<close>

definition http_timeout_ms :: "int \<Rightarrow> int \<Rightarrow> int" where
  "http_timeout_ms first second = first - min HTTP_TRANSPORT_RESERVE_MS (second div 10)"

definition is_wire_header :: "string \<Rightarrow> bool" where
  "is_wire_header key \<longleftrightarrow> key \<in> {''content-encoding'', ''content-length''}"

definition add_solution_header :: "bool \<Rightarrow> string \<times> string \<Rightarrow> headers \<Rightarrow> headers" where
  "add_solution_header decoded field combined =
     (let key = str_lower (fst field) in
      if decoded \<and> is_wire_header key then combined
      else case dict_get combined key of
        None \<Rightarrow> dict_set key (snd field) combined
      | Some v \<Rightarrow> dict_set key (v @ (if key = ''set-cookie'' then [CHR 10] else '', '') @ snd field) combined)"

definition http_solution_headers :: "bool \<Rightarrow> headers \<Rightarrow> headers" where
  "http_solution_headers decoded hs = fold (add_solution_header decoded) hs []"

definition http_solution ::
    "externals \<Rightarrow> text_lib \<Rightarrow> ('j \<Rightarrow> py_dict list) \<Rightarrow> (string \<Rightarrow> string) \<Rightarrow> v1_request \<Rightarrow> 'j http_result \<Rightarrow> exn + solution" where
  "http_solution x lib cookies_of b64encode r res =
     (let cookies = cookies_of (result_jar res);
          agent = (case result_user_agent res of None \<Rightarrow> [] | Some a \<Rightarrow> a);
          base = \<lparr>sol_url = result_url res, sol_status = int (result_status res), sol_headers = None, sol_response = None,
                  sol_cookies = cookies, sol_user_agent = agent, sol_screenshot = None, sol_turnstile_token = None,
                  sol_response_encoding = None, sol_body_bytes = None\<rparr> in
      if length cookies > MAX_COOKIES
      then Inl (ResourceLimitError (''Response cookies exceed the configured '' @ nat_str MAX_COOKIES @ ''-item limit.''))
      else and_then (ensure_json_size (dump_size x) (PyList (map PyDict cookies)) MAX_COOKIE_BYTES ''Response cookies'') (\<lambda>_.
        if return_only_cookies r then Inr base
        else and_then (if req_response_encoding r = Some Base64Encoding then Inr (b64encode (result_body res))
               else decode_replace lib (message_response_charset lib (result_headers res)) (result_body res)) (\<lambda>text.
          Inr (base\<lparr>sol_headers := Some (http_solution_headers (content_decoded res) (result_headers res)),
                    sol_response := Some text,
                    sol_response_encoding := Some (if req_response_encoding r = Some Base64Encoding then ''base64'' else ''text''),
                    sol_body_bytes := Some (length (result_body res))\<rparr>))))"

definition page_creation_transport_error :: "v1_request \<Rightarrow> exn" where
  "page_creation_transport_error r = CamouflareError
     (camouflare_error_with ''Browser transport closed before a request page could be created.''
       BROWSER_TRANSPORT_CLOSED (is_get r))"

text \<open>How a solved response leaves the command: an error becomes the exception with its fields.\<close>

definition failure_of_response :: "v1_response \<Rightarrow> camouflare_error" where
  "failure_of_response resp =
     (camouflare_error_with (resp_message resp)
        (case resp_error_code resp of None \<Rightarrow> INTERNAL_ERROR | Some c \<Rightarrow> c) (resp_retryable resp = Some True))
       \<lparr>request_outcome_unknown := (resp_outcome_unknown resp = Some True), fallback_used := resp_fallback_used resp,
        err_solution := resp_solution resp\<rparr>"

definition finish_response_of :: "string \<Rightarrow> int \<Rightarrow> v1_response \<Rightarrow> exn + v1_response" where
  "finish_response_of version started resp =
     (if resp_status resp = ''error'' then Inl (CamouflareError (failure_of_response resp))
      else Inr (resp\<lparr>resp_version := version, start_timestamp := started\<rparr>))"

end
