(* ===== verification/Commands.thy ===== *)
theory Commands
  imports Command_Rules Session_Registry Socks_Bridge
begin

text \<open>
  The command service (\<open>camouflare/commands.py\<close>).  A command runs over the session registry and what it
  meets outside: the browser pool, the pages, the bridge, the transport and other requests.  Those are the
  parameter \<open>command_world\<close>, the outcome of each operation at its moment; \<open>meanwhile\<close> is what other
  requests do to the registry while the command awaits.  The state also lists the operations performed.
\<close>

section \<open>State\<close>

datatype command_call =
    ClockRead
  | UuidMade
  | RegistryEntered
  | LockTaken nat
  | OpenedProxy nat "proxy option"
  | ClosedProxy nat
  | CreatedContext context_options
  | ClosedContext nat
  | LeasedContext context_options
  | EndedLease nat
  | WaitedForCreation string
  | WaitedForCleanup nat
  | OpenedPage nat
  | ListedPages nat
  | ClosedPage nat
  | Solved nat bool bool "browser_call list"
  | FetchedOverHttp http_fetch int
  | NotedSession string

record 'j command_world =
  now_at :: "nat \<Rightarrow> time"
  uuid_at :: "nat \<Rightarrow> string"
  meanwhile :: "nat \<Rightarrow> session_manager \<Rightarrow> session_manager"
  registry_at :: "nat \<Rightarrow> exn + unit"
  lock_at :: "nat \<Rightarrow> exn + unit"
  bridge_start_at :: "nat \<Rightarrow> exn + nat"
  persistent_at :: "nat \<Rightarrow> exn + nat"
  lease_at :: "nat \<Rightarrow> exn + nat"
  lease_exit_at :: "nat \<Rightarrow> exn + unit"
  creation_wait_at :: "nat \<Rightarrow> exn + unit"
  cleanup_wait_at :: "nat \<Rightarrow> exn + task_end"
  page_at :: "nat \<Rightarrow> exn + nat"
  pages_at :: "nat \<Rightarrow> exn + nat list"
  closing_at :: "nat \<Rightarrow> exn + unit"
  browser_at :: "nat \<Rightarrow> 'j browser_world"
  routed_at :: "nat \<Rightarrow> bool"
  http_configured :: bool
  fetched_cookies :: "'j \<Rightarrow> py_dict list"
  http_at :: "nat \<Rightarrow> http_fetch \<Rightarrow> exn + 'j http_result"

record 'j command_env =
  c_ext :: externals
  c_text :: text_lib
  c_b64 :: "string \<Rightarrow> string"
  c_settings :: settings
  c_version :: string
  c_stamp :: int
  c_world :: "'j command_world"

text \<open>\<open>solve_begun\<close> and \<open>answer\<close> are the handler's local variables \<open>solve_started\<close> and \<open>response\<close>.\<close>

record command_state =
  registry :: session_manager
  tick :: nat
  history :: "command_call list"
  solve_begun :: bool
  answer :: "v1_response option"

type_synonym 'a command_prog = "(command_state, 'a, exn) prog"

definition new_command :: "session_manager \<Rightarrow> command_state" where
  "new_command m = \<lparr>registry = m, tick = 0, history = [], solve_begun = False, answer = None\<rparr>"

text \<open>An operation without a suspension, and one that awaits.\<close>

definition perform :: "command_call \<Rightarrow> (nat \<Rightarrow> exn + 'a) \<Rightarrow> 'a command_prog" where
  "perform c f = (\<lambda>s. (f (tick s), s\<lparr>tick := Suc (tick s), history := history s @ [c]\<rparr>))"

definition await :: "'j command_world \<Rightarrow> command_call \<Rightarrow> (nat \<Rightarrow> exn + 'a) \<Rightarrow> 'a command_prog" where
  "await w c f = (\<lambda>s. (f (tick s), s\<lparr>tick := Suc (tick s), history := history s @ [c],
     registry := meanwhile w (tick s) (registry s)\<rparr>))"

definition on_registry :: "'a session_prog \<Rightarrow> 'a command_prog" where
  "on_registry m = (\<lambda>s. case m (registry s) of (r, g) \<Rightarrow> (r, s\<lparr>registry := g\<rparr>))"

definition outcome :: "exn + 'a \<Rightarrow> 'a command_prog" where
  "outcome r = (\<lambda>s. (r, s))"

definition attempt :: "'a command_prog \<Rightarrow> (exn + 'a) command_prog" where
  "attempt m = (\<lambda>s. case m s of (r, t) \<Rightarrow> (Inr r, t))"

definition only_Exception :: "'a command_prog \<Rightarrow> (exn \<Rightarrow> 'a command_prog) \<Rightarrow> 'a command_prog" where
  "only_Exception m h = try_except m (\<lambda>e. if is_Exception e then h e else raise_exn e)"

definition clock :: "'j command_world \<Rightarrow> time command_prog" where
  "clock w = perform ClockRead (\<lambda>n. Inr (now_at w n))"

text \<open>A method of the manager that takes its lock first.\<close>

definition manager_section :: "'j command_world \<Rightarrow> 'a session_prog \<Rightarrow> 'a command_prog" where
  "manager_section w m = skip_then (await w RegistryEntered (registry_at w)) (on_registry m)"

section \<open>Closing pages, proxies and contexts\<close>

definition close_page :: "'j command_world \<Rightarrow> nat \<Rightarrow> unit command_prog" where
  "close_page w page = only_Exception (await w (ClosedPage page) (closing_at w)) (\<lambda>_. ret ())"

text \<open>\<open>gather\<close> starts every close; the first cancellation is raised when all have been tried.\<close>

fun gather :: "unit command_prog list \<Rightarrow> unit command_prog" where
  "gather [] = ret ()"
| "gather (m # ms) = seq (attempt m) (\<lambda>r. case r of
     Inl e \<Rightarrow> seq (attempt (gather ms)) (\<lambda>_. raise_exn e) | Inr _ \<Rightarrow> gather ms)"

definition context_page_ids :: "'j command_world \<Rightarrow> nat \<Rightarrow> nat list command_prog" where
  "context_page_ids w context = only_Exception (perform (ListedPages context) (pages_at w)) (\<lambda>_. ret [])"

fun new_pages :: "nat list \<Rightarrow> nat list \<Rightarrow> nat list" where
  "new_pages seen [] = []"
| "new_pages seen (p # ps) = (if p \<in> set seen then new_pages seen ps else p # new_pages (p # seen) ps)"

definition close_request_pages :: "'j command_world \<Rightarrow> nat \<Rightarrow> nat option \<Rightarrow> nat list \<Rightarrow> unit command_prog" where
  "close_request_pages w context primary existing =
     seq (context_page_ids w context) (\<lambda>listed.
     gather (map (close_page w) (new_pages existing (listed @ (case primary of None \<Rightarrow> [] | Some p \<Rightarrow> [p])))))"

definition close_proxy_best_effort :: "'j command_world \<Rightarrow> proxy_lease \<Rightarrow> unit command_prog" where
  "close_proxy_best_effort w lease =
     only_Exception (await w (ClosedProxy (lease_number lease)) (closing_at w)) (\<lambda>_. ret ())"

definition close_persistent_resources :: "'j command_world \<Rightarrow> nat \<Rightarrow> proxy_lease \<Rightarrow> unit command_prog" where
  "close_persistent_resources w context lease =
     try_finally (await w (ClosedContext context) (closing_at w))
       (await w (ClosedProxy (lease_number lease)) (closing_at w))"

text \<open>The lease carries the moment it was opened as its number.\<close>

definition open_lease :: "'j command_world \<Rightarrow> proxy option \<Rightarrow> proxy_lease command_prog" where
  "open_lease w p = with_state (\<lambda>s.
     await w (OpenedProxy (tick s) p) (\<lambda>n. open_proxy_lease n (bridge_start_at w n) p))"

section \<open>Sessions\<close>

definition destroy_session :: "'j command_world \<Rightarrow> string option \<Rightarrow> bool command_prog" where
  "destroy_session w sid =
     seq (if nonempty sid then manager_section w (destroy_begin sid) else ret None) (\<lambda>c. case c of
       None \<Rightarrow> ret False
     | Some entry \<Rightarrow> seq (await w (WaitedForCleanup (closing_task entry)) (cleanup_wait_at w)) (\<lambda>e.
         outcome (destroy_result c e)))"

definition wait_for_creation :: "'j command_world \<Rightarrow> string \<Rightarrow> int \<Rightarrow> nat option command_prog" where
  "wait_for_creation w sid left = with_state (\<lambda>s.
     case wait_for_creation_begin (registry s) sid left of
       AlreadyThere x \<Rightarrow> ret (Some x)
     | NothingToAwait \<Rightarrow> ret (get_session (registry s) sid)
     | AwaitSettled p \<Rightarrow>
         skip_then (await w (WaitedForCreation sid) (creation_wait_at w))
           (with_state (\<lambda>s. ret (get_session (registry s) sid))))"

text \<open>Building the context inside the \<open>creating\<close> block of the id, if it is named.\<close>

definition build_context ::
    "'j command_world \<Rightarrow> string option \<Rightarrow> context_options \<Rightarrow> nat command_prog" where
  "build_context w sid opts = (case sid of
     None \<Rightarrow> await w (CreatedContext opts) (persistent_at w)
   | Some i \<Rightarrow> seq (on_registry (creating_enter i)) (\<lambda>p.
       try_finally (await w (CreatedContext opts) (persistent_at w)) (on_registry (creating_exit i p))))"

definition remaining_at :: "'j command_world \<Rightarrow> timeout_timer \<Rightarrow> int command_prog" where
  "remaining_at w timer = seq (clock w) (\<lambda>now. ret (remaining_ms now timer))"

text \<open>A capacity failure may be a race that a request for the same id wins.\<close>

definition capacity_race ::
    "'j command_world \<Rightarrow> string option \<Rightarrow> timeout_timer \<Rightarrow> exn \<Rightarrow> nat command_prog" where
  "capacity_race w sid timer e =
     (let rejected = skip_then (on_registry (record_session_event SessionRejected)) (raise_exn e) in
      case sid of
        None \<Rightarrow> rejected
      | Some i \<Rightarrow> seq (remaining_at w timer) (\<lambda>left. seq (wait_for_creation w i left) (\<lambda>winner. case winner of
          Some x \<Rightarrow> ret x | None \<Rightarrow> rejected)))"

fun is_capacity_error :: "exn \<Rightarrow> bool" where
  "is_capacity_error (PersistentCapacityError m) = True"
| "is_capacity_error _ = False"

definition register_built ::
    "'j command_world \<Rightarrow> string option \<Rightarrow> nat \<Rightarrow> proxy_lease \<Rightarrow> proxy option \<Rightarrow> int option \<Rightarrow> (nat \<times> bool) command_prog" where
  "register_built w sid context lease p ttl =
     seq (case sid of Some i \<Rightarrow> ret i | None \<Rightarrow> perform UuidMade (\<lambda>n. Inr (uuid_at w n))) (\<lambda>i.
     seq (clock w) (\<lambda>now.
     seq (try_except (on_registry (register_or_get now i context p ttl))
            (\<lambda>e. skip_then (close_persistent_resources w context lease) (raise_exn e))) (\<lambda>(x, created).
     skip_then (if created then ret () else close_persistent_resources w context lease) (ret (x, created)))))"

definition create_session ::
    "'j command_env \<Rightarrow> v1_request \<Rightarrow> string option \<Rightarrow> proxy option \<Rightarrow> int option \<Rightarrow> timeout_timer \<Rightarrow> (nat \<times> bool) command_prog" where
  "create_session v r sid p ttl timer =
     (let w = c_world v in
      skip_then (case sid of None \<Rightarrow> ret () | Some i \<Rightarrow> on_registry (raise_if_closing i))
     (seq (open_lease w p) (\<lambda>lease.
      seq (attempt (build_context w sid (context_options_of (c_ext v) (browser_proxy lease) r))) (\<lambda>built. case built of
        Inl e \<Rightarrow>
          skip_then (close_proxy_best_effort w lease)
            (if is_capacity_error e then seq (capacity_race w sid timer e) (\<lambda>x. ret (x, False)) else raise_exn e)
      | Inr context \<Rightarrow> register_built w sid context lease p ttl))))"

definition session_for_request ::
    "'j command_env \<Rightarrow> v1_request \<Rightarrow> string \<Rightarrow> timeout_timer \<Rightarrow> nat command_prog" where
  "session_for_request v r sid timer =
     (let w = c_world v; ttl = Some (resolve_ttl_seconds (c_settings v) r);
          build = (\<lambda>p ttl. seq (create_session v r (Some sid) p ttl timer) (\<lambda>(x, created). ret x)) in
      seq (clock w) (\<lambda>now. with_state (\<lambda>s. case get_session (registry s) sid of
        Some x \<Rightarrow>
          (let old = session_heap (registry s) x in
           if \<not> expired now old \<or> lock_held old \<or> in_use old > 0 then ret x
           else skip_then (destroy_session w (Some sid))
            (skip_then (perform (NotedSession ''rotated'') (\<lambda>_. Inr ()))
              (build (session_proxy old) (if req_ttl_minutes r = None then ttl_seconds old else ttl))))
      | None \<Rightarrow> seq (outcome (resolve_proxy (c_ext v) (req_proxy r) (env_proxy (c_settings v)))) (\<lambda>p. build p ttl))))"

definition sessions_create :: "'j command_env \<Rightarrow> v1_request \<Rightarrow> timeout_timer \<Rightarrow> v1_response command_prog" where
  "sessions_create v r timer =
     (let sid = (if nonempty (req_session r) then req_session r else None);
          told = (\<lambda>message x s. (ok_response (c_stamp v) (c_version v))
            \<lparr>resp_message := message, resp_session := Some (session_id (session_heap (registry s) x))\<rparr>) in
      with_state (\<lambda>s. case (case sid of None \<Rightarrow> None | Some i \<Rightarrow> get_session (registry s) i) of
        Some x \<Rightarrow> ret (told ''Session already exists.'' x s)
      | None \<Rightarrow>
          seq (outcome (resolve_proxy (c_ext v) (req_proxy r) (env_proxy (c_settings v)))) (\<lambda>p.
          seq (create_session v r sid p (Some (resolve_ttl_seconds (c_settings v) r)) timer) (\<lambda>(x, created).
            with_state (\<lambda>s. ret (told (if created then ''Session created successfully.'' else ''Session already exists.'') x s))))))"

section \<open>Requests\<close>

definition execute_http_request ::
    "'j command_env \<Rightarrow> v1_request \<Rightarrow> timeout_timer \<Rightarrow> v1_response command_prog" where
  "execute_http_request v r timer =
     (let w = c_world v in
      seq (remaining_at w timer) (\<lambda>first. seq (remaining_at w timer) (\<lambda>second.
      seq (outcome (resolve_proxy (c_ext v) (req_proxy r) (env_proxy (c_settings v)))) (\<lambda>p.
      let f = http_request_fetch (c_ext v) (c_settings v) r p in
      seq (await w (FetchedOverHttp f (http_timeout_ms first second)) (\<lambda>n. http_at w n f)) (\<lambda>res.
      seq (outcome (http_solution (c_ext v) (c_text v) (fetched_cookies w) (c_b64 v) r res)) (\<lambda>sol.
      ret ((ok_response (c_stamp v) (c_version v))
             \<lparr>resp_message := ''HTTP request completed.'', resp_solution := Some sol\<rparr>)))))))"

text \<open>Solving on a page; its operations join the history.\<close>

definition solve_on_page ::
    "'j command_env \<Rightarrow> v1_request \<Rightarrow> nat \<Rightarrow> timeout_timer \<Rightarrow> bool \<Rightarrow> bool \<Rightarrow> v1_response command_prog" where
  "solve_on_page v r page timer fallback first = (\<lambda>s.
     let w = c_world v; n = tick s;
         env = \<lparr>ext = c_ext v, text_of = c_text v, world = browser_at w n, b64 = c_b64 v,
                env_limits = settings_limits (c_settings v), env_stamp = c_stamp v, env_version = c_version v\<rparr>
     in case solve_request env r timer fallback first (new_browse (routed_at w n)) of (res, b) \<Rightarrow>
       (res, s\<lparr>tick := Suc n, history := history s @ [Solved page fallback first (calls b)],
               registry := meanwhile w n (registry s)\<rparr>))"

definition evict :: "'j command_world \<Rightarrow> nat \<Rightarrow> bool command_prog" where
  "evict w x = manager_section w (evict_if_current x)"

text \<open>The probe after a transport error: a new page proves the context usable.\<close>

definition evict_session_if_context_unusable :: "'j command_world \<Rightarrow> nat \<Rightarrow> nat \<Rightarrow> unit command_prog" where
  "evict_session_if_context_unusable w context x =
     try_except (skip_then (await w (OpenedPage context) (page_at w)) (ret ()))
       (\<lambda>e. skip_then (evict w x) (if is_Exception e then ret () else raise_exn e))"

definition session_gone_error :: exn where
  "session_gone_error = session_unavailable_error
     ''The session was closed by a concurrent request; retry to use a fresh session.''"

text \<open>A page, what is done with it, and the closing of all pages the request opened.\<close>

definition with_page ::
    "'j command_world \<Rightarrow> nat \<Rightarrow> (exn \<Rightarrow> 'a command_prog) \<Rightarrow> (nat \<Rightarrow> 'a command_prog) \<Rightarrow> 'a command_prog" where
  "with_page w context failed use =
     seq (context_page_ids w context) (\<lambda>existing.
     seq (attempt (await w (OpenedPage context) (page_at w))) (\<lambda>got. case got of
       Inl e \<Rightarrow> try_finally (failed e) (close_request_pages w context None existing)
     | Inr page \<Rightarrow> try_finally (use page) (close_request_pages w context (Some page) existing)))"

definition session_turn :: "'j command_env \<Rightarrow> v1_request \<Rightarrow> timeout_timer \<Rightarrow> string \<Rightarrow> nat \<Rightarrow> v1_response command_prog" where
  "session_turn v r timer sid x = with_state (\<lambda>s.
     if get_session (registry s) sid \<noteq> Some x then raise_exn session_gone_error
     else let w = c_world v; context = session_context (session_heap (registry s) x) in
       skip_then (seq (clock w) (\<lambda>now. on_registry (touch now x)))
         (with_page w context
           (\<lambda>e. if \<not> is_Exception e then raise_exn e
             else skip_then (evict w x)
               (raise_exn (if is_best_effort_browser_error e then page_creation_transport_error r else e)))
           (\<lambda>page. seq (solve_on_page v r page timer False False) (\<lambda>resp.
             skip_then (if resp_error_code resp = Some BROWSER_TRANSPORT_CLOSED
                        then evict_session_if_context_unusable w context x else ret ())
               (ret resp)))))"

definition holding_lock :: "'j command_world \<Rightarrow> nat \<Rightarrow> 'a command_prog \<Rightarrow> 'a command_prog" where
  "holding_lock w x m =
     skip_then (await w (LockTaken x) (lock_at w))
    (skip_then (on_registry (upd_session x (\<lambda>y. y\<lparr>lock_held := True\<rparr>)))
      (try_finally m (on_registry (upd_session x (\<lambda>y. y\<lparr>lock_held := False\<rparr>)))))"

definition session_request :: "'j command_env \<Rightarrow> v1_request \<Rightarrow> timeout_timer \<Rightarrow> string \<Rightarrow> v1_response command_prog" where
  "session_request v r timer sid =
     seq (session_for_request v r sid timer) (\<lambda>x.
     skip_then (on_registry (mark_in_use x))
       (try_finally (holding_lock (c_world v) x (session_turn v r timer sid x)) (on_registry (mark_released x))))"

text \<open>A request without a session: a leased context, one page, one solve.\<close>

definition leased_solve ::
    "'j command_env \<Rightarrow> v1_request \<Rightarrow> timeout_timer \<Rightarrow> context_options \<Rightarrow> bool \<Rightarrow> unit command_prog" where
  "leased_solve v r timer opts direct =
     (let w = c_world v in
      seq (await w (LeasedContext opts) (lease_at w)) (\<lambda>context.
      try_finally
        (with_page w context raise_exn (\<lambda>page.
           skip_then (modify (\<lambda>s. s\<lparr>solve_begun := True\<rparr>))
             (seq (solve_on_page v r page timer direct direct) (\<lambda>resp. modify (\<lambda>s. s\<lparr>answer := Some resp\<rparr>)))))
        (await w (EndedLease context) (lease_exit_at w))))"

definition stateless_request ::
    "'j command_env \<Rightarrow> v1_request \<Rightarrow> timeout_timer \<Rightarrow> bool \<Rightarrow> v1_response command_prog" where
  "stateless_request v r timer allow_direct =
     (let w = c_world v in
      seq (outcome (resolve_proxy (c_ext v) (req_proxy r) (env_proxy (c_settings v)))) (\<lambda>p.
      seq (open_lease w p) (\<lambda>lease.
      skip_then
        (try_finally
          (only_Exception
             (leased_solve v r timer (context_options_of (c_ext v) (browser_proxy lease) r) (allow_direct \<and> p = None))
             (\<lambda>e. with_state (\<lambda>s.
                if answer s \<noteq> None then ret ()
                else if \<not> solve_begun s \<and> is_best_effort_browser_error e
                then raise_exn (page_creation_transport_error r) else raise_exn e)))
          (close_proxy_best_effort w lease))
        (with_state (\<lambda>s. case answer s of
           Some resp \<Rightarrow> ret resp | None \<Rightarrow> raise_exn (OtherError ''AssertionError'' []))))))"

definition missing_parameter :: "v1_request \<Rightarrow> string option" where
  "missing_parameter r =
     (if (is_get r \<or> is_post r \<or> is_head r) \<and> \<not> nonempty (req_url r)
      then Some (''Request parameter '' @ q ''url'' @ '' is mandatory in '' @ q (the (cmd r)) @ '' command.'')
      else if is_post r \<and> post_data r = None
      then Some (''Request parameter '' @ q ''postData'' @ '' is mandatory in '' @ q ''request.post'' @ '' command.'')
      else None)"

definition execute_request ::
    "'j command_env \<Rightarrow> v1_request \<Rightarrow> timeout_timer \<Rightarrow> int \<Rightarrow> v1_response command_prog" where
  "execute_request v r timer started =
     (case missing_parameter r of Some m \<Rightarrow> raise_exn (invalid_request m)
      | None \<Rightarrow> seq (outcome (request_transport (c_ext v) r)) (\<lambda>t.
          if t = Some HttpTransport
          then if \<not> http_configured (c_world v)
            then raise_exn (RuntimeError ''HTTP transport is not configured for this runtime.'')
            else seq (execute_http_request v r timer) (\<lambda>resp.
              ret (resp\<lparr>resp_version := c_version v, start_timestamp := started\<rparr>))
          else seq (if nonempty (req_session r) then session_request v r timer (the (req_session r))
                    else stateless_request v r timer (t = None)) (\<lambda>resp.
              outcome (finish_response_of (c_version v) started resp))))"

section \<open>Dispatch\<close>

definition session_commands :: "string list" where
  "session_commands = [''sessions.create'', ''sessions.list'', ''sessions.destroy'']"

text \<open>The commands over sessions take no parameter of the HTTP transport.\<close>

definition session_command_parameters :: "v1_request \<Rightarrow> string list" where
  "session_command_parameters r =
     (if req_transport r = Some HttpTransport then [''transport''] else []) @ given_http_parameters r"

definition dispatch_v1 :: "'j command_env \<Rightarrow> v1_request \<Rightarrow> timeout_timer \<Rightarrow> int \<Rightarrow> v1_response command_prog" where
  "dispatch_v1 v r timer started =
     (let w = c_world v; plain = ok_response (c_stamp v) (c_version v) in
      if \<not> nonempty (cmd r) then raise_exn (invalid_request (''Request parameter '' @ q ''cmd'' @ '' is mandatory.''))
      else let c = the (cmd r) in
        if c \<in> set session_commands \<and> session_command_parameters r \<noteq> []
        then raise_exn (invalid_request (''Request parameters '' @ join_with '', '' (session_command_parameters r)
               @ '' apply only to request commands over transport 'http'.''))
        else skip_then
          (if c \<noteq> ''sessions.destroy''
           then skip_then (await w RegistryEntered (registry_at w))
             (seq (clock w) (\<lambda>now. on_registry (prune_expired now (req_session r)))) else ret [])
          (if c = ''sessions.create'' then sessions_create v r timer
           else if c = ''sessions.list''
           then with_state (\<lambda>s. ret (plain\<lparr>resp_sessions := Some (list_ids (registry s))\<rparr>))
           else if c = ''sessions.destroy''
           then seq (destroy_session w (req_session r)) (\<lambda>destroyed.
             if \<not> destroyed
             then raise_exn (CamouflareError (camouflare_error_with (''The session doesn'' @ [CHR 0x27] @ ''t exist.'') SESSION_NOT_FOUND False))
             else ret (plain\<lparr>resp_message := ''The session has been removed.''\<rparr>))
           else if is_get r \<or> is_post r \<or> is_head r then execute_request v r timer started
           else raise_exn (invalid_request (''Request parameter '' @ q ''cmd'' @ '' = '' @ q c @ '' is invalid.''))))"

end
