(* ===== verification/Command_History.thy ===== *)
theory Command_History
  imports Commands Solver_History
begin

text \<open>
  What the commands may do: an operation satisfying a predicate everywhere keeps the history within it.
  A predicate is \<open>routine\<close> when it constrains only solving and fetching.
\<close>

definition records :: "(command_call \<Rightarrow> bool) \<Rightarrow> command_state \<Rightarrow> bool" where
  "records P s \<longleftrightarrow> list_all P (history s)"

fun is_exchange :: "command_call \<Rightarrow> bool" where
  "is_exchange (Solved page fallback first cs) = True"
| "is_exchange (FetchedOverHttp f n) = True"
| "is_exchange c = False"

definition routine :: "(command_call \<Rightarrow> bool) \<Rightarrow> bool" where
  "routine P \<longleftrightarrow> (\<forall>c. is_exchange c \<or> P c)"

lemma routineD: "routine P \<Longrightarrow> \<not> is_exchange c \<Longrightarrow> P c"
  by (auto simp: routine_def)

lemma keeps_perform: "P c \<Longrightarrow> keeps (records P) (perform c f)"
  by (simp add: keeps_def records_def perform_def)

lemma keeps_await: "P c \<Longrightarrow> keeps (records P) (await w c f)"
  by (simp add: keeps_def records_def await_def)

lemma keeps_on_registry [keeps_intros]: "keeps (records P) (on_registry m)"
  by (simp add: keeps_def records_def on_registry_def split: prod.split)

lemma keeps_outcome [keeps_intros]: "keeps I (outcome r)"
  by (simp add: keeps_def outcome_def)

lemma keeps_attempt [keeps_intros]: "keeps I m \<Longrightarrow> keeps I (attempt m)"
  by (simp add: keeps_def attempt_def split: prod.split) (metis snd_conv)

lemma keeps_only_Exception [keeps_intros]: "keeps I m \<Longrightarrow> (\<And>e. keeps I (h e)) \<Longrightarrow> keeps I (only_Exception m h)"
  unfolding only_Exception_def by (intro keeps_intros)

lemma keeps_case_sum [keeps_intros]:
  "(\<And>x. keeps I (f x)) \<Longrightarrow> (\<And>x. keeps I (g x)) \<Longrightarrow> keeps I (case y of Inl x \<Rightarrow> f x | Inr x \<Rightarrow> g x)"
  by (simp split: sum.split)

lemma keeps_case_prod [keeps_intros]: "(\<And>x z. keeps I (f x z)) \<Longrightarrow> keeps I (case y of (x, z) \<Rightarrow> f x z)"
  by (simp split: prod.split)

lemma keeps_case_wait [keeps_intros]:
  "(\<And>x. keeps I (f x)) \<Longrightarrow> (\<And>p. keeps I (g p)) \<Longrightarrow> keeps I m
    \<Longrightarrow> keeps I (case y of AlreadyThere x \<Rightarrow> f x | AwaitSettled p \<Rightarrow> g p | NothingToAwait \<Rightarrow> m)"
  by (simp split: creation_wait.split)

lemma keeps_gather [keeps_intros]: "(\<And>m. m \<in> set ms \<Longrightarrow> keeps I m) \<Longrightarrow> keeps I (gather ms)"
  by (induction ms) (auto intro!: keeps_intros)

lemma keeps_answer: "(\<And>s. history (f s) = history s) \<Longrightarrow> keeps (records P) (modify f)"
  by (simp add: keeps_def records_def)

text \<open>The programs that neither solve nor fetch.\<close>

named_theorems routine_keeps \<open>programs that neither solve nor fetch\<close>

lemma routine_perform [routine_keeps]: "routine P \<Longrightarrow> \<not> is_exchange c \<Longrightarrow> keeps (records P) (perform c f)"
  by (rule keeps_perform) (rule routineD)

lemma routine_await [routine_keeps]: "routine P \<Longrightarrow> \<not> is_exchange c \<Longrightarrow> keeps (records P) (await w c f)"
  by (rule keeps_await) (rule routineD)

lemma routine_clock [routine_keeps]: "routine P \<Longrightarrow> keeps (records P) (clock w)"
  unfolding clock_def by (intro routine_keeps; simp)

lemma routine_manager_section [routine_keeps]: "routine P \<Longrightarrow> keeps (records P) (manager_section w m)"
  unfolding manager_section_def by (intro keeps_intros routine_keeps; simp)

lemma routine_remaining_at [routine_keeps]: "routine P \<Longrightarrow> keeps (records P) (remaining_at w timer)"
  unfolding remaining_at_def by (intro keeps_intros routine_keeps; simp)

lemma routine_close_request_pages [routine_keeps]: "routine P \<Longrightarrow> keeps (records P) (close_request_pages w context p existing)"
  unfolding close_request_pages_def context_page_ids_def close_page_def
  by (intro keeps_intros keeps_gather) (auto intro!: keeps_intros routine_keeps)

lemma routine_context_page_ids [routine_keeps]: "routine P \<Longrightarrow> keeps (records P) (context_page_ids w context)"
  unfolding context_page_ids_def by (intro keeps_intros routine_keeps; simp)

lemma routine_close_proxy [routine_keeps]: "routine P \<Longrightarrow> keeps (records P) (close_proxy_best_effort w lease)"
  unfolding close_proxy_best_effort_def by (intro keeps_intros routine_keeps; simp)

lemma routine_close_persistent [routine_keeps]: "routine P \<Longrightarrow> keeps (records P) (close_persistent_resources w context lease)"
  unfolding close_persistent_resources_def by (intro keeps_intros routine_keeps; simp)

lemma routine_open_lease [routine_keeps]: "routine P \<Longrightarrow> keeps (records P) (open_lease w p)"
  unfolding open_lease_def by (intro keeps_intros routine_keeps; simp)

lemma routine_destroy_session [routine_keeps]: "routine P \<Longrightarrow> keeps (records P) (destroy_session w sid)"
  unfolding destroy_session_def by (intro keeps_intros routine_keeps; simp)

lemma routine_wait_for_creation [routine_keeps]: "routine P \<Longrightarrow> keeps (records P) (wait_for_creation w sid left)"
  unfolding wait_for_creation_def by (intro keeps_intros routine_keeps; simp)

lemma routine_build_context [routine_keeps]: "routine P \<Longrightarrow> keeps (records P) (build_context w sid opts)"
  unfolding build_context_def by (intro keeps_intros routine_keeps; simp)

lemma routine_capacity_race [routine_keeps]: "routine P \<Longrightarrow> keeps (records P) (capacity_race w sid timer e)"
  unfolding capacity_race_def Let_def by (intro keeps_intros routine_keeps; simp)

lemma routine_register_built [routine_keeps]: "routine P \<Longrightarrow> keeps (records P) (register_built w sid context lease p ttl)"
  unfolding register_built_def by (intro keeps_intros routine_keeps; simp)

lemma routine_create_session [routine_keeps]: "routine P \<Longrightarrow> keeps (records P) (create_session v r sid p ttl timer)"
  unfolding create_session_def Let_def by (intro keeps_intros routine_keeps; simp)

lemma routine_session_for_request [routine_keeps]: "routine P \<Longrightarrow> keeps (records P) (session_for_request v r sid timer)"
  unfolding session_for_request_def Let_def by (intro keeps_intros routine_keeps; simp)

lemma routine_sessions_create [routine_keeps]: "routine P \<Longrightarrow> keeps (records P) (sessions_create v r timer)"
  unfolding sessions_create_def Let_def by (intro keeps_intros routine_keeps; simp)

lemma routine_evict [routine_keeps]: "routine P \<Longrightarrow> keeps (records P) (evict w x)"
  unfolding evict_def by (rule routine_manager_section)

lemma routine_probe [routine_keeps]: "routine P \<Longrightarrow> keeps (records P) (evict_session_if_context_unusable w context x)"
  unfolding evict_session_if_context_unusable_def by (intro keeps_intros routine_keeps; simp)

section \<open>Solving and fetching\<close>

lemma keeps_with_page:
  assumes "routine P" and "\<And>e. keeps (records P) (failed e)" and "\<And>page. keeps (records P) (use page)"
  shows "keeps (records P) (with_page w context failed use)"
  unfolding with_page_def by (intro keeps_intros routine_keeps assms; simp)

lemma keeps_holding_lock: "routine P \<Longrightarrow> keeps (records P) m \<Longrightarrow> keeps (records P) (holding_lock w x m)"
  unfolding holding_lock_def by (intro keeps_intros routine_keeps; simp)

text \<open>A solve is recorded with the operations it performed, all of which a browser predicate may constrain.\<close>

lemma keeps_solve_on_page:
  fixes v :: "'j command_env"
  assumes "\<And>(env :: 'j solve_env) b. ext env = c_ext v \<Longrightarrow> list_all Q (calls (snd (solve_request env r timer fallback first (new_browse b))))"
    and "\<And>cs. list_all Q cs \<Longrightarrow> P (Solved page fallback first cs)"
  shows "keeps (records P) (solve_on_page v r page timer fallback first)"
proof (rule keepsI)
  fix s assume s: "records P s"
  let ?w = "c_world v"
  let ?env = "\<lparr>ext = c_ext v, text_of = c_text v, world = browser_at ?w (tick s), b64 = c_b64 v,
      env_limits = settings_limits (c_settings v), env_stamp = c_stamp v, env_version = c_version v\<rparr>"
  obtain res b where run: "solve_request ?env r timer fallback first (new_browse (routed_at ?w (tick s))) = (res, b)" by fastforce
  have "list_all Q (calls b)" using assms(1) [of ?env "routed_at ?w (tick s)"] run by simp
  then show "records P (snd (solve_on_page v r page timer fallback first s))"
    using s assms(2) by (simp add: solve_on_page_def records_def Let_def run)
qed

end
