(* ===== verification/Command_Properties.thy ===== *)
theory Command_Properties
  imports Command_History Http_Properties
begin

text \<open>
  What the command service guarantees: the transport a request names is the one it gets, nothing built for a
  command is left behind, and the solution headers of the HTTP transport.
\<close>

section \<open>Transports\<close>

definition over_http :: "v1_request \<Rightarrow> bool" where
  "over_http r \<longleftrightarrow> req_transport r = Some HttpTransport \<or> is_head r"

text \<open>What rules out a direct HTTP request of a solve.\<close>

definition browser_only :: "'j command_env \<Rightarrow> v1_request \<Rightarrow> bool" where
  "browser_only v r \<longleftrightarrow> req_transport r = Some BrowserTransport \<or> nonempty (req_session r)
     \<or> resolve_proxy (c_ext v) (req_proxy r) (env_proxy (c_settings v)) \<noteq> Inr None"

definition no_direct :: "browser_call \<Rightarrow> bool" where
  "no_direct c \<longleftrightarrow> (case c of DirectGet f n wait \<Rightarrow> False | _ \<Rightarrow> True)"

lemma quiet_no_direct: "quiet no_direct"
  by (auto simp: quiet_def no_direct_def split: browser_call.split)

lemma solve_without_direct: "list_all no_direct (calls (snd (solve_request env r timer False False (new_browse b))))"
  by (rule issues_new, rule issues_solve_request [OF quiet_no_direct]) (simp_all add: no_direct_def)

text \<open>The operations a command may perform, by the transport of its request.\<close>

definition honours :: "'j command_env \<Rightarrow> v1_request \<Rightarrow> command_call \<Rightarrow> bool" where
  "honours v r c \<longleftrightarrow> (case c of
     Solved page fallback first cs \<Rightarrow> \<not> over_http r \<and> (if browser_only v r then list_all no_direct cs else True)
   | FetchedOverHttp f n \<Rightarrow> over_http r \<and> require_https f \<and> block_private_targets f
       \<and> Some (fetch_url f) = req_url r
       \<and> resolve_proxy (c_ext v) (req_proxy r) (env_proxy (c_settings v)) = Inr (fetch_proxy f)
   | OpenedProxy n p \<Rightarrow> \<not> over_http r | CreatedContext opts \<Rightarrow> \<not> over_http r
   | LeasedContext opts \<Rightarrow> \<not> over_http r | OpenedPage context \<Rightarrow> \<not> over_http r
   | _ \<Rightarrow> True)"

lemma routine_honours: "\<not> over_http r \<Longrightarrow> routine (honours v r)"
  by (auto simp: routine_def honours_def split: command_call.split)

lemma keeps_solve_honours:
  assumes "\<not> over_http r" "browser_only v r \<Longrightarrow> \<not> fallback \<and> \<not> first"
  shows "keeps (records (honours v r)) (solve_on_page v r page timer fallback first)"
  by (rule keeps_solve_on_page [where Q = "if browser_only v r then no_direct else (\<lambda>_. True)"])
    (use assms in \<open>auto simp: honours_def solve_without_direct list_all_iff [of "\<lambda>_. True"]\<close>)

lemma keeps_session_request:
  assumes "\<not> over_http r"
  shows "keeps (records (honours v r)) (session_request v r timer sid)"
proof -
  note routine = routine_honours [OF assms, of v]
  show ?thesis
    unfolding session_request_def session_turn_def Let_def
    by (intro keeps_intros routine_keeps routine keeps_with_page keeps_holding_lock keeps_solve_honours assms; simp)
qed

lemma keeps_stateless_request:
  assumes "\<not> over_http r" and direct: "direct \<Longrightarrow> req_transport r \<noteq> Some BrowserTransport" and "\<not> nonempty (req_session r)"
  shows "keeps (records (honours v r)) (stateless_request v r timer direct)"
proof -
  note routine = routine_honours [OF assms(1), of v]
  have lease: "keeps (records (honours v r)) (leased_solve v r timer opts d)"
    if "browser_only v r \<Longrightarrow> \<not> d" for opts d
    unfolding leased_solve_def Let_def
    by (intro keeps_intros routine_keeps routine keeps_with_page keeps_solve_honours keeps_answer assms(1); simp add: that)
  show ?thesis
  proof (cases "resolve_proxy (c_ext v) (req_proxy r) (env_proxy (c_settings v))")
    case (Inl e)
    then show ?thesis by (simp add: stateless_request_def keeps_def seq_apply outcome_def Let_def)
  next
    case (Inr p)
    have "browser_only v r \<Longrightarrow> \<not> (direct \<and> p = None)"
      using assms(2,3) Inr by (auto simp: browser_only_def)
    note lease = lease [OF this]
    show ?thesis
      unfolding stateless_request_def Let_def Inr outcome_def [of "Inr p"] ret_def [symmetric]
      by (simp only: seq_ret) (intro keeps_intros routine_keeps routine lease; simp)
  qed
qed

lemma keeps_execute_http:
  assumes "over_http r" "nonempty (req_url r)"
  shows "keeps (records (honours v r)) (execute_http_request v r timer)"
proof (cases "resolve_proxy (c_ext v) (req_proxy r) (env_proxy (c_settings v))")
  case (Inl e)
  have clock: "keeps (records (honours v r)) (remaining_at w timer)" for w
    unfolding remaining_at_def clock_def by (intro keeps_intros keeps_perform) (simp_all add: honours_def)
  show ?thesis
    unfolding execute_http_request_def Let_def Inl outcome_def [of "Inl e"] raise_exn_def [symmetric]
    by (simp only: seq_raise) (intro keeps_intros clock)
next
  case (Inr p)
  have clock: "keeps (records (honours v r)) (remaining_at w timer)" for w
    unfolding remaining_at_def clock_def by (intro keeps_intros keeps_perform) (simp_all add: honours_def)
  have fetch: "honours v r (FetchedOverHttp (http_request_fetch (c_ext v) (c_settings v) r p) n)" for n
    using assms Inr by (auto simp: honours_def http_request_fetch_def nonempty_def split: option.splits)
  show ?thesis
    unfolding execute_http_request_def Let_def Inr outcome_def [of "Inr p"] ret_def [symmetric]
    by (simp only: seq_ret) (intro keeps_intros clock keeps_await fetch)
qed

lemma transport_over_http: "request_transport x r = Inr t \<Longrightarrow> (t = Some HttpTransport) = over_http r"
  by (auto simp: request_transport_def over_http_def Let_def split: if_splits)

lemma transport_browser: "request_transport x r = Inr None \<Longrightarrow> req_transport r \<noteq> Some BrowserTransport"
  by (auto simp: request_transport_def Let_def split: if_splits)

lemma keeps_execute_request:
  assumes "is_get r \<or> is_post r \<or> is_head r"
  shows "keeps (records (honours v r)) (execute_request v r timer started)"
proof (cases "missing_parameter r")
  case None
  show ?thesis
  proof (cases "request_transport (c_ext v) r")
    case (Inl e)
    then show ?thesis by (simp add: execute_request_def None keeps_def seq_apply outcome_def)
  next
    case (Inr t)
    have step: "execute_request v r timer started
        = (if t = Some HttpTransport
          then if \<not> http_configured (c_world v)
            then raise_exn (RuntimeError ''HTTP transport is not configured for this runtime.'')
            else seq (execute_http_request v r timer) (\<lambda>resp.
              ret (resp\<lparr>resp_version := c_version v, start_timestamp := started\<rparr>))
          else seq (if nonempty (req_session r) then session_request v r timer (the (req_session r))
                    else stateless_request v r timer (t = None)) (\<lambda>resp.
              outcome (finish_response_of (c_version v) started resp)))"
      by (rule ext) (simp add: execute_request_def None seq_apply outcome_def [of "Inr t"] Inr)
    show ?thesis
    proof (cases "over_http r")
      case True
      then have "nonempty (req_url r)"
        using None assms by (auto simp: missing_parameter_def split: if_splits)
      with True show ?thesis using transport_over_http [OF Inr]
        unfolding step by (auto intro!: keeps_intros keeps_execute_http)
    next
      case False
      with transport_over_http [OF Inr] transport_browser Inr show ?thesis
        unfolding step by (auto intro!: keeps_intros keeps_session_request keeps_stateless_request)
    qed
  qed
qed (simp add: execute_request_def)

lemma keeps_dispatch: "keeps (records (honours v r)) (dispatch_v1 v r timer started)"
proof -
  have plain: "keeps (records (honours v r)) (perform ClockRead f)"
    "keeps (records (honours v r)) (await w RegistryEntered g)" for f :: "nat \<Rightarrow> exn + time" and w :: "'a command_world" and g :: "nat \<Rightarrow> exn + unit"
    by (rule keeps_perform keeps_await; simp add: honours_def)+
  have quiet: "routine (honours v r)" if "the (cmd r) \<in> set session_commands" "session_command_parameters r = []"
  proof (rule routine_honours)
    show "\<not> over_http r"
      using that by (auto simp: over_http_def is_head_def session_commands_def session_command_parameters_def split: if_splits)
  qed
  have destroy: "keeps (records (honours v r)) (destroy_session w sid)" for w :: "'a command_world" and sid
    unfolding destroy_session_def manager_section_def
    by (intro keeps_intros keeps_await; simp add: honours_def)
  show ?thesis
    unfolding dispatch_v1_def Let_def clock_def
    by (auto intro!: keeps_intros plain destroy keeps_execute_request routine_sessions_create quiet simp: session_commands_def)
qed

text \<open>C6.  The transport a request names is the one it gets.  Over HTTP no proxy lease, context, lease or page is
  opened and every fetch is of the request's URL, over https only, to public addresses only, through the proxy that
  was resolved.  A solve sends no direct HTTP request when the request asks for the browser, uses a session or
  resolves to a proxy.\<close>

theorem transport_respected:
  "list_all (\<lambda>c. case c of
       Solved page fallback first cs \<Rightarrow> \<not> over_http r
         \<and> (if req_transport r \<noteq> Some BrowserTransport \<and> \<not> nonempty (req_session r)
               \<and> resolve_proxy (c_ext v) (req_proxy r) (env_proxy (c_settings v)) = Inr None
            then True else list_all (\<lambda>b. case b of DirectGet f n wait \<Rightarrow> False | _ \<Rightarrow> True) cs)
     | FetchedOverHttp f n \<Rightarrow> over_http r \<and> require_https f \<and> block_private_targets f \<and> Some (fetch_url f) = req_url r
         \<and> resolve_proxy (c_ext v) (req_proxy r) (env_proxy (c_settings v)) = Inr (fetch_proxy f)
     | OpenedProxy n p \<Rightarrow> \<not> over_http r | CreatedContext opts \<Rightarrow> \<not> over_http r
     | LeasedContext opts \<Rightarrow> \<not> over_http r | OpenedPage context \<Rightarrow> \<not> over_http r
     | _ \<Rightarrow> True)
   (history (snd (dispatch_v1 v r timer started (new_command m))))"
proof -
  have "records (honours v r) (new_command m)" by (simp add: records_def new_command_def)
  from keepsD [OF keeps_dispatch this] show ?thesis
    unfolding records_def
    by (rule list.pred_mono_strong) (auto simp: honours_def browser_only_def no_direct_def [abs_def] split: command_call.splits if_splits)
qed

section \<open>The headers of an HTTP solution\<close>

definition field_separator :: "string \<Rightarrow> string" where
  "field_separator key = (if key = ''set-cookie'' then [CHR 10] else '', '')"

definition fields_named :: "string \<Rightarrow> headers \<Rightarrow> string list" where
  "fields_named key hs = map snd (filter (\<lambda>(n, v). str_lower n = key) hs)"

lemma fields_named_snoc [simp]:
  "fields_named key (hs @ [(n, v)]) = fields_named key hs @ (if str_lower n = key then [v] else [])"
  by (simp add: fields_named_def)

lemma join_with_snoc: "ws \<noteq> [] \<Longrightarrow> join_with sep (ws @ [w]) = join_with sep ws @ sep @ w"
  by (induction sep ws rule: join_with.induct) auto

lemma add_solution_header_get:
  "dict_get (add_solution_header dec (n, v) h) key =
     (if str_lower n = key \<and> \<not> (dec \<and> is_wire_header key)
      then Some (case dict_get h key of None \<Rightarrow> v | Some u \<Rightarrow> u @ field_separator key @ v) else dict_get h key)"
  by (cases dec; cases "is_wire_header (str_lower n)"; cases "dict_get h (str_lower n)")
    (auto simp: add_solution_header_def Let_def field_separator_def)

lemma http_solution_headers_get:
  "dict_get (http_solution_headers dec hs) key =
     (if fields_named key hs = [] \<or> dec \<and> is_wire_header key then None
      else Some (join_with (field_separator key) (fields_named key hs)))"
proof (induction hs rule: rev_induct)
  case (snoc field hs)
  obtain n v where field: "field = (n, v)" by (cases field)
  have step: "http_solution_headers dec (hs @ [(n, v)]) = add_solution_header dec (n, v) (http_solution_headers dec hs)"
    by (simp add: http_solution_headers_def)
  show ?case
    unfolding field step add_solution_header_get snoc.IH
    by (cases "str_lower n = key"; cases "dec \<and> is_wire_header key"; cases "fields_named key hs = []")
      (auto simp: join_with_snoc)
qed (simp add: http_solution_headers_def fields_named_def)

lemma http_solution_headers_keys: "distinct (map fst (http_solution_headers dec hs))"
proof (induction hs rule: rev_induct)
  case (snoc field hs)
  then show ?case
    by (auto simp: http_solution_headers_def add_solution_header_def Let_def distinct_dict_set split: option.split)
qed (simp add: http_solution_headers_def)

text \<open>The headers of an HTTP solution have each lower-case name once, with the values of all fields of that
  name joined in their order by the separator of the name; the encoding and length fields of the wire are left out
  exactly when the content codings were removed.\<close>

theorem solution_headers_combine_fields:
  "distinct (map fst (http_solution_headers dec hs))
   \<and> (\<forall>key. dict_get (http_solution_headers dec hs) key =
       (let values = map snd (filter (\<lambda>(n, v). str_lower n = key) hs) in
        if values = [] \<or> dec \<and> key \<in> {''content-encoding'', ''content-length''} then None
        else Some (join_with (if key = ''set-cookie'' then [CHR 10] else '', '') values)))"
  using http_solution_headers_keys [of dec hs] http_solution_headers_get [of dec hs]
  by (simp add: fields_named_def field_separator_def is_wire_header_def Let_def)

end
