(* ===== verification/Command_Resources.thy ===== *)
theory Command_Resources
  imports Command_Properties
begin

text \<open>
  The resources of a command: whatever happens on the way, a stateless request closes the proxy lease and gives back
  the context it leased, and a session build hands its context and lease to the registry or closes both.
\<close>

section \<open>Nothing is left behind\<close>

text \<open>What was opened at a moment is settled when it failed to open or is closed later.\<close>

definition settles :: "'j command_world \<Rightarrow> nat \<Rightarrow> command_call \<Rightarrow> command_call list \<Rightarrow> bool" where
  "settles w i c later \<longleftrightarrow> (case c of
     OpenedProxy n p \<Rightarrow> (case open_proxy_lease n (bridge_start_at w n) p of
       Inl e \<Rightarrow> True | Inr lease \<Rightarrow> ClosedProxy n \<in> set later)
   | LeasedContext opts \<Rightarrow> (case lease_at w i of Inl e \<Rightarrow> True | Inr x \<Rightarrow> EndedLease x \<in> set later)
   | CreatedContext opts \<Rightarrow> (case persistent_at w i of Inl e \<Rightarrow> True | Inr x \<Rightarrow> ClosedContext x \<in> set later)
   | _ \<Rightarrow> True)"

primrec settled_from :: "'j command_world \<Rightarrow> nat \<Rightarrow> command_call list \<Rightarrow> bool" where
  "settled_from w k [] = True"
| "settled_from w k (c # cs) = (settles w k c cs \<and> settled_from w (Suc k) cs)"

definition leaves :: "'j command_world \<Rightarrow> 'a command_prog \<Rightarrow> bool" where
  "leaves w m \<longleftrightarrow> (\<forall>s. tick s = length (history s) \<longrightarrow> (\<exists>cs. history (snd (m s)) = history s @ cs
     \<and> tick (snd (m s)) = length (history (snd (m s))) \<and> settled_from w (length (history s)) cs))"

named_theorems leaves_intros \<open>compositional rules for what a program leaves behind\<close>

lemma settles_more: "settles w i c ds \<Longrightarrow> settles w i c (ds @ es)"
  by (auto simp: settles_def split: command_call.splits sum.splits)

lemma settled_append: "settled_from w k cs \<Longrightarrow> settled_from w (k + length cs) ds \<Longrightarrow> settled_from w k (cs @ ds)"
  by (induction cs arbitrary: k) (auto intro: settles_more)

lemma leavesE:
  fixes s :: command_state
  assumes "leaves w m" "tick s = length (history s)" "m s = (r, t)"
  obtains cs where "history t = history s @ cs" "tick t = length (history t)" "settled_from w (length (history s)) cs"
  using assms unfolding leaves_def by (metis snd_conv)

lemma leaves_then:
  fixes s :: command_state
  assumes m: "leaves w m" and s: "tick s = length (history s)" "m s = (r, t)"
    and f: "\<And>u cs. history t = u \<Longrightarrow> tick t = length u \<Longrightarrow> \<exists>ds. h = u @ ds \<and> n = length h \<and> settled_from w (length u) ds"
  shows "\<exists>cs. h = history s @ cs \<and> n = length h \<and> settled_from w (length (history s)) cs"
proof -
  from m s obtain cs where cs: "history t = history s @ cs" "tick t = length (history t)" "settled_from w (length (history s)) cs"
    by (rule leavesE)
  from f [OF cs(1)] cs(1,2) obtain ds where "h = history s @ cs @ ds" "n = length h" "settled_from w (length (history s) + length cs) ds"
    by auto
  then show ?thesis using settled_append [OF cs(3)] by (intro exI [of _ "cs @ ds"]) simp
qed

lemma leaves_ret [leaves_intros]: "leaves w (ret x)" by (simp add: leaves_def)
lemma leaves_raise [leaves_intros]: "leaves w (raise_exn e)" by (simp add: leaves_def)
lemma leaves_outcome [leaves_intros]: "leaves w (outcome r)" by (simp add: leaves_def outcome_def)
lemma leaves_on_registry [leaves_intros]: "leaves w (on_registry m)"
  by (simp add: leaves_def on_registry_def split: prod.split)
lemma leaves_modify [leaves_intros]: "(\<And>s. history (f s) = history s \<and> tick (f s) = tick s) \<Longrightarrow> leaves w (modify f)"
  by (simp add: leaves_def)

lemma leaves_perform [leaves_intros]: "(\<And>i ds. settles w i c ds) \<Longrightarrow> leaves w (perform c f)"
  by (simp add: leaves_def perform_def)
lemma leaves_await [leaves_intros]: "(\<And>i ds. settles w i c ds) \<Longrightarrow> leaves w (await w' c f)"
  by (simp add: leaves_def await_def)

lemma leaves_seq [leaves_intros]: "leaves w m \<Longrightarrow> (\<And>x. leaves w (f x)) \<Longrightarrow> leaves w (seq m f)"
  unfolding leaves_def [of w "seq m f"]
proof (intro allI impI)
  fix s :: command_state assume m: "leaves w m" and f: "\<And>x. leaves w (f x)" and s: "tick s = length (history s)"
  obtain r t where run: "m s = (r, t)" by fastforce
  show "\<exists>cs. history (snd (seq m f s)) = history s @ cs \<and> tick (snd (seq m f s)) = length (history (snd (seq m f s)))
      \<and> settled_from w (length (history s)) cs"
    by (rule leaves_then [OF m s run], cases r) (use f run in \<open>auto simp: seq_apply leaves_def\<close>)
qed

lemma leaves_skip_then [leaves_intros]: "leaves w m \<Longrightarrow> leaves w n \<Longrightarrow> leaves w (skip_then m n)"
  unfolding skip_then_def by (rule leaves_seq)

lemma leaves_same_end:
  assumes "leaves w m" "\<And>s. history (snd (m' s)) = history (snd (m s)) \<and> tick (snd (m' s)) = tick (snd (m s))"
  shows "leaves w m'"
  using assms unfolding leaves_def by simp

lemma leaves_attempt [leaves_intros]: "leaves w m \<Longrightarrow> leaves w (attempt m)"
  by (erule leaves_same_end) (simp add: attempt_def split: prod.split)

lemma leaves_with_state [leaves_intros]: "(\<And>s. leaves w (f s)) \<Longrightarrow> leaves w (with_state f)"
  by (simp add: leaves_def)

lemma leaves_try_except [leaves_intros]:
  assumes "leaves w m" "\<And>e. leaves w (h e)"
  shows "leaves w (try_except m h)"
proof (rule leaves_same_end)
  show "leaves w (seq (attempt m) (\<lambda>r. case r of Inl e \<Rightarrow> h e | Inr x \<Rightarrow> ret x))"
    by (rule leaves_seq [OF leaves_attempt [OF assms(1)]]) (auto intro: leaves_intros assms(2) split: sum.split)
  show "history (snd (try_except m h s)) = history (snd (seq (attempt m) (\<lambda>r. case r of Inl e \<Rightarrow> h e | Inr x \<Rightarrow> ret x) s))
    \<and> tick (snd (try_except m h s)) = tick (snd (seq (attempt m) (\<lambda>r. case r of Inl e \<Rightarrow> h e | Inr x \<Rightarrow> ret x) s))" for s
    by (simp add: try_except_def seq_apply attempt_def split: prod.split sum.split)
qed

lemma leaves_try_finally [leaves_intros]:
  assumes "leaves w m" "leaves w f"
  shows "leaves w (try_finally m f)"
proof (rule leaves_same_end)
  show "leaves w (seq (attempt m) (\<lambda>_. f))" by (intro leaves_intros assms)
  show "history (snd (try_finally m f s)) = history (snd (seq (attempt m) (\<lambda>_. f) s))
    \<and> tick (snd (try_finally m f s)) = tick (snd (seq (attempt m) (\<lambda>_. f) s))" for s
    by (simp add: try_finally_def seq_apply attempt_def split: prod.split sum.split)
qed

lemma leaves_only_Exception [leaves_intros]: "leaves w m \<Longrightarrow> (\<And>e. leaves w (h e)) \<Longrightarrow> leaves w (only_Exception m h)"
  unfolding only_Exception_def by (intro leaves_intros; simp add: leaves_intros)

lemma leaves_case_option [leaves_intros]:
  "leaves w m \<Longrightarrow> (\<And>x. leaves w (f x)) \<Longrightarrow> leaves w (case y of None \<Rightarrow> m | Some x \<Rightarrow> f x)"
  by (simp split: option.split)

lemma leaves_case_sum [leaves_intros]:
  "(\<And>x. leaves w (f x)) \<Longrightarrow> (\<And>x. leaves w (g x)) \<Longrightarrow> leaves w (case y of Inl x \<Rightarrow> f x | Inr x \<Rightarrow> g x)"
  by (simp split: sum.split)

lemma leaves_case_prod [leaves_intros]: "(\<And>x z. leaves w (f x z)) \<Longrightarrow> leaves w (case y of (x, z) \<Rightarrow> f x z)"
  by (simp split: prod.split)

lemma leaves_if [leaves_intros]: "leaves w m \<Longrightarrow> leaves w n \<Longrightarrow> leaves w (if b then m else n)"
  by simp

lemma leaves_gather [leaves_intros]: "(\<And>m. m \<in> set ms \<Longrightarrow> leaves w m) \<Longrightarrow> leaves w (gather ms)"
  by (induction ms) (auto intro!: leaves_intros)

lemma leaves_solve [leaves_intros]: "leaves w (solve_on_page v r page timer fallback first)"
  by (simp add: leaves_def solve_on_page_def Let_def settles_def split: prod.split)

lemma leaves_close_request_pages [leaves_intros]: "leaves w (close_request_pages w' context p existing)"
  unfolding close_request_pages_def context_page_ids_def close_page_def
  by (intro leaves_intros leaves_gather) (auto intro!: leaves_intros simp: settles_def)

lemma leaves_with_page: "(\<And>e. leaves w (failed e)) \<Longrightarrow> (\<And>p. leaves w (use p)) \<Longrightarrow> leaves w (with_page w' context failed use)"
  unfolding with_page_def context_page_ids_def by (intro leaves_intros; simp add: settles_def)

lemma leaves_close_proxy [leaves_intros]: "leaves w (close_proxy_best_effort w' lease)"
  unfolding close_proxy_best_effort_def by (intro leaves_intros; simp add: settles_def)

text \<open>Something opened is settled by what follows when that leaves nothing and always closes it.\<close>

definition closes :: "command_call \<Rightarrow> 'a command_prog \<Rightarrow> bool" where
  "closes c m \<longleftrightarrow> (\<forall>s ds. tick s = length (history s) \<longrightarrow> history (snd (m s)) = history s @ ds \<longrightarrow> c \<in> set ds)"

lemma leaves_opened:
  assumes f: "\<And>x. leaves w (f x)"
    and settled: "\<And>i x ds. g i = Inr x \<Longrightarrow> closes (closer i x) (f x) \<Longrightarrow> closer i x \<in> set ds \<Longrightarrow> settles w i (c i) ds"
    and failed: "\<And>i e ds. g i = Inl e \<Longrightarrow> settles w i (c i) ds"
    and closer: "\<And>i x. g i = Inr x \<Longrightarrow> closes (closer i x) (f x)"
  shows "leaves w (with_state (\<lambda>s. seq (await w' (c (tick s)) g) f))"
  unfolding leaves_def
proof (intro allI impI)
  fix s :: command_state assume s: "tick s = length (history s)"
  let ?c = "c (tick s)"
  obtain t where run: "await w' ?c g s = (g (tick s), t)" and t: "history t = history s @ [?c]" "tick t = Suc (tick s)"
    by (simp add: await_def)
  let ?run_end = "snd (with_state (\<lambda>s. seq (await w' (c (tick s)) g) f) s)"
  show "\<exists>cs. history ?run_end = history s @ cs \<and> tick ?run_end = length (history ?run_end) \<and> settled_from w (length (history s)) cs"
  proof (cases "g (tick s)")
    case (Inl e)
    then show ?thesis using run t s failed by (simp add: seq_apply)
  next
    case (Inr x)
    have e: "?run_end = snd (f x t)" using run Inr by (simp add: seq_apply)
    have timed: "tick t = length (history t)" using t s by simp
    then obtain ds where ds: "history ?run_end = history t @ ds" "tick ?run_end = length (history ?run_end)"
      "settled_from w (length (history t)) ds"
      using f [of x] unfolding leaves_def e by blast
    have "closer (tick s) x \<in> set ds" using closer [OF Inr] timed ds(1) unfolding closes_def e by blast
    then have "settles w (tick s) ?c ds" using settled [OF Inr closer [OF Inr]] by blast
    then show ?thesis using ds t s by (intro exI [of _ "?c # ds"]) simp
  qed
qed

lemma closes_await: "closes c (await w c f)"
  by (simp add: closes_def await_def)

lemma closes_only_Exception: "closes c (only_Exception (await w c f) (\<lambda>_. ret ()))"
  by (simp add: closes_def only_Exception_def try_except_def await_def split: sum.split)

lemma closes_after:
  assumes "leaves w m" "leaves w f" "closes c f" "\<And>s. snd (m' s) = snd (f (snd (m s)))"
  shows "closes c m'"
  unfolding closes_def
proof (intro allI impI)
  fix s :: command_state and ds assume s: "tick s = length (history s)" and ds: "history (snd (m' s)) = history s @ ds"
  obtain cs where cs: "history (snd (m s)) = history s @ cs" "tick (snd (m s)) = length (history (snd (m s)))"
    using assms(1) s unfolding leaves_def by blast
  obtain es where es: "history (snd (f (snd (m s)))) = history (snd (m s)) @ es"
    using assms(2) cs(2) unfolding leaves_def by blast
  then have "c \<in> set es" using assms(3) cs(2) unfolding closes_def by blast
  then show "c \<in> set ds" using ds es cs(1) assms(4) by auto
qed

lemma closes_try_finally: "leaves w m \<Longrightarrow> leaves w f \<Longrightarrow> closes c f \<Longrightarrow> closes c (try_finally m f)"
  by (rule closes_after [of w m f]) (auto simp: try_finally_def split: prod.split sum.split)

lemma closes_first:
  assumes "leaves w m" "leaves w n" "closes c m"
  shows "closes c (skip_then m n)"
  unfolding closes_def
proof (intro allI impI)
  fix s :: command_state and ds assume s: "tick s = length (history s)" and ds: "history (snd (skip_then m n s)) = history s @ ds"
  obtain r t where run: "m s = (r, t)" by fastforce
  then obtain cs where cs: "history t = history s @ cs" "tick t = length (history t)" "c \<in> set cs"
    using assms(1,3) s unfolding leaves_def closes_def by (metis snd_conv)
  show "c \<in> set ds"
  proof (cases r)
    case (Inl e) then show ?thesis using ds cs run by (simp add: skip_then_apply)
  next
    case (Inr x)
    obtain es where "history (snd (n t)) = history t @ es" using assms(2) cs(2) unfolding leaves_def by blast
    then show ?thesis using ds cs run Inr by (auto simp: skip_then_apply)
  qed
qed

lemma with_state_constant: "with_state (\<lambda>s. m) = m"
  by (rule ext) simp

lemma leaves_leased_solve: "leaves (c_world v) (leased_solve v r timer opts direct)"
proof -
  let ?w = "c_world v"
  let ?use = "\<lambda>context. with_page ?w context raise_exn (\<lambda>page.
           skip_then (modify (\<lambda>s. s\<lparr>solve_begun := True\<rparr>))
             (seq (solve_on_page v r page timer direct direct) (\<lambda>resp. modify (\<lambda>s. s\<lparr>answer := Some resp\<rparr>))))"
  let ?run_end = "\<lambda>context. await ?w (EndedLease context) (lease_exit_at ?w)"
  have using_page: "leaves ?w (?use x)" and fin: "leaves ?w (?run_end x)" for x
    by (intro leaves_with_page leaves_intros; simp add: settles_def)+
  have "leaves ?w (with_state (\<lambda>s. seq (await ?w (LeasedContext opts) (lease_at ?w)) (\<lambda>context. try_finally (?use context) (?run_end context))))"
    by (rule leaves_opened [where closer = "\<lambda>i. EndedLease" and c = "\<lambda>i. LeasedContext opts"])
      (auto simp: settles_def intro!: leaves_try_finally using_page fin closes_try_finally [OF using_page fin] closes_await)
  then show ?thesis by (simp add: leased_solve_def Let_def with_state_constant)
qed

lemma open_proxy_lease_number: "open_proxy_lease n start p = Inr lease \<Longrightarrow> lease_number lease = n"
  by (auto simp: open_proxy_lease_def split: if_splits simp: and_then_Inr)

lemma leaves_with_lease:
  assumes "\<And>lease. leaves w (f lease)" and "\<And>n lease. lease_number lease = n \<Longrightarrow> closes (ClosedProxy n) (f lease)"
  shows "leaves w (seq (open_lease w p) f)"
proof -
  have "leaves w (with_state (\<lambda>s. seq (await w (OpenedProxy (tick s) p) (\<lambda>n. open_proxy_lease n (bridge_start_at w n) p)) f))"
    by (rule leaves_opened [where closer = "\<lambda>i lease. ClosedProxy i" and c = "\<lambda>i. OpenedProxy i p"])
      (auto simp: settles_def assms(1) intro!: assms(2) dest: open_proxy_lease_number)
  moreover have "seq (open_lease w p) f
      = with_state (\<lambda>s. seq (await w (OpenedProxy (tick s) p) (\<lambda>n. open_proxy_lease n (bridge_start_at w n) p)) f)"
    by (rule ext) (simp add: open_lease_def seq_apply)
  ultimately show ?thesis by simp
qed

lemma closes_close_proxy: "lease_number lease = n \<Longrightarrow> closes (ClosedProxy n) (close_proxy_best_effort w lease)"
  by (simp add: close_proxy_best_effort_def closes_only_Exception)

lemma leaves_stateless: "leaves (c_world v) (stateless_request v r timer direct)"
proof -
  let ?w = "c_world v"
  define body where "body lease p = only_Exception
             (leased_solve v r timer (context_options_of (c_ext v) (browser_proxy lease) r) (direct \<and> p = None))
             (\<lambda>e. with_state (\<lambda>s.
                if answer s \<noteq> None then ret ()
                else if \<not> solve_begun s \<and> is_best_effort_browser_error e
                then raise_exn (page_creation_transport_error r) else raise_exn e))" for lease :: proxy_lease and p :: "proxy option"
  define final :: "v1_response command_prog" where
    "final = with_state (\<lambda>s. case answer s of Some resp \<Rightarrow> ret resp | None \<Rightarrow> raise_exn (OtherError ''AssertionError'' []))"
  have body: "leaves ?w (body lease p)" for lease p
    unfolding body_def by (intro leaves_only_Exception leaves_leased_solve leaves_with_state leaves_if leaves_ret leaves_raise)
  have final: "leaves ?w final"
    unfolding final_def by (intro leaves_with_state leaves_case_option leaves_ret leaves_raise)
  note bracket = leaves_try_finally [OF body leaves_close_proxy]
  have "leaves ?w (seq (open_lease ?w p) (\<lambda>lease. skip_then (try_finally (body lease p) (close_proxy_best_effort ?w lease)) final))" for p
    by (rule leaves_with_lease)
      (auto intro: leaves_skip_then bracket final closes_first [OF bracket final] closes_try_finally [OF body leaves_close_proxy] closes_close_proxy)
  then show ?thesis
    unfolding stateless_request_def Let_def body_def final_def by (rule leaves_seq [OF leaves_outcome])
qed

text \<open>C7.  A request without a session leaves nothing behind: each proxy lease it opened is closed and each browser
  context it leased is given back, whatever failed or was cancelled on the way.\<close>

theorem stateless_request_leaves_nothing:
  "settled_from (c_world v) 0 (history (snd (stateless_request v r timer direct (new_command m))))"
proof -
  have "tick (new_command m) = length (history (new_command m))" by (simp add: new_command_def)
  with leaves_stateless [of v r timer direct] show ?thesis
    unfolding leaves_def by (fastforce simp: new_command_def)
qed

section \<open>Building a session\<close>

lemma leaves_close_persistent [leaves_intros]: "leaves w (close_persistent_resources w' x lease)"
  unfolding close_persistent_resources_def by (intro leaves_intros; simp add: settles_def)

lemma leaves_wait_for_creation [leaves_intros]: "leaves w (wait_for_creation w' sid left)"
  unfolding wait_for_creation_def
  by (auto intro!: leaves_with_state leaves_intros simp: settles_def split: creation_wait.split)

lemma leaves_capacity_race [leaves_intros]: "leaves w (capacity_race w' sid timer e)"
  unfolding capacity_race_def Let_def remaining_at_def clock_def by (intro leaves_intros; simp add: settles_def)

text \<open>A build ends owned by the registry when it created the session.\<close>

definition owned :: "exn + nat \<times> bool \<Rightarrow> bool" where
  "owned res \<longleftrightarrow> (case res of Inr (x, created) \<Rightarrow> created | Inl e \<Rightarrow> False)"

text \<open>The registry holds a new session with this context and proxy, under the id asked for.\<close>

definition holds :: "session_manager \<Rightarrow> nat \<Rightarrow> string option \<Rightarrow> nat \<Rightarrow> proxy option \<Rightarrow> bool" where
  "holds m x sid context p \<longleftrightarrow> (let session = session_heap m x in
     get_session m (session_id session) = Some x \<and> session_context session = context \<and> session_proxy session = p
     \<and> (case sid of None \<Rightarrow> True | Some i \<Rightarrow> session_id session = i))"

lemma register_created:
  "register_or_get now i context p ttl m = (Inr (x, True), g) \<Longrightarrow> sid = None \<or> sid = Some i \<Longrightarrow> holds g x sid context p"
  by (auto simp: register_cases holds_def get_session_def new_session_of_def Let_def split: if_splits option.splits)

lemma close_persistent_history:
  "history (snd (close_persistent_resources w x lease s)) = history s @ [ClosedContext x, ClosedProxy (lease_number lease)]
   \<and> tick (snd (close_persistent_resources w x lease s)) = tick s + 2"
  by (simp add: close_persistent_resources_def try_finally_def await_def split: sum.split)

lemma register_built_history:
  fixes s :: command_state
  assumes "tick s = length (history s)" "register_built w sid x lease p ttl s = (res, t)"
  shows "\<exists>cs. history t = history s @ cs \<and> tick t = length (history t)
    \<and> (owned res \<and> (\<exists>y. res = Inr (y, True) \<and> holds (registry t) y sid x p)
       \<or> settled_from w (length (history s)) cs \<and> ClosedContext x \<in> set cs \<and> ClosedProxy (lease_number lease) \<in> set cs)"
proof -
  obtain i s1 where uuid: "(case sid of Some i \<Rightarrow> ret i | None \<Rightarrow> perform UuidMade (\<lambda>n. Inr (uuid_at w n))) s = (Inr i, s1)"
    and sid: "sid = None \<or> sid = Some i" and s1: "\<exists>us. history s1 = history s @ us \<and> tick s1 = length (history s1) \<and> set us \<subseteq> {UuidMade}"
    using assms(1) by (cases sid) (simp_all add: perform_def)
  obtain us1 where us1: "history s1 = history s @ us1" "tick s1 = length (history s1)" "set us1 \<subseteq> {UuidMade}"
    using s1 by blast
  define now where "now = now_at w (tick s1)"
  define s2 where "s2 = s1\<lparr>tick := Suc (tick s1), history := history s1 @ [ClockRead]\<rparr>"
  have clock: "clock w s1 = (Inr now, s2)" by (simp add: clock_def perform_def now_def s2_def)
  define us where "us = us1 @ [ClockRead]"
  have us: "history s2 = history s @ us" "tick s2 = length (history s2)" "set us \<subseteq> {UuidMade, ClockRead}"
    using us1 by (auto simp: us_def s2_def)
  obtain g r where reg: "register_or_get now i x p ttl (registry s2) = (r, g)" by fastforce
  let ?s3 = "s2\<lparr>registry := g\<rparr>"
  have run: "register_built w sid x lease p ttl s = seq (try_except (on_registry (register_or_get now i x p ttl))
            (\<lambda>e. skip_then (close_persistent_resources w x lease) (raise_exn e))) (\<lambda>(x', created).
     skip_then (if created then ret () else close_persistent_resources w x lease) (ret (x', created))) s2"
    by (simp add: register_built_def seq_apply uuid clock)
  have us_settled: "settled_from w k (us @ [ClosedContext x, ClosedProxy (lease_number lease)])" for k
    using us(3) by (induction us arbitrary: k) (auto simp: settles_def)
  have closed: "history u = history s @ us @ [ClosedContext x, ClosedProxy (lease_number lease)] \<and> tick u = length (history u)"
    if "snd (close_persistent_resources w x lease ?s3) = u" for u
    using that close_persistent_history [of w x lease ?s3] us by auto
  show ?thesis
  proof (cases "owned res")
    case True
    then have "\<exists>y. r = Inr (y, True) \<and> res = r \<and> t = ?s3" using assms(2) run reg
      by (auto simp: owned_def try_except_def seq_apply skip_then_apply on_registry_def split: sum.splits prod.splits if_splits)
    then show ?thesis using True us reg register_created [OF _ sid] by (intro exI [of _ us]) auto
  next
    case False
    have "t = snd (close_persistent_resources w x lease ?s3)"
      using assms(2) run reg False
      by (auto simp: owned_def try_except_def seq_apply skip_then_apply on_registry_def split: sum.splits prod.splits if_splits)
    with closed [of t] us_settled show ?thesis
      by (intro exI [of _ "us @ [ClosedContext x, ClosedProxy (lease_number lease)]"]) simp
  qed
qed

lemma creating_exit_Inr: "fst (creating_exit i p m) = Inr ()"
  by (simp add: creating_exit_def skip_then_apply)

lemma creating_enter_Inr: "\<exists>p g. creating_enter i m = (Inr p, g)"
  by (simp add: creating_enter_def skip_then_apply Let_def)

lemma build_context_run:
  "fst (build_context w sid opts s) = persistent_at w (tick s)
   \<and> history (snd (build_context w sid opts s)) = history s @ [CreatedContext opts]
   \<and> tick (snd (build_context w sid opts s)) = Suc (tick s)"
proof (cases sid)
  case (Some i)
  obtain p g where enter: "creating_enter i (registry s) = (Inr p, g)" using creating_enter_Inr by blast
  have out: "\<exists>g'. creating_exit i p m = (Inr (), g')" for m
    using creating_exit_Inr [of i p m] by (metis prod.collapse)
  from out [of "meanwhile w (tick s) g"] obtain g' where "creating_exit i p (meanwhile w (tick s) g) = (Inr (), g')" by blast
  then show ?thesis
    by (simp add: build_context_def Some seq_apply on_registry_def enter try_finally_def await_def)
qed (simp add: build_context_def await_def)

lemma create_session_history:
  assumes "create_session v r sid p ttl timer (new_command m) = (res, t)"
  shows "(\<exists>y c. res = Inr (y, True) \<and> holds (registry t) y sid c p \<and> persistent_at (c_world v) 1 = Inr c)
     \<or> settled_from (c_world v) 0 (history t)"
proof -
  let ?w = "c_world v"
  define s0 where "s0 = snd ((case sid of None \<Rightarrow> ret () | Some i \<Rightarrow> on_registry (raise_if_closing i)) (new_command m))"
  have s0: "history s0 = []" "tick s0 = 0"
    by (auto simp: s0_def new_command_def on_registry_def split: option.split prod.split)
  obtain r0 where r0: "(case sid of None \<Rightarrow> ret () | Some i \<Rightarrow> on_registry (raise_if_closing i)) (new_command m) = (r0, s0)"
    unfolding s0_def by (metis prod.collapse)
  define rest where "rest lease = seq (attempt (build_context ?w sid (context_options_of (c_ext v) (browser_proxy lease) r)))
     (\<lambda>built. case built of
        Inl e \<Rightarrow> skip_then (close_proxy_best_effort ?w lease)
            (if is_capacity_error e then seq (capacity_race ?w sid timer e) (\<lambda>x. ret (x, False)) else raise_exn e)
      | Inr c \<Rightarrow> register_built ?w sid c lease p ttl)" for lease
  have run: "skip_then (case sid of None \<Rightarrow> ret () | Some i \<Rightarrow> on_registry (raise_if_closing i))
      (seq (open_lease ?w p) rest) (new_command m) = (res, t)"
    using assms unfolding create_session_def Let_def rest_def [abs_def] .
  show ?thesis
  proof (cases r0)
    case (Inl e)
    then show ?thesis using run r0 s0 by (simp add: skip_then_apply)
  next
    case (Inr u)
    then have main: "seq (open_lease ?w p) rest s0 = (res, t)" using run r0 by (simp add: skip_then_apply)
    define s1 where "s1 = s0\<lparr>tick := 1, history := [OpenedProxy 0 p], registry := meanwhile ?w 0 (registry s0)\<rparr>"
    have lease: "open_lease ?w p s0 = (open_proxy_lease 0 (bridge_start_at ?w 0) p, s1)"
      using s0 by (simp add: open_lease_def await_def s1_def)
    show ?thesis
    proof (cases "open_proxy_lease 0 (bridge_start_at ?w 0) p")
      case (Inl e)
      then have "t = s1" using main lease by (simp add: seq_apply)
      then show ?thesis using Inl by (simp add: s1_def settles_def)
    next
      case (Inr lease)
      then have n: "lease_number lease = 0" and rest: "rest lease s1 = (res, t)"
        using main \<open>open_lease ?w p s0 = _\<close> open_proxy_lease_number by (auto simp: seq_apply)
      let ?opts = "context_options_of (c_ext v) (browser_proxy lease) r"
      define s2 where "s2 = snd (build_context ?w sid ?opts s1)"
      have built: "build_context ?w sid ?opts s1 = (persistent_at ?w 1, s2)" and s2: "history s2 = [OpenedProxy 0 p, CreatedContext ?opts]" "tick s2 = 2"
        using build_context_run [of ?w sid ?opts s1] by (auto simp: s2_def s1_def prod_eq_iff)
      have timed: "tick s2 = length (history s2)" using s2 by simp
      show ?thesis
      proof (cases "persistent_at ?w 1")
        case (Inl e)
        let ?fail = "skip_then (close_proxy_best_effort ?w lease)
            (if is_capacity_error e then seq (capacity_race ?w sid timer e) (\<lambda>x. ret (x, False)) else raise_exn e)"
        have cont: "leaves ?w (if is_capacity_error e then seq (capacity_race ?w sid timer e) (\<lambda>x. ret (x, False)) else raise_exn e)"
          by (intro leaves_intros)
        have "?fail s2 = (res, t)" using rest built Inl by (simp add: rest_def seq_apply attempt_def)
        moreover have "leaves ?w ?fail" by (intro leaves_skip_then leaves_close_proxy cont)
        moreover have "closes (ClosedProxy 0) ?fail" by (rule closes_first [OF leaves_close_proxy cont closes_close_proxy [OF n]])
        ultimately obtain cs where "history t = history s2 @ cs" "settled_from ?w (length (history s2)) cs" "ClosedProxy 0 \<in> set cs"
          using timed unfolding leaves_def closes_def by (metis snd_conv)
        then show ?thesis using s2 Inl by (simp add: settles_def numeral_2_eq_2 split: sum.split)
      next
        case (Inr c)
        then have "register_built ?w sid c lease p ttl s2 = (res, t)" using rest built by (simp add: rest_def seq_apply attempt_def)
        from register_built_history [OF timed this] Inr n s2 show ?thesis
          by (cases "open_proxy_lease 0 (bridge_start_at ?w 0) p") (auto simp: settles_def numeral_2_eq_2)
      qed
    qed
  qed
qed

text \<open>C8.  Building a session leaves nothing unowned: either the session is registered under its id with the context
  that was built and the proxy that was resolved, or the context is closed and the proxy lease with it, be it that a
  concurrent builder won, the registry refused, or a step failed or was cancelled.\<close>

theorem session_build_leaves_nothing:
  "let (res, t) = create_session v r sid p ttl timer (new_command m) in
     settled_from (c_world v) 0 (history t)
     \<or> (case res of
          Inr (x, created) \<Rightarrow> created \<and> get_session (registry t) (session_id (session_heap (registry t) x)) = Some x
            \<and> session_proxy (session_heap (registry t) x) = p
            \<and> persistent_at (c_world v) 1 = Inr (session_context (session_heap (registry t) x))
        | Inl e \<Rightarrow> False)"
proof -
  obtain res t where run: "create_session v r sid p ttl timer (new_command m) = (res, t)" by fastforce
  from create_session_history [OF run] show ?thesis by (auto simp: run holds_def Let_def)
qed

end
