(* ===== verification/Session_Refinement.thy ===== *)
theory Session_Refinement
  imports Session_Properties
begin

text \<open>
  The session registry against its abstract specification: a table of live ids, each with its context and proxy, and
  the ids whose cleanup still runs.  The dictionaries, the heap of session objects and the cleanup tasks implement it.
\<close>

section \<open>The table\<close>

record session_table =
  room :: nat
  live :: "string \<Rightarrow> (nat \<times> (string \<times> string) list option) option"
  leaving :: "string set"
  shut :: bool

definition table_add :: "string \<Rightarrow> nat \<times> (string \<times> string) list option \<Rightarrow> session_table \<Rightarrow> session_table" where
  "table_add sid entry T =
     (if shut T \<or> sid \<in> dom (live T) \<or> sid \<in> leaving T \<or> card (dom (live T)) + card (leaving T) \<ge> room T then T
      else T\<lparr>live := (live T)(sid \<mapsto> entry)\<rparr>)"

definition table_drop :: "string set \<Rightarrow> session_table \<Rightarrow> session_table" where
  "table_drop A T = T\<lparr>live := live T |` (- A), leaving := leaving T \<union> (A \<inter> dom (live T))\<rparr>"

definition table_forget :: "string set \<Rightarrow> session_table \<Rightarrow> session_table" where
  "table_forget A T = T\<lparr>leaving := leaving T - A\<rparr>"

definition table_shut :: "session_table \<Rightarrow> session_table" where
  "table_shut T = (table_drop UNIV T)\<lparr>shut := True\<rparr>"

text \<open>What a registry stands for.\<close>

definition table_of :: "session_manager \<Rightarrow> session_table" where
  "table_of m = \<lparr>room = max_sessions m,
     live = (\<lambda>sid. map_option (\<lambda>s. (session_context (session_heap m s), session_proxy (session_heap m s)))
       (dict_get (sessions m) sid)),
     leaving = fst ` set (closing m), shut = manager_closed m\<rparr>"

section \<open>Dictionaries\<close>

lemma dict_has_set_iff: "dict_has k d \<longleftrightarrow> k \<in> fst ` set d"
  by (simp add: dict_has_def)

lemma dom_live: "dom (live (table_of m)) = fst ` set (sessions m)"
proof (rule set_eqI)
  fix k
  have "k \<in> dom (live (table_of m)) \<longleftrightarrow> dict_has k (sessions m)"
    unfolding dict_has_get by (simp add: table_of_def dom_def)
  then show "k \<in> dom (live (table_of m)) \<longleftrightarrow> k \<in> fst ` set (sessions m)" by (simp add: dict_has_def)
qed

lemma card_keys: "distinct (map fst d) \<Longrightarrow> card (fst ` set d) = length d"
  by (metis distinct_card length_map set_map)

lemma table_cards:
  assumes "registry_ok m"
  shows "card (dom (live (table_of m))) = length (sessions m)" "card (leaving (table_of m)) = length (closing m)"
proof -
  have "distinct (map fst (sessions m))" "distinct (map fst (closing m))"
    using assms by (simp_all add: registry_inv_def)
  then show "card (dom (live (table_of m))) = length (sessions m)" "card (leaving (table_of m)) = length (closing m)"
    by (simp_all add: dom_live card_keys) (simp add: table_of_def card_keys)
qed

text \<open>Operations that touch neither the dictionaries nor what a session is made of.\<close>

definition table_view :: "session_manager \<Rightarrow> nat \<times> (nat \<Rightarrow> nat \<times> (string \<times> string) list option) \<times> (string \<times> nat) list
    \<times> (string \<times> closing_session) list \<times> bool" where
  "table_view m = (max_sessions m, (\<lambda>s. (session_context (session_heap m s), session_proxy (session_heap m s))),
     sessions m, closing m, manager_closed m)"

lemma table_of_view: "table_view m' = table_view m \<Longrightarrow> table_of m' = table_of m"
  by (auto simp: table_view_def table_of_def fun_eq_iff)

lemma table_view_same:
  assumes "\<And>x. session_context (f x) = session_context x \<and> session_proxy (f x) = session_proxy x"
  shows "table_of (snd (upd_session s f m)) = table_of m"
  by (rule table_of_view) (simp add: upd_session_def table_view_def assms fun_eq_iff)

lemma table_event [simp]: "table_of (m\<lparr>session_events := es\<rparr>) = table_of m"
  by (simp add: table_of_def)

section \<open>Each operation\<close>

lemma table_register:
  assumes "registry_ok m"
  shows "table_of (snd (register_or_get now sid ctx p ttl m)) = table_add sid (ctx, p) (table_of m)"
proof -
  note cards = table_cards [OF assms]
  have has: "sid \<in> dom (live (table_of m)) \<longleftrightarrow> dict_get (sessions m) sid \<noteq> None"
    by (auto simp: table_of_def dom_def)
  have leaving: "sid \<in> leaving (table_of m) \<longleftrightarrow> dict_has sid (closing m)"
    by (simp add: table_of_def dict_has_set_iff)
  have fresh: "s \<noteq> next_session m" if "dict_get (sessions m) k = Some s" for k s
    using assms that by (auto simp: registry_inv_def)
  have live: "live (table_of (m\<lparr>session_heap := (session_heap m)(next_session m := new_session_of now sid ctx p ttl m),
            next_session := Suc (next_session m), sessions := dict_set sid (next_session m) (sessions m),
            pending_heap := ph, session_events := es\<rparr>)) = (live (table_of m))(sid \<mapsto> (ctx, p))" for ph es
    using fresh by (auto simp: table_of_def new_session_of_def fun_eq_iff map_option_case split: option.split)
  show ?thesis
    unfolding register_cases table_add_def has leaving cards
    using live by (auto simp: table_of_def split: option.split)
qed

text \<open>A cleanup that starts only adds its tombstone.\<close>

definition other_parts :: "session_manager \<Rightarrow> (string \<times> nat) list \<times> (nat \<Rightarrow> session) \<times> nat \<times> bool" where
  "other_parts m = (sessions m, session_heap m, max_sessions m, manager_closed m)"

lemma start_closing_table:
  "other_parts (snd (start_closing s reason m)) = other_parts m
   \<and> fst ` set (closing (snd (start_closing s reason m)))
     = insert (session_id (session_heap m s)) (fst ` set (closing m))"
proof (cases "dict_get (closing m) (session_id (session_heap m s))")
  case None
  then show ?thesis by (simp add: start_closing_cases Let_def fst_dict_set other_parts_def)
next
  case (Some c)
  then have "session_id (session_heap m s) \<in> fst ` set (closing m)"
    using dict_get_Some_has by (auto simp: dict_has_def)
  then show ?thesis using Some by (simp add: start_closing_cases insert_absorb)
qed

lemma start_closing_all_table:
  "other_parts (snd (start_closing_all ss reason m)) = other_parts m
   \<and> fst ` set (closing (snd (start_closing_all ss reason m)))
     = (\<lambda>s. session_id (session_heap m s)) ` set ss \<union> fst ` set (closing m)"
proof (induction ss arbitrary: m)
  case (Cons s ss)
  obtain c m1 where c: "start_closing s reason m = (Inr c, m1)" using start_closing_Inr by blast
  obtain cs m2 where cs: "start_closing_all ss reason m1 = (Inr cs, m2)"
    using start_closing_all_Inr [of ss reason m1] by (metis prod.collapse)
  have 1: "other_parts m1 = other_parts m"
    "fst ` set (closing m1) = insert (session_id (session_heap m s)) (fst ` set (closing m))"
    using start_closing_table [of s reason m] c by simp_all
  have 2: "other_parts m2 = other_parts m1"
    "fst ` set (closing m2) = (\<lambda>s. session_id (session_heap m1 s)) ` set ss \<union> fst ` set (closing m1)"
    using Cons.IH [of m1] cs by simp_all
  have heap: "session_heap m1 = session_heap m" using 1(1) by (simp add: other_parts_def)
  show ?case using c cs 1 2 by (auto simp: seq_apply heap)
qed simp

lemma table_of_parts:
  "other_parts m' = other_parts m \<Longrightarrow>
   table_of m' = (table_of m)\<lparr>leaving := fst ` set (closing m')\<rparr>"
  by (simp add: other_parts_def table_of_def)

text \<open>Taking sessions out of the dictionary.\<close>

lemma dict_get_filter_out: "dict_get (filter (\<lambda>(k, _). k \<notin> A) d) k = (if k \<in> A then None else dict_get d k)"
  by (induction d) (auto split: if_splits)

lemma pop_each:
  "for_each pop_session ids m = (Inr (), m\<lparr>sessions := filter (\<lambda>(k, _). k \<notin> set ids) (sessions m)\<rparr>)"
proof (induction ids arbitrary: m)
  case (Cons sid ids)
  have "filter (\<lambda>(k, _). k \<notin> set ids) (dict_del sid (sessions m)) = filter (\<lambda>(k, _). k \<notin> set (sid # ids)) (sessions m)"
    by (auto simp: dict_del_def intro: filter_cong)
  then show ?case
    unfolding for_each.simps skip_then_Inr [of "pop_session sid", OF pop_session_eq]
    by (subst Cons.IH) simp
qed simp

lemma table_removed:
  assumes "other_parts m' = other_parts (m\<lparr>sessions := filter (\<lambda>(k, _). k \<notin> A) (sessions m)\<rparr>)"
    and "fst ` set (closing m') = (A \<inter> fst ` set (sessions m)) \<union> fst ` set (closing m)"
  shows "table_of m' = table_drop A (table_of m)"
  using assms by (auto simp: table_drop_def table_of_def other_parts_def dict_get_filter_out restrict_map_def fun_eq_iff
      dom_live [unfolded table_of_def, simplified])

lemma table_prune:
  assumes ok: "registry_ok m" and open_registry: "\<not> manager_closed m"
  shows "table_of (snd (prune_expired now exclude m)) = table_drop (set (expired_ids now exclude m)) (table_of m)"
proof -
  let ?ids = "expired_ids now exclude m"
  let ?ss = "map (session_at m) ?ids"
  let ?m = "m\<lparr>sessions := filter (\<lambda>(k, _). k \<notin> set ?ids) (sessions m)\<rparr>"
  obtain cs m2 where m2: "start_closing_all ?ss Expired ?m = (Inr cs, m2)"
    using start_closing_all_Inr [of ?ss Expired ?m] by (metis prod.collapse)
  have id: "session_id (session_heap m (session_at m sid)) = sid" if sid: "sid \<in> set ?ids" for sid
  proof -
    obtain s where "dict_get (sessions m) sid = Some s"
      using expired_ids_in [OF sid] by (auto simp: dict_has_get)
    with ok show ?thesis by (simp add: session_at_def registry_inv_def)
  qed
  have events: "\<exists>es. for_each (\<lambda>_. record_session_event SessionExpired) xs s = (Inr (), s\<lparr>session_events := es\<rparr>)"
    for xs :: "nat list" and s
  proof (induction xs arbitrary: s)
    case Nil
    have "s = s\<lparr>session_events := session_events s\<rparr>" by simp
    then show ?case by (auto intro!: exI [of _ "session_events s"])
  next
    case (Cons x xs)
    obtain es where "for_each (\<lambda>_. record_session_event SessionExpired) xs
        (s\<lparr>session_events := session_events s @ [SessionExpired]\<rparr>) = (Inr (), s\<lparr>session_events := es\<rparr>)"
      using Cons.IH [of "s\<lparr>session_events := session_events s @ [SessionExpired]\<rparr>"] by auto
    moreover have "record_session_event SessionExpired s = (Inr (), s\<lparr>session_events := session_events s @ [SessionExpired]\<rparr>)"
      by (simp add: record_session_event_def)
    ultimately show ?case
      unfolding for_each.simps by (auto simp only: skip_then_Inr)
  qed
  obtain es where es: "for_each (\<lambda>_. record_session_event SessionExpired) ?ss m2 = (Inr (), m2\<lparr>session_events := es\<rparr>)"
    using events by blast
  have "(\<lambda>s. session_id (session_heap m s)) ` set ?ss = set ?ids"
    using id by (auto simp: image_iff)
  moreover have "set ?ids \<subseteq> fst ` set (sessions m)"
    using expired_ids_in by (auto simp: dict_has_def)
  ultimately have "table_of m2 = table_drop (set ?ids) (table_of m)"
    using start_closing_all_table [of ?ss Expired ?m] m2 by (intro table_removed) (auto simp: Int_absorb2)
  moreover have "prune_expired now exclude m = (Inr (sort ?ids), m2\<lparr>session_events := es\<rparr>)"
    using m2 es open_registry
    by (simp add: prune_expired_def Let_def skip_then_apply [of "for_each pop_session _"] pop_each seq_apply
        skip_then_apply [of "for_each (\<lambda>_. record_session_event SessionExpired) _"])
  ultimately show ?thesis by simp
qed

text \<open>One session out and under its tombstone.\<close>

lemma table_remove_one:
  assumes "registry_ok m" and "dict_get (sessions m) sid = Some s"
  shows "table_of (snd (start_closing s reason (m\<lparr>sessions := dict_del sid (sessions m)\<rparr>)))
    = table_drop {sid} (table_of m)"
proof -
  have "session_id (session_heap m s) = sid" using assms by (simp add: registry_inv_def)
  moreover have "sid \<in> fst ` set (sessions m)"
    using dict_get_Some_has [OF assms(2)] by (simp add: dict_has_def)
  moreover have "dict_del sid (sessions m) = filter (\<lambda>(k, _). k \<notin> {sid}) (sessions m)"
    by (simp add: dict_del_def)
  ultimately show ?thesis
    using start_closing_table [of s reason "m\<lparr>sessions := dict_del sid (sessions m)\<rparr>"]
    by (intro table_removed) auto
qed

lemma table_drop_absent: "A \<inter> dom (live T) = {} \<Longrightarrow> table_drop A T = T"
proof -
  assume absent: "A \<inter> dom (live T) = {}"
  have "live T |` (- A) = live T"
  proof (rule ext)
    fix x
    show "(live T |` (- A)) x = live T x" using absent by (cases "live T x") (auto simp: restrict_map_def)
  qed
  with absent show ?thesis by (simp add: table_drop_def)
qed

lemma table_evict:
  assumes ok: "registry_ok m"
  shows "table_of (snd (evict_if_current x m))
    = (if get_session m (session_id (session_heap m x)) = Some x
       then table_drop {session_id (session_heap m x)} (table_of m) else table_of m)"
proof -
  let ?sid = "session_id (session_heap m x)"
  obtain c m1 where c: "start_closing x ErrorClose (m\<lparr>sessions := dict_del ?sid (sessions m)\<rparr>) = (Inr c, m1)"
    using start_closing_Inr by blast
  show ?thesis
    using table_remove_one [OF ok, of ?sid x ErrorClose] c
    by (auto simp: evict_if_current_def Let_def skip_then_apply seq_apply pop_session_eq record_session_event_def
        get_session_def)
qed

lemma table_destroy:
  assumes ok: "registry_ok m"
  shows "table_of (snd (destroy_begin (Some sid) m)) = (if sid = [] then table_of m else table_drop {sid} (table_of m))"
proof (cases "dict_get (sessions m) sid")
  case None
  then have "sid \<notin> dom (live (table_of m))" by (auto simp: table_of_def)
  then have "table_drop {sid} (table_of m) = table_of m" by (intro table_drop_absent) auto
  with None show ?thesis by (simp add: destroy_begin_def)
next
  case (Some s)
  obtain c m1 where c: "start_closing s Destroyed (m\<lparr>sessions := dict_del sid (sessions m)\<rparr>) = (Inr c, m1)"
    using start_closing_Inr by blast
  show ?thesis
    using table_remove_one [OF ok Some, of Destroyed] c Some
    by (simp add: destroy_begin_def skip_then_apply seq_apply pop_session_eq)
qed

lemma table_close:
  assumes ok: "registry_ok m"
  shows "table_of (snd (close_manager m)) = table_shut (table_of m)"
proof -
  let ?m = "m\<lparr>manager_closed := True, sessions := []\<rparr>" and ?ss = "map snd (sessions m)"
  obtain cs m2 where m2: "start_closing_all ?ss Destroyed ?m = (Inr cs, m2)"
    using start_closing_all_Inr [of ?ss Destroyed ?m] by (metis prod.collapse)
  have "session_id (session_heap m (snd e)) = fst e" if "e \<in> set (sessions m)" for e
    using ok that dict_get_distinct [of "sessions m" "fst e" "snd e"] by (simp add: registry_inv_def)
  then have ids: "(\<lambda>s. session_id (session_heap m s)) ` set ?ss = fst ` set (sessions m)"
    by (force simp: image_iff)
  have "close_manager m = (Inr (map snd (closing m) @ cs), m2)"
    using m2 by (simp add: close_manager_def skip_then_apply seq_apply)
  moreover have "table_of m2 = table_shut (table_of m)"
    using start_closing_all_table [of ?ss Destroyed ?m] m2 ids
    by (auto simp: table_shut_def table_drop_def table_of_def other_parts_def fun_eq_iff
        dom_live [unfolded table_of_def, simplified])
  ultimately show ?thesis by simp
qed

lemma table_closing_done:
  "table_of (snd (closing_done sid t e m))
   = (case dict_get (closing m) sid of
        Some c \<Rightarrow> if closing_task c = t then table_forget {sid} (table_of m) else table_of m
      | None \<Rightarrow> table_of m)"
proof -
  have "fst ` set (dict_del sid (closing m)) = fst ` set (closing m) - {sid}"
    by (auto simp: dict_del_def)
  then have "table_of (m\<lparr>closing := dict_del sid (closing m)\<rparr>) = table_forget {sid} (table_of m)"
    by (simp add: table_of_def table_forget_def)
  then show ?thesis
    by (auto simp: closing_done_def Let_def skip_then_apply seq_apply record_session_event_def split: option.split)
qed


section \<open>The registry refines its table\<close>

lemma table_unchanged:
  "table_of (snd (touch now s m)) = table_of m" "table_of (snd (mark_in_use s m)) = table_of m"
  "table_of (snd (mark_released s m)) = table_of m" "table_of (snd (creating_enter sid m)) = table_of m"
  "table_of (snd (creating_exit sid p m)) = table_of m"
proof -
  show "table_of (snd (touch now s m)) = table_of m"
    by (rule table_of_view) (auto simp: touch_def table_view_def)
  show "table_of (snd (mark_in_use s m)) = table_of m"
    by (simp add: mark_in_use_def table_view_same)
  show "table_of (snd (mark_released s m)) = table_of m"
    by (simp add: mark_released_def table_view_same)
  show "table_of (snd (creating_enter sid m)) = table_of m"
    by (rule table_of_view) (simp add: creating_enter_def Let_def skip_then_apply table_view_def)
  show "table_of (snd (creating_exit sid p m)) = table_of m"
    by (rule table_of_view) (simp add: creating_exit_def Let_def skip_then_apply table_view_def)
qed

lemma table_lock: "table_of (snd (upd_session s (\<lambda>x. x\<lparr>lock_held := b\<rparr>) m)) = table_of m"
  by (rule table_view_same) simp

lemma table_list: "registry_ok m \<Longrightarrow> sorted (list_ids m) \<and> distinct (list_ids m) \<and> set (list_ids m) = dom (live (table_of m))"
  by (simp add: list_ids_def registry_inv_def dom_live)

lemma table_prune_any:
  assumes "registry_ok m"
  shows "table_of (snd (prune_expired now exclude m)) = table_drop (set (expired_ids now exclude m)) (table_of m)"
proof (cases "manager_closed m")
  case True
  then have "sessions m = []" using assms by (simp add: registry_inv_def)
  then have "expired_ids now exclude m = []" by (simp add: expired_ids_def)
  then show ?thesis using True by (simp add: prune_expired_def table_drop_absent)
qed (rule table_prune [OF assms])

lemma table_answer:
  assumes "registry_ok m"
  shows "(\<exists>x. fst (register_or_get now sid ctx p ttl m) = Inr (x, True)) \<longleftrightarrow> table_add sid (ctx, p) (table_of m) \<noteq> table_of m"
proof -
  note cards = table_cards [OF assms]
  have has: "sid \<in> dom (live (table_of m)) \<longleftrightarrow> dict_get (sessions m) sid \<noteq> None"
    by (auto simp: table_of_def dom_def)
  have leaving: "sid \<in> leaving (table_of m) \<longleftrightarrow> dict_has sid (closing m)"
    by (simp add: table_of_def dict_has_set_iff)
  have new: "T\<lparr>live := (live T)(sid \<mapsto> e)\<rparr> \<noteq> T" if "sid \<notin> dom (live T)" for T e
  proof
    assume "T\<lparr>live := (live T)(sid \<mapsto> e)\<rparr> = T"
    then have "live T sid = Some e" by (metis fun_upd_same session_table.select_convs(2) session_table.surjective session_table.update_convs(2))
    with that show False by auto
  qed
  show ?thesis
    unfolding register_cases table_add_def leaving cards
    using new [of "table_of m" "(ctx, p)"] has by (auto simp: table_of_def split: option.split)
qed

text \<open>C15.  In every reachable state the registry implements its table of live ids and ids whose cleanup runs:
  registering adds the id with its context and proxy unless the registry is shut, the id is taken, or the table is full,
  and answers that the session is new just when it did; pruning, evicting and destroying move exactly their ids from
  live to leaving; closing moves every id and shuts the table; the end of a cleanup forgets its id; use counts, locks,
  time stamps and the accounting of builders do not show; the ids are listed sorted, each once.\<close>

theorem registry_refines_table:
  assumes "session_reach m"
  shows "table_of (snd (register_or_get now sid ctx p ttl m)) = table_add sid (ctx, p) (table_of m)
    \<and> (\<exists>x. fst (register_or_get now sid ctx p ttl m) = Inr (x, True)) = (table_add sid (ctx, p) (table_of m) \<noteq> table_of m)
    \<and> table_of (snd (prune_expired now exclude m)) = table_drop (set (expired_ids now exclude m)) (table_of m)
    \<and> table_of (snd (evict_if_current x m))
      = (if get_session m (session_id (session_heap m x)) = Some x
         then table_drop {session_id (session_heap m x)} (table_of m) else table_of m)
    \<and> table_of (snd (destroy_begin (Some sid) m)) = (if sid = [] then table_of m else table_drop {sid} (table_of m))
    \<and> table_of (snd (close_manager m)) = table_shut (table_of m)
    \<and> table_of (snd (closing_done sid t e m))
      = (if map_option closing_task (dict_get (closing m) sid) = Some t then table_forget {sid} (table_of m)
         else table_of m)
    \<and> table_of (snd (touch now x m)) = table_of m \<and> table_of (snd (mark_in_use x m)) = table_of m
    \<and> table_of (snd (mark_released x m)) = table_of m \<and> table_of (snd (upd_session x (\<lambda>s. s\<lparr>lock_held := b\<rparr>) m)) = table_of m
    \<and> table_of (snd (creating_enter sid m)) = table_of m \<and> table_of (snd (creating_exit sid pending m)) = table_of m
    \<and> list_ids m = sorted_list_of_set (dom (live (table_of m)))"
proof -
  have ok: "registry_ok m" by (rule session_machine.inv_reach [OF assms])
  have "table_of (snd (closing_done sid t e m))
      = (if map_option closing_task (dict_get (closing m) sid) = Some t then table_forget {sid} (table_of m)
         else table_of m)"
    by (simp add: table_closing_done split: option.split)
  moreover have "list_ids m = sorted_list_of_set (dom (live (table_of m)))"
    using table_list [OF ok] sorted_list_of_set.idem_if_sorted_distinct [of "list_ids m"] by simp
  ultimately show ?thesis
    by (simp add: table_register [OF ok] table_answer [OF ok] table_prune_any [OF ok] table_evict [OF ok]
        table_destroy [OF ok] table_close [OF ok] table_unchanged table_lock)
qed

lemma registry_refines_table_witness:
  "live (table_of (snd (destroy_begin (Some ''a'') demo_two))) ''a'' = None
   \<and> ''a'' \<in> leaving (table_of (snd (destroy_begin (Some ''a'') demo_two)))
   \<and> live (table_of (snd (destroy_begin (Some ''a'') demo_two))) ''b'' = live (table_of demo_two) ''b''"
proof -
  have "table_of (snd (destroy_begin (Some ''a'') demo_two)) = table_drop {''a''} (table_of demo_two)"
    using registry_refines_table [OF demo_sessions_reach(2), where sid = "''a''"] by simp
  moreover have "''a'' \<in> dom (live (table_of demo_two))"
    using demo_sessions_facts(2) by (simp add: table_of_def get_session_def dom_def)
  ultimately show ?thesis by (simp add: table_drop_def)
qed

end
