(* ===== verification/Cleanup.thy ===== *)
theory Cleanup
  imports Sessions
begin

text \<open>
  The supervisor of background cleanups (\<open>camouflare/cleanup.py\<close>): who owns a cleanup task, until when it may
  run, and the groups whose waiters must not pass while a task or a hand-off of the group is alive.  Each
  operation is one section without an await; tasks, groups, events and holds are numbered.  What asyncio knows
  of a task is \<open>task_status\<close>; a call of \<open>cancel\<close>, a recorded outcome and a published snapshot are events.
\<close>

section \<open>State\<close>

record cleanup_scope =
  scope_deadline :: time
  scope_group :: nat
  scope_groups :: "nat list"

definition ownership_groups :: "cleanup_scope \<Rightarrow> nat list" where
  "ownership_groups sc = (if scope_groups sc = [] then [scope_group sc] else scope_groups sc)"

record tracked_cleanup =
  cleanup_kind :: string
  cleanup_started :: time
  cleanup_deadline :: time
  cleanup_group :: nat
  cleanup_groups :: "nat list"

record scope_hold =
  hold_groups :: "nat list"
  hold_released :: bool

datatype cleanup_event =
    CleanupRecorded nat string string time
  | CleanupsInFlight "(string \<times> nat) list"
  | CancelAsked nat

record supervisor =
  default_timeout :: time
  tracked :: "(nat \<times> tracked_cleanup) list"
  deadline_handles :: "(nat \<times> time) list"
  timed_out :: "nat list"
  run_waiters :: "nat \<Rightarrow> nat option"
  group_tasks :: "nat \<Rightarrow> nat list option"
  group_holds :: "nat \<Rightarrow> nat option"
  group_events :: "nat \<Rightarrow> nat option"
  event_set :: "nat \<Rightarrow> bool"
  next_event :: nat
  next_group :: nat
  holds_heap :: "nat \<Rightarrow> scope_hold"
  next_hold :: nat
  shutdown_deadline :: "time option"
  task_status :: "nat \<Rightarrow> task_end option"
  cleanup_events :: "cleanup_event list"

type_synonym 'a cleanup_prog = "(supervisor, 'a, exn) prog"

definition CLEANUP_KINDS :: "string list" where
  "CLEANUP_KINDS = [''request'', ''readiness'', ''page'', ''context'', ''browser'', ''proxy'', ''captcha'', ''session'']"

definition canonical_kind :: "string \<Rightarrow> string" where
  "canonical_kind kind = (if kind \<in> set CLEANUP_KINDS then kind else ''other'')"

definition cleanup_note :: "cleanup_event \<Rightarrow> supervisor \<Rightarrow> supervisor" where
  "cleanup_note e m = m\<lparr>cleanup_events := cleanup_events m @ [e]\<rparr>"

section \<open>Snapshots\<close>

record cleanup_snapshot =
  in_flight :: nat
  oldest_age :: "time option"
  by_kind :: "(string \<times> nat) list"

fun count_kinds :: "tracked_cleanup list \<Rightarrow> (string \<times> nat) list \<Rightarrow> (string \<times> nat) list" where
  "count_kinds [] d = d"
| "count_kinds (x # xs) d = count_kinds xs (dict_set (cleanup_kind x)
     (Suc (case dict_get d (cleanup_kind x) of None \<Rightarrow> 0 | Some n \<Rightarrow> n)) d)"

fun oldest_start :: "tracked_cleanup list \<Rightarrow> time option \<Rightarrow> time option" where
  "oldest_start [] t = t"
| "oldest_start (x # xs) t = oldest_start xs (case t of None \<Rightarrow> Some (cleanup_started x)
     | Some u \<Rightarrow> if cleanup_started x < u then Some (cleanup_started x) else Some u)"

definition cleanup_snapshot_of :: "time \<Rightarrow> supervisor \<Rightarrow> cleanup_snapshot" where
  "cleanup_snapshot_of now m =
     \<lparr>in_flight = length (tracked m),
      oldest_age = map_option (\<lambda>t. max 0 (now - t)) (oldest_start (map snd (tracked m)) None),
      by_kind = sort_key fst (count_kinds (map snd (tracked m)) [])\<rparr>"

definition publish_cleanups :: "supervisor \<Rightarrow> supervisor" where
  "publish_cleanups m = cleanup_note (CleanupsInFlight (by_kind (cleanup_snapshot_of 0 m))) m"

definition new_supervisor :: "time \<Rightarrow> exn + supervisor" where
  "new_supervisor timeout =
     (if timeout \<le> 0 then Inl (ValueError ''cleanup timeout must be greater than zero'')
      else Inr (publish_cleanups
        \<lparr>default_timeout = timeout, tracked = [], deadline_handles = [], timed_out = [], run_waiters = (\<lambda>_. None),
         group_tasks = (\<lambda>_. None), group_holds = (\<lambda>_. None), group_events = (\<lambda>_. None), event_set = (\<lambda>_. False),
         next_event = 0, next_group = 0, holds_heap = (\<lambda>_. \<lparr>hold_groups = [], hold_released = True\<rparr>), next_hold = 0,
         shutdown_deadline = None, task_status = (\<lambda>_. None), cleanup_events = []\<rparr>))"

section \<open>Groups\<close>

definition members :: "supervisor \<Rightarrow> nat \<Rightarrow> nat list" where
  "members m g = (case group_tasks m g of None \<Rightarrow> [] | Some ts \<Rightarrow> ts)"

definition hold_count :: "supervisor \<Rightarrow> nat \<Rightarrow> nat" where
  "hold_count m g = (case group_holds m g of None \<Rightarrow> 0 | Some n \<Rightarrow> n)"

definition busy :: "supervisor \<Rightarrow> nat \<Rightarrow> bool" where
  "busy m g \<longleftrightarrow> members m g \<noteq> [] \<or> hold_count m g > 0"

text \<open>A group that gets work again must not be passed on an event that is still set.\<close>

definition renew_event :: "nat \<Rightarrow> supervisor \<Rightarrow> supervisor" where
  "renew_event g m = (case group_events m g of None \<Rightarrow> m
     | Some e \<Rightarrow> if event_set m e
         then m\<lparr>group_events := (group_events m)(g \<mapsto> next_event m), next_event := Suc (next_event m)\<rparr> else m)"

definition add_task_to_group :: "nat \<Rightarrow> nat \<Rightarrow> supervisor \<Rightarrow> supervisor" where
  "add_task_to_group t g m = (let n = renew_event g m in
     n\<lparr>group_tasks := (group_tasks n)(g \<mapsto> set_add t (members n g))\<rparr>)"

definition hold_group :: "nat \<Rightarrow> supervisor \<Rightarrow> supervisor" where
  "hold_group g m = (let n = renew_event g m in
     n\<lparr>group_holds := (group_holds n)(g \<mapsto> Suc (hold_count n g))\<rparr>)"

definition finish_group_if_idle :: "nat \<Rightarrow> supervisor \<Rightarrow> supervisor" where
  "finish_group_if_idle g m = (if busy m g then m
     else case group_events m g of None \<Rightarrow> m | Some e \<Rightarrow> m\<lparr>event_set := (event_set m)(e := True)\<rparr>)"

definition group_task_finished :: "nat \<Rightarrow> nat \<Rightarrow> supervisor \<Rightarrow> supervisor" where
  "group_task_finished t g m = (case group_tasks m g of None \<Rightarrow> m
     | Some ts \<Rightarrow> (let rest = set_discard t ts in
         if rest \<noteq> [] then m\<lparr>group_tasks := (group_tasks m)(g \<mapsto> rest)\<rparr>
         else finish_group_if_idle g (m\<lparr>group_tasks := (group_tasks m)(g := None)\<rparr>)))"

definition release_scope_hold :: "nat \<Rightarrow> unit cleanup_prog" where
  "release_scope_hold g = with_state (\<lambda>m. let n = hold_count m g in
     if n = 0 then raise_exn (RuntimeError ''Cleanup-scope hold accounting underflow'')
     else modify (\<lambda>m. finish_group_if_idle g
       (m\<lparr>group_holds := (group_holds m)(g := (if n = 1 then None else Some (n - 1)))\<rparr>)))"

definition current_scope :: "nat option \<Rightarrow> supervisor \<Rightarrow> cleanup_scope option" where
  "current_scope current m = (case current of None \<Rightarrow> None | Some c \<Rightarrow>
     map_option (\<lambda>x. \<lparr>scope_deadline = cleanup_deadline x, scope_group = cleanup_group x, scope_groups = cleanup_groups x\<rparr>)
       (dict_get (tracked m) c))"

definition retain_scope :: "cleanup_scope \<Rightarrow> nat cleanup_prog" where
  "retain_scope sc = with_state (\<lambda>m.
     skip_then (modify (\<lambda>m. (fold hold_group (ownership_groups sc) m)
         \<lparr>holds_heap := (holds_heap m)(next_hold m := \<lparr>hold_groups = ownership_groups sc, hold_released = False\<rparr>),
          next_hold := Suc (next_hold m)\<rparr>))
       (ret (next_hold m)))"

definition release_hold :: "nat \<Rightarrow> unit cleanup_prog" where
  "release_hold h = with_state (\<lambda>m.
     if hold_released (holds_heap m h) then ret ()
     else skip_then (modify (\<lambda>m. m\<lparr>holds_heap := (holds_heap m)(h := (holds_heap m h)\<lparr>hold_released := True\<rparr>)\<rparr>))
       (for_each release_scope_hold (hold_groups (holds_heap m h))))"

definition group_for :: "nat \<Rightarrow> nat cleanup_prog" where
  "group_for t = with_state (\<lambda>m. case dict_get (tracked m) t of
     None \<Rightarrow> raise_exn (RuntimeError ''Cleanup task is no longer tracked'') | Some x \<Rightarrow> ret (cleanup_group x))"

text \<open>\<open>wait_for_group\<close> up to its next await, the event it awaits if it does; and after that event.\<close>

definition wait_section :: "nat \<Rightarrow> nat option cleanup_prog" where
  "wait_section g = with_state (\<lambda>m.
     if \<not> busy m g then ret None
     else case group_events m g of
       Some e \<Rightarrow> ret (Some e)
     | None \<Rightarrow> skip_then (modify (\<lambda>m. m\<lparr>group_events := (group_events m)(g \<mapsto> next_event m), next_event := Suc (next_event m)\<rparr>))
         (ret (Some (next_event m))))"

definition wait_resume :: "nat \<Rightarrow> nat \<Rightarrow> nat option cleanup_prog" where
  "wait_resume g e =
     skip_then (modify (\<lambda>m. if group_events m g = Some e then m\<lparr>group_events := (group_events m)(g := None)\<rparr> else m))
       (wait_section g)"

section \<open>Deadlines\<close>

definition task_done :: "supervisor \<Rightarrow> nat \<Rightarrow> bool" where
  "task_done m t \<longleftrightarrow> task_status m t \<noteq> None"

definition shorten_deadline :: "time \<Rightarrow> nat \<Rightarrow> time \<Rightarrow> supervisor \<Rightarrow> supervisor" where
  "shorten_deadline now t deadline m = (case dict_get (tracked m) t of None \<Rightarrow> m
     | Some x \<Rightarrow> if cleanup_deadline x \<le> deadline then m
         else m\<lparr>tracked := dict_set t (x\<lparr>cleanup_deadline := deadline\<rparr>) (tracked m),
                deadline_handles := dict_set t (now + max 0 (deadline - now)) (dict_del t (deadline_handles m))\<rparr>)"

definition mark_timed_out :: "time \<Rightarrow> nat \<Rightarrow> supervisor \<Rightarrow> supervisor" where
  "mark_timed_out now t m = (case dict_get (tracked m) t of None \<Rightarrow> m
     | Some x \<Rightarrow> if task_done m t \<or> t \<in> set (timed_out m) then m
         else cleanup_note (CancelAsked t)
           (cleanup_note (CleanupRecorded t (cleanup_kind x) ''timeout'' (max 0 (now - cleanup_started x)))
             (m\<lparr>timed_out := set_add t (timed_out m)\<rparr>)))"

definition deadline_expired :: "time \<Rightarrow> nat \<Rightarrow> supervisor \<Rightarrow> supervisor" where
  "deadline_expired now t m = mark_timed_out now t (m\<lparr>deadline_handles := dict_del t (deadline_handles m)\<rparr>)"

section \<open>Tasks\<close>

text \<open>A task that is tracked already gets the earlier deadline and the groups of its new owner.\<close>

definition track_again :: "time \<Rightarrow> nat \<Rightarrow> tracked_cleanup \<Rightarrow> time \<Rightarrow> cleanup_scope option \<Rightarrow> supervisor \<Rightarrow> supervisor" where
  "track_again now t x deadline scope m =
     (let n = (if deadline < cleanup_deadline x then shorten_deadline now t deadline m else m);
          y = (if deadline < cleanup_deadline x then x\<lparr>cleanup_deadline := deadline\<rparr> else x) in
      case scope of None \<Rightarrow> n
      | Some sc \<Rightarrow> (let new = filter (\<lambda>g. g \<notin> set (cleanup_groups y)) (ownership_groups sc) in
          if new = [] then n
          else fold (add_task_to_group t) new
            (n\<lparr>tracked := dict_set t (y\<lparr>cleanup_groups := cleanup_groups y @ new\<rparr>) (tracked n)\<rparr>)))"

definition track_new :: "time \<Rightarrow> nat \<Rightarrow> string \<Rightarrow> time \<Rightarrow> cleanup_scope option \<Rightarrow> supervisor \<Rightarrow> supervisor" where
  "track_new now t kind deadline scope m =
     (let group = (case scope of Some sc \<Rightarrow> scope_group sc | None \<Rightarrow> next_group m);
          groups = (case scope of Some sc \<Rightarrow> ownership_groups sc | None \<Rightarrow> [next_group m]);
          x = \<lparr>cleanup_kind = canonical_kind kind, cleanup_started = now, cleanup_deadline = deadline,
               cleanup_group = group, cleanup_groups = groups\<rparr>;
          n = m\<lparr>next_group := (if scope = None then Suc (next_group m) else next_group m),
                tracked := dict_set t x (tracked m)\<rparr>;
          k = fold (add_task_to_group t) groups n in
      publish_cleanups (k\<lparr>deadline_handles := dict_set t (now + max 0 (deadline - now)) (deadline_handles k)\<rparr>))"

definition track :: "time \<Rightarrow> nat option \<Rightarrow> nat \<Rightarrow> string \<Rightarrow> time option \<Rightarrow> cleanup_scope option \<Rightarrow> nat cleanup_prog" where
  "track now current t kind timeout scope = with_state (\<lambda>m.
     let limit = (case timeout of None \<Rightarrow> default_timeout m | Some s \<Rightarrow> s) in
     if limit \<le> 0 then raise_exn (ValueError ''cleanup timeout must be greater than zero'')
     else let inherited = (case scope of None \<Rightarrow> current_scope current m | Some sc \<Rightarrow> Some sc);
              own = now + limit;
              scoped = (case inherited of None \<Rightarrow> own | Some sc \<Rightarrow> min own (scope_deadline sc));
              deadline = (case shutdown_deadline m of None \<Rightarrow> scoped | Some d \<Rightarrow> min scoped d) in
       skip_then (modify (case dict_get (tracked m) t of
           Some x \<Rightarrow> track_again now t x deadline inherited
         | None \<Rightarrow> track_new now t kind deadline inherited))
         (ret t))"

text \<open>How a finished task is recorded; one whose timeout was reported is not recorded again.\<close>

definition task_result :: "task_end \<Rightarrow> string" where
  "task_result r = (case r of TaskDone \<Rightarrow> ''success'' | TaskCancelled \<Rightarrow> ''cancelled''
     | TaskFailed e \<Rightarrow> if is_TimeoutError e then ''timeout'' else ''error'')"

definition task_finished :: "time \<Rightarrow> nat \<Rightarrow> task_end \<Rightarrow> supervisor \<Rightarrow> supervisor" where
  "task_finished now t r m = (case dict_get (tracked m) t of None \<Rightarrow> m
     | Some x \<Rightarrow>
         (let n = m\<lparr>tracked := dict_del t (tracked m), deadline_handles := dict_del t (deadline_handles m)\<rparr>;
              reported = (if t \<in> set (timed_out n)
                then (if (case run_waiters n t of None \<Rightarrow> 0 | Some k \<Rightarrow> k) = 0 then n\<lparr>timed_out := set_discard t (timed_out n)\<rparr> else n)
                else cleanup_note (CleanupRecorded t (cleanup_kind x) (task_result r) (max 0 (now - cleanup_started x))) n) in
          publish_cleanups (fold (group_task_finished t) (cleanup_groups x) reported)))"

section \<open>Running a cleanup for a caller\<close>

text \<open>\<open>run\<close> up to its wait, with the time it waits at most; and from the end of the wait on.  \<open>shown\<close> is
  the text of the timeout.\<close>

definition run_begin :: "time \<Rightarrow> nat option \<Rightarrow> nat \<Rightarrow> string \<Rightarrow> time option \<Rightarrow> cleanup_scope option \<Rightarrow> time cleanup_prog" where
  "run_begin now current t kind timeout scope = with_state (\<lambda>m.
     let limit = (case timeout of None \<Rightarrow> default_timeout m | Some s \<Rightarrow> s) in
     if limit \<le> 0 then raise_exn (ValueError ''cleanup timeout must be greater than zero'')
     else seq (track now current t kind (Some limit) scope) (\<lambda>_.
       skip_then (modify (\<lambda>m. m\<lparr>run_waiters := (run_waiters m)(t \<mapsto> Suc (case run_waiters m t of None \<Rightarrow> 0 | Some n \<Rightarrow> n))\<rparr>))
         (with_state (\<lambda>m. ret (case dict_get (tracked m) t of None \<Rightarrow> 0 | Some x \<Rightarrow> max 0 (cleanup_deadline x - now))))))"

definition run_leave :: "nat \<Rightarrow> unit cleanup_prog" where
  "run_leave t = with_state (\<lambda>m.
     let waiters = (case run_waiters m t of None \<Rightarrow> 1 | Some n \<Rightarrow> n) in
     if waiters \<le> 1
     then skip_then (modify (\<lambda>m. m\<lparr>run_waiters := (run_waiters m)(t := None)\<rparr>))
       (if task_done m t then modify (\<lambda>m. m\<lparr>timed_out := set_discard t (timed_out m)\<rparr>) else ret ())
     else modify (\<lambda>m. m\<lparr>run_waiters := (run_waiters m)(t \<mapsto> waiters - 1)\<rparr>))"

definition run_end :: "time \<Rightarrow> nat \<Rightarrow> string \<Rightarrow> string \<Rightarrow> unit cleanup_prog" where
  "run_end now t kind shown =
     (let too_late = raise_exn (TimeoutError (kind @ '' cleanup exceeded '' @ shown @ '' seconds'')) in
      try_finally
        (with_state (\<lambda>m. case task_status m t of
           None \<Rightarrow> skip_then (modify (mark_timed_out now t)) too_late
         | Some r \<Rightarrow> if t \<in> set (timed_out m) then too_late
             else (case r of TaskDone \<Rightarrow> ret () | TaskFailed e \<Rightarrow> raise_exn e | TaskCancelled \<Rightarrow> raise_exn CancelledError)))
        (run_leave t))"

section \<open>Closing\<close>

definition close_supervisor_begin :: "time \<Rightarrow> time option \<Rightarrow> unit cleanup_prog" where
  "close_supervisor_begin now timeout = with_state (\<lambda>m.
     let limit = (case timeout of None \<Rightarrow> default_timeout m | Some s \<Rightarrow> s) in
     if limit < 0 then raise_exn (ValueError ''cleanup timeout must be zero or greater'')
     else modify (\<lambda>m. m\<lparr>shutdown_deadline :=
       Some (case shutdown_deadline m of None \<Rightarrow> now + limit | Some d \<Rightarrow> min d (now + limit))\<rparr>))"

text \<open>One turn of its loop: without tasks it yields once and looks again; otherwise every task is
  shortened and cancelled, and it waits for them.\<close>

datatype close_next = YieldAndLook | AwaitTasks "nat list" time | JustYield | Drained | GaveUp

definition cancel_tracked :: "time \<Rightarrow> time \<Rightarrow> nat \<Rightarrow> supervisor \<Rightarrow> supervisor" where
  "cancel_tracked now deadline t m = cleanup_note (CancelAsked t) (shorten_deadline now t deadline m)"

definition close_supervisor_turn :: "time \<Rightarrow> close_next cleanup_prog" where
  "close_supervisor_turn now = with_state (\<lambda>m.
     let ts = map fst (tracked m); deadline = (case shutdown_deadline m of None \<Rightarrow> now | Some d \<Rightarrow> d) in
     if ts = [] then ret YieldAndLook
     else skip_then (modify (fold (cancel_tracked now deadline) ts))
       (ret (if deadline - now > 0 then AwaitTasks ts (deadline - now) else JustYield)))"

text \<open>After a yield that found no task, and after a wait.\<close>

definition close_supervisor_look :: "close_next option cleanup_prog" where
  "close_supervisor_look = with_state (\<lambda>m. ret (if tracked m = [] then Some Drained else None))"

definition close_supervisor_check :: "time \<Rightarrow> close_next option cleanup_prog" where
  "close_supervisor_check now = with_state (\<lambda>m.
     if (case shutdown_deadline m of None \<Rightarrow> False | Some d \<Rightarrow> d \<le> now)
     then skip_then (modify (fold (mark_timed_out now) (map fst (tracked m)))) (ret (Some GaveUp))
     else ret None)"

end
