(* ===== verification/Cleanup_Properties.thy ===== *)
theory Cleanup_Properties
  imports Cleanup
begin

text \<open>
  The cleanup supervisor as a machine of its sections: no waiter of a group misses its wake-up, groups and holds
  are counted exactly, every unfinished task has a timer or has been timed out, and the one flaw of its outcome
  records.
\<close>

section \<open>Views of the state\<close>

definition task_view :: "supervisor \<Rightarrow> (nat \<times> tracked_cleanup) list \<times> (nat \<times> time) list \<times> nat list \<times> time option
    \<times> (nat \<Rightarrow> task_end option)" where
  "task_view m = (tracked m, deadline_handles m, timed_out m, shutdown_deadline m, task_status m)"

definition group_view :: "supervisor \<Rightarrow> (nat \<Rightarrow> nat list option) \<times> (nat \<Rightarrow> nat option) \<times> (nat \<Rightarrow> nat option)
    \<times> (nat \<Rightarrow> bool) \<times> nat" where
  "group_view m = (group_tasks m, group_holds m, group_events m, event_set m, next_event m)"

definition hold_view :: "supervisor \<Rightarrow> (nat \<Rightarrow> scope_hold) \<times> nat" where
  "hold_view m = (holds_heap m, next_hold m)"

lemma fold_same: "(\<And>x m. v (f x m) = v m) \<Longrightarrow> v (fold f xs m) = v m"
  by (induction xs arbitrary: m) auto

lemma group_steps_view [simp]:
  "task_view (renew_event g m) = task_view m" "hold_view (renew_event g m) = hold_view m"
  "task_view (add_task_to_group t g m) = task_view m" "hold_view (add_task_to_group t g m) = hold_view m"
  "task_view (hold_group g m) = task_view m" "hold_view (hold_group g m) = hold_view m"
  "task_view (finish_group_if_idle g m) = task_view m" "hold_view (finish_group_if_idle g m) = hold_view m"
  "task_view (group_task_finished t g m) = task_view m" "hold_view (group_task_finished t g m) = hold_view m"
proof -
  show r: "task_view (renew_event g m) = task_view m" "hold_view (renew_event g m) = hold_view m" for g m
    by (auto simp: renew_event_def task_view_def hold_view_def split: option.split)
  show "task_view (add_task_to_group t g m) = task_view m" "hold_view (add_task_to_group t g m) = hold_view m"
    "task_view (hold_group g m) = task_view m" "hold_view (hold_group g m) = hold_view m"
    using r [of g m] by (simp_all add: add_task_to_group_def hold_group_def task_view_def hold_view_def Let_def)
  show f: "task_view (finish_group_if_idle g m) = task_view m" "hold_view (finish_group_if_idle g m) = hold_view m" for g m
    by (auto simp: finish_group_if_idle_def task_view_def hold_view_def split: option.split)
  show "task_view (group_task_finished t g m) = task_view m" "hold_view (group_task_finished t g m) = hold_view m"
    using f [of g "m\<lparr>group_tasks := (group_tasks m)(g := None)\<rparr>"]
    by (auto simp: group_task_finished_def task_view_def hold_view_def Let_def split: option.split)
qed

lemma note_view [simp]:
  "task_view (cleanup_note e m) = task_view m" "group_view (cleanup_note e m) = group_view m"
  "hold_view (cleanup_note e m) = hold_view m" "task_view (publish_cleanups m) = task_view m"
  "group_view (publish_cleanups m) = group_view m" "hold_view (publish_cleanups m) = hold_view m"
  by (simp_all add: publish_cleanups_def cleanup_note_def task_view_def group_view_def hold_view_def)

lemma deadline_steps_view [simp]:
  "group_view (shorten_deadline now t d m) = group_view m" "hold_view (shorten_deadline now t d m) = hold_view m"
  "group_view (mark_timed_out now t m) = group_view m" "hold_view (mark_timed_out now t m) = hold_view m"
  "group_view (deadline_expired now t m) = group_view m" "hold_view (deadline_expired now t m) = hold_view m"
  "group_view (cancel_tracked now d t m) = group_view m" "hold_view (cancel_tracked now d t m) = hold_view m"
  by (auto simp: shorten_deadline_def mark_timed_out_def deadline_expired_def cancel_tracked_def cleanup_note_def
      group_view_def hold_view_def split: option.split)

section \<open>Members and holds\<close>

lemma members_cong: "group_view m' = group_view m \<Longrightarrow> members m' = members m \<and> hold_count m' = hold_count m \<and> busy m' = busy m"
  by (auto simp: group_view_def members_def hold_count_def busy_def fun_eq_iff)

lemma renew_fields [simp]: "group_tasks (renew_event g m) = group_tasks m" "group_holds (renew_event g m) = group_holds m"
  by (auto simp: renew_event_def split: option.split)

lemma members_renew [simp]:
  "members (renew_event g m) = members m" "hold_count (renew_event g m) = hold_count m"
  by (auto simp: renew_event_def members_def hold_count_def fun_eq_iff split: option.split)

lemma finish_fields [simp]:
  "group_tasks (finish_group_if_idle g m) = group_tasks m" "group_holds (finish_group_if_idle g m) = group_holds m"
  by (auto simp: finish_group_if_idle_def split: option.split)

lemma members_finish [simp]:
  "members (finish_group_if_idle g m) = members m" "hold_count (finish_group_if_idle g m) = hold_count m"
  by (auto simp: finish_group_if_idle_def members_def hold_count_def fun_eq_iff split: option.split)

lemma members_add [simp]:
  "members (add_task_to_group t g m) = (members m)(g := set_add t (members m g))"
  "hold_count (add_task_to_group t g m) = hold_count m"
proof -
  have "members (add_task_to_group t g m) = (members (renew_event g m))(g := set_add t (members (renew_event g m) g))"
    by (auto simp: add_task_to_group_def Let_def members_def [abs_def] fun_eq_iff)
  then show "members (add_task_to_group t g m) = (members m)(g := set_add t (members m g))" by simp
  have "hold_count (add_task_to_group t g m) = hold_count (renew_event g m)"
    by (simp add: add_task_to_group_def Let_def hold_count_def fun_eq_iff)
  then show "hold_count (add_task_to_group t g m) = hold_count m" by simp
qed

lemma members_hold [simp]:
  "members (hold_group g m) = members m" "hold_count (hold_group g m) = (hold_count m)(g := Suc (hold_count m g))"
proof -
  have "members (hold_group g m) = members (renew_event g m)"
    by (simp add: hold_group_def Let_def members_def fun_eq_iff)
  then show "members (hold_group g m) = members m" by simp
  have "hold_count (hold_group g m) = (hold_count (renew_event g m))(g := Suc (hold_count (renew_event g m) g))"
    by (auto simp: hold_group_def Let_def hold_count_def [abs_def] fun_eq_iff)
  then show "hold_count (hold_group g m) = (hold_count m)(g := Suc (hold_count m g))" by simp
qed

lemma members_finished [simp]:
  "members (group_task_finished t g m) = (members m)(g := set_discard t (members m g))"
  "hold_count (group_task_finished t g m) = hold_count m"
  by (auto simp: group_task_finished_def Let_def members_def [abs_def] hold_count_def [abs_def] set_discard_def fun_eq_iff
      split: option.split)

lemma members_fold_add:
  "set (members (fold (add_task_to_group t) gs m) g) = set (members m g) \<union> (if g \<in> set gs then {t} else {})"
  "hold_count (fold (add_task_to_group t) gs m) = hold_count m"
  by (induction gs arbitrary: m) auto

lemma members_fold_finished:
  "set (members (fold (group_task_finished t) gs m) g) = set (members m g) - (if g \<in> set gs then {t} else {})"
  "hold_count (fold (group_task_finished t) gs m) = hold_count m"
  by (induction gs arbitrary: m) auto

lemma members_fold_hold:
  "members (fold hold_group gs m) = members m"
  "hold_count (fold hold_group gs m) g = hold_count m g + count_list gs g"
  by (induction gs arbitrary: m) auto

section \<open>Events\<close>

definition events_ok :: "(nat \<times> nat) list \<Rightarrow> supervisor \<Rightarrow> bool" where
  "events_ok W m \<longleftrightarrow>
     (\<forall>g e. group_events m g = Some e \<longrightarrow> e < next_event m \<and> event_set m e = (\<not> busy m g))
   \<and> (\<forall>g g' e. group_events m g = Some e \<longrightarrow> group_events m g' = Some e \<longrightarrow> g = g')
   \<and> (\<forall>e. next_event m \<le> e \<longrightarrow> \<not> event_set m e)
   \<and> (\<forall>g e. (g, e) \<in> set W \<longrightarrow> e < next_event m \<and> (event_set m e \<or> group_events m g = Some e))"

lemma events_cong: "group_view m' = group_view m \<Longrightarrow> events_ok W m' = events_ok W m"
  using members_cong [of m' m] by (auto simp: events_ok_def group_view_def)

text \<open>A group gets work: its event is renewed first if it was set.\<close>

lemma events_gain:
  assumes ok: "events_ok W m" and n: "n = renew_event g m"
    and k: "group_events k = group_events n" "event_set k = event_set n" "next_event k = next_event n"
    and busy: "busy k g" "\<And>g'. g' \<noteq> g \<Longrightarrow> busy k g' = busy m g'"
  shows "events_ok W k"
proof (cases "group_events m g")
  case None
  then have "n = m" by (simp add: n renew_event_def)
  with ok k busy None show ?thesis unfolding events_ok_def by (metis option.distinct(1))
next
  case (Some e)
  show ?thesis
  proof (cases "event_set m e")
    case False
    then have "n = m" using Some by (simp add: n renew_event_def)
    moreover have "busy m g" using ok Some False by (auto simp: events_ok_def)
    ultimately show ?thesis using ok k busy unfolding events_ok_def by metis
  next
    case True
    then have new: "group_events k = (group_events m)(g \<mapsto> next_event m)" "event_set k = event_set m"
      "next_event k = Suc (next_event m)"
      using Some k by (simp_all add: n renew_event_def)
    have 1: "e' < next_event k \<and> event_set k e' = (\<not> busy k g')" if "group_events k g' = Some e'" for g' e'
      using ok busy that unfolding events_ok_def new by (cases "g' = g") (auto simp: less_Suc_eq)
    have 2: "g1 = g2" if "group_events k g1 = Some e'" "group_events k g2 = Some e'" for g1 g2 e'
      using ok that unfolding events_ok_def new by (auto split: if_splits)
    have 3: "\<not> event_set k e'" if "next_event k \<le> e'" for e'
      using ok that unfolding events_ok_def new by auto
    have 4: "e' < next_event k \<and> (event_set k e' \<or> group_events k g' = Some e')" if w: "(g', e') \<in> set W" for g' e'
    proof -
      have "e' < next_event m" "event_set m e' \<or> group_events m g' = Some e'"
        using ok w unfolding events_ok_def by blast+
      with True Some show ?thesis unfolding new by (cases "g' = g") auto
    qed
    from 1 2 3 4 show ?thesis unfolding events_ok_def by blast
  qed
qed

lemma events_add: "events_ok W m \<Longrightarrow> events_ok W (add_task_to_group t g m)"
  by (rule events_gain [of W m "renew_event g m" g])
    (auto simp: busy_def, auto simp: add_task_to_group_def Let_def set_add_def split: if_splits)

lemma events_hold: "events_ok W m \<Longrightarrow> events_ok W (hold_group g m)"
  by (rule events_gain [of W m "renew_event g m" g])
    (auto simp: busy_def, auto simp: hold_group_def Let_def)

text \<open>A group loses work: when it becomes idle its event is set.\<close>

lemma events_finish:
  assumes ok: "events_ok W m" and k: "group_events k = group_events m" "event_set k = event_set m" "next_event k = next_event m"
    and busy: "\<And>g'. g' \<noteq> g \<Longrightarrow> busy k g' = busy m g'" "busy k g \<Longrightarrow> busy m g"
  shows "events_ok W (finish_group_if_idle g k)"
proof (cases "busy k g")
  case True
  then show ?thesis using assms unfolding finish_group_if_idle_def events_ok_def by (auto, metis+)
next
  case idle: False
  show ?thesis
  proof (cases "group_events k g")
    case None
    then have "busy k g' = busy m g'" if "group_events m g' = Some e" for g' e
      using that k busy(1) [of g'] by (cases "g' = g") auto
    then show ?thesis using ok k idle None unfolding finish_group_if_idle_def events_ok_def by auto
  next
    case (Some e)
    let ?n = "finish_group_if_idle g k"
    have n: "group_events ?n = group_events m" "next_event ?n = next_event m" "event_set ?n = (event_set m)(e := True)"
      using idle Some k by (simp_all add: finish_group_if_idle_def)
    have b: "busy ?n g' = busy k g'" for g' by (simp add: busy_def)
    have 1: "e' < next_event ?n \<and> event_set ?n e' = (\<not> busy ?n g')" if "group_events ?n g' = Some e'" for g' e'
    proof (cases "g' = g")
      case True
      then show ?thesis using that Some ok idle unfolding n b k events_ok_def by auto
    next
      case False
      then have "e' \<noteq> e" using that Some ok unfolding n k events_ok_def by metis
      with False that ok busy show ?thesis unfolding n b events_ok_def by auto
    qed
    have 3: "\<not> event_set ?n e'" if "next_event ?n \<le> e'" for e'
    proof -
      have "e < next_event m" using ok Some k by (simp add: events_ok_def)
      with that ok show ?thesis unfolding n events_ok_def by auto
    qed
    have 4: "e' < next_event ?n \<and> (event_set ?n e' \<or> group_events ?n g' = Some e')" if "(g', e') \<in> set W" for g' e'
      using ok that unfolding n events_ok_def by auto
    have "g1 = g2" if "group_events ?n g1 = Some e'" "group_events ?n g2 = Some e'" for g1 g2 e'
      using ok that unfolding n events_ok_def by blast
    with 1 3 4 show ?thesis unfolding events_ok_def by blast
  qed
qed

lemma events_finished: "events_ok W m \<Longrightarrow> events_ok W (group_task_finished t g m)"
proof (cases "group_tasks m g")
  case (Some ts)
  assume ok: "events_ok W m"
  show ?thesis
  proof (cases "set_discard t ts = []")
    case True
    let ?k = "m\<lparr>group_tasks := (group_tasks m)(g := None)\<rparr>"
    have "events_ok W (finish_group_if_idle g ?k)"
      by (rule events_finish [OF ok]) (auto simp: busy_def members_def hold_count_def)
    then show ?thesis using Some True by (simp add: group_task_finished_def)
  next
    case False
    let ?k = "m\<lparr>group_tasks := (group_tasks m)(g \<mapsto> set_discard t ts)\<rparr>"
    have "ts \<noteq> []" using False by (auto simp: set_discard_def)
    then have "busy ?k = busy m"
      using Some False by (auto simp: busy_def members_def hold_count_def fun_eq_iff)
    then have "events_ok W ?k" using ok by (simp add: events_ok_def)
    then show ?thesis using Some False by (simp add: group_task_finished_def)
  qed
qed (simp add: group_task_finished_def)

lemma events_fold: "(\<And>x m. events_ok W m \<Longrightarrow> events_ok W (f x m)) \<Longrightarrow> events_ok W m \<Longrightarrow> events_ok W (fold f xs m)"
  by (induction xs arbitrary: m) auto

lemma events_fold_add: "events_ok W m \<Longrightarrow> events_ok W (fold (add_task_to_group t) gs m)"
  by (rule events_fold [of W]) (rule events_add)

lemma events_fold_hold: "events_ok W m \<Longrightarrow> events_ok W (fold hold_group gs m)"
  by (rule events_fold [of W]) (rule events_hold)

lemma events_fold_finished: "events_ok W m \<Longrightarrow> events_ok W (fold (group_task_finished t) gs m)"
  by (rule events_fold [of W]) (rule events_finished)

text \<open>Waiting: the group keeps or gets an unset event, and the waiter awaits that one.\<close>

lemma events_wait:
  assumes ok: "events_ok W m" and run: "wait_section g m = (Inr r, k)"
  shows "events_ok (case r of None \<Rightarrow> W | Some e \<Rightarrow> (g, e) # W) k \<and> (r = None \<longleftrightarrow> \<not> busy m g) \<and> members k = members m
    \<and> hold_count k = hold_count m \<and> task_view k = task_view m \<and> hold_view k = hold_view m"
proof (cases "busy m g")
  case False
  then show ?thesis using assms by (simp add: wait_section_def)
next
  case True
  show ?thesis
  proof (cases "group_events m g")
    case (Some e)
    then have "r = Some e" "k = m" using run True by (simp_all add: wait_section_def)
    then show ?thesis using ok True Some by (auto simp: events_ok_def)
  next
    case None
    then have r: "r = Some (next_event m)"
      and k: "k = m\<lparr>group_events := (group_events m)(g \<mapsto> next_event m), next_event := Suc (next_event m)\<rparr>"
      using run True by (auto simp: wait_section_def skip_then_apply)
    have same: "members k = members m" "hold_count k = hold_count m" "busy k = busy m"
      by (auto simp: k members_def hold_count_def busy_def fun_eq_iff)
    have 1: "e' < next_event k \<and> event_set k e' = (\<not> busy k g')" if "group_events k g' = Some e'" for g' e'
      using ok that True unfolding same events_ok_def by (auto simp: k less_Suc_eq split: if_splits)
    have 2: "g1 = g2" if "group_events k g1 = Some e'" "group_events k g2 = Some e'" for g1 g2 e'
      using ok that unfolding events_ok_def by (auto simp: k split: if_splits)
    have 3: "\<not> event_set k e'" if "next_event k \<le> e'" for e'
      using ok that unfolding events_ok_def by (auto simp: k)
    have 4: "e' < next_event k \<and> (event_set k e' \<or> group_events k g' = Some e')" if w: "(g', e') \<in> set ((g, next_event m) # W)" for g' e'
    proof (cases "(g', e') = (g, next_event m)")
      case False
      then have "e' < next_event m" "event_set m e' \<or> group_events m g' = Some e'"
        using ok w unfolding events_ok_def by auto
      with None show ?thesis by (cases "g' = g") (auto simp: k)
    qed (simp add: k)
    have "events_ok ((g, next_event m) # W) k" unfolding events_ok_def using 1 2 3 4 by blast
    then show ?thesis using True same r by (simp add: k task_view_def hold_view_def)
  qed
qed

lemma wait_section_Inr: "\<exists>r k. wait_section g m = (Inr r, k)"
  by (auto simp: wait_section_def skip_then_apply split: option.split)

text \<open>Waking: the event that was set leaves the group.\<close>

lemma events_wake:
  assumes ok: "events_ok W m" and set: "event_set m e" and run: "wait_resume g e m = (Inr r, k)"
    and W: "set V \<subseteq> set W"
  shows "events_ok (case r of None \<Rightarrow> V | Some e \<Rightarrow> (g, e) # V) k \<and> (r = None \<longleftrightarrow> \<not> busy m g) \<and> members k = members m
    \<and> hold_count k = hold_count m \<and> task_view k = task_view m \<and> hold_view k = hold_view m"
proof -
  let ?n = "if group_events m g = Some e then m\<lparr>group_events := (group_events m)(g := None)\<rparr> else m"
  have same: "members ?n = members m" "hold_count ?n = hold_count m" "busy ?n = busy m" "task_view ?n = task_view m"
    "hold_view ?n = hold_view m" "next_event ?n = next_event m" "event_set ?n = event_set m"
    by (auto simp: members_def hold_count_def busy_def fun_eq_iff task_view_def hold_view_def)
  have less: "group_events m g' = Some e'" if "group_events ?n g' = Some e'" for g' e'
    using that by (auto split: if_splits)
  have 4: "e' < next_event ?n \<and> (event_set ?n e' \<or> group_events ?n g' = Some e')" if w: "(g', e') \<in> set V" for g' e'
  proof -
    have "e' < next_event m" "event_set m e' \<or> group_events m g' = Some e'"
      using ok W w unfolding events_ok_def by blast+
    with set show ?thesis by auto
  qed
  have "events_ok V ?n"
    unfolding events_ok_def same(3,6,7)
    using ok less 4 unfolding events_ok_def same(6,7) by blast
  from events_wait [OF this] run show ?thesis
    unfolding wait_resume_def by (simp add: skip_then_apply same)
qed

section \<open>Tasks\<close>

definition members_ok :: "supervisor \<Rightarrow> bool" where
  "members_ok m \<longleftrightarrow> (\<forall>g t. t \<in> set (members m g) \<longleftrightarrow>
     (case dict_get (tracked m) t of None \<Rightarrow> False | Some x \<Rightarrow> g \<in> set (cleanup_groups x)))"

definition holds_ok :: "nat list \<Rightarrow> supervisor \<Rightarrow> bool" where
  "holds_ok gs m \<longleftrightarrow> (\<forall>g. hold_count m g = count_list gs g
     + sum_list (map (\<lambda>h. if hold_released (holds_heap m h) then 0 else count_list (hold_groups (holds_heap m h)) g)
         [0..<next_hold m]))"

text \<open>A task without an end has a timer, or was timed out; timers belong to tracked tasks; a shutdown bounds all.\<close>

definition armed :: "supervisor \<Rightarrow> nat \<Rightarrow> bool" where
  "armed m t \<longleftrightarrow> dict_has t (deadline_handles m) \<or> t \<in> set (timed_out m) \<or> task_status m t \<noteq> None"

definition tasks_ok :: "supervisor \<Rightarrow> bool" where
  "tasks_ok m \<longleftrightarrow>
     (\<forall>t. dict_has t (tracked m) \<longrightarrow> armed m t)
   \<and> (\<forall>t. dict_has t (deadline_handles m) \<longrightarrow> dict_has t (tracked m))"

definition bounded_by :: "time option \<Rightarrow> supervisor \<Rightarrow> bool" where
  "bounded_by d m \<longleftrightarrow> (case d of None \<Rightarrow> True
     | Some d \<Rightarrow> \<forall>t x. dict_get (tracked m) t = Some x \<longrightarrow> cleanup_deadline x \<le> d)"

lemma tasks_cong: "task_view m' = task_view m \<Longrightarrow> tasks_ok m' = tasks_ok m \<and> bounded_by d m' = bounded_by d m"
  by (simp add: task_view_def tasks_ok_def armed_def bounded_by_def split: option.split)

lemma bounded_cong: "tracked m' = tracked m \<Longrightarrow> bounded_by d m' = bounded_by d m"
  by (simp add: bounded_by_def split: option.split)

lemma members_ok_tracked: "tracked m' = tracked m \<Longrightarrow> members m' = members m \<Longrightarrow> members_ok m' = members_ok m"
  by (simp add: members_ok_def split: option.split)

lemma members_ok_cong: "task_view m' = task_view m \<Longrightarrow> members m' = members m \<Longrightarrow> members_ok m' = members_ok m"
  by (simp add: task_view_def members_ok_def split: option.split)

lemma holds_cong: "hold_view m' = hold_view m \<Longrightarrow> hold_count m' = hold_count m \<Longrightarrow> holds_ok gs m' = holds_ok gs m"
  by (simp add: hold_view_def holds_ok_def cong: if_cong)

text \<open>What shortening and timing out do to the tasks.\<close>

lemma shorten_effect:
  "tracked (shorten_deadline now t d m) = (case dict_get (tracked m) t of None \<Rightarrow> tracked m
     | Some x \<Rightarrow> if cleanup_deadline x \<le> d then tracked m else dict_set t (x\<lparr>cleanup_deadline := d\<rparr>) (tracked m))"
  "timed_out (shorten_deadline now t d m) = timed_out m" "task_status (shorten_deadline now t d m) = task_status m"
  "shutdown_deadline (shorten_deadline now t d m) = shutdown_deadline m"
  by (auto simp: shorten_deadline_def split: option.split)

lemma tasks_shorten: "tasks_ok m \<Longrightarrow> tasks_ok (shorten_deadline now t d m)"
proof (cases "dict_get (tracked m) t")
  case (Some x)
  assume ok: "tasks_ok m"
  have "dict_has t (tracked m)" by (rule dict_get_Some_has [OF Some])
  with Some ok show ?thesis unfolding tasks_ok_def armed_def by (auto simp: shorten_deadline_def)
qed (simp add: shorten_deadline_def)

lemma bounded_shorten:
  assumes "bounded_by b m"
  shows "bounded_by b (shorten_deadline now t d m)"
proof (cases "dict_get (tracked m) t")
  case (Some x)
  with assms show ?thesis unfolding bounded_by_def
    by (cases "cleanup_deadline x \<le> d") (auto simp: shorten_deadline_def split: option.splits, force)
qed (use assms in \<open>simp add: shorten_deadline_def\<close>)

lemma members_shorten: "members_ok m \<Longrightarrow> members_ok (shorten_deadline now t d m)"
  unfolding members_ok_def using members_cong [OF deadline_steps_view(1) [of now t d m]]
  by (auto simp: shorten_effect split: option.splits)

lemma mark_effect:
  "tracked (mark_timed_out now t m) = tracked m" "deadline_handles (mark_timed_out now t m) = deadline_handles m"
  "task_status (mark_timed_out now t m) = task_status m" "shutdown_deadline (mark_timed_out now t m) = shutdown_deadline m"
  "set (timed_out m) \<subseteq> set (timed_out (mark_timed_out now t m))"
  "dict_has t (tracked m) \<Longrightarrow> task_status m t = None \<Longrightarrow> t \<in> set (timed_out (mark_timed_out now t m))"
  by (auto simp: mark_timed_out_def cleanup_note_def task_done_def dict_has_get split: option.split)

lemma tasks_mark: "tasks_ok m \<Longrightarrow> tasks_ok (mark_timed_out now t m)"
  using mark_effect(5) [of m now t] unfolding tasks_ok_def armed_def mark_effect(1-4) by blast

lemma tasks_expired:
  assumes "tasks_ok m"
  shows "tasks_ok (deadline_expired now t m)"
proof -
  let ?m = "m\<lparr>deadline_handles := dict_del t (deadline_handles m)\<rparr>"
  let ?n = "mark_timed_out now t ?m"
  have f: "tracked ?n = tracked m" "deadline_handles ?n = dict_del t (deadline_handles m)" "task_status ?n = task_status m"
    by (simp_all add: mark_effect)
  have "armed ?n u" if u: "dict_has u (tracked m)" for u
  proof (cases "u = t")
    case True
    then show ?thesis using u mark_effect(6) [of t ?m now] unfolding armed_def f by auto
  next
    case False
    have "armed m u" using assms u by (simp add: tasks_ok_def)
    with False mark_effect(5) [of ?m now t] show ?thesis unfolding armed_def f by auto
  qed
  then show ?thesis using assms unfolding deadline_expired_def tasks_ok_def f by auto
qed

section \<open>The machine\<close>

text \<open>The supervisor with the suspended waiters: a group and the event each awaits.\<close>

record cleanup_machine =
  cleanups :: supervisor
  group_waiters :: "(nat \<times> nat) list"

definition wait_on :: "nat \<Rightarrow> nat option \<Rightarrow> (nat \<times> nat) list \<Rightarrow> (nat \<times> nat) list" where
  "wait_on g r W = (case r of None \<Rightarrow> W | Some e \<Rightarrow> (g, e) # W)"

inductive cleanup_step :: "cleanup_machine \<Rightarrow> cleanup_machine \<Rightarrow> bool" where
  cs_track: "cleanup_step s (s\<lparr>cleanups := snd (track now current t kind timeout scope (cleanups s))\<rparr>)"
| cs_run_begin: "cleanup_step s (s\<lparr>cleanups := snd (run_begin now current t kind timeout scope (cleanups s))\<rparr>)"
| cs_run_end: "cleanup_step s (s\<lparr>cleanups := snd (run_end now t kind shown (cleanups s))\<rparr>)"
| cs_run_cancelled: "cleanup_step s (s\<lparr>cleanups := snd (run_leave t (cleanups s))\<rparr>)"
| cs_ends: "task_status (cleanups s) t = None \<Longrightarrow>
    cleanup_step s (s\<lparr>cleanups := (cleanups s)\<lparr>task_status := (task_status (cleanups s))(t \<mapsto> r)\<rparr>\<rparr>)"
| cs_finished: "task_status (cleanups s) t = Some r \<Longrightarrow> cleanup_step s (s\<lparr>cleanups := task_finished now t r (cleanups s)\<rparr>)"
| cs_timer: "dict_get (deadline_handles (cleanups s)) t = Some w \<Longrightarrow> w \<le> now \<Longrightarrow>
    cleanup_step s (s\<lparr>cleanups := deadline_expired now t (cleanups s)\<rparr>)"
| cs_retain: "cleanup_step s (s\<lparr>cleanups := snd (retain_scope scope (cleanups s))\<rparr>)"
| cs_release: "h < next_hold (cleanups s) \<Longrightarrow> cleanup_step s (s\<lparr>cleanups := snd (release_hold h (cleanups s))\<rparr>)"
| cs_wait: "wait_section g (cleanups s) = (Inr r, k) \<Longrightarrow>
    cleanup_step s \<lparr>cleanups = k, group_waiters = wait_on g r (group_waiters s)\<rparr>"
| cs_wake: "group_waiters s = A @ (g, e) # B \<Longrightarrow> event_set (cleanups s) e \<Longrightarrow> wait_resume g e (cleanups s) = (Inr r, k) \<Longrightarrow>
    cleanup_step s \<lparr>cleanups = k, group_waiters = wait_on g r (A @ B)\<rparr>"
| cs_wait_cancelled: "group_waiters s = A @ x # B \<Longrightarrow> cleanup_step s (s\<lparr>group_waiters := A @ B\<rparr>)"
| cs_close: "cleanup_step s (s\<lparr>cleanups :=
    snd (skip_then (close_supervisor_begin now timeout) (close_supervisor_turn now) (cleanups s))\<rparr>)"
| cs_close_turn: "shutdown_deadline (cleanups s) \<noteq> None \<Longrightarrow>
    cleanup_step s (s\<lparr>cleanups := snd (close_supervisor_turn now (cleanups s))\<rparr>)"
| cs_close_check: "cleanup_step s (s\<lparr>cleanups := snd (close_supervisor_check now (cleanups s))\<rparr>)"

definition cleanup_start :: "cleanup_machine \<Rightarrow> bool" where
  "cleanup_start s \<longleftrightarrow> group_waiters s = [] \<and> (\<exists>timeout. new_supervisor timeout = Inr (cleanups s))"

abbreviation cleanup_reach :: "cleanup_machine \<Rightarrow> bool" where
  "cleanup_reach \<equiv> reach cleanup_start cleanup_step"

definition sup_ok :: "supervisor \<Rightarrow> bool" where
  "sup_ok m \<longleftrightarrow> members_ok m \<and> holds_ok [] m \<and> tasks_ok m \<and> bounded_by (shutdown_deadline m) m"

text \<open>A state step that leaves groups and holds alone.\<close>

lemma sup_ok_cong:
  assumes "task_view m' = task_view m" "members m' = members m" "hold_count m' = hold_count m" "hold_view m' = hold_view m"
  shows "sup_ok m' = sup_ok m"
proof -
  have "shutdown_deadline m' = shutdown_deadline m" using assms(1) by (simp add: task_view_def)
  then show ?thesis
    using tasks_cong [OF assms(1)] members_ok_cong [OF assms(1,2)] holds_cong [OF assms(4,3)] by (simp add: sup_ok_def)
qed

lemma cleanup_new: "new_supervisor timeout = Inr m \<Longrightarrow> events_ok [] m \<and> sup_ok m"
  by (auto simp: new_supervisor_def publish_cleanups_def cleanup_note_def events_ok_def sup_ok_def members_ok_def
      holds_ok_def tasks_ok_def bounded_by_def members_def hold_count_def busy_def dict_has_def split: if_splits)

lemma ok_shorten:
  assumes "sup_ok m"
  shows "sup_ok (shorten_deadline now t d m)"
proof -
  have "holds_ok [] (shorten_deadline now t d m)"
    using assms holds_cong [of "shorten_deadline now t d m" m "[]"]
      members_cong [OF deadline_steps_view(1) [of now t d m]] by (simp add: sup_ok_def)
  with assms show ?thesis
    by (simp add: sup_ok_def members_shorten tasks_shorten bounded_shorten shorten_effect)
qed

lemma ok_mark:
  assumes "sup_ok m"
  shows "sup_ok (mark_timed_out now t m)"
proof -
  have same: "members (mark_timed_out now t m) = members m" "hold_count (mark_timed_out now t m) = hold_count m"
    using members_cong [OF deadline_steps_view(3) [of now t m]] by simp_all
  have "holds_ok [] (mark_timed_out now t m)"
    using assms holds_cong [of "mark_timed_out now t m" m "[]"] same by (simp add: sup_ok_def)
  with assms show ?thesis
    using bounded_cong [OF mark_effect(1) [of now t m]] members_ok_tracked [OF mark_effect(1) same(1)]
    by (simp add: sup_ok_def tasks_mark mark_effect)
qed

lemma ok_expired:
  assumes "sup_ok m"
  shows "sup_ok (deadline_expired now t m)"
proof -
  have same: "members (deadline_expired now t m) = members m" "hold_count (deadline_expired now t m) = hold_count m"
    using members_cong [OF deadline_steps_view(5) [of now t m]] by simp_all
  have tr: "tracked (deadline_expired now t m) = tracked m"
    and "shutdown_deadline (deadline_expired now t m) = shutdown_deadline m"
    by (simp_all add: deadline_expired_def mark_effect)
  moreover have "holds_ok [] (deadline_expired now t m)"
    using assms holds_cong [of "deadline_expired now t m" m "[]"] same by (simp add: sup_ok_def)
  ultimately show ?thesis
    using assms bounded_cong [OF tr] members_ok_tracked [OF tr same(1)] by (simp add: sup_ok_def tasks_expired)
qed

text \<open>Tracking.\<close>

lemma task_view_fold_add [simp]: "task_view (fold (add_task_to_group t) gs m) = task_view m"
  by (rule fold_same) simp

lemma hold_view_fold_add [simp]: "hold_view (fold (add_task_to_group t) gs m) = hold_view m"
  by (rule fold_same) simp

lemma task_viewD:
  assumes "task_view m' = task_view m"
  shows "tracked m' = tracked m" "deadline_handles m' = deadline_handles m" "timed_out m' = timed_out m"
    "shutdown_deadline m' = shutdown_deadline m" "task_status m' = task_status m"
  using assms by (simp_all add: task_view_def)

lemma ok_track_new:
  assumes ok: "sup_ok m" and new: "dict_get (tracked m) t = None"
    and bound: "case shutdown_deadline m of None \<Rightarrow> True | Some d \<Rightarrow> deadline \<le> d"
  shows "sup_ok (track_new now t kind deadline scope m)"
proof -
  define gs where "gs = (case scope of Some sc \<Rightarrow> ownership_groups sc | None \<Rightarrow> [next_group m])"
  define x where "x = \<lparr>cleanup_kind = canonical_kind kind, cleanup_started = now, cleanup_deadline = deadline,
    cleanup_group = (case scope of Some sc \<Rightarrow> scope_group sc | None \<Rightarrow> next_group m), cleanup_groups = gs\<rparr>"
  define n where "n = m\<lparr>next_group := (if scope = None then Suc (next_group m) else next_group m), tracked := dict_set t x (tracked m)\<rparr>"
  define k where "k = fold (add_task_to_group t) gs n"
  define l where "l = k\<lparr>deadline_handles := dict_set t (now + max 0 (deadline - now)) (deadline_handles k)\<rparr>"
  have l: "track_new now t kind deadline scope m = publish_cleanups l"
    by (simp add: track_new_def Let_def l_def k_def n_def x_def gs_def)
  have k: "tracked k = dict_set t x (tracked m)" "deadline_handles k = deadline_handles m" "timed_out k = timed_out m"
    "shutdown_deadline k = shutdown_deadline m" "task_status k = task_status m"
    using task_viewD [of k n] by (simp_all add: k_def, simp_all add: n_def)
  have same: "members n = members m" "hold_count n = hold_count m" "hold_view n = hold_view m"
    by (simp_all add: n_def members_def hold_count_def hold_view_def fun_eq_iff)
  have mem: "set (members l g) = set (members m g) \<union> (if g \<in> set gs then {t} else {})" and
    holds: "hold_count l = hold_count m" "hold_view l = hold_view m" for g
    using members_fold_add [of t gs n] hold_view_fold_add [of t gs n] unfolding k_def [symmetric] same
    by (simp_all add: l_def members_def hold_count_def hold_view_def fun_eq_iff)
  have absent: "t \<notin> set (members m g)" for g using ok new by (simp add: sup_ok_def members_ok_def)
  have gx: "cleanup_groups x = gs" "cleanup_deadline x = deadline" by (simp_all add: x_def)
  have "members_ok l"
    using ok absent unfolding members_ok_def mem by (auto simp: l_def k gx sup_ok_def members_ok_def split: option.splits)
  moreover have "holds_ok [] l" using ok holds_cong [OF holds(2,1), of "[]"] by (simp add: sup_ok_def)
  moreover have "tasks_ok l"
    using ok by (auto simp: sup_ok_def tasks_ok_def armed_def l_def k)
  moreover have "bounded_by (shutdown_deadline l) l"
    using ok bound by (auto simp: sup_ok_def bounded_by_def l_def k gx split: option.splits)
  ultimately have "sup_ok l" by (simp add: sup_ok_def)
  moreover have "sup_ok (publish_cleanups l) = sup_ok l"
    using members_cong [of "publish_cleanups l" l] by (intro sup_ok_cong) simp_all
  ultimately show ?thesis by (simp add: l)
qed

lemma shorten_hold [simp]: "hold_count (shorten_deadline now t d m) = hold_count m" "members (shorten_deadline now t d m) = members m"
  using members_cong [OF deadline_steps_view(1) [of now t d m]] by simp_all

lemma ok_track_again:
  assumes ok: "sup_ok m" and x: "dict_get (tracked m) t = Some x"
  shows "sup_ok (track_again now t x deadline scope m)"
proof -
  define n where "n = (if deadline < cleanup_deadline x then shorten_deadline now t deadline m else m)"
  define y where "y = (if deadline < cleanup_deadline x then x\<lparr>cleanup_deadline := deadline\<rparr> else x)"
  have n: "sup_ok n" using ok ok_shorten [OF ok] by (simp add: n_def)
  have y: "dict_get (tracked n) t = Some y" using x by (simp add: n_def y_def shorten_effect)
  show ?thesis
  proof (cases scope)
    case None
    then show ?thesis using n by (simp add: track_again_def n_def)
  next
    case (Some sc)
    define new where "new = filter (\<lambda>g. g \<notin> set (cleanup_groups y)) (ownership_groups sc)"
    show ?thesis
    proof (cases "new = []")
      case True
      then have "track_again now t x deadline scope m = n"
        using Some by (simp only: track_again_def n_def [symmetric] y_def [symmetric] Let_def new_def [symmetric] option.case simp_thms if_True)
      then show ?thesis using n by simp
    next
      case False
      define k where "k = n\<lparr>tracked := dict_set t (y\<lparr>cleanup_groups := cleanup_groups y @ new\<rparr>) (tracked n)\<rparr>"
      define l where "l = fold (add_task_to_group t) new k"
      have l: "track_again now t x deadline scope m = l"
        using Some False by (simp only: track_again_def n_def [symmetric] y_def [symmetric] Let_def new_def [symmetric]
            option.case if_False k_def [symmetric] l_def [symmetric])
      have same: "members k = members n" "hold_count k = hold_count n" "hold_view k = hold_view n"
        by (simp_all add: k_def members_def hold_count_def hold_view_def fun_eq_iff)
      have lk: "tracked l = dict_set t (y\<lparr>cleanup_groups := cleanup_groups y @ new\<rparr>) (tracked n)"
        "deadline_handles l = deadline_handles n" "timed_out l = timed_out n"
        "shutdown_deadline l = shutdown_deadline n" "task_status l = task_status n"
        using task_viewD [of l k] by (simp_all add: l_def, simp_all add: k_def)
      have mem: "set (members l g) = set (members n g) \<union> (if g \<in> set new then {t} else {})"
        and holds: "hold_count l = hold_count n" "hold_view l = hold_view n" for g
        using members_fold_add [of t new k] hold_view_fold_add [of t new k] unfolding l_def same by simp_all
      have "members_ok l"
        using n y unfolding members_ok_def mem lk by (auto simp: sup_ok_def members_ok_def split: option.splits)
      moreover have "holds_ok [] l" using n holds_cong [OF holds(2,1), of "[]"] by (simp add: sup_ok_def)
      moreover have "tasks_ok l"
        using n dict_get_Some_has [OF y] by (auto simp: sup_ok_def tasks_ok_def armed_def lk)
      moreover have "bounded_by (shutdown_deadline l) l"
        using n y by (auto simp: sup_ok_def bounded_by_def lk split: option.splits)
      ultimately show ?thesis by (simp add: sup_ok_def l)
    qed
  qed
qed

definition track_limit :: "time option \<Rightarrow> supervisor \<Rightarrow> time" where
  "track_limit timeout m = (case timeout of None \<Rightarrow> default_timeout m | Some s \<Rightarrow> s)"

definition inherited_scope :: "nat option \<Rightarrow> cleanup_scope option \<Rightarrow> supervisor \<Rightarrow> cleanup_scope option" where
  "inherited_scope current scope m = (case scope of None \<Rightarrow> current_scope current m | Some sc \<Rightarrow> Some sc)"

definition track_deadline :: "time \<Rightarrow> nat option \<Rightarrow> time option \<Rightarrow> cleanup_scope option \<Rightarrow> supervisor \<Rightarrow> time" where
  "track_deadline now current timeout scope m =
     (let scoped = (case inherited_scope current scope m of None \<Rightarrow> now + track_limit timeout m
        | Some sc \<Rightarrow> min (now + track_limit timeout m) (scope_deadline sc)) in
      case shutdown_deadline m of None \<Rightarrow> scoped | Some d \<Rightarrow> min scoped d)"

definition track_effect :: "time \<Rightarrow> nat option \<Rightarrow> nat \<Rightarrow> string \<Rightarrow> time option \<Rightarrow> cleanup_scope option \<Rightarrow> supervisor \<Rightarrow> supervisor" where
  "track_effect now current t kind timeout scope m =
     (let d = track_deadline now current timeout scope m; sc = inherited_scope current scope m in
      case dict_get (tracked m) t of Some x \<Rightarrow> track_again now t x d sc m | None \<Rightarrow> track_new now t kind d sc m)"

lemma track_cases:
  "track now current t kind timeout scope m =
     (if track_limit timeout m \<le> 0 then (Inl (ValueError ''cleanup timeout must be greater than zero''), m)
      else (Inr t, track_effect now current t kind timeout scope m))"
  unfolding track_def track_limit_def inherited_scope_def track_deadline_def track_effect_def Let_def
  by (cases "dict_get (tracked m) t") (simp_all add: skip_then_apply)

lemma track_deadline_bound: "case shutdown_deadline m of None \<Rightarrow> True | Some b \<Rightarrow> track_deadline now current timeout scope m \<le> b"
  by (simp add: track_deadline_def Let_def split: option.split)

lemma ok_track_effect: "sup_ok m \<Longrightarrow> sup_ok (track_effect now current t kind timeout scope m)"
  using track_deadline_bound [where m = m and now = now and current = current and timeout = timeout and scope = scope]
    ok_track_new ok_track_again
  by (auto simp: track_effect_def Let_def split: option.split)

lemma events_track_again: "events_ok W m \<Longrightarrow> events_ok W (track_again now t x d sc m)"
proof -
  have shorten: "events_ok W (shorten_deadline now t d m) = events_ok W m"
    by (rule events_cong) simp
  have same: "events_ok W (n\<lparr>tracked := tr\<rparr>) = events_ok W n" for n tr
    by (rule events_cong) (simp add: group_view_def)
  assume "events_ok W m"
  with shorten show ?thesis
    by (auto simp: track_again_def Let_def same split: option.split intro!: events_fold_add)
qed

lemma events_track_new: "events_ok W m \<Longrightarrow> events_ok W (track_new now t kind d sc m)"
proof -
  have same: "events_ok W (n\<lparr>next_group := g, tracked := tr\<rparr>) = events_ok W n"
    "events_ok W (n\<lparr>deadline_handles := h\<rparr>) = events_ok W n" for n g tr h
    by (rule events_cong, simp add: group_view_def)+
  have publish: "events_ok W (publish_cleanups n) = events_ok W n" for n
    by (rule events_cong) simp
  assume "events_ok W m"
  then show ?thesis by (simp only: track_new_def Let_def same publish events_fold_add)
qed

lemma events_track_effect: "events_ok W m \<Longrightarrow> events_ok W (track_effect now current t kind timeout scope m)"
  by (auto simp: track_effect_def Let_def events_track_again events_track_new split: option.split)

section \<open>Each section keeps the invariant\<close>

definition section_ok :: "(nat \<times> nat) list \<Rightarrow> supervisor \<Rightarrow> bool" where
  "section_ok W m \<longleftrightarrow> events_ok W m \<and> sup_ok m"

lemma section_cong:
  assumes "task_view m' = task_view m" "group_view m' = group_view m" "hold_view m' = hold_view m"
  shows "section_ok W m' = section_ok W m"
  using assms events_cong [OF assms(2)] sup_ok_cong [of m' m] members_cong [OF assms(2)] by (simp add: section_ok_def)

lemma keeps_track [keeps_intros]: "keeps (section_ok W) (track now current t kind timeout scope)"
  by (rule keepsI) (simp add: track_cases section_ok_def ok_track_effect events_track_effect)

lemma section_mark: "section_ok W m \<Longrightarrow> section_ok W (mark_timed_out now t m)"
  using events_cong [OF deadline_steps_view(3)] by (simp add: section_ok_def ok_mark)

lemma section_expired: "section_ok W m \<Longrightarrow> section_ok W (deadline_expired now t m)"
  using events_cong [OF deadline_steps_view(5)] by (simp add: section_ok_def ok_expired)

lemma section_shorten: "section_ok W m \<Longrightarrow> section_ok W (shorten_deadline now t d m)"
  using events_cong [OF deadline_steps_view(1)] by (simp add: section_ok_def ok_shorten)

lemma section_waiters: "section_ok W (m\<lparr>run_waiters := f\<rparr>) = section_ok W m"
  by (rule section_cong) (simp_all add: task_view_def group_view_def hold_view_def)

lemma section_discard:
  assumes "section_ok W m" "task_done m t"
  shows "section_ok W (m\<lparr>timed_out := set_discard t (timed_out m)\<rparr>)"
proof -
  let ?n = "m\<lparr>timed_out := set_discard t (timed_out m)\<rparr>"
  have "events_ok W ?n = events_ok W m" by (rule events_cong) (simp add: group_view_def)
  moreover have "members_ok ?n = members_ok m" "holds_ok [] ?n = holds_ok [] m" "bounded_by d ?n = bounded_by d m" for d
    by (rule members_ok_tracked holds_cong bounded_cong; simp add: members_def hold_count_def hold_view_def fun_eq_iff)+
  moreover have "armed ?n u" if "armed m u" for u
    using that assms(2) by (cases "u = t") (auto simp: armed_def task_done_def)
  ultimately show ?thesis using assms(1) by (auto simp: section_ok_def sup_ok_def tasks_ok_def)
qed

lemma keeps_run_leave [keeps_intros]: "keeps (section_ok W) (run_leave t)"
  by (rule keepsI) (auto simp: run_leave_def Let_def skip_then_apply section_waiters task_done_def
      intro!: section_discard [of W "m\<lparr>run_waiters := f\<rparr>" for m f, simplified])

lemma keeps_run_begin [keeps_intros]: "keeps (section_ok W) (run_begin now current t kind timeout scope)"
proof -
  have "keeps (section_ok W) (modify (\<lambda>m. m\<lparr>run_waiters := f m\<rparr>))" for f
    by (rule keeps_modify) (simp add: section_waiters)
  then show ?thesis unfolding run_begin_def Let_def by (intro keeps_intros)
qed

lemma keeps_run_end [keeps_intros]: "keeps (section_ok W) (run_end now t kind shown)"
proof -
  have "keeps (section_ok W) (modify (mark_timed_out now t))" by (rule keeps_modify) (rule section_mark)
  then show ?thesis
    unfolding run_end_def Let_def by (intro keeps_intros) (auto intro!: keeps_intros split: task_end.split)
qed

lemma section_ends:
  assumes "section_ok W m" and "task_status m t = None"
  shows "section_ok W (m\<lparr>task_status := (task_status m)(t \<mapsto> r)\<rparr>)"
proof -
  let ?n = "m\<lparr>task_status := (task_status m)(t \<mapsto> r)\<rparr>"
  have "events_ok W ?n = events_ok W m" by (rule events_cong) (simp add: group_view_def)
  moreover have "members_ok ?n = members_ok m" "holds_ok [] ?n = holds_ok [] m" "bounded_by d ?n = bounded_by d m" for d
    by (rule members_ok_tracked holds_cong bounded_cong; simp add: members_def hold_count_def hold_view_def fun_eq_iff)+
  moreover have "armed ?n u" if "armed m u" for u
    using that by (auto simp: armed_def)
  ultimately show ?thesis using assms(1) by (auto simp: section_ok_def sup_ok_def tasks_ok_def)
qed

text \<open>The end of a task takes it out of its groups.\<close>

lemma section_finished:
  assumes ok: "section_ok W m" and ended: "task_status m t = Some r"
  shows "section_ok W (task_finished now t r m)"
proof (cases "dict_get (tracked m) t")
  case None
  then show ?thesis using ok by (simp add: task_finished_def)
next
  case (Some x)
  define n where "n = m\<lparr>tracked := dict_del t (tracked m), deadline_handles := dict_del t (deadline_handles m)\<rparr>"
  define k where "k = (if t \<in> set (timed_out n)
    then (if (case run_waiters n t of None \<Rightarrow> 0 | Some k \<Rightarrow> k) = 0 then n\<lparr>timed_out := set_discard t (timed_out n)\<rparr> else n)
    else cleanup_note (CleanupRecorded t (cleanup_kind x) (task_result r) (max 0 (now - cleanup_started x))) n)"
  define l where "l = fold (group_task_finished t) (cleanup_groups x) k"
  have eq: "task_finished now t r m = publish_cleanups l"
    using Some by (simp only: task_finished_def option.case Let_def n_def [symmetric] k_def [symmetric] l_def [symmetric])
  have grp: "group_view k = group_view m" and hold: "hold_view k = hold_view m"
    by (auto simp: k_def n_def group_view_def hold_view_def cleanup_note_def)
  have k: "tracked k = dict_del t (tracked m)" "deadline_handles k = dict_del t (deadline_handles m)"
    "shutdown_deadline k = shutdown_deadline m" "task_status k = task_status m"
    "set (timed_out m) - {t} \<subseteq> set (timed_out k)"
    by (auto simp: k_def n_def cleanup_note_def)
  have tl: "task_view l = task_view k" "hold_view l = hold_view k"
    unfolding l_def by (rule fold_same, simp)+
  note l = task_viewD [OF tl(1), unfolded k]
  have mem: "set (members l g) = set (members m g) - (if g \<in> set (cleanup_groups x) then {t} else {})"
    and count: "hold_count l = hold_count m" for g
    using members_fold_finished [of t "cleanup_groups x" k] members_cong [OF grp] unfolding l_def by simp_all
  have "members_ok l"
    using ok Some unfolding members_ok_def mem l
    by (auto simp: section_ok_def sup_ok_def members_ok_def split: option.splits)
  moreover have "holds_ok [] l"
    using ok holds_cong [of l m "[]"] count tl hold by (simp add: section_ok_def sup_ok_def)
  moreover have "tasks_ok l"
    using ok k(5) unfolding section_ok_def sup_ok_def tasks_ok_def armed_def l by auto
  moreover have "bounded_by (shutdown_deadline l) l"
    using ok by (auto simp: section_ok_def sup_ok_def bounded_by_def l split: option.splits)
  moreover have "events_ok W l"
    unfolding l_def using ok events_cong [OF grp] by (intro events_fold_finished) (simp add: section_ok_def)
  ultimately have "section_ok W l" by (simp add: section_ok_def sup_ok_def)
  moreover have "section_ok W (publish_cleanups l) = section_ok W l" by (rule section_cong) simp_all
  ultimately show ?thesis by (simp add: eq)
qed

text \<open>Holds.\<close>

lemma sum_upt_take:
  "h < (n::nat) \<Longrightarrow> sum_list (map f [0..<n]) = (f h :: nat) + sum_list (map (\<lambda>i. if i = h then 0 else f i) [0..<n])"
proof (induction n)
  case (Suc n)
  show ?case
  proof (cases "h = n")
    case True
    have "sum_list (map (\<lambda>i. if i = n then 0 else f i) [0..<n]) = sum_list (map f [0..<n])"
      by (rule arg_cong [of _ _ sum_list]) auto
    with True show ?thesis by simp
  qed (use Suc in simp)
qed simp

lemma holds_retain:
  assumes ok: "holds_ok [] m"
  shows "holds_ok [] ((fold hold_group gs m)
    \<lparr>holds_heap := (holds_heap m)(next_hold m := \<lparr>hold_groups = gs, hold_released = False\<rparr>), next_hold := Suc (next_hold m)\<rparr>)"
    (is "holds_ok [] ?k")
proof -
  have "hold_count ?k g = hold_count (fold hold_group gs m) g" for g by (simp add: hold_count_def)
  moreover have "sum_list (map (\<lambda>h. if hold_released (holds_heap ?k h) then 0 else count_list (hold_groups (holds_heap ?k h)) g) [0..<next_hold m])
      = sum_list (map (\<lambda>h. if hold_released (holds_heap m h) then 0 else count_list (hold_groups (holds_heap m h)) g) [0..<next_hold m])" for g
    by (rule arg_cong [of _ _ sum_list]) auto
  ultimately show ?thesis
    using ok by (simp add: holds_ok_def members_fold_hold)
qed

lemma keeps_retain [keeps_intros]: "keeps (section_ok W) (retain_scope sc)"
proof (rule keepsI)
  fix m assume ok: "section_ok W m"
  let ?f = "fold hold_group (ownership_groups sc) m"
  let ?k = "?f\<lparr>holds_heap := (holds_heap m)(next_hold m := \<lparr>hold_groups = ownership_groups sc, hold_released = False\<rparr>),
    next_hold := Suc (next_hold m)\<rparr>"
  have f: "task_view ?f = task_view m" "hold_view ?f = hold_view m" by (rule fold_same, simp)+
  then have heap: "holds_heap ?f = holds_heap m" "next_hold ?f = next_hold m" by (simp_all add: hold_view_def)
  have tk: "task_view ?k = task_view m" using f(1) by (simp add: task_view_def)
  have mem: "members ?k = members m" using members_fold_hold(1) [of "ownership_groups sc" m]
    by (simp add: members_def fun_eq_iff)
  have "events_ok W ?k = events_ok W ?f" by (rule events_cong) (simp add: group_view_def)
  then have "events_ok W ?k" using ok events_fold_hold [of W m] by (simp add: section_ok_def)
  moreover have "members_ok ?k = members_ok m" by (rule members_ok_cong [OF tk mem])
  moreover have "holds_ok [] ?k" using ok by (intro holds_retain) (simp add: section_ok_def sup_ok_def)
  moreover have "tasks_ok ?k = tasks_ok m" "bounded_by d ?k = bounded_by d m" for d
    using tasks_cong [OF tk] by blast+
  moreover have "shutdown_deadline ?k = shutdown_deadline m" by (rule task_viewD [OF tk])
  ultimately have "section_ok W ?k" using ok by (simp add: section_ok_def sup_ok_def)
  then show "section_ok W (snd (retain_scope sc m))"
    by (simp add: retain_scope_def skip_then_apply heap)
qed

text \<open>Releasing a hold counts its groups down; the accounting never underflows.\<close>

lemma release_groups:
  assumes "events_ok W m" "members_ok m" "holds_ok gs m"
  shows "\<exists>k. for_each release_scope_hold gs m = (Inr (), k) \<and> events_ok W k \<and> members_ok k \<and> holds_ok [] k \<and> task_view k = task_view m"
  using assms
proof (induction gs arbitrary: m)
  case (Cons g gs)
  define n where "n = m\<lparr>group_holds := (group_holds m)(g := (if hold_count m g = 1 then None else Some (hold_count m g - 1)))\<rparr>"
  let ?k = "finish_group_if_idle g n"
  have pos: "hold_count m g > 0" using Cons.prems(3) by (auto simp: holds_ok_def)
  have n: "hold_count n = (hold_count m)(g := hold_count m g - 1)" "members n = members m"
    "group_events n = group_events m" "event_set n = event_set m" "next_event n = next_event m"
    "task_view n = task_view m" "hold_view n = hold_view m"
    using pos by (auto simp: n_def task_view_def hold_view_def hold_count_def members_def fun_eq_iff split: option.splits)
  have busy: "busy n g' = busy m g'" if "g' \<noteq> g" for g' using that n by (simp add: busy_def)
  have "busy m g" using pos by (simp add: busy_def)
  then have ev: "events_ok W ?k" by (intro events_finish [OF Cons.prems(1)]) (simp_all add: busy n)
  have tk: "task_view ?k = task_view m" and hv: "hold_view ?k = hold_view m"
    by (simp_all add: n)
  have mem: "members_ok ?k" using members_ok_cong [OF tk] Cons.prems(2) n(2) by simp
  have "hold_count ?k = (hold_count m)(g := hold_count m g - 1)" using n by simp
  then have "holds_ok gs ?k"
    using Cons.prems(3) hv pos unfolding holds_ok_def hold_view_def by (auto cong: if_cong split: if_splits)
  from Cons.IH [OF ev mem this] obtain k where k: "for_each release_scope_hold gs ?k = (Inr (), k)" "events_ok W k"
    "members_ok k" "holds_ok [] k" "task_view k = task_view m" using tk by auto
  have "release_scope_hold g m = (Inr (), ?k)" using pos by (simp add: release_scope_hold_def Let_def n_def)
  with k show ?case by (auto simp: skip_then_apply)
qed auto

lemma release_hold_run:
  assumes ok: "section_ok W m" and h: "h < next_hold m"
  shows "\<exists>k. release_hold h m = (Inr (), k) \<and> section_ok W k"
proof (cases "hold_released (holds_heap m h)")
  case True
  then show ?thesis using ok by (simp add: release_hold_def)
next
  case False
  let ?gs = "hold_groups (holds_heap m h)"
  let ?n = "m\<lparr>holds_heap := (holds_heap m)(h := (holds_heap m h)\<lparr>hold_released := True\<rparr>)\<rparr>"
  have tk: "task_view ?n = task_view m" and grp: "group_view ?n = group_view m"
    by (simp_all add: task_view_def group_view_def)
  have "events_ok W ?n" using ok events_cong [OF grp] by (simp add: section_ok_def)
  moreover have "members_ok ?n" using ok members_ok_cong [OF tk] members_cong [OF grp] by (simp add: section_ok_def sup_ok_def)
  moreover have "holds_ok ?gs ?n"
  proof -
    let ?f = "\<lambda>g i. if hold_released (holds_heap m i) then 0 else count_list (hold_groups (holds_heap m i)) g"
    have "sum_list (map (?f g) [0..<next_hold m]) = count_list ?gs g
      + sum_list (map (\<lambda>i. if hold_released (holds_heap ?n i) then 0 else count_list (hold_groups (holds_heap ?n i)) g) [0..<next_hold m])" for g
      unfolding sum_upt_take [OF h, of "?f g"] using False
      by (simp cong: if_cong) (rule arg_cong [of _ _ sum_list], auto)
    moreover have "hold_count ?n = hold_count m" using members_cong [OF grp] by simp
    ultimately show ?thesis using ok by (simp add: section_ok_def sup_ok_def holds_ok_def)
  qed
  ultimately obtain k where k: "for_each release_scope_hold ?gs ?n = (Inr (), k)" "events_ok W k" "members_ok k" "holds_ok [] k"
    "task_view k = task_view ?n" using release_groups by blast
  have "release_hold h m = (Inr (), k)" using False k(1) by (simp add: release_hold_def skip_then_apply)
  moreover have "section_ok W k"
    using k tasks_cong [of k m] task_viewD(4) [of k m] tk ok by (simp add: section_ok_def sup_ok_def)
  ultimately show ?thesis by blast
qed

text \<open>Closing shortens every deadline to that of the shutdown.\<close>

lemma section_cancel: "section_ok W m \<Longrightarrow> section_ok W (cancel_tracked now d t m)"
proof -
  assume "section_ok W m"
  then have "section_ok W (shorten_deadline now t d m)" by (rule section_shorten)
  moreover have "section_ok W (cancel_tracked now d t m) = section_ok W (shorten_deadline now t d m)"
    by (rule section_cong) (simp_all add: cancel_tracked_def)
  ultimately show ?thesis by simp
qed

lemma section_fold: "(\<And>x m. section_ok W m \<Longrightarrow> section_ok W (f x m)) \<Longrightarrow> section_ok W m \<Longrightarrow> section_ok W (fold f xs m)"
  by (induction xs arbitrary: m) auto

lemma keeps_close_turn [keeps_intros]: "keeps (section_ok W) (close_supervisor_turn now)"
proof -
  have "keeps (section_ok W) (modify (fold (cancel_tracked now d) ts))" for d ts
    by (rule keeps_modify) (rule section_fold [OF section_cancel])
  then show ?thesis unfolding close_supervisor_turn_def Let_def by (intro keeps_intros)
qed

lemma keeps_close_check [keeps_intros]: "keeps (section_ok W) (close_supervisor_check now)"
proof -
  have "keeps (section_ok W) (modify (fold (mark_timed_out now) ts))" for ts
    by (rule keeps_modify) (rule section_fold [OF section_mark])
  then show ?thesis unfolding close_supervisor_check_def by (intro keeps_intros)
qed

lemma cancel_deadlines:
  "dict_get (tracked (fold (cancel_tracked now d) ts m)) t = map_option (\<lambda>x.
     if t \<in> set ts \<and> d < cleanup_deadline x then x\<lparr>cleanup_deadline := d\<rparr> else x) (dict_get (tracked m) t)"
proof (induction ts arbitrary: m t)
  case (Cons u ts)
  have "tracked (cancel_tracked now d u m) = tracked (shorten_deadline now u d m)"
    by (simp add: cancel_tracked_def cleanup_note_def)
  then show ?case
    by (cases "dict_get (tracked m) t"; cases "dict_get (tracked m) u"; cases "t = u")
      (auto simp: Cons.IH shorten_effect)
qed (simp add: option.map_ident)

lemma cancel_shutdown: "shutdown_deadline (fold (cancel_tracked now d) ts m) = shutdown_deadline m"
proof -
  have "shutdown_deadline (cancel_tracked now d t k) = shutdown_deadline k" for t k
    by (simp add: cancel_tracked_def cleanup_note_def shorten_effect)
  then show ?thesis by (induction ts arbitrary: m) simp_all
qed

definition loosely_ok :: "(nat \<times> nat) list \<Rightarrow> supervisor \<Rightarrow> bool" where
  "loosely_ok W m \<longleftrightarrow> events_ok W m \<and> members_ok m \<and> holds_ok [] m \<and> tasks_ok m"

lemma loosely_cancel: "loosely_ok W m \<Longrightarrow> loosely_ok W (cancel_tracked now d t m)"
proof -
  assume ok: "loosely_ok W m"
  let ?n = "shorten_deadline now t d m"
  have "loosely_ok W ?n"
    using ok events_cong [OF deadline_steps_view(1)] holds_cong [of ?n m "[]"]
    by (simp add: loosely_ok_def members_shorten tasks_shorten)
  moreover have same: "task_view (cancel_tracked now d t m) = task_view ?n" "group_view (cancel_tracked now d t m) = group_view ?n"
    "hold_view (cancel_tracked now d t m) = hold_view ?n" by (simp_all add: cancel_tracked_def)
  ultimately show ?thesis
    using events_cong [OF same(2)] members_cong [OF same(2)] members_ok_cong [OF same(1)] holds_cong [OF same(3)]
      tasks_cong [OF same(1)] by (simp add: loosely_ok_def)
qed

lemma keeps_close_supervisor: "keeps (section_ok W) (skip_then (close_supervisor_begin now timeout) (close_supervisor_turn now))"
proof (rule keepsI)
  fix m assume ok: "section_ok W m"
  define d where "d = (case shutdown_deadline m of None \<Rightarrow> now + track_limit timeout m | Some b \<Rightarrow> min b (now + track_limit timeout m))"
  define n where "n = m\<lparr>shutdown_deadline := Some d\<rparr>"
  show "section_ok W (snd (skip_then (close_supervisor_begin now timeout) (close_supervisor_turn now) m))"
  proof (cases "track_limit timeout m < 0")
    case True
    then show ?thesis using ok by (simp add: close_supervisor_begin_def skip_then_apply track_limit_def)
  next
    case False
    then have started: "close_supervisor_begin now timeout m = (Inr (), n)"
      unfolding n_def d_def track_limit_def by (simp add: close_supervisor_begin_def Let_def)
    have "events_ok W n = events_ok W m" by (rule events_cong) (simp add: n_def group_view_def)
    moreover have "members_ok n = members_ok m" "holds_ok [] n = holds_ok [] m" "tasks_ok n = tasks_ok m"
      by (simp_all add: n_def members_ok_def members_def holds_ok_def hold_count_def tasks_ok_def armed_def cong: if_cong)
    ultimately have loose: "loosely_ok W n" using ok by (simp add: section_ok_def sup_ok_def loosely_ok_def)
    define k where "k = fold (cancel_tracked now d) (map fst (tracked m)) n"
    have "loosely_ok W k"
      unfolding k_def using loose by (rule fold_invariant [where Q = "\<lambda>_. True", rotated]) (simp_all add: loosely_cancel)
    moreover have "bounded_by (shutdown_deadline k) k"
    proof -
      have "cleanup_deadline y \<le> d" if y: "dict_get (tracked k) t = Some y" for t y
      proof -
        obtain x where x: "dict_get (tracked n) t = Some x"
          and y': "y = (if t \<in> set (map fst (tracked m)) \<and> d < cleanup_deadline x then x\<lparr>cleanup_deadline := d\<rparr> else x)"
          using y cancel_deadlines [of now d "map fst (tracked m)" n t] by (auto simp: k_def)
        have "t \<in> set (map fst (tracked m))"
          using dict_get_Some_has [OF x] by (simp add: n_def dict_has_def)
        then show ?thesis using y' by auto
      qed
      moreover have "shutdown_deadline k = Some d" by (simp add: k_def cancel_shutdown, simp add: n_def)
      ultimately show ?thesis by (simp add: bounded_by_def)
    qed
    ultimately have "section_ok W k" by (simp add: section_ok_def sup_ok_def loosely_ok_def)
    moreover have "section_ok W n" if "tracked m = []"
      using loose that by (simp add: section_ok_def sup_ok_def loosely_ok_def bounded_by_def n_def)
    moreover have "snd (close_supervisor_turn now n) = (if tracked m = [] then n else k)"
      by (simp add: close_supervisor_turn_def Let_def skip_then_apply k_def, simp add: n_def)
    ultimately show ?thesis using started by (simp add: skip_then_apply)
  qed
qed

text \<open>A waiter that leaves.\<close>

lemma events_fewer: "events_ok W m \<Longrightarrow> set V \<subseteq> set W \<Longrightarrow> events_ok V m"
  unfolding events_ok_def by blast

lemma cleanup_step_ok:
  assumes ok: "section_ok (group_waiters s) (cleanups s)" and step: "cleanup_step s s'"
  shows "section_ok (group_waiters s') (cleanups s')"
  using step
proof cases
  case (cs_wait g r k)
  then show ?thesis
    using ok events_wait [of "group_waiters s" "cleanups s" g r k] sup_ok_cong [of k "cleanups s"]
    by (auto simp: section_ok_def wait_on_def)
next
  case (cs_wake A g e B r k)
  then show ?thesis
    using ok events_wake [of "group_waiters s" "cleanups s" e g r k "A @ B"] sup_ok_cong [of k "cleanups s"]
    by (auto simp: section_ok_def wait_on_def)
next
  case (cs_wait_cancelled A x B)
  then show ?thesis
    using ok events_fewer [of "group_waiters s" "cleanups s" "A @ B"] by (auto simp: section_ok_def)
next
  case (cs_release h)
  then show ?thesis using release_hold_run [OF ok] by force
qed (use ok in \<open>auto intro!: keepsD keeps_intros keeps_close_supervisor section_ends section_finished section_expired\<close>)

interpretation cleanup_machine: invariant_machine cleanup_start cleanup_step "\<lambda>s. section_ok (group_waiters s) (cleanups s)"
proof unfold_locales
  fix s assume "cleanup_start s"
  then show "section_ok (group_waiters s) (cleanups s)"
    by (auto simp: cleanup_start_def section_ok_def dest: cleanup_new)
qed (rule cleanup_step_ok)

section \<open>A supervisor to look at\<close>

definition demo_supervisor :: supervisor where
  "demo_supervisor = (case new_supervisor 10 of Inr m \<Rightarrow> m | Inl _ \<Rightarrow> undefined)"

definition demo_page_cleanup :: cleanup_machine where
  "demo_page_cleanup = \<lparr>cleanups = snd (run_begin 0 None 0 ''page'' None None demo_supervisor), group_waiters = []\<rparr>"

lemma demo_page_reach: "cleanup_reach demo_page_cleanup"
proof -
  let ?s = "\<lparr>cleanups = demo_supervisor, group_waiters = []\<rparr>"
  have "cleanup_reach ?s"
    by (rule reach_init) (auto simp: cleanup_start_def demo_supervisor_def new_supervisor_def intro!: exI [of _ 10])
  moreover have "cleanup_step ?s demo_page_cleanup"
    using cs_run_begin [of ?s 0 None 0 "''page''" None None] by (simp add: demo_page_cleanup_def)
  ultimately show ?thesis by (rule reach_step)
qed

lemmas cleanup_eval = demo_page_cleanup_def demo_supervisor_def new_supervisor_def run_begin_def track_def track_new_def
  publish_cleanups_def cleanup_note_def cleanup_snapshot_of_def add_task_to_group_def renew_event_def members_def hold_count_def
  busy_def skip_then_apply seq_apply Let_def current_scope_def wait_section_def wait_resume_def task_finished_def
  group_task_finished_def finish_group_if_idle_def set_discard_def set_add_def dict_del_def task_done_def mark_timed_out_def
  deadline_expired_def run_end_def run_leave_def task_result_def canonical_kind_def CLEANUP_KINDS_def try_finally_def

definition demo_waiting :: cleanup_machine where
  "demo_waiting = \<lparr>cleanups = snd (wait_section 0 (cleanups demo_page_cleanup)), group_waiters = [(0, 0)]\<rparr>"

lemma demo_waiting_reach: "cleanup_reach demo_waiting"
proof -
  obtain k where k: "wait_section 0 (cleanups demo_page_cleanup) = (Inr (Some 0), k)"
    by (simp add: cleanup_eval)
  have "group_waiters demo_page_cleanup = []" by (simp add: demo_page_cleanup_def)
  then have "cleanup_step demo_page_cleanup demo_waiting"
    using cs_wait [OF k] by (simp add: demo_waiting_def k wait_on_def)
  with demo_page_reach show ?thesis by (rule reach_step)
qed

definition demo_idle :: cleanup_machine where
  "demo_idle = demo_waiting\<lparr>cleanups := task_finished 1 0 TaskDone
     ((cleanups demo_waiting)\<lparr>task_status := (task_status (cleanups demo_waiting))(0 \<mapsto> TaskDone)\<rparr>)\<rparr>"

lemma demo_idle_reach: "cleanup_reach demo_idle"
proof -
  let ?s = "demo_waiting\<lparr>cleanups := (cleanups demo_waiting)\<lparr>task_status := (task_status (cleanups demo_waiting))(0 \<mapsto> TaskDone)\<rparr>\<rparr>"
  have "task_status (cleanups demo_waiting) 0 = None"
    by (simp add: demo_waiting_def cleanup_eval)
  then have "cleanup_step demo_waiting ?s" by (rule cs_ends)
  with demo_waiting_reach have "cleanup_reach ?s" by (rule reach_step)
  moreover have "cleanup_step ?s demo_idle"
    using cs_finished [of ?s 0 TaskDone 1] by (simp add: demo_idle_def)
  ultimately show ?thesis by (rule reach_step)
qed

section \<open>Properties\<close>

text \<open>C16.  No wake-up of a cleanup group is lost: a caller that waits for a group has been woken as soon as neither a
  task nor a hand-off of the group is left, however tasks, hand-offs and other waiters came and went; and a woken
  caller passes exactly when the group is still idle, and waits again otherwise.\<close>

theorem cleanup_waiter_woken:
  assumes "cleanup_reach s" and "(g, e) \<in> set (group_waiters s)"
  shows "(busy (cleanups s) g \<or> event_set (cleanups s) e)
    \<and> (fst (wait_resume g e (cleanups s)) = Inr None) = (\<not> busy (cleanups s) g)"
proof -
  have ok: "events_ok (group_waiters s) (cleanups s)"
    using cleanup_machine.inv_reach [OF assms(1)] by (simp add: section_ok_def)
  let ?n = "if group_events (cleanups s) g = Some e then (cleanups s)\<lparr>group_events := (group_events (cleanups s))(g := None)\<rparr>
    else cleanups s"
  have "busy ?n g = busy (cleanups s) g" by (simp add: busy_def members_def hold_count_def)
  then have "(fst (wait_resume g e (cleanups s)) = Inr None) = (\<not> busy (cleanups s) g)"
    by (auto simp: wait_resume_def wait_section_def skip_then_apply split: option.split)
  moreover have "busy (cleanups s) g \<or> event_set (cleanups s) e"
    using ok assms(2) unfolding events_ok_def by blast
  ultimately show ?thesis by simp
qed

lemma cleanup_waiter_woken_witness:
  "event_set (cleanups demo_idle) 0 \<and> fst (wait_resume 0 0 (cleanups demo_idle)) = Inr None"
proof -
  have "(0, 0) \<in> set (group_waiters demo_idle)" by (simp add: demo_idle_def demo_waiting_def)
  moreover have "\<not> busy (cleanups demo_idle) 0"
    by (simp add: demo_idle_def demo_waiting_def cleanup_eval)
  ultimately show ?thesis using cleanup_waiter_woken [OF demo_idle_reach] by blast
qed

text \<open>C17.  Ownership of background cleanups is exact: a group is busy just while a tracked task or an unreleased
  hand-off belongs to it, releasing a hand-off never underflows, every tracked task that has not ended has an armed
  timer or was timed out and so cancelled, and once a shutdown has begun no task may outlive its deadline.\<close>

theorem cleanup_ownership:
  assumes "cleanup_reach s"
  shows "(\<forall>g. busy (cleanups s) g =
       ((\<exists>t x. dict_get (tracked (cleanups s)) t = Some x \<and> g \<in> set (cleanup_groups x))
        \<or> (\<exists>h<next_hold (cleanups s). g \<in> set (hold_groups (holds_heap (cleanups s) h)) \<and> hold_released (holds_heap (cleanups s) h) = False)))
    \<and> (\<forall>h<next_hold (cleanups s). fst (release_hold h (cleanups s)) = Inr ())
    \<and> (\<forall>t x. dict_get (tracked (cleanups s)) t = Some x \<longrightarrow>
         (dict_has t (deadline_handles (cleanups s)) \<or> t \<in> set (timed_out (cleanups s)) \<or> task_done (cleanups s) t)
         \<and> (\<forall>d. shutdown_deadline (cleanups s) = Some d \<longrightarrow> cleanup_deadline x \<le> d))"
proof -
  let ?m = "cleanups s"
  have ok: "section_ok (group_waiters s) ?m" by (rule cleanup_machine.inv_reach [OF assms])
  have tasks: "t \<in> set (members ?m g) \<longleftrightarrow> (\<exists>x. dict_get (tracked ?m) t = Some x \<and> g \<in> set (cleanup_groups x))" for t g
    using ok by (auto simp: section_ok_def sup_ok_def members_ok_def split: option.splits)
  have holds: "0 < hold_count ?m g \<longleftrightarrow> (\<exists>h<next_hold ?m. g \<in> set (hold_groups (holds_heap ?m h)) \<and> hold_released (holds_heap ?m h) = False)" for g
  proof -
    have sum: "hold_count ?m g = sum_list (map (\<lambda>h. if hold_released (holds_heap ?m h) then 0
        else count_list (hold_groups (holds_heap ?m h)) g) [0..<next_hold ?m])"
      using ok by (simp add: section_ok_def sup_ok_def holds_ok_def)
    have "hold_count ?m g = 0 \<longleftrightarrow> (\<forall>h<next_hold ?m. hold_released (holds_heap ?m h) \<or> g \<notin> set (hold_groups (holds_heap ?m h)))"
      unfolding sum sum_list_eq_0_iff by (auto simp: count_list_0_iff image_iff ball_Un)
    then show ?thesis by (metis neq0_conv)
  qed
  have "busy ?m g \<longleftrightarrow> (\<exists>t. t \<in> set (members ?m g)) \<or> 0 < hold_count ?m g" for g
    by (auto simp: busy_def ex_in_conv)
  moreover have "fst (release_hold h ?m) = Inr ()" if "h < next_hold ?m" for h
    using release_hold_run [OF ok that] by force
  moreover have "armed ?m t" if "dict_get (tracked ?m) t = Some x" for t x
    using ok dict_get_Some_has [OF that] by (simp add: section_ok_def sup_ok_def tasks_ok_def)
  moreover have "cleanup_deadline x \<le> d" if "dict_get (tracked ?m) t = Some x" "shutdown_deadline ?m = Some d" for t x d
    using ok that by (auto simp: section_ok_def sup_ok_def bounded_by_def)
  ultimately show ?thesis by (auto simp: tasks holds armed_def task_done_def)
qed

lemma cleanup_ownership_witness:
  "busy (cleanups demo_page_cleanup) 0 \<and> (dict_has 0 (deadline_handles (cleanups demo_page_cleanup))
    \<or> 0 \<in> set (timed_out (cleanups demo_page_cleanup)) \<or> task_done (cleanups demo_page_cleanup) 0)"
proof -
  obtain x where "dict_get (tracked (cleanups demo_page_cleanup)) 0 = Some x \<and> 0 \<in> set (cleanup_groups x)"
    by (simp add: cleanup_eval)
  then show ?thesis using cleanup_ownership [OF demo_page_reach] by blast
qed

section \<open>An outcome reported twice\<close>

definition is_outcome :: "cleanup_event \<Rightarrow> bool" where
  "is_outcome e = (case e of CleanupRecorded t k r d \<Rightarrow> True | _ \<Rightarrow> False)"

text \<open>C18.  The outcome of one cleanup can be reported twice, against the comment in the code: the timer of the task
  fires and reports the timeout, the cancelled task ends, the caller's own wait, due at the same moment, resumes before
  the task's done callback and clears the mark of the timeout, and the callback then reports the cancellation as well.\<close>

theorem cleanup_outcome_reported_twice:
  "\<exists>s. cleanup_reach s \<and> filter is_outcome (cleanup_events (cleanups s)) =
     [CleanupRecorded 0 ''page'' ''timeout'' 10, CleanupRecorded 0 ''page'' ''cancelled'' 10]"
proof -
  define m0 where "m0 = cleanups demo_page_cleanup"
  define m1 where "m1 = deadline_expired 10 0 m0"
  define m2 where "m2 = m1\<lparr>task_status := (task_status m1)(0 \<mapsto> TaskCancelled)\<rparr>"
  define m3 where "m3 = snd (run_end 10 0 ''page'' ''1e-05'' m2)"
  define m4 where "m4 = task_finished 10 0 TaskCancelled m3"
  define at where "at m = \<lparr>cleanups = m, group_waiters = []\<rparr>" for m :: supervisor
  note evals = m4_def m3_def m2_def m1_def m0_def cleanup_eval
  have "dict_get (deadline_handles m0) 0 = Some 10" by (simp add: evals)
  then have 1: "cleanup_step (at m0) (at m1)"
    using cs_timer [of "at m0" 0 10 10] by (simp add: at_def m1_def)
  have "task_status m1 0 = None" by (simp add: evals)
  then have 2: "cleanup_step (at m1) (at m2)"
    using cs_ends [of "at m1" 0 TaskCancelled] by (simp add: at_def m2_def)
  have 3: "cleanup_step (at m2) (at m3)"
    using cs_run_end [of "at m2" 10 0 "''page''" "''1e-05''"] by (simp add: at_def m3_def)
  have "task_status m3 0 = Some TaskCancelled" by (simp add: evals)
  then have 4: "cleanup_step (at m3) (at m4)"
    using cs_finished [of "at m3" 0 TaskCancelled 10] by (simp add: at_def m4_def)
  have "demo_page_cleanup = at m0" by (simp add: at_def m0_def demo_page_cleanup_def)
  then have "cleanup_reach (at m0)" using demo_page_reach by simp
  then have "cleanup_reach (at m4)" using 1 2 3 4 by (meson reach_step)
  moreover have "filter is_outcome (cleanup_events (cleanups (at m4))) =
     [CleanupRecorded 0 ''page'' ''timeout'' 10, CleanupRecorded 0 ''page'' ''cancelled'' 10]"
    by (simp add: at_def is_outcome_def evals)
  ultimately show ?thesis by blast
qed

end
