(* ===== verification/Observability.thy ===== *)
theory Observability
  imports Collection
begin

text \<open>
  Request ids and the redaction of what is logged (\<open>camouflare/observability.py\<close>).  The three regular
  expressions are matchers on the text from a position; \<open>sub_all\<close> is \<open>Pattern.sub\<close>.  The uuid, the rendered
  traceback and the time stamp are arguments; JSON rendering and the handlers of the logging package are not modelled.
\<close>

section \<open>Request ids\<close>

definition MAX_REQUEST_ID_LENGTH :: nat where "MAX_REQUEST_ID_LENGTH = 128"

definition is_valid_request_id :: "string option \<Rightarrow> bool" where
  "is_valid_request_id value = (case value of None \<Rightarrow> False
     | Some s \<Rightarrow> s \<noteq> [] \<and> length s \<le> MAX_REQUEST_ID_LENGTH \<and> list_all (\<lambda>c. 32 \<le> ord c \<and> ord c \<le> 126) s)"

definition resolve_request_id :: "string \<Rightarrow> string option \<Rightarrow> string" where
  "resolve_request_id uuid candidate = (if is_valid_request_id candidate then the candidate else uuid)"

section \<open>URLs\<close>

definition REDACTED :: string where "REDACTED = ''<redacted>''"
definition REDACTED_URL :: string where "REDACTED_URL = ''<redacted-url>''"

definition plain_url :: "string \<Rightarrow> string \<Rightarrow> string \<Rightarrow> split_url" where
  "plain_url scheme authority path =
     \<lparr>url_scheme = scheme, url_netloc = authority, url_path = path, url_query = [], url_fragment = []\<rparr>"

text \<open>Without an authority only the path of a request target stays.\<close>

definition redact_target :: "string \<Rightarrow> split_url \<Rightarrow> string" where
  "redact_target value u =
     (if starts_with ''/'' value \<or> starts_with ''*'' value then urlunsplit (plain_url [] [] (url_path u))
      else if contains ''?'' value \<or> contains ''@'' value then REDACTED_URL else value)"

definition authority_leaks :: "split_url \<Rightarrow> nat option \<Rightarrow> bool" where
  "authority_leaks u port \<longleftrightarrow>
     contains ''@'' (url_path u @ url_query u @ url_fragment u)
     \<and> (port \<noteq> None \<or> url_username u \<noteq> None \<or> ends_with '':'' (url_netloc u))"

definition origin_authority :: "string \<Rightarrow> nat option \<Rightarrow> string" where
  "origin_authority hostname port =
     (let host = (if contains '':'' hostname then ''['' @ hostname @ '']'' else hostname) in
      case port of None \<Rightarrow> host | Some p \<Rightarrow> host @ '':'' @ nat_str p)"

definition redact_url :: "string \<Rightarrow> string" where
  "redact_url value = (case urlsplit value of Inl e \<Rightarrow> REDACTED_URL
     | Inr u \<Rightarrow> (case url_port u of Inl e \<Rightarrow> REDACTED_URL
       | Inr port \<Rightarrow>
           if url_netloc u = [] then redact_target value u
           else case url_hostname u of None \<Rightarrow> REDACTED_URL
             | Some hostname \<Rightarrow> if hostname = [] \<or> authority_leaks u port then REDACTED_URL
                 else urlunsplit (plain_url (url_scheme u) (origin_authority hostname port) [])))"

section \<open>Texts\<close>

text \<open>A matcher looks at the character before the position and the text from there; a match is the number
  of characters it takes after the first, and what replaces them.\<close>

type_synonym matcher = "char option \<Rightarrow> string \<Rightarrow> (nat \<times> string) option"

function sub_all :: "matcher \<Rightarrow> char option \<Rightarrow> string \<Rightarrow> string" where
  "sub_all m prev [] = []"
| "sub_all m prev (c # s) = (case m prev (c # s) of
     None \<Rightarrow> c # sub_all m (Some c) s
   | Some (n, r) \<Rightarrow> r @ sub_all m (Some (last (take (Suc n) (c # s)))) (drop n s))"
  by pat_completeness auto
termination
  by (relation "measure (\<lambda>(m, prev, s). length s)") auto

text \<open>A word boundary before a letter; a literal, whatever its case.\<close>

definition at_word_start :: "char option \<Rightarrow> bool" where
  "at_word_start prev = (case prev of None \<Rightarrow> True | Some c \<Rightarrow> \<not> word_char c)"

definition literal_ci :: "string \<Rightarrow> string \<Rightarrow> bool" where
  "literal_ci w s \<longleftrightarrow> starts_with w (str_lower (take (length w) s))"

definition url_char :: "char \<Rightarrow> bool" where
  "url_char c \<longleftrightarrow> \<not> is_space c \<and> ord c \<notin> {60, 62, 34, 39}"

definition URL_PREFIXES :: "string list" where
  "URL_PREFIXES = [''https://'', ''http://'', ''socks4://'', ''socks5h://'', ''socks5://'', ''ftp://'']"

definition match_url :: matcher where
  "match_url prev s =
     (if \<not> at_word_start prev then None
      else case find (\<lambda>w. literal_ci w s) URL_PREFIXES of None \<Rightarrow> None
        | Some w \<Rightarrow> (let rest = takeWhile url_char (drop (length w) s); n = length w + length rest in
            if rest = [] then None else Some (n - 1, redact_url (take n s))))"

definition METHOD_NAMES :: "string list" where
  "METHOD_NAMES = [''get'', ''head'', ''post'', ''put'', ''patch'', ''delete'', ''options'', ''trace'', ''connect'']"

definition match_target :: matcher where
  "match_target prev s =
     (if \<not> at_word_start prev then None
      else case find (\<lambda>w. literal_ci w s \<and> (case drop (length w) s of [] \<Rightarrow> False | c # _ \<Rightarrow> is_space c)) METHOD_NAMES of
        None \<Rightarrow> None
      | Some w \<Rightarrow> (let gap = takeWhile is_space (drop (length w) s);
                     start = length w + length gap;
                     target = takeWhile (\<lambda>c. \<not> is_space c) (drop start s) in
          if target = [] then None
          else Some (start + length target - 1, take start s @ redact_url target)))"

definition SECRET_NAMES :: "string list" where
  "SECRET_NAMES = [''authorization'', ''proxy-authorization'', ''cookie'', ''set-cookie'',
     ''api-key'', ''api_key'', ''apikey'', ''api-token'', ''api_token'', ''apitoken'', ''token'', ''password'', ''passwd'',
     ''secret'', ''proxy-username'', ''proxy_username'', ''proxyusername'', ''proxy-password'', ''proxy_password'',
     ''proxypassword'', ''post-data'', ''post_data'', ''postdata'', ''request-body'', ''request_body'', ''requestbody'']"

definition secret_char :: "char \<Rightarrow> bool" where
  "secret_char c \<longleftrightarrow> ord c \<notin> {44, 59, 10}"

text \<open>\<open>(\s*[:=]\s*)([^,;\n]+)\<close>: how many characters of the separator and of the secret.  Blanks before the secret
  are given back only when nothing else is left for it.\<close>

definition secret_assignment :: "string \<Rightarrow> (nat \<times> nat) option" where
  "secret_assignment s =
     (let gap = takeWhile is_space s; after = drop (length gap) s in
      case after of [] \<Rightarrow> None
      | c # rest \<Rightarrow>
          if ord c \<noteq> 58 \<and> ord c \<noteq> 61 then None
          else (let blanks = takeWhile is_space rest;
                    usable = (case drop (length blanks) rest of [] \<Rightarrow> False | d # _ \<Rightarrow> secret_char d);
                    kept = (if usable then length blanks
                            else length (dropWhile (\<lambda>d. ord d = 10) (rev blanks)) - 1);
                    secret = takeWhile secret_char (drop kept rest) in
            if secret = [] then None else Some (length gap + 1 + kept, length secret)))"

definition match_secret :: matcher where
  "match_secret prev s =
     (if \<not> at_word_start prev then None
      else case find (\<lambda>w. literal_ci w s \<and> secret_assignment (drop (length w) s) \<noteq> None) SECRET_NAMES of
        None \<Rightarrow> None
      | Some w \<Rightarrow> (case secret_assignment (drop (length w) s) of None \<Rightarrow> None
          | Some (k, n) \<Rightarrow> Some (length w + k + n - 1, take (length w + k) s @ REDACTED)))"

definition redact_text :: "string \<Rightarrow> string" where
  "redact_text value = sub_all match_secret None (sub_all match_target None (sub_all match_url None value))"

section \<open>Structured fields\<close>

text \<open>A logged value; \<open>LogObject\<close> is any other object, given by its \<open>repr\<close>.\<close>

datatype log_value =
    LogNone
  | LogBool bool
  | LogInt int
  | LogFloat py_float
  | LogText string
  | LogList "log_value list"
  | LogMap "(string \<times> log_value) list"
  | LogObject string

definition SENSITIVE_KEYS :: "string list" where
  "SENSITIVE_KEYS = [''authorization'', ''proxyauthorization'', ''cookie'', ''setcookie'', ''apikey'', ''apitoken'', ''token'',
     ''accesstoken'', ''refreshtoken'', ''password'', ''passwd'', ''secret'', ''clientsecret'', ''username'', ''proxyusername'',
     ''proxypassword'', ''postdata'', ''body'', ''requestbody'', ''responsebody'', ''payload'']"

definition URL_KEYS :: "string list" where
  "URL_KEYS = [''url'', ''uri'', ''server'', ''endpoint'', ''proxyurl'', ''proxyserver'']"

definition normalized_key :: "string \<Rightarrow> string" where
  "normalized_key key = filter (\<lambda>c. 97 \<le> ord c \<and> ord c \<le> 122 \<or> is_digit c) (str_lower key)"

definition is_sensitive_key :: "string \<Rightarrow> bool" where
  "is_sensitive_key key \<longleftrightarrow> (let k = normalized_key key in
     k \<in> set SENSITIVE_KEYS \<or> ends_with ''token'' k \<or> ends_with ''password'' k \<or> ends_with ''secret'' k)"

definition is_url_key :: "string \<Rightarrow> bool" where
  "is_url_key key \<longleftrightarrow> normalized_key key \<in> set URL_KEYS"

fun redact_value :: "string \<Rightarrow> log_value \<Rightarrow> log_value" where
  "redact_value key v = (if is_sensitive_key key then LogText REDACTED
     else case v of
       LogMap d \<Rightarrow> LogMap (map (\<lambda>(k, x). (k, redact_value k x)) d)
     | LogText s \<Rightarrow> LogText (if is_url_key key then redact_url s else redact_text s)
     | LogList xs \<Rightarrow> LogList (map (redact_value []) xs)
     | LogObject s \<Rightarrow> LogText (redact_text s)
     | _ \<Rightarrow> v)"

definition redact_mapping :: "(string \<times> log_value) list \<Rightarrow> (string \<times> log_value) list" where
  "redact_mapping d = map (\<lambda>(k, x). (k, redact_value k x)) d"

section \<open>Formatters\<close>

record log_record =
  log_level :: string
  log_logger :: string
  log_message :: string
  log_request_id :: "string option option"
  log_attributes :: "(string \<times> log_value) list"
  log_exception :: "string option"
  log_stack :: "string option"

definition STANDARD_LOG_RECORD_FIELDS :: "string list" where
  "STANDARD_LOG_RECORD_FIELDS = [''args'', ''asctime'', ''created'', ''exc_info'', ''exc_text'', ''filename'', ''funcName'',
     ''levelname'', ''levelno'', ''lineno'', ''message'', ''module'', ''msecs'', ''msg'', ''name'', ''pathname'', ''process'',
     ''processName'', ''relativeCreated'', ''stack_info'', ''taskName'', ''thread'', ''threadName'', ''request_id'']"

definition extra_fields :: "log_record \<Rightarrow> (string \<times> log_value) list" where
  "extra_fields r = filter (\<lambda>(k, _). k \<notin> set STANDARD_LOG_RECORD_FIELDS) (log_attributes r)"

definition text_or_none :: "string option \<Rightarrow> log_value" where
  "text_or_none v = (case v of None \<Rightarrow> LogNone | Some s \<Rightarrow> LogText s)"

text \<open>The payload of the JSON formatter.  \<open>log_request_id\<close> is the attribute of the record, if it has one;
  \<open>current\<close> is the request id of the context.\<close>

definition json_payload :: "string \<Rightarrow> string option \<Rightarrow> log_record \<Rightarrow> (string \<times> log_value) list" where
  "json_payload stamp current r =
     (let rid = (case log_request_id r of None \<Rightarrow> current | Some v \<Rightarrow> v) in
      [(''timestamp'', LogText stamp), (''level'', LogText (log_level r)), (''logger'', LogText (log_logger r)),
       (''request_id'', if is_valid_request_id rid then text_or_none rid else LogNone),
       (''message'', LogText (redact_text (log_message r)))]
      @ (if extra_fields r = [] then [] else [(''fields'', LogMap (redact_mapping (extra_fields r)))])
      @ (case log_exception r of None \<Rightarrow> [] | Some e \<Rightarrow> [(''exception'', LogText (redact_text e))])
      @ (case log_stack r of None \<Rightarrow> [] | Some e \<Rightarrow> if e = [] then [] else [(''stack'', LogText (redact_text e))]))"

text \<open>The parts the text formatter hands to its base class: the message, and the cached traceback.\<close>

definition text_parts :: "((string \<times> log_value) list \<Rightarrow> string) \<Rightarrow> log_record \<Rightarrow> string \<times> string option" where
  "text_parts dumps r =
     (redact_text (log_message r)
        @ (if extra_fields r = [] then [] else '' fields='' @ dumps (redact_mapping (extra_fields r))),
      (case log_exception r of None \<Rightarrow> None | Some e \<Rightarrow> if e = [] then None else Some (redact_text e)))"

definition log_format_of :: "string \<Rightarrow> exn + string" where
  "log_format_of given = (let normalized = str_lower (str_strip given) in
     if normalized \<notin> {''text'', ''json''} then Inl (ValueError ''log_format must be either text or json.'') else Inr normalized)"

end
