(* ===== verification/Log_Properties.thy ===== *)
theory Log_Properties
  imports Observability Config_Properties
begin

text \<open>
  Redaction keeps secrets out of the log: a redacted URL carries neither a query nor, beyond a request target's
  own path, anything of the userinfo, and structured fields that differ in secrets only are logged alike.
\<close>

section \<open>Redacted URLs\<close>

lemma contains_char: "contains [c] s \<longleftrightarrow> c \<in> set s"
  by (induction s) auto

lemma redacted_url_chars: "CHR ''?'' \<notin> set REDACTED_URL" "CHR ''@'' \<notin> set REDACTED_URL"
  by (simp_all add: REDACTED_URL_def)

lemma urlsplit_parts:
  assumes "urlsplit s = Inr u"
  shows "CHR ''?'' \<notin> set (url_path u)" and "CHR ''?'' \<notin> set (url_scheme u)" and "CHR ''@'' \<notin> set (url_scheme u)"
proof -
  obtain scheme rest where a: "split_scheme [] (url_clean s) = (scheme, rest)" by fastforce
  obtain n r where n: "(if starts_with ''//'' rest then split_netloc (drop 2 rest) else ([], rest)) = (n, r)" by fastforce
  obtain r' f frag where f: "partition_on (CHR ''#'') r = (r', f, frag)" by (metis prod_cases3)
  obtain path g query where g: "partition_on (CHR ''?'') r' = (path, g, query)" by (metis prod_cases3)
  have u: "u = \<lparr>url_scheme = scheme, url_netloc = n, url_path = path, url_query = query, url_fragment = frag\<rparr>"
    using assms unfolding urlsplit_def urlsplit_default_def a prod.case n f g by (simp split: if_splits)
  show "CHR ''?'' \<notin> set (url_path u)" using partition_on_sets [OF g] by (simp add: u)
  have "c \<notin> set scheme" if "c = CHR ''?'' \<or> c = CHR ''@''" for c
  proof -
    have c: "\<not> scheme_char c" "ord c < 65" using that by (auto simp: scheme_char_def is_alnum_ascii_def is_digit_def ord_def)
    obtain w found t where "partition_on (CHR '':'') (url_clean s) = (w, found, t)" by (metis prod_cases3)
    with a have "scheme = [] \<or> scheme = str_lower w \<and> list_all scheme_char w"
      by (auto simp: split_scheme_def split: if_splits)
    with c show ?thesis using set_str_lower [of c w] by (auto simp: list_all_iff)
  qed
  then show "CHR ''?'' \<notin> set (url_scheme u)" "CHR ''@'' \<notin> set (url_scheme u)" by (auto simp: u)
qed

lemma origin_authority_chars:
  assumes "urlsplit s = Inr u" and "url_hostname u = Some h" and c: "c = CHR ''?'' \<or> c = CHR ''@''"
  shows "c \<notin> set (origin_authority h port)"
proof -
  have "c \<notin> set (url_netloc u) \<or> c = CHR ''@''" using urlsplit_netloc(1) [OF assms(1)] c by auto
  then have "c \<notin> set (after_at (url_netloc u))" using after_at_sets [of "url_netloc u"] by auto
  moreover have "ord c < 65" using c by (auto simp: ord_def)
  ultimately have "c \<notin> set h" using hostname_char [OF assms(2), of c] hostinfo_sets [of u] by blast
  moreover have "c \<notin> set (nat_str n)" for n using c by (intro nat_str_free) (auto simp: ord_def)
  ultimately show ?thesis using c by (auto simp: origin_authority_def Let_def split: option.split)
qed

lemma urlunsplit_plain:
  "set (urlunsplit (plain_url scheme authority path)) \<subseteq> set scheme \<union> set authority \<union> set path \<union> set '':/''"
  by (auto simp: urlunsplit_def plain_url_def Let_def split: if_splits)

lemma no_netloc_no_port: "url_netloc u = [] \<Longrightarrow> url_port u = Inr None"
  by (simp add: url_port_def hostinfo_of_def after_at_def rpartition_on_def)

lemma redact_target_url: "urlsplit v = Inr u \<Longrightarrow> url_netloc u = [] \<Longrightarrow> redact_url v = redact_target v u"
  by (simp add: redact_url_def no_netloc_no_port)

lemma redact_origin:
  assumes "urlsplit v = Inr u" and "url_netloc u \<noteq> []"
  shows "redact_url v = REDACTED_URL \<or> (\<exists>h port. url_hostname u = Some h
    \<and> redact_url v = urlunsplit (plain_url (url_scheme u) (origin_authority h port) []))"
  using assms by (auto simp: redact_url_def split: sum.split option.split)

text \<open>A URL written to the log keeps no query, and beyond a request target, whose path is kept, no character
  that separates credentials from a host.\<close>

theorem redacted_url_bare:
  "CHR ''?'' \<notin> set (redact_url v)
   \<and> (case urlsplit v of Inl e \<Rightarrow> redact_url v = REDACTED_URL
      | Inr u \<Rightarrow> if url_netloc u = [] \<and> (starts_with ''/'' v \<or> starts_with ''*'' v)
          then redact_url v = url_path u else CHR ''@'' \<notin> set (redact_url v))"
proof (cases "urlsplit v")
  case (Inl e)
  then show ?thesis using redacted_url_chars by (simp add: redact_url_def)
next
  case (Inr u)
  note parts = urlsplit_parts [OF Inr]
  show ?thesis
  proof (cases "url_netloc u = []")
    case True
    have "urlunsplit (plain_url [] [] (url_path u)) = url_path u"
      by (simp add: urlunsplit_def plain_url_def Let_def)
    then show ?thesis
      using Inr True parts redacted_url_chars
      by (auto simp: redact_target_url redact_target_def contains_char)
  next
    case False
    have "c \<notin> set (redact_url v)" if c: "c = CHR ''?'' \<or> c = CHR ''@''" for c
    proof -
      consider "redact_url v = REDACTED_URL" | h port where "url_hostname u = Some h"
        "redact_url v = urlunsplit (plain_url (url_scheme u) (origin_authority h port) [])"
        using redact_origin [OF Inr False] by blast
      then show ?thesis
      proof cases
        case 1
        then show ?thesis using c redacted_url_chars by auto
      next
        case 2
        then show ?thesis
          using c parts origin_authority_chars [OF Inr 2(1) c, of port]
            urlunsplit_plain [of "url_scheme u" "origin_authority h port" "[]"] by auto
      qed
    qed
    then show ?thesis using Inr False by auto
  qed
qed

section \<open>Structured fields\<close>

text \<open>Two URLs of one origin, neither with credentials that look like a part of it.\<close>

definition same_origin :: "string \<Rightarrow> string \<Rightarrow> bool" where
  "same_origin a b \<longleftrightarrow> (case (urlsplit a, urlsplit b) of
     (Inr u, Inr w) \<Rightarrow> url_netloc u \<noteq> [] \<and> url_netloc w \<noteq> [] \<and> url_scheme u = url_scheme w
        \<and> url_hostname u = url_hostname w \<and> url_port u = url_port w
        \<and> (case url_port u of Inl e \<Rightarrow> True | Inr port \<Rightarrow> \<not> authority_leaks u port \<and> \<not> authority_leaks w port)
   | _ \<Rightarrow> False)"

lemma redact_same_origin: "same_origin a b \<Longrightarrow> redact_url a = redact_url b"
  by (auto simp: same_origin_def redact_url_def split: sum.splits option.split)

text \<open>Two values that differ in what a reader of the log must not learn: anything under a sensitive key, and the
  credentials, path and query of a URL under a URL key.\<close>

inductive alike :: "string \<Rightarrow> log_value \<Rightarrow> log_value \<Rightarrow> bool" where
  alike_secret: "is_sensitive_key k \<Longrightarrow> alike k v w"
| alike_same: "alike k v v"
| alike_url: "is_url_key k \<Longrightarrow> same_origin a b \<Longrightarrow> alike k (LogText a) (LogText b)"
| alike_map: "list_all2 (\<lambda>x y. fst x = fst y \<and> alike (fst x) (snd x) (snd y)) d e \<Longrightarrow> alike k (LogMap d) (LogMap e)"
| alike_list: "list_all2 (alike []) xs ys \<Longrightarrow> alike k (LogList xs) (LogList ys)"

definition alike_fields :: "(string \<times> log_value) list \<Rightarrow> (string \<times> log_value) list \<Rightarrow> bool" where
  "alike_fields = list_all2 (\<lambda>x y. fst x = fst y \<and> alike (fst x) (snd x) (snd y))"

declare redact_value.simps [simp del]

lemma alike_redacted: "alike k v w \<Longrightarrow> redact_value k v = redact_value k w"
proof (induction rule: alike.induct)
  case (alike_map d e k)
  then have "map (\<lambda>(k, x). (k, redact_value k x)) d = map (\<lambda>(k, x). (k, redact_value k x)) e"
    by (induction rule: list_all2_induct) auto
  then show ?case by (simp add: redact_value.simps)
next
  case (alike_list xs ys k)
  then have "map (redact_value []) xs = map (redact_value []) ys"
    by (induction rule: list_all2_induct) auto
  then show ?case by (simp add: redact_value.simps)
qed (simp_all add: redact_value.simps redact_same_origin)

lemma alike_mapping: "alike_fields d e \<Longrightarrow> redact_mapping d = redact_mapping e"
  unfolding alike_fields_def redact_mapping_def
  by (induction rule: list_all2_induct) (auto dest: alike_redacted)

lemma alike_extra:
  "alike_fields (log_attributes r) attrs \<Longrightarrow> alike_fields (extra_fields r) (extra_fields (r\<lparr>log_attributes := attrs\<rparr>))"
proof -
  have "alike_fields (filter (\<lambda>(k, _). P k) d) (filter (\<lambda>(k, _). P k) e)" if "alike_fields d e" for P d e
    using that unfolding alike_fields_def by (induction rule: list_all2_induct) auto
  then show "alike_fields (log_attributes r) attrs \<Longrightarrow> alike_fields (extra_fields r) (extra_fields (r\<lparr>log_attributes := attrs\<rparr>))"
    by (simp add: extra_fields_def)
qed

lemma alike_Nil: "alike_fields d e \<Longrightarrow> d = [] \<longleftrightarrow> e = []"
  unfolding alike_fields_def by auto



end
