(* ===== verification/Http_Cookies.thy ===== *)
theory Http_Cookies
  imports Http_Fetch Collection Access
begin

text \<open>
  Cookies of the HTTP transport (\<open>camouflare/http_transport.py\<close>): the rules a response's cookies must
  meet, and the two translations between the standard library's cookies and those of a browser.  A
  \<open>CookieJar\<close> is its nested dictionaries, domain to path to name; a cookie carries the identity of its
  object, which the code compares.  How the standard jar reads \<open>Set-Cookie\<close> headers is the parameter
  \<open>extract\<close>, the value of a numeral text the parameter \<open>float_of_text\<close>.
\<close>

section \<open>The standard cookie jar\<close>

record jar_cookie =
  identity :: nat
  jc_name :: string
  jc_value :: "string option"
  jc_domain :: string
  domain_specified :: bool
  domain_initial_dot :: bool
  jc_path :: string
  path_specified :: bool
  jc_secure :: bool
  jc_expires :: "int option"
  jc_rest :: "(string \<times> py_val) list"

type_synonym cookie_jar = "(string \<times> (string \<times> (string \<times> jar_cookie) list) list) list"

type_synonym jar_key = "string \<times> string \<times> string"

definition key_of :: "jar_cookie \<Rightarrow> jar_key" where
  "key_of c = (jc_domain c, jc_path c, jc_name c)"

definition sub_dict :: "('k \<times> ('l \<times> 'v) list) list \<Rightarrow> 'k \<Rightarrow> ('l \<times> 'v) list" where
  "sub_dict d k = (case dict_get d k of None \<Rightarrow> [] | Some e \<Rightarrow> e)"

definition jar_get :: "cookie_jar \<Rightarrow> jar_key \<Rightarrow> jar_cookie option" where
  "jar_get jar = (\<lambda>(domain, path, name). dict_get (sub_dict (sub_dict jar domain) path) name)"

definition jar_put :: "jar_key \<Rightarrow> ((string \<times> jar_cookie) list \<Rightarrow> (string \<times> jar_cookie) list) \<Rightarrow> cookie_jar \<Rightarrow> cookie_jar" where
  "jar_put k f jar = (case k of (domain, path, name) \<Rightarrow>
     let paths = sub_dict jar domain in dict_set domain (dict_set path (f (sub_dict paths path)) paths) jar)"

definition set_cookie :: "jar_cookie \<Rightarrow> cookie_jar \<Rightarrow> cookie_jar" where
  "set_cookie c = jar_put (key_of c) (dict_set (jc_name c) c)"

text \<open>\<open>clear\<close> of a stored cookie; the emptied dictionaries stay.\<close>

definition clear_cookie :: "jar_key \<Rightarrow> cookie_jar \<Rightarrow> cookie_jar" where
  "clear_cookie k = jar_put k (dict_del (snd (snd k)))"

definition jar_list :: "cookie_jar \<Rightarrow> jar_cookie list" where
  "jar_list jar = concat (map (\<lambda>(d, paths). concat (map (\<lambda>(p, names). map snd names) paths)) jar)"

section \<open>Attributes\<close>

definition is_ip_address :: "string option \<Rightarrow> bool" where
  "is_ip_address host = (case host of None \<Rightarrow> False | Some h \<Rightarrow> h \<noteq> [] \<and> ip_address h \<noteq> None)"

definition cookie_nonstandard_attr :: "jar_cookie \<Rightarrow> string \<Rightarrow> py_val option" where
  "cookie_nonstandard_attr c name =
     (case filter (\<lambda>(n, v). str_casefold n = str_casefold name) (jc_rest c) of
        [] \<Rightarrow> None | (n, v) # _ \<Rightarrow> if v = PyNone then None else Some v)"

definition cookie_has_nonstandard_attr :: "jar_cookie \<Rightarrow> string \<Rightarrow> bool" where
  "cookie_has_nonstandard_attr c name =
     list_ex (\<lambda>(n, v). str_casefold n = str_casefold name) (jc_rest c)"

definition canonical_same_site_of :: "externals \<Rightarrow> py_val option \<Rightarrow> string option" where
  "canonical_same_site_of x v =
     (case v of None \<Rightarrow> None | Some s \<Rightarrow> canonical_same_site_name (py_str (repr_val x) s))"

section \<open>Cookies of a response\<close>

definition invalid_prefix :: "jar_cookie \<Rightarrow> bool" where
  "invalid_prefix c \<longleftrightarrow>
     starts_with ''__Secure-'' (jc_name c) \<and> \<not> jc_secure c
     \<or> starts_with ''__Host-'' (jc_name c)
       \<and> (\<not> jc_secure c \<or> domain_specified c \<or> jc_path c \<noteq> ''/'')"

definition refused_cookie :: "externals \<Rightarrow> bool \<Rightarrow> bool \<Rightarrow> jar_cookie \<Rightarrow> bool" where
  "refused_cookie x secure_source source_is_ip c \<longleftrightarrow>
     cookie_has_nonstandard_attr c ''Partitioned''
     \<or> domain_specified c \<and> is_public_suffix x (jc_domain c)
     \<or> domain_specified c \<and> source_is_ip
     \<or> jc_secure c \<and> \<not> secure_source
     \<or> (case cookie_nonstandard_attr c ''SameSite'' of None \<Rightarrow> False
          | Some s \<Rightarrow> str_casefold (py_str (repr_val x) s) = ''none'' \<and> \<not> jc_secure c)
     \<or> invalid_prefix c"

text \<open>One turn of the loop; \<open>existing\<close> is the dictionary of the cookies before the response.\<close>

definition recheck_cookie ::
    "externals \<Rightarrow> (jar_key \<times> jar_cookie) list \<Rightarrow> bool \<Rightarrow> bool \<Rightarrow> jar_cookie \<Rightarrow> cookie_jar \<Rightarrow> cookie_jar" where
  "recheck_cookie x existing secure_source source_is_ip c jar =
     (case dict_get existing (key_of c) of
        Some e \<Rightarrow>
          if identity e = identity c then jar
          else if refused_cookie x secure_source source_is_ip c
          then set_cookie e (clear_cookie (key_of c) jar) else jar
      | None \<Rightarrow> if refused_cookie x secure_source source_is_ip c then clear_cookie (key_of c) jar else jar)"

definition extract_response_cookies ::
    "externals \<Rightarrow> (headers \<Rightarrow> string \<Rightarrow> cookie_jar \<Rightarrow> cookie_jar) \<Rightarrow> headers \<Rightarrow> string \<Rightarrow> cookie_jar \<Rightarrow> exn + cookie_jar" where
  "extract_response_cookies x extract hs full_url jar =
     (let existing = fold (\<lambda>c. dict_set (key_of c) c) (jar_list jar) [];
          received = extract hs full_url jar in
      and_then (urlsplit full_url) (\<lambda>source.
        let secure_source = (str_lower (url_scheme source) = ''https'');
            source_is_ip = is_ip_address (url_hostname source) in
        Inr (fold (recheck_cookie x existing secure_source source_is_ip) (jar_list received) received)))"

section \<open>Numbers\<close>

fun bit_count :: "nat \<Rightarrow> nat" where
  "bit_count n = (if n = 0 then 0 else Suc (bit_count (n div 2)))"

declare bit_count.simps [simp del]

text \<open>\<open>float(i)\<close>: the nearest double, ties to even.\<close>

definition round_double :: "int \<Rightarrow> int" where
  "round_double i =
     (let k = bit_count (nat (abs i)) - 53; m = abs i div 2 ^ k; r = abs i mod 2 ^ k in
      if k = 0 then i
      else sgn i * (if 2 * r > 2 ^ k \<or> 2 * r = 2 ^ k \<and> odd m then m + 1 else m) * 2 ^ k)"

definition float_of_int :: "int \<Rightarrow> exn + py_float" where
  "float_of_int i = (if float_overflows i then Inl overflow_error else Inr (Fin (round_double i) 0))"

definition type_error :: exn where
  "type_error = OtherError ''TypeError'' ''float() argument must be a string or a real number''"

fun py_float_of :: "(string \<Rightarrow> py_float option) \<Rightarrow> py_val \<Rightarrow> exn + py_float" where
  "py_float_of float_of_text (PyInt i) = float_of_int i"
| "py_float_of float_of_text (PyBool b) = Inr (Fin (if b then 1 else 0) 0)"
| "py_float_of float_of_text (PyFloat f) = Inr f"
| "py_float_of float_of_text (PyStr s) =
     (case float_of_text s of None \<Rightarrow> Inl (ValueError ''could not convert string to float'') | Some f \<Rightarrow> Inr f)"
| "py_float_of float_of_text _ = Inl type_error"

fun int_of_float :: "py_float \<Rightarrow> exn + int" where
  "int_of_float (Fin m e) = Inr (py_trunc m e)"
| "int_of_float NaN = Inl (ValueError ''cannot convert float NaN to integer'')"
| "int_of_float _ = Inl (OtherError ''OverflowError'' ''cannot convert float infinity to integer'')"

fun is_minus_one :: "py_float \<Rightarrow> bool" where
  "is_minus_one (Fin m e) = (if e \<ge> 0 then m = - 1 \<and> e = 0 else m = - (2 ^ nat (- e)))"
| "is_minus_one _ = False"

section \<open>Cookies of a browser\<close>

definition browser_cookie_expires :: "(string \<Rightarrow> py_float option) \<Rightarrow> py_val \<Rightarrow> exn + int option" where
  "browser_cookie_expires float_of_text v =
     (if v = PyNone then Inr None
      else and_then (py_float_of float_of_text v) (\<lambda>f.
        if is_minus_one f then Inr None
        else and_then (py_float_of float_of_text v) (\<lambda>f. and_then (int_of_float f) (\<lambda>i. Inr (Some i)))))"

definition browser_cookie_rest :: "externals \<Rightarrow> py_dict \<Rightarrow> (string \<times> py_val) list" where
  "browser_cookie_rest x b =
     (if py_truthy (dget b ''httpOnly'') then [(''HttpOnly'', PyNone)] else [])
     @ (if py_truthy (dget b ''sameSite'')
        then [(''SameSite'', PyStr (py_str (repr_val x) (dget b ''sameSite'')))] else [])"

text \<open>\<open>str(browser_cookie.get(k) or dflt)\<close>\<close>

definition text_or :: "externals \<Rightarrow> py_dict \<Rightarrow> string \<Rightarrow> string \<Rightarrow> string" where
  "text_or x b k dflt = (if py_truthy (dget b k) then py_str (repr_val x) (dget b k) else dflt)"

text \<open>The host of a cookie and whether it was given as a domain.\<close>

definition browser_cookie_host :: "externals \<Rightarrow> py_dict \<Rightarrow> exn + string \<times> bool \<times> bool" where
  "browser_cookie_host x b =
     (if py_truthy (dget b ''url'')
      then and_then (urlsplit (py_str (repr_val x) (dget b ''url''))) (\<lambda>parts.
        Inr (case url_hostname parts of None \<Rightarrow> [] | Some h \<Rightarrow> h, False, False))
      else let domain = text_or x b ''domain'' [] in Inr (domain, domain \<noteq> [], starts_with ''.'' domain))"

text \<open>\<open>_browser_cookie_to_cookie\<close>; the new object gets the identity \<open>i\<close>.\<close>

definition browser_cookie_to_cookie ::
    "externals \<Rightarrow> (string \<Rightarrow> py_float option) \<Rightarrow> nat \<Rightarrow> py_dict \<Rightarrow> exn + jar_cookie option" where
  "browser_cookie_to_cookie x float_of_text i b =
     (if py_truthy (dget b ''partitionKey'') then Inr None
      else if dget b ''name'' = PyNone \<or> dget b ''value'' = PyNone then Inr None
      else and_then (browser_cookie_host x b) (\<lambda>(domain, specified, dot).
        if domain = [] then Inr None
        else and_then (browser_cookie_expires float_of_text (dget b ''expires'')) (\<lambda>expires.
          Inr (Some
            \<lparr>identity = i, jc_name = py_str (repr_val x) (dget b ''name''),
             jc_value = Some (py_str (repr_val x) (dget b ''value'')), jc_domain = domain,
             domain_specified = specified, domain_initial_dot = dot,
             jc_path = text_or x b ''path'' ''/'', path_specified = (dget b ''path'' \<noteq> PyNone),
             jc_secure = py_truthy (dget b ''secure''), jc_expires = expires,
             jc_rest = browser_cookie_rest x b\<rparr>))))"

text \<open>\<open>Cookie.is_expired\<close> at a time in seconds, rounded down.\<close>

definition is_expired :: "int \<Rightarrow> jar_cookie \<Rightarrow> bool" where
  "is_expired now c = (case jc_expires c of None \<Rightarrow> False | Some t \<Rightarrow> t \<le> now)"

definition usable_cookie :: "externals \<Rightarrow> int \<Rightarrow> bool \<Rightarrow> jar_cookie \<Rightarrow> bool" where
  "usable_cookie x now source_is_ip c \<longleftrightarrow>
     \<not> is_expired now c
     \<and> \<not> (domain_specified c \<and> is_public_suffix x (jc_domain c))
     \<and> \<not> (domain_specified c \<and> source_is_ip)"

fun add_browser_cookies ::
    "externals \<Rightarrow> (string \<Rightarrow> py_float option) \<Rightarrow> int \<Rightarrow> bool \<Rightarrow> nat \<Rightarrow> py_dict list \<Rightarrow> cookie_jar \<Rightarrow> exn + cookie_jar" where
  "add_browser_cookies x float_of_text now source_is_ip i [] jar = Inr jar"
| "add_browser_cookies x float_of_text now source_is_ip i (b # bs) jar =
     and_then (browser_cookie_to_cookie x float_of_text i b) (\<lambda>c.
       add_browser_cookies x float_of_text now source_is_ip (Suc i) bs
         (case c of None \<Rightarrow> jar
          | Some c \<Rightarrow> if usable_cookie x now source_is_ip c then set_cookie c jar else jar))"

definition cookie_jar_from_browser_cookies ::
    "externals \<Rightarrow> (string \<Rightarrow> py_float option) \<Rightarrow> int \<Rightarrow> py_dict list option \<Rightarrow> string option \<Rightarrow> exn + cookie_jar" where
  "cookie_jar_from_browser_cookies x float_of_text now cookies source_url =
     and_then (case source_url of
         None \<Rightarrow> Inr False
       | Some url \<Rightarrow> and_then (clean_url (Some url)) (\<lambda>cleaned. and_then (urlsplit cleaned) (\<lambda>u.
           Inr (is_ip_address (url_hostname u)))))
       (\<lambda>source_is_ip. add_browser_cookies x float_of_text now source_is_ip 0
          (case cookies of None \<Rightarrow> [] | Some cs \<Rightarrow> cs) [])"

definition value_of_text :: "string option \<Rightarrow> py_val" where
  "value_of_text v = (case v of None \<Rightarrow> PyNone | Some s \<Rightarrow> PyStr s)"

text \<open>The scope of a cookie: its domain and path, or for a host-only cookie a URL under its path.\<close>

definition cookie_scope_of :: "jar_cookie \<Rightarrow> py_dict" where
  "cookie_scope_of c =
     (if domain_specified c then [(''domain'', PyStr (jc_domain c)), (''path'', PyStr (jc_path c))]
      else let scheme = (if jc_secure c then ''https'' else ''http'');
               path = (if jc_path c = [] then ''/'' else jc_path c);
               scope = rev (dropWhile (\<lambda>a. a = CHR ''/'') (rev path)) @ ''/__camouflare_cookie_scope__'' in
        [(''url'', PyStr (scheme @ ''://'' @ jc_domain c @ scope))])"

definition same_site_field :: "externals \<Rightarrow> jar_cookie \<Rightarrow> py_dict" where
  "same_site_field x c =
     (case canonical_same_site_of x (cookie_nonstandard_attr c ''SameSite'') of
        None \<Rightarrow> [] | Some s \<Rightarrow> [(''sameSite'', PyStr s)])"

definition cookie_to_browser_cookie :: "externals \<Rightarrow> jar_cookie \<Rightarrow> exn + py_dict" where
  "cookie_to_browser_cookie x c =
     and_then (case jc_expires c of None \<Rightarrow> Inr []
               | Some t \<Rightarrow> and_then (float_of_int t) (\<lambda>f. Inr [(''expires'', PyFloat f)])) (\<lambda>expires.
       Inr ([(''name'', PyStr (jc_name c)), (''value'', value_of_text (jc_value c)),
             (''secure'', PyBool (jc_secure c)),
             (''httpOnly'', PyBool (cookie_has_nonstandard_attr c ''HttpOnly''))]
            @ cookie_scope_of c @ expires @ same_site_field x c))"

definition cookie_to_solution_cookie :: "externals \<Rightarrow> jar_cookie \<Rightarrow> exn + py_dict" where
  "cookie_to_solution_cookie x c =
     and_then (case jc_expires c of None \<Rightarrow> Inr []
               | Some t \<Rightarrow> and_then (float_of_int t) (\<lambda>f. Inr [(''expires'', PyFloat f), (''expiry'', PyInt t)])) (\<lambda>expires.
       Inr ([(''name'', PyStr (jc_name c)), (''value'', value_of_text (jc_value c)),
             (''domain'', PyStr (jc_domain c)), (''path'', PyStr (if jc_path c = [] then ''/'' else jc_path c)),
             (''secure'', PyBool (jc_secure c)),
             (''httpOnly'', PyBool (cookie_has_nonstandard_attr c ''HttpOnly''))]
            @ expires @ same_site_field x c))"

end
