(* ===== verification/Cookie_Properties.thy ===== *)
theory Cookie_Properties
  imports Http_Cookies Model_Properties
begin

text \<open>
  The cookie jar of the HTTP transport as a map from scopes to cookies, and the rules that every cookie
  taken from a response obeys.
\<close>

section \<open>The jar as a map\<close>

definition names_ok :: "string \<Rightarrow> string \<Rightarrow> (string \<times> jar_cookie) list \<Rightarrow> bool" where
  "names_ok d p names \<longleftrightarrow> distinct (map fst names) \<and> list_all (\<lambda>(n, c). key_of c = (d, p, n)) names"

definition paths_ok :: "string \<Rightarrow> (string \<times> (string \<times> jar_cookie) list) list \<Rightarrow> bool" where
  "paths_ok d paths \<longleftrightarrow> distinct (map fst paths) \<and> list_all (\<lambda>(p, names). names_ok d p names) paths"

definition jar_ok :: "cookie_jar \<Rightarrow> bool" where
  "jar_ok jar \<longleftrightarrow> distinct (map fst jar) \<and> list_all (\<lambda>(d, paths). paths_ok d paths) jar"

lemma sub_dict_set [simp]: "sub_dict (dict_set k v d) k' = (if k' = k then v else sub_dict d k')"
  by (simp add: sub_dict_def)

lemma jar_get_set_cookie [simp]:
  "jar_get (set_cookie c jar) k = (if k = key_of c then Some c else jar_get jar k)"
  by (cases k) (auto simp: set_cookie_def jar_put_def jar_get_def key_of_def Let_def)

lemma jar_get_clear_cookie [simp]:
  "jar_get (clear_cookie k' jar) k = (if k = k' then None else jar_get jar k)"
  by (cases k; cases k') (auto simp: clear_cookie_def jar_put_def jar_get_def Let_def)

lemma dict_get_mem: "dict_get d k = Some v \<Longrightarrow> (k, v) \<in> set d"
  by (induction d k rule: dict_get.induct) (auto split: if_splits)

lemma sub_dict_mem: "v \<in> set (sub_dict d k) \<Longrightarrow> (k, sub_dict d k) \<in> set d"
  by (auto simp: sub_dict_def dict_get_mem split: option.splits)

lemma sub_dict_distinct: "distinct (map fst d) \<Longrightarrow> (k, v) \<in> set d \<Longrightarrow> sub_dict d k = v"
  by (simp add: sub_dict_def dict_get_distinct)

lemma in_concat_pairs: "y \<in> set (concat (map (\<lambda>(k, v). f k v) d)) \<longleftrightarrow> (\<exists>k v. (k, v) \<in> set d \<and> y \<in> set (f k v))"
  by (induction d) auto

lemma in_jar_list:
  "c \<in> set (jar_list jar) \<longleftrightarrow>
     (\<exists>d paths p names n. (d, paths) \<in> set jar \<and> (p, names) \<in> set paths \<and> (n, c) \<in> set names)"
proof -
  have "c \<in> snd ` set names \<longleftrightarrow> (\<exists>n. (n, c) \<in> set names)" for names :: "(string \<times> jar_cookie) list"
    by (induction names) auto
  then show ?thesis by (simp only: jar_list_def in_concat_pairs set_map) blast
qed

lemma jar_ok_member:
  assumes "jar_ok jar" and "(d, paths) \<in> set jar" and "(p, names) \<in> set paths" and "(n, c) \<in> set names"
  shows "key_of c = (d, p, n)" and "jar_get jar (d, p, n) = Some c"
proof -
  have paths: "paths_ok d paths" using assms(1,2) by (auto simp: jar_ok_def list_all_iff)
  then have names: "names_ok d p names" using assms(3) by (auto simp: paths_ok_def list_all_iff)
  then show "key_of c = (d, p, n)" using assms(4) by (auto simp: names_ok_def list_all_iff)
  have "sub_dict jar d = paths" using assms(1,2) by (simp add: jar_ok_def sub_dict_distinct)
  moreover have "sub_dict paths p = names" using paths assms(3) by (simp add: paths_ok_def sub_dict_distinct)
  ultimately show "jar_get jar (d, p, n) = Some c"
    using names assms(4) by (simp add: jar_get_def names_ok_def dict_get_distinct)
qed

lemma jar_get_member:
  assumes "jar_get jar (d, p, n) = Some c"
  shows "\<exists>paths names. (d, paths) \<in> set jar \<and> (p, names) \<in> set paths \<and> (n, c) \<in> set names"
proof -
  have name: "(n, c) \<in> set (sub_dict (sub_dict jar d) p)" using assms by (simp add: jar_get_def dict_get_mem)
  then have path: "(p, sub_dict (sub_dict jar d) p) \<in> set (sub_dict jar d)" by (rule sub_dict_mem)
  then have "(d, sub_dict jar d) \<in> set jar" by (rule sub_dict_mem)
  then show ?thesis using name path by blast
qed

lemma jar_list_iff: "jar_ok jar \<Longrightarrow> c \<in> set (jar_list jar) \<longleftrightarrow> jar_get jar (key_of c) = Some c"
  unfolding in_jar_list
  by (metis jar_ok_member jar_get_member prod_cases3)

lemma jar_get_key: "jar_ok jar \<Longrightarrow> jar_get jar k = Some c \<Longrightarrow> key_of c = k"
  by (metis jar_ok_member(1) jar_get_member prod_cases3)

lemma distinct_concat_keys:
  "\<lbrakk>distinct (map fst d); \<And>k v. (k, v) \<in> set d \<Longrightarrow> distinct (f k v);
    \<And>k v y. (k, v) \<in> set d \<Longrightarrow> y \<in> set (f k v) \<Longrightarrow> g y = k\<rbrakk>
   \<Longrightarrow> distinct (concat (map (\<lambda>(k, v). f k v) d))"
proof (induction d)
  case (Cons e d)
  obtain k v where e: "e = (k, v)" by fastforce
  have "y \<notin> set (concat (map (\<lambda>(k, v). f k v) d))" if y: "y \<in> set (f k v)" for y
  proof
    assume "y \<in> set (concat (map (\<lambda>(k, v). f k v) d))"
    then obtain k' v' where later: "(k', v') \<in> set d" "y \<in> set (f k' v')" unfolding in_concat_pairs by blast
    then have "g y = k'" using Cons.prems(3) [of k' v' y] by simp
    moreover have "g y = k" using Cons.prems(3) [of k v y] y by (simp add: e)
    ultimately have "k \<in> fst ` set d" using later(1) by force
    then show False using Cons.prems(1) by (simp add: e)
  qed
  moreover have "distinct (concat (map (\<lambda>(k, v). f k v) d))" proof (rule Cons.IH)
    show "distinct (map fst d)" using Cons.prems(1) by simp
    show "distinct (f k v)" if "(k, v) \<in> set d" for k v using Cons.prems(2) that by simp
    show "g y = k" if "(k, v) \<in> set d" and "y \<in> set (f k v)" for k v y using Cons.prems(3) [of k v y] that by simp
  qed
  moreover have "distinct (f k v)" using Cons.prems(2) by (simp add: e)
  ultimately show ?case by (auto simp: e)
qed simp

lemma map_jar_list:
  "map key_of (jar_list jar) =
     concat (map (\<lambda>(d, paths). concat (map (\<lambda>(p, names). map key_of (map snd names)) paths)) jar)"
  by (simp add: jar_list_def map_concat case_prod_unfold comp_def)

lemma names_keys: "names_ok d p names \<Longrightarrow> map key_of (map snd names) = map (\<lambda>n. (d, p, n)) (map fst names)"
  by (auto simp: names_ok_def list_all_iff)

lemma distinct_jar_keys:
  assumes "jar_ok jar"
  shows "distinct (map key_of (jar_list jar))"
  unfolding map_jar_list
proof (rule distinct_concat_keys [where g = fst])
  show "distinct (map fst jar)" using assms by (simp add: jar_ok_def)
  fix d paths
  assume "(d, paths) \<in> set jar"
  then have paths: "paths_ok d paths" using assms by (auto simp: jar_ok_def list_all_iff)
  then have names: "names_ok d p names" if "(p, names) \<in> set paths" for p names
    using that by (auto simp: paths_ok_def list_all_iff)
  show "distinct (concat (map (\<lambda>(p, names). map key_of (map snd names)) paths))"
  proof (rule distinct_concat_keys [where g = "\<lambda>k. fst (snd k)"])
    show "distinct (map fst paths)" using paths by (simp add: paths_ok_def)
    show "distinct (map key_of (map snd ns))" if "(p, ns) \<in> set paths" for p ns
      using names [OF that] by (subst names_keys [OF names [OF that]])
        (simp add: names_ok_def distinct_map inj_on_def)
    show "fst (snd y) = p" if "(p, ns) \<in> set paths" and "y \<in> set (map key_of (map snd ns))" for p ns y
      using that(2) by (subst (asm) names_keys [OF names [OF that(1)]]) auto
  qed
  show "fst y = d" if y: "y \<in> set (concat (map (\<lambda>(p, names). map key_of (map snd names)) paths))" for y
  proof -
    obtain p ns where "(p, ns) \<in> set paths" and "y \<in> set (map key_of (map snd ns))"
      using y unfolding in_concat_pairs by blast
    then show ?thesis using names_keys [OF names] by fastforce
  qed
qed

section \<open>The loop over the received cookies\<close>

text \<open>What the loop relies on in a jar: a store whose members know their scope, where setting and clearing touch
  that scope only.\<close>

locale scoped_store =
  fixes look :: "'s \<Rightarrow> 'k \<Rightarrow> 'c option"
    and put :: "'c \<Rightarrow> 's \<Rightarrow> 's"
    and remove_at :: "'k \<Rightarrow> 's \<Rightarrow> 's"
    and scope :: "'c \<Rightarrow> 'k"
  assumes look_put: "look (put c s) k = (if k = scope c then Some c else look s k)"
    and look_remove: "look (remove_at k' s) k = (if k = k' then None else look s k)"
begin

definition reset :: "'k \<Rightarrow> 'c option \<Rightarrow> 's \<Rightarrow> 's" where
  "reset k earlier s = (case earlier of None \<Rightarrow> remove_at k s | Some e \<Rightarrow> put e (remove_at k s))"

lemma look_reset:
  "(\<And>e. earlier = Some e \<Longrightarrow> scope e = k') \<Longrightarrow> look (reset k' earlier s) k = (if k = k' then earlier else look s k)"
  by (auto simp: reset_def look_put look_remove split: option.split)

lemma look_fold_reset:
  assumes "\<And>k e. earlier k = Some e \<Longrightarrow> scope e = k" and "distinct (map scope cs)"
  shows "look (fold (\<lambda>c s. if refuse c then reset (scope c) (earlier (scope c)) s else s) cs s) k =
     (case find (\<lambda>c. scope c = k) cs of
        None \<Rightarrow> look s k | Some c \<Rightarrow> if refuse c then earlier k else look s k)"
  using assms(2)
proof (induction cs arbitrary: s)
  case (Cons c cs)
  have "find (\<lambda>c'. scope c' = k) cs = None" if "scope c = k"
    using Cons.prems that by (simp add: find_None_iff) (metis image_eqI)
  then show ?case
    using Cons by (auto simp: look_reset [OF assms(1)] split: option.split)
qed simp

end

interpretation jar_store: scoped_store jar_get set_cookie clear_cookie key_of
  by unfold_locales simp_all

lemma fold_dict_set_get:
  "distinct (map key_of cs) \<Longrightarrow>
   dict_get (fold (\<lambda>c. dict_set (key_of c) c) cs d) k =
     (case find (\<lambda>c. key_of c = k) cs of None \<Rightarrow> dict_get d k | Some c \<Rightarrow> Some c)"
proof (induction cs arbitrary: d)
  case (Cons c cs)
  have "find (\<lambda>c'. key_of c' = k) cs = None" if "key_of c = k"
    using Cons.prems that by (simp add: find_None_iff) (metis image_eqI)
  then show ?case using Cons by (auto split: option.split)
qed simp

lemma find_jar_list: "jar_ok jar \<Longrightarrow> find (\<lambda>c. key_of c = k) (jar_list jar) = jar_get jar k"
proof (cases "find (\<lambda>c. key_of c = k) (jar_list jar)")
  case None
  assume ok: "jar_ok jar"
  have "jar_get jar k = None"
  proof (rule ccontr)
    assume "jar_get jar k \<noteq> None"
    then obtain c where c: "jar_get jar k = Some c" by blast
    then have "key_of c = k" using ok by (rule_tac jar_get_key)
    then show False using None c ok by (auto simp: find_None_iff jar_list_iff)
  qed
  then show ?thesis using None by simp
next
  case (Some c)
  assume ok: "jar_ok jar"
  then have "c \<in> set (jar_list jar)" and "key_of c = k"
    using Some by (auto simp: find_Some_iff)
  then show ?thesis using Some ok by (auto simp: jar_list_iff)
qed

lemma existing_get:
  "jar_ok jar \<Longrightarrow> dict_get (fold (\<lambda>c. dict_set (key_of c) c) (jar_list jar) []) k = jar_get jar k"
  by (simp add: fold_dict_set_get distinct_jar_keys find_jar_list split: option.split)

definition kept_cookie :: "externals \<Rightarrow> jar_cookie option \<Rightarrow> bool \<Rightarrow> bool \<Rightarrow> jar_cookie \<Rightarrow> bool" where
  "kept_cookie x earlier secure ip c \<longleftrightarrow>
     (case earlier of Some e \<Rightarrow> identity e = identity c | None \<Rightarrow> False) \<or> \<not> refused_cookie x secure ip c"

lemma recheck_reset:
  "recheck_cookie x existing secure ip c =
     (\<lambda>jar. if \<not> kept_cookie x (dict_get existing (key_of c)) secure ip c
            then jar_store.reset (key_of c) (dict_get existing (key_of c)) jar else jar)"
  by (auto simp: fun_eq_iff recheck_cookie_def kept_cookie_def jar_store.reset_def split: option.split)

lemma fold_recheck_get:
  assumes "\<And>k e. dict_get existing k = Some e \<Longrightarrow> key_of e = k" and "distinct (map key_of cs)"
  shows "jar_get (fold (recheck_cookie x existing secure ip) cs jar) k =
     (case find (\<lambda>c. key_of c = k) cs of
        None \<Rightarrow> jar_get jar k
      | Some c \<Rightarrow> if kept_cookie x (dict_get existing k) secure ip c then jar_get jar k else dict_get existing k)"
proof -
  have "find (\<lambda>c. key_of c = k) cs = Some c \<Longrightarrow> key_of c = k" for c by (auto simp: find_Some_iff)
  moreover have "jar_get (fold (\<lambda>c jar. if \<not> kept_cookie x (dict_get existing (key_of c)) secure ip c
        then jar_store.reset (key_of c) (dict_get existing (key_of c)) jar else jar) cs jar) k =
      (case find (\<lambda>c. key_of c = k) cs of
         None \<Rightarrow> jar_get jar k
       | Some c \<Rightarrow> if \<not> kept_cookie x (dict_get existing (key_of c)) secure ip c then dict_get existing k else jar_get jar k)"
    using assms by (rule jar_store.look_fold_reset)
  ultimately show ?thesis unfolding recheck_reset by (auto split: option.split)
qed

lemma extracted_get:
  assumes "jar_ok jar" and "jar_ok (extract hs url jar)"
    and "extract_response_cookies x extract hs url jar = Inr jar'" and "urlsplit url = Inr u"
  shows "jar_get jar' k =
     (case jar_get (extract hs url jar) k of
        None \<Rightarrow> None
      | Some c \<Rightarrow> if kept_cookie x (jar_get jar k) (str_lower (url_scheme u) = ''https'') (is_ip_address (url_hostname u)) c
                 then Some c else jar_get jar k)"
proof -
  let ?existing = "fold (\<lambda>c. dict_set (key_of c) c) (jar_list jar) []"
  have existing: "\<And>k. dict_get ?existing k = jar_get jar k" using assms(1) by (rule existing_get)
  then have keys: "\<And>k e. dict_get ?existing k = Some e \<Longrightarrow> key_of e = k"
    using assms(1) by (simp add: jar_get_key)
  have "jar' = fold (recheck_cookie x ?existing (str_lower (url_scheme u) = ''https'') (is_ip_address (url_hostname u)))
      (jar_list (extract hs url jar)) (extract hs url jar)"
    using assms(3,4) by (simp add: extract_response_cookies_def Let_def)
  then have "jar_get jar' k = (case jar_get (extract hs url jar) k of
        None \<Rightarrow> jar_get (extract hs url jar) k
      | Some c \<Rightarrow> if kept_cookie x (jar_get jar k) (str_lower (url_scheme u) = ''https'') (is_ip_address (url_hostname u)) c
                 then jar_get (extract hs url jar) k else jar_get jar k)"
    using fold_recheck_get [where existing = ?existing, OF _ distinct_jar_keys [OF assms(2)], OF keys, simplified existing]
    by (simp only: find_jar_list [OF assms(2)])
  then show ?thesis by (auto split: option.split)
qed

section \<open>What a response may set\<close>

definition same_objects :: "cookie_jar \<Rightarrow> cookie_jar \<Rightarrow> bool" where
  "same_objects jar jar' \<longleftrightarrow>
     list_all (\<lambda>c. list_all (\<lambda>c'. identity c = identity c' \<longrightarrow> c = c') (jar_list jar')) (jar_list jar)"

definition obeys_cookie_rules :: "externals \<Rightarrow> split_url \<Rightarrow> jar_cookie \<Rightarrow> bool" where
  "obeys_cookie_rules x source c \<longleftrightarrow>
     (jc_secure c \<longrightarrow> str_lower (url_scheme source) = ''https'')
     \<and> (domain_specified c \<longrightarrow> \<not> is_public_suffix x (jc_domain c) \<and> \<not> is_ip_address (url_hostname source))
     \<and> (starts_with ''__Secure-'' (jc_name c) \<longrightarrow> jc_secure c)
     \<and> (starts_with ''__Host-'' (jc_name c) \<longrightarrow> jc_secure c \<and> \<not> domain_specified c \<and> jc_path c = ''/'')
     \<and> (canonical_same_site_of x (cookie_nonstandard_attr c ''SameSite'') = Some ''None'' \<longrightarrow> jc_secure c)
     \<and> \<not> cookie_has_nonstandard_attr c ''Partitioned''"

lemma canonical_none: "canonical_same_site_name s = Some ''None'' \<longleftrightarrow> str_casefold s = ''none''"
  by (simp add: canonical_same_site_name_def)

lemma refused_iff:
  "refused_cookie x (str_lower (url_scheme u) = ''https'') (is_ip_address (url_hostname u)) c \<longleftrightarrow> \<not> obeys_cookie_rules x u c"
  by (auto simp: refused_cookie_def obeys_cookie_rules_def invalid_prefix_def canonical_same_site_of_def
      canonical_none split: option.splits)

lemma same_objects_kept:
  assumes "jar_ok jar" and "jar_ok jar'" and "same_objects jar jar'" and "jar_get jar' k = Some c"
  shows "(case jar_get jar k of None \<Rightarrow> False | Some e \<Rightarrow> identity e = identity c) \<longleftrightarrow> jar_get jar k = Some c"
proof (cases "jar_get jar k")
  case (Some e)
  then have "e \<in> set (jar_list jar)" and "c \<in> set (jar_list jar')"
    using assms by (simp_all add: jar_list_iff jar_get_key)
  then have "identity e = identity c \<longrightarrow> e = c" using assms(3) by (simp add: same_objects_def list_all_iff)
  then show ?thesis by (auto simp: Some)
qed simp

text \<open>C35.  A response cannot plant a cookie the browser rules forbid: after the cookies of an answer from
  \<open>source\<close> are taken over, every cookie of the jar is either the very cookie that was there before
  or obeys the Secure, Domain, prefix, SameSite and Partitioned rules for that source; and a forbidden
  cookie does not displace the earlier one of its scope.
\<close>

theorem response_cookies_safe:
  assumes "jar_ok jar" and "jar_ok (extract hs url jar)" and "same_objects jar (extract hs url jar)"
    and "extract_response_cookies x extract hs url jar = Inr jar'" and "urlsplit url = Inr source"
  shows "jar_get jar' k =
    (case jar_get (extract hs url jar) k of
       None \<Rightarrow> None
     | Some c \<Rightarrow> if obeys_cookie_rules x source c \<or> jar_get jar k = Some c then Some c else jar_get jar k)"
  using extracted_get [OF assms(1,2,4,5)]
    same_objects_kept [OF assms(1-3)]
  by (auto simp: kept_cookie_def refused_iff split: option.splits)

definition plant :: "jar_cookie \<Rightarrow> headers \<Rightarrow> string \<Rightarrow> cookie_jar \<Rightarrow> cookie_jar" where
  "plant c hs url jar = set_cookie c jar"

definition planted :: "nat \<Rightarrow> string \<Rightarrow> bool \<Rightarrow> jar_cookie" where
  "planted i v secure = \<lparr>identity = i, jc_name = ''__Secure-id'', jc_value = Some v, jc_domain = ''a.example'',
     domain_specified = False, domain_initial_dot = False, jc_path = ''/'', path_specified = True,
     jc_secure = secure, jc_expires = None, jc_rest = []\<rparr>"

definition demo_jar :: cookie_jar where
  "demo_jar = set_cookie (planted 0 ''old'' True) []"

lemma demo_jar_ok: "jar_ok demo_jar" and demo_plant_ok: "jar_ok (plant (planted 1 ''new'' False) hs url demo_jar)"
  by (simp_all add: demo_jar_def plant_def set_cookie_def jar_put_def sub_dict_def planted_def key_of_def Let_def
      jar_ok_def paths_ok_def names_ok_def)

lemma demo_objects: "same_objects demo_jar (plant (planted 1 ''new'' False) hs url demo_jar)"
  by (simp add: demo_jar_def plant_def set_cookie_def jar_put_def sub_dict_def planted_def key_of_def Let_def
      same_objects_def jar_list_def)

lemma demo_source: "urlsplit ''http://a.example/'' =
    Inr \<lparr>url_scheme = ''http'', url_netloc = ''a.example'', url_path = ''/'', url_query = [], url_fragment = []\<rparr>"
  by (simp add: url_eval text_eval)

text \<open>An answer over plain http tries to replace a \<open>__Secure-\<close> cookie: the earlier one stays.\<close>

lemma response_cookies_safe_witness:
  "\<exists>jar'. extract_response_cookies demo_externals (plant (planted 1 ''new'' False)) [] ''http://a.example/'' demo_jar = Inr jar'
     \<and> jar_get jar' (''a.example'', ''/'', ''__Secure-id'') = Some (planted 0 ''old'' True)"
proof -
  obtain jar' where extracted: "extract_response_cookies demo_externals (plant (planted 1 ''new'' False)) []
      ''http://a.example/'' demo_jar = Inr jar'"
    by (simp add: extract_response_cookies_def demo_source Let_def)
  show ?thesis
    using extracted response_cookies_safe [OF demo_jar_ok demo_plant_ok demo_objects extracted demo_source,
        of "(''a.example'', ''/'', ''__Secure-id'')"]
    by (simp add: plant_def demo_jar_def planted_def key_of_def obeys_cookie_rules_def
        cookie_has_nonstandard_attr_def)
qed

end
