(* ===== verification/Http_Decoders.thy ===== *)
theory Http_Decoders
  imports Http_Properties
begin

text \<open>
  The two content decoders of the HTTP transport (\<open>_GzipDecoder\<close> and \<open>_DeflateDecoder\<close> of
  \<open>camouflare/http_transport.py\<close>), over decompression objects of the zlib module, which are the
  parameter \<open>zlib\<close>.  They are instances of the decoder the body reader runs.  The loop of the gzip
  decoder runs with fuel; under zlib's documented contract twice the input plus two turns are enough.
\<close>

section \<open>Decompression objects\<close>

text \<open>\<open>decompressobj(wbits)\<close>, one call \<open>decompress(data, max_length)\<close> (\<open>None\<close> is \<open>zlib.error\<close>), and the attributes
  of the object after it.\<close>

record 'z zlib =
  decompressobj :: "int \<Rightarrow> 'z"
  zlib_step :: "'z \<Rightarrow> string \<Rightarrow> nat \<Rightarrow> (string \<times> 'z) option"
  zlib_eof :: "'z \<Rightarrow> bool"
  unused_data :: "'z \<Rightarrow> string"
  unconsumed_tail :: "'z \<Rightarrow> string"

definition MAX_WBITS :: int where
  "MAX_WBITS = 15"

definition CHUNK_BYTES :: nat where
  "CHUNK_BYTES = 65536"

definition malformed_error :: "string \<Rightarrow> exn" where
  "malformed_error name = http_decode_error (''HTTP response body has malformed '' @ name @ '' content encoding.'')"

section \<open>Gzip\<close>

record 'z gzip_decoder =
  member :: "'z option"
  gzip_input :: string
  members_completed :: nat

definition gzip_init :: "'z gzip_decoder" where
  "gzip_init = \<lparr>member = None, gzip_input = [], members_completed = 0\<rparr>"

text \<open>Between members, NUL padding is dropped once one is complete.\<close>

definition skip_padding :: "'z gzip_decoder \<Rightarrow> 'z gzip_decoder" where
  "skip_padding g =
     (if member g = None \<and> members_completed g > 0
      then g\<lparr>gzip_input := dropWhile (\<lambda>c. c = CHR 0x00) (gzip_input g)\<rparr> else g)"

fun gzip_loop :: "('z, 'm) zlib_scheme \<Rightarrow> nat \<Rightarrow> 'z gzip_decoder \<Rightarrow> string \<Rightarrow> (exn + string \<times> 'z gzip_decoder) option" where
  "gzip_loop z 0 g out = None"
| "gzip_loop z (Suc fuel) g out =
     (if length out \<ge> CHUNK_BYTES then Some (Inr (out, g))
      else let g = skip_padding g in
        if member g = None \<and> gzip_input g = [] then Some (Inr (out, g))
        else let m = (case member g of None \<Rightarrow> decompressobj z (16 + MAX_WBITS) | Some m \<Rightarrow> m) in
          case zlib_step z m (gzip_input g) (CHUNK_BYTES - length out) of
            None \<Rightarrow> Some (Inl (malformed_error ''gzip''))
          | Some (data, m') \<Rightarrow>
              if zlib_eof z m'
              then gzip_loop z fuel
                     \<lparr>member = None, gzip_input = unused_data z m', members_completed = Suc (members_completed g)\<rparr>
                     (out @ data)
              else let g = g\<lparr>member := Some m', gzip_input := unconsumed_tail z m'\<rparr> in
                if length (out @ data) < CHUNK_BYTES then Some (Inr (out @ data, g))
                else gzip_loop z fuel g (out @ data))"

definition gzip_fuel :: "'z gzip_decoder \<Rightarrow> nat" where
  "gzip_fuel g = 2 * length (gzip_input g) + (if member g = None then 1 else 2)"

definition gzip_decompress ::
    "('z, 'm) zlib_scheme \<Rightarrow> 'z gzip_decoder \<Rightarrow> string \<Rightarrow> (exn + string \<times> bool \<times> 'z gzip_decoder) option" where
  "gzip_decompress z g data =
     (let g = g\<lparr>gzip_input := gzip_input g @ data\<rparr> in
      case gzip_loop z (gzip_fuel g) g [] of
        None \<Rightarrow> None
      | Some r \<Rightarrow> Some (and_then r (\<lambda>(out, g). Inr (out, length out \<ge> CHUNK_BYTES, g))))"

definition gzip_finish :: "'z gzip_decoder \<Rightarrow> exn option" where
  "gzip_finish g =
     (if members_completed g = 0 \<or> member g \<noteq> None \<or> gzip_input g \<noteq> []
      then Some (http_decode_error ''HTTP response body ended inside its gzip content encoding.'') else None)"

section \<open>Deflate\<close>

record 'z deflate_decoder =
  stream :: "'z option"
  deflate_input :: string

definition deflate_init :: "'z deflate_decoder" where
  "deflate_init = \<lparr>stream = None, deflate_input = []\<rparr>"

definition trailing_data_error :: exn where
  "trailing_data_error =
     http_decode_error ''HTTP response body has data after the end of its deflate content encoding.''"

definition zlib_wrapped :: "string \<Rightarrow> bool" where
  "zlib_wrapped input = has_zlib_header (of_nat (ord (input ! 0))) (of_nat (ord (input ! 1)))"

definition deflate_decompress ::
    "('z, 'm) zlib_scheme \<Rightarrow> 'z deflate_decoder \<Rightarrow> string \<Rightarrow> exn + string \<times> bool \<times> 'z deflate_decoder" where
  "deflate_decompress z d data =
     (let input = deflate_input d @ data in
      if stream d = None \<and> length input < 2 then Inr ([], False, d\<lparr>deflate_input := input\<rparr>)
      else let s = (case stream d of
                None \<Rightarrow> decompressobj z (if zlib_wrapped input then MAX_WBITS else - MAX_WBITS)
              | Some s \<Rightarrow> s) in
        if zlib_eof z s
        then (if input \<noteq> [] then Inl trailing_data_error else Inr ([], False, \<lparr>stream = Some s, deflate_input = input\<rparr>))
        else case zlib_step z s input CHUNK_BYTES of
          None \<Rightarrow> Inl (malformed_error ''deflate'')
        | Some (output, s') \<Rightarrow>
            if zlib_eof z s'
            then (if unused_data z s' \<noteq> [] then Inl trailing_data_error
                  else Inr (output, False, \<lparr>stream = Some s', deflate_input = []\<rparr>))
            else Inr (output, length output \<ge> CHUNK_BYTES, \<lparr>stream = Some s', deflate_input = unconsumed_tail z s'\<rparr>))"

definition deflate_finish :: "('z, 'm) zlib_scheme \<Rightarrow> 'z deflate_decoder \<Rightarrow> exn option" where
  "deflate_finish z d =
     (if deflate_input d \<noteq> [] \<or> (case stream d of None \<Rightarrow> True | Some s \<Rightarrow> \<not> zlib_eof z s)
      then Some (http_decode_error ''HTTP response body ended inside its deflate content encoding.'') else None)"

section \<open>The decoders of the body reader\<close>

datatype 'z decoder_object = GzipObject "'z gzip_decoder" | DeflateObject "'z deflate_decoder"

text \<open>A call that does not return is reported as the deadline it runs into; the contract of zlib excludes it.\<close>

fun object_decompress ::
    "('z, 'm) zlib_scheme \<Rightarrow> 'z decoder_object \<Rightarrow> string \<Rightarrow> exn + string \<times> bool \<times> 'z decoder_object" where
  "object_decompress z (GzipObject g) data =
     (case gzip_decompress z g data of
        None \<Rightarrow> Inl deadline_error
      | Some r \<Rightarrow> and_then r (\<lambda>(out, pending, g'). Inr (out, pending, GzipObject g')))"
| "object_decompress z (DeflateObject d) data =
     and_then (deflate_decompress z d data) (\<lambda>(out, pending, d'). Inr (out, pending, DeflateObject d'))"

fun object_finish :: "('z, 'm) zlib_scheme \<Rightarrow> 'z decoder_object \<Rightarrow> exn option" where
  "object_finish z (GzipObject g) = gzip_finish g"
| "object_finish z (DeflateObject d) = deflate_finish z d"

definition content_decoder :: "('z, 'm) zlib_scheme \<Rightarrow> coding \<Rightarrow> 'z decoder_object decoder" where
  "content_decoder z c =
     \<lparr>decoder_state = (case c of Gzip \<Rightarrow> GzipObject gzip_init | Deflate \<Rightarrow> DeflateObject deflate_init),
      decompress = object_decompress z, finish = object_finish z\<rparr>"

section \<open>Calls return\<close>

text \<open>What the zlib module documents: the output is bounded by \<open>max_length\<close>, the bytes after the end of a
  stream are a rest of the input, a stream is not empty, and input is left over only when the output
  reached its bound.\<close>

definition zlib_contract :: "('z, 'm) zlib_scheme \<Rightarrow> bool" where
  "zlib_contract z \<longleftrightarrow>
     (\<forall>m data n out m'. 0 < n \<longrightarrow> zlib_step z m data n = Some (out, m') \<longrightarrow>
        length out \<le> n \<and> length (unused_data z m') \<le> length data
        \<and> (\<not> zlib_eof z m' \<longrightarrow> length out < n \<longrightarrow> unconsumed_tail z m' = []))
     \<and> (\<forall>w data n out m'. zlib_step z (decompressobj z w) data n = Some (out, m') \<longrightarrow>
        zlib_eof z m' \<longrightarrow> length (unused_data z m') < length data)"

lemma zlib_stepD:
  assumes "zlib_contract z" and "0 < n" and "zlib_step z m data n = Some (out, m')"
  shows "length out \<le> n" and "length (unused_data z m') \<le> length data"
    and "\<not> zlib_eof z m' \<Longrightarrow> length out < n \<Longrightarrow> unconsumed_tail z m' = []"
  using assms unfolding zlib_contract_def by blast+

lemma zlib_freshD:
  "zlib_contract z \<Longrightarrow> zlib_step z (decompressobj z w) data n = Some (out, m') \<Longrightarrow> zlib_eof z m' \<Longrightarrow>
   length (unused_data z m') < length data"
  unfolding zlib_contract_def by blast

lemma length_dropWhile_le: "length (dropWhile P xs) \<le> length xs"
  by (induction xs) auto

lemma skip_padding_fuel: "gzip_fuel (skip_padding g) \<le> gzip_fuel g"
  by (auto simp: skip_padding_def gzip_fuel_def length_dropWhile_le)

lemma skip_padding_member [simp]: "member (skip_padding g) = member g"
  by (simp add: skip_padding_def)

definition gzip_result_ok :: "exn + string \<times> 'z gzip_decoder \<Rightarrow> bool" where
  "gzip_result_ok r = (case r of
     Inl e \<Rightarrow> e = malformed_error ''gzip''
   | Inr (out, g) \<Rightarrow> length out \<le> CHUNK_BYTES \<and> (length out < CHUNK_BYTES \<longrightarrow> gzip_input g = []))"

lemma gzip_loop_returns:
  assumes "zlib_contract z"
  shows "gzip_fuel g \<le> fuel \<Longrightarrow> length out \<le> CHUNK_BYTES \<Longrightarrow> \<exists>r. gzip_loop z fuel g out = Some r \<and> gzip_result_ok r"
proof (induction fuel arbitrary: g out)
  case 0
  then show ?case by (simp add: gzip_fuel_def split: if_splits)
next
  case (Suc fuel)
  define h where "h = skip_padding g"
  define m where "m = (case member h of None \<Rightarrow> decompressobj z (16 + MAX_WBITS) | Some m \<Rightarrow> m)"
  show ?case
  proof (cases "CHUNK_BYTES \<le> length out \<or> member h = None \<and> gzip_input h = []")
    case True
    then show ?thesis using Suc.prems(2) by (auto simp: h_def [symmetric] gzip_result_ok_def Let_def)
  next
    case running: False
    show ?thesis
    proof (cases "zlib_step z m (gzip_input h) (CHUNK_BYTES - length out)")
      case None
      then show ?thesis using running by (auto simp: h_def [symmetric] m_def gzip_result_ok_def Let_def)
    next
      case (Some r)
      obtain data m' where r: "r = (data, m')" by fastforce
      note step = zlib_stepD [OF assms _ Some [unfolded r]]
      have room: "0 < CHUNK_BYTES - length out" using running by simp
      have fuel: "gzip_fuel h \<le> Suc fuel" using skip_padding_fuel [of g] Suc.prems(1) by (simp add: h_def)
      have out: "length (out @ data) \<le> CHUNK_BYTES" using step(1) [OF room] Suc.prems(2) by simp
      show ?thesis
      proof (cases "zlib_eof z m'")
        case True
        let ?next = "\<lparr>member = None, gzip_input = unused_data z m', members_completed = Suc (members_completed h)\<rparr>"
        have "gzip_fuel ?next \<le> fuel"
        proof (cases "member h")
          case None
          then have "length (unused_data z m') < length (gzip_input h)"
            using zlib_freshD [OF assms _ True] Some by (simp add: m_def r)
          then show ?thesis using fuel None by (simp add: gzip_fuel_def)
        next
          case (Some a)
          then show ?thesis using step(2) [OF room] fuel by (simp add: gzip_fuel_def)
        qed
        then show ?thesis
          using Suc.IH [OF _ out] running True Some by (auto simp: h_def [symmetric] m_def r Let_def)
      next
        case open_member: False
        show ?thesis
        proof (cases "length (out @ data) < CHUNK_BYTES")
          case True
          then show ?thesis
            using step(3) [OF room open_member] running Some open_member
            by (auto simp: h_def [symmetric] m_def r Let_def gzip_result_ok_def)
        next
          case False
          have "fuel \<noteq> 0" using fuel running by (cases "gzip_input h") (auto simp: gzip_fuel_def split: if_splits)
          then obtain fuel' where "fuel = Suc fuel'" by (cases fuel) auto
          then show ?thesis
            using False out running Some open_member
            by (auto simp: h_def [symmetric] m_def r Let_def gzip_result_ok_def)
        qed
      qed
    qed
  qed
qed

lemma gzip_decompress_returns:
  assumes "zlib_contract z"
  shows "\<exists>r. gzip_decompress z g data = Some r
    \<and> (case r of Inl e \<Rightarrow> e = malformed_error ''gzip''
       | Inr (out, pending, g') \<Rightarrow> length out \<le> CHUNK_BYTES \<and> (pending \<longleftrightarrow> length out = CHUNK_BYTES)
           \<and> (\<not> pending \<longrightarrow> gzip_input g' = []))"
proof -
  let ?g = "g\<lparr>gzip_input := gzip_input g @ data\<rparr>"
  obtain r where r: "gzip_loop z (gzip_fuel ?g) ?g [] = Some r" and ok: "gzip_result_ok r"
    using gzip_loop_returns [OF assms, of ?g "gzip_fuel ?g" "[]"] by auto
  show ?thesis
    using ok by (cases r) (auto simp: gzip_decompress_def r gzip_result_ok_def Let_def and_then_def)
qed

text \<open>Input a decoder still holds; a deflate decoder keeps a first byte until it knows the header.\<close>

fun held_input :: "'z decoder_object \<Rightarrow> string" where
  "held_input (GzipObject g) = gzip_input g"
| "held_input (DeflateObject d) = (if stream d = None then drop 1 (deflate_input d) else deflate_input d)"

definition call_ok :: "exn + string \<times> bool \<times> 'z decoder_object \<Rightarrow> bool" where
  "call_ok r = (case r of
     Inl e \<Rightarrow> e \<in> {malformed_error ''gzip'', malformed_error ''deflate'', trailing_data_error}
   | Inr (out, pending, obj) \<Rightarrow>
       length out \<le> CHUNK_BYTES \<and> (if pending then length out = CHUNK_BYTES else held_input obj = []))"

lemma deflate_call_ok:
  assumes "zlib_contract z"
  shows "call_ok (object_decompress z (DeflateObject d) data)"
proof (cases "stream d = None \<and> length (deflate_input d @ data) < 2")
  case True
  then show ?thesis by (auto simp: deflate_decompress_def call_ok_def Let_def)
next
  case started: False
  let ?input = "deflate_input d @ data"
  define s where "s = (case stream d of
      None \<Rightarrow> decompressobj z (if zlib_wrapped ?input then MAX_WBITS else - MAX_WBITS) | Some s \<Rightarrow> s)"
  note unfolded = deflate_decompress_def s_def [symmetric] call_ok_def Let_def
  show ?thesis
  proof (cases "zlib_eof z s \<or> zlib_step z s ?input CHUNK_BYTES = None")
    case True
    then show ?thesis using started by (auto simp: unfolded)
  next
    case running: False
    then obtain out s' where step: "zlib_step z s ?input CHUNK_BYTES = Some (out, s')" by auto
    have "0 < CHUNK_BYTES" by (simp add: CHUNK_BYTES_def)
    note contract = zlib_stepD [OF assms this step]
    show ?thesis
      using contract started running step by (auto simp: unfolded)
  qed
qed

text \<open>C36.  A call of a content decoder always returns: whatever the server sent, within zlib's contract the
  loop over concatenated gzip members ends, at most one chunk comes out, the only failures are the public
  decode errors, and a decoder that does not ask to be called again holds no input back.
\<close>

theorem decoder_call_returns:
  assumes "zlib_contract z"
  shows "call_ok (object_decompress z obj data)"
proof (cases obj)
  case (GzipObject g)
  obtain r where "gzip_decompress z g data = Some r"
    and "case r of Inl e \<Rightarrow> e = malformed_error ''gzip''
       | Inr (out, pending, g') \<Rightarrow> length out \<le> CHUNK_BYTES \<and> (pending \<longleftrightarrow> length out = CHUNK_BYTES)
           \<and> (\<not> pending \<longrightarrow> gzip_input g' = [])"
    using gzip_decompress_returns [OF assms] by blast
  then show ?thesis by (auto simp: GzipObject call_ok_def split: sum.splits)
next
  case (DeflateObject d)
  show ?thesis unfolding DeflateObject by (rule deflate_call_ok [OF assms])
qed

text \<open>A decompressor of plain text that ends its stream at an exclamation mark.\<close>

record demo_stream =
  demo_eof :: bool
  demo_unused :: string
  demo_tail :: string

definition demo_step :: "demo_stream \<Rightarrow> string \<Rightarrow> nat \<Rightarrow> (string \<times> demo_stream) option" where
  "demo_step m data n =
     (let body = takeWhile (\<lambda>c. c \<noteq> CHR ''!'') data in
      if length body < length data \<and> length body \<le> n
      then Some (body, \<lparr>demo_eof = True, demo_unused = drop (Suc (length body)) data, demo_tail = []\<rparr>)
      else Some (take n body, \<lparr>demo_eof = False, demo_unused = [], demo_tail = drop n data\<rparr>))"

definition demo_zlib :: "demo_stream zlib" where
  "demo_zlib = \<lparr>decompressobj = (\<lambda>w. \<lparr>demo_eof = False, demo_unused = [], demo_tail = []\<rparr>), zlib_step = demo_step,
     zlib_eof = demo_eof, unused_data = demo_unused, unconsumed_tail = demo_tail\<rparr>"

lemma demo_zlib_contract: "zlib_contract demo_zlib"
proof -
  have step: "length out \<le> n \<and> length (demo_unused m') \<le> length data
      \<and> (\<not> demo_eof m' \<longrightarrow> length out < n \<longrightarrow> demo_tail m' = [])
      \<and> (demo_eof m' \<longrightarrow> length (demo_unused m') < length data)"
    if "demo_step m data n = Some (out, m')" for m data n out m'
  proof -
    have "length (takeWhile (\<lambda>c. c \<noteq> CHR ''!'') data) \<le> length data" by (rule length_takeWhile_le)
    then show ?thesis using that by (auto simp: demo_step_def Let_def split: if_splits)
  qed
  then show ?thesis unfolding zlib_contract_def demo_zlib_def by simp
qed

lemmas gzip_loop_numeral = gzip_loop.simps(2) [of _ "pred_numeral k" for k, folded numeral_eq_Suc]

text \<open>Two members in one chunk, the second of them cut off.\<close>

lemma decoder_call_returns_witness:
  "call_ok (object_decompress demo_zlib (GzipObject gzip_init) ''ab!cd'')
   \<and> (\<exists>g. object_decompress demo_zlib (GzipObject gzip_init) ''ab!cd'' = Inr (''abcd'', False, GzipObject g))"
proof
  show "call_ok (object_decompress demo_zlib (GzipObject gzip_init) ''ab!cd'')"
    by (rule decoder_call_returns [OF demo_zlib_contract])
  show "\<exists>g. object_decompress demo_zlib (GzipObject gzip_init) ''ab!cd'' = Inr (''abcd'', False, GzipObject g)"
    by (simp add: gzip_decompress_def gzip_init_def gzip_fuel_def gzip_loop_numeral demo_zlib_def demo_step_def
        skip_padding_def CHUNK_BYTES_def Let_def)
qed

end
