(* ===== verification/Http_Hops.thy ===== *)
theory Http_Hops
  imports Http_Fetch Http_Capacity
begin

text \<open>
  One hop on a connection pool and the frame of one exchange (\<open>camouflare/http_transport.py\<close>): which pool
  a session uses, the resolver, what the sender learns from httpcore's trace events, which sockets a failed
  hop closes itself, how the failure is named, and the release of the slot whatever happened.  The events
  of a hop and its outcome are what httpcore reports; a socket is its number.
\<close>

section \<open>Pools and names\<close>

datatype connection_pool =
    SharedPool
  | PublicPool
  | ProxyPool string "(nat list \<times> nat list) option"

text \<open>\<open>HttpcoreConnector.session\<close>: the pool of the session, and whether the session closes it.\<close>

definition session_pool :: "(string \<times> string) list option \<Rightarrow> bool \<Rightarrow> exn + connection_pool" where
  "session_pool proxy block_private =
     (case proxy of
        None \<Rightarrow> Inr (if block_private then PublicPool else SharedPool)
      | Some p \<Rightarrow> and_then (httpcore_proxy p) (\<lambda>(server, auth). Inr (ProxyPool server auth)))"

definition session_closes :: "connection_pool \<Rightarrow> bool" where
  "session_closes p = (case p of ProxyPool _ _ \<Rightarrow> True | _ \<Rightarrow> False)"

text \<open>\<open>system_resolver\<close>: a literal is itself, otherwise the distinct addresses \<open>getaddrinfo\<close> answers.
  \<open>ip_text\<close> is the canonical text of an address.\<close>

definition system_resolver ::
    "(ip_addr \<Rightarrow> string) \<Rightarrow> (string \<Rightarrow> exn + string list) \<Rightarrow> string \<Rightarrow> exn + string list" where
  "system_resolver ip_text getaddrinfo host =
     (case ip_literal (Some host) of
        Some literal \<Rightarrow> Inr [ip_text literal]
      | None \<Rightarrow> and_then (getaddrinfo host) (\<lambda>infos. Inr (rev (remdups (rev infos)))))"

definition connect_unix_socket :: "exn + 'c" where
  "connect_unix_socket = Inl (NetError ConnectError ''Unix socket targets are not allowed.'')"

text \<open>Characters are at most 255, so every value is Latin-1 and \<open>_wire_headers\<close> keeps the items; the name of
  a header is encoded as ASCII when it is sent.\<close>

definition wire_headers :: "headers \<Rightarrow> exn + headers" where
  "wire_headers hs =
     (case filter (\<lambda>(n, v). \<not> list_all (\<lambda>c. ord c < 256) v) hs of
        [] \<Rightarrow> Inr hs
      | (n, v) # _ \<Rightarrow> Inl (invalid_request (''Request header '' @ q n @ '' must contain only Latin-1 characters.'')))"

definition encoded_headers :: "headers \<Rightarrow> exn + headers" where
  "encoded_headers hs =
     (if list_all (\<lambda>(n, v). list_all (\<lambda>c. ord c < 128) n) hs then Inr hs
      else Inl (ValueError ''ordinal not in range(128)''))"

section \<open>Trace events\<close>

record trace_event =
  event_name :: string
  event_method :: "string option"
  event_socket :: "nat option"

record hop_progress =
  opened :: "nat list"
  request_sent :: bool
  proxy_tunnel_open :: bool

definition PROXY_TUNNEL_OPEN_EVENTS :: "string set" where
  "PROXY_TUNNEL_OPEN_EVENTS = {''socks.setup_socks5_connection.complete'', ''proxy.start_tls.started''}"

definition request_goes_out :: "trace_event \<Rightarrow> bool" where
  "request_goes_out ev \<longleftrightarrow>
     ends_with ''.send_request_headers.started'' (event_name ev) \<and> event_method ev \<noteq> Some ''CONNECT''"

definition on_trace :: "trace_event \<Rightarrow> hop_progress \<Rightarrow> hop_progress" where
  "on_trace ev p =
     (let p = (case event_socket ev of
                 Some s \<Rightarrow> if ends_with ''.connect_tcp.complete'' (event_name ev)
                           then p\<lparr>opened := opened p @ [s]\<rparr> else p
               | None \<Rightarrow> p);
          p = (if request_goes_out ev then p\<lparr>request_sent := True\<rparr> else p) in
      if request_sent p \<or> event_name ev \<in> PROXY_TUNNEL_OPEN_EVENTS then p\<lparr>proxy_tunnel_open := True\<rparr> else p)"

definition hop_start :: hop_progress where
  "hop_start = \<lparr>opened = [], request_sent = False, proxy_tunnel_open = False\<rparr>"

text \<open>One hop: how far it got, the sockets it closed itself because it failed before its request went out, and
  its end.  A header name that is not ASCII fails before anything is sent.\<close>

definition send_hop :: "headers \<Rightarrow> trace_event list \<Rightarrow> exn + 'r \<Rightarrow> hop_progress \<times> nat list \<times> (exn + 'r)" where
  "send_hop hs events outcome =
     (case encoded_headers hs of
        Inl e \<Rightarrow> (hop_start, [], Inl e)
      | Inr _ \<Rightarrow>
          (let p = fold on_trace events hop_start in
           (p, case outcome of Inl e \<Rightarrow> if request_sent p then [] else opened p | Inr _ \<Rightarrow> [], outcome)))"

section \<open>The frame of an exchange\<close>

text \<open>The handlers of \<open>fetch\<close>: public errors pass, others are classified by the progress of the last hop.\<close>

definition fetch_failure :: "bool \<Rightarrow> hop_progress list \<Rightarrow> exn \<Rightarrow> exn" where
  "fetch_failure proxied hops e =
     (case e of
        CamouflareError _ \<Rightarrow> e
      | ResourceLimitError _ \<Rightarrow> e
      | _ \<Rightarrow>
          if \<not> is_Exception e then e
          else case classify_transport_error proxied (hops \<noteq> [] \<and> proxy_tunnel_open (last hops)) e of
            None \<Rightarrow> e | Some classified \<Rightarrow> classified)"

definition fetch_exchange :: "bool \<Rightarrow> hop_progress list \<Rightarrow> exn + 'a \<Rightarrow> 'a slots_prog" where
  "fetch_exchange proxied hops outcome =
     try_finally (case outcome of Inl e \<Rightarrow> raise_exn (fetch_failure proxied hops e) | Inr v \<Rightarrow> ret v) http_release"

text \<open>The exchange budget: the time left of the deadline, at least a millisecond.\<close>

definition fetch_deadline :: "time \<Rightarrow> time \<Rightarrow> time" where
  "fetch_deadline now timeout = now + max 1000 timeout"

text \<open>\<open>close\<close> quiesces and waits; its second part runs once no request is in flight, and closes these pools.\<close>

definition transport_closed :: "http_slots \<Rightarrow> connection_pool list option" where
  "transport_closed s = (if http_idle s then Some [SharedPool, PublicPool] else None)"

section \<open>Who is to blame\<close>

lemma request_sent_on_trace [simp]: "request_sent (on_trace ev p) \<longleftrightarrow> request_sent p \<or> request_goes_out ev"
  by (auto simp: on_trace_def Let_def split: option.split)

lemma tunnel_on_trace [simp]:
  "proxy_tunnel_open (on_trace ev p) \<longleftrightarrow>
     proxy_tunnel_open p \<or> request_sent p \<or> request_goes_out ev \<or> event_name ev \<in> PROXY_TUNNEL_OPEN_EVENTS"
  by (auto simp: on_trace_def Let_def split: option.split)

definition reaches_target :: "trace_event \<Rightarrow> bool" where
  "reaches_target ev \<longleftrightarrow> request_goes_out ev \<or> event_name ev \<in> PROXY_TUNNEL_OPEN_EVENTS"

lemma request_sent_trace:
  "request_sent (fold on_trace events p) \<longleftrightarrow> request_sent p \<or> list_ex request_goes_out events"
  by (induction events arbitrary: p) auto

lemma tunnel_trace:
  "(request_sent p \<longrightarrow> proxy_tunnel_open p) \<Longrightarrow>
   proxy_tunnel_open (fold on_trace events p) \<longleftrightarrow> proxy_tunnel_open p \<or> list_ex reaches_target events"
proof (induction events arbitrary: p)
  case (Cons ev events)
  have "request_sent (on_trace ev p) \<longrightarrow> proxy_tunnel_open (on_trace ev p)" using Cons.prems by auto
  from Cons.IH [OF this] show ?case using Cons.prems by (auto simp: reaches_target_def)
qed simp

lemma classified_network_failure:
  assumes "is_network_failure e"
  shows "\<exists>c. classify_transport_error True reached e = Some (CamouflareError c)
    \<and> (error_code c = PROXY_CONNECTION_ERROR \<longleftrightarrow> \<not> reached)"
  using assms
  by (cases e) (auto simp: classify_transport_error_def proxy_phase_error_def transport_error_def connect_error_def
      camouflare_error_with_def Let_def split: net_class.splits)

text \<open>
  A network failure of a proxied exchange is the proxy's exactly when nothing in the last hop shows that the
  proxy had reached the target; sockets of the hop are left to httpcore exactly when its request went out.
\<close>

theorem proxy_blame:
  assumes "is_network_failure e" and "encoded_headers hs = Inr names"
    and "send_hop hs events (Inl e :: exn + unit) = (p, closed, r)"
  shows "\<exists>c. fetch_failure True (earlier @ [p]) e = CamouflareError c
    \<and> (error_code c = PROXY_CONNECTION_ERROR \<longleftrightarrow> \<not> list_ex reaches_target events)
    \<and> closed = (if list_ex request_goes_out events then [] else opened p)"
proof -
  have p: "p = fold on_trace events hop_start" and closed: "closed = (if request_sent p then [] else opened p)"
    using assms(2,3) by (auto simp: send_hop_def Let_def)
  have reached: "proxy_tunnel_open p \<longleftrightarrow> list_ex reaches_target events"
    unfolding p by (subst tunnel_trace) (simp_all add: hop_start_def)
  have sent: "request_sent p \<longleftrightarrow> list_ex request_goes_out events"
    unfolding p by (simp add: request_sent_trace hop_start_def)
  have "is_Exception e" and other: "\<And>c. e \<noteq> CamouflareError c" "\<And>m. e \<noteq> ResourceLimitError m"
    using assms(1) by (cases e; simp)+
  obtain c where "classify_transport_error True (proxy_tunnel_open p) e = Some (CamouflareError c)"
    and "error_code c = PROXY_CONNECTION_ERROR \<longleftrightarrow> \<not> proxy_tunnel_open p"
    using classified_network_failure [OF assms(1)] by blast
  then have "fetch_failure True (earlier @ [p]) e = CamouflareError c"
    using \<open>is_Exception e\<close> other by (auto simp: fetch_failure_def split: exn.split)
  then show ?thesis
    using \<open>error_code c = _ \<longleftrightarrow> _\<close> reached sent closed by auto
qed

text \<open>The connection breaks after the SOCKS handshake, before the request: the target's failure, and the socket is
  closed by the hop.\<close>

lemma proxy_blame_witness:
  "\<exists>c p. send_hop [] [\<lparr>event_name = ''socks.connect_tcp.complete'', event_method = None, event_socket = Some 7\<rparr>,
        \<lparr>event_name = ''socks.setup_socks5_connection.complete'', event_method = None, event_socket = None\<rparr>]
       (Inl (NetError NetworkError ''reset'') :: exn + unit) = (p, [7], Inl (NetError NetworkError ''reset''))
     \<and> fetch_failure True [p] (NetError NetworkError ''reset'') = CamouflareError c
     \<and> error_code c \<noteq> PROXY_CONNECTION_ERROR"
proof -
  let ?events = "[\<lparr>event_name = ''socks.connect_tcp.complete'', event_method = None, event_socket = Some 7\<rparr>,
        \<lparr>event_name = ''socks.setup_socks5_connection.complete'', event_method = None, event_socket = None\<rparr>]"
  let ?p = "\<lparr>opened = [7], request_sent = False, proxy_tunnel_open = True\<rparr>"
  have sent: "send_hop [] ?events (Inl (NetError NetworkError ''reset'') :: exn + unit) =
      (?p, [7], Inl (NetError NetworkError ''reset''))"
    by (simp add: send_hop_def encoded_headers_def on_trace_def hop_start_def request_goes_out_def ends_with_def
        PROXY_TUNNEL_OPEN_EVENTS_def)
  have "list_ex reaches_target ?events" by (simp add: reaches_target_def PROXY_TUNNEL_OPEN_EVENTS_def)
  then show ?thesis
    using proxy_blame [OF _ _ sent, of "[]" "[]"] sent by (fastforce simp: encoded_headers_def)
qed

end
