(* ===== verification/Runtime.thy ===== *)
theory Runtime
  imports Errors
begin

text \<open>
  Start-up and ordered shutdown of the service (\<open>camouflare/runtime.py\<close>).  A shutdown phase is a task that
  closes one component; how the tasks and the clock behave is the parameter \<open>shutdown_world\<close>.  The state
  records, beside the world, whether the deadline expired and what was started, cancelled and logged.
\<close>

section \<open>Phases\<close>

datatype phase =
    PoolQuiesce
  | TransportQuiesce
  | SessionsClose
  | PoolClose
  | TransportClose
  | CleanupClose

text \<open>How a phase task ended; \<open>PhaseFatal\<close> is an exception outside \<open>Exception\<close>, such as \<open>SystemExit\<close>.\<close>

datatype phase_end = PhaseReturned | PhaseFailed exn | PhaseCancelled | PhaseFatal exn

datatype cleanup_kind = NoCleanup | SupervisedCleanup | PlainCleanup

record runtime_parts =
  pool_quiesces :: bool
  transport_present :: bool
  transport_quiesces :: bool
  cleanup_kind :: cleanup_kind

text \<open>\<open>start_phase\<close> creates the task and yields to the loop once, \<open>wait_phase\<close> is \<open>asyncio.wait\<close> with a timeout,
  \<open>close_supervisor\<close> is \<open>CleanupSupervisor.close\<close>.\<close>

record 'w shutdown_world =
  loop_time :: "'w \<Rightarrow> time"
  start_phase :: "phase \<Rightarrow> 'w \<Rightarrow> 'w"
  phase_ended :: "phase \<Rightarrow> 'w \<Rightarrow> phase_end option"
  wait_phase :: "phase \<Rightarrow> time \<Rightarrow> 'w \<Rightarrow> 'w"
  cancel_phase :: "phase \<Rightarrow> 'w \<Rightarrow> 'w"
  close_supervisor :: "time \<Rightarrow> 'w \<Rightarrow> (exn + unit) \<times> 'w"

record 'w shutdown_state =
  sd_world :: 'w
  deadline_expired :: bool
  phases_started :: "phase list"
  phases_cancelled :: "phase list"
  phases_failed :: "phase list"
  timeout_recorded :: bool

type_synonym 'w shutdown_prog = "('w shutdown_state, unit, exn) prog"

section \<open>Shutdown\<close>

definition on_world :: "('w \<Rightarrow> 'w) \<Rightarrow> 'w shutdown_prog" where
  "on_world f = modify (\<lambda>s. s\<lparr>sd_world := f (sd_world s)\<rparr>)"

definition remaining_time :: "('w, 'm) shutdown_world_scheme \<Rightarrow> time \<Rightarrow> 'w \<Rightarrow> time" where
  "remaining_time w deadline v = max 0 (deadline - loop_time w v)"

definition consume_phase_result :: "phase \<Rightarrow> phase_end \<Rightarrow> 'w shutdown_prog" where
  "consume_phase_result p r = (case r of
     PhaseReturned \<Rightarrow> ret ()
   | PhaseFatal e \<Rightarrow> raise_exn e
   | _ \<Rightarrow> modify (\<lambda>s. s\<lparr>phases_failed := phases_failed s @ [p]\<rparr>))"

definition give_up_phase :: "('w, 'm) shutdown_world_scheme \<Rightarrow> phase \<Rightarrow> 'w shutdown_prog" where
  "give_up_phase w p =
     skip_then (modify (\<lambda>s. s\<lparr>deadline_expired := True, phases_cancelled := phases_cancelled s @ [p]\<rparr>))
       (on_world (cancel_phase w p))"

definition close_resource :: "('w, 'm) shutdown_world_scheme \<Rightarrow> time \<Rightarrow> phase \<Rightarrow> 'w shutdown_prog" where
  "close_resource w deadline p =
     skip_then (modify (\<lambda>s. s\<lparr>phases_started := phases_started s @ [p], sd_world := start_phase w p (sd_world s)\<rparr>))
       (with_state (\<lambda>s. case phase_ended w p (sd_world s) of
          Some r \<Rightarrow> consume_phase_result p r
        | None \<Rightarrow>
            (let remaining = remaining_time w deadline (sd_world s) in
             if remaining = 0 then give_up_phase w p
             else skip_then (on_world (wait_phase w p remaining))
               (with_state (\<lambda>s. case phase_ended w p (sd_world s) of
                  None \<Rightarrow> give_up_phase w p
                | Some r \<Rightarrow> consume_phase_result p r)))))"

definition ordered_phases :: "runtime_parts \<Rightarrow> phase list" where
  "ordered_phases parts =
     (if pool_quiesces parts then [PoolQuiesce] else [])
     @ (if transport_quiesces parts then [TransportQuiesce] else [])
     @ [SessionsClose, PoolClose]
     @ (if transport_present parts then [TransportClose] else [])
     @ (if cleanup_kind parts = PlainCleanup then [CleanupClose] else [])"

fun close_phases :: "('w, 'm) shutdown_world_scheme \<Rightarrow> time \<Rightarrow> phase list \<Rightarrow> 'w shutdown_prog" where
  "close_phases w deadline [] = ret ()"
| "close_phases w deadline (p # ps) = skip_then (close_resource w deadline p) (close_phases w deadline ps)"

definition close_cleanup_supervisor :: "('w, 'm) shutdown_world_scheme \<Rightarrow> time \<Rightarrow> 'w shutdown_prog" where
  "close_cleanup_supervisor w deadline = with_state (\<lambda>s.
     case close_supervisor w (remaining_time w deadline (sd_world s)) (sd_world s) of (r, v) \<Rightarrow>
       skip_then (modify (\<lambda>s. s\<lparr>phases_started := phases_started s @ [CleanupClose], sd_world := v\<rparr>))
         (case r of
            Inl e \<Rightarrow> raise_exn e
          | Inr _ \<Rightarrow> modify (\<lambda>s. s\<lparr>deadline_expired := (deadline_expired s \<or> loop_time w v \<ge> deadline)\<rparr>)))"

definition shutdown_runtime_owned ::
    "('w, 'm) shutdown_world_scheme \<Rightarrow> runtime_parts \<Rightarrow> time \<Rightarrow> 'w shutdown_prog" where
  "shutdown_runtime_owned w parts timeout = with_state (\<lambda>s0.
     let deadline = loop_time w (sd_world s0) + timeout in
     skip_then (close_phases w deadline (ordered_phases parts))
    (skip_then (if cleanup_kind parts = SupervisedCleanup then close_cleanup_supervisor w deadline else ret ())
      (modify (\<lambda>s. if deadline_expired s then s\<lparr>timeout_recorded := True\<rparr> else s))))"

text \<open>\<open>shutdown_runtime\<close> and the finalizer of the lifespan await a task they own under \<open>shield\<close>.  A first
  cancellation of the caller waits again, and is raised afterwards; a second one ends the wait.  The task
  itself is never cancelled.  The result is what the caller sees and whether it saw the task end.\<close>

definition await_owned :: "nat \<Rightarrow> exn + unit \<Rightarrow> (exn + unit) \<times> bool" where
  "await_owned cancellations outcome =
     (if cancellations = 0 then (outcome, True) else (Inl CancelledError, cancellations = 1))"

definition shutdown_runtime ::
    "('w, 'm) shutdown_world_scheme \<Rightarrow> runtime_parts \<Rightarrow> time \<Rightarrow> nat \<Rightarrow> 'w shutdown_state
     \<Rightarrow> ((exn + unit) \<times> bool) \<times> 'w shutdown_state" where
  "shutdown_runtime w parts timeout cancellations s =
     (case shutdown_runtime_owned w parts timeout s of (r, s') \<Rightarrow> (await_owned cancellations r, s'))"

section \<open>Background loops and the lifespan\<close>

text \<open>\<open>session_reaper\<close> and \<open>pool_maintainer\<close> over the results of their turns: how many failures they logged, and the
  exception that ended them, if one did.\<close>

fun background_loop :: "(exn + unit) list \<Rightarrow> nat \<times> exn option" where
  "background_loop [] = (0, None)"
| "background_loop (Inr _ # rs) = background_loop rs"
| "background_loop (Inl e # rs) =
     (if is_Exception e then (case background_loop rs of (n, r) \<Rightarrow> (Suc n, r)) else (0, Some e))"

datatype lifespan_event =
    HandlerInstalled
  | PoolStarted
  | LoopsCreated
  | Serving
  | LoopsCancelled
  | RuntimeShutDown
  | HandlerRestored

text \<open>\<open>make_runtime_lifespan\<close>: \<open>started\<close> is the result of \<open>pool.start\<close>, \<open>served\<close> that of the application's time, and
  \<open>finalized\<close> that of the shutdown, during which the host cancels the lifespan task \<open>cancellations\<close> times.\<close>

definition lifespan ::
    "exn + unit \<Rightarrow> exn + unit \<Rightarrow> exn + unit \<Rightarrow> nat \<Rightarrow> lifespan_event list \<times> (exn + unit)" where
  "lifespan started served finalized cancellations =
     (case started of
        Inl e \<Rightarrow> ([HandlerInstalled, HandlerRestored], Inl e)
      | Inr _ \<Rightarrow>
          (case await_owned cancellations finalized of (r, waited) \<Rightarrow>
             ([HandlerInstalled, PoolStarted, LoopsCreated, Serving, LoopsCancelled]
                @ (if waited then [RuntimeShutDown, HandlerRestored] else [HandlerRestored, RuntimeShutDown]),
              case r of Inl e \<Rightarrow> Inl e | Inr _ \<Rightarrow> served)))"

section \<open>Every phase is started, in time\<close>

definition planned_phases :: "runtime_parts \<Rightarrow> phase list" where
  "planned_phases parts =
     ordered_phases parts @ (if cleanup_kind parts = SupervisedCleanup then [CleanupClose] else [])"

text \<open>The loop is \<open>lag\<close> late at most: a call that does not wait takes at most that long, and a wait ends at most that
  long after its timeout.\<close>

definition prompt_world :: "('w, 'm) shutdown_world_scheme \<Rightarrow> time \<Rightarrow> bool" where
  "prompt_world w lag \<longleftrightarrow> 0 \<le> lag
     \<and> (\<forall>p v. loop_time w (start_phase w p v) \<le> loop_time w v + lag)
     \<and> (\<forall>p v. loop_time w (cancel_phase w p v) \<le> loop_time w v + lag)
     \<and> (\<forall>p t v. 0 \<le> t \<longrightarrow> loop_time w (wait_phase w p t v) \<le> loop_time w v + t + lag)
     \<and> (\<forall>t v. 0 \<le> t \<longrightarrow> loop_time w (snd (close_supervisor w t v)) \<le> loop_time w v + t + lag)"

lemma prompt_worldD:
  assumes "prompt_world w lag"
  shows "0 \<le> lag" and "loop_time w (start_phase w p v) \<le> loop_time w v + lag"
    and "loop_time w (cancel_phase w p v) \<le> loop_time w v + lag"
    and "0 \<le> t \<Longrightarrow> loop_time w (wait_phase w p t v) \<le> loop_time w v + t + lag"
    and "0 \<le> t \<Longrightarrow> loop_time w (snd (close_supervisor w t v)) \<le> loop_time w v + t + lag"
  using assms unfolding prompt_world_def by blast+

text \<open>A shutdown step keeps its books: a phase is cancelled only after it was started, and only by marking the
  deadline as expired.\<close>

definition books_ok :: "'w shutdown_state \<Rightarrow> bool" where
  "books_ok s \<longleftrightarrow> set (phases_cancelled s) \<subseteq> set (phases_started s)
     \<and> (phases_cancelled s \<noteq> [] \<longrightarrow> deadline_expired s) \<and> (timeout_recorded s \<longrightarrow> deadline_expired s)"

lemma consume_state:
  "sd_world (snd (consume_phase_result p r s)) = sd_world s"
  "phases_started (snd (consume_phase_result p r s)) = phases_started s"
  "books_ok s \<Longrightarrow> books_ok (snd (consume_phase_result p r s))"
  by (cases r; simp add: consume_phase_result_def books_ok_def)+

lemma give_up_state:
  "sd_world (snd (give_up_phase w p s)) = cancel_phase w p (sd_world s)"
  "phases_started (snd (give_up_phase w p s)) = phases_started s"
  "books_ok s \<Longrightarrow> p \<in> set (phases_started s) \<Longrightarrow> books_ok (snd (give_up_phase w p s))"
  by (simp_all add: give_up_phase_def on_world_def skip_then_apply books_ok_def)

lemma close_resource_state:
  assumes "prompt_world w lag"
  shows "phases_started (snd (close_resource w deadline p s)) = phases_started s @ [p]"
    and "books_ok s \<Longrightarrow> books_ok (snd (close_resource w deadline p s))"
    and "loop_time w (sd_world (snd (close_resource w deadline p s))) \<le> max (loop_time w (sd_world s)) deadline + 2 * lag"
proof -
  let ?v = "start_phase w p (sd_world s)"
  let ?s = "s\<lparr>phases_started := phases_started s @ [p], sd_world := ?v\<rparr>"
  let ?t = "remaining_time w deadline ?v"
  let ?u = "?s\<lparr>sd_world := wait_phase w p ?t ?v\<rparr>"
  note time = prompt_worldD [OF assms]
  have run: "close_resource w deadline p s =
      (case phase_ended w p ?v of
         Some r \<Rightarrow> consume_phase_result p r ?s
       | None \<Rightarrow> if ?t = 0 then give_up_phase w p ?s
           else case phase_ended w p (wait_phase w p ?t ?v) of
             None \<Rightarrow> give_up_phase w p ?u | Some r \<Rightarrow> consume_phase_result p r ?u)"
    by (simp add: close_resource_def skip_then_apply on_world_def Let_def split: option.split)
  show "phases_started (snd (close_resource w deadline p s)) = phases_started s @ [p]"
    by (simp add: run consume_state give_up_state split: option.split)
  show "books_ok (snd (close_resource w deadline p s))" if "books_ok s"
  proof -
    have "books_ok ?s" and "books_ok ?u" using that by (auto simp: books_ok_def)
    then show ?thesis by (simp add: run consume_state give_up_state split: option.split)
  qed
  have started: "loop_time w ?v \<le> loop_time w (sd_world s) + lag" by (rule time(2))
  have "0 \<le> ?t" by (simp add: remaining_time_def)
  then have waited: "loop_time w (wait_phase w p ?t ?v) \<le> loop_time w ?v + ?t + lag" by (rule time(4))
  have gone: "loop_time w (cancel_phase w p v) \<le> loop_time w v + lag" for v by (rule time(3))
  show "loop_time w (sd_world (snd (close_resource w deadline p s))) \<le> max (loop_time w (sd_world s)) deadline + 2 * lag"
    using started waited gone [of ?v] gone [of "wait_phase w p ?t ?v"] time(1)
    by (auto simp: run consume_state give_up_state remaining_time_def split: option.split)
qed

lemma close_phases_started:
  assumes "prompt_world w lag"
  shows "\<exists>k \<le> length ps. phases_started (snd (close_phases w deadline ps s)) = phases_started s @ take k ps
     \<and> (case fst (close_phases w deadline ps s) of Inr _ \<Rightarrow> k = length ps | Inl _ \<Rightarrow> True)"
proof (induction ps arbitrary: s)
  case (Cons p ps)
  obtain r s1 where step: "close_resource w deadline p s = (r, s1)" by fastforce
  note one = close_resource_state(1) [OF assms, where p = p and s = s and deadline = deadline, unfolded step snd_conv]
  show ?case
  proof (cases r)
    case (Inl e)
    then show ?thesis using one by (intro exI [of _ "Suc 0"]) (simp add: step skip_then_apply)
  next
    case (Inr u)
    obtain k where "k \<le> length ps" and "phases_started (snd (close_phases w deadline ps s1)) = phases_started s1 @ take k ps"
      and "case fst (close_phases w deadline ps s1) of Inr _ \<Rightarrow> k = length ps | Inl _ \<Rightarrow> True"
      using Cons.IH by blast
    then show ?thesis
      using one Inr by (intro exI [of _ "Suc k"]) (simp add: step skip_then_apply split: sum.splits)
  qed
qed simp

lemma close_phases_books:
  "prompt_world w lag \<Longrightarrow> books_ok s \<Longrightarrow> books_ok (snd (close_phases w deadline ps s))"
proof (induction ps arbitrary: s)
  case (Cons p ps)
  obtain r s1 where step: "close_resource w deadline p s = (r, s1)" by fastforce
  then have "books_ok s1" using close_resource_state(2) [OF Cons.prems, of deadline p] by simp
  then show ?case using Cons.IH Cons.prems(1) by (cases r) (simp_all add: step skip_then_apply)
qed simp

lemma close_phases_time:
  assumes "prompt_world w lag"
  shows "loop_time w (sd_world (snd (close_phases w deadline ps s)))
    \<le> max (loop_time w (sd_world s)) deadline + 2 * lag * int (length ps)"
proof (induction ps arbitrary: s)
  case (Cons p ps)
  obtain r s1 where step: "close_resource w deadline p s = (r, s1)" by fastforce
  note one = close_resource_state(3) [OF assms, where p = p and s = s and deadline = deadline, unfolded step snd_conv]
  note lag = prompt_worldD(1) [OF assms]
  define n where "n = 2 * lag * int (length ps)"
  have "0 \<le> n" using lag by (simp add: n_def)
  moreover have "2 * lag * int (length (p # ps)) = 2 * lag + n" by (simp add: n_def algebra_simps)
  ultimately show ?case
    using one lag Cons.IH [of s1, folded n_def] by (cases r) (auto simp: step skip_then_apply)
qed simp

lemma close_supervisor_state:
  assumes "prompt_world w lag"
  shows "phases_started (snd (close_cleanup_supervisor w deadline s)) = phases_started s @ [CleanupClose]"
    and "books_ok s \<Longrightarrow> books_ok (snd (close_cleanup_supervisor w deadline s))"
    and "loop_time w (sd_world (snd (close_cleanup_supervisor w deadline s))) \<le> max (loop_time w (sd_world s)) deadline + lag"
proof -
  let ?t = "remaining_time w deadline (sd_world s)"
  obtain r v where close: "close_supervisor w ?t (sd_world s) = (r, v)" by fastforce
  show "phases_started (snd (close_cleanup_supervisor w deadline s)) = phases_started s @ [CleanupClose]"
    by (cases r) (simp_all add: close_cleanup_supervisor_def close skip_then_apply)
  show "books_ok (snd (close_cleanup_supervisor w deadline s))" if "books_ok s"
    using that by (cases r) (auto simp: close_cleanup_supervisor_def close skip_then_apply books_ok_def)
  have "loop_time w v \<le> loop_time w (sd_world s) + ?t + lag"
    using prompt_worldD(5) [OF assms, of ?t "sd_world s", unfolded close snd_conv] by (simp add: remaining_time_def)
  moreover have "sd_world (snd (close_cleanup_supervisor w deadline s)) = v"
    by (cases r) (simp_all add: close_cleanup_supervisor_def close skip_then_apply)
  ultimately show "loop_time w (sd_world (snd (close_cleanup_supervisor w deadline s))) \<le> max (loop_time w (sd_world s)) deadline + lag"
    by (auto simp: remaining_time_def)
qed

lemma planned_length: "length (ordered_phases parts) \<le> 6"
  "cleanup_kind parts = SupervisedCleanup \<Longrightarrow> length (ordered_phases parts) \<le> 5"
  by (auto simp: ordered_phases_def)

definition shutdown_start :: "'w \<Rightarrow> 'w shutdown_state" where
  "shutdown_start v = \<lparr>sd_world = v, deadline_expired = False, phases_started = [], phases_cancelled = [],
     phases_failed = [], timeout_recorded = False\<rparr>"

lemma shutdown_start_world: "sd_world (shutdown_start v) = v"
  by (simp add: shutdown_start_def)


text \<open>A world in which no phase ever ends: the clock is the world.\<close>

definition hanging_world :: "time shutdown_world" where
  "hanging_world = \<lparr>loop_time = (\<lambda>v. v), start_phase = (\<lambda>p v. v), phase_ended = (\<lambda>p v. None),
     wait_phase = (\<lambda>p t v. v + t), cancel_phase = (\<lambda>p v. v), close_supervisor = (\<lambda>t v. (Inr (), v + t))\<rparr>"

definition hanging_parts :: runtime_parts where
  "hanging_parts = \<lparr>pool_quiesces = True, transport_present = True, transport_quiesces = True,
     cleanup_kind = SupervisedCleanup\<rparr>"


end
