(* ===== verification/Metrics.thy ===== *)
theory Metrics
  imports Access
begin

text \<open>
  The metrics of the service (\<open>camouflare/metrics.py\<close>): the collectors with their label values, the hooks the
  other components call, and the wrapping of the loop's exception handler.  What Prometheus keeps is one
  sample for each collector and tuple of label values; times are microseconds.
\<close>

section \<open>Collectors\<close>

datatype collector =
    REQUEST_COUNTER
  | REQUEST_DURATION
  | IN_FLIGHT_REQUESTS
  | POOL_WAITING_REQUESTS
  | POOL_USABLE_CONTEXT_SLOTS
  | POOL_IDLE_RECYCLABLE_SLOTS
  | BROWSER_STATE
  | CONTEXT_STATE
  | POOL_ACQUIRE_COUNTER
  | POOL_ACQUIRE_DURATION
  | BROWSER_EVENT_COUNTER
  | BROWSER_RECYCLE_COUNTER
  | SESSION_STATE
  | SESSION_EVENT_COUNTER
  | TIMEOUT_COUNTER
  | CHALLENGE_COUNTER
  | PAYLOAD_SIZE
  | CLEANUP_IN_FLIGHT
  | CLEANUP_COUNTER
  | CLEANUP_DURATION
  | READINESS_COUNTER
  | READINESS_DURATION
  | POOL_ACQUIRE_TIMEOUT_COUNTER
  | ASYNCIO_UNHANDLED_COUNTER
  | V1_ERROR_COUNTER
  | BROWSER_TRANSPORT_ERROR_COUNTER

text \<open>The registered name, the kind and the label names of each collector, and the buckets of the histograms that set
  them: seconds as microseconds, sizes in bytes.\<close>

datatype metric_type = CounterKind | GaugeKind | HistogramKind

fun collector_name :: "collector \<Rightarrow> string" where
  "collector_name REQUEST_COUNTER = ''camouflare_request_total''"
| "collector_name REQUEST_DURATION = ''camouflare_request_duration_seconds''"
| "collector_name IN_FLIGHT_REQUESTS = ''camouflare_in_flight_requests''"
| "collector_name POOL_WAITING_REQUESTS = ''camouflare_pool_waiting_requests''"
| "collector_name POOL_USABLE_CONTEXT_SLOTS = ''camouflare_pool_usable_context_slots''"
| "collector_name POOL_IDLE_RECYCLABLE_SLOTS = ''camouflare_pool_idle_recyclable_slots''"
| "collector_name BROWSER_STATE = ''camouflare_browsers''"
| "collector_name CONTEXT_STATE = ''camouflare_contexts''"
| "collector_name POOL_ACQUIRE_COUNTER = ''camouflare_pool_acquire_total''"
| "collector_name POOL_ACQUIRE_DURATION = ''camouflare_pool_acquire_duration_seconds''"
| "collector_name BROWSER_EVENT_COUNTER = ''camouflare_browser_event_total''"
| "collector_name BROWSER_RECYCLE_COUNTER = ''camouflare_browser_recycle_total''"
| "collector_name SESSION_STATE = ''camouflare_sessions''"
| "collector_name SESSION_EVENT_COUNTER = ''camouflare_session_event_total''"
| "collector_name TIMEOUT_COUNTER = ''camouflare_timeout_total''"
| "collector_name CHALLENGE_COUNTER = ''camouflare_challenge_total''"
| "collector_name PAYLOAD_SIZE = ''camouflare_payload_bytes''"
| "collector_name CLEANUP_IN_FLIGHT = ''camouflare_cleanup_in_flight''"
| "collector_name CLEANUP_COUNTER = ''camouflare_cleanup_total''"
| "collector_name CLEANUP_DURATION = ''camouflare_cleanup_duration_seconds''"
| "collector_name READINESS_COUNTER = ''camouflare_readiness_total''"
| "collector_name READINESS_DURATION = ''camouflare_readiness_duration_seconds''"
| "collector_name POOL_ACQUIRE_TIMEOUT_COUNTER = ''camouflare_pool_acquire_timeout_total''"
| "collector_name ASYNCIO_UNHANDLED_COUNTER = ''camouflare_asyncio_unhandled_total''"
| "collector_name V1_ERROR_COUNTER = ''camouflare_v1_error_total''"
| "collector_name BROWSER_TRANSPORT_ERROR_COUNTER = ''camouflare_browser_transport_error_total''"

fun collector_kind :: "collector \<Rightarrow> metric_type" where
  "collector_kind REQUEST_COUNTER = CounterKind"
| "collector_kind REQUEST_DURATION = HistogramKind"
| "collector_kind IN_FLIGHT_REQUESTS = GaugeKind"
| "collector_kind POOL_WAITING_REQUESTS = GaugeKind"
| "collector_kind POOL_USABLE_CONTEXT_SLOTS = GaugeKind"
| "collector_kind POOL_IDLE_RECYCLABLE_SLOTS = GaugeKind"
| "collector_kind BROWSER_STATE = GaugeKind"
| "collector_kind CONTEXT_STATE = GaugeKind"
| "collector_kind POOL_ACQUIRE_COUNTER = CounterKind"
| "collector_kind POOL_ACQUIRE_DURATION = HistogramKind"
| "collector_kind BROWSER_EVENT_COUNTER = CounterKind"
| "collector_kind BROWSER_RECYCLE_COUNTER = CounterKind"
| "collector_kind SESSION_STATE = GaugeKind"
| "collector_kind SESSION_EVENT_COUNTER = CounterKind"
| "collector_kind TIMEOUT_COUNTER = CounterKind"
| "collector_kind CHALLENGE_COUNTER = CounterKind"
| "collector_kind PAYLOAD_SIZE = HistogramKind"
| "collector_kind CLEANUP_IN_FLIGHT = GaugeKind"
| "collector_kind CLEANUP_COUNTER = CounterKind"
| "collector_kind CLEANUP_DURATION = HistogramKind"
| "collector_kind READINESS_COUNTER = CounterKind"
| "collector_kind READINESS_DURATION = HistogramKind"
| "collector_kind POOL_ACQUIRE_TIMEOUT_COUNTER = CounterKind"
| "collector_kind ASYNCIO_UNHANDLED_COUNTER = CounterKind"
| "collector_kind V1_ERROR_COUNTER = CounterKind"
| "collector_kind BROWSER_TRANSPORT_ERROR_COUNTER = CounterKind"

fun collector_labels :: "collector \<Rightarrow> string list" where
  "collector_labels REQUEST_COUNTER = [''command'', ''result'']"
| "collector_labels REQUEST_DURATION = [''command'']"
| "collector_labels IN_FLIGHT_REQUESTS = []"
| "collector_labels POOL_WAITING_REQUESTS = []"
| "collector_labels POOL_USABLE_CONTEXT_SLOTS = []"
| "collector_labels POOL_IDLE_RECYCLABLE_SLOTS = []"
| "collector_labels BROWSER_STATE = [''state'']"
| "collector_labels CONTEXT_STATE = [''kind'']"
| "collector_labels POOL_ACQUIRE_COUNTER = [''kind'', ''result'']"
| "collector_labels POOL_ACQUIRE_DURATION = [''kind'', ''result'']"
| "collector_labels BROWSER_EVENT_COUNTER = [''event'']"
| "collector_labels BROWSER_RECYCLE_COUNTER = [''reason'']"
| "collector_labels SESSION_STATE = [''state'']"
| "collector_labels SESSION_EVENT_COUNTER = [''event'']"
| "collector_labels TIMEOUT_COUNTER = [''phase'']"
| "collector_labels CHALLENGE_COUNTER = [''outcome'']"
| "collector_labels PAYLOAD_SIZE = [''kind'']"
| "collector_labels CLEANUP_IN_FLIGHT = [''kind'']"
| "collector_labels CLEANUP_COUNTER = [''kind'', ''result'']"
| "collector_labels CLEANUP_DURATION = [''kind'', ''result'']"
| "collector_labels READINESS_COUNTER = [''result'']"
| "collector_labels READINESS_DURATION = [''result'']"
| "collector_labels POOL_ACQUIRE_TIMEOUT_COUNTER = [''reason'']"
| "collector_labels ASYNCIO_UNHANDLED_COUNTER = [''kind'']"
| "collector_labels V1_ERROR_COUNTER = [''command'', ''error_code'']"
| "collector_labels BROWSER_TRANSPORT_ERROR_COUNTER = [''phase'']"

fun collector_buckets :: "collector \<Rightarrow> int list option" where
  "collector_buckets POOL_ACQUIRE_DURATION = Some [5000, 10000, 25000, 50000, 100000, 250000, 500000, 1000000, 2500000, 5000000, 10000000, 30000000]"
| "collector_buckets PAYLOAD_SIZE = Some [1024, 4096, 16384, 65536, 262144, 1048576, 4194304, 16777216, 33554432, 67108864]"
| "collector_buckets CLEANUP_DURATION = Some [5000, 10000, 25000, 50000, 100000, 250000, 500000, 1000000, 2500000, 5000000, 10000000, 30000000]"
| "collector_buckets READINESS_DURATION = Some [5000, 10000, 25000, 50000, 100000, 250000, 500000, 1000000, 2500000, 5000000, 10000000, 15000000, 30000000]"
| "collector_buckets _ = None"

definition CONTEXT_KINDS :: "string list" where
  "CONTEXT_KINDS = [''transient'', ''persistent'', ''other'']"

definition ACQUIRE_RESULTS :: "string list" where
  "ACQUIRE_RESULTS = [''success'', ''timeout'', ''error'', ''cancelled'', ''rejected'', ''other'']"

definition BROWSER_EVENTS :: "string list" where
  "BROWSER_EVENTS = [''created'', ''recycled'', ''disconnected'', ''error'', ''other'']"

definition RECYCLE_REASONS :: "string list" where
  "RECYCLE_REASONS = [''max_uses'', ''max_age'', ''disconnected'', ''shutdown'', ''error'', ''other'']"

definition SESSION_EVENTS :: "string list" where
  "SESSION_EVENTS = [''created'', ''destroyed'', ''expired'', ''rotated'', ''rejected'', ''error'', ''other'']"

definition TIMEOUT_PHASES :: "string list" where
  "TIMEOUT_PHASES = [''request'', ''pool_acquire'', ''navigation'', ''challenge'', ''collection'', ''readiness'',
     ''cleanup'', ''shutdown'', ''other'']"

definition CHALLENGE_OUTCOMES :: "string list" where
  "CHALLENGE_OUTCOMES = [''not_detected'', ''detected'', ''solved'', ''failed'', ''timeout'', ''skipped'', ''error'', ''other'']"

definition PAYLOAD_KINDS :: "string list" where
  "PAYLOAD_KINDS = [''request'', ''response'', ''screenshot'', ''solution'', ''other'']"

definition CLEANUP_LABELS :: "string list" where
  "CLEANUP_LABELS = [''request'', ''readiness'', ''page'', ''context'', ''browser'', ''proxy'', ''captcha'', ''session'', ''other'']"

definition CLEANUP_RESULTS :: "string list" where
  "CLEANUP_RESULTS = [''success'', ''cancelled'', ''timeout'', ''error'', ''other'']"

definition READINESS_RESULTS :: "string list" where
  "READINESS_RESULTS = [''success'', ''saturated'', ''timeout'', ''unavailable'', ''error'', ''other'']"

definition ACQUIRE_TIMEOUT_REASONS :: "string list" where
  "ACQUIRE_TIMEOUT_REASONS = [''capacity'', ''deadline'', ''browser_launch'', ''shutdown'', ''other'']"

definition ASYNCIO_UNHANDLED_KINDS :: "string list" where
  "ASYNCIO_UNHANDLED_KINDS = [''future'', ''task'', ''async_generator'', ''other'']"

definition V1_COMMANDS :: "string list" where
  "V1_COMMANDS = [''sessions.create'', ''sessions.list'', ''sessions.destroy'', ''request.get'', ''request.post'',
     ''request.head'', ''invalid'', ''unknown'']"

definition V1_ERROR_CODES :: "string list" where
  "V1_ERROR_CODES = [''INVALID_REQUEST'', ''SESSION_NOT_FOUND'', ''RESOURCE_LIMIT_EXCEEDED'', ''POOL_UNAVAILABLE'',
     ''REQUEST_TIMEOUT'', ''NAVIGATION_TIMEOUT'', ''BROWSER_TRANSPORT_CLOSED'', ''CHALLENGE_FAILED'', ''TARGET_BLOCKED'',
     ''TARGET_UNREACHABLE'', ''PROXY_CONNECTION_ERROR'', ''RESPONSE_DECODE_ERROR'', ''INTERNAL_ERROR'']"

definition BROWSER_TRANSPORT_PHASES :: "string list" where
  "BROWSER_TRANSPORT_PHASES = [''acquire'', ''browser_launch'', ''context_create'', ''navigation'', ''collection'',
     ''cleanup'', ''other'']"

section \<open>Samples\<close>

type_synonym series = "collector \<times> string list"

record samples =
  counters :: "(series \<times> nat) list"
  gauge_values :: "(series \<times> int) list"
  observed :: "(series \<times> int list) list"

definition no_samples :: samples where
  "no_samples = \<lparr>counters = [], gauge_values = [], observed = []\<rparr>"

definition at_or :: "'v \<Rightarrow> ('k \<times> 'v) list \<Rightarrow> 'k \<Rightarrow> 'v" where
  "at_or dflt d k = (case dict_get d k of None \<Rightarrow> dflt | Some v \<Rightarrow> v)"

definition counter_inc :: "collector \<Rightarrow> string list \<Rightarrow> samples \<Rightarrow> samples" where
  "counter_inc c ls m = m\<lparr>counters := dict_set (c, ls) (Suc (at_or 0 (counters m) (c, ls))) (counters m)\<rparr>"

definition gauge_set :: "collector \<Rightarrow> string list \<Rightarrow> int \<Rightarrow> samples \<Rightarrow> samples" where
  "gauge_set c ls v m = m\<lparr>gauge_values := dict_set (c, ls) v (gauge_values m)\<rparr>"

definition gauge_inc :: "collector \<Rightarrow> int \<Rightarrow> samples \<Rightarrow> samples" where
  "gauge_inc c d m = gauge_set c [] (at_or 0 (gauge_values m) (c, []) + d) m"

definition histogram_observe :: "collector \<Rightarrow> string list \<Rightarrow> int \<Rightarrow> samples \<Rightarrow> samples" where
  "histogram_observe c ls v m =
     m\<lparr>observed := dict_set (c, ls) (at_or [] (observed m) (c, ls) @ [v]) (observed m)\<rparr>"

section \<open>Hooks\<close>

definition bounded_label :: "string \<Rightarrow> string list \<Rightarrow> string" where
  "bounded_label value allowed = (let n = str_lower (str_strip value) in if n \<in> set allowed then n else ''other'')"

definition request_started :: "samples \<Rightarrow> samples" where
  "request_started = gauge_inc IN_FLIGHT_REQUESTS 1"

definition request_finished :: "samples \<Rightarrow> samples" where
  "request_finished = gauge_inc IN_FLIGHT_REQUESTS (- 1)"

record pool_numbers =
  browser_slots :: int
  creating_slots :: int
  closing_slots :: int
  transient_count :: int
  persistent_count :: int
  waiting_count :: int
  ready_browser_slots :: "int option"
  retiring_browser_slots :: int
  usable_context_slots :: "int option"
  idle_recyclable_slots :: int

definition set_pool_snapshot :: "pool_numbers \<Rightarrow> samples \<Rightarrow> samples" where
  "set_pool_snapshot n m =
     (let ready_slots = (case ready_browser_slots n of None \<Rightarrow> browser_slots n | Some r \<Rightarrow> r);
          m = gauge_set BROWSER_STATE [''ready''] (max 0 ready_slots) m;
          m = gauge_set BROWSER_STATE [''retiring''] (max 0 (retiring_browser_slots n)) m;
          m = gauge_set BROWSER_STATE [''starting''] (max 0 (creating_slots n)) m;
          m = gauge_set BROWSER_STATE [''closing''] (max 0 (closing_slots n)) m;
          m = gauge_set CONTEXT_STATE [''transient''] (max 0 (transient_count n)) m;
          m = gauge_set CONTEXT_STATE [''persistent''] (max 0 (persistent_count n)) m;
          m = gauge_set POOL_WAITING_REQUESTS [] (max 0 (waiting_count n)) m;
          m = (case usable_context_slots n of None \<Rightarrow> m | Some u \<Rightarrow> gauge_set POOL_USABLE_CONTEXT_SLOTS [] (max 0 u) m) in
      gauge_set POOL_IDLE_RECYCLABLE_SLOTS [] (max 0 (idle_recyclable_slots n)) m)"

definition set_session_snapshot :: "int \<Rightarrow> int \<Rightarrow> int \<Rightarrow> samples \<Rightarrow> samples" where
  "set_session_snapshot active in_use closing_count m =
     gauge_set SESSION_STATE [''closing''] (max 0 closing_count)
       (gauge_set SESSION_STATE [''in_use''] (max 0 in_use)
         (gauge_set SESSION_STATE [''active''] (max 0 active) m))"

definition observe_pool_acquire :: "string \<Rightarrow> string \<Rightarrow> time \<Rightarrow> samples \<Rightarrow> samples" where
  "observe_pool_acquire kind result duration m =
     (let ls = [bounded_label kind CONTEXT_KINDS, bounded_label result ACQUIRE_RESULTS] in
      histogram_observe POOL_ACQUIRE_DURATION ls (max 0 duration) (counter_inc POOL_ACQUIRE_COUNTER ls m))"

definition record_browser_event :: "string \<Rightarrow> samples \<Rightarrow> samples" where
  "record_browser_event event = counter_inc BROWSER_EVENT_COUNTER [bounded_label event BROWSER_EVENTS]"

definition record_browser_recycle :: "string \<Rightarrow> samples \<Rightarrow> samples" where
  "record_browser_recycle reason m =
     record_browser_event ''recycled'' (counter_inc BROWSER_RECYCLE_COUNTER [bounded_label reason RECYCLE_REASONS] m)"

definition record_session_metric :: "string \<Rightarrow> samples \<Rightarrow> samples" where
  "record_session_metric event = counter_inc SESSION_EVENT_COUNTER [bounded_label event SESSION_EVENTS]"

definition record_timeout :: "string \<Rightarrow> samples \<Rightarrow> samples" where
  "record_timeout phase = counter_inc TIMEOUT_COUNTER [bounded_label phase TIMEOUT_PHASES]"

definition set_cleanup_snapshot :: "(string \<times> int) list \<Rightarrow> samples \<Rightarrow> samples" where
  "set_cleanup_snapshot by_kind m =
     (let zero = map (\<lambda>k. (k, 0)) CLEANUP_LABELS;
          counts = fold (\<lambda>(kind, n) d.
            let b = bounded_label kind CLEANUP_LABELS in dict_set b (at_or 0 d b + max 0 n) d) by_kind zero in
      fold (\<lambda>(kind, n). gauge_set CLEANUP_IN_FLIGHT [kind] n) counts m)"

definition record_cleanup :: "string \<Rightarrow> string \<Rightarrow> time \<Rightarrow> samples \<Rightarrow> samples" where
  "record_cleanup kind result duration m =
     (let ls = [bounded_label kind CLEANUP_LABELS, bounded_label result CLEANUP_RESULTS] in
      histogram_observe CLEANUP_DURATION ls (max 0 duration) (counter_inc CLEANUP_COUNTER ls m))"

definition observe_readiness :: "string \<Rightarrow> time \<Rightarrow> samples \<Rightarrow> samples" where
  "observe_readiness result duration m =
     (let ls = [bounded_label result READINESS_RESULTS] in
      histogram_observe READINESS_DURATION ls (max 0 duration) (counter_inc READINESS_COUNTER ls m))"

definition record_pool_acquire_timeout :: "string \<Rightarrow> samples \<Rightarrow> samples" where
  "record_pool_acquire_timeout reason =
     counter_inc POOL_ACQUIRE_TIMEOUT_COUNTER [bounded_label reason ACQUIRE_TIMEOUT_REASONS]"

definition record_asyncio_unhandled :: "string \<Rightarrow> samples \<Rightarrow> samples" where
  "record_asyncio_unhandled kind = counter_inc ASYNCIO_UNHANDLED_COUNTER [bounded_label kind ASYNCIO_UNHANDLED_KINDS]"

definition record_v1_error :: "string \<Rightarrow> string \<Rightarrow> samples \<Rightarrow> samples" where
  "record_v1_error command code =
     (let command = (if command \<in> set V1_COMMANDS then command else ''unknown'');
          n = str_upper (str_strip code) in
      counter_inc V1_ERROR_COUNTER [command, if n \<in> set V1_ERROR_CODES then n else ''INTERNAL_ERROR''])"

definition record_browser_transport_error :: "string \<Rightarrow> samples \<Rightarrow> samples" where
  "record_browser_transport_error phase =
     counter_inc BROWSER_TRANSPORT_ERROR_COUNTER [bounded_label phase BROWSER_TRANSPORT_PHASES]"

definition record_challenge :: "string \<Rightarrow> samples \<Rightarrow> samples" where
  "record_challenge outcome = counter_inc CHALLENGE_COUNTER [bounded_label outcome CHALLENGE_OUTCOMES]"

definition observe_payload_size :: "string \<Rightarrow> int \<Rightarrow> samples \<Rightarrow> samples" where
  "observe_payload_size kind size_bytes = histogram_observe PAYLOAD_SIZE [bounded_label kind PAYLOAD_KINDS] (max 0 size_bytes)"

text \<open>What the \<open>/v1\<close> endpoint writes at its end, with the label of its command; \<open>code\<close> is set for an error.\<close>

definition observe_v1 :: "v1_request option \<Rightarrow> bool \<Rightarrow> time \<Rightarrow> string option \<Rightarrow> samples \<Rightarrow> samples" where
  "observe_v1 r failed duration code m =
     (let command = (case r of None \<Rightarrow> ''unknown'' | Some r \<Rightarrow> command_label r);
          m = counter_inc REQUEST_COUNTER [command, if failed then ''error'' else ''ok''] m;
          m = histogram_observe REQUEST_DURATION [command] duration m in
      case code of None \<Rightarrow> m | Some c \<Rightarrow> record_v1_error command c m)"

section \<open>Unhandled exceptions of the loop\<close>

record loop_failure =
  failed_asyncgen :: bool
  failed_task :: bool
  failed_future :: "bool option"
  failure_message :: string

definition asyncio_unhandled_kind :: "loop_failure \<Rightarrow> string" where
  "asyncio_unhandled_kind f =
     (if failed_asyncgen f then ''async_generator''
      else if failed_task f then ''task''
      else case failed_future f of
        Some is_task \<Rightarrow> if is_task then ''task'' else ''future''
      | None \<Rightarrow>
          let message = str_lower (failure_message f) in
          if contains ''async generator'' message \<or> contains ''async_generator'' message
             \<or> contains ''asynchronous generator'' message
          then ''async_generator'' else ''other'')"

text \<open>The exception handler of a loop: the loop's own, a foreign one, or a counting one over what was there.\<close>

datatype loop_handler = OwnHandler | ForeignHandler nat | CountingHandler nat loop_handler

text \<open>Installing with a fresh identity; the second result is what \<open>restore\<close> remembers, if it does anything.\<close>

definition install_counting :: "nat \<Rightarrow> loop_handler \<Rightarrow> loop_handler \<times> (nat \<times> loop_handler) option" where
  "install_counting i current = (case current of
     CountingHandler _ _ \<Rightarrow> (current, None)
   | _ \<Rightarrow> (CountingHandler i current, Some (i, current)))"

definition restore_handler :: "(nat \<times> loop_handler) option \<Rightarrow> loop_handler \<Rightarrow> loop_handler" where
  "restore_handler token current = (case token of
     None \<Rightarrow> current
   | Some (i, previous) \<Rightarrow> (case current of
       CountingHandler j _ \<Rightarrow> if j = i then previous else current
     | _ \<Rightarrow> current))"

text \<open>One failure: the samples after it, and the handler it ends at.\<close>

fun handle_failure :: "loop_handler \<Rightarrow> loop_failure \<Rightarrow> samples \<Rightarrow> samples \<times> loop_handler" where
  "handle_failure (CountingHandler i previous) f m =
     handle_failure previous f (record_asyncio_unhandled (asyncio_unhandled_kind f) m)"
| "handle_failure h f m = (m, h)"

lemma restore_after_install:
  "fst (install_counting i h) = current \<Longrightarrow> restore_handler (snd (install_counting i h)) current = h"
  by (cases h) (auto simp: install_counting_def restore_handler_def)

section \<open>The number of time series\<close>

fun label_space :: "collector \<Rightarrow> string list list" where
  "label_space REQUEST_COUNTER = product_lists [V1_COMMANDS, [''ok'', ''error'']]"
| "label_space REQUEST_DURATION = map (\<lambda>c. [c]) V1_COMMANDS"
| "label_space IN_FLIGHT_REQUESTS = [[]]"
| "label_space POOL_WAITING_REQUESTS = [[]]"
| "label_space POOL_USABLE_CONTEXT_SLOTS = [[]]"
| "label_space POOL_IDLE_RECYCLABLE_SLOTS = [[]]"
| "label_space BROWSER_STATE = [[''ready''], [''retiring''], [''starting''], [''closing'']]"
| "label_space CONTEXT_STATE = [[''transient''], [''persistent'']]"
| "label_space POOL_ACQUIRE_COUNTER = product_lists [CONTEXT_KINDS, ACQUIRE_RESULTS]"
| "label_space POOL_ACQUIRE_DURATION = product_lists [CONTEXT_KINDS, ACQUIRE_RESULTS]"
| "label_space BROWSER_EVENT_COUNTER = map (\<lambda>l. [l]) BROWSER_EVENTS"
| "label_space BROWSER_RECYCLE_COUNTER = map (\<lambda>l. [l]) RECYCLE_REASONS"
| "label_space SESSION_STATE = [[''active''], [''in_use''], [''closing'']]"
| "label_space SESSION_EVENT_COUNTER = map (\<lambda>l. [l]) SESSION_EVENTS"
| "label_space TIMEOUT_COUNTER = map (\<lambda>l. [l]) TIMEOUT_PHASES"
| "label_space CHALLENGE_COUNTER = map (\<lambda>l. [l]) CHALLENGE_OUTCOMES"
| "label_space PAYLOAD_SIZE = map (\<lambda>l. [l]) PAYLOAD_KINDS"
| "label_space CLEANUP_IN_FLIGHT = map (\<lambda>l. [l]) CLEANUP_LABELS"
| "label_space CLEANUP_COUNTER = product_lists [CLEANUP_LABELS, CLEANUP_RESULTS]"
| "label_space CLEANUP_DURATION = product_lists [CLEANUP_LABELS, CLEANUP_RESULTS]"
| "label_space READINESS_COUNTER = map (\<lambda>l. [l]) READINESS_RESULTS"
| "label_space READINESS_DURATION = map (\<lambda>l. [l]) READINESS_RESULTS"
| "label_space POOL_ACQUIRE_TIMEOUT_COUNTER = map (\<lambda>l. [l]) ACQUIRE_TIMEOUT_REASONS"
| "label_space ASYNCIO_UNHANDLED_COUNTER = map (\<lambda>l. [l]) ASYNCIO_UNHANDLED_KINDS"
| "label_space V1_ERROR_COUNTER = product_lists [V1_COMMANDS, V1_ERROR_CODES]"
| "label_space BROWSER_TRANSPORT_ERROR_COUNTER = map (\<lambda>l. [l]) BROWSER_TRANSPORT_PHASES"

definition series_ok :: "series \<Rightarrow> bool" where
  "series_ok s \<longleftrightarrow> snd s \<in> set (label_space (fst s))"

definition samples_ok :: "samples \<Rightarrow> bool" where
  "samples_ok m \<longleftrightarrow>
     list_all series_ok (map fst (counters m)) \<and> distinct (map fst (counters m))
     \<and> list_all series_ok (map fst (gauge_values m)) \<and> distinct (map fst (gauge_values m))
     \<and> list_all series_ok (map fst (observed m)) \<and> distinct (map fst (observed m))"

text \<open>The calls of the hooks, with whatever texts and numbers the callers pass.\<close>

datatype hook_call =
    CallRequestStarted
  | CallRequestFinished
  | CallPoolSnapshot pool_numbers
  | CallSessionSnapshot int int int
  | CallPoolAcquire string string time
  | CallBrowserEvent string
  | CallBrowserRecycle string
  | CallSessionEvent string
  | CallTimeout string
  | CallCleanupSnapshot "(string \<times> int) list"
  | CallCleanup string string time
  | CallReadiness string time
  | CallAcquireTimeout string
  | CallUnhandled loop_failure loop_handler
  | CallTransportError string
  | CallChallenge string
  | CallPayload string int
  | CallV1 "v1_request option" bool time "string option"

fun run_hook :: "hook_call \<Rightarrow> samples \<Rightarrow> samples" where
  "run_hook CallRequestStarted = request_started"
| "run_hook CallRequestFinished = request_finished"
| "run_hook (CallPoolSnapshot n) = set_pool_snapshot n"
| "run_hook (CallSessionSnapshot a u c) = set_session_snapshot a u c"
| "run_hook (CallPoolAcquire k r d) = observe_pool_acquire k r d"
| "run_hook (CallBrowserEvent e) = record_browser_event e"
| "run_hook (CallBrowserRecycle r) = record_browser_recycle r"
| "run_hook (CallSessionEvent e) = record_session_metric e"
| "run_hook (CallTimeout p) = record_timeout p"
| "run_hook (CallCleanupSnapshot d) = set_cleanup_snapshot d"
| "run_hook (CallCleanup k r d) = record_cleanup k r d"
| "run_hook (CallReadiness r d) = observe_readiness r d"
| "run_hook (CallAcquireTimeout r) = record_pool_acquire_timeout r"
| "run_hook (CallUnhandled f h) = (\<lambda>m. fst (handle_failure h f m))"
| "run_hook (CallTransportError p) = record_browser_transport_error p"
| "run_hook (CallChallenge c) = record_challenge c"
| "run_hook (CallPayload k n) = observe_payload_size k n"
| "run_hook (CallV1 r failed d code) = observe_v1 r failed d code"

lemma list_all_keys_dict_set:
  "list_all P (map fst d) \<Longrightarrow> P k \<Longrightarrow> list_all P (map fst (dict_set k v d))"
  by (simp only: list_all_iff set_map fst_dict_set) simp

lemma counter_inc_ok: "samples_ok m \<Longrightarrow> series_ok (c, ls) \<Longrightarrow> samples_ok (counter_inc c ls m)"
  and gauge_set_ok: "samples_ok m \<Longrightarrow> series_ok (c, ls) \<Longrightarrow> samples_ok (gauge_set c ls n m)"
  and histogram_observe_ok: "samples_ok m \<Longrightarrow> series_ok (c, ls) \<Longrightarrow> samples_ok (histogram_observe c ls n m)"
  by (simp_all add: samples_ok_def counter_inc_def gauge_set_def histogram_observe_def list_all_keys_dict_set
      distinct_dict_set)

lemma bounded_label_in: "''other'' \<in> set allowed \<Longrightarrow> bounded_label v allowed \<in> set allowed"
  by (simp add: bounded_label_def Let_def)

lemma other_in:
  "''other'' \<in> set CONTEXT_KINDS" "''other'' \<in> set ACQUIRE_RESULTS" "''other'' \<in> set BROWSER_EVENTS"
  "''other'' \<in> set RECYCLE_REASONS" "''other'' \<in> set SESSION_EVENTS" "''other'' \<in> set TIMEOUT_PHASES"
  "''other'' \<in> set CHALLENGE_OUTCOMES" "''other'' \<in> set PAYLOAD_KINDS" "''other'' \<in> set CLEANUP_LABELS"
  "''other'' \<in> set CLEANUP_RESULTS" "''other'' \<in> set READINESS_RESULTS" "''other'' \<in> set ACQUIRE_TIMEOUT_REASONS"
  "''other'' \<in> set ASYNCIO_UNHANDLED_KINDS" "''other'' \<in> set BROWSER_TRANSPORT_PHASES"
  by (simp_all add: CONTEXT_KINDS_def ACQUIRE_RESULTS_def BROWSER_EVENTS_def RECYCLE_REASONS_def SESSION_EVENTS_def
      TIMEOUT_PHASES_def CHALLENGE_OUTCOMES_def PAYLOAD_KINDS_def CLEANUP_LABELS_def CLEANUP_RESULTS_def
      READINESS_RESULTS_def ACQUIRE_TIMEOUT_REASONS_def ASYNCIO_UNHANDLED_KINDS_def BROWSER_TRANSPORT_PHASES_def)

lemmas hook_intros = counter_inc_ok gauge_set_ok histogram_observe_ok

lemma label_spaces:
  "x \<in> set xs \<Longrightarrow> [x] \<in> set (map (\<lambda>l. [l]) xs)"
  "x \<in> set xs \<Longrightarrow> y \<in> set ys \<Longrightarrow> [x, y] \<in> set (product_lists [xs, ys])"
  by (auto simp: product_lists_set)

lemmas series_intros = bounded_label_in [OF other_in(1)] bounded_label_in [OF other_in(2)] bounded_label_in [OF other_in(3)]
  bounded_label_in [OF other_in(4)] bounded_label_in [OF other_in(5)] bounded_label_in [OF other_in(6)]
  bounded_label_in [OF other_in(7)] bounded_label_in [OF other_in(8)] bounded_label_in [OF other_in(9)]
  bounded_label_in [OF other_in(10)] bounded_label_in [OF other_in(11)] bounded_label_in [OF other_in(12)]
  bounded_label_in [OF other_in(13)] bounded_label_in [OF other_in(14)]

lemma hook_series [simp]:
  "series_ok (POOL_ACQUIRE_COUNTER, [bounded_label k CONTEXT_KINDS, bounded_label r ACQUIRE_RESULTS])"
  "series_ok (POOL_ACQUIRE_DURATION, [bounded_label k CONTEXT_KINDS, bounded_label r ACQUIRE_RESULTS])"
  "series_ok (BROWSER_EVENT_COUNTER, [bounded_label e BROWSER_EVENTS])"
  "series_ok (BROWSER_RECYCLE_COUNTER, [bounded_label e RECYCLE_REASONS])"
  "series_ok (SESSION_EVENT_COUNTER, [bounded_label e SESSION_EVENTS])"
  "series_ok (TIMEOUT_COUNTER, [bounded_label e TIMEOUT_PHASES])"
  "series_ok (CLEANUP_COUNTER, [bounded_label k CLEANUP_LABELS, bounded_label r CLEANUP_RESULTS])"
  "series_ok (CLEANUP_DURATION, [bounded_label k CLEANUP_LABELS, bounded_label r CLEANUP_RESULTS])"
  "series_ok (READINESS_COUNTER, [bounded_label e READINESS_RESULTS])"
  "series_ok (READINESS_DURATION, [bounded_label e READINESS_RESULTS])"
  "series_ok (POOL_ACQUIRE_TIMEOUT_COUNTER, [bounded_label e ACQUIRE_TIMEOUT_REASONS])"
  "series_ok (ASYNCIO_UNHANDLED_COUNTER, [bounded_label e ASYNCIO_UNHANDLED_KINDS])"
  "series_ok (BROWSER_TRANSPORT_ERROR_COUNTER, [bounded_label e BROWSER_TRANSPORT_PHASES])"
  "series_ok (CHALLENGE_COUNTER, [bounded_label e CHALLENGE_OUTCOMES])"
  "series_ok (PAYLOAD_SIZE, [bounded_label e PAYLOAD_KINDS])"
  unfolding series_ok_def fst_conv snd_conv label_space.simps
  by (intro label_spaces series_intros)+

lemma fixed_series [simp]:
  "series_ok (IN_FLIGHT_REQUESTS, [])" "series_ok (POOL_WAITING_REQUESTS, [])" "series_ok (POOL_USABLE_CONTEXT_SLOTS, [])"
  "series_ok (POOL_IDLE_RECYCLABLE_SLOTS, [])" "series_ok (BROWSER_STATE, [''ready''])" "series_ok (BROWSER_STATE, [''retiring''])"
  "series_ok (BROWSER_STATE, [''starting''])" "series_ok (BROWSER_STATE, [''closing''])" "series_ok (CONTEXT_STATE, [''transient''])"
  "series_ok (CONTEXT_STATE, [''persistent''])" "series_ok (SESSION_STATE, [''active''])" "series_ok (SESSION_STATE, [''in_use''])"
  "series_ok (SESSION_STATE, [''closing''])"
  by (simp_all add: series_ok_def)

lemma command_label_in: "command_label r \<in> set V1_COMMANDS"
  by (auto simp: command_label_def KNOWN_COMMANDS_def V1_COMMANDS_def split: option.split)

lemma record_v1_error_ok: "samples_ok m \<Longrightarrow> samples_ok (record_v1_error command code m)"
proof -
  assume m: "samples_ok m"
  have known: "''unknown'' \<in> set V1_COMMANDS" "''INTERNAL_ERROR'' \<in> set V1_ERROR_CODES"
    by (simp_all add: V1_COMMANDS_def V1_ERROR_CODES_def)
  show ?thesis
    unfolding record_v1_error_def Let_def
    by (rule counter_inc_ok [OF m], unfold series_ok_def fst_conv snd_conv label_space.simps, rule label_spaces)
      (simp_all add: known)
qed

lemma observe_v1_ok: "samples_ok m \<Longrightarrow> samples_ok (observe_v1 r failed d code m)"
proof -
  assume m: "samples_ok m"
  let ?command = "case r of None \<Rightarrow> ''unknown'' | Some r \<Rightarrow> command_label r"
  have command: "?command \<in> set V1_COMMANDS"
    using command_label_in by (auto simp: V1_COMMANDS_def split: option.split)
  then have "series_ok (REQUEST_COUNTER, [?command, if failed then ''error'' else ''ok''])"
    unfolding series_ok_def fst_conv snd_conv label_space.simps by (intro label_spaces) auto
  moreover have "series_ok (REQUEST_DURATION, [?command])"
    unfolding series_ok_def fst_conv snd_conv label_space.simps using command by (intro label_spaces)
  ultimately show ?thesis
    using m by (auto simp: observe_v1_def Let_def intro!: hook_intros record_v1_error_ok split: option.split)
qed

lemma handle_failure_ok: "samples_ok m \<Longrightarrow> samples_ok (fst (handle_failure h f m))"
  by (induction h f m rule: handle_failure.induct) (simp_all add: record_asyncio_unhandled_def counter_inc_ok)

lemma cleanup_counts_keys:
  "fst ` set d \<subseteq> set CLEANUP_LABELS \<Longrightarrow>
   fst ` set (fold (\<lambda>(kind, n) d. let b = bounded_label kind CLEANUP_LABELS in dict_set b (at_or 0 d b + max 0 n) d) by_kind d)
     \<subseteq> set CLEANUP_LABELS"
proof (induction by_kind arbitrary: d)
  case (Cons e by_kind)
  obtain kind n where e: "e = (kind, n)" by fastforce
  have "fst ` set (dict_set (bounded_label kind CLEANUP_LABELS) v d) \<subseteq> set CLEANUP_LABELS" for v
    using Cons.prems by (simp add: fst_dict_set bounded_label_in [OF other_in(9)])
  then show ?case using Cons.IH by (simp add: e Let_def)
qed simp

lemma gauges_ok:
  "samples_ok m \<Longrightarrow> fst ` set counts \<subseteq> set CLEANUP_LABELS \<Longrightarrow>
   samples_ok (fold (\<lambda>(kind, n). gauge_set CLEANUP_IN_FLIGHT [kind] n) counts m)"
  by (induction counts arbitrary: m) (auto simp: gauge_set_ok series_ok_def)

lemma run_hook_ok: "samples_ok m \<Longrightarrow> samples_ok (run_hook h m)"
proof (cases h)
  case (CallCleanupSnapshot d)
  assume m: "samples_ok m"
  show ?thesis
    unfolding CallCleanupSnapshot run_hook.simps set_cleanup_snapshot_def Let_def
    by (rule gauges_ok [OF m]) (rule cleanup_counts_keys [unfolded Let_def], auto)
next
  case (CallPoolSnapshot n)
  assume m: "samples_ok m"
  then show ?thesis
    unfolding CallPoolSnapshot run_hook.simps set_pool_snapshot_def Let_def
    by (cases "usable_context_slots n") (simp_all add: hook_intros)
qed (simp_all add: request_started_def request_finished_def gauge_inc_def set_session_snapshot_def observe_pool_acquire_def
    record_browser_event_def record_browser_recycle_def record_session_metric_def record_timeout_def record_cleanup_def
    observe_readiness_def record_pool_acquire_timeout_def record_browser_transport_error_def record_challenge_def
    observe_payload_size_def handle_failure_ok observe_v1_ok hook_intros Let_def)

definition all_collectors :: "collector list" where
  "all_collectors = [REQUEST_COUNTER, REQUEST_DURATION, IN_FLIGHT_REQUESTS, POOL_WAITING_REQUESTS,
     POOL_USABLE_CONTEXT_SLOTS, POOL_IDLE_RECYCLABLE_SLOTS, BROWSER_STATE, CONTEXT_STATE, POOL_ACQUIRE_COUNTER,
     POOL_ACQUIRE_DURATION, BROWSER_EVENT_COUNTER, BROWSER_RECYCLE_COUNTER, SESSION_STATE, SESSION_EVENT_COUNTER,
     TIMEOUT_COUNTER, CHALLENGE_COUNTER, PAYLOAD_SIZE, CLEANUP_IN_FLIGHT, CLEANUP_COUNTER, CLEANUP_DURATION,
     READINESS_COUNTER, READINESS_DURATION, POOL_ACQUIRE_TIMEOUT_COUNTER, ASYNCIO_UNHANDLED_COUNTER,
     V1_ERROR_COUNTER, BROWSER_TRANSPORT_ERROR_COUNTER]"

text \<open>Every tuple of a label space has a value for each label of its collector.\<close>

lemma label_space_arity: "ls \<in> set (label_space c) \<Longrightarrow> length ls = length (collector_labels c)"
  by (cases c) (auto simp: product_lists_set dest: list_all2_lengthD)

lemma in_all_collectors: "c \<in> set all_collectors"
  by (cases c) (simp_all add: all_collectors_def)

definition all_series :: "series list" where
  "all_series = concat (map (\<lambda>c. map (Pair c) (label_space c)) all_collectors)"

lemma series_ok_iff: "series_ok s \<longleftrightarrow> s \<in> set all_series"
  using in_all_collectors by (cases s) (auto simp: series_ok_def all_series_def)

lemma length_all_series: "length all_series = 344"
  by (simp add: all_series_def all_collectors_def length_product_lists CONTEXT_KINDS_def ACQUIRE_RESULTS_def
      BROWSER_EVENTS_def RECYCLE_REASONS_def SESSION_EVENTS_def TIMEOUT_PHASES_def CHALLENGE_OUTCOMES_def PAYLOAD_KINDS_def
      CLEANUP_LABELS_def CLEANUP_RESULTS_def READINESS_RESULTS_def ACQUIRE_TIMEOUT_REASONS_def
      ASYNCIO_UNHANDLED_KINDS_def V1_COMMANDS_def V1_ERROR_CODES_def BROWSER_TRANSPORT_PHASES_def)

lemma bounded_table: "list_all series_ok (map fst d) \<Longrightarrow> distinct (map fst d) \<Longrightarrow> length d \<le> 344"
proof -
  assume "list_all series_ok (map fst d)" and keys: "distinct (map fst d)"
  then have "set (map fst d) \<subseteq> set all_series" by (auto simp: list_all_iff series_ok_iff)
  moreover have "length d = card (set (map fst d))" using distinct_card [OF keys] by simp
  ultimately have "length d \<le> card (set all_series)" by (simp add: card_mono)
  also have "\<dots> \<le> length all_series" by (rule card_length)
  finally show ?thesis by (simp add: length_all_series)
qed

lemma run_hooks_ok: "samples_ok m \<Longrightarrow> samples_ok (fold run_hook hooks m)"
  by (induction hooks arbitrary: m) (simp_all add: run_hook_ok)

text \<open>C21.  Whatever texts and numbers reach the hooks, in whatever order, every sample stays in the fixed label space of
  its collector, so no table of time series grows beyond 344 entries.\<close>

theorem metrics_cardinality_bounded:
  "samples_ok (fold run_hook hooks no_samples)
   \<and> length (counters (fold run_hook hooks no_samples)) \<le> 344
   \<and> length (gauge_values (fold run_hook hooks no_samples)) \<le> 344
   \<and> length (observed (fold run_hook hooks no_samples)) \<le> 344"
proof -
  have "samples_ok no_samples" by (simp add: samples_ok_def no_samples_def)
  then have "samples_ok (fold run_hook hooks no_samples)" by (rule run_hooks_ok)
  then show ?thesis by (simp add: samples_ok_def bounded_table)
qed

end
