(* ===== verification/Browser.thy ===== *)
theory Browser
  imports Config
begin

text \<open>
  The browser driver (\<open>camouflare/browser.py\<close>) and the captcha provider (\<open>camouflare/captcha.py\<close>): the shared close of
  a browser handle as a machine over its close tasks, the checks and the guarded patches of the start, the
  launch under its lock, and the bracket that binds a solver to a page.  The outcomes of camoufox, playwright
  and the file system are arguments.
\<close>

section \<open>The browser handle\<close>

text \<open>A close task runs, has ended with a result that its callback has not seen, or is over.\<close>

datatype close_state = CloseRunning | CloseEnded bool | CloseConsumed bool

record browser_handle =
  handle_closed :: bool
  close_task :: "nat option"
  close_tasks :: "(nat \<times> close_state) list"
  next_close :: nat

definition new_handle :: browser_handle where
  "new_handle = \<lparr>handle_closed = False, close_task = None, close_tasks = [], next_close = 0\<rparr>"

definition start_close :: "browser_handle \<Rightarrow> nat \<times> browser_handle" where
  "start_close h = (case close_task h of
     Some t \<Rightarrow> (t, h)
   | None \<Rightarrow> (next_close h, h\<lparr>close_task := Some (next_close h), next_close := Suc (next_close h),
              close_tasks := dict_set (next_close h) CloseRunning (close_tasks h)\<rparr>))"

text \<open>\<open>close\<close>: the task the caller waits for, unless the browser is closed already.\<close>

definition close_handle :: "browser_handle \<Rightarrow> nat option \<times> browser_handle" where
  "close_handle h = (if handle_closed h then (None, h) else case start_close h of (t, h') \<Rightarrow> (Some t, h'))"

definition browser_close_finished :: "nat \<Rightarrow> bool \<Rightarrow> browser_handle \<Rightarrow> browser_handle" where
  "browser_close_finished t ok h =
     (if ok then h\<lparr>handle_closed := True\<rparr>
      else if close_task h = Some t then h\<lparr>close_task := None\<rparr> else h)"

text \<open>Callers start and await the close, the task ends, and its callback runs afterwards.\<close>

inductive handle_step :: "browser_handle \<Rightarrow> browser_handle \<Rightarrow> bool" where
  step_start: "handle_step h (snd (start_close h))"
| step_close: "handle_step h (snd (close_handle h))"
| step_end: "dict_get (close_tasks h) t = Some CloseRunning \<Longrightarrow>
    handle_step h (h\<lparr>close_tasks := dict_set t (CloseEnded ok) (close_tasks h)\<rparr>)"
| step_callback: "dict_get (close_tasks h) t = Some (CloseEnded ok) \<Longrightarrow>
    handle_step h (browser_close_finished t ok (h\<lparr>close_tasks := dict_set t (CloseConsumed ok) (close_tasks h)\<rparr>))"

text \<open>Every task but the current one is over and failed; the browser is closed exactly when the current one is over
  and succeeded.\<close>

definition handle_ok :: "browser_handle \<Rightarrow> bool" where
  "handle_ok h \<longleftrightarrow>
     (\<forall>t s. dict_get (close_tasks h) t = Some s \<longrightarrow>
        t < next_close h \<and> (close_task h \<noteq> Some t \<longrightarrow> s = CloseConsumed False))
     \<and> (case close_task h of
          None \<Rightarrow> \<not> handle_closed h
        | Some t \<Rightarrow> (case dict_get (close_tasks h) t of
            None \<Rightarrow> False
          | Some s \<Rightarrow> s \<noteq> CloseConsumed False \<and> (handle_closed h \<longleftrightarrow> s = CloseConsumed True)))"

lemma handle_okD:
  assumes "handle_ok h" and "dict_get (close_tasks h) t = Some s"
  shows "t < next_close h" and "close_task h \<noteq> Some t \<Longrightarrow> s = CloseConsumed False"
  using assms by (auto simp: handle_ok_def)

lemma start_close_ok:
  assumes "handle_ok h"
  shows "handle_ok (snd (start_close h))"
proof (cases "close_task h")
  case None
  have "t < Suc (next_close h) \<and> s = CloseConsumed False"
    if "dict_get (close_tasks h) t = Some s" for t s
    using handle_okD [OF assms that] None by simp
  moreover have "\<not> handle_closed h" using assms None by (simp add: handle_ok_def)
  ultimately show ?thesis by (simp add: start_close_def None handle_ok_def)
qed (simp add: start_close_def assms)

lemma end_ok:
  assumes "handle_ok h" and "dict_get (close_tasks h) t = Some CloseRunning"
  shows "handle_ok (h\<lparr>close_tasks := dict_set t (CloseEnded ok) (close_tasks h)\<rparr>)"
proof -
  have "close_task h = Some t" using assms by (fastforce simp: handle_ok_def)
  then show ?thesis using assms by (auto simp: handle_ok_def)
qed

lemma callback_ok:
  assumes "handle_ok h" and "dict_get (close_tasks h) t = Some (CloseEnded ok)"
  shows "handle_ok (browser_close_finished t ok (h\<lparr>close_tasks := dict_set t (CloseConsumed ok) (close_tasks h)\<rparr>))"
proof -
  have "close_task h = Some t" using assms by (fastforce simp: handle_ok_def)
  then show ?thesis using assms by (cases ok) (auto simp: handle_ok_def browser_close_finished_def split: if_splits)
qed

lemma handle_step_ok: "handle_step h h' \<Longrightarrow> handle_ok h \<Longrightarrow> handle_ok h'"
  by (induction rule: handle_step.induct)
    (auto simp: start_close_ok end_ok callback_ok close_handle_def split: prod.split dest: start_close_ok)

lemma new_handle_ok: "handle_ok new_handle"
  by (simp add: handle_ok_def new_handle_def)

interpretation handle_machine: invariant_machine "\<lambda>h. h = new_handle" handle_step handle_ok
  by unfold_locales (simp add: new_handle_ok, erule (1) handle_step_ok [rotated])

text \<open>However callers, cancelled or not, ask for the close: at most one physical close is under way, a failed one
  leaves the browser open and retryable, and once one has succeeded no other is ever started.\<close>

theorem browser_closed_once:
  assumes "reach (\<lambda>h. h = new_handle) handle_step h"
  shows "{t. dict_get (close_tasks h) t = Some CloseRunning} \<subseteq> set_option (close_task h)
    \<and> (if handle_closed h
       then (\<exists>t. close_task h = Some t \<and> dict_get (close_tasks h) t = Some (CloseConsumed True))
         \<and> snd (start_close h) = h
       else Some (CloseConsumed True) \<notin> range (dict_get (close_tasks h)))"
proof -
  have ok: "handle_ok h" using assms by (rule handle_machine.inv_reach)
  then have running: "{t. dict_get (close_tasks h) t = Some CloseRunning} \<subseteq> set_option (close_task h)"
    by (fastforce simp: handle_ok_def)
  show ?thesis
  proof (cases "close_task h")
    case None
    have "Some (CloseConsumed True) \<noteq> dict_get (close_tasks h) t" for t
      using handle_okD(2) [OF ok, of t "CloseConsumed True"] None by auto
    moreover have "\<not> handle_closed h" using ok None by (simp add: handle_ok_def)
    ultimately show ?thesis using running by auto
  next
    case (Some t)
    then obtain s where s: "dict_get (close_tasks h) t = Some s" and "handle_closed h \<longleftrightarrow> s = CloseConsumed True"
      using ok by (auto simp: handle_ok_def split: option.splits)
    moreover have "Some (CloseConsumed True) \<noteq> dict_get (close_tasks h) t'" if "t' \<noteq> t" for t'
      using handle_okD(2) [OF ok, of t' "CloseConsumed True"] Some that by auto
    ultimately show ?thesis using running Some by (auto simp: start_close_def) (metis option.inject)
  qed
qed

section \<open>Checks before a launch\<close>

definition validate_runtime_environment :: "bool \<Rightarrow> bool \<Rightarrow> exn + unit" where
  "validate_runtime_environment linux shm_writable =
     (if linux \<and> \<not> shm_writable
      then Inl (RuntimeError (''Linux browser runtime requires writable /dev/shm. Run with Docker'' @ [CHR 0x27]
        @ ''s default shared memory mount or provide a writable /dev/shm.''))
      else Inr ())"

definition validate_headless_mode :: "bool \<Rightarrow> headless_mode \<Rightarrow> exn + unit" where
  "validate_headless_mode linux mode =
     (if mode = Virtual \<and> \<not> linux
      then Inl (RuntimeError ''HEADLESS=virtual is only supported on Linux. Use HEADLESS=true or HEADLESS=false on macOS and Windows.'')
      else Inr ())"

definition FETCH_HINT :: string where
  "FETCH_HINT = ''Install the pinned browser and add-ons with `python scripts/fetch_camoufox.py` from a Camouflare source checkout.''"

text \<open>\<open>addons\<close> are the default add-ons: name, path and whether its manifest is there.\<close>

fun addon_paths :: "(string \<times> string \<times> bool) list \<Rightarrow> exn + string list" where
  "addon_paths [] = Inr []"
| "addon_paths ((name, path, installed) # as) =
     (if \<not> installed
      then Inl (RuntimeError (''Camoufox default add-on '' @ name @ '' is not installed at '' @ path @ ''. '' @ FETCH_HINT))
      else and_then (addon_paths as) (\<lambda>ps. Inr (path # ps)))"

definition installed_default_addon_paths :: "bool \<Rightarrow> (string \<times> string \<times> bool) list \<Rightarrow> exn + string list" where
  "installed_default_addon_paths browser_installed addons =
     (if \<not> browser_installed
      then Inl (RuntimeError (''Camoufox browser is not installed or is outside the supported version range. '' @ FETCH_HINT))
      else addon_paths addons)"

section \<open>Patches\<close>

fun replace_first :: "string \<Rightarrow> string \<Rightarrow> string \<Rightarrow> string" where
  "replace_first old new [] = (if old = [] then new else [])"
| "replace_first old new (c # cs) =
     (if starts_with old (c # cs) then new @ drop (length old) (c # cs) else c # replace_first old new cs)"

definition PAGE_ERROR_LOCATION_TARGET :: string where
  "PAGE_ERROR_LOCATION_TARGET = ''const pageError = { error, location: location2 };''"

definition PAGE_ERROR_LOCATION_REPLACEMENT :: string where
  "PAGE_ERROR_LOCATION_REPLACEMENT = ''const pageError = { error, location: location2 || { url: '' @ [CHR 0x22, CHR 0x22]
     @ '', lineNumber: 0, columnNumber: 0 } };''"

text \<open>The patched source; \<open>None\<close> when it is patched already.\<close>

definition patch_page_error_location :: "string \<Rightarrow> exn + string option" where
  "patch_page_error_location source =
     (if contains PAGE_ERROR_LOCATION_REPLACEMENT source then Inr None
      else if \<not> contains PAGE_ERROR_LOCATION_TARGET source
      then Inl (RuntimeError ''Unexpected Playwright coreBundle.js layout.'')
      else Inr (Some (replace_first PAGE_ERROR_LOCATION_TARGET PAGE_ERROR_LOCATION_REPLACEMENT source)))"

definition PLAYWRIGHT_CANCEL_PATCH_VERSION :: string where
  "PLAYWRIGHT_CANCEL_PATCH_VERSION = ''1.61.0''"

datatype patch_status = PatchPending | PatchUnavailable | PatchUnverified | PatchMismatch | PatchApplied

text \<open>What the patch finds in the installed playwright: an import failure, the patch itself, or the original function
  with its parameter names and fingerprint.\<close>

datatype patch_target = TargetMissing | TargetPatched | TargetOriginal "string list" string

definition expected_parameters :: "string list" where
  "expected_parameters = [''self'', ''method'', ''timeout_calculator'', ''params'', ''return_as_dict'']"

definition INNER_SEND_FINGERPRINT :: string where
  "INNER_SEND_FINGERPRINT = ''4c6bf1f8b8138acf3cd26579ececb99f790e62a51d6a9013b175d2e4c868563c''"

definition patch_cancelled_protocol_future :: "patch_status \<Rightarrow> string option \<Rightarrow> patch_target \<Rightarrow> patch_status" where
  "patch_cancelled_protocol_future status installed_version found =
     (if status \<noteq> PatchPending then status
      else case installed_version of
        None \<Rightarrow> PatchUnavailable
      | Some v \<Rightarrow>
          if v \<noteq> PLAYWRIGHT_CANCEL_PATCH_VERSION then PatchUnverified
          else case found of
            TargetMissing \<Rightarrow> PatchUnavailable
          | TargetPatched \<Rightarrow> PatchApplied
          | TargetOriginal parameters fingerprint \<Rightarrow>
              if parameters \<noteq> expected_parameters \<or> fingerprint \<noteq> INNER_SEND_FINGERPRINT
              then PatchMismatch else PatchApplied)"

text \<open>The patched \<open>_inner_send\<close>: a pending connection error is raised once and cleared; otherwise the message is sent,
  and a callback future that is not done when the wait ends, even by cancellation, is cancelled.\<close>

definition patched_inner_send ::
    "exn option \<Rightarrow> exn + (string \<times> 'v) list \<Rightarrow> bool \<Rightarrow> bool \<Rightarrow> bool \<times> bool \<times> (exn + ((string \<times> 'v) list + 'v) option)" where
  "patched_inner_send pending_error outcome future_done return_as_dict =
     (case pending_error of
        Some e \<Rightarrow> (False, False, Inl e)
      | None \<Rightarrow>
          (True, \<not> future_done,
           case outcome of
             Inl e \<Rightarrow> Inl e
           | Inr [] \<Rightarrow> Inr None
           | Inr result \<Rightarrow>
               if return_as_dict then Inr (Some (Inl result))
               else (case result of
                   [(k, v)] \<Rightarrow> Inr (Some (Inr v))
                 | _ \<Rightarrow> Inl (OtherError ''AssertionError'' []))))"

section \<open>Launching\<close>

datatype launch_event =
    LaunchLocked
  | ManagerEntered
  | ManagerFailed
  | CleanupOwned bool
  | CleanupAwaited
  | LaunchUnlocked

text \<open>The launch under the lock: \<open>entered\<close> is the result of the manager, \<open>supervised\<close> tells whether the supervisor owns
  the clean-up.  The lock is released only when the wait for the clean-up is over.\<close>

definition locked_launch :: "bool \<Rightarrow> exn + 'b \<Rightarrow> launch_event list \<times> (exn + 'b)" where
  "locked_launch supervised entered =
     (case entered of
        Inr b \<Rightarrow> ([LaunchLocked, ManagerEntered, LaunchUnlocked], Inr b)
      | Inl e \<Rightarrow> ([LaunchLocked, ManagerFailed, CleanupOwned supervised, CleanupAwaited, LaunchUnlocked], Inl e))"

definition browser_factory ::
    "bool \<Rightarrow> bool \<Rightarrow> headless_mode \<Rightarrow> bool \<Rightarrow> bool \<Rightarrow> (string \<times> string \<times> bool) list \<Rightarrow> string option
     \<Rightarrow> (string list \<Rightarrow> exn + 'b) \<Rightarrow> launch_event list \<times> (exn + 'b \<times> browser_handle)" where
  "browser_factory linux shm mode supervised browser_installed addons solver_addon launch =
     (case and_then (validate_headless_mode linux mode) (\<lambda>_.
           and_then (validate_runtime_environment linux shm) (\<lambda>_.
             installed_default_addon_paths browser_installed addons)) of
        Inl e \<Rightarrow> ([], Inl e)
      | Inr paths \<Rightarrow>
          (case locked_launch supervised (launch (paths @ (case solver_addon of None \<Rightarrow> [] | Some p \<Rightarrow> [p]))) of
             (events, r) \<Rightarrow> (events, and_then r (\<lambda>b. Inr (b, new_handle)))))"

section \<open>The captcha provider\<close>

type_synonym active_solvers = "(nat \<times> nat) list"

text \<open>\<open>prepare\<close> binds the entered solver to the page for the body, and unbinds it however the body ends.\<close>

definition prepare_solver ::
    "nat \<Rightarrow> exn + nat \<Rightarrow> (active_solvers, 'a, exn) prog \<Rightarrow> (active_solvers, 'a, exn) prog" where
  "prepare_solver page entered body =
     (case entered of
        Inl e \<Rightarrow> raise_exn e
      | Inr solver \<Rightarrow> skip_then (modify (dict_set page solver)) (try_finally body (modify (dict_del page))))"

text \<open>\<open>solve\<close>: no token, whatever the click solver does; only what is no \<open>Exception\<close> passes.\<close>

definition provider_solve :: "nat \<Rightarrow> (nat \<Rightarrow> exn + unit) \<Rightarrow> (active_solvers, string option, exn) prog" where
  "provider_solve page click = with_state (\<lambda>active.
     case dict_get active page of
       None \<Rightarrow> ret None
     | Some solver \<Rightarrow> (case click solver of
         Inl e \<Rightarrow> if is_Exception e then ret None else raise_exn e
       | Inr _ \<Rightarrow> ret None))"

lemma prepare_unbinds: "\<not> dict_has page active \<Longrightarrow>
    \<not> dict_has page (snd (prepare_solver page entered body active))"
  by (cases entered) (auto simp: prepare_solver_def skip_then_apply try_finally_def split: prod.split sum.split)

end
