(* ===== verification/Edge.thy ===== *)
theory Edge
  imports Metrics Observability Http_Cookies Http_Capacity
begin

text \<open>
  The rest of the HTTP edge (\<open>camouflare/app.py\<close>): the middleware that brackets every request, the wait of the
  readiness probe under its hard deadline, the readiness, metrics and diagnostics endpoints.  The state is
  that of the metrics; how a task or a probe step ends is an argument.
\<close>

section \<open>The middleware\<close>

record http_answer =
  answer_status :: nat
  answer_detail :: string
  answer_request_id :: "string option"

definition json_answer :: "nat \<Rightarrow> string \<Rightarrow> http_answer" where
  "json_answer status detail = \<lparr>answer_status = status, answer_detail = detail, answer_request_id = None\<rparr>"

text \<open>\<open>call_next\<close> is the application behind the middleware, \<open>fresh\<close> the id of a request that brings none.\<close>

definition request_context ::
    "settings \<Rightarrow> string \<Rightarrow> http_request \<Rightarrow> (samples, http_answer, exn) prog \<Rightarrow> (samples, http_answer, exn) prog" where
  "request_context s fresh r call_next =
     (let request_id = resolve_request_id fresh (header r ''x-request-id'');
          stamped = (\<lambda>a. ret (a\<lparr>answer_request_id := Some request_id\<rparr>)) in
      skip_then (modify request_started)
        (try_finally
          (case request_gate s r of
             Raised e \<Rightarrow> raise_exn e
           | Refused detail status \<Rightarrow> stamped (json_answer status detail)
           | PassOn \<Rightarrow>
               seq (try_except call_next (\<lambda>e.
                      if is_Exception e then ret (json_answer 500 ''Internal Server Error'') else raise_exn e))
                 stamped)
          (modify request_finished)))"

section \<open>Waiting under a hard deadline\<close>

text \<open>How \<open>asyncio.wait\<close> ended: interrupted, with the task done, or at its timeout.\<close>

datatype 'a wait_end = WaitInterrupted exn | TaskEnded "exn + 'a" | WaitElapsed

text \<open>The result, and whether the task was cancelled and handed to the cleanup supervisor.\<close>

definition await_with_hard_deadline :: "string \<Rightarrow> 'a wait_end \<Rightarrow> bool \<times> (exn + 'a)" where
  "await_with_hard_deadline seconds_text e = (case e of
     WaitInterrupted x \<Rightarrow> (True, Inl x)
   | TaskEnded r \<Rightarrow> (False, r)
   | WaitElapsed \<Rightarrow> (True, Inl (TimeoutError (''Operation exceeded its '' @ seconds_text @ ''-second deadline.''))))"

section \<open>Readiness\<close>

datatype probe_event = ProbeLeased | ProbePageOpened | ProbePageClosed | ProbeReleased

text \<open>\<open>_readiness_probe\<close>; closing the page never fails, and the lease ends last.\<close>

definition readiness_probe :: "exn option \<Rightarrow> exn option \<Rightarrow> exn option \<Rightarrow> probe_event list \<times> exn option" where
  "readiness_probe lease open_page evaluate = (case lease of
     Some e \<Rightarrow> ([], Some e)
   | None \<Rightarrow> (case open_page of
       Some e \<Rightarrow> ([ProbeLeased, ProbeReleased], Some e)
     | None \<Rightarrow> ([ProbeLeased, ProbePageOpened, ProbePageClosed, ProbeReleased], evaluate)))"

definition readiness_label :: "bool \<Rightarrow> exn option \<Rightarrow> string" where
  "readiness_label full probe =
     (if full then ''saturated'' else case probe of
        None \<Rightarrow> ''success''
      | Some (PoolAcquireTimeout m) \<Rightarrow> ''unavailable''
      | Some (TimeoutError m) \<Rightarrow> ''timeout''
      | Some e \<Rightarrow> ''unavailable'')"

text \<open>The endpoint: the pool is refreshed first, a full pool is not probed, and every way out but an exception outside
  \<open>Exception\<close> is counted.\<close>

definition ready_endpoint ::
    "exn option \<Rightarrow> bool \<Rightarrow> string \<Rightarrow> unit wait_end \<Rightarrow> time \<Rightarrow> (samples, readiness \<times> nat, exn) prog" where
  "ready_endpoint refresh full seconds_text probe elapsed =
     (let full = (refresh = None \<and> full);
          failure = (case refresh of
             Some e \<Rightarrow> Some e
           | None \<Rightarrow> if full then None
                     else (case snd (await_with_hard_deadline seconds_text probe) of Inl e \<Rightarrow> Some e | Inr _ \<Rightarrow> None)) in
      case failure of
        Some e \<Rightarrow>
          if \<not> is_Exception e then raise_exn e
          else skip_then (modify (\<lambda>m. if readiness_label full failure = ''timeout''
                                     then record_timeout ''readiness'' m else m))
            (skip_then (modify (observe_readiness (readiness_label full failure) elapsed)) (ret (readiness_of full failure)))
      | None \<Rightarrow> skip_then (modify (observe_readiness (readiness_label full None) elapsed)) (ret (readiness_of full None)))"

section \<open>Metrics and diagnostics\<close>

text \<open>\<open>/metrics\<close>: the status, and whether the samples are sent.\<close>

definition metrics_endpoint :: "bool \<Rightarrow> nat \<times> bool" where
  "metrics_endpoint enabled = (if enabled then (200, True) else (404, False))"

definition snapshot_mapping :: "py_dict \<Rightarrow> string \<Rightarrow> py_dict" where
  "snapshot_mapping d name = (case dict_get d name of Some (PyDict m) \<Rightarrow> m | _ \<Rightarrow> [])"

fun at_least_zero :: "py_float \<Rightarrow> py_float option" where
  "at_least_zero (Fin m e) = Some (if m < 0 then Fin 0 0 else Fin m e)"
| "at_least_zero _ = None"

definition snapshot_optional_float :: "(string \<Rightarrow> py_float option) \<Rightarrow> py_dict \<Rightarrow> string \<Rightarrow> exn + py_float option" where
  "snapshot_optional_float float_of_text d name =
     (case dget d name of
        PyNone \<Rightarrow> Inr None
      | v \<Rightarrow> (case py_float_of float_of_text v of
          Inr f \<Rightarrow> Inr (at_least_zero f)
        | Inl e \<Rightarrow> if e = overflow_error then Inl e else Inr None))"

record diagnostics =
  diag_capacity :: capacity
  diag_pool :: diagnostics_pool
  diag_http :: "(string \<times> nat) list"
  diag_sessions :: "(string \<times> int) list"
  diag_in_flight :: int
  diag_oldest_age :: "py_float option"
  diag_by_kind :: "(string \<times> int) list"

text \<open>A snapshot that cannot be read is the empty dictionary.\<close>

definition read_snapshot :: "exn + py_dict \<Rightarrow> exn + py_dict" where
  "read_snapshot s = (case s of Inr d \<Rightarrow> Inr d | Inl e \<Rightarrow> if is_Exception e then Inr [] else Inl e)"

definition diagnostics_response ::
    "(string \<Rightarrow> py_float option) \<Rightarrow> settings \<Rightarrow> http_slots \<Rightarrow> exn + py_dict \<Rightarrow> exn + py_dict \<Rightarrow> exn + py_dict
     \<Rightarrow> exn + diagnostics" where
  "diagnostics_response float_of_text s slots pool_snapshot session_snapshot cleanup_snapshot =
     and_then (read_snapshot pool_snapshot) (\<lambda>p.
     and_then (read_snapshot session_snapshot) (\<lambda>n.
     and_then (read_snapshot cleanup_snapshot) (\<lambda>c.
     and_then (snapshot_optional_float float_of_text c ''oldest_age_seconds'') (\<lambda>age.
       let pool = diagnostics_pool_of s p; in_flight = snapshot_int c ''in_flight'' 0 in
       Inr \<lparr>diag_capacity = capacity_state pool in_flight, diag_pool = pool, diag_http = http_snapshot slots,
            diag_sessions = [(''active'', snapshot_int n ''active'' 0), (''in_use'', snapshot_int n ''in_use'' 0),
              (''closing'', snapshot_int n ''closing'' 0), (''max_sessions'', snapshot_positive_int n ''max_sessions'' (set_max_sessions s))],
            diag_in_flight = in_flight, diag_oldest_age = age,
            diag_by_kind = map (\<lambda>(k, v). (k, parsed_non_negative_int v 0)) (snapshot_mapping c ''by_kind'')\<rparr>))))"

section \<open>Every request is counted out\<close>

lemma in_flight_request [simp]:
  "at_or 0 (gauge_values (request_started m)) (IN_FLIGHT_REQUESTS, []) = at_or 0 (gauge_values m) (IN_FLIGHT_REQUESTS, []) + 1"
  "at_or 0 (gauge_values (request_finished m)) (IN_FLIGHT_REQUESTS, []) = at_or 0 (gauge_values m) (IN_FLIGHT_REQUESTS, []) - 1"
  by (simp_all add: request_started_def request_finished_def gauge_inc_def gauge_set_def at_or_def)

text \<open>Whatever the application does, the gauge of requests in flight is back where it was,
  and an answer carries the id of its request.\<close>

theorem request_context_balanced:
  assumes "\<And>m. at_or 0 (gauge_values (snd (call_next m))) (IN_FLIGHT_REQUESTS, []) = at_or 0 (gauge_values m) (IN_FLIGHT_REQUESTS, [])"
  shows "at_or 0 (gauge_values (snd (request_context s fresh r call_next m))) (IN_FLIGHT_REQUESTS, []) =
      at_or 0 (gauge_values m) (IN_FLIGHT_REQUESTS, [])
    \<and> (case fst (request_context s fresh r call_next m) of
        Inl _ \<Rightarrow> True
      | Inr a \<Rightarrow> answer_request_id a = Some (resolve_request_id fresh (header r ''x-request-id'')))"
proof (cases "request_gate s r")
  case PassOn
  obtain res m' where run: "call_next (request_started m) = (res, m')" by fastforce
  then have kept: "at_or 0 (gauge_values m') (IN_FLIGHT_REQUESTS, []) = at_or 0 (gauge_values m) (IN_FLIGHT_REQUESTS, []) + 1"
    using assms [of "request_started m"] by simp
  show ?thesis
    by (cases res)
      (simp_all add: request_context_def PassOn Let_def skip_then_apply seq_apply try_finally_def try_except_def run kept)
qed (simp_all add: request_context_def Let_def skip_then_apply try_finally_def)

end
