(* ===== verification/Pool_Close.thy ===== *)
theory Pool_Close
  imports Pool_Operations Metrics
begin

text \<open>
  The physical close of one browser by the pool, its bounded cleanup without a supervisor, and what the pool
  publishes of itself (\<open>camouflare/pool.py\<close>).  How the wait for a cleanup task ends, and whether the task is done
  then, are arguments.
\<close>

section \<open>Bounded cleanup\<close>

text \<open>How the wait for a cleanup ended: the caller was interrupted, with the task done or not; the task ended; the
  timeout passed.\<close>

datatype cleanup_wait = CleanupInterrupted exn bool | CleanupEnded "exn + unit" | CleanupOverdue

record cleanup_outcome =
  cleanup_result :: "exn + unit"
  cleanup_cancelled :: bool
  cleanup_tracked :: bool

definition capitalize :: "string \<Rightarrow> string" where
  "capitalize s = (case s of [] \<Rightarrow> [] | c # cs \<Rightarrow> str_upper [c] @ str_lower cs)"

definition bounded_cleanup :: "string \<Rightarrow> string \<Rightarrow> cleanup_wait \<Rightarrow> cleanup_outcome" where
  "bounded_cleanup label seconds_text w = (case w of
     CleanupInterrupted e finished \<Rightarrow>
       \<lparr>cleanup_result = Inl e, cleanup_cancelled = (\<not> finished), cleanup_tracked = (\<not> finished)\<rparr>
   | CleanupEnded r \<Rightarrow> \<lparr>cleanup_result = r, cleanup_cancelled = False, cleanup_tracked = False\<rparr>
   | CleanupOverdue \<Rightarrow>
       \<lparr>cleanup_result = Inl (TimeoutError (capitalize label @ '' cleanup timed out after '' @ seconds_text @ '' seconds.'')),
        cleanup_cancelled = True, cleanup_tracked = True\<rparr>)"

definition supervised_kind :: "string \<Rightarrow> string" where
  "supervised_kind label = (if contains ''context'' label then ''context'' else ''browser'')"

section \<open>Closing a browser\<close>

text \<open>\<open>_close_slot\<close>: the events it records and its result; \<open>cleanup\<close> is the result of the bounded cleanup.\<close>

definition close_slot :: "bool \<Rightarrow> bool \<Rightarrow> exn + unit \<Rightarrow> pool_event list \<times> (exn + unit)" where
  "close_slot already_closed closable cleanup =
     (if already_closed \<or> \<not> closable then ([], Inr ())
      else case cleanup of
        Inr _ \<Rightarrow> ([], Inr ())
      | Inl e \<Rightarrow>
          if \<not> is_Exception e then ([], Inl e)
          else if is_browser_disconnected_error e then ([BrowserDisconnected], Inr ())
          else ([BrowserError], Inl e))"

text \<open>A physical close is watched once.\<close>

definition watch_physical_close :: "nat \<Rightarrow> nat list \<Rightarrow> nat list \<times> bool" where
  "watch_physical_close task watched =
     (if task \<in> set watched then (watched, False) else (set_add task watched, True))"

text \<open>A browser that does not expose \<open>is_connected\<close> counts as connected.\<close>

definition is_slot_disconnected :: "bool option \<Rightarrow> bool" where
  "is_slot_disconnected is_connected \<longleftrightarrow> is_connected = Some False"

section \<open>What the pool publishes\<close>

definition capacity_snapshot :: "pool_snapshot \<Rightarrow> (string \<times> nat) list" where
  "capacity_snapshot s =
     [(''max_slots'', snap_max_slots s), (''max_browsers'', snap_max_browsers s),
      (''max_contexts_per_browser'', snap_max_contexts_per_browser s), (''active_contexts'', snap_active_contexts s),
      (''persistent_contexts'', snap_persistent_contexts s), (''creating_slots'', snap_creating_slots s),
      (''browser_slots'', snap_browser_slots s), (''ready_browser_slots'', snap_ready_browser_slots s),
      (''retiring_browser_slots'', snap_retiring_browser_slots s), (''closing_slots'', snap_closing_slots s),
      (''waiting_requests'', snap_waiting_requests s), (''usable_context_slots'', snap_usable_context_slots s),
      (''idle_recyclable_slots'', snap_idle_recyclable_slots s)]"

definition publish_snapshot_metrics :: "pool_snapshot \<Rightarrow> samples \<Rightarrow> samples" where
  "publish_snapshot_metrics s = set_pool_snapshot
     \<lparr>browser_slots = int (snap_browser_slots s), creating_slots = int (snap_creating_slots s),
      closing_slots = int (snap_closing_slots s), transient_count = int (snap_transient_contexts s),
      persistent_count = int (snap_persistent_contexts s), waiting_count = int (snap_waiting_requests s),
      ready_browser_slots = Some (int (snap_ready_browser_slots s)),
      retiring_browser_slots = int (snap_retiring_browser_slots s),
      usable_context_slots = Some (int (snap_usable_context_slots s)),
      idle_recyclable_slots = int (snap_idle_recyclable_slots s)\<rparr>"

lemma gauge_set_get [simp]:
  "dict_get (gauge_values (gauge_set c ls v m)) k = (if k = (c, ls) then Some v else dict_get (gauge_values m) k)"
  by (simp add: gauge_set_def)

lemma snapshot_adds_up:
  "snapshot_unlocked c now p = (Inr s, p') \<Longrightarrow>
   snap_ready_browser_slots s + snap_retiring_browser_slots s = snap_browser_slots s
   \<and> snap_idle_recyclable_slots s \<le> snap_retiring_browser_slots s
   \<and> snap_transient_contexts s \<le> snap_active_contexts s"
proof -
  have split: "length (filter (\<lambda>b. \<not> P b) bs) + length (filter P bs) = length bs" for P :: "browser_slot \<Rightarrow> bool" and bs
    by (induction bs) auto
  assume "snapshot_unlocked c now p = (Inr s, p')"
  then show ?thesis
    using split [of "effectively_retiring c now" "map (heap p) (slots p)"]
    by (auto simp: snapshot_unlocked_def Let_def length_filter_le simp del: filter_filter length_filter_map split: if_splits)
qed

text \<open>What a scrape reads of the browsers is the pool: the ready and the retiring ones are all its slots.\<close>

theorem browser_gauges_add_up:
  assumes "snapshot_unlocked c now p = (Inr s, p')"
  shows "\<exists>ready retiring.
      dict_get (gauge_values (publish_snapshot_metrics s m)) (BROWSER_STATE, [''ready'']) = Some (int ready)
    \<and> dict_get (gauge_values (publish_snapshot_metrics s m)) (BROWSER_STATE, [''retiring'']) = Some (int retiring)
    \<and> ready + retiring = length (slots p)"
  using snapshot_adds_up [OF assms] assms
  by (auto simp: publish_snapshot_metrics_def set_pool_snapshot_def Let_def snapshot_unlocked_def split: if_splits)

end
