(* ===== verification/Bridge_Lifecycle.thy ===== *)
theory Bridge_Lifecycle
  imports Socks_Bridge
begin

text \<open>
  The life of a local SOCKS bridge (\<open>LocalSocksBridge\<close> of \<open>camouflare/proxy.py\<close>): starting its server, accepting
  clients, their handler tasks, and closing; and how the two relay directions of a tunnel end together.  A
  client is its number; what one handler says to its peers is the subject of \<open>Socks_Bridge\<close>.
\<close>

section \<open>Starting\<close>

datatype start_event = ServerListening | ServerClosed

text \<open>\<open>finished\<close> is the port, or what interrupted the start after the server was listening.\<close>

definition bridge_start :: "exn + (exn + nat) \<Rightarrow> start_event list \<times> (exn + nat)" where
  "bridge_start served = (case served of
     Inl e \<Rightarrow> ([], Inl e)
   | Inr (Inl e) \<Rightarrow> ([ServerListening, ServerClosed], Inl e)
   | Inr (Inr port) \<Rightarrow> ([ServerListening], Inr port))"

section \<open>Clients and handlers\<close>

text \<open>A handler task is created before it runs; a task cancelled before its first step never enters its body.\<close>

datatype handler_state = HandlerCreated | HandlerRunning | HandlerEnded

record bridge_state =
  bridge_closed :: bool
  server_open :: bool
  client_writers :: "nat list"
  handler_tasks :: "nat list"
  handlers :: "nat \<Rightarrow> handler_state option"
  open_clients :: "nat list"
  next_client :: nat
  handler_errors :: "exn list"

definition new_bridge :: bridge_state where
  "new_bridge = \<lparr>bridge_closed = False, server_open = True, client_writers = [], handler_tasks = [],
     handlers = (\<lambda>_. None), open_clients = [], next_client = 0, handler_errors = []\<rparr>"

definition close_writer :: "nat \<Rightarrow> bridge_state \<Rightarrow> bridge_state" where
  "close_writer c b = b\<lparr>open_clients := set_discard c (open_clients b)\<rparr>"

definition accept_client :: "bridge_state \<Rightarrow> bridge_state" where
  "accept_client b =
     (let c = next_client b;
          b = b\<lparr>next_client := Suc c, open_clients := set_add c (open_clients b)\<rparr> in
      if bridge_closed b then close_writer c b
      else b\<lparr>client_writers := set_add c (client_writers b), handler_tasks := set_add c (handler_tasks b),
             handlers := (handlers b)(c \<mapsto> HandlerCreated)\<rparr>)"

definition handler_starts :: "nat \<Rightarrow> bridge_state \<Rightarrow> bridge_state" where
  "handler_starts c b = b\<lparr>handlers := (handlers b)(c \<mapsto> HandlerRunning)\<rparr>"

text \<open>The body ends: its \<open>finally\<close> closes the client.  A handler cancelled before it ran has no \<open>finally\<close>.\<close>

definition handler_returns :: "nat \<Rightarrow> bridge_state \<Rightarrow> bridge_state" where
  "handler_returns c b =
     (let b = close_writer c b in
      b\<lparr>client_writers := set_discard c (client_writers b), handlers := (handlers b)(c \<mapsto> HandlerEnded)\<rparr>)"

definition handler_never_ran :: "nat \<Rightarrow> bridge_state \<Rightarrow> bridge_state" where
  "handler_never_ran c b = b\<lparr>handlers := (handlers b)(c \<mapsto> HandlerEnded)\<rparr>"

definition handler_done :: "nat \<Rightarrow> exn option \<Rightarrow> bridge_state \<Rightarrow> bridge_state" where
  "handler_done c error b =
     (let b = b\<lparr>handler_tasks := set_discard c (handler_tasks b)\<rparr> in
      case error of
        None \<Rightarrow> b
      | Some e \<Rightarrow> if e = CancelledError then b else b\<lparr>handler_errors := handler_errors b @ [e]\<rparr>)"

text \<open>\<open>close\<close> up to its wait for the handlers it cancels.\<close>

definition bridge_close :: "bridge_state \<Rightarrow> bridge_state" where
  "bridge_close b =
     (let b = b\<lparr>bridge_closed := True, server_open := False\<rparr> in fold close_writer (client_writers b) b)"

inductive bridge_step :: "bridge_state \<Rightarrow> bridge_state \<Rightarrow> bool" where
  bs_accept: "bridge_step b (accept_client b)"
| bs_start: "handlers b c = Some HandlerCreated \<Longrightarrow> bridge_step b (handler_starts c b)"
| bs_return: "handlers b c = Some HandlerRunning \<Longrightarrow> bridge_step b (handler_returns c b)"
| bs_never_ran: "handlers b c = Some HandlerCreated \<Longrightarrow> bridge_closed b \<Longrightarrow> bridge_step b (handler_never_ran c b)"
| bs_done: "handlers b c = Some HandlerEnded \<Longrightarrow> bridge_step b (handler_done c error b)"
| bs_close: "bridge_step b (bridge_close b)"

text \<open>An open client has a tracked writer, and none is open once the bridge is closed.\<close>

definition bridge_ok :: "bridge_state \<Rightarrow> bool" where
  "bridge_ok b \<longleftrightarrow> set (open_clients b) \<subseteq> set (client_writers b) \<and> (bridge_closed b \<longrightarrow> open_clients b = [])
     \<and> (\<not> bridge_closed b \<longrightarrow> server_open b \<and> (\<forall>c \<in> set (open_clients b).
          handlers b c = Some HandlerCreated \<or> handlers b c = Some HandlerRunning))
     \<and> (\<forall>c. handlers b c \<noteq> None \<longrightarrow> c < next_client b) \<and> (\<forall>c \<in> set (open_clients b). c < next_client b)
     \<and> (\<forall>c. (handlers b c = Some HandlerCreated \<or> handlers b c = Some HandlerRunning) \<longrightarrow> c \<in> set (handler_tasks b))"

lemma set_discard_nil [simp]: "set_discard c [] = []"
  by (simp add: set_discard_def)

lemma fold_close_writer:
  "bridge_closed (fold close_writer cs b) = bridge_closed b" "server_open (fold close_writer cs b) = server_open b"
  "client_writers (fold close_writer cs b) = client_writers b" "handler_tasks (fold close_writer cs b) = handler_tasks b"
  "handlers (fold close_writer cs b) = handlers b" "next_client (fold close_writer cs b) = next_client b"
  "set (open_clients (fold close_writer cs b)) = set (open_clients b) - set cs"
  by (induction cs arbitrary: b) (auto simp: close_writer_def)

lemma bridge_close_ok: "bridge_ok b \<Longrightarrow> bridge_ok (bridge_close b)"
proof -
  assume ok: "bridge_ok b"
  let ?b = "b\<lparr>bridge_closed := True, server_open := False\<rparr>"
  have "set (open_clients (fold close_writer (client_writers b) ?b)) = {}"
    unfolding fold_close_writer using ok by (simp add: bridge_ok_def)
  then have "open_clients (fold close_writer (client_writers b) ?b) = []" by (simp only: set_empty)
  then show ?thesis
    using ok by (simp add: bridge_close_def Let_def bridge_ok_def fold_close_writer)
qed

lemma accept_client_ok: "bridge_ok b \<Longrightarrow> bridge_ok (accept_client b)"
  by (auto simp: accept_client_def Let_def close_writer_def bridge_ok_def set_add_def set_discard_def less_SucI)

lemma bridge_step_ok: "bridge_step b b' \<Longrightarrow> bridge_ok b \<Longrightarrow> bridge_ok b'"
proof (induction rule: bridge_step.induct)
  case (bs_accept b)
  then show ?case by (rule accept_client_ok)
next
  case (bs_close b)
  then show ?case by (rule bridge_close_ok)
qed (auto simp: bridge_ok_def handler_starts_def handler_returns_def handler_never_ran_def handler_done_def close_writer_def
    Let_def split: option.split)

interpretation bridge_machine: invariant_machine "\<lambda>b. b = new_bridge" bridge_step bridge_ok
  by unfold_locales (simp add: bridge_ok_def new_bridge_def, erule (1) bridge_step_ok [rotated])

text \<open>A closed bridge holds no client, accepted before or after the close, handled or not; while it is open every
  client it holds has a handler the close will wait for.\<close>

theorem closed_bridge_holds_no_client:
  assumes "reach (\<lambda>b. b = new_bridge) bridge_step b"
  shows "if bridge_closed b then open_clients b = [] else set (open_clients b) \<subseteq> set (handler_tasks b)"
  using bridge_machine.inv_reach [OF assms] by (auto simp: bridge_ok_def)

section \<open>The two directions of a tunnel\<close>

datatype direction = ToUpstream | ToClient

datatype pipe_end = PipeEof | PipeFailed exn | PipeCancelled

fun first_failure :: "(direction \<times> pipe_end) list \<Rightarrow> exn option" where
  "first_failure [] = None"
| "first_failure ((d, PipeEof) # es) = first_failure es"
| "first_failure ((d, PipeFailed e) # es) = Some e"
| "first_failure ((d, PipeCancelled) # es) = Some CancelledError"

text \<open>\<open>_pipe_bidirectional\<close>: \<open>ended\<close> are the directions done when the first wait returns, \<open>later\<close> how the others end
  when they are left running, \<open>interrupted\<close> an interruption of either wait.  The result is what the handler sees and
  the directions that are cancelled; every direction has closed its writer then.\<close>

definition pipe_bidirectional ::
    "exn option \<Rightarrow> (direction \<times> pipe_end) list \<Rightarrow> exn option \<Rightarrow> (direction \<Rightarrow> pipe_end) \<Rightarrow> (exn + unit) \<times> direction list" where
  "pipe_bidirectional interrupted_first ended interrupted_later later =
     (let pending = filter (\<lambda>d. d \<notin> fst ` set ended) [ToUpstream, ToClient] in
      case interrupted_first of
        Some e \<Rightarrow> (Inl e, pending)
      | None \<Rightarrow> (case first_failure ended of
          Some e \<Rightarrow> (Inl e, pending)
        | None \<Rightarrow>
            if pending = [] then (Inr (), [])
            else case interrupted_later of
              Some e \<Rightarrow> (Inl e, pending)
            | None \<Rightarrow> (case first_failure (map (\<lambda>d. (d, later d)) pending) of
                Some e \<Rightarrow> (Inl e, []) | None \<Rightarrow> (Inr (), []))))"

text \<open>A half-closed tunnel keeps relaying: an end of file in one direction cancels nothing, and the tunnel ends well
  exactly when the other direction does.\<close>

lemma half_close_keeps_relaying:
  "pipe_bidirectional None [(ToUpstream, PipeEof)] None later =
     (case later ToClient of PipeEof \<Rightarrow> (Inr (), []) | PipeFailed e \<Rightarrow> (Inl e, []) | PipeCancelled \<Rightarrow> (Inl CancelledError, []))"
  by (auto simp: pipe_bidirectional_def split: pipe_end.split)

end
