(* ===== verification/Release.thy ===== *)
theory Release
  imports Models
begin

text \<open>
  The release tools (\<open>scripts/\<close>): reading the state of a registry (\<open>check_release_destinations.py\<close>), copying a release
  without replacing a version (\<open>mirror_release_image.py\<close>), and the agreement of tag and changelog
  (\<open>verify_release.py\<close>).  Docker and git are arguments: \<open>registry_world\<close> answers an inspection,
  performs a creation on the state of the registries (which may fail and still have changed it) and lists the tags
  of the repository.
\<close>

section \<open>Texts\<close>

definition NL :: char where "NL = CHR 0x0A"

definition is_hex_digest :: "string \<Rightarrow> bool" where
  "is_hex_digest s \<longleftrightarrow> length s = 64 \<and> list_all (\<lambda>c. is_digit c \<or> 97 \<le> ord c \<and> ord c \<le> 102) s"

text \<open>\<open>sha256:[0-9a-f]{64}\<close> as a full match.\<close>

definition is_sha256_digest :: "string \<Rightarrow> bool" where
  "is_sha256_digest s \<longleftrightarrow> take 7 s = ''sha256:'' \<and> is_hex_digest (drop 7 s)"

text \<open>\<open>\s*$\<close> in multi-line mode.\<close>

definition blank_to_line_end :: "string \<Rightarrow> bool" where
  "blank_to_line_end s \<longleftrightarrow> dropWhile is_space s = [] \<or> NL \<in> set (takeWhile is_space s)"

definition digest_line :: "string \<Rightarrow> string option" where
  "digest_line s =
     (let rest = drop 7 s; value = dropWhile is_space rest in
      if take 7 s = ''Digest:'' \<and> value \<noteq> rest \<and> is_sha256_digest (take 71 value) \<and> blank_to_line_end (drop 71 value)
      then Some (take 71 value) else None)"

fun search_digest :: "bool \<Rightarrow> string \<Rightarrow> string option" where
  "search_digest at_start [] = None"
| "search_digest at_start (c # cs) =
     (case (if at_start then digest_line (c # cs) else None) of
        Some d \<Rightarrow> Some d
      | None \<Rightarrow> search_digest (c = NL) cs)"

section \<open>Inspecting a registry\<close>

record inspection =
  exit_code :: int
  std_out :: string
  std_err :: string

record 'r registry_world =
  inspect :: "'r \<Rightarrow> string \<Rightarrow> exn + inspection"
  create_tag :: "'r \<Rightarrow> string \<Rightarrow> string \<Rightarrow> (exn + unit) \<times> 'r"
  tag_listing :: "exn + string"

definition ABSENT_IMAGE_MARKERS :: "string list" where
  "ABSENT_IMAGE_MARKERS = [''manifest unknown'', ''name unknown'', ''repository name not known'', ''no such manifest'']"

definition definitively_absent_image :: "string \<Rightarrow> string \<Rightarrow> bool" where
  "definitively_absent_image reference message =
     (let n = str_lower message in
      contains (str_lower reference @ '': not found'') n \<or> list_ex (\<lambda>m. contains m n) ABSENT_IMAGE_MARKERS)"

definition image_tag_digest_of :: "string \<Rightarrow> inspection \<Rightarrow> exn + string option" where
  "image_tag_digest_of reference r =
     (if exit_code r = 0
      then (case search_digest True (std_out r) of
              None \<Rightarrow> Inl (RuntimeError (''Registry returned '' @ reference @ '' without a parseable index digest.''))
            | Some d \<Rightarrow> Inr (Some d))
      else if definitively_absent_image reference (std_out r @ [NL] @ std_err r) then Inr None
      else Inl (RuntimeError (''Registry check for '' @ reference @ '' failed without a definitive not-found result.'')))"

definition image_tag_exists_of :: "string \<Rightarrow> inspection \<Rightarrow> exn + bool" where
  "image_tag_exists_of reference r =
     (if exit_code r = 0 then Inr True
      else if definitively_absent_image reference (std_out r @ [NL] @ std_err r) then Inr False
      else Inl (RuntimeError (''Registry check for '' @ reference @ '' failed without a definitive not-found result.'')))"

definition image_tag_digest :: "('r, 'm) registry_world_scheme \<Rightarrow> 'r \<Rightarrow> string \<Rightarrow> exn + string option" where
  "image_tag_digest w r reference = (case inspect w r reference of
     Inl e \<Rightarrow> Inl e | Inr answer \<Rightarrow> image_tag_digest_of reference answer)"

definition read_digest :: "('r, 'm) registry_world_scheme \<Rightarrow> string \<Rightarrow> ('r, string option, exn) prog" where
  "read_digest w reference = (\<lambda>r. (image_tag_digest w r reference, r))"

definition github_output :: "string option \<Rightarrow> string list" where
  "github_output digest =
     [''image_exists='' @ (if digest = None then ''false'' else ''true''),
      ''image_digest='' @ (case digest of None \<Rightarrow> [] | Some d \<Rightarrow> d)]"

section \<open>Versions\<close>

text \<open>\<open>0|[1-9][0-9]*\<close>\<close>

definition version_number :: "string \<Rightarrow> nat option" where
  "version_number s =
     (if s = ''0'' then Some 0
      else if s \<noteq> [] \<and> list_all is_digit s \<and> hd s \<noteq> CHR ''0'' then Some (digits_value s) else None)"

definition version_of_text :: "string \<Rightarrow> (nat \<times> nat \<times> nat) option" where
  "version_of_text s = (case map version_number (split_on (CHR ''.'') s) of
     [Some a, Some b, Some c] \<Rightarrow> Some (a, b, c) | _ \<Rightarrow> None)"

definition release_version :: "string \<Rightarrow> (nat \<times> nat \<times> nat) option" where
  "release_version tag = (if take 1 tag = ''v'' then version_of_text (drop 1 tag) else None)"

definition without_v :: "string \<Rightarrow> string" where
  "without_v tag = (if take 1 tag = ''v'' then drop 1 tag else tag)"

fun version_less :: "nat \<times> nat \<times> nat \<Rightarrow> nat \<times> nat \<times> nat \<Rightarrow> bool" where
  "version_less (a, b, c) (x, y, z) \<longleftrightarrow> a < x \<or> a = x \<and> (b < y \<or> b = y \<and> c < z)"

text \<open>\<open>str.rpartition(sep)[2]\<close>: the part after the last occurrence, the whole text when there is none.\<close>

fun after_last :: "string \<Rightarrow> string \<Rightarrow> string \<Rightarrow> string" where
  "after_last sep best [] = best"
| "after_last sep best (c # cs) =
     after_last sep (if take (length sep) (c # cs) = sep then drop (length sep) (c # cs) else best) cs"

definition release_tags :: "('r, 'm) registry_world_scheme \<Rightarrow> exn + string list" where
  "release_tags w = (case tag_listing w of
     Inl e \<Rightarrow> Inl e
   | Inr listing \<Rightarrow> Inr (map (\<lambda>line. after_last ''refs/tags/'' line line) (filter (\<lambda>line. line \<noteq> []) (split_on NL listing))))"

definition known_versions :: "string list \<Rightarrow> (nat \<times> nat \<times> nat) list" where
  "known_versions tags = List.map_filter release_version tags"

section \<open>Mirroring\<close>

definition create_reference :: "('r, 'm) registry_world_scheme \<Rightarrow> string \<Rightarrow> string \<Rightarrow> ('r, unit, exn) prog" where
  "create_reference w tag source = (\<lambda>r. create_tag w r tag source)"

definition point_latest :: "('r, 'm) registry_world_scheme \<Rightarrow> string \<Rightarrow> string \<Rightarrow> string \<Rightarrow> ('r, unit, exn) prog" where
  "point_latest w tag destination_image digest =
     seq (\<lambda>r. (release_tags w, r)) (\<lambda>tags.
      let versions = known_versions tags; latest = destination_image @ '':latest'' in
      case release_version tag of
        None \<Rightarrow> raise_exn (RuntimeError (tag @ '' is not a release tag in the repository; latest unchanged.''))
      | Some v \<Rightarrow>
          if v \<notin> set versions
          then raise_exn (RuntimeError (tag @ '' is not a release tag in the repository; latest unchanged.''))
          else if list_ex (version_less v) versions then ret ()
          else seq (read_digest w latest) (\<lambda>d.
            if d = Some digest then ret ()
            else skip_then (create_reference w latest (destination_image @ ''@'' @ digest))
              (seq (read_digest w latest) (\<lambda>d.
                if d = Some digest then ret ()
                else raise_exn (RuntimeError (''Updated '' @ latest @ '' does not match the release digest.''))))))"

definition mirror_release_image ::
    "('r, 'm) registry_world_scheme \<Rightarrow> string \<Rightarrow> string \<Rightarrow> string \<Rightarrow> string \<Rightarrow> bool \<Rightarrow> ('r, unit, exn) prog" where
  "mirror_release_image w tag source_image digest destination_image latest =
     (if release_version tag = None
      then raise_exn (ValueError ''Expected an exact vMAJOR.MINOR.PATCH release tag.'')
      else if \<not> is_sha256_digest digest
      then raise_exn (ValueError ''Expected an exact sha256 image index digest.'')
      else
        let destination = destination_image @ '':'' @ without_v tag in
        seq (read_digest w (source_image @ '':'' @ without_v tag)) (\<lambda>source_digest.
          if source_digest \<noteq> Some digest
          then raise_exn (RuntimeError ''Source release tag did not return the requested release digest.'')
          else seq (read_digest w destination) (\<lambda>existing.
            skip_then
              (case existing of
                 Some d \<Rightarrow>
                   if d \<noteq> digest
                   then raise_exn (RuntimeError (''Refusing to replace '' @ destination @ '': it names '' @ d @ ''.''))
                   else ret ()
               | None \<Rightarrow>
                   skip_then (create_reference w destination (source_image @ ''@'' @ digest))
                     (seq (read_digest w destination) (\<lambda>copied.
                       if copied = Some digest then ret ()
                       else raise_exn (RuntimeError (''Copied '' @ destination @ '' does not match the source release digest.'')))))
              (if latest then point_latest w tag destination_image digest else ret ()))))"

section \<open>The changelog\<close>

definition is_date :: "string \<Rightarrow> bool" where
  "is_date s \<longleftrightarrow> length s = 10 \<and> list_all is_digit (take 4 s) \<and> s ! 4 = CHR ''-'' \<and> list_all is_digit (take 2 (drop 5 s))
     \<and> s ! 7 = CHR ''-'' \<and> list_all is_digit (drop 8 s)"

text \<open>A line \<open>## [1.2.3] - 2024-01-31\<close>; the expression has no blank that could match a line break.\<close>

definition release_heading :: "string \<Rightarrow> string option" where
  "release_heading line =
     (if take 4 line \<noteq> ''## ['' then None
      else let version = takeWhile (\<lambda>c. c \<noteq> CHR '']'') (drop 4 line); rest = drop (4 + length version) line in
        if version_of_text version \<noteq> None \<and> take 4 rest = ''] - '' \<and> is_date (drop 4 rest) then Some version else None)"

definition release_versions :: "string \<Rightarrow> string list" where
  "release_versions changelog = List.map_filter release_heading (split_on NL changelog)"

text \<open>A reference \<open>[label]: url\<close> at the start of a line; the label may run over line breaks.\<close>

definition reference_at :: "string \<Rightarrow> (string \<times> string \<times> string) option" where
  "reference_at s =
     (if take 1 s \<noteq> ''['' then None
      else let label = takeWhile (\<lambda>c. c \<noteq> CHR '']'') (drop 1 s);
               rest = drop (1 + length label) s;
               url = takeWhile (\<lambda>c. \<not> is_space c) (drop 3 rest);
               after = drop (3 + length url) rest in
        if label \<noteq> [] \<and> take 3 rest = '']: '' \<and> url \<noteq> [] \<and> (after = [] \<or> hd after = NL) then Some (label, url, after) else None)"

function references :: "bool \<Rightarrow> string \<Rightarrow> (string \<times> string) list \<Rightarrow> (string \<times> string) list" where
  "references at_start s found =
     (case s of
        [] \<Rightarrow> found
      | c # cs \<Rightarrow> (case (if at_start then reference_at s else None) of
          None \<Rightarrow> references (c = NL) cs found
        | Some (label, url, after) \<Rightarrow> references False after (dict_set label url found)))"
  by pat_completeness auto

lemma reference_at_shorter: "reference_at s = Some (label, url, after) \<Longrightarrow> length after < length s"
  by (cases s) (auto simp: reference_at_def Let_def split: if_splits)

termination references
  by (relation "measure (\<lambda>(b, s, d). length s)") (auto dest: reference_at_shorter split: if_splits)

declare references.simps [simp del]

definition rstrip_slashes :: "string \<Rightarrow> string" where
  "rstrip_slashes s = rev (dropWhile (\<lambda>c. c = CHR ''/'') (rev s))"

fun following :: "'a \<Rightarrow> 'a list \<Rightarrow> 'a option" where
  "following x (y # z # zs) = (if x = y then Some z else following x (z # zs))"
| "following x _ = None"

definition link_error :: "string \<Rightarrow> string option \<Rightarrow> string \<Rightarrow> string list" where
  "link_error name actual expected =
     (if actual = Some expected then []
      else [''CHANGELOG.md ['' @ name @ ''] link is '' @ (case actual of None \<Rightarrow> ''missing'' | Some a \<Rightarrow> a)
            @ '', expected '' @ expected])"

definition changelog_errors :: "string \<Rightarrow> string \<Rightarrow> string \<Rightarrow> string list" where
  "changelog_errors changelog tag_version repository_url =
     (let versions = release_versions changelog; refs = references True changelog []; url = rstrip_slashes repository_url in
      (if tag_version \<in> set versions then []
       else [''CHANGELOG.md has no dated ['' @ tag_version @ ''] release heading''])
      @ link_error ''Unreleased'' (dict_get refs ''Unreleased'') (url @ ''/compare/v'' @ tag_version @ ''...HEAD'')
      @ (if tag_version \<notin> set versions then []
         else link_error tag_version (dict_get refs tag_version)
           (case following tag_version versions of
              Some previous \<Rightarrow> url @ ''/compare/v'' @ previous @ ''...v'' @ tag_version
            | None \<Rightarrow> url @ ''/releases/tag/v'' @ tag_version)))"

text \<open>\<open>main\<close> of \<open>verify_release.py\<close>: \<open>Inl\<close> is a message that ends it at once, \<open>Inr\<close> the errors it prints.\<close>

definition release_errors ::
    "string \<Rightarrow> string \<Rightarrow> string option \<Rightarrow> bool \<Rightarrow> string \<Rightarrow> string option \<Rightarrow> string + string list" where
  "release_errors tag source_version literal_version approved_dynamic changelog repository_url =
     (if release_version tag = None then Inl ''tag must match vMAJOR.MINOR.PATCH''
      else if literal_version = None \<and> \<not> approved_dynamic
      then Inl ''package version is not a literal or the approved dynamic source''
      else
        let tag_version = without_v tag;
            package_version = (case literal_version of None \<Rightarrow> source_version | Some v \<Rightarrow> v) in
        Inr ((if package_version \<noteq> tag_version then [''pyproject.toml has '' @ package_version @ '', expected '' @ tag_version] else [])
          @ (if source_version \<noteq> tag_version
             then [''camouflare.__version__ has '' @ source_version @ '', expected '' @ tag_version] else [])
          @ (if nonempty repository_url then changelog_errors changelog tag_version (the repository_url)
             else [''pyproject.toml has no project.urls.Repository''])))"

section \<open>Versions are never replaced\<close>

definition tags_apart :: "('r, 'm) registry_world_scheme \<Rightarrow> bool" where
  "tags_apart w \<longleftrightarrow> (\<forall>r tag source other. other \<noteq> tag \<longrightarrow>
     inspect w (snd (create_tag w r tag source)) other = inspect w r other)"

lemma create_keeps:
  "tags_apart w \<Longrightarrow> other \<noteq> tag \<Longrightarrow>
   image_tag_digest w (snd (create_reference w tag source r)) other = image_tag_digest w r other"
  by (simp add: create_reference_def image_tag_digest_def tags_apart_def)

lemma latest_keeps:
  assumes "tags_apart w" and "other \<noteq> target @ '':latest''"
  shows "image_tag_digest w (snd (point_latest w tag target digest r)) other = image_tag_digest w r other"
  using create_keeps [OF assms, of "target @ ''@'' @ digest" r]
  by (auto simp: point_latest_def Let_def seq_apply skip_then_apply read_digest_def
      split: option.split sum.split prod.split)

text \<open>Mirroring a release moves no tag but \<open>latest\<close>: whatever any other reference named before, the version itself
  included, it names afterwards.\<close>

theorem mirror_keeps_versions:
  assumes "tags_apart w" and "other \<noteq> target @ '':latest''" and "image_tag_digest w r other = Inr (Some d)"
  shows "image_tag_digest w (snd (mirror_release_image w tag source_image digest target latest r)) other = Inr (Some d)"
proof (cases "release_version tag = None \<or> \<not> is_sha256_digest digest")
  case True
  then show ?thesis using assms(3) by (auto simp: mirror_release_image_def)
next
  case False
  let ?dest = "target @ '':'' @ without_v tag"
  have later: "image_tag_digest w (snd (point_latest w tag target digest r)) other = Inr (Some d)"
    using latest_keeps [OF assms(1,2)] assms(3) by simp
  show ?thesis
  proof (cases "image_tag_digest w r ?dest = Inr None")
    case True
    then have "other \<noteq> ?dest" using assms(3) by auto
    note kept = create_keeps [OF assms(1) this, of "source_image @ ''@'' @ digest" r]
    obtain res r' where created: "create_reference w ?dest (source_image @ ''@'' @ digest) r = (res, r')" by fastforce
    then have "image_tag_digest w r' other = Inr (Some d)" using kept assms(3) by simp
    moreover have "image_tag_digest w (snd (point_latest w tag target digest r')) other = Inr (Some d)"
      using latest_keeps [OF assms(1,2)] calculation by simp
    ultimately show ?thesis
      using False True created assms(3)
      by (auto simp: mirror_release_image_def Let_def seq_apply skip_then_apply read_digest_def
          split: sum.split option.split)
  next
    case exists: False
    then show ?thesis
      using False assms(3) later
      by (auto simp: mirror_release_image_def Let_def seq_apply skip_then_apply read_digest_def
          split: sum.split option.split)
  qed
qed

text \<open>The hypotheses hold for a registry that is a map from references to digests.\<close>

definition map_registry :: "(string \<Rightarrow> string option) registry_world" where
  "map_registry = \<lparr>
     inspect = (\<lambda>r reference. Inr (case r reference of
        None \<Rightarrow> \<lparr>exit_code = 1, std_out = [], std_err = ''manifest unknown''\<rparr>
      | Some d \<Rightarrow> \<lparr>exit_code = 0, std_out = ''Digest: '' @ d, std_err = []\<rparr>)),
     create_tag = (\<lambda>r tag source. (Inr (), r(tag \<mapsto> drop 7 source))),
     tag_listing = Inr []\<rparr>"

definition digest_of_zeros :: string where
  "digest_of_zeros = ''sha256:'' @ replicate 64 (CHR ''0'')"

lemma map_registry_tags_apart: "tags_apart map_registry"
  by (simp add: tags_apart_def map_registry_def)

lemma mirror_keeps_versions_witness:
  "image_tag_digest map_registry
     (snd (mirror_release_image map_registry ''v1.2.3'' ''ghcr/a'' digest_of_zeros ''docker/a'' True
       ((\<lambda>_. None)(''docker/a:1.2.2'' \<mapsto> digest_of_zeros)))) ''docker/a:1.2.2'' = Inr (Some digest_of_zeros)"
proof (rule mirror_keeps_versions [OF map_registry_tags_apart])
  show "image_tag_digest map_registry ((\<lambda>_. None)(''docker/a:1.2.2'' \<mapsto> digest_of_zeros)) ''docker/a:1.2.2''
    = Inr (Some digest_of_zeros)"
    by code_simp
qed simp

end
