(* ===== verification/Artifacts.thy ===== *)
theory Artifacts
  imports Release Socks_Bridge
begin

text \<open>
  Installing the pinned browser and add-ons (\<open>scripts/fetch_camoufox.py\<close>): reading the manifest of pins, the three
  patches of the package manager, and the replacement of an add-on directory.  A JSON document is a \<open>py_val\<close>.
  SHA-256, the reading of a zip archive, the downloads and the file system calls that may fail are arguments.
  The code feeds a file to the hash in pieces of a megabyte, which hashes the whole file, so \<open>sha256\<close> takes the file.
  In messages the text printed by \<open>repr\<close> stands without quotes.
\<close>

section \<open>Pins\<close>

record addon_pin =
  pin_version :: string
  pin_url :: string
  pin_sha256 :: string

record artifact_manifest =
  release_tag :: string
  artifacts :: "(string \<times> string) list"
  addons :: "(string \<times> addon_pin) list"

fun equals_int :: "py_val \<Rightarrow> int \<Rightarrow> bool" where
  "equals_int (PyBool b) n \<longleftrightarrow> (if b then 1 else 0) = n"
| "equals_int (PyInt i) n \<longleftrightarrow> i = n"
| "equals_int (PyFloat (Fin m e)) n \<longleftrightarrow> (if 0 \<le> e then m * 2 ^ nat e = n else m = n * 2 ^ nat (- e))"
| "equals_int _ n \<longleftrightarrow> False"

fun is_py_dict :: "py_val \<Rightarrow> bool" where
  "is_py_dict (PyDict d) = True"
| "is_py_dict _ = False"

definition is_token :: "(char \<Rightarrow> bool) \<Rightarrow> (char \<Rightarrow> bool) \<Rightarrow> string \<Rightarrow> bool" where
  "is_token first others s \<longleftrightarrow> s \<noteq> [] \<and> first (hd s) \<and> list_all others (tl s)"

definition addon_name_ok :: "string \<Rightarrow> bool" where
  "addon_name_ok = is_token is_alnum_ascii (\<lambda>c. is_alnum_ascii c \<or> c \<in> set ''_-'')"

definition addon_version_ok :: "string \<Rightarrow> bool" where
  "addon_version_ok = is_token is_alnum_ascii (\<lambda>c. is_alnum_ascii c \<or> c \<in> set ''.+-'')"

definition release_tag_ok :: "string \<Rightarrow> bool" where
  "release_tag_ok = is_token is_alnum_ascii (\<lambda>c. is_alnum_ascii c \<or> c \<in> set ''._-'')"

text \<open>\<open>Path(s).name\<close>\<close>

definition path_name :: "string \<Rightarrow> string" where
  "path_name s =
     (let parts = filter (\<lambda>part. part \<noteq> [] \<and> part \<noteq> ''.'') (split_on (CHR ''/'') s)
      in if parts = [] then [] else last parts)"

definition addon_url_ok :: "string \<Rightarrow> split_url \<Rightarrow> bool" where
  "addon_url_ok version parts \<longleftrightarrow>
     url_scheme parts = ''https'' \<and> url_netloc parts \<noteq> [] \<and> url_query parts = [] \<and> url_fragment parts = []
     \<and> ends_with ''.xpi'' (url_path parts) \<and> contains version (path_name (url_path parts))"

definition bad_addon_url :: "string \<Rightarrow> string \<Rightarrow> exn" where
  "bad_addon_url name version =
     ValueError (''Camoufox addon '' @ name @ '' must use an https .xpi URL naming version '' @ version)"

definition load_addon_pin :: "string \<Rightarrow> py_val \<Rightarrow> exn + addon_pin" where
  "load_addon_pin name pin =
     (if \<not> addon_name_ok name then Inl (ValueError (''Invalid Camoufox addon name: '' @ name))
      else case pin of
        PyDict d \<Rightarrow>
          (case dget d ''version'' of
             PyStr version \<Rightarrow>
               if \<not> addon_version_ok version
               then Inl (ValueError (''Camoufox addon '' @ name @ '' must pin a version''))
               else (case dget d ''digest'' of
                 PyStr digest \<Rightarrow>
                   if \<not> is_sha256_digest digest
                   then Inl (ValueError (''Camoufox addon '' @ name @ '' must pin a sha256 digest''))
                   else (case dget d ''url'' of
                     PyStr url \<Rightarrow>
                       (case urlsplit url of
                          Inl e \<Rightarrow> Inl e
                        | Inr parts \<Rightarrow>
                            if addon_url_ok version parts
                            then Inr \<lparr>pin_version = version, pin_url = url, pin_sha256 = drop 7 digest\<rparr>
                            else Inl (bad_addon_url name version))
                   | _ \<Rightarrow> Inl (bad_addon_url name version))
               | _ \<Rightarrow> Inl (ValueError (''Camoufox addon '' @ name @ '' must pin a sha256 digest'')))
           | _ \<Rightarrow> Inl (ValueError (''Camoufox addon '' @ name @ '' must pin a version'')))
      | _ \<Rightarrow> Inl (ValueError (''Camoufox addon '' @ name @ '' pin must be an object'')))"

definition load_artifact :: "string \<Rightarrow> py_val \<Rightarrow> exn + string" where
  "load_artifact name digest = (case digest of
     PyStr d \<Rightarrow>
       if path_name name = name \<and> ends_with ''.zip'' name \<and> is_sha256_digest d then Inr (drop 7 d)
       else Inl (ValueError (''Invalid Camoufox artifact digest entry: '' @ name))
   | _ \<Rightarrow> Inl (ValueError (''Invalid Camoufox artifact digest entry: '' @ name)))"

text \<open>The first failing entry ends the loop.\<close>

fun load_entries :: "(string \<Rightarrow> 'v \<Rightarrow> exn + 'b) \<Rightarrow> (string \<times> 'v) list \<Rightarrow> exn + (string \<times> 'b) list" where
  "load_entries load [] = Inr []"
| "load_entries load ((k, v) # d) = (case load k v of
     Inl e \<Rightarrow> Inl e
   | Inr x \<Rightarrow> (case load_entries load d of Inl e \<Rightarrow> Inl e | Inr d' \<Rightarrow> Inr ((k, x) # d')))"

definition load_artifact_manifest :: "py_val \<Rightarrow> exn + artifact_manifest" where
  "load_artifact_manifest payload = (case payload of
     PyDict d \<Rightarrow>
       if \<not> equals_int (dget d ''version'') 2
       then Inl (ValueError ''Camoufox artifact digest file must use schema version 2'')
       else (case dget d ''release_tag'' of
         PyStr tag \<Rightarrow>
           if \<not> release_tag_ok tag
           then Inl (ValueError ''Camoufox artifact digest file must contain a valid release_tag'')
           else (case dget d ''artifacts'' of
             PyDict entries \<Rightarrow>
               if entries = []
               then Inl (ValueError ''Camoufox artifact digest file must contain pinned artifacts'')
               else (case load_entries load_artifact entries of
                 Inl e \<Rightarrow> Inl e
               | Inr digests \<Rightarrow>
                   (case dget d ''addons'' of
                      PyDict pins \<Rightarrow>
                        (case load_entries load_addon_pin pins of
                           Inl e \<Rightarrow> Inl e
                         | Inr loaded \<Rightarrow> Inr \<lparr>release_tag = tag, artifacts = digests, addons = loaded\<rparr>)
                    | _ \<Rightarrow> Inl (ValueError ''Camoufox artifact digest file must contain an addons object'')))
           | _ \<Rightarrow> Inl (ValueError ''Camoufox artifact digest file must contain pinned artifacts''))
       | _ \<Rightarrow> Inl (ValueError ''Camoufox artifact digest file must contain a valid release_tag''))
   | _ \<Rightarrow> Inl (ValueError ''Camoufox artifact digest file must use schema version 2''))"

definition require_pinned_default_addons :: "(string \<times> addon_pin) list \<Rightarrow> string list \<Rightarrow> exn + unit" where
  "require_pinned_default_addons pins defaults =
     (if set (map fst pins) = set defaults then Inr ()
      else Inl (ValueError ''Camoufox addon pins must match the library's default addons exactly''))"

section \<open>Release metadata\<close>

definition releases_of :: "py_val \<Rightarrow> py_val list option" where
  "releases_of payload = (case payload of
     PyDict d \<Rightarrow> Some [payload] | PyList items \<Rightarrow> if list_all is_py_dict items then Some items else None | _ \<Rightarrow> None)"

fun has_tag :: "string \<Rightarrow> py_val \<Rightarrow> bool" where
  "has_tag tag (PyDict d) \<longleftrightarrow> dget d ''tag_name'' = PyStr tag"
| "has_tag tag _ \<longleftrightarrow> False"

definition load_release_metadata :: "py_val \<Rightarrow> string option \<Rightarrow> exn + py_val list" where
  "load_release_metadata payload expected_tag = (case releases_of payload of
     None \<Rightarrow> Inl (ValueError ''Camoufox release metadata must be a JSON object or array of objects'')
   | Some releases \<Rightarrow>
       (case expected_tag of
          None \<Rightarrow> Inr releases
        | Some tag \<Rightarrow>
            if length (filter (has_tag tag) releases) \<noteq> 1
            then Inl (ValueError (''Camoufox release metadata must contain exactly one '' @ tag @ '' release''))
            else Inr (filter (has_tag tag) releases)))"

definition CAMOUFOX_RELEASES_API :: string where
  "CAMOUFOX_RELEASES_API = ''https://api.github.com/repos/daijro/camoufox/releases''"

definition CAMOUFOX_RELEASE_TAGS_API :: string where
  "CAMOUFOX_RELEASE_TAGS_API = CAMOUFOX_RELEASES_API @ ''/tags''"

text \<open>\<open>OwnPayload\<close> is a \<open>_ReleaseMetadataResponse\<close>; what a response of the network answers is \<open>response_calls\<close>.\<close>

datatype 'r metadata_answer = OwnPayload "py_val list" | Fetched 'r

record 'r response_calls =
  fetched_status :: "'r \<Rightarrow> exn + unit"
  fetched_json :: "'r \<Rightarrow> exn + py_val"

fun raise_for_status :: "('r, 'm) response_calls_scheme \<Rightarrow> 'r metadata_answer \<Rightarrow> exn + unit" where
  "raise_for_status net (OwnPayload payload) = Inr ()"
| "raise_for_status net (Fetched r) = fetched_status net r"

fun answer_json :: "('r, 'm) response_calls_scheme \<Rightarrow> 'r metadata_answer \<Rightarrow> exn + py_val" where
  "answer_json net (OwnPayload payload) = Inr (PyList payload)"
| "answer_json net (Fetched r) = fetched_json net r"

type_synonym 'r http_get = "string \<Rightarrow> exn + 'r metadata_answer"

definition exact_release ::
    "('r, 'm) response_calls_scheme \<Rightarrow> 'r http_get \<Rightarrow> string \<Rightarrow> exn + 'r metadata_answer" where
  "exact_release net original_get tag =
     and_then (original_get (CAMOUFOX_RELEASE_TAGS_API @ ''/'' @ quote [] tag)) (\<lambda>response.
     and_then (raise_for_status net response) (\<lambda>_.
     and_then (answer_json net response) (\<lambda>payload.
       if has_tag tag payload then Inr (OwnPayload [payload])
       else Inl (ValueError (''Camoufox release endpoint did not return the pinned '' @ tag @ '' release'')))))"

definition metadata_aware_get ::
    "('r, 'm) response_calls_scheme \<Rightarrow> 'r http_get \<Rightarrow> (string \<times> py_val list) list \<Rightarrow> string option \<Rightarrow> 'r http_get" where
  "metadata_aware_get net original_get metadata tag url =
     (let normalized = rstrip_slashes url in
      case dict_get metadata normalized of
        Some releases \<Rightarrow> Inr (OwnPayload releases)
      | None \<Rightarrow> (case (if normalized = CAMOUFOX_RELEASES_API then tag else None) of
          None \<Rightarrow> original_get url
        | Some t \<Rightarrow> exact_release net original_get t))"

section \<open>Verified downloads\<close>

definition pinned_asset_checker ::
    "(py_dict \<Rightarrow> exn + 'c option) \<Rightarrow> (string \<times> string) list \<Rightarrow> py_dict \<Rightarrow> exn + 'c option" where
  "pinned_asset_checker original_check digests asset = (case dget asset ''name'' of
     PyStr name \<Rightarrow> if dict_get digests name = None then Inr None else original_check asset
   | PyList _ \<Rightarrow> Inl (OtherError ''TypeError'' ''unhashable type'')
   | PyDict _ \<Rightarrow> Inl (OtherError ''TypeError'' ''unhashable type'')
   | _ \<Rightarrow> Inr None)"

definition verify_sha256 :: "('b \<Rightarrow> string) \<Rightarrow> 'b \<Rightarrow> string \<Rightarrow> string \<Rightarrow> exn + unit" where
  "verify_sha256 sha256 buffer expected subject =
     (if sha256 buffer = expected then Inr ()
      else Inl (RuntimeError (subject @ '' digest mismatch: expected sha256:'' @ expected @ '', got sha256:'' @ sha256 buffer)))"

definition digest_verifying_download ::
    "('b \<Rightarrow> string) \<Rightarrow> (string \<Rightarrow> exn + 'b) \<Rightarrow> (string \<times> string) list \<Rightarrow> string \<Rightarrow> exn + 'b" where
  "digest_verifying_download sha256 original_download digests url = (case urlsplit url of
     Inl e \<Rightarrow> Inl e
   | Inr parts \<Rightarrow>
       let name = path_name (url_path parts) in
       (case dict_get digests name of
          None \<Rightarrow> Inl (RuntimeError (''Camoufox artifact is not pinned: '' @ name))
        | Some expected \<Rightarrow>
            (case original_download url of
               Inl e \<Rightarrow> Inl e
             | Inr buffer \<Rightarrow>
                 (case verify_sha256 sha256 buffer expected (''Camoufox artifact '' @ name) of
                    Inl e \<Rightarrow> Inl e | Inr _ \<Rightarrow> Inr buffer))))"

section \<open>Replacing an add-on\<close>

definition from_sum :: "'e + 'a \<Rightarrow> ('s, 'a, 'e) prog" where
  "from_sum r = (\<lambda>s. (r, s))"

text \<open>The tree at the destination and the staging directory beside it.\<close>

record 'f addon_dirs =
  installed :: "'f option"
  staged :: "'f option"

type_synonym ('f, 'a) install_prog = "('f addon_dirs, 'a, exn) prog"

text \<open>What the calls do that may fail: \<open>make_staging\<close> is \<open>mkdir\<close> and \<open>mkdtemp\<close>; \<open>unpack\<close> and \<open>remove_tree\<close> say what is
  there afterwards, also when they fail; \<open>discard\<close> is \<open>rmtree\<close> with its errors ignored.\<close>

record ('b, 'f) addon_world =
  make_staging :: "exn + 'f"
  set_mode :: "exn + unit"
  fetch_archive :: "string \<Rightarrow> exn + 'b"
  sha256_of :: "'b \<Rightarrow> string"
  unpack :: "'b \<Rightarrow> 'f \<Rightarrow> (exn + unit) \<times> 'f"
  read_manifest :: "'f \<Rightarrow> exn + py_val"
  remove_tree :: "'f \<Rightarrow> (exn + unit) \<times> 'f option"
  rename_result :: "exn + unit"
  discard :: "'f \<Rightarrow> 'f option"

definition manifest_unreadable :: "exn \<Rightarrow> bool" where
  "manifest_unreadable e \<longleftrightarrow> is_OSError e \<or> (case e of
     ValueError _ \<Rightarrow> True
   | OtherError name _ \<Rightarrow> name \<in> {''FileNotFoundError'', ''PermissionError'', ''IsADirectoryError'', ''NotADirectoryError''}
   | _ \<Rightarrow> False)"

definition extract_archive :: "('b, 'f, 'm) addon_world_scheme \<Rightarrow> 'b \<Rightarrow> ('f, unit) install_prog" where
  "extract_archive w archive = (\<lambda>s. case staged s of
     None \<Rightarrow> (Inl (OtherError ''FileNotFoundError'' []), s)
   | Some tree \<Rightarrow> (case unpack w archive tree of (r, tree') \<Rightarrow> (r, s\<lparr>staged := Some tree'\<rparr>)))"

definition staged_manifest :: "('b, 'f, 'm) addon_world_scheme \<Rightarrow> string \<Rightarrow> ('f, py_val) install_prog" where
  "staged_manifest w subject =
     try_except
       (\<lambda>s. case staged s of
          None \<Rightarrow> (Inl (OtherError ''FileNotFoundError'' []), s) | Some tree \<Rightarrow> (read_manifest w tree, s))
       (\<lambda>e. if manifest_unreadable e
         then raise_exn (RuntimeError (subject @ '' archive has no readable manifest.json'')) else raise_exn e)"

fun has_version :: "string \<Rightarrow> py_val \<Rightarrow> bool" where
  "has_version version (PyDict d) \<longleftrightarrow> dget d ''version'' = PyStr version"
| "has_version version _ \<longleftrightarrow> False"

definition remove_destination :: "('b, 'f, 'm) addon_world_scheme \<Rightarrow> ('f, unit) install_prog" where
  "remove_destination w = (\<lambda>s. case installed s of
     None \<Rightarrow> (Inr (), s)
   | Some tree \<Rightarrow> (case remove_tree w tree of (r, left) \<Rightarrow> (r, s\<lparr>installed := left\<rparr>)))"

definition move_staging :: "('b, 'f, 'm) addon_world_scheme \<Rightarrow> ('f, unit) install_prog" where
  "move_staging w = (\<lambda>s. case rename_result w of
     Inl e \<Rightarrow> (Inl e, s) | Inr _ \<Rightarrow> (Inr (), s\<lparr>installed := staged s, staged := None\<rparr>))"

definition discard_staging :: "('b, 'f, 'm) addon_world_scheme \<Rightarrow> ('f, unit) install_prog" where
  "discard_staging w = modify (\<lambda>s. s\<lparr>staged := (case staged s of None \<Rightarrow> None | Some tree \<Rightarrow> discard w tree)\<rparr>)"

text \<open>Everything before the destination is touched.\<close>

definition stage_addon :: "('b, 'f, 'm) addon_world_scheme \<Rightarrow> addon_pin \<Rightarrow> string \<Rightarrow> ('f, unit) install_prog" where
  "stage_addon w pin subject =
     skip_then (from_sum (set_mode w))
    (seq (from_sum (fetch_archive w (pin_url pin))) (\<lambda>archive.
     skip_then (from_sum (verify_sha256 (sha256_of w) archive (pin_sha256 pin) subject))
    (skip_then (extract_archive w archive)
    (seq (staged_manifest w subject) (\<lambda>manifest.
     unless_raise (has_version (pin_version pin) manifest)
       (RuntimeError (subject @ '' manifest.json declares a different version'')))))))"

definition install_pinned_addon ::
    "('b, 'f, 'm) addon_world_scheme \<Rightarrow> addon_pin \<Rightarrow> string \<Rightarrow> ('f, unit) install_prog" where
  "install_pinned_addon w pin destination_name =
     (let subject = ''Camoufox addon '' @ destination_name @ '' '' @ pin_version pin in
      seq (from_sum (make_staging w)) (\<lambda>tree.
      skip_then (modify (\<lambda>s. s\<lparr>staged := Some tree\<rparr>))
        (try_finally
          (skip_then (stage_addon w pin subject) (skip_then (remove_destination w) (move_staging w)))
          (discard_staging w))))"

section \<open>The whole installation\<close>

record ('r, 'c, 'b, 'f) package_manager =
  requests_get :: "'r http_get"
  check_asset :: "py_dict \<Rightarrow> exn + 'c option"
  download_file :: "string \<Rightarrow> exn + 'b"
  addon_trees :: "string \<Rightarrow> 'f option"

record ('r, 'c, 'b, 'f) fetch_inputs =
  manifest_payload :: py_val
  metadata_payload :: "py_val option"
  default_addons :: "string list"
  network_calls :: "'r response_calls"
  archive_sha256 :: "'b \<Rightarrow> string"
  update_browser :: "(('r, 'c, 'b, 'f) package_manager, unit, exn) prog"
  addon_path_of :: "string \<Rightarrow> (('r, 'c, 'b, 'f) package_manager, string, exn) prog"

definition install_at ::
    "('a, 'f, 'm) addon_world_scheme \<Rightarrow> addon_pin \<Rightarrow> string \<Rightarrow> (('r, 'c, 'b, 'f) package_manager, unit, exn) prog" where
  "install_at w pin path = (\<lambda>s.
     case install_pinned_addon w pin (path_name path) \<lparr>installed = addon_trees s path, staged = None\<rparr> of
       (r, dirs) \<Rightarrow> (r, s\<lparr>addon_trees := (addon_trees s)(path := installed dirs)\<rparr>))"

definition pinned_metadata :: "string \<Rightarrow> py_val option \<Rightarrow> exn + (string \<times> py_val list) list" where
  "pinned_metadata tag payload = (case payload of
     None \<Rightarrow> Inr []
   | Some p \<Rightarrow> and_then (load_release_metadata p (Some tag)) (\<lambda>releases. Inr [(CAMOUFOX_RELEASES_API, releases)]))"

definition patch_downloads ::
    "('r, 'c, 'b, 'f) fetch_inputs \<Rightarrow> artifact_manifest \<Rightarrow> (string \<times> py_val list) list
     \<Rightarrow> ('r, 'c, 'b, 'f) package_manager \<Rightarrow> ('r, 'c, 'b, 'f) package_manager" where
  "patch_downloads i m metadata s =
     s\<lparr>requests_get := metadata_aware_get (network_calls i) (requests_get s) metadata (Some (release_tag m)),
       check_asset := pinned_asset_checker (check_asset s) (artifacts m),
       download_file := digest_verifying_download (archive_sha256 i) (download_file s) (artifacts m)\<rparr>"

definition restore_downloads ::
    "('r, 'c, 'b, 'f) package_manager \<Rightarrow> (('r, 'c, 'b, 'f) package_manager, unit, exn) prog" where
  "restore_downloads before = modify (\<lambda>s. s\<lparr>requests_get := requests_get before, check_asset := check_asset before,
     download_file := download_file before\<rparr>)"

definition fetch_camoufox ::
    "('r, 'c, 'b, 'f) fetch_inputs \<Rightarrow> ('a, 'f, 'm) addon_world_scheme
     \<Rightarrow> (('r, 'c, 'b, 'f) package_manager, unit, exn) prog" where
  "fetch_camoufox i w =
     seq (from_sum (load_artifact_manifest (manifest_payload i))) (\<lambda>m.
     seq (from_sum (pinned_metadata (release_tag m) (metadata_payload i))) (\<lambda>metadata.
     skip_then (from_sum (require_pinned_default_addons (addons m) (default_addons i)))
      (with_state (\<lambda>before.
        skip_then (modify (patch_downloads i m metadata))
          (try_finally
            (skip_then (update_browser i)
              (for_each (\<lambda>(name, pin). seq (addon_path_of i name) (install_at w pin)) (addons m)))
            (restore_downloads before))))))"

section \<open>What is installed was pinned\<close>

lemma load_entries_all:
  "load_entries load d = Inr d' \<Longrightarrow> (k, x) \<in> set d' \<Longrightarrow> \<exists>v. (k, v) \<in> set d \<and> load k v = Inr x"
proof (induction d arbitrary: d')
  case (Cons entry d)
  obtain name v where entry: "entry = (name, v)" by fastforce
  then obtain y rest where loaded: "load name v = Inr y" "load_entries load d = Inr rest" "d' = (name, y) # rest"
    using Cons.prems(1) by (auto split: sum.splits)
  show ?case
    using Cons.prems(2) Cons.IH [OF loaded(2)] loaded entry by fastforce
qed simp

text \<open>A digest of a pin is 64 hexadecimal digits, an artifact a plain \<open>.zip\<close> name.\<close>

lemma load_artifact_ok:
  "load_artifact name v = Inr d \<Longrightarrow> path_name name = name \<and> ends_with ''.zip'' name \<and> is_hex_digest d"
  by (auto simp: load_artifact_def is_sha256_digest_def split: py_val.splits if_splits)

lemma load_addon_pin_ok:
  assumes "load_addon_pin name v = Inr pin"
  shows "is_hex_digest (pin_sha256 pin) \<and>
    (\<exists>parts. urlsplit (pin_url pin) = Inr parts \<and> addon_url_ok (pin_version pin) parts)"
  using assms
  by (auto simp: load_addon_pin_def bad_addon_url_def is_sha256_digest_def split: py_val.splits if_splits sum.splits)

theorem manifest_pins_everything:
  assumes "load_artifact_manifest payload = Inr m"
  shows "artifacts m \<noteq> []"
    and "(name, digest) \<in> set (artifacts m) \<Longrightarrow>
      path_name name = name \<and> ends_with ''.zip'' name \<and> is_hex_digest digest"
    and "(name, pin) \<in> set (addons m) \<Longrightarrow> is_hex_digest (pin_sha256 pin) \<and>
      (\<exists>parts. urlsplit (pin_url pin) = Inr parts \<and> addon_url_ok (pin_version pin) parts)"
proof -
  obtain entries digests pins loaded tag where m: "load_entries load_artifact entries = Inr digests" "entries \<noteq> []"
      "load_entries load_addon_pin pins = Inr loaded" "m = \<lparr>release_tag = tag, artifacts = digests, addons = loaded\<rparr>"
    using assms by (auto simp: load_artifact_manifest_def split: py_val.splits if_splits sum.splits)
  show "artifacts m \<noteq> []"
    using m by (cases entries) (auto split: sum.splits)
  show "(name, digest) \<in> set (artifacts m) \<Longrightarrow>
      path_name name = name \<and> ends_with ''.zip'' name \<and> is_hex_digest digest"
    using load_entries_all [OF m(1), of name digest] load_artifact_ok [of name _ digest] m(4) by fastforce
  show "(name, pin) \<in> set (addons m) \<Longrightarrow> is_hex_digest (pin_sha256 pin) \<and>
      (\<exists>parts. urlsplit (pin_url pin) = Inr parts \<and> addon_url_ok (pin_version pin) parts)"
    using load_entries_all [OF m(3), of name pin] load_addon_pin_ok [of name _ pin] m(4) by fastforce
qed

lemma verified_download:
  assumes "digest_verifying_download sha256 original digests url = Inr buffer"
  shows "\<exists>parts. urlsplit url = Inr parts \<and> dict_get digests (path_name (url_path parts)) = Some (sha256 buffer)"
  using assms
  by (auto simp: digest_verifying_download_def verify_sha256_def Let_def split: sum.splits option.splits if_splits)

lemmas install_steps = seq_apply skip_then_apply from_sum_def modify_def unless_raise_def ret_def raise_exn_def

text \<open>Staging keeps what is installed.\<close>

lemma stage_keeps_installed: "installed (snd (stage_addon w pin subject s)) = installed s"
  by (auto simp: stage_addon_def install_steps extract_archive_def staged_manifest_def try_except_def
      split: sum.split option.split prod.split)

text \<open>A staged add-on is the archive with the pinned digest, and its manifest names the pinned version.\<close>

definition pinned_tree :: "('b, 'f, 'm) addon_world_scheme \<Rightarrow> addon_pin \<Rightarrow> 'f \<Rightarrow> bool" where
  "pinned_tree w pin tree \<longleftrightarrow>
     (\<exists>archive empty_tree manifest. fetch_archive w (pin_url pin) = Inr archive \<and> sha256_of w archive = pin_sha256 pin
        \<and> unpack w archive empty_tree = (Inr (), tree) \<and> read_manifest w tree = Inr manifest
        \<and> has_version (pin_version pin) manifest)"

lemma stage_addon_verified:
  assumes "stage_addon w pin subject s = (Inr (), s')"
  shows "\<exists>tree. staged s' = Some tree \<and> pinned_tree w pin tree"
  using assms
  by (fastforce simp: stage_addon_def install_steps extract_archive_def staged_manifest_def try_except_def
      verify_sha256_def pinned_tree_def split: sum.splits option.splits prod.splits if_splits)

text \<open>An installation that returns has put a pinned tree at the destination.\<close>

theorem installed_addon_is_pinned:
  assumes "install_pinned_addon w pin name s = (Inr (), s')"
  shows "\<exists>tree. installed s' = Some tree \<and> pinned_tree w pin tree"
proof -
  let ?subject = "''Camoufox addon '' @ name @ '' '' @ pin_version pin"
  obtain tree0 s1 s2 where steps: "stage_addon w pin ?subject (s\<lparr>staged := Some tree0\<rparr>) = (Inr (), s1)"
      "remove_destination w s1 = (Inr (), s2)" "installed s' = staged s2"
    using assms
    by (auto simp: install_pinned_addon_def Let_def install_steps try_finally_def move_staging_def discard_staging_def
        split: sum.splits prod.splits)
  moreover have "staged s2 = staged s1"
    using steps(2) by (auto simp: remove_destination_def split: option.splits prod.splits)
  ultimately show ?thesis using stage_addon_verified by metis
qed

text \<open>One that fails has left the destination as it was, unless it failed while replacing it.\<close>

theorem failed_install_keeps_addon:
  assumes "install_pinned_addon w pin name s = (Inl e, s')" and "installed s' \<noteq> installed s"
  shows "\<exists>tree. installed s = Some tree \<and> (fst (remove_tree w tree) = Inl e \<or> rename_result w = Inl e)"
proof -
  let ?subject = "''Camoufox addon '' @ name @ '' '' @ pin_version pin"
  obtain tree0 where "make_staging w = Inr tree0"
    using assms by (cases "make_staging w") (auto simp: install_pinned_addon_def Let_def install_steps)
  moreover obtain r s1 where staging: "stage_addon w pin ?subject (s\<lparr>staged := Some tree0\<rparr>) = (r, s1)" by fastforce
  moreover have "installed s1 = installed s"
    using stage_keeps_installed [of w pin ?subject "s\<lparr>staged := Some tree0\<rparr>"] staging by simp
  ultimately show ?thesis
    using assms
    by (auto simp: install_pinned_addon_def Let_def install_steps try_finally_def move_staging_def discard_staging_def
        remove_destination_def split: sum.splits prod.splits option.splits)
qed

text \<open>In that case the old add-on can be gone: the docstring promises a destination left untouched on failure.\<close>

definition refused_rename :: "(string, string) addon_world" where
  "refused_rename = \<lparr>make_staging = Inr [], set_mode = Inr (), fetch_archive = (\<lambda>url. Inr ''new''),
     sha256_of = id, unpack = (\<lambda>archive tree. (Inr (), archive)),
     read_manifest = (\<lambda>tree. Inr (PyDict [(''version'', PyStr ''2'')])), remove_tree = (\<lambda>tree. (Inr (), None)),
     rename_result = Inl (OtherError ''OSError'' ''rename failed''), discard = (\<lambda>tree. None)\<rparr>"

lemma failed_replace_loses_addon:
  "install_pinned_addon refused_rename \<lparr>pin_version = ''2'', pin_url = ''https://a/b-2.xpi'', pin_sha256 = ''new''\<rparr> ''UBO''
     \<lparr>installed = Some ''old'', staged = None\<rparr>
   = (Inl (OtherError ''OSError'' ''rename failed''), \<lparr>installed = None, staged = None\<rparr>)"
  by code_simp

text \<open>However the installation ends, the package manager has its own functions back.\<close>

theorem downloads_restored:
  assumes "fetch_camoufox i w s = (r, s')"
  shows "requests_get s' = requests_get s \<and> check_asset s' = check_asset s \<and> download_file s' = download_file s"
  using assms
  by (auto simp: fetch_camoufox_def install_steps with_state_def try_finally_def restore_downloads_def
      split: sum.splits prod.splits)

text \<open>Applied to the manifest of one add-on, over an update that replaces the functions itself.\<close>

definition demo_fetch :: "(unit, unit, string, string) fetch_inputs" where
  "demo_fetch = \<lparr>
     manifest_payload = PyDict [(''version'', PyInt 2), (''release_tag'', PyStr ''v1''),
       (''artifacts'', PyDict [(''a.zip'', PyStr digest_of_zeros)]),
       (''addons'', PyDict [(''UBO'', PyDict [(''version'', PyStr ''2''), (''url'', PyStr ''https://a/b-2.xpi''),
          (''digest'', PyStr digest_of_zeros)])])],
     metadata_payload = None, default_addons = [''UBO''],
     network_calls = \<lparr>fetched_status = (\<lambda>_. Inr ()), fetched_json = (\<lambda>_. Inr PyNone)\<rparr>,
     archive_sha256 = (\<lambda>_. replicate 64 (CHR ''0'')),
     update_browser = modify (download_file_update (\<lambda>f url. Inl (RuntimeError ''replaced''))),
     addon_path_of = (\<lambda>name. ret (''/addons/'' @ name))\<rparr>"

definition demo_manager :: "(unit, unit, string, string) package_manager" where
  "demo_manager = \<lparr>requests_get = (\<lambda>url. Inr (OwnPayload [])), check_asset = (\<lambda>asset. Inr None),
     download_file = Inr, addon_trees = (\<lambda>path. None)\<rparr>"

lemma demo_fetch_installs:
  "(case fetch_camoufox demo_fetch (refused_rename\<lparr>rename_result := Inr (), sha256_of := (\<lambda>_. replicate 64 (CHR ''0''))\<rparr>)
     demo_manager of (r, s) \<Rightarrow> (r, addon_trees s ''/addons/UBO'', download_file s ''x'')) = (Inr (), Some ''new'', Inr ''x'')"
  by code_simp

end
