(* ===== verification/Spec2Isabelle.thy ===== *)
theory Spec2Isabelle
  imports Pool_Properties Session_Properties Config_Properties Model_Properties Access_Properties Http_Properties Http_Capacity Solver_Properties Challenge_Properties
    Bridge_Properties Command_Resources Session_Refinement Cleanup_Properties Log_Properties
    Cookie_Properties Http_Decoders Http_Hops Runtime Metrics Browser Edge Pool_Close Bridge_Lifecycle
    Artifacts
begin

text \<open>
  Camouflare is a browser service: a client posts a command to \<open>/v1\<close>, and the service answers with the
  document, the cookies and the status a target gives to a Camoufox browser or to a plain HTTP client.
  This development models the Python program under \<open>src/camouflare\<close>; names of files below are relative
  to that directory, those of the release tools to \<open>src/scripts\<close>.

  \<^bold>\<open>How a request runs.\<close>  \<open>app.py\<close> admits the request, reads its body, validates it (\<open>models.py\<close>,
  \<open>cookie_policy.py\<close>) against the settings (\<open>config.py\<close>) and hands it to \<open>commands.py\<close>.  A session command
  works on the registry (\<open>sessions.py\<close>); a request goes to a session's browser context, to a context leased
  from the pool (\<open>pool.py\<close>), or, without a browser, to the HTTP transport (\<open>http_transport.py\<close>).  In the browser,
  \<open>solver.py\<close> drives the page: \<open>navigation.py\<close> reaches the target, \<open>challenge.py\<close> judges and waits for challenges,
  \<open>solution.py\<close> collects the result.  A proxy with credentials is reached through a local bridge (\<open>proxy.py\<close>).
  Whatever must be closed later is owned by the supervisor of \<open>cleanup.py\<close>; \<open>runtime.py\<close> starts and stops the
  whole; \<open>metrics.py\<close> and \<open>observability.py\<close> count and log.

  \<^bold>\<open>How the model is made.\<close>  Pure functions are HOL functions.  Code with effects is a \<open>prog\<close> (\<open>Prelude\<close>): a
  function of the state to an outcome, an exception or a value, and the new state; sequencing, \<open>try/except\<close>,
  \<open>finally\<close> and loops have their combinators and the predicate \<open>keeps\<close> carries invariants through them.  A
  coroutine is cut at its awaits into sections that run to completion; a component shared by many requests
  is a step relation of which every section is a step, so any interleaving is a run.  Exceptions are values of
  \<open>exn\<close> (\<open>Errors\<close>), of which only \<open>CancelledError\<close> is no \<open>Exception\<close>.  Times are integers of microseconds, bytes and
  texts are character lists (so no character is above 255), Python dictionaries are association lists in
  insertion order, addresses are words of 32 and 128 bits.

  \<^bold>\<open>Theories and sources.\<close>
  \<^item> \<open>Prelude\<close>: effectful programs, reachability and the locale \<open>invariant_machine\<close>, sets, dictionaries, texts.
  \<^item> \<open>Errors\<close>: JSON values, public errors and exceptions, limits and the timer (\<open>errors.py\<close>, \<open>limits.py\<close>, \<open>timer.py\<close>).
  \<^item> \<open>Urls\<close>, \<open>Addresses\<close>: the parts of \<open>urllib.parse\<close>, \<open>ipaddress\<close> and \<open>codecs\<close> the program uses.
  \<^item> \<open>Config\<close>, \<open>Config_Properties\<close>: the settings and the proxy normaliser (\<open>config.py\<close>).
  \<^item> \<open>Cookie_Policy\<close>, \<open>Models\<close>, \<open>Model_Properties\<close>: public suffixes, the request with its validators and the response
    envelope (\<open>cookie_policy.py\<close>, \<open>models.py\<close>).
  \<^item> \<open>Access\<close>, \<open>Access_Properties\<close>, \<open>Edge\<close>: the access gate, body reading, error envelopes, readiness and diagnostics;
    the middleware and the deadline of the readiness probe (\<open>app.py\<close>).
  \<^item> \<open>Pool\<close>, \<open>Pool_Operations\<close>, \<open>Pool_Lifecycle\<close>, \<open>Pool_Close\<close>: the browser pool, one definition per method
    (\<open>pool.py\<close>); \<open>Pool_Accounting\<close>, \<open>Pool_Structure\<close>, \<open>Pool_Sections\<close>, \<open>Pool_Invariant\<close> and \<open>Pool_Properties\<close> prove it.
  \<^item> \<open>Sessions\<close>, \<open>Session_Registry\<close>, \<open>Session_Refinement\<close>, \<open>Session_Properties\<close>: the registry, the contract of its
    operations as the locale \<open>session_registry\<close>, and the abstract table it refines (\<open>sessions.py\<close>).
  \<^item> \<open>Cleanup\<close>, \<open>Cleanup_Properties\<close>: ownership groups, deadlines, holds and closing (\<open>cleanup.py\<close>).
  \<^item> \<open>Http_Rules\<close>, \<open>Http_Fetch\<close>, \<open>Http_Hops\<close>, \<open>Http_Cookies\<close>, \<open>Http_Decoders\<close>, \<open>Http_Capacity\<close>, \<open>Http_Properties\<close>,
    \<open>Cookie_Properties\<close>: the HTTP transport: its rules, the redirect loop, one hop, the cookies, the decoders, the
    bounded slots (\<open>http_transport.py\<close>).
  \<^item> \<open>Page\<close>, \<open>Collection\<close>, \<open>Challenge\<close>, \<open>Navigation\<close>, \<open>Solver\<close>, \<open>Solver_History\<close>, \<open>Solver_Properties\<close>,
    \<open>Challenge_Properties\<close>: solving on a page (\<open>solution.py\<close>, \<open>challenge.py\<close>, \<open>navigation.py\<close>, \<open>solver.py\<close>).
  \<^item> \<open>Command_Rules\<close>, \<open>Commands\<close>, \<open>Command_History\<close>, \<open>Command_Properties\<close>, \<open>Command_Resources\<close>: the command service
    (\<open>commands.py\<close>).
  \<^item> \<open>Socks_Bridge\<close>, \<open>Bridge_Properties\<close>, \<open>Bridge_Lifecycle\<close>: the handshake of one client, the life of the bridge, the
    two directions of a tunnel, and the proxy lease (\<open>proxy.py\<close>).
  \<^item> \<open>Runtime\<close>: the ordered shutdown and the lifespan (\<open>runtime.py\<close>).  \<open>Browser\<close>: the browser handle, the start-up checks
    and patches, the launch and the captcha bracket (\<open>browser.py\<close>, \<open>captcha.py\<close>).
  \<^item> \<open>Metrics\<close>: collectors and hooks (\<open>metrics.py\<close>).  \<open>Observability\<close>, \<open>Log_Properties\<close>: redaction and what the
    formatters write (\<open>observability.py\<close>).
  \<^item> \<open>Release\<close>: registry inspection, mirroring, the changelog check (\<open>check_release_destinations.py\<close>,
    \<open>mirror_release_image.py\<close>, \<open>verify_release.py\<close>).  \<open>Artifacts\<close>: the pinned browser and add-ons
    (\<open>fetch_camoufox.py\<close>).

  \<^bold>\<open>What is proved.\<close>
  \<^item> Pool: in every reachable state the counters equal the reservations and leases, the physical ceiling and the
    persistent headroom hold, no busy browser is closed, and no section fails on its own accounting.
  \<^item> Registry: its capacity counts live, pending and closing sessions, and it refines a table of ids with tombstones.
  \<^item> Cleanup: waiters of a group are woken, ownership and deadlines are exact; one double report is exhibited.
  \<^item> Commands and solver: the transport a request names is the one used, nothing acquired is left behind on
    any way out, a POST is sent at most once and never offered for a retry afterwards, an \<open>ok\<close> document is clear.
  \<^item> HTTP transport: connections and every hop stay public and checked, bound headers stay with their origin,
    cookies obey the browser rules, bodies and decoders are bounded and return, slots are conserved and waiters served.
  \<^item> Edge, settings, models: a server without a token is local, the gate admits exactly its token, every failure has
    its envelope, loaded settings are consistent, accepted cookies are safe and stable, proxies normalise once.
  \<^item> Shutdown reaches every phase by its deadline; metric labels stay in fixed sets; logs depend on no secret.
  \<^item> Mirroring moves no tag but \<open>latest\<close>; an add-on that was installed has the pinned digest and version, and the
    package manager gets its functions back.

  \<^bold>\<open>Interfaces.\<close>  \<open>invariant_machine\<close> is the contract of a component whose sections keep an invariant; it is
  interpreted for the pool, the registry, the cleanup supervisor, the slots of the HTTP transport, the bridge
  and the browser handle.  \<open>session_registry\<close> states what the commands rely on in the registry and is interpreted
  on its operations.  \<open>scoped_store\<close> is the contract of a store whose entries know their scope, where setting and
  clearing touch that scope only; it is interpreted on the cookie jar.

  \<^bold>\<open>Parameters.\<close>  Code outside the repository is an argument: \<open>externals\<close> (IDNA, the public suffix list, the size
  of a JSON dump), \<open>browser_world\<close> and \<open>solve_env\<close> (page, context, provider), \<open>command_world\<close> (awaits of a command and
  the sections other requests run meanwhile), \<open>bridge_world\<close> (the two sockets), \<open>http_world\<close> (answers, clock, jar),
  \<open>zlib\<close>, \<open>shutdown_world\<close>, \<open>registry_world\<close>, \<open>addon_world\<close>, the text codecs, and what asyncio reports of a task.  What a theorem needs of them is a
  named hypothesis, such as \<open>zlib_contract\<close> or \<open>prompt_world\<close>, and each has a witness on a concrete instance.

  \<^bold>\<open>Fuel.\<close>  The inner loop of a body decoder runs for \<open>turns\<close> turns, each of which checks the deadline: running out
  is the deadline.  The gzip loop runs for twice the input plus two turns, which \<open>decoder_call_returns\<close> shows
  to be enough.  All other loops recurse structurally or by a proved measure.

  \<^bold>\<open>Not modelled.\<close>  \<open>documentation.py\<close> is static OpenAPI text; \<open>asgi.py\<close>, \<open>__main__.py\<close> and \<open>smoke_browser.py\<close> build
  objects and call libraries; the other scripts under \<open>src/scripts\<close> are benchmarks, size reports and the rendering
  of the scanner allowlist.  Of the modelled
  files the following is left out: routing and JSON rendering (FastAPI, pydantic), the registration in and
  rendering by the Prometheus client, the handlers of the logging package, log records except what the
  formatters make of them, the connection pools of httpcore, the scripts evaluated inside the browser, and the
  launch options of Camoufox.  They are library calls, or texts without behaviour of their own.
\<close>

end
